(* ===== verification/Json.thy ===== *)
theory Json
  imports Prelude
begin

text \<open>
  The part of Go's \<open>encoding/json\<close> the gateway relies on. \<open>json\<close> is a decoded document;
  an object keeps its members in document order, and a lookup in the decoded Go map sees
  the last member with the key. A number is kept as the text \<open>encoding/json\<close> prints for
  the \<open>float64\<close> it decodes to, since no operation of the gateway computes with it.

  \<open>raw\<close> is a \<open>json.RawMessage\<close>: nil (or empty), bytes that are no JSON document, or the
  document the bytes stand for. A member whose value is JSON \<open>null\<close> gives \<open>RawJson JNull\<close>,
  not nil: \<open>RawMessage\<close> has its own \<open>UnmarshalJSON\<close>, which is called for \<open>null\<close> too.
\<close>

datatype json =
    JNull
  | JBool bool
  | JNum string
  | JStr string
  | JArr "json list"
  | JObj "(string \<times> json) list"

datatype raw = RawNil | RawInvalid | RawJson json

definition raw_len0 :: "raw \<Rightarrow> bool" where
  "raw_len0 r = (r = RawNil)"

lemma raw_len0_simps [simp]:
  "raw_len0 RawNil" "\<not> raw_len0 RawInvalid" "\<not> raw_len0 (RawJson j)"
  by (simp_all add: raw_len0_def)

subsection \<open>Decoding into Go values\<close>

type_synonym jmap = "(string \<times> json) list"

definition jget :: "jmap \<Rightarrow> string \<Rightarrow> json option" where
  "jget m k = map_of (rev m) k"

lemma jget_Nil [simp]: "jget [] k = None"
  by (simp add: jget_def)

lemma jget_single [simp]: "jget [(a, v)] k = (if k = a then Some v else None)"
  by (simp add: jget_def)

text \<open>\<open>v, ok := m[k].(string)\<close> and the same for an object.\<close>

definition jget_str :: "jmap \<Rightarrow> string \<Rightarrow> string option" where
  "jget_str m k = (case jget m k of Some (JStr s) \<Rightarrow> Some s | _ \<Rightarrow> None)"

definition jget_obj :: "jmap \<Rightarrow> string \<Rightarrow> jmap option" where
  "jget_obj m k = (case jget m k of Some (JObj o') \<Rightarrow> Some o' | _ \<Rightarrow> None)"

definition jget_arr :: "jmap \<Rightarrow> string \<Rightarrow> json list option" where
  "jget_arr m k = (case jget m k of Some (JArr a) \<Rightarrow> Some a | _ \<Rightarrow> None)"

text \<open>
  \<open>json.Unmarshal\<close> into a \<open>string\<close>: a JSON \<open>null\<close> is accepted and leaves the empty string.
\<close>

fun unmarshal_string :: "raw \<Rightarrow> string option" where
  "unmarshal_string (RawJson (JStr s)) = Some s"
| "unmarshal_string (RawJson JNull) = Some []"
| "unmarshal_string _ = None"

text \<open>
  \<open>json.Unmarshal\<close> into \<open>[]map[string]interface{}\<close>: \<open>null\<close> gives the nil slice, a
  \<open>null\<close> element the nil map, any other element that is no object is an error.
\<close>

fun as_map :: "json \<Rightarrow> jmap option" where
  "as_map (JObj m) = Some m"
| "as_map JNull = Some []"
| "as_map _ = None"

fun all_some :: "'a option list \<Rightarrow> 'a list option" where
  "all_some [] = Some []"
| "all_some (None # xs) = None"
| "all_some (Some x # xs) = map_option (Cons x) (all_some xs)"

fun unmarshal_maps :: "raw \<Rightarrow> jmap list option" where
  "unmarshal_maps (RawJson (JArr xs)) = all_some (map as_map xs)"
| "unmarshal_maps (RawJson JNull) = Some []"
| "unmarshal_maps _ = None"

lemma all_some_Some: "all_some xs = Some ys \<longleftrightarrow> xs = map Some ys"
proof (induction xs arbitrary: ys)
  case (Cons a xs)
  then show ?case by (cases a; cases ys) auto
qed auto

text \<open>
  A string field of a struct: members are matched to the field without regard to (ASCII)
  case, in document order; \<open>null\<close> leaves the field as it is; another type is an error.
  \<open>None\<close> is that error.
\<close>

fun struct_string_field :: "string \<Rightarrow> jmap \<Rightarrow> string \<Rightarrow> string option" where
  "struct_string_field name [] acc = Some acc"
| "struct_string_field name ((k, v) # kvs) acc =
     (if to_lower k = name
      then (case v of
              JStr s \<Rightarrow> struct_string_field name kvs s
            | JNull \<Rightarrow> struct_string_field name kvs acc
            | _ \<Rightarrow> None)
      else struct_string_field name kvs acc)"

subsection \<open>Encoding\<close>

definition hex_digit :: "nat \<Rightarrow> char" where
  "hex_digit n = (if n < 10 then char_of (48 + n) else char_of (87 + n))"

definition u00 :: "nat \<Rightarrow> string" where
  "u00 n = [CHR 0x5C, CHR ''u'', CHR ''0'', CHR ''0'', hex_digit (n div 16), hex_digit (n mod 16)]"

text \<open>
  One byte of a string as \<open>json.Marshal\<close> writes it (HTML escaping on). Strings decoded
  from JSON are valid UTF-8, so bytes from 128 up are copied.
\<close>

definition enc_char :: "char \<Rightarrow> string" where
  "enc_char c =
     (let n = of_char c :: nat in
      if n = 34 then [CHR 0x5C, CHR 0x22]
      else if n = 92 then [CHR 0x5C, CHR 0x5C]
      else if n = 8 then [CHR 0x5C, CHR ''b'']
      else if n = 12 then [CHR 0x5C, CHR ''f'']
      else if n = 10 then [CHR 0x5C, CHR ''n'']
      else if n = 13 then [CHR 0x5C, CHR ''r'']
      else if n = 9 then [CHR 0x5C, CHR ''t'']
      else if n < 32 \<or> n = 38 \<or> n = 60 \<or> n = 62 then u00 n
      else [c])"

text \<open>U+2028 and U+2029 (bytes E2 80 A8 and E2 80 A9) are escaped as well.\<close>

fun enc_chars :: "string \<Rightarrow> string" where
  "enc_chars (a # b # c # s) =
     (if a = CHR 0xE2 \<and> b = CHR 0x80 \<and> c = CHR 0xA8 then CHR 0x5C # ''u2028'' @ enc_chars s
      else if a = CHR 0xE2 \<and> b = CHR 0x80 \<and> c = CHR 0xA9 then CHR 0x5C # ''u2029'' @ enc_chars s
      else enc_char a @ enc_chars (b # c # s))"
| "enc_chars (a # s) = enc_char a @ enc_chars s"
| "enc_chars [] = []"

definition enc_string :: "string \<Rightarrow> string" where
  "enc_string s = [CHR 0x22] @ enc_chars s @ [CHR 0x22]"

text \<open>A Go map is written with its keys sorted bytewise, each once.\<close>

definition sort_members :: "(string \<times> 'a) list \<Rightarrow> (string \<times> 'a) list" where
  "sort_members kvs =
     map (\<lambda>k. (k, the (map_of (rev kvs) k))) (sort (remdups (map fst kvs)))"

fun json_encode :: "json \<Rightarrow> string" where
  "json_encode JNull = ''null''"
| "json_encode (JBool b) = (if b then ''true'' else ''false'')"
| "json_encode (JNum s) = s"
| "json_encode (JStr s) = enc_string s"
| "json_encode (JArr xs) = ''['' @ join_with '','' (map json_encode xs) @ '']''"
| "json_encode (JObj kvs) =
     ''{'' @ join_with '',''
        (map (\<lambda>(k, s). enc_string k @ '':'' @ s)
           (sort_members (map (\<lambda>(k, v). (k, json_encode v)) kvs))) @ ''}''"

lemma sorted_sort_members: "sorted (map fst (sort_members kvs))"
  by (simp add: sort_members_def comp_def)

lemma distinct_sort_members: "distinct (map fst (sort_members kvs))"
  by (simp add: sort_members_def comp_def)

lemma sort_members_lookup: "map_of (sort_members kvs) k = map_of (rev kvs) k"
proof (cases "k \<in> set (map fst kvs)")
  case True
  then have "map_of (rev kvs) k \<noteq> None" by (simp add: map_of_eq_None_iff)
  with True show ?thesis
    by (auto simp: sort_members_def map_of_map_restrict restrict_map_def)
next
  case False
  then have "map_of (rev kvs) k = None" by (simp add: map_of_eq_None_iff)
  with False show ?thesis
    by (auto simp: sort_members_def map_of_map_restrict restrict_map_def)
qed

lemma encode_example:
  "json_encode (JObj [(''b'', JNum ''1''), (''a'', JStr ''x<''), (''b'', JNum ''2'')])
   = ''{'' @ enc_string ''a'' @ '':'' @ enc_string ''x<'' @ '','' @ enc_string ''b'' @ '':2}''"
  by code_simp

end
