(* ===== verification/ApiTypes.thy ===== *)
theory ApiTypes
  imports Json
begin

text \<open>
  \<open>internal/api/types.go\<close>: the request and message types of the Open Responses API, and
  the functions over them: parsing of \<open>tool_choice\<close> and \<open>tools\<close>, validation of a request,
  normalisation of its input into provider messages and inheritance of settings from a
  previous request. A record field carries the source's field name behind a short prefix.
\<close>

subsection \<open>Messages\<close>

record content_block =
  cb_type :: string
  cb_text :: string
  cb_refusal :: string
  cb_image_url :: string
  cb_detail :: string
  cb_file_data :: string
  cb_file_url :: string
  cb_filename :: string
  cb_video_url :: string
  cb_encrypted_content :: string
  cb_signature :: string
  cb_data :: string

definition zero_block :: content_block where
  "zero_block = \<lparr>cb_type = [], cb_text = [], cb_refusal = [], cb_image_url = [],
     cb_detail = [], cb_file_data = [], cb_file_url = [], cb_filename = [],
     cb_video_url = [], cb_encrypted_content = [], cb_signature = [], cb_data = []\<rparr>"

definition is_text_type :: "string \<Rightarrow> bool" where
  "is_text_type t = (t = ''text'' \<or> t = ''input_text'' \<or> t = ''output_text'')"

definition TextValue :: "content_block \<Rightarrow> string option" where
  "TextValue b =
     (if is_text_type (cb_type b) then Some (cb_text b)
      else if cb_type b = ''refusal'' then Some (cb_refusal b)
      else None)"

record tool_call =
  tc_id :: string
  tc_name :: string
  tc_arguments :: string

record message =
  msg_role :: string
  msg_content :: "content_block list"
  msg_call_id :: string
  msg_name :: string
  msg_tool_calls :: "tool_call list"

definition new_message :: "string \<Rightarrow> content_block list \<Rightarrow> tool_call list \<Rightarrow> message" where
  "new_message role content tcs =
     \<lparr>msg_role = role, msg_content = content, msg_call_id = [], msg_name = [],
      msg_tool_calls = tcs\<rparr>"

subsection \<open>Requests\<close>

text \<open>
  \<open>InputItem.Output\<close> has type \<open>any\<close>: nil, a \<open>json.RawMessage\<close> set by Go code, or a decoded
  JSON value.
\<close>

datatype go_any = AnyNil | AnyRaw raw | AnyVal json

record input_item =
  it_type :: string
  it_role :: string
  it_content :: raw
  it_id :: string
  it_call_id :: string
  it_name :: string
  it_arguments :: string
  it_output :: go_any
  it_status :: string
  it_summary :: raw
  it_encrypted_content :: string

definition zero_item :: input_item where
  "zero_item = \<lparr>it_type = [], it_role = [], it_content = RawNil, it_id = [], it_call_id = [],
     it_name = [], it_arguments = [], it_output = AnyNil, it_status = [],
     it_summary = RawNil, it_encrypted_content = []\<rparr>"

record input_union =
  in_string :: "string option"
  in_items :: "input_item list option"

definition input_list :: "input_union \<Rightarrow> input_item list" where
  "input_list u = (case in_items u of None \<Rightarrow> [] | Some xs \<Rightarrow> xs)"

record response_request =
  rq_model :: string
  rq_input :: input_union
  rq_instructions :: "string option"
  rq_max_output_tokens :: "int option"
  rq_metadata :: "(string \<times> string) list"
  rq_stream :: bool
  rq_previous_response_id :: "string option"
  rq_temperature :: "float64 option"
  rq_top_p :: "float64 option"
  rq_frequency_penalty :: "float64 option"
  rq_presence_penalty :: "float64 option"
  rq_top_logprobs :: "int option"
  rq_truncation :: "string option"
  rq_tool_choice :: raw
  rq_tools :: raw
  rq_parallel_tool_calls :: "bool option"
  rq_store :: "bool option"
  rq_text :: raw
  rq_reasoning :: raw
  rq_include :: "string list"
  rq_service_tier :: "string option"
  rq_background :: "bool option"
  rq_stream_options :: raw
  rq_max_tool_calls :: "int option"
  rq_provider :: string

definition zero_request :: response_request where
  "zero_request = \<lparr>rq_model = [], rq_input = \<lparr>in_string = None, in_items = None\<rparr>,
     rq_instructions = None, rq_max_output_tokens = None, rq_metadata = [],
     rq_stream = False, rq_previous_response_id = None, rq_temperature = None,
     rq_top_p = None, rq_frequency_penalty = None, rq_presence_penalty = None,
     rq_top_logprobs = None, rq_truncation = None, rq_tool_choice = RawNil,
     rq_tools = RawNil, rq_parallel_tool_calls = None, rq_store = None, rq_text = RawNil,
     rq_reasoning = RawNil, rq_include = [], rq_service_tier = None, rq_background = None,
     rq_stream_options = RawNil, rq_max_tool_calls = None, rq_provider = []\<rparr>"

definition nonempty_ptr :: "string option \<Rightarrow> bool" where
  "nonempty_ptr p = (case p of None \<Rightarrow> False | Some s \<Rightarrow> s \<noteq> [])"

lemma nonempty_ptr_simps [simp]:
  "\<not> nonempty_ptr None" "nonempty_ptr (Some s) \<longleftrightarrow> s \<noteq> []"
  by (simp_all add: nonempty_ptr_def)

subsection \<open>Errors\<close>

datatype api_error =
    RequestNil
  | ModelRequired
  | InputRequired
  | BadTruncation
  | InvalidToolChoice
  | InvalidToolChoiceValue string
  | InvalidToolChoiceFormat
  | FunctionNameRequired
  | AllowedToolsEmpty
  | AllowedToolsEntryNotObject
  | AllowedToolsEntryNoName
  | InvalidTools
  | ToolChoiceNeedsTools
  | UnknownToolChoice string
  | UnknownAllowedTool string
  | UnsupportedMode string
  | ItemReferenceIdRequired
  | ReasoningItemEmpty
  | UnsupportedItemType string
  | PreviousIdRequired

subsection \<open>tool_choice and tools\<close>

record parsed_tool_choice =
  ptc_mode :: string
  ptc_required_tool_name :: string
  ptc_allowed_tools :: "string list"

definition parsed_mode :: "string \<Rightarrow> parsed_tool_choice" where
  "parsed_mode m = \<lparr>ptc_mode = m, ptc_required_tool_name = [], ptc_allowed_tools = []\<rparr>"

definition parseToolChoiceName :: "jmap \<Rightarrow> string" where
  "parseToolChoiceName obj =
     (case jget_str obj ''name'' of
        Some name \<Rightarrow> name
      | None \<Rightarrow>
          (case jget_obj obj ''function'' of
             Some f \<Rightarrow> (case jget_str f ''name'' of Some name \<Rightarrow> name | None \<Rightarrow> [])
           | None \<Rightarrow> []))"

fun parse_allowed_tools :: "json list \<Rightarrow> string list \<Rightarrow> api_error + string list" where
  "parse_allowed_tools [] acc = Inr acc"
| "parse_allowed_tools (rawTool # ts) acc =
     (case rawTool of
        JObj tool \<Rightarrow>
          (let name = parseToolChoiceName tool in
           if name = [] then Inl AllowedToolsEntryNoName
           else parse_allowed_tools ts (insert_key name acc))
      | _ \<Rightarrow> Inl AllowedToolsEntryNotObject)"

definition parse_tool_choice_obj :: "jmap \<Rightarrow> api_error + parsed_tool_choice" where
  "parse_tool_choice_obj obj =
     (let objType = (case jget_str obj ''type'' of Some t \<Rightarrow> t | None \<Rightarrow> []) in
      if objType = ''function'' \<or> objType = ''tool'' then
        (let name = parseToolChoiceName obj in
         if name = [] then Inl FunctionNameRequired
         else Inr \<lparr>ptc_mode = ''function'', ptc_required_tool_name = name,
                   ptc_allowed_tools = []\<rparr>)
      else if objType = ''allowed_tools'' then
        (let tools = (case jget_arr obj ''tools'' of Some ts \<Rightarrow> ts | None \<Rightarrow> []) in
         if tools = [] then Inl AllowedToolsEmpty
         else (case parse_allowed_tools tools [] of
                 Inl e \<Rightarrow> Inl e
               | Inr names \<Rightarrow> Inr \<lparr>ptc_mode = ''allowed_tools'', ptc_required_tool_name = [],
                                  ptc_allowed_tools = names\<rparr>))
      else Inl InvalidToolChoiceFormat)"

text \<open>A nil receiver, like an absent \<open>tool_choice\<close>, parses as \<open>auto\<close>.\<close>

fun ParseToolChoice :: "response_request option \<Rightarrow> api_error + parsed_tool_choice" where
  "ParseToolChoice None = Inr (parsed_mode ''auto'')"
| "ParseToolChoice (Some r) =
     (case rq_tool_choice r of
        RawNil \<Rightarrow> Inr (parsed_mode ''auto'')
      | RawInvalid \<Rightarrow> Inl InvalidToolChoice
      | RawJson (JStr str) \<Rightarrow>
          (if str = ''auto'' \<or> str = ''none'' \<or> str = ''required'' \<or> str = ''any''
           then Inr (parsed_mode str)
           else Inl (InvalidToolChoiceValue str))
      | RawJson (JObj obj) \<Rightarrow> parse_tool_choice_obj obj
      | RawJson _ \<Rightarrow> Inl InvalidToolChoiceFormat)"

fun declared_names :: "jmap list \<Rightarrow> string list \<Rightarrow> string list" where
  "declared_names [] acc = acc"
| "declared_names (t # ts) acc =
     (let name = parseToolChoiceName t in
      declared_names ts (if name \<noteq> [] then insert_key name acc else acc))"

fun DeclaredToolNames :: "response_request option \<Rightarrow> api_error + string list" where
  "DeclaredToolNames None = Inr []"
| "DeclaredToolNames (Some r) =
     (if raw_len0 (rq_tools r) then Inr []
      else case unmarshal_maps (rq_tools r) of
             None \<Rightarrow> Inl InvalidTools
           | Some defs \<Rightarrow> Inr (declared_names defs []))"

subsection \<open>Validation\<close>

fun validate_items :: "input_item list \<Rightarrow> bool \<Rightarrow> api_error + bool" where
  "validate_items [] seen = Inr seen"
| "validate_items (item # items) seen =
     (let t = it_type item in
      if t = [] \<or> t = ''message'' \<or> t = ''function_call'' \<or> t = ''function_call_output''
      then validate_items items seen
      else if t = ''item_reference'' then
        (if it_id item = [] then Inl ItemReferenceIdRequired else validate_items items True)
      else if t = ''reasoning'' then
        (if it_content item = RawNil \<and> it_summary item = RawNil \<and> it_encrypted_content item = []
         then Inl ReasoningItemEmpty
         else validate_items items seen)
      else Inl (UnsupportedItemType t))"

text \<open>
  The block of \<open>Validate\<close> that checks a parsed \<open>tool_choice\<close> against the declared tools;
  \<open>ord\<close> is the order in which Go ranges over the allowed names.
\<close>

definition validate_tool_choice ::
  "(string list \<Rightarrow> string list) \<Rightarrow> response_request \<Rightarrow> parsed_tool_choice \<Rightarrow> api_error option" where
  "validate_tool_choice ord r tc =
     (let mode = ptc_mode tc in
      if mode \<noteq> [] \<and> mode \<noteq> ''auto'' \<and> mode \<noteq> ''none'' then
        (case DeclaredToolNames (Some r) of
           Inl e \<Rightarrow> Some e
         | Inr toolNames \<Rightarrow>
             if toolNames = [] then Some ToolChoiceNeedsTools
             else if mode = ''required'' \<or> mode = ''any'' then None
             else if mode = ''function'' then
               (if ptc_required_tool_name tc \<in> set toolNames then None
                else Some (UnknownToolChoice (ptc_required_tool_name tc)))
             else if mode = ''allowed_tools'' then
               first_some (\<lambda>name. if name \<in> set toolNames then None
                                  else Some (UnknownAllowedTool name))
                 (ord (ptc_allowed_tools tc))
             else Some (UnsupportedMode mode))
      else None)"

fun Validate ::
  "(string list \<Rightarrow> string list) \<Rightarrow> response_request option \<Rightarrow> api_error option" where
  "Validate ord None = Some RequestNil"
| "Validate ord (Some r) =
     (if rq_model r = [] then Some ModelRequired
      else if in_string (rq_input r) = None \<and> input_list (rq_input r) = []
              \<and> \<not> nonempty_ptr (rq_previous_response_id r) then Some InputRequired
      else if rq_truncation r \<noteq> None \<and> rq_truncation r \<noteq> Some ''auto''
              \<and> rq_truncation r \<noteq> Some ''disabled'' then Some BadTruncation
      else case ParseToolChoice (Some r) of
             Inl e \<Rightarrow> Some e
           | Inr tc \<Rightarrow>
               (case validate_tool_choice ord r tc of
                  Some e \<Rightarrow> Some e
                | None \<Rightarrow>
                    (case validate_items (input_list (rq_input r)) False of
                       Inl e \<Rightarrow> Some e
                     | Inr hasItemReference \<Rightarrow>
                         if hasItemReference \<and> \<not> nonempty_ptr (rq_previous_response_id r)
                         then Some PreviousIdRequired else None)))"

subsection \<open>Replay state\<close>

record replay_item =
  ri_id :: string
  ri_output_item_type :: string
  ri_message_index :: int
  ri_message :: "message option"

record replay_state =
  rp_provider :: string
  rp_provider_response_id :: string
  rp_items :: "replay_item list"

subsection \<open>Responses\<close>

text \<open>
  Fields no code of the gateway ever sets are left out: \<open>Annotations\<close> (always the empty list),
  the token details of \<open>Usage\<close> (zero), \<open>IncompleteDetails\<close>, \<open>SafetyIdentifier\<close> and
  \<open>PromptCacheKey\<close> (nil).
\<close>

record content_part =
  cp_type :: string
  cp_text :: string

record output_item =
  oi_id :: string
  oi_type :: string
  oi_status :: string
  oi_role :: string
  oi_content :: "content_part list"
  oi_call_id :: string
  oi_name :: string
  oi_arguments :: string

record usage =
  us_input_tokens :: int
  us_output_tokens :: int
  us_total_tokens :: int

definition zero_usage :: usage where
  "zero_usage = \<lparr>us_input_tokens = 0, us_output_tokens = 0, us_total_tokens = 0\<rparr>"

text \<open>
  \<open>ResponseError\<close>: the message texts are built by \<open>fmt\<close>; here they are values.
\<close>

datatype response_error_text =
    ToolCallWhileNone
  | UndeclaredTool string
  | WrongTool string string
  | DisallowedTool string
  | NoRequiredToolCall
  | NoRequiredTool string
  | BadRequest api_error
  | BreakerOpen
  | ProviderFailure string

record response_error =
  re_type :: string
  re_message :: response_error_text
  re_code :: "string option"
  re_param :: "string option"

record response =
  rsp_id :: string
  rsp_object :: string
  rsp_created_at :: timestamp
  rsp_completed_at :: "timestamp option"
  rsp_status :: string
  rsp_model :: string
  rsp_previous_response_id :: "string option"
  rsp_instructions :: "string option"
  rsp_output :: "output_item list"
  rsp_error :: "response_error option"
  rsp_tools :: raw
  rsp_tool_choice :: raw
  rsp_truncation :: string
  rsp_parallel_tool_calls :: bool
  rsp_text :: raw
  rsp_top_p :: float64
  rsp_presence_penalty :: float64
  rsp_frequency_penalty :: float64
  rsp_top_logprobs :: int
  rsp_temperature :: float64
  rsp_reasoning :: raw
  rsp_usage :: "usage option"
  rsp_max_output_tokens :: "int option"
  rsp_max_tool_calls :: "int option"
  rsp_store :: bool
  rsp_background :: bool
  rsp_service_tier :: string
  rsp_metadata :: "(string \<times> string) list"
  rsp_provider :: string

subsection \<open>Streaming and provider results\<close>

record stream_event =
  ev_type :: string
  ev_sequence_number :: nat
  ev_response :: "response option"
  ev_output_index :: "nat option"
  ev_item :: "output_item option"
  ev_item_id :: string
  ev_content_index :: "nat option"
  ev_part :: "content_part option"
  ev_delta :: string
  ev_text :: string
  ev_arguments :: string

record provider_result =
  pr_id :: string
  pr_model :: string
  pr_text :: string
  pr_usage :: usage
  pr_tool_calls :: "tool_call list"
  pr_replay_message :: "message option"

record tool_call_delta =
  td_index :: int
  td_id :: string
  td_name :: string
  td_arguments :: string

record provider_stream_delta =
  pd_id :: string
  pd_model :: string
  pd_text :: string
  pd_done :: bool
  pd_usage :: "usage option"
  pd_tool_call_delta :: "tool_call_delta option"
  pd_replay_message :: "message option"

definition zero_delta :: provider_stream_delta where
  "zero_delta = \<lparr>pd_id = [], pd_model = [], pd_text = [], pd_done = False, pd_usage = None,
     pd_tool_call_delta = None, pd_replay_message = None\<rparr>"

record model_info =
  mi_id :: string
  mi_provider :: string

end
