(* ===== verification/Principal.thy ===== *)
theory Principal
  imports Json
begin

text \<open>
  \<open>internal/auth/principal.go\<close> and the admin part of \<open>internal/auth/auth.go\<close>: the identity
  extracted from validated JWT claims, the two admin checks the gateway makes, the admin
  middleware and the ownership check on conversations.

  Claims are a decoded JSON object; a claim that Go code stores as a \<open>[]string\<close> is the array
  of those strings, which every function here treats like \<open>[]interface{}\<close> with the same
  elements.
\<close>

record principal =
  p_issuer :: string
  p_subject :: string
  p_tenant_id :: string
  p_roles :: "string list"

record admin_config =
  ac_enabled :: bool
  ac_claim :: string
  ac_allowed_values :: "string list"

subsection \<open>Claims\<close>

definition string_elems :: "json list \<Rightarrow> string list" where
  "string_elems xs = List.map_filter (\<lambda>x. case x of JStr s \<Rightarrow> Some s | _ \<Rightarrow> None) xs"

fun extractStringSlice :: "json \<Rightarrow> string list" where
  "extractStringSlice (JStr s) = [s]"
| "extractStringSlice (JArr xs) = string_elems xs"
| "extractStringSlice _ = []"

definition claim_string :: "jmap \<Rightarrow> string \<Rightarrow> string" where
  "claim_string claims key = (case jget_str claims key of Some s \<Rightarrow> s | None \<Rightarrow> [])"

definition tenant_keys :: "string list" where
  "tenant_keys = [''org_id'', ''tenant_id'', ''tid'']"

definition role_keys :: "string list" where
  "role_keys = [''role'', ''roles'', ''groups'']"

definition getTenantID :: "jmap \<Rightarrow> string" where
  "getTenantID claims =
     (case first_some (\<lambda>key. case jget_str claims key of
                               Some v \<Rightarrow> if v \<noteq> [] then Some v else None
                             | None \<Rightarrow> None) tenant_keys of
        Some v \<Rightarrow> v | None \<Rightarrow> [])"

text \<open>
  The role loop overwrites \<open>p.Roles\<close> with each claim that exists and stops at the first that
  yields a role; \<open>extraRoleClaims\<close> are appended afterwards.
\<close>

fun base_roles :: "jmap \<Rightarrow> string list \<Rightarrow> string list \<Rightarrow> string list" where
  "base_roles claims [] acc = acc"
| "base_roles claims (key # keys) acc =
     (case jget claims key of
        Some r \<Rightarrow>
          (let roles = extractStringSlice r in
           if roles \<noteq> [] then roles else base_roles claims keys roles)
      | None \<Rightarrow> base_roles claims keys acc)"

definition extra_roles :: "jmap \<Rightarrow> string list \<Rightarrow> string list" where
  "extra_roles claims keys =
     concat (map (\<lambda>key. case jget claims key of
                          Some r \<Rightarrow> extractStringSlice r | None \<Rightarrow> []) keys)"

definition PrincipalFromClaims :: "jmap \<Rightarrow> string list \<Rightarrow> principal" where
  "PrincipalFromClaims claims extraRoleClaims =
     \<lparr>p_issuer = claim_string claims ''iss'', p_subject = claim_string claims ''sub'',
      p_tenant_id = getTenantID claims,
      p_roles = base_roles claims role_keys [] @ extra_roles claims extraRoleClaims\<rparr>"

subsection \<open>Admin checks\<close>

definition allowed_values :: "admin_config \<Rightarrow> string list" where
  "allowed_values cfg = (if ac_allowed_values cfg = [] then [''admin''] else ac_allowed_values cfg)"

fun HasAdminRole :: "principal option \<Rightarrow> admin_config \<Rightarrow> bool" where
  "HasAdminRole None cfg = False"
| "HasAdminRole (Some p) cfg =
     (ac_enabled cfg \<and> list_ex (\<lambda>r. r \<in> set (allowed_values cfg)) (p_roles p))"

fun claimHasAllowedValue :: "json option \<Rightarrow> string list \<Rightarrow> bool" where
  "claimHasAllowedValue None vals = False"
| "claimHasAllowedValue (Some (JStr s)) vals = (s \<in> set vals)"
| "claimHasAllowedValue (Some (JArr xs)) vals = list_ex (\<lambda>s. s \<in> set vals) (string_elems xs)"
| "claimHasAllowedValue (Some _) vals = False"

definition hasAdminAccess :: "jmap \<Rightarrow> admin_config \<Rightarrow> bool" where
  "hasAdminAccess claims cfg =
     (if ac_claim cfg \<noteq> [] then claimHasAllowedValue (jget claims (ac_claim cfg)) (allowed_values cfg)
      else list_ex (\<lambda>k. claimHasAllowedValue (jget claims k) (allowed_values cfg)) role_keys)"

text \<open>\<open>AdminMiddleware.Handler\<close>: whether the wrapped handler runs (otherwise 403).\<close>

definition admin_middleware_passes :: "admin_config \<Rightarrow> principal option \<Rightarrow> bool" where
  "admin_middleware_passes cfg p =
     (if \<not> ac_enabled cfg then True
      else if p = None \<or> \<not> HasAdminRole p cfg then False
      else True)"

subsection \<open>Ownership\<close>

fun OwnsConversation :: "principal option \<Rightarrow> string \<Rightarrow> string \<Rightarrow> string \<Rightarrow> bool" where
  "OwnsConversation None ownerIss ownerSub tenantID = False"
| "OwnsConversation (Some p) ownerIss ownerSub tenantID =
     (if p_issuer p \<noteq> ownerIss \<or> p_subject p \<noteq> ownerSub then False
      else if tenantID \<noteq> [] \<and> p_tenant_id p \<noteq> tenantID then False
      else True)"

lemma claimHasAllowedValue_extract:
  "claimHasAllowedValue v vals \<longleftrightarrow>
     (\<exists>j. v = Some j \<and> (\<exists>s \<in> set (extractStringSlice j). s \<in> set vals))"
proof (cases v)
  case (Some j)
  then show ?thesis by (cases j) (auto simp: list_ex_iff)
qed simp

lemma base_roles_from_claim:
  "s \<in> set (base_roles claims keys acc) \<Longrightarrow>
     s \<in> set acc \<or> (\<exists>k \<in> set keys. \<exists>j. jget claims k = Some j \<and> s \<in> set (extractStringSlice j))"
  by (induction claims keys acc rule: base_roles.induct)
     (auto simp: Let_def split: option.splits if_splits)

text \<open>With the default claim configuration (no custom admin claim), the roles the API's
  admin check accepts are always backed by the token: if \<open>HasAdminRole\<close> holds for the principal
  built from the claims, then the claims themselves pass \<open>hasAdminAccess\<close>, the check the login
  and session endpoints report to the UI.\<close>
theorem admin_role_backed_by_claims:
  assumes "HasAdminRole (Some (PrincipalFromClaims claims [])) cfg" and "ac_claim cfg = []"
  shows "ac_enabled cfg \<and> hasAdminAccess claims cfg"
proof -
  from assms obtain s where s: "s \<in> set (base_roles claims role_keys [])"
      "s \<in> set (allowed_values cfg)"
    by (auto simp: PrincipalFromClaims_def extra_roles_def list_ex_iff)
  from base_roles_from_claim [OF s(1)] s(2) assms show ?thesis
    by (auto simp: hasAdminAccess_def claimHasAllowedValue_extract list_ex_iff)
qed

theorem admin_role_backed_by_claims_witness:
  "hasAdminAccess [(''roles'', JArr [JStr ''dev'', JStr ''admin''])]
     \<lparr>ac_enabled = True, ac_claim = [], ac_allowed_values = []\<rparr>"
proof -
  let ?c = "[(''roles'', JArr [JStr ''dev'', JStr ''admin''])]"
  let ?cfg = "\<lparr>ac_enabled = True, ac_claim = [], ac_allowed_values = []\<rparr>"
  have "HasAdminRole (Some (PrincipalFromClaims ?c [])) ?cfg" by code_simp
  from admin_role_backed_by_claims [OF this] show ?thesis by simp
qed

text \<open>The converse fails: the two admin checks disagree. For a token whose \<open>role\<close> claim is
  \<open>user\<close> and whose \<open>groups\<close> claim contains \<open>admin\<close>, \<open>hasAdminAccess\<close> reports an admin, while the
  principal built from the same token stops at the \<open>role\<close> claim and fails \<open>HasAdminRole\<close>, so the
  admin middleware answers 403 to a user the session endpoint calls an admin.\<close>
theorem admin_checks_disagree:
  "\<exists>claims cfg. ac_enabled cfg \<and> ac_claim cfg = [] \<and> hasAdminAccess claims cfg \<and>
     \<not> admin_middleware_passes cfg (Some (PrincipalFromClaims claims []))"
proof -
  let ?c = "[(''role'', JStr ''user''), (''groups'', JArr [JStr ''admin''])]"
  let ?cfg = "\<lparr>ac_enabled = True, ac_claim = [], ac_allowed_values = []\<rparr>"
  have "hasAdminAccess ?c ?cfg" "\<not> admin_middleware_passes ?cfg (Some (PrincipalFromClaims ?c []))"
    by code_simp+
  then show ?thesis by (intro exI [of _ ?c] exI [of _ ?cfg]) simp
qed

text \<open>
  \<open>OwnsConversation\<close> in one equation: identity must match, and the tenant of the conversation,
  where it has one.
\<close>

lemma owns_conversation_iff:
  "OwnsConversation p iss sub tenant \<longleftrightarrow>
     (\<exists>q. p = Some q \<and> p_issuer q = iss \<and> p_subject q = sub \<and>
          (tenant = [] \<or> p_tenant_id q = tenant))"
  by (cases p) auto

end
