(* ===== verification/Http.thy ===== *)
theory Http
  imports Principal
begin

text \<open>
  What the handlers see of an HTTP request and what they answer. The request context is the
  set of values the middlewares put there: the principal and the \<open>authctx\<close> keys
  (\<open>internal/authctx/authctx.go\<close>), each of type \<open>any\<close>.
\<close>

datatype ctx_val = CtxBool bool | CtxStr string | CtxOther

record http_request =
  hr_method :: string
  hr_path :: string
  hr_query :: "(string \<times> string) list"
  hr_principal :: "principal option"
  hr_is_admin :: "ctx_val option"
  hr_user_id :: "ctx_val option"
  hr_owner_iss :: "ctx_val option"
  hr_owner_sub :: "ctx_val option"

definition zero_http :: http_request where
  "zero_http = \<lparr>hr_method = ''GET'', hr_path = [], hr_query = [], hr_principal = None,
     hr_is_admin = None, hr_user_id = None, hr_owner_iss = None, hr_owner_sub = None\<rparr>"

text \<open>\<open>r.URL.Query().Get(key)\<close>: the first value, or the empty string.\<close>

definition query_get :: "http_request \<Rightarrow> string \<Rightarrow> string" where
  "query_get r key = (case map_of (hr_query r) key of Some v \<Rightarrow> v | None \<Rightarrow> [])"

text \<open>What follows the last occurrence of a separator (\<open>strings.LastIndex\<close>).\<close>

fun after_last :: "string \<Rightarrow> string \<Rightarrow> string option" where
  "after_last sep [] = (if sep = [] then Some [] else None)"
| "after_last sep (c # s) =
     (case after_last sep s of
        Some rest \<Rightarrow> Some rest
      | None \<Rightarrow> if has_prefix (c # s) sep then Some (drop (length sep) (c # s)) else None)"

record 'b http_response =
  rs_status :: nat
  rs_body :: 'b

definition reply :: "nat \<Rightarrow> 'b \<Rightarrow> 'b http_response" where
  "reply st b = \<lparr>rs_status = st, rs_body = b\<rparr>"

lemma reply_sel [simp]: "rs_status (reply s b) = s" "rs_body (reply s b) = b"
  by (simp_all add: reply_def)

lemma reply_inject [simp]: "reply s b = reply s' b' \<longleftrightarrow> s = s' \<and> b = b'"
  by (simp add: reply_def)

subsection \<open>Integers\<close>

text \<open>Go's \<open>int\<close> and \<open>int64\<close> on a 64-bit platform.\<close>

definition max_int64 :: int where
  "max_int64 = 9223372036854775807"

definition min_int64 :: int where
  "min_int64 = - 9223372036854775808"

definition wrap64 :: "int \<Rightarrow> int" where
  "wrap64 n = (n + 9223372036854775808) mod 18446744073709551616 - 9223372036854775808"

lemma wrap64_range: "min_int64 \<le> wrap64 n \<and> wrap64 n \<le> max_int64"
  using pos_mod_bound [of "18446744073709551616" "n + 9223372036854775808"]
    pos_mod_sign [of "18446744073709551616" "n + 9223372036854775808"]
  by (auto simp: wrap64_def min_int64_def max_int64_def simp del: pos_mod_bound pos_mod_sign)

lemma wrap64_id: "min_int64 \<le> n \<Longrightarrow> n \<le> max_int64 \<Longrightarrow> wrap64 n = n"
  by (simp add: wrap64_def min_int64_def max_int64_def)

definition digit_val :: "char \<Rightarrow> nat option" where
  "digit_val c = (let n = of_char c :: nat in if 48 \<le> n \<and> n \<le> 57 then Some (n - 48) else None)"

fun digits_val :: "string \<Rightarrow> nat \<Rightarrow> nat option" where
  "digits_val [] acc = Some acc"
| "digits_val (c # s) acc =
     (case digit_val c of None \<Rightarrow> None | Some d \<Rightarrow> digits_val s (10 * acc + d))"

text \<open>
  The value \<open>strconv.Atoi\<close> returns when its error is ignored: 0 on a syntax error, the
  nearest bound of \<open>int64\<close> on a range error.
\<close>

definition atoi_digits :: "bool \<Rightarrow> string \<Rightarrow> int" where
  "atoi_digits neg s =
     (if s = [] then 0
      else case digits_val s 0 of
             None \<Rightarrow> 0
           | Some n \<Rightarrow> if neg then max min_int64 (- int n) else min max_int64 (int n))"

definition Atoi :: "string \<Rightarrow> int" where
  "Atoi s =
     (case s of
        [] \<Rightarrow> 0
      | c # cs \<Rightarrow> if c = CHR ''-'' then atoi_digits True cs
                  else if c = CHR ''+'' then atoi_digits False cs
                  else atoi_digits False s)"

lemma Atoi_example: "Atoi ''42'' = 42" "Atoi ''-7'' = -7" "Atoi ''x'' = 0"
  by code_simp+

subsection \<open>Context values\<close>

text \<open>The \<open>isAdmin\<close> test shared by the conversation, user and usage handlers.\<close>

definition ctx_is_admin :: "http_request \<Rightarrow> bool" where
  "ctx_is_admin r = (hr_is_admin r = Some (CtxBool True))"

definition ctx_string :: "ctx_val option \<Rightarrow> string" where
  "ctx_string v = (case v of Some (CtxStr s) \<Rightarrow> s | _ \<Rightarrow> [])"

end
