(* ===== verification/Conversation.thy ===== *)
theory Conversation
  imports ApiTypes Http
begin

text \<open>
  \<open>internal/conversation\<close>: conversations, the \<open>Store\<close> interface and its two production
  implementations, \<open>SQLStore\<close> (\<open>sql_store.go\<close>) and \<open>NopStore\<close> (\<open>nop_store.go\<close>).

  A database row keeps the columns of table \<open>conversations\<close>. The JSON columns hold the value
  the text decodes to, JSON \<open>null\<close>, or text that does not decode. The SQL statements are
  modelled by what they do to the table; \<open>ss_up\<close> says whether the database answers. \<open>ILIKE\<close>
  is the database's matching operator, a parameter \<open>like\<close> (pattern, value).
\<close>

subsection \<open>Conversations\<close>

record owner_info =
  ow_iss :: string
  ow_sub :: string
  ow_tenant :: string

record conversation =
  cv_id :: string
  cv_messages :: "message list"
  cv_replay :: "replay_state option"
  cv_model :: string
  cv_request :: "response_request option"
  cv_owner_iss :: string
  cv_owner_sub :: string
  cv_tenant_id :: string
  cv_created_at :: timestamp
  cv_updated_at :: timestamp

record list_options =
  lo_page :: int
  lo_limit :: int
  lo_owner_iss :: string
  lo_owner_sub :: string
  lo_tenant_id :: string
  lo_model :: string
  lo_search :: string

record list_result =
  lr_conversations :: "conversation list"
  lr_total :: nat

datatype store_error = DbError | DecodeError

subsection \<open>The Store interface\<close>

text \<open>
  The methods of the Go interface \<open>Store\<close> as a record of functions over the store's state
  \<open>'s\<close>; the clock reading a method takes is an argument.
\<close>

record 's store_ops =
  so_get :: "'s \<Rightarrow> string \<Rightarrow> store_error + conversation option"
  so_create :: "'s \<Rightarrow> timestamp \<Rightarrow> string \<Rightarrow> string \<Rightarrow> message list \<Rightarrow> owner_info \<Rightarrow>
     response_request option \<Rightarrow> replay_state option \<Rightarrow> (store_error + conversation option) \<times> 's"
  so_append :: "'s \<Rightarrow> timestamp \<Rightarrow> string \<Rightarrow> message list \<Rightarrow> (store_error + conversation option) \<times> 's"
  so_delete :: "'s \<Rightarrow> string \<Rightarrow> store_error option \<times> 's"
  so_size :: "'s \<Rightarrow> nat"
  so_list :: "'s \<Rightarrow> list_options \<Rightarrow> store_error + list_result"

subsection \<open>SQLStore\<close>

datatype 'a json_col = ColBad | ColNull | ColVal 'a

record conv_row =
  cr_id :: string
  cr_model :: string
  cr_messages :: "message list json_col"
  cr_request :: "response_request json_col"
  cr_replay :: "replay_state json_col"
  cr_owner_iss :: string
  cr_owner_sub :: string
  cr_tenant_id :: string
  cr_created_at :: timestamp
  cr_updated_at :: timestamp

record sql_store =
  ss_driver :: string
  ss_ttl :: int
  ss_up :: bool
  ss_rows :: "conv_row list"

definition is_pg :: "string \<Rightarrow> bool" where
  "is_pg driver = (driver = ''pgx'' \<or> driver = ''postgres'')"

fun decode_opt :: "'a json_col \<Rightarrow> store_error + 'a option" where
  "decode_opt ColBad = Inl DecodeError"
| "decode_opt ColNull = Inr None"
| "decode_opt (ColVal v) = Inr (Some v)"

fun encode_opt :: "'a option \<Rightarrow> 'a json_col" where
  "encode_opt None = ColNull"
| "encode_opt (Some v) = ColVal v"

text \<open>The conversation a scanned row decodes to; messages \<open>null\<close> are the nil slice.\<close>

definition row_conversation :: "conv_row \<Rightarrow> store_error + conversation" where
  "row_conversation row =
     (case decode_opt (cr_messages row) of
        Inl e \<Rightarrow> Inl e
      | Inr msgs \<Rightarrow>
          (case decode_opt (cr_request row) of
             Inl e \<Rightarrow> Inl e
           | Inr req \<Rightarrow>
               (case decode_opt (cr_replay row) of
                  Inl e \<Rightarrow> Inl e
                | Inr rep \<Rightarrow>
                    Inr \<lparr>cv_id = cr_id row,
                         cv_messages = (case msgs of None \<Rightarrow> [] | Some ms \<Rightarrow> ms),
                         cv_replay = rep, cv_model = cr_model row, cv_request = req,
                         cv_owner_iss = cr_owner_iss row, cv_owner_sub = cr_owner_sub row,
                         cv_tenant_id = cr_tenant_id row, cv_created_at = cr_created_at row,
                         cv_updated_at = cr_updated_at row\<rparr>)))"

fun find_row :: "conv_row list \<Rightarrow> string \<Rightarrow> conv_row option" where
  "find_row [] k = None"
| "find_row (row # rows) k = (if cr_id row = k then Some row else find_row rows k)"

definition sql_Get :: "sql_store \<Rightarrow> string \<Rightarrow> store_error + conversation option" where
  "sql_Get s k =
     (if \<not> ss_up s then Inl DbError
      else case find_row (ss_rows s) k of
             None \<Rightarrow> Inr None
           | Some row \<Rightarrow> (case row_conversation row of
                            Inl e \<Rightarrow> Inl e | Inr c \<Rightarrow> Inr (Some c)))"

text \<open>
  The upsert of \<open>newDialect\<close>: PostgreSQL updates the listed columns of an existing row and
  keeps its owner and creation time; the other drivers replace the row.
\<close>

definition pg_conflict_update :: "conv_row \<Rightarrow> conv_row \<Rightarrow> conv_row" where
  "pg_conflict_update old excluded =
     old\<lparr>cr_model := cr_model excluded, cr_messages := cr_messages excluded,
         cr_request := cr_request excluded, cr_replay := cr_replay excluded,
         cr_updated_at := cr_updated_at excluded\<rparr>"

definition sql_upsert :: "string \<Rightarrow> conv_row \<Rightarrow> conv_row list \<Rightarrow> conv_row list" where
  "sql_upsert driver row rows =
     (if find_row rows (cr_id row) = None then rows @ [row]
      else if is_pg driver then
        map (\<lambda>old. if cr_id old = cr_id row then pg_conflict_update old row else old) rows
      else filter (\<lambda>old. cr_id old \<noteq> cr_id row) rows @ [row])"

definition sql_Create ::
  "sql_store \<Rightarrow> timestamp \<Rightarrow> string \<Rightarrow> string \<Rightarrow> message list \<Rightarrow> owner_info \<Rightarrow>
   response_request option \<Rightarrow> replay_state option \<Rightarrow> (store_error + conversation option) \<times> sql_store" where
  "sql_Create s now k model msgs owner req rep =
     (if \<not> ss_up s then (Inl DbError, s)
      else
        (let row = \<lparr>cr_id = k, cr_model = model, cr_messages = ColVal msgs,
                    cr_request = encode_opt req, cr_replay = encode_opt rep,
                    cr_owner_iss = ow_iss owner, cr_owner_sub = ow_sub owner,
                    cr_tenant_id = ow_tenant owner, cr_created_at = now, cr_updated_at = now\<rparr>
         in (Inr (Some \<lparr>cv_id = k, cv_messages = msgs, cv_replay = rep, cv_model = model,
                        cv_request = req, cv_owner_iss = ow_iss owner,
                        cv_owner_sub = ow_sub owner, cv_tenant_id = ow_tenant owner,
                        cv_created_at = now, cv_updated_at = now\<rparr>),
             s\<lparr>ss_rows := sql_upsert (ss_driver s) row (ss_rows s)\<rparr>)))"

definition sql_Append ::
  "sql_store \<Rightarrow> timestamp \<Rightarrow> string \<Rightarrow> message list \<Rightarrow>
   (store_error + conversation option) \<times> sql_store" where
  "sql_Append s now k msgs =
     (case sql_Get s k of
        Inl e \<Rightarrow> (Inl e, s)
      | Inr None \<Rightarrow> (Inr None, s)
      | Inr (Some conv) \<Rightarrow>
          (let ms = cv_messages conv @ msgs in
           (Inr (Some (conv\<lparr>cv_messages := ms, cv_updated_at := now\<rparr>)),
            s\<lparr>ss_rows := map (\<lambda>row. if cr_id row = k
                                    then row\<lparr>cr_messages := ColVal ms, cr_updated_at := now\<rparr>
                                    else row) (ss_rows s)\<rparr>)))"

definition sql_Delete :: "sql_store \<Rightarrow> string \<Rightarrow> store_error option \<times> sql_store" where
  "sql_Delete s k =
     (if \<not> ss_up s then (Some DbError, s)
      else (None, s\<lparr>ss_rows := filter (\<lambda>row. cr_id row \<noteq> k) (ss_rows s)\<rparr>))"

text \<open>An error of the count query is ignored and leaves 0.\<close>

definition sql_Size :: "sql_store \<Rightarrow> nat" where
  "sql_Size s = (if ss_up s then length (ss_rows s) else 0)"

text \<open>The WHERE clause of \<open>List\<close>: one conjunct per filter that is set.\<close>

definition row_matches :: "(string \<Rightarrow> string \<Rightarrow> bool) \<Rightarrow> list_options \<Rightarrow> conv_row \<Rightarrow> bool" where
  "row_matches like opts row \<longleftrightarrow>
     (lo_owner_iss opts \<noteq> [] \<longrightarrow> cr_owner_iss row = lo_owner_iss opts) \<and>
     (lo_owner_sub opts \<noteq> [] \<longrightarrow> cr_owner_sub row = lo_owner_sub opts) \<and>
     (lo_tenant_id opts \<noteq> [] \<longrightarrow> cr_tenant_id row = lo_tenant_id opts) \<and>
     (lo_model opts \<noteq> [] \<longrightarrow> cr_model row = lo_model opts) \<and>
     (lo_search opts \<noteq> [] \<longrightarrow> like (''%'' @ lo_search opts @ ''%'') (cr_id row))"

text \<open>
  \<open>jsonb_array_length\<close> fails on text that is no array; \<open>json_array_length\<close> of SQLite gives 0
  for \<open>null\<close>.
\<close>

fun message_count :: "string \<Rightarrow> message list json_col \<Rightarrow> nat option" where
  "message_count driver ColBad = None"
| "message_count driver ColNull = (if is_pg driver then None else Some 0)"
| "message_count driver (ColVal ms) = Some (length ms)"

definition empty_message :: message where
  "empty_message = new_message [] [] []"

definition list_row :: "string \<Rightarrow> conv_row \<Rightarrow> conversation option" where
  "list_row driver row =
     (case message_count driver (cr_messages row) of
        None \<Rightarrow> None
      | Some n \<Rightarrow>
          Some \<lparr>cv_id = cr_id row, cv_messages = replicate n empty_message, cv_replay = None,
                cv_model = cr_model row, cv_request = None, cv_owner_iss = cr_owner_iss row,
                cv_owner_sub = cr_owner_sub row, cv_tenant_id = cr_tenant_id row,
                cv_created_at = cr_created_at row, cv_updated_at = cr_updated_at row\<rparr>)"

definition page_of :: "list_options \<Rightarrow> int" where
  "page_of opts = (if lo_page opts < 1 then 1 else lo_page opts)"

definition limit_of :: "list_options \<Rightarrow> int" where
  "limit_of opts = (if lo_limit opts < 1 then 20 else lo_limit opts)"

text \<open>
  \<open>offset := (Page - 1) * Limit\<close> wraps at 64 bits. PostgreSQL refuses a negative offset,
  SQLite reads it as 0. Rows with equal \<open>updated_at\<close> keep their table order.
\<close>

definition page_offset :: "list_options \<Rightarrow> int" where
  "page_offset opts = wrap64 ((page_of opts - 1) * limit_of opts)"

definition list_page :: "list_options \<Rightarrow> 'a list \<Rightarrow> 'a list" where
  "list_page opts xs = take (nat (limit_of opts)) (drop (nat (page_offset opts)) xs)"

definition matching_rows :: "(string \<Rightarrow> string \<Rightarrow> bool) \<Rightarrow> sql_store \<Rightarrow> list_options \<Rightarrow> conv_row list" where
  "matching_rows like s opts =
     sort_key (\<lambda>row. - cr_updated_at row) (filter (row_matches like opts) (ss_rows s))"

definition sql_List ::
  "(string \<Rightarrow> string \<Rightarrow> bool) \<Rightarrow> sql_store \<Rightarrow> list_options \<Rightarrow> store_error + list_result" where
  "sql_List like s opts =
     (if \<not> ss_up s then Inl DbError
      else if is_pg (ss_driver s) \<and> page_offset opts < 0 then Inl DbError
      else case all_some (map (list_row (ss_driver s)) (list_page opts (matching_rows like s opts))) of
             None \<Rightarrow> Inl DbError
           | Some convs \<Rightarrow>
               Inr \<lparr>lr_conversations = convs,
                    lr_total = length (filter (row_matches like opts) (ss_rows s))\<rparr>)"

text \<open>One tick of the \<open>cleanup\<close> goroutine, and the interval between ticks in nanoseconds.\<close>

definition sql_cleanup :: "timestamp \<Rightarrow> sql_store \<Rightarrow> sql_store" where
  "sql_cleanup now s =
     (if ss_up s
      then s\<lparr>ss_rows := filter (\<lambda>row. \<not> cr_updated_at row < now - ss_ttl s) (ss_rows s)\<rparr>
      else s)"

definition cleanup_interval :: "int \<Rightarrow> int" where
  "cleanup_interval ttl =
     (let i1 = ttl div 10;
          i2 = (if i1 > 60000000000 then 60000000000 else i1)
      in if i2 < 10000000 then 10000000 else i2)"

definition sql_ops :: "(string \<Rightarrow> string \<Rightarrow> bool) \<Rightarrow> sql_store store_ops" where
  "sql_ops like =
     \<lparr>so_get = sql_Get, so_create = sql_Create, so_append = sql_Append,
      so_delete = sql_Delete, so_size = sql_Size, so_list = sql_List like\<rparr>"

subsection \<open>NopStore\<close>

definition nop_ops :: "unit store_ops" where
  "nop_ops =
     \<lparr>so_get = (\<lambda>s k. Inr None),
      so_create = (\<lambda>s now k model msgs owner req rep. (Inr None, s)),
      so_append = (\<lambda>s now k msgs. (Inr None, s)),
      so_delete = (\<lambda>s k. (None, s)),
      so_size = (\<lambda>s. 0),
      so_list = (\<lambda>s opts. Inr \<lparr>lr_conversations = [], lr_total = 0\<rparr>)\<rparr>"

end
