(* ===== verification/ConversationStore.thy ===== *)
theory ConversationStore
  imports Conversation
begin

text \<open>
  The contract of the \<open>Store\<close> interface as two locales, \<open>conv_store\<close> (what every backend
  promises) and \<open>persistent_store\<close> (what a backend that keeps conversations promises on top),
  their interpretations on \<open>NopStore\<close> and \<open>SQLStore\<close>, and the properties of the SQL store.
\<close>

subsection \<open>The interfaces\<close>

locale conv_store =
  fixes ops :: "'s store_ops" and inv :: "'s \<Rightarrow> bool"
  assumes get_ok: "inv s \<Longrightarrow> \<exists>c. so_get ops s k = Inr c"
    and delete_ok: "inv s \<Longrightarrow> fst (so_delete ops s k) = None"
    and delete_inv: "inv s \<Longrightarrow> inv (snd (so_delete ops s k))"
    and delete_get: "inv s \<Longrightarrow> so_get ops (snd (so_delete ops s k)) k'
           = (if k' = k then Inr None else so_get ops s k')"
    and append_absent: "inv s \<Longrightarrow> so_get ops s k = Inr None \<Longrightarrow>
           fst (so_append ops s now k msgs) = Inr None \<and>
           so_get ops (snd (so_append ops s now k msgs)) k' = so_get ops s k'"
    and create_inv: "inv s \<Longrightarrow> inv (snd (so_create ops s now k model msgs owner req rep))"
    and create_other: "inv s \<Longrightarrow> k' \<noteq> k \<Longrightarrow>
           so_get ops (snd (so_create ops s now k model msgs owner req rep)) k' = so_get ops s k'"
begin

lemma delete_idem_get:
  "inv s \<Longrightarrow> so_get ops (snd (so_delete ops (snd (so_delete ops s k)) k)) k = Inr None"
  by (simp add: delete_get delete_inv)

lemma create_delete_get:
  "inv s \<Longrightarrow>
   so_get ops (snd (so_delete ops (snd (so_create ops s now k model msgs owner req rep)) k)) k
   = Inr None"
  by (simp add: delete_get create_inv)

lemma delete_append:
  "inv s \<Longrightarrow> fst (so_append ops (snd (so_delete ops s k)) now k msgs) = Inr None"
  by (rule conjunct1 [OF append_absent]) (simp_all add: delete_get delete_inv)

end

locale persistent_store = conv_store +
  assumes create_get: "inv s \<Longrightarrow>
     \<exists>c. so_get ops (snd (so_create ops s now k model msgs owner req rep)) k = Inr (Some c) \<and>
         cv_id c = k \<and> cv_messages c = msgs \<and> cv_model c = model \<and> cv_request c = req \<and>
         cv_replay c = rep \<and> cv_updated_at c = now"
    and create_owner: "inv s \<Longrightarrow> so_get ops s k = Inr None \<Longrightarrow>
     so_get ops (snd (so_create ops s now k model msgs owner req rep)) k = Inr (Some c) \<Longrightarrow>
     cv_owner_iss c = ow_iss owner \<and> cv_owner_sub c = ow_sub owner \<and>
     cv_tenant_id c = ow_tenant owner"
    and append_get: "inv s \<Longrightarrow> so_get ops s k = Inr (Some c) \<Longrightarrow>
     so_get ops (snd (so_append ops s now k msgs)) k
     = Inr (Some (c\<lparr>cv_messages := cv_messages c @ msgs, cv_updated_at := now\<rparr>))"
    and append_inv: "inv s \<Longrightarrow> inv (snd (so_append ops s now k msgs))"
begin

lemma append_twice:
  assumes "inv s" "so_get ops s k = Inr (Some c)"
  shows "so_get ops (snd (so_append ops (snd (so_append ops s t1 k ms1)) t2 k ms2)) k
     = so_get ops (snd (so_append ops s t2 k (ms1 @ ms2))) k"
  using assms append_get [OF append_inv [OF assms(1)] append_get [OF assms]]
  by (simp add: append_get)

lemma create_append_get:
  assumes "inv s"
  shows "\<exists>c. so_get ops (snd (so_append ops (snd (so_create ops s now k model msgs owner req rep))
                                t k ms)) k = Inr (Some c) \<and> cv_messages c = msgs @ ms"
  using create_get [OF assms, of now k model msgs owner req rep]
    append_get [OF create_inv [OF assms]] by force

end

subsection \<open>Rows by id\<close>

lemma find_row_id: "find_row rows k = Some row \<Longrightarrow> cr_id row = k"
  by (induction rows) (auto split: if_splits)

lemma find_row_mem: "find_row rows k = Some row \<Longrightarrow> row \<in> set rows"
  by (induction rows) (auto split: if_splits)

lemma find_row_None: "find_row rows k = None \<longleftrightarrow> k \<notin> cr_id ` set rows"
  by (induction rows) auto

lemma find_row_append [store_simps]:
  "find_row (xs @ ys) k = (case find_row xs k of None \<Rightarrow> find_row ys k | Some row \<Rightarrow> Some row)"
  by (induction xs) auto

lemma find_row_filter [store_simps]:
  "find_row (filter (\<lambda>row. cr_id row \<noteq> k) rows) k' = (if k' = k then None else find_row rows k')"
  by (induction rows) auto

lemma find_row_map [store_simps]:
  "(\<And>row. cr_id (f row) = cr_id row) \<Longrightarrow>
   find_row (map (\<lambda>row. if cr_id row = k then f row else row) rows) k'
   = (if k' = k then map_option f (find_row rows k') else find_row rows k')"
  by (induction rows) auto

lemma find_row_upsert:
  "find_row (sql_upsert driver row rows) k =
     (if k = cr_id row
      then Some (case find_row rows k of
                   None \<Rightarrow> row
                 | Some old \<Rightarrow> if is_pg driver then pg_conflict_update old row else row)
      else find_row rows k)"
  by (auto simp: sql_upsert_def store_simps pg_conflict_update_def split: option.splits)

subsection \<open>The invariant of the SQL store\<close>

definition row_decodes :: "conv_row \<Rightarrow> bool" where
  "row_decodes row \<longleftrightarrow> (\<exists>ms. cr_messages row = ColVal ms) \<and> cr_request row \<noteq> ColBad \<and>
     cr_replay row \<noteq> ColBad"

definition sql_inv :: "sql_store \<Rightarrow> bool" where
  "sql_inv s \<longleftrightarrow> ss_up s \<and> distinct (map cr_id (ss_rows s)) \<and> list_all row_decodes (ss_rows s)"

lemma decode_encode_opt [simp]: "decode_opt (encode_opt v) = Inr v"
  by (cases v) auto

lemma encode_opt_not_bad [simp]: "encode_opt v \<noteq> ColBad"
  by (cases v) auto

lemma row_decodes_conversation: "row_decodes row \<Longrightarrow> \<exists>c. row_conversation row = Inr c"
  by (cases "cr_request row"; cases "cr_replay row")
     (auto simp: row_decodes_def row_conversation_def)

lemma sql_Get_inv: "sql_inv s \<Longrightarrow> \<exists>c. sql_Get s k = Inr c"
  using row_decodes_conversation find_row_mem
  by (fastforce simp: sql_Get_def sql_inv_def list_all_iff split: option.splits sum.splits)

lemma map_id_update:
  "(\<And>row. cr_id (f row) = cr_id row) \<Longrightarrow>
   map cr_id (map (\<lambda>row. if cr_id row = k then f row else row) rows) = map cr_id rows"
  by simp

lemma pg_conflict_update_sel [simp]:
  "cr_id (pg_conflict_update old row) = cr_id old"
  "cr_owner_iss (pg_conflict_update old row) = cr_owner_iss old"
  "cr_owner_sub (pg_conflict_update old row) = cr_owner_sub old"
  "cr_tenant_id (pg_conflict_update old row) = cr_tenant_id old"
  "cr_messages (pg_conflict_update old row) = cr_messages row"
  "cr_request (pg_conflict_update old row) = cr_request row"
  "cr_replay (pg_conflict_update old row) = cr_replay row"
  "cr_model (pg_conflict_update old row) = cr_model row"
  "cr_updated_at (pg_conflict_update old row) = cr_updated_at row"
  by (simp_all add: pg_conflict_update_def)

lemma sql_upsert_ids:
  "distinct (map cr_id rows) \<Longrightarrow> distinct (map cr_id (sql_upsert driver row rows))"
proof -
  assume d: "distinct (map cr_id rows)"
  have "map cr_id (map (\<lambda>old. if cr_id old = cr_id row then pg_conflict_update old row else old) rows)
        = map cr_id rows" by simp
  with d show ?thesis
    by (auto simp: sql_upsert_def find_row_None distinct_map_filter simp del: map_map)
qed

lemma sql_upsert_decodes:
  "list_all row_decodes rows \<Longrightarrow> row_decodes row \<Longrightarrow>
   list_all row_decodes (sql_upsert driver row rows)"
  by (auto simp: sql_upsert_def list_all_iff row_decodes_def)

lemma sql_Create_inv: "sql_inv s \<Longrightarrow> sql_inv (snd (sql_Create s now k model msgs owner req rep))"
  by (auto simp: sql_Create_def sql_inv_def Let_def row_decodes_def
      intro!: sql_upsert_ids sql_upsert_decodes)

lemma sql_Delete_inv: "sql_inv s \<Longrightarrow> sql_inv (snd (sql_Delete s k))"
  by (auto simp: sql_Delete_def sql_inv_def distinct_map_filter list_all_iff)

lemma sql_Append_inv: "sql_inv s \<Longrightarrow> sql_inv (snd (sql_Append s now k msgs))"
proof -
  assume s: "sql_inv s"
  have ids: "map cr_id (map (\<lambda>row. if cr_id row = k
      then row\<lparr>cr_messages := ColVal ms, cr_updated_at := now\<rparr> else row) (ss_rows s))
    = map cr_id (ss_rows s)" for ms
    by simp
  have "list_all row_decodes (map (\<lambda>row. if cr_id row = k
      then row\<lparr>cr_messages := ColVal ms, cr_updated_at := now\<rparr> else row) (ss_rows s))" for ms
    using s by (auto simp: sql_inv_def list_all_iff row_decodes_def)
  with s ids show ?thesis
    by (auto simp: sql_Append_def sql_inv_def Let_def simp del: map_map
        split: sum.splits option.splits)
qed

lemma sql_Delete_get:
  "sql_Get (snd (sql_Delete s k)) k' = (if ss_up s \<and> k' = k then Inr None else sql_Get s k')"
  by (auto simp: sql_Get_def sql_Delete_def store_simps)

lemma sql_Create_get:
  assumes "ss_up s"
  shows "\<exists>c. sql_Get (snd (sql_Create s now k model msgs owner req rep)) k = Inr (Some c) \<and>
     cv_id c = k \<and> cv_messages c = msgs \<and> cv_model c = model \<and> cv_request c = req \<and>
     cv_replay c = rep \<and> cv_updated_at c = now \<and>
     (if find_row (ss_rows s) k = None \<or> \<not> is_pg (ss_driver s)
      then cv_owner_iss c = ow_iss owner \<and> cv_owner_sub c = ow_sub owner \<and>
           cv_tenant_id c = ow_tenant owner
      else \<exists>old. find_row (ss_rows s) k = Some old \<and> cv_owner_iss c = cr_owner_iss old \<and>
           cv_owner_sub c = cr_owner_sub old \<and> cv_tenant_id c = cr_tenant_id old)"
  using assms find_row_id [of "ss_rows s" k]
  by (cases "is_pg (ss_driver s)")
     (auto simp: sql_Create_def sql_Get_def Let_def find_row_upsert row_conversation_def
       split: option.splits)

lemma sql_Create_other:
  "k' \<noteq> k \<Longrightarrow> sql_Get (snd (sql_Create s now k model msgs owner req rep)) k' = sql_Get s k'"
  by (auto simp: sql_Create_def sql_Get_def Let_def find_row_upsert)

lemma row_conversation_append:
  assumes "row_conversation row = Inr c"
  shows "row_conversation (row\<lparr>cr_messages := ColVal (cv_messages c @ msgs), cr_updated_at := now\<rparr>)
    = Inr (c\<lparr>cv_messages := cv_messages c @ msgs, cv_updated_at := now\<rparr>)"
  using assms by (auto simp: row_conversation_def split: sum.splits)

lemma sql_Append_get:
  assumes "sql_Get s k = Inr (Some c)"
  shows "sql_Get (snd (sql_Append s now k msgs)) k
     = Inr (Some (c\<lparr>cv_messages := cv_messages c @ msgs, cv_updated_at := now\<rparr>))"
proof -
  from assms obtain row where up: "ss_up s" and row: "find_row (ss_rows s) k = Some row"
      and c: "row_conversation row = Inr c"
    by (auto simp: sql_Get_def split: if_splits option.splits sum.splits)
  show ?thesis
    using up row row_conversation_append [OF c] assms
    by (simp add: sql_Append_def Let_def sql_Get_def find_row_map)
qed

interpretation sqlst: persistent_store "sql_ops like" sql_inv
proof (unfold_locales, goal_cases)
  case (1 s k) then show ?case by (simp add: sql_ops_def sql_Get_inv)
next
  case (2 s k) then show ?case by (simp add: sql_ops_def sql_Delete_def sql_inv_def)
next
  case (3 s k) then show ?case by (simp add: sql_ops_def sql_Delete_inv)
next
  case (4 s k k') then show ?case by (simp add: sql_ops_def sql_Delete_get sql_inv_def)
next
  case (5 s k now msgs k') then show ?case by (simp add: sql_ops_def sql_Append_def)
next
  case (6 s now k model msgs owner req rep) then show ?case
    by (simp add: sql_ops_def sql_Create_inv)
next
  case (7 s k' k now model msgs owner req rep) then show ?case
    by (simp add: sql_ops_def sql_Create_other)
next
  case (8 s now k model msgs owner req rep) then show ?case
    using sql_Create_get [of s now k model msgs owner req rep]
    by (auto simp: sql_ops_def sql_inv_def)
next
  case (9 s k now model msgs owner req rep c)
  then have "find_row (ss_rows s) k = None"
    by (auto simp: sql_ops_def sql_Get_def sql_inv_def split: option.splits sum.splits)
  with 9 show ?case
    using sql_Create_get [of s now k model msgs owner req rep]
    by (auto simp: sql_ops_def sql_inv_def)
next
  case (10 s k c now msgs) then show ?case by (simp add: sql_ops_def sql_Append_get)
next
  case (11 s now k msgs) then show ?case by (simp add: sql_ops_def sql_Append_inv)
qed

interpretation nopst: conv_store nop_ops "\<lambda>_. True"
  by unfold_locales (auto simp: nop_ops_def)

subsection \<open>Properties of the SQL store\<close>

definition sample_store :: sql_store where
  "sample_store = \<lparr>ss_driver = ''pgx'', ss_ttl = 100, ss_up = True, ss_rows = []\<rparr>"

definition sample_owner :: owner_info where
  "sample_owner = \<lparr>ow_iss = ''iss'', ow_sub = ''alice'', ow_tenant = []\<rparr>"

lemma sample_store_inv [simp]: "sql_inv sample_store"
  by (simp add: sql_inv_def sample_store_def)

text \<open>What \<open>Create\<close> stores is what \<open>Get\<close> returns: messages, model, request, replay state and,
  for a new id, the owner; an id that already exists keeps its owner on PostgreSQL, so creating
  over it cannot take a conversation away from its owner; and no other conversation changes.\<close>
theorem create_get_roundtrip:
  assumes "sql_inv s"
  shows "(\<exists>c. sql_Get (snd (sql_Create s now k model msgs owner req rep)) k = Inr (Some c) \<and>
            cv_id c = k \<and> cv_messages c = msgs \<and> cv_model c = model \<and> cv_request c = req \<and>
            cv_replay c = rep \<and>
            (\<forall>old. is_pg (ss_driver s) \<and> sql_Get s k = Inr (Some old) \<longrightarrow>
               (cv_owner_iss c, cv_owner_sub c, cv_tenant_id c)
               = (cv_owner_iss old, cv_owner_sub old, cv_tenant_id old)) \<and>
            (sql_Get s k = Inr None \<longrightarrow>
               (cv_owner_iss c, cv_owner_sub c, cv_tenant_id c)
               = (ow_iss owner, ow_sub owner, ow_tenant owner))) \<and>
         (\<forall>k'. k' \<noteq> k \<longrightarrow>
            sql_Get (snd (sql_Create s now k model msgs owner req rep)) k' = sql_Get s k')"
proof -
  have up: "ss_up s" using assms by (simp add: sql_inv_def)
  have owner_old: "find_row (ss_rows s) k = Some row \<Longrightarrow> sql_Get s k = Inr (Some old) \<Longrightarrow>
      cv_owner_iss old = cr_owner_iss row \<and> cv_owner_sub old = cr_owner_sub row \<and>
      cv_tenant_id old = cr_tenant_id row" for row old
    by (auto simp: sql_Get_def row_conversation_def split: sum.splits if_splits)
  have none: "sql_Get s k = Inr None \<Longrightarrow> find_row (ss_rows s) k = None"
    and some: "sql_Get s k = Inr (Some old) \<Longrightarrow> find_row (ss_rows s) k \<noteq> None" for old
    by (auto simp: sql_Get_def up split: option.splits sum.splits)
  from sql_Create_get [OF up, of now k model msgs owner req rep] owner_old none some
  show ?thesis by (fastforce simp: sql_Create_other)
qed

theorem create_get_roundtrip_witness:
  "\<exists>c. sql_Get (snd (sql_Create sample_store 5 ''resp_1'' ''m'' [] sample_owner None None)) ''resp_1''
     = Inr (Some c) \<and> cv_owner_sub c = ''alice''"
proof -
  have "sql_Get sample_store ''resp_1'' = Inr None" by code_simp
  with create_get_roundtrip [OF sample_store_inv, of 5 "''resp_1''" "''m''" "[]" sample_owner None None]
  show ?thesis by (auto simp: sample_owner_def)
qed

lemma append_deleted_absent:
  "sql_inv s \<Longrightarrow> fst (sql_Append (snd (sql_Delete s k)) now k msgs) = Inr None"
  using sqlst.delete_append [where s = s and k = k and now = now and msgs = msgs]
  by (simp add: sql_ops_def)

text \<open>The lifecycle of a stored conversation: created and appended to, it reads back as the
  created messages followed by the appended ones; deleted, it is gone, appending to it finds
  nothing, and the store keeps its invariant throughout.\<close>
theorem conversation_lifecycle:
  assumes "sql_inv s"
  shows "let s1 = snd (sql_Create s t1 k model msgs owner req rep);
             s2 = snd (sql_Append s1 t2 k ms);
             s3 = snd (sql_Delete s2 k)
     in (\<exists>c. sql_Get s2 k = Inr (Some c) \<and> cv_messages c = msgs @ ms) \<and>
        sql_Get s3 k = Inr None \<and> fst (sql_Append s3 t3 k ms) = Inr None \<and>
        sql_inv s1 \<and> sql_inv s2 \<and> sql_inv s3"
proof -
  let ?s1 = "snd (sql_Create s t1 k model msgs owner req rep)"
  let ?s2 = "snd (sql_Append ?s1 t2 k ms)"
  let ?s3 = "snd (sql_Delete ?s2 k)"
  have i1: "sql_inv ?s1" using assms(1) by (rule sql_Create_inv)
  have i2: "sql_inv ?s2" using i1 by (rule sql_Append_inv)
  have i3: "sql_inv ?s3" using i2 by (rule sql_Delete_inv)
  from sqlst.create_append_get [OF assms(1), where now = t1 and k = k and model = model
      and msgs = msgs and owner = owner and req = req and rep = rep and t = t2 and ms = ms]
  have "\<exists>c. sql_Get ?s2 k = Inr (Some c) \<and> cv_messages c = msgs @ ms"
    by (simp add: sql_ops_def)
  with i1 i2 i3 show ?thesis
    by (auto simp: Let_def append_deleted_absent sql_Delete_get sql_inv_def)
qed

theorem conversation_lifecycle_witness:
  "sql_Get (snd (sql_Delete (snd (sql_Append (snd (sql_Create sample_store 1 ''r'' ''m'' []
       sample_owner None None)) 2 ''r'' [empty_message])) ''r'')) ''r'' = Inr None"
  using conversation_lifecycle [OF sample_store_inv, where ?t1.0 = 1 and ?t2.0 = 2 and ?t3.0 = 3
      and k = "''r''" and model = "''m''" and msgs = "[]" and owner = sample_owner
      and req = None and rep = None and ms = "[empty_message]"]
  by (simp add: Let_def)

subsection \<open>Listing\<close>

definition list_ids :: "(string \<Rightarrow> string \<Rightarrow> bool) \<Rightarrow> sql_store \<Rightarrow> list_options \<Rightarrow> string list" where
  "list_ids like s opts =
     (case sql_List like s opts of Inl _ \<Rightarrow> [] | Inr r \<Rightarrow> map cv_id (lr_conversations r))"

lemma list_row_some: "row_decodes row \<Longrightarrow> \<exists>c. list_row driver row = Some c \<and> cv_id c = cr_id row"
  by (auto simp: list_row_def row_decodes_def)

lemma list_row_sel:
  "list_row driver row = Some c \<Longrightarrow>
   cv_id c = cr_id row \<and> cv_owner_iss c = cr_owner_iss row \<and> cv_owner_sub c = cr_owner_sub row \<and>
   cv_tenant_id c = cr_tenant_id row \<and> cv_model c = cr_model row"
  by (auto simp: list_row_def split: option.splits)

lemma all_some_list_row:
  "list_all row_decodes rows \<Longrightarrow>
   \<exists>cs. all_some (map (list_row driver) rows) = Some cs \<and> map cv_id cs = map cr_id rows"
proof (induction rows)
  case (Cons row rows)
  then obtain c cs where "list_row driver row = Some c" "cv_id c = cr_id row"
      "all_some (map (list_row driver) rows) = Some cs" "map cv_id cs = map cr_id rows"
    using list_row_some [of row driver] by auto
  then show ?case by simp
qed simp

lemma set_list_page: "set (list_page opts xs) \<subseteq> set xs"
  by (auto simp: list_page_def dest: in_set_takeD in_set_dropD)

lemma sql_List_inv:
  assumes "sql_inv s" and "0 \<le> page_offset opts"
  shows "\<exists>cs. sql_List like s opts
      = Inr \<lparr>lr_conversations = cs, lr_total = length (matching_rows like s opts)\<rparr> \<and>
    map cv_id cs = map cr_id (list_page opts (matching_rows like s opts))"
proof -
  have "list_all row_decodes (list_page opts (matching_rows like s opts))"
    using assms set_list_page [of opts "matching_rows like s opts"]
    by (auto simp: list_all_iff sql_inv_def matching_rows_def)
  from all_some_list_row [OF this, of "ss_driver s"] assms show ?thesis
    by (auto simp: sql_List_def sql_inv_def matching_rows_def)
qed

lemma concat_pages:
  "concat (map (\<lambda>p. take L (drop ((p - 1) * L) xs)) [1..<Suc P]) = take (P * L) xs"
proof (induction P)
  case (Suc P)
  have "concat (map (\<lambda>p. take L (drop ((p - 1) * L) xs)) [1..<Suc (Suc P)])
    = take (P * L) xs @ take L (drop (P * L) xs)"
    using Suc by simp
  also have "\<dots> = take (P * L + L) xs" by (simp add: take_add)
  finally show ?case by (simp add: add.commute)
qed simp

text \<open>Pagination is a partition: reading pages 1 to P of \<open>List\<close> one after the other gives
  exactly the first P times limit matching conversations, newest first, none skipped and none
  twice, and the reported total is the same on every page.\<close>
theorem list_pages_partition:
  assumes "sql_inv s" and "1 \<le> lo_limit opts" and "int P * lo_limit opts \<le> max_int64"
  shows "concat (map (\<lambda>p. list_ids like s (opts\<lparr>lo_page := int p\<rparr>)) [1..<Suc P])
      = take (P * nat (lo_limit opts)) (map cr_id (matching_rows like s opts)) \<and>
    (\<forall>p \<in> {1..P}. \<exists>r. sql_List like s (opts\<lparr>lo_page := int p\<rparr>) = Inr r \<and>
       lr_total r = length (matching_rows like s opts))"
proof -
  let ?L = "nat (lo_limit opts)"
  have same: "matching_rows like s (opts\<lparr>lo_page := q\<rparr>) = matching_rows like s opts" for q
  proof -
    have "row_matches like (opts\<lparr>lo_page := q\<rparr>) = row_matches like opts"
      by (rule ext) (simp add: row_matches_def)
    then show ?thesis by (simp add: matching_rows_def)
  qed
  have off: "page_offset (opts\<lparr>lo_page := int p\<rparr>) = int ((p - 1) * ?L)" if "p \<in> {1..P}" for p
  proof -
    have "(int p - 1) * lo_limit opts \<le> int P * lo_limit opts"
      using that assms(2) by (intro mult_right_mono) auto
    moreover have "0 \<le> (int p - 1) * lo_limit opts" using that assms(2) by simp
    ultimately have "wrap64 ((int p - 1) * lo_limit opts) = (int p - 1) * lo_limit opts"
      using assms(3) by (intro wrap64_id) (auto simp: min_int64_def)
    with that assms(2) show ?thesis
      by (simp add: page_offset_def page_of_def limit_of_def of_nat_diff)
  qed
  have page: "\<exists>cs. sql_List like s (opts\<lparr>lo_page := int p\<rparr>)
        = Inr \<lparr>lr_conversations = cs, lr_total = length (matching_rows like s opts)\<rparr> \<and>
      map cv_id cs = take ?L (drop ((p - 1) * ?L) (map cr_id (matching_rows like s opts)))"
    if "p \<in> {1..P}" for p
    using sql_List_inv [OF assms(1), of "opts\<lparr>lo_page := int p\<rparr>" like] off [OF that] assms(2)
    by (auto simp: same list_page_def limit_of_def take_map drop_map nat_mult_distrib)
  then have ids: "list_ids like s (opts\<lparr>lo_page := int p\<rparr>)
      = take ?L (drop ((p - 1) * ?L) (map cr_id (matching_rows like s opts)))" if "p \<in> {1..P}" for p
    using that by (fastforce simp: list_ids_def)
  have "map (\<lambda>p. list_ids like s (opts\<lparr>lo_page := int p\<rparr>)) [1..<Suc P]
      = map (\<lambda>p. take ?L (drop ((p - 1) * ?L) (map cr_id (matching_rows like s opts)))) [1..<Suc P]"
    by (rule map_cong) (auto simp: ids)
  then have "concat (map (\<lambda>p. list_ids like s (opts\<lparr>lo_page := int p\<rparr>)) [1..<Suc P])
      = take (P * ?L) (map cr_id (matching_rows like s opts))"
    by (simp only: concat_pages)
  with page show ?thesis by fastforce
qed

definition sample_row :: "string \<Rightarrow> int \<Rightarrow> conv_row" where
  "sample_row k t = \<lparr>cr_id = k, cr_model = ''m'', cr_messages = ColVal [],
     cr_request = ColNull, cr_replay = ColNull, cr_owner_iss = ''iss'', cr_owner_sub = ''alice'',
     cr_tenant_id = [], cr_created_at = t, cr_updated_at = t\<rparr>"

definition sample_rows :: "conv_row list" where
  "sample_rows = [sample_row ''a'' 0, sample_row ''b'' 1, sample_row ''c'' 2]"

definition all_opts :: list_options where
  "all_opts = \<lparr>lo_page = 1, lo_limit = 2, lo_owner_iss = [], lo_owner_sub = [],
     lo_tenant_id = [], lo_model = [], lo_search = []\<rparr>"

lemma sample_rows_inv [simp]: "sql_inv (sample_store\<lparr>ss_rows := sample_rows\<rparr>)"
  by (simp add: sql_inv_def sample_store_def sample_rows_def sample_row_def row_decodes_def)

theorem list_pages_partition_witness:
  "concat (map (\<lambda>p. list_ids (=) (sample_store\<lparr>ss_rows := sample_rows\<rparr>)
     (all_opts\<lparr>lo_page := int p\<rparr>)) [1..<Suc 2]) = [''c'', ''b'', ''a'']"
proof -
  let ?s = "sample_store\<lparr>ss_rows := sample_rows\<rparr>"
  have lim: "1 \<le> lo_limit all_opts" "int 2 * lo_limit all_opts \<le> max_int64"
    by (simp_all add: all_opts_def max_int64_def)
  have m: "map cr_id (matching_rows (=) ?s all_opts) = [''c'', ''b'', ''a'']"
    by code_simp
  show ?thesis
    unfolding list_pages_partition [OF sample_rows_inv lim, of "(=)", THEN conjunct1] m
    by (simp add: all_opts_def)
qed

text \<open>The cleanup tick removes exactly the conversations whose last update is more than the
  TTL ago and keeps every other one unchanged; the interval between ticks always lies between
  10 milliseconds and one minute.\<close>
theorem cleanup_exact:
  assumes "sql_inv s"
  shows "(\<forall>k. sql_Get (sql_cleanup now s) k =
            (case sql_Get s k of
               Inr (Some c) \<Rightarrow> if cv_updated_at c < now - ss_ttl s then Inr None else sql_Get s k
             | r \<Rightarrow> r)) \<and>
         sql_inv (sql_cleanup now s) \<and>
         (\<forall>ttl. 10000000 \<le> cleanup_interval ttl \<and> cleanup_interval ttl \<le> 60000000000)"
proof -
  have up: "ss_up s" and dist: "distinct (map cr_id (ss_rows s))"
    using assms by (simp_all add: sql_inv_def)
  have find: "find_row (filter (\<lambda>row. \<not> cr_updated_at row < x) rows) k =
      (case find_row rows k of
         Some row \<Rightarrow> if cr_updated_at row < x then None else Some row | None \<Rightarrow> None)"
    if "distinct (map cr_id rows)" for rows x k
    using that
  proof (induction rows)
    case (Cons row rows)
    then have "cr_id row = k \<Longrightarrow> find_row rows k = None" by (auto simp: find_row_None)
    with Cons show ?case by auto
  qed simp
  have upd: "row_conversation row = Inr c \<Longrightarrow> cv_updated_at c = cr_updated_at row" for row c
    by (auto simp: row_conversation_def split: sum.splits)
  have "sql_Get (sql_cleanup now s) k =
      (case sql_Get s k of
         Inr (Some c) \<Rightarrow> if cv_updated_at c < now - ss_ttl s then Inr None else sql_Get s k
       | r \<Rightarrow> r)" for k
    using sql_Get_inv [OF assms, of k] up find [OF dist] upd
    by (auto simp: sql_cleanup_def sql_Get_def split: option.splits sum.splits)
  moreover have "sql_inv (sql_cleanup now s)"
    using assms by (auto simp: sql_cleanup_def sql_inv_def distinct_map_filter list_all_iff)
  ultimately show ?thesis by (simp add: cleanup_interval_def Let_def)
qed

theorem cleanup_exact_witness:
  "sql_Get (sql_cleanup 102 (sample_store\<lparr>ss_rows := sample_rows\<rparr>)) ''b'' = Inr None"
proof -
  let ?s = "sample_store\<lparr>ss_rows := sample_rows\<rparr>"
  have "sql_Get (sql_cleanup 102 ?s) ''b'' =
      (case sql_Get ?s ''b'' of
         Inr (Some c) \<Rightarrow> if cv_updated_at c < 102 - ss_ttl ?s then Inr None else sql_Get ?s ''b''
       | r \<Rightarrow> r)"
    using cleanup_exact [OF sample_rows_inv, of 102] by blast
  then show ?thesis
    by (simp add: sql_Get_def sample_store_def sample_rows_def sample_row_def row_conversation_def)
qed

end
