(* ===== verification/Config.thy ===== *)
theory Config
  imports ApiTypes
begin

text \<open>
  \<open>internal/config/config.go\<close>: provider and model entries and their validation, and Go's
  \<open>time.ParseDuration\<close>, which the gateway applies to every duration it is configured with.
  A Go map from names to entries is an association list; a lookup takes the first entry.
\<close>

subsection \<open>Durations\<close>

definition is_digit :: "char \<Rightarrow> bool" where
  "is_digit c = (CHR ''0'' \<le> c \<and> c \<le> CHR ''9'')"

definition digit_of :: "char \<Rightarrow> nat" where
  "digit_of c = of_char c - 48"

definition digits_nat :: "string \<Rightarrow> nat" where
  "digits_nat ds = foldl (\<lambda>n c. 10 * n + digit_of c) 0 ds"

text \<open>\<open>unitMap\<close> of package \<open>time\<close>, in nanoseconds; micro is spelt in three ways.\<close>

definition duration_unit :: "string \<Rightarrow> nat option" where
  "duration_unit u = map_of
     [(''ns'', 1), (''us'', 1000), ([CHR 0xC2, CHR 0xB5, CHR ''s''], 1000),
      ([CHR 0xCE, CHR 0xBC, CHR ''s''], 1000), (''ms'', 1000000), (''s'', 1000000000),
      (''m'', 60000000000), (''h'', 3600000000000)] u"

text \<open>
  One term "number unit" of a duration: its value and the rest of the string. The fraction
  is scaled exactly where Go goes through a \<open>float64\<close>. Terms and sum are bounded by \<open>2^63\<close>.
\<close>

definition unit_char :: "char \<Rightarrow> bool" where
  "unit_char c = (c \<noteq> CHR ''.'' \<and> \<not> is_digit c)"

definition fraction_part :: "string \<Rightarrow> string \<times> string" where
  "fraction_part r =
     (if r \<noteq> [] \<and> hd r = CHR ''.'' then (takeWhile is_digit (tl r), dropWhile is_digit (tl r))
      else ([], r))"

definition duration_term :: "string \<Rightarrow> (nat \<times> string) option" where
  "duration_term s =
     (let ints = takeWhile is_digit s;
          (frac, r) = fraction_part (dropWhile is_digit s)
      in if ints = [] \<and> frac = [] then None
         else case duration_unit (takeWhile unit_char r) of
           None \<Rightarrow> None
         | Some unit \<Rightarrow>
             (let v = digits_nat ints * unit + (digits_nat frac * unit) div 10 ^ length frac in
              if 9223372036854775808 < v then None else Some (v, dropWhile unit_char r)))"

lemma fraction_part_length: "fraction_part r = (f, r') \<Longrightarrow> length r' \<le> length r"
  using length_dropWhile_le [of is_digit "tl r"]
  by (auto simp: fraction_part_def split: if_splits)

lemma duration_unit_nonempty: "duration_unit u = Some n \<Longrightarrow> u \<noteq> []"
  by (auto simp: duration_unit_def)

lemma dropWhile_shorter: "takeWhile P xs \<noteq> [] \<Longrightarrow> length (dropWhile P xs) < length xs"
  by (cases xs) (auto simp: le_imp_less_Suc length_dropWhile_le split: if_splits)

lemma duration_term_length:
  assumes "duration_term s = Some (v, r)"
  shows "length r < length s"
proof -
  obtain f r' where f: "fraction_part (dropWhile is_digit s) = (f, r')" by fastforce
  with assms have "r = dropWhile unit_char r'" "takeWhile unit_char r' \<noteq> []"
    by (auto simp: duration_term_def Let_def dest: duration_unit_nonempty
        split: if_splits option.splits)
  with dropWhile_shorter [of unit_char r'] fraction_part_length [OF f]
    length_dropWhile_le [of is_digit s]
  show ?thesis by simp
qed

lemma duration_term_bound: "duration_term s = Some (v, r) \<Longrightarrow> v \<le> 9223372036854775808"
  by (auto simp: duration_term_def Let_def not_less split: if_splits option.splits prod.splits)

function duration_terms :: "string \<Rightarrow> nat \<Rightarrow> nat option" where
  "duration_terms s acc =
     (if s = [] then Some acc
      else case duration_term s of
             None \<Rightarrow> None
           | Some (v, r) \<Rightarrow>
               if 9223372036854775808 < acc + v then None else duration_terms r (acc + v))"
  by pat_completeness auto
termination by (relation "measure (\<lambda>(s, acc). length s)") (auto dest: duration_term_length)

declare duration_terms.simps [simp del]

definition ParseDuration :: "string \<Rightarrow> int option" where
  "ParseDuration s0 =
     (let neg = (s0 \<noteq> [] \<and> hd s0 = CHR ''-'');
          s = (if s0 \<noteq> [] \<and> (hd s0 = CHR ''-'' \<or> hd s0 = CHR ''+'') then tl s0 else s0)
      in if s = ''0'' then Some 0
         else if s = [] then None
         else case duration_terms s 0 of
                None \<Rightarrow> None
              | Some d \<Rightarrow> if neg then Some (- int d)
                          else if 9223372036854775807 < d then None
                          else Some (int d))"

lemma duration_terms_bound:
  "duration_terms s acc = Some d \<Longrightarrow> acc \<le> 9223372036854775808 \<Longrightarrow> d \<le> 9223372036854775808"
proof (induction s acc rule: duration_terms.induct)
  case (1 s acc)
  show ?case
  proof (cases "s = []")
    case True
    with 1(2,3) show ?thesis by (simp add: duration_terms.simps [of "[]" acc])
  next
    case False
    with 1(2) obtain v r where t: "duration_term s = Some (v, r)"
      and b: "\<not> 9223372036854775808 < acc + v" and d: "duration_terms r (acc + v) = Some d"
      by (auto simp: duration_terms.simps [of s acc] split: option.splits if_splits)
    from 1(1) [OF False t refl b d] b show ?thesis by simp
  qed
qed

lemma ParseDuration_range:
  assumes "ParseDuration s = Some d"
  shows "- 9223372036854775808 \<le> d \<and> d \<le> 9223372036854775807"
proof -
  have b: "int n \<le> 9223372036854775808" if "duration_terms t 0 = Some n" for t n
    using duration_terms_bound [OF that] by simp
  from assms show ?thesis
    by (auto simp: ParseDuration_def Let_def not_less split: if_splits option.splits dest!: b)
qed

subsection \<open>Providers and models\<close>

record circuit_breaker_entry =
  ce_max_requests :: nat
  ce_interval :: string
  ce_timeout :: string
  ce_min_requests :: nat
  ce_failure_ratio :: float64

record provider_entry =
  pe_type :: string
  pe_api_key :: string
  pe_endpoint :: string
  pe_api_version :: string
  pe_project :: string
  pe_location :: string
  pe_circuit_breaker :: "circuit_breaker_entry option"

record model_entry =
  me_name :: string
  me_provider :: string
  me_provider_model_id :: string

datatype config_error =
    UnknownProvider string string
  | NoApiKey string string
  | NoEndpoint string string
  | NoProjectLocation string string
  | UnknownProviderType string string

text \<open>\<open>Config.Validate\<close>: one iteration of its loop over the models, and the loop.\<close>

definition validate_model :: "(string \<times> provider_entry) list \<Rightarrow> model_entry \<Rightarrow> config_error option" where
  "validate_model entries m =
     (case map_of entries (me_provider m) of
        None \<Rightarrow> Some (UnknownProvider (me_name m) (me_provider m))
      | Some e \<Rightarrow>
          (if pe_type e \<in> {''openai'', ''anthropic'', ''google'', ''azureopenai'', ''azureanthropic''}
              \<and> pe_api_key e = []
           then Some (NoApiKey (me_name m) (me_provider m))
           else if pe_type e = ''azureopenai'' \<or> pe_type e = ''azureanthropic'' then
             (if pe_endpoint e = [] then Some (NoEndpoint (me_name m) (me_provider m)) else None)
           else if pe_type e = ''vertexai'' then
             (if pe_project e = [] \<or> pe_location e = []
              then Some (NoProjectLocation (me_name m) (me_provider m)) else None)
           else if pe_type e = ''openai'' \<or> pe_type e = ''anthropic'' \<or> pe_type e = ''google'' then None
           else Some (UnknownProviderType (me_name m) (me_provider m))))"

definition validate_config ::
  "(string \<times> provider_entry) list \<Rightarrow> model_entry list \<Rightarrow> config_error option" where
  "validate_config entries models = first_some (validate_model entries) models"

end
