(* ===== verification/Providers.thy ===== *)
theory Providers
  imports Config
begin

text \<open>
  \<open>internal/providers\<close>: the \<open>Provider\<close> interface, the registry that maps model names to
  providers (\<open>providers.go\<close>) and the circuit breaker around a provider
  (\<open>circuitbreaker.go\<close>).

  The breaker itself is \<open>github.com/sony/gobreaker\<close>, third-party code: a record of its two
  operations is a parameter. The calls to the vendor SDKs are the functions \<open>pv_generate\<close>
  and \<open>pv_stream\<close> of a provider.
\<close>

subsection \<open>Errors of a provider call\<close>

text \<open>An \<open>error\<close> value: the two sentinels of gobreaker, another error, or a \<open>%w\<close> wrapping.\<close>

datatype go_error =
    ErrOpenState
  | ErrTooManyRequests
  | ErrOther string
  | ErrWrap string go_error

fun isCircuitBreakerError :: "go_error \<Rightarrow> bool" where
  "isCircuitBreakerError ErrOpenState = True"
| "isCircuitBreakerError ErrTooManyRequests = True"
| "isCircuitBreakerError (ErrOther s) = False"
| "isCircuitBreakerError (ErrWrap s e) = isCircuitBreakerError e"

fun go_error_text :: "go_error \<Rightarrow> string" where
  "go_error_text ErrOpenState = ''circuit breaker is open''"
| "go_error_text ErrTooManyRequests = ''too many requests''"
| "go_error_text (ErrOther s) = s"
| "go_error_text (ErrWrap s e) = s @ '': '' @ go_error_text e"

subsection \<open>The Provider interface\<close>

text \<open>
  A streaming call is what the provider sends: the values on the delta channel and the
  error it puts on the error channel, if any, before it closes both.
\<close>

record provider =
  pv_name :: string
  pv_generate :: "message list \<Rightarrow> response_request \<Rightarrow> go_error + provider_result"
  pv_stream :: "message list \<Rightarrow> response_request \<Rightarrow> provider_stream_delta list \<times> go_error option"

subsection \<open>Building a provider\<close>

datatype built_provider =
    BuiltOpenAI string
  | BuiltAzureOpenAI string string string
  | BuiltAnthropic string
  | BuiltAzureAnthropic string string
  | BuiltGoogle string
  | BuiltVertexAI string string

datatype build_error =
    BuildNoApiKey string
  | BuildNoEndpoint string
  | BuildNoProject
  | BuildClient string
  | BuildUnknownType string

text \<open>
  \<open>genai\<close> stands for \<open>genai.NewClient\<close>: the error it returns for a configuration, if any.
  \<open>openai.New\<close> and \<open>anthropic.New\<close> are handed the entry's endpoint and do not use it.
\<close>

definition openai_azure_version :: "string \<Rightarrow> string" where
  "openai_azure_version v = (if v = [] then ''2024-12-01-preview'' else v)"

definition buildProvider ::
  "(built_provider \<Rightarrow> string option) \<Rightarrow> provider_entry \<Rightarrow> build_error + built_provider" where
  "buildProvider genai e =
     (if pe_type e \<noteq> ''vertexai'' \<and> pe_api_key e = [] then Inl (BuildNoApiKey (pe_type e))
      else if pe_type e = ''openai'' then Inr (BuiltOpenAI (pe_api_key e))
      else if pe_type e = ''azureopenai'' then
        (if pe_endpoint e = [] then Inl (BuildNoEndpoint (pe_type e))
         else Inr (BuiltAzureOpenAI (pe_api_key e) (pe_endpoint e)
                     (openai_azure_version (pe_api_version e))))
      else if pe_type e = ''anthropic'' then Inr (BuiltAnthropic (pe_api_key e))
      else if pe_type e = ''azureanthropic'' then
        (if pe_endpoint e = [] then Inl (BuildNoEndpoint (pe_type e))
         else Inr (BuiltAzureAnthropic (pe_api_key e) (pe_endpoint e)))
      else if pe_type e = ''google'' then
        (case genai (BuiltGoogle (pe_api_key e)) of
           Some err \<Rightarrow> Inl (BuildClient err) | None \<Rightarrow> Inr (BuiltGoogle (pe_api_key e)))
      else if pe_type e = ''vertexai'' then
        (if pe_project e = [] \<or> pe_location e = [] then Inl BuildNoProject
         else case genai (BuiltVertexAI (pe_project e) (pe_location e)) of
                Some err \<Rightarrow> Inl (BuildClient err)
              | None \<Rightarrow> Inr (BuiltVertexAI (pe_project e) (pe_location e)))
      else Inl (BuildUnknownType (pe_type e)))"

fun built_name :: "built_provider \<Rightarrow> string" where
  "built_name (BuiltOpenAI _) = ''openai''"
| "built_name (BuiltAzureOpenAI _ _ _) = ''openai''"
| "built_name (BuiltAnthropic _) = ''anthropic''"
| "built_name (BuiltAzureAnthropic _ _) = ''anthropic''"
| "built_name (BuiltGoogle _) = ''google''"
| "built_name (BuiltVertexAI _ _) = ''google''"

subsection \<open>Circuit breaker configuration\<close>

record breaker_config =
  bc_max_requests :: nat
  bc_interval :: int
  bc_timeout :: int
  bc_min_requests :: nat
  bc_failure_ratio :: float64

definition DefaultCircuitBreakerConfig :: breaker_config where
  "DefaultCircuitBreakerConfig =
     \<lparr>bc_max_requests = 3, bc_interval = 30000000000, bc_timeout = 60000000000,
      bc_min_requests = 5, bc_failure_ratio = 1 / 2\<rparr>"

definition override_duration :: "string \<Rightarrow> int \<Rightarrow> int" where
  "override_duration s d =
     (if s \<noteq> [] then (case ParseDuration s of Some d' \<Rightarrow> d' | None \<Rightarrow> d) else d)"

definition circuitBreakerConfigFromEntry :: "provider_entry \<Rightarrow> breaker_config" where
  "circuitBreakerConfigFromEntry e =
     (let cfg = DefaultCircuitBreakerConfig in
      case pe_circuit_breaker e of
        None \<Rightarrow> cfg
      | Some cb \<Rightarrow>
          \<lparr>bc_max_requests = (if ce_max_requests cb \<noteq> 0 then ce_max_requests cb
                             else bc_max_requests cfg),
           bc_interval = override_duration (ce_interval cb) (bc_interval cfg),
           bc_timeout = override_duration (ce_timeout cb) (bc_timeout cfg),
           bc_min_requests = (if ce_min_requests cb \<noteq> 0 then ce_min_requests cb
                              else bc_min_requests cfg),
           bc_failure_ratio = (if ce_failure_ratio cb \<noteq> 0 then ce_failure_ratio cb
                               else bc_failure_ratio cfg)\<rparr>)"

text \<open>The \<open>ReadyToTrip\<close> callback over the breaker's counts of requests and failures.\<close>

definition ready_to_trip :: "breaker_config \<Rightarrow> nat \<Rightarrow> nat \<Rightarrow> bool" where
  "ready_to_trip cfg requests failures =
     (if requests < bc_min_requests cfg then False
      else bc_failure_ratio cfg \<le> of_nat failures / of_nat requests)"

subsection \<open>CircuitBreakerProvider\<close>

text \<open>
  \<open>TwoStepCircuitBreaker\<close>: \<open>Allow\<close> refuses with an error or returns a token for the \<open>done\<close>
  callback. \<open>cb_Generate\<close> also returns whether the wrapped provider was called.
\<close>

record ('b, 'd) breaker =
  bk_allow :: "'b \<Rightarrow> (go_error + 'd) \<times> 'b"
  bk_done :: "'d \<Rightarrow> bool \<Rightarrow> 'b \<Rightarrow> 'b"

definition cb_Generate ::
  "('b, 'd) breaker \<Rightarrow> provider \<Rightarrow> 'b \<Rightarrow> message list \<Rightarrow> response_request \<Rightarrow>
   (go_error + provider_result) \<times> 'b" where
  "cb_Generate bk p st msgs req =
     (case bk_allow bk st of
        (Inl err, st') \<Rightarrow> (Inl err, st')
      | (Inr tok, st') \<Rightarrow>
          (let r = pv_generate p msgs req in (r, bk_done bk tok (is_ok r) st')))"

text \<open>
  The channels \<open>GenerateStream\<close> returns, as what is received on them when both are drained:
  a refusal puts its error on the error channel; otherwise the wrapping goroutine forwards
  the provider's error and reports the outcome to the breaker.
\<close>

definition cb_GenerateStream ::
  "('b, 'd) breaker \<Rightarrow> provider \<Rightarrow> 'b \<Rightarrow> message list \<Rightarrow> response_request \<Rightarrow>
   (provider_stream_delta list \<times> go_error option) \<times> 'b" where
  "cb_GenerateStream bk p st msgs req =
     (case bk_allow bk st of
        (Inl err, st') \<Rightarrow> (([], Some err), st')
      | (Inr tok, st') \<Rightarrow>
          (case pv_stream p msgs req of
             (deltas, Some err) \<Rightarrow> ((deltas, Some err), bk_done bk tok False st')
           | (deltas, None) \<Rightarrow> ((deltas, None), bk_done bk tok True st')))"

subsection \<open>Registry\<close>

record 'p registry =
  rg_providers :: "(string \<times> 'p) list"
  rg_models :: "string \<Rightarrow> string option"
  rg_model_ids :: "string \<Rightarrow> string option"
  rg_model_list :: "model_entry list"

text \<open>
  The construction loop, over the entries in the order \<open>range\<close> yields them. \<open>mk\<close> stands for
  \<open>NewCircuitBreakerProvider\<close> on what \<open>buildProvider\<close> returned.
\<close>

fun build_all ::
  "(built_provider \<Rightarrow> string option) \<Rightarrow> (built_provider \<Rightarrow> breaker_config \<Rightarrow> 'p) \<Rightarrow>
   (string \<times> provider_entry) list \<Rightarrow> (string \<times> build_error) + (string \<times> 'p) list" where
  "build_all genai mk [] = Inr []"
| "build_all genai mk ((name, e) # es) =
     (case buildProvider genai e of
        Inl err \<Rightarrow> Inl (name, err)
      | Inr b \<Rightarrow>
          (case build_all genai mk es of
             Inl err \<Rightarrow> Inl err
           | Inr ps \<Rightarrow> Inr ((name, mk b (circuitBreakerConfigFromEntry e)) # ps)))"

fun index_models ::
  "model_entry list \<Rightarrow> (string \<Rightarrow> string option) \<Rightarrow> (string \<Rightarrow> string option) \<Rightarrow>
   (string \<Rightarrow> string option) \<times> (string \<Rightarrow> string option)" where
  "index_models [] ms ids = (ms, ids)"
| "index_models (m # rest) ms ids =
     index_models rest (ms(me_name m \<mapsto> me_provider m))
       (if me_provider_model_id m \<noteq> [] then ids(me_name m \<mapsto> me_provider_model_id m) else ids)"

definition NewRegistry ::
  "((string \<times> provider_entry) list \<Rightarrow> (string \<times> provider_entry) list) \<Rightarrow>
   (built_provider \<Rightarrow> string option) \<Rightarrow> (built_provider \<Rightarrow> breaker_config \<Rightarrow> 'p) \<Rightarrow>
   (string \<times> provider_entry) list \<Rightarrow> model_entry list \<Rightarrow> (string \<times> build_error) + 'p registry" where
  "NewRegistry ord genai mk entries models =
     (case build_all genai mk (ord entries) of
        Inl err \<Rightarrow> Inl err
      | Inr ps \<Rightarrow>
          (let (ms, ids) = index_models models Map.empty Map.empty in
           Inr \<lparr>rg_providers = ps, rg_models = ms, rg_model_ids = ids, rg_model_list = models\<rparr>))"

definition Get :: "'p registry \<Rightarrow> string \<Rightarrow> 'p option" where
  "Get reg name = map_of (rg_providers reg) name"

definition Models :: "'p registry \<Rightarrow> (string \<times> string) list" where
  "Models reg =
     map (\<lambda>m. (me_provider m, me_name m))
       (filter (\<lambda>m. Get reg (me_provider m) \<noteq> None) (rg_model_list reg))"

definition ResolveModelID :: "'p registry \<Rightarrow> string \<Rightarrow> string" where
  "ResolveModelID reg model = (case rg_model_ids reg model of Some i \<Rightarrow> i | None \<Rightarrow> model)"

datatype registry_error =
    ProviderUnavailable string string
  | ModelNotConfigured string
  | NoProviders
  | ProviderNotConfigured string

definition Default ::
  "((string \<times> 'p) list \<Rightarrow> (string \<times> 'p) list) \<Rightarrow> 'p registry \<Rightarrow> string \<Rightarrow> registry_error + 'p" where
  "Default ord reg model =
     (if model \<noteq> [] then
        (case rg_models reg model of
           Some name \<Rightarrow>
             (case Get reg name of
                Some p \<Rightarrow> Inr p
              | None \<Rightarrow> Inl (ProviderUnavailable model name))
         | None \<Rightarrow> Inl (ModelNotConfigured model))
      else (case ord (rg_providers reg) of
              [] \<Rightarrow> Inl NoProviders
            | (_, p) # _ \<Rightarrow> Inr p))"

text \<open>
  \<open>RegistryHolder\<close> hands every call to the registry it holds at that moment; \<open>Swap\<close> replaces
  it. A request that looks up twice may see two registries.
\<close>

record 'p registry_holder =
  rh_reg :: "'p registry"

definition Swap :: "'p registry_holder \<Rightarrow> 'p registry \<Rightarrow> 'p registry_holder" where
  "Swap h reg = h\<lparr>rh_reg := reg\<rparr>"

subsection \<open>The registry contract\<close>

text \<open>What the server relies on in the \<open>ProviderRegistry\<close> interface.\<close>

locale provider_registry =
  fixes wf :: "'r \<Rightarrow> bool" and get :: "'r \<Rightarrow> string \<Rightarrow> 'p option"
    and models :: "'r \<Rightarrow> (string \<times> string) list" and default :: "'r \<Rightarrow> string \<Rightarrow> 'e + 'p"
  assumes default_get: "wf r \<Longrightarrow> m \<noteq> [] \<Longrightarrow> default r m = Inr p \<Longrightarrow> \<exists>n. get r n = Some p"
    and models_get: "wf r \<Longrightarrow> (n, m) \<in> set (models r) \<Longrightarrow> get r n \<noteq> None"
    and models_default: "wf r \<Longrightarrow> (n, m) \<in> set (models r) \<Longrightarrow> \<exists>p. default r m = Inr p"
begin

lemma listed_model_served:
  assumes "wf r" and "m \<in> snd ` set (models r)" and "m \<noteq> []"
  shows "\<exists>p n. default r m = Inr p \<and> get r n = Some p"
proof -
  from assms(2) obtain n where "(n, m) \<in> set (models r)" by auto
  with models_default [OF assms(1)] obtain p where "default r m = Inr p" by blast
  with default_get [OF assms(1,3)] show ?thesis by blast
qed

lemma no_models_without_provider: "wf r \<Longrightarrow> (\<And>n. get r n = None) \<Longrightarrow> models r = []"
  using models_get [of r] by (cases "models r") auto

end

subsection \<open>Facts about construction\<close>

definition model_index :: "model_entry list \<Rightarrow> string \<Rightarrow> string option" where
  "model_index ms = map_of (rev (map (\<lambda>m. (me_name m, me_provider m)) ms))"

lemma index_models_fst:
  "fst (index_models ms a b) = a ++ model_index ms"
  by (induction ms arbitrary: a b) (auto simp: model_index_def map_add_def split: option.splits)

definition id_index :: "model_entry list \<Rightarrow> string \<Rightarrow> string option" where
  "id_index ms = map_of (rev (map (\<lambda>m. (me_name m, me_provider_model_id m))
                               (filter (\<lambda>m. me_provider_model_id m \<noteq> []) ms)))"

lemma index_models_snd:
  "snd (index_models ms a b) = b ++ id_index ms"
  by (induction ms arbitrary: a b) (auto simp: id_index_def map_add_def split: option.splits)

lemma build_all_lookup:
  "build_all genai mk es = Inr ps \<Longrightarrow>
   map_of ps n = (case map_of es n of
       None \<Rightarrow> None
     | Some e \<Rightarrow> (case buildProvider genai e of
                    Inl err \<Rightarrow> None
                  | Inr b \<Rightarrow> Some (mk b (circuitBreakerConfigFromEntry e))))"
  by (induction genai mk es arbitrary: ps rule: build_all.induct) (auto split: sum.splits)

lemma build_all_ok:
  "(\<And>n e. (n, e) \<in> set es \<Longrightarrow> is_ok (buildProvider genai e)) \<Longrightarrow> is_ok (build_all genai mk es)"
  by (induction genai mk es rule: build_all.induct) (force split: sum.splits)+

lemma validate_model_entry:
  "validate_model entries m = None \<Longrightarrow>
     \<exists>e. map_of entries (me_provider m) = Some e \<and>
         ((\<forall>b. genai b = None) \<longrightarrow> is_ok (buildProvider genai e))"
  by (auto simp: validate_model_def buildProvider_def split: option.splits if_splits)

end
