(* ===== verification/Observability.thy ===== *)
theory Observability
  imports ConversationStore Providers
begin

text \<open>
  \<open>internal/observability\<close>: the metrics of \<open>metrics.go\<close>, the conversation store that records
  every operation (\<open>store_wrapper.go\<close>) and the registry that hands out instrumented providers
  (\<open>init.go\<close>).

  A Prometheus vector is a map from label values to a number; of a histogram the number of
  observations is kept, not the durations. A span of the tracer is its name, its attributes in the
  order they are set and the status it ends with. The prometheus registry and the tracer provider
  may be nil: \<open>oc_metrics\<close> and \<open>oc_tracing\<close> say whether they are there. \<open>oc_error_text\<close>
  is the text of a store's error.
\<close>

subsection \<open>Metrics and spans\<close>

datatype span_attr = AttrStr string string | AttrInt string int | AttrSeconds string int

datatype span_status = SpanUnset | SpanOk | SpanFailed string

record span_rec =
  sp_name :: string
  sp_attrs :: "span_attr list"
  sp_status :: span_status
  sp_ended :: bool

text \<open>The operations on a span have no effect once \<open>End\<close> was called, as OpenTelemetry documents.\<close>

definition start_span :: "string \<Rightarrow> span_attr list \<Rightarrow> span_rec" where
  "start_span name attrs = \<lparr>sp_name = name, sp_attrs = attrs, sp_status = SpanUnset, sp_ended = False\<rparr>"

definition set_attributes :: "span_attr list \<Rightarrow> span_rec \<Rightarrow> span_rec" where
  "set_attributes attrs sp = (if sp_ended sp then sp else sp\<lparr>sp_attrs := sp_attrs sp @ attrs\<rparr>)"

definition set_status :: "span_status \<Rightarrow> span_rec \<Rightarrow> span_rec" where
  "set_status st sp = (if sp_ended sp then sp else sp\<lparr>sp_status := st\<rparr>)"

definition end_span :: "span_rec \<Rightarrow> span_rec" where
  "end_span sp = sp\<lparr>sp_ended := True\<rparr>"

record store_metrics =
  sm_total :: "string \<times> string \<times> string \<Rightarrow> nat"
  sm_durations :: "string \<times> string \<Rightarrow> nat"
  sm_active :: "string \<Rightarrow> int"

record obs_config =
  oc_metrics :: bool
  oc_tracing :: bool
  oc_backend :: string
  oc_error_text :: "store_error \<Rightarrow> string"

record breaker_metrics =
  bm_state :: "string \<Rightarrow> nat"
  bm_transitions :: "string \<times> string \<times> string \<Rightarrow> nat"

definition RecordCircuitBreakerStateChange ::
  "string \<Rightarrow> string \<Rightarrow> string \<Rightarrow> breaker_metrics \<Rightarrow> breaker_metrics" where
  "RecordCircuitBreakerStateChange provider old new m =
     (let m1 = m\<lparr>bm_transitions := (bm_transitions m)
                  ((provider, old, new) := bm_transitions m (provider, old, new) + 1)\<rparr>;
          v = (if new = ''closed'' then 0 else if new = ''open'' then 1
               else if new = ''half-open'' then 2 else 0)
      in m1\<lparr>bm_state := (bm_state m1)(provider := v)\<rparr>)"

subsection \<open>InstrumentedStore\<close>

record 's observed =
  ob_base :: 's
  ob_metrics :: store_metrics
  ob_spans :: "span_rec list"

definition NewInstrumentedStore ::
  "obs_config \<Rightarrow> 's store_ops \<Rightarrow> 's \<Rightarrow> store_metrics \<Rightarrow> 's observed" where
  "NewInstrumentedStore cfg ops s m =
     \<lparr>ob_base = s,
      ob_metrics = (if oc_metrics cfg
                    then m\<lparr>sm_active := (sm_active m)(oc_backend cfg := int (so_size ops s))\<rparr> else m),
      ob_spans = []\<rparr>"

text \<open>What the wrappers share: counting a call, moving the gauge, and closing a span.\<close>

definition call_status :: "store_error option \<Rightarrow> string" where
  "call_status err = (if err = None then ''success'' else ''error'')"

definition count_call ::
  "obs_config \<Rightarrow> string \<Rightarrow> store_error option \<Rightarrow> 's observed \<Rightarrow> 's observed" where
  "count_call cfg op err s =
     (if oc_metrics cfg
      then (let m = ob_metrics s; k = (op, oc_backend cfg, call_status err); d = (op, oc_backend cfg)
            in s\<lparr>ob_metrics := m\<lparr>sm_total := (sm_total m)(k := sm_total m k + 1),
                                sm_durations := (sm_durations m)(d := sm_durations m d + 1)\<rparr>\<rparr>)
      else s)"

definition move_active ::
  "obs_config \<Rightarrow> int \<Rightarrow> store_error option \<Rightarrow> 's observed \<Rightarrow> 's observed" where
  "move_active cfg d err s =
     (if oc_metrics cfg \<and> err = None
      then (let m = ob_metrics s; b = oc_backend cfg
            in s\<lparr>ob_metrics := m\<lparr>sm_active := (sm_active m)(b := sm_active m b + d)\<rparr>\<rparr>)
      else s)"

definition trace_call ::
  "obs_config \<Rightarrow> string \<Rightarrow> span_attr list \<Rightarrow> store_error option \<Rightarrow> span_attr list \<Rightarrow>
   's observed \<Rightarrow> 's observed" where
  "trace_call cfg name attrs err ok_attrs s =
     (if oc_tracing cfg
      then (let sp = start_span name attrs;
                sp1 = (case err of
                         Some e \<Rightarrow> set_status (SpanFailed (oc_error_text cfg e)) sp
                       | None \<Rightarrow> set_status SpanOk (set_attributes ok_attrs sp))
            in s\<lparr>ob_spans := ob_spans s @ [end_span sp1]\<rparr>)
      else s)"

fun error_of :: "store_error + 'a \<Rightarrow> store_error option" where
  "error_of (Inl e) = Some e"
| "error_of (Inr _) = None"

fun conv_attrs :: "(conversation \<Rightarrow> span_attr list) \<Rightarrow> store_error + conversation option \<Rightarrow> span_attr list" where
  "conv_attrs f (Inr (Some c)) = f c"
| "conv_attrs f _ = []"

definition os_Get ::
  "obs_config \<Rightarrow> 's store_ops \<Rightarrow> 's observed \<Rightarrow> string \<Rightarrow>
   (store_error + conversation option) \<times> 's observed" where
  "os_Get cfg ops s k =
     (let r = so_get ops (ob_base s) k;
          s1 = trace_call cfg ''conversation.get''
                 [AttrStr ''conversation.id'' k, AttrStr ''conversation.backend'' (oc_backend cfg)]
                 (error_of r)
                 (conv_attrs (\<lambda>c. [AttrInt ''conversation.message_count'' (int (length (cv_messages c))),
                                   AttrStr ''conversation.model'' (cv_model c)]) r) s
      in (r, count_call cfg ''get'' (error_of r) s1))"

definition os_Create ::
  "obs_config \<Rightarrow> 's store_ops \<Rightarrow> 's observed \<Rightarrow> timestamp \<Rightarrow> string \<Rightarrow> string \<Rightarrow> message list \<Rightarrow>
   owner_info \<Rightarrow> response_request option \<Rightarrow> replay_state option \<Rightarrow>
   (store_error + conversation option) \<times> 's observed" where
  "os_Create cfg ops s now k model msgs owner req rep =
     (let (r, b) = so_create ops (ob_base s) now k model msgs owner req rep;
          s1 = trace_call cfg ''conversation.create''
                 [AttrStr ''conversation.id'' k, AttrStr ''conversation.backend'' (oc_backend cfg),
                  AttrStr ''conversation.model'' model,
                  AttrInt ''conversation.initial_messages'' (int (length msgs))]
                 (error_of r) [] (s\<lparr>ob_base := b\<rparr>)
      in (r, move_active cfg 1 (error_of r) (count_call cfg ''create'' (error_of r) s1)))"

definition os_Append ::
  "obs_config \<Rightarrow> 's store_ops \<Rightarrow> 's observed \<Rightarrow> timestamp \<Rightarrow> string \<Rightarrow> message list \<Rightarrow>
   (store_error + conversation option) \<times> 's observed" where
  "os_Append cfg ops s now k msgs =
     (let (r, b) = so_append ops (ob_base s) now k msgs;
          s1 = trace_call cfg ''conversation.append''
                 [AttrStr ''conversation.id'' k, AttrStr ''conversation.backend'' (oc_backend cfg),
                  AttrInt ''conversation.appended_messages'' (int (length msgs))]
                 (error_of r)
                 (conv_attrs (\<lambda>c. [AttrInt ''conversation.total_messages''
                                             (int (length (cv_messages c)))]) r)
                 (s\<lparr>ob_base := b\<rparr>)
      in (r, count_call cfg ''append'' (error_of r) s1))"

definition os_Delete ::
  "obs_config \<Rightarrow> 's store_ops \<Rightarrow> 's observed \<Rightarrow> string \<Rightarrow> store_error option \<times> 's observed" where
  "os_Delete cfg ops s k =
     (let (err, b) = so_delete ops (ob_base s) k;
          s1 = trace_call cfg ''conversation.delete''
                 [AttrStr ''conversation.id'' k, AttrStr ''conversation.backend'' (oc_backend cfg)]
                 err [] (s\<lparr>ob_base := b\<rparr>)
      in (err, move_active cfg (- 1) err (count_call cfg ''delete'' err s1)))"

definition os_Size :: "'s store_ops \<Rightarrow> 's observed \<Rightarrow> nat" where
  "os_Size ops s = so_size ops (ob_base s)"

fun list_attrs :: "store_error + list_result \<Rightarrow> span_attr list" where
  "list_attrs (Inl e) = []"
| "list_attrs (Inr r) =
     [AttrInt ''conversation.result_count'' (int (length (lr_conversations r))),
      AttrInt ''conversation.total_count'' (int (lr_total r))]"

definition os_List ::
  "obs_config \<Rightarrow> 's store_ops \<Rightarrow> 's observed \<Rightarrow> list_options \<Rightarrow>
   (store_error + list_result) \<times> 's observed" where
  "os_List cfg ops s opts =
     (let r = so_list ops (ob_base s) opts;
          s1 = trace_call cfg ''conversation.list''
                 [AttrStr ''conversation.backend'' (oc_backend cfg),
                  AttrInt ''conversation.page'' (lo_page opts),
                  AttrInt ''conversation.limit'' (lo_limit opts)]
                 (error_of r) (list_attrs r) s
      in (r, count_call cfg ''list'' (error_of r) s1))"

subsection \<open>The instrumented store as a store\<close>

text \<open>
  What a client of the interface sees. The reads of the record \<open>store_ops\<close> return no state: what
  they add to metrics and spans is in \<open>os_Get\<close> and \<open>os_List\<close> and changes no later answer.
\<close>

definition seen_ops :: "obs_config \<Rightarrow> 's store_ops \<Rightarrow> 's observed store_ops" where
  "seen_ops cfg ops =
     \<lparr>so_get = (\<lambda>s k. fst (os_Get cfg ops s k)), so_create = os_Create cfg ops,
      so_append = os_Append cfg ops, so_delete = os_Delete cfg ops, so_size = os_Size ops,
      so_list = (\<lambda>s opts. fst (os_List cfg ops s opts))\<rparr>"

lemma observed_base [simp]:
  "ob_base (count_call cfg op err s) = ob_base s"
  "ob_base (move_active cfg d err s) = ob_base s"
  "ob_base (trace_call cfg name attrs err ok_attrs s) = ob_base s"
  by (simp_all add: count_call_def move_active_def trace_call_def Let_def)

lemma seen_get [simp]: "so_get (seen_ops cfg ops) s k = so_get ops (ob_base s) k"
  by (simp add: seen_ops_def os_Get_def Let_def)

lemma seen_list [simp]: "so_list (seen_ops cfg ops) s opts = so_list ops (ob_base s) opts"
  by (simp add: seen_ops_def os_List_def Let_def)

lemma seen_create [simp]:
  "fst (so_create (seen_ops cfg ops) s now k model msgs owner req rep)
     = fst (so_create ops (ob_base s) now k model msgs owner req rep)"
  "ob_base (snd (so_create (seen_ops cfg ops) s now k model msgs owner req rep))
     = snd (so_create ops (ob_base s) now k model msgs owner req rep)"
  by (simp_all add: seen_ops_def os_Create_def Let_def split: prod.split)

lemma seen_append [simp]:
  "fst (so_append (seen_ops cfg ops) s now k msgs) = fst (so_append ops (ob_base s) now k msgs)"
  "ob_base (snd (so_append (seen_ops cfg ops) s now k msgs)) = snd (so_append ops (ob_base s) now k msgs)"
  by (simp_all add: seen_ops_def os_Append_def Let_def split: prod.split)

lemma seen_delete [simp]:
  "fst (so_delete (seen_ops cfg ops) s k) = fst (so_delete ops (ob_base s) k)"
  "ob_base (snd (so_delete (seen_ops cfg ops) s k)) = snd (so_delete ops (ob_base s) k)"
  by (simp_all add: seen_ops_def os_Delete_def Let_def split: prod.split)

text \<open>The contract carries over: what a backend promises, its instrumented form promises.\<close>

lemma seen_conv_store:
  assumes "conv_store ops valid"
  shows "conv_store (seen_ops cfg ops) (\<lambda>s. valid (ob_base s))"
proof -
  note laws = assms [unfolded conv_store_def]
  show ?thesis unfolding conv_store_def using laws by simp
qed

lemma seen_persistent_store:
  assumes "persistent_store ops valid"
  shows "persistent_store (seen_ops cfg ops) (\<lambda>s. valid (ob_base s))"
proof -
  note laws = assms [unfolded persistent_store_def persistent_store_axioms_def]
  have "conv_store (seen_ops cfg ops) (\<lambda>s. valid (ob_base s))"
    by (rule seen_conv_store [OF conjunct1 [OF laws]])
  moreover have "persistent_store_axioms (seen_ops cfg ops) (\<lambda>s. valid (ob_base s))"
    unfolding persistent_store_axioms_def using conjunct2 [OF laws] by simp
  ultimately show ?thesis by (rule persistent_store.intro)
qed

interpretation obssql: persistent_store "seen_ops cfg (sql_ops like)" "\<lambda>s. sql_inv (ob_base s)"
  by (rule seen_persistent_store) (rule sqlst.persistent_store_axioms)

interpretation obsnop: conv_store "seen_ops cfg nop_ops" "\<lambda>s. True"
  by (rule seen_conv_store [OF nopst.conv_store_axioms])

subsection \<open>InstrumentedProvider\<close>

text \<open>
  What \<open>provider_wrapper.go\<close> records; what it forwards is in theory \<open>Channels\<close>. \<open>GenerateStream\<close>
  ends its span when it returns, and the goroutine that forwards the deltas records on it later.
\<close>

record provider_metrics =
  pm_requests :: "string \<times> string \<times> string \<times> string \<Rightarrow> nat"
  pm_durations :: "string \<times> string \<times> string \<Rightarrow> nat"
  pm_tokens :: "string \<times> string \<times> string \<Rightarrow> int"
  pm_chunks :: "string \<times> string \<Rightarrow> nat"
  pm_stream_durations :: "string \<times> string \<Rightarrow> nat"
  pm_ttfb :: "string \<times> string \<Rightarrow> nat"

definition bump :: "('k \<Rightarrow> 'n::{one,plus}) \<Rightarrow> 'k \<Rightarrow> ('k \<Rightarrow> 'n)" where
  "bump f k = f(k := f k + 1)"

definition add_tokens :: "string \<Rightarrow> string \<Rightarrow> int \<Rightarrow> int \<Rightarrow> provider_metrics \<Rightarrow> provider_metrics" where
  "add_tokens name model i out m =
     (let m1 = m\<lparr>pm_tokens := (pm_tokens m)
                   ((name, model, ''input'') := pm_tokens m (name, model, ''input'') + i)\<rparr>
      in m1\<lparr>pm_tokens := (pm_tokens m1)
               ((name, model, ''output'') := pm_tokens m1 (name, model, ''output'') + out)\<rparr>)"

definition ip_Generate ::
  "obs_config \<Rightarrow> provider \<Rightarrow> message list \<Rightarrow> response_request \<Rightarrow> provider_metrics \<Rightarrow> span_rec list \<Rightarrow>
   (go_error + provider_result) \<times> provider_metrics \<times> span_rec list" where
  "ip_Generate cfg p msgs req m spans =
     (let sp = start_span ''provider.generate''
                 [AttrStr ''provider.name'' (pv_name p), AttrStr ''provider.model'' (rq_model req)];
          result = pv_generate p msgs req;
          sp1 = (case result of
                   Inl err \<Rightarrow> set_status (SpanFailed (go_error_text err)) sp
                 | Inr r \<Rightarrow> set_status SpanOk (set_attributes
                     [AttrInt ''provider.input_tokens'' (us_input_tokens (pr_usage r)),
                      AttrInt ''provider.output_tokens'' (us_output_tokens (pr_usage r)),
                      AttrInt ''provider.total_tokens'' (us_total_tokens (pr_usage r))] sp));
          status = (if is_ok result then ''success'' else ''error'');
          m1 = (case result of
                  Inl _ \<Rightarrow> m
                | Inr r \<Rightarrow> add_tokens (pv_name p) (rq_model req) (us_input_tokens (pr_usage r))
                            (us_output_tokens (pr_usage r)) m);
          m2 = m1\<lparr>pm_requests := bump (pm_requests m1) (pv_name p, rq_model req, ''generate'', status),
                  pm_durations := bump (pm_durations m1) (pv_name p, rq_model req, ''generate'')\<rparr>
      in (result, if oc_metrics cfg then m2 else m,
          if oc_tracing cfg then spans @ [end_span sp1] else spans))"

text \<open>The usage of the last delta that has one, and \<open>recordMetrics\<close> after the forwarding loop.\<close>

definition stream_totals :: "provider_stream_delta list \<Rightarrow> int \<times> int" where
  "stream_totals ds =
     foldl (\<lambda>t d. case pd_usage d of None \<Rightarrow> t | Some u \<Rightarrow> (us_input_tokens u, us_output_tokens u)) (0, 0) ds"

definition record_stream_metrics ::
  "string \<Rightarrow> string \<Rightarrow> provider_stream_delta list \<Rightarrow> go_error option \<Rightarrow> int \<Rightarrow>
   provider_metrics \<Rightarrow> provider_metrics" where
  "record_stream_metrics name model ds err ttfb m =
     (let (i, out) = stream_totals ds;
          m1 = (if err = None \<and> (i > 0 \<or> out > 0) then add_tokens name model i out m else m);
          m2 = m1\<lparr>pm_requests := bump (pm_requests m1)
                     (name, model, ''generate_stream'', if err = None then ''success'' else ''error''),
                  pm_stream_durations := bump (pm_stream_durations m1) (name, model),
                  pm_chunks := (pm_chunks m1)((name, model) := pm_chunks m1 (name, model) + length ds)\<rparr>
      in if ds \<noteq> [] \<and> ttfb > 0 then m2\<lparr>pm_ttfb := bump (pm_ttfb m2) (name, model)\<rparr> else m2)"

definition record_stream_span ::
  "provider_stream_delta list \<Rightarrow> go_error option \<Rightarrow> int \<Rightarrow> span_rec \<Rightarrow> span_rec" where
  "record_stream_span ds err ttfb sp =
     (case err of
        Some e \<Rightarrow> set_status (SpanFailed (go_error_text e)) sp
      | None \<Rightarrow> set_status SpanOk (set_attributes
          [AttrInt ''provider.input_tokens'' (fst (stream_totals ds)),
           AttrInt ''provider.output_tokens'' (snd (stream_totals ds)),
           AttrInt ''provider.chunk_count'' (int (length ds)),
           AttrSeconds ''provider.ttfb_seconds'' (if ds = [] then 0 else ttfb)] sp))"

definition ip_stream_records ::
  "obs_config \<Rightarrow> provider \<Rightarrow> response_request \<Rightarrow> provider_stream_delta list \<Rightarrow> go_error option \<Rightarrow> int \<Rightarrow>
   provider_metrics \<Rightarrow> span_rec list \<Rightarrow> provider_metrics \<times> span_rec list" where
  "ip_stream_records cfg p req ds err ttfb m spans =
     (let sp = start_span ''provider.generate_stream''
                 [AttrStr ''provider.name'' (pv_name p), AttrStr ''provider.model'' (rq_model req)];
          returned = end_span sp;
          later = record_stream_span ds err ttfb returned
      in (if oc_metrics cfg then record_stream_metrics (pv_name p) (rq_model req) ds err ttfb m else m,
          if oc_tracing cfg then spans @ [later] else spans))"

subsection \<open>InstrumentedRegistry\<close>

text \<open>
  \<open>WrapProviderRegistry\<close> puts a cache of wrappers in front of a registry. A lookup reads the cache
  under the read lock and, if it found nothing, stores the wrapper it built under the write lock:
  two critical sections, with other lookups in between. \<open>Get\<close> uses the name of the entry as key,
  \<open>Default\<close> the \<open>Name\<close> of the provider, which is the name of its vendor's package. \<open>wrap\<close> is
  \<open>NewInstrumentedProvider\<close>, \<open>name\<close> is \<open>Name\<close>.
\<close>

record ('p, 'q) inst_registry =
  ir_base :: "'p registry"
  ir_wrapped :: "string \<Rightarrow> 'q option"

definition WrapProviderRegistry :: "'p registry option \<Rightarrow> ('p, 'q) inst_registry option" where
  "WrapProviderRegistry reg =
     (case reg of None \<Rightarrow> None | Some b \<Rightarrow> Some \<lparr>ir_base = b, ir_wrapped = Map.empty\<rparr>)"

datatype ('e, 'q) lookup =
    Refused 'e
  | Cached 'q
  | Wrapped string 'q

definition get_lookup ::
  "('p \<Rightarrow> 'q) \<Rightarrow> ('p, 'q) inst_registry \<Rightarrow> string \<Rightarrow> (unit, 'q) lookup" where
  "get_lookup wrap r n =
     (case ir_wrapped r n of
        Some w \<Rightarrow> Cached w
      | None \<Rightarrow> (case Get (ir_base r) n of None \<Rightarrow> Refused () | Some p \<Rightarrow> Wrapped n (wrap p)))"

definition default_lookup ::
  "('p \<Rightarrow> 'q) \<Rightarrow> ('p \<Rightarrow> string) \<Rightarrow> ((string \<times> 'p) list \<Rightarrow> (string \<times> 'p) list) \<Rightarrow>
   ('p, 'q) inst_registry \<Rightarrow> string \<Rightarrow> (registry_error, 'q) lookup" where
  "default_lookup wrap name ord r model =
     (case Default ord (ir_base r) model of
        Inl e \<Rightarrow> Refused e
      | Inr p \<Rightarrow> (case ir_wrapped r (name p) of
                   Some w \<Rightarrow> Cached w
                 | None \<Rightarrow> Wrapped (name p) (wrap p)))"

definition store_wrapped :: "string \<Rightarrow> 'q \<Rightarrow> ('p, 'q) inst_registry \<Rightarrow> ('p, 'q) inst_registry" where
  "store_wrapped k w r = r\<lparr>ir_wrapped := (ir_wrapped r)(k \<mapsto> w)\<rparr>"

text \<open>The two methods when nothing runs in between.\<close>

definition inst_Get ::
  "('p \<Rightarrow> 'q) \<Rightarrow> ('p, 'q) inst_registry \<Rightarrow> string \<Rightarrow> 'q option \<times> ('p, 'q) inst_registry" where
  "inst_Get wrap r n =
     (case get_lookup wrap r n of
        Refused _ \<Rightarrow> (None, r) | Cached w \<Rightarrow> (Some w, r) | Wrapped k w \<Rightarrow> (Some w, store_wrapped k w r))"

definition inst_Default ::
  "('p \<Rightarrow> 'q) \<Rightarrow> ('p \<Rightarrow> string) \<Rightarrow> ((string \<times> 'p) list \<Rightarrow> (string \<times> 'p) list) \<Rightarrow>
   ('p, 'q) inst_registry \<Rightarrow> string \<Rightarrow> (registry_error + 'q) \<times> ('p, 'q) inst_registry" where
  "inst_Default wrap name ord r model =
     (case default_lookup wrap name ord r model of
        Refused e \<Rightarrow> (Inl e, r) | Cached w \<Rightarrow> (Inr w, r) | Wrapped k w \<Rightarrow> (Inr w, store_wrapped k w r))"

definition inst_Models :: "('p, 'q) inst_registry \<Rightarrow> (string \<times> string) list" where
  "inst_Models r = Models (ir_base r)"

definition inst_ResolveModelID :: "('p, 'q) inst_registry \<Rightarrow> string \<Rightarrow> string" where
  "inst_ResolveModelID r model = ResolveModelID (ir_base r) model"

text \<open>\<open>WrapConversationStore\<close>: no store, no wrapper.\<close>

definition WrapConversationStore ::
  "obs_config \<Rightarrow> 's store_ops \<Rightarrow> 's option \<Rightarrow> store_metrics \<Rightarrow> 's observed option" where
  "WrapConversationStore cfg ops s m = map_option (\<lambda>b. NewInstrumentedStore cfg ops b m) s"

end
