(* ===== verification/ObservabilityProps.thy ===== *)
theory ObservabilityProps
  imports Observability
begin

text \<open>
  What instrumenting changes: nothing for the clients of the conversation store, whose every call
  is counted once; the gauge of active conversations, which drifts from the table; and the
  registry, which answers as the registry behind it exactly as long as the names of the vendors
  tell the entries apart.
\<close>

subsection \<open>Calls of the store\<close>

datatype store_call =
    CallGet string
  | CallCreate timestamp string string "message list" owner_info "response_request option" "replay_state option"
  | CallAppend timestamp string "message list"
  | CallDelete string
  | CallSize
  | CallList list_options

datatype store_answer =
    AnsConv "store_error + conversation option"
  | AnsDeleted "store_error option"
  | AnsSize nat
  | AnsList "store_error + list_result"

fun base_call :: "'s store_ops \<Rightarrow> 's \<Rightarrow> store_call \<Rightarrow> store_answer \<times> 's" where
  "base_call ops s (CallGet k) = (AnsConv (so_get ops s k), s)"
| "base_call ops s (CallCreate now k model msgs owner req rep) =
     map_prod AnsConv id (so_create ops s now k model msgs owner req rep)"
| "base_call ops s (CallAppend now k msgs) = map_prod AnsConv id (so_append ops s now k msgs)"
| "base_call ops s (CallDelete k) = map_prod AnsDeleted id (so_delete ops s k)"
| "base_call ops s CallSize = (AnsSize (so_size ops s), s)"
| "base_call ops s (CallList opts) = (AnsList (so_list ops s opts), s)"

fun inst_call ::
  "obs_config \<Rightarrow> 's store_ops \<Rightarrow> 's observed \<Rightarrow> store_call \<Rightarrow> store_answer \<times> 's observed" where
  "inst_call cfg ops s (CallGet k) = map_prod AnsConv id (os_Get cfg ops s k)"
| "inst_call cfg ops s (CallCreate now k model msgs owner req rep) =
     map_prod AnsConv id (os_Create cfg ops s now k model msgs owner req rep)"
| "inst_call cfg ops s (CallAppend now k msgs) = map_prod AnsConv id (os_Append cfg ops s now k msgs)"
| "inst_call cfg ops s (CallDelete k) = map_prod AnsDeleted id (os_Delete cfg ops s k)"
| "inst_call cfg ops s CallSize = (AnsSize (os_Size ops s), s)"
| "inst_call cfg ops s (CallList opts) = map_prod AnsList id (os_List cfg ops s opts)"

fun run_calls :: "('s \<Rightarrow> 'c \<Rightarrow> 'a \<times> 's) \<Rightarrow> 's \<Rightarrow> 'c list \<Rightarrow> 'a list \<times> 's" where
  "run_calls f s [] = ([], s)"
| "run_calls f s (c # cs) =
     (let (a, s1) = f s c; (rest, s2) = run_calls f s1 cs in (a # rest, s2))"

fun call_op :: "store_call \<Rightarrow> string option" where
  "call_op (CallGet _) = Some ''get''"
| "call_op (CallCreate _ _ _ _ _ _ _) = Some ''create''"
| "call_op (CallAppend _ _ _) = Some ''append''"
| "call_op (CallDelete _) = Some ''delete''"
| "call_op CallSize = None"
| "call_op (CallList _) = Some ''list''"

fun answer_error :: "store_answer \<Rightarrow> store_error option" where
  "answer_error (AnsConv r) = error_of r"
| "answer_error (AnsDeleted e) = e"
| "answer_error (AnsSize n) = None"
| "answer_error (AnsList r) = error_of r"

definition counts_as :: "string \<Rightarrow> string \<Rightarrow> store_call \<times> store_answer \<Rightarrow> bool" where
  "counts_as op status ca \<longleftrightarrow>
     call_op (fst ca) = Some op \<and> call_status (answer_error (snd ca)) = status"

lemma observed_total:
  "sm_total (ob_metrics (count_call cfg op err s)) (op', b, status) =
     sm_total (ob_metrics s) (op', b, status) +
     (if oc_metrics cfg \<and> b = oc_backend cfg \<and> op' = op \<and> status = call_status err then 1 else 0)"
  "sm_total (ob_metrics (move_active cfg d err s)) = sm_total (ob_metrics s)"
  "sm_total (ob_metrics (trace_call cfg name attrs err ok_attrs s)) = sm_total (ob_metrics s)"
  by (simp_all add: count_call_def move_active_def trace_call_def Let_def)

lemma observed_spans:
  "length (ob_spans (count_call cfg op err s)) = length (ob_spans s)"
  "length (ob_spans (move_active cfg d err s)) = length (ob_spans s)"
  "length (ob_spans (trace_call cfg name attrs err ok_attrs s))
     = length (ob_spans s) + (if oc_tracing cfg then 1 else 0)"
  by (simp_all add: count_call_def move_active_def trace_call_def Let_def)

lemmas observed_defs = os_Get_def os_Create_def os_Append_def os_Delete_def os_Size_def os_List_def

lemma inst_call_step:
  "fst (inst_call cfg ops s c) = fst (base_call ops (ob_base s) c)"
  "ob_base (snd (inst_call cfg ops s c)) = snd (base_call ops (ob_base s) c)"
  by (cases c; simp add: observed_defs Let_def map_prod_def split: prod.split)+

lemma inst_call_counts:
  "sm_total (ob_metrics (snd (inst_call cfg ops s c))) (op, b, status) =
     sm_total (ob_metrics s) (op, b, status) +
     (if oc_metrics cfg \<and> b = oc_backend cfg \<and> counts_as op status (c, fst (base_call ops (ob_base s) c))
      then 1 else 0)"
  by (cases c)
    (auto simp: observed_defs observed_total counts_as_def Let_def map_prod_def split: prod.split)

lemma inst_call_spans:
  "length (ob_spans (snd (inst_call cfg ops s c))) =
     length (ob_spans s) + (if oc_tracing cfg \<and> call_op c \<noteq> None then 1 else 0)"
  by (cases c) (auto simp: observed_defs observed_spans Let_def map_prod_def split: prod.split)

text \<open>C27: instrumenting a store changes no answer and no content, whatever the calls: the
  answers and the table are those of the plain store. With metrics on, each call is counted
  once, under its operation and by whether it failed, and under no other label; with tracing
  on, each call but \<open>Size\<close> leaves one span.\<close>
theorem instrumentation_transparent:
  fixes ops :: "'s store_ops" and s :: "'s observed"
  shows "let (answers, s') = run_calls (inst_call cfg ops) s calls;
             plain = run_calls (base_call ops) (ob_base s) calls
         in answers = fst plain \<and> ob_base s' = snd plain \<and>
            sm_total (ob_metrics s') (op, b, status) = sm_total (ob_metrics s) (op, b, status) +
              (if oc_metrics cfg \<and> b = oc_backend cfg
               then length (filter (counts_as op status) (zip calls answers)) else 0) \<and>
            length (ob_spans s') = length (ob_spans s) +
              (if oc_tracing cfg then length (filter (\<lambda>c. call_op c \<noteq> None) calls) else 0)"
proof (induction calls arbitrary: s)
  case Nil
  show ?case by simp
next
  case (Cons c calls)
  obtain a s1 where step: "inst_call cfg ops s c = (a, s1)" by fastforce
  obtain rest s2 where run: "run_calls (inst_call cfg ops) s1 calls = (rest, s2)" by fastforce
  have plain: "base_call ops (ob_base s) c = (a, ob_base s1)"
    using inst_call_step [of cfg ops s c] step by (cases "base_call ops (ob_base s) c") simp
  show ?case
    using Cons.IH [of s1] inst_call_counts [of cfg ops s c op b status] inst_call_spans [of cfg ops s c]
    by (auto simp: step run plain Let_def split: prod.splits)
qed

subsection \<open>The gauge of active conversations\<close>

datatype db_event = OpEvent store_call | Sweep timestamp

definition observed_event ::
  "obs_config \<Rightarrow> (string \<Rightarrow> string \<Rightarrow> bool) \<Rightarrow> sql_store observed \<Rightarrow> db_event \<Rightarrow> sql_store observed" where
  "observed_event cfg like s e =
     (case e of
        OpEvent c \<Rightarrow> snd (inst_call cfg (sql_ops like) s c)
      | Sweep now \<Rightarrow> s\<lparr>ob_base := sql_cleanup now (ob_base s)\<rparr>)"

text \<open>What one event does to the distance between gauge and table.\<close>

fun gauge_drift :: "sql_store \<Rightarrow> db_event \<Rightarrow> int" where
  "gauge_drift s (OpEvent (CallCreate now k model msgs owner req rep)) =
     (if find_row (ss_rows s) k = None then 0 else 1)"
| "gauge_drift s (OpEvent (CallDelete k)) = (if find_row (ss_rows s) k = None then - 1 else 0)"
| "gauge_drift s (OpEvent _) = 0"
| "gauge_drift s (Sweep now) =
     int (length (filter (\<lambda>row. cr_updated_at row < now - ss_ttl s) (ss_rows s)))"

fun total_drift ::
  "obs_config \<Rightarrow> (string \<Rightarrow> string \<Rightarrow> bool) \<Rightarrow> sql_store observed \<Rightarrow> db_event list \<Rightarrow> int" where
  "total_drift cfg like s [] = 0"
| "total_drift cfg like s (e # es) =
     gauge_drift (ob_base s) e + total_drift cfg like (observed_event cfg like s e) es"

lemma length_delete:
  assumes "distinct (map cr_id rows)"
  shows "length rows = length (filter (\<lambda>old. cr_id old \<noteq> k) rows)
     + (if find_row rows k = None then 0 else 1)"
  using assms
proof (induction rows)
  case (Cons r rows)
  show ?case
  proof (cases "cr_id r = k")
    case True
    with Cons.prems have "find_row rows k = None" by (simp add: find_row_None)
    with Cons True show ?thesis by simp
  next
    case False
    with Cons show ?thesis by simp
  qed
qed simp

lemma length_upsert:
  assumes "distinct (map cr_id rows)"
  shows "length (sql_upsert driver row rows)
     = length rows + (if find_row rows (cr_id row) = None then 1 else 0)"
  using length_delete [OF assms, of "cr_id row"] by (auto simp: sql_upsert_def)

lemma observed_active:
  "sm_active (ob_metrics (count_call cfg op err s)) = sm_active (ob_metrics s)"
  "sm_active (ob_metrics (trace_call cfg name attrs err ok_attrs s)) = sm_active (ob_metrics s)"
  "sm_active (ob_metrics (move_active cfg d err s)) (oc_backend cfg) =
     sm_active (ob_metrics s) (oc_backend cfg) + (if oc_metrics cfg \<and> err = None then d else 0)"
  by (simp_all add: count_call_def move_active_def trace_call_def Let_def)

lemma sweep_inv: "sql_inv s \<Longrightarrow> sql_inv (sql_cleanup now s)"
  by (auto simp: sql_cleanup_def sql_inv_def list_all_iff distinct_map_filter)

lemma sweep_length:
  "ss_up s \<Longrightarrow> int (length (ss_rows (sql_cleanup now s))) =
     int (length (ss_rows s)) - int (length (filter (\<lambda>row. cr_updated_at row < now - ss_ttl s) (ss_rows s)))"
  using sum_length_filter_compl [of "\<lambda>row. cr_updated_at row < now - ss_ttl s" "ss_rows s"]
  by (simp add: sql_cleanup_def)

lemma sql_call_inv: "sql_inv s \<Longrightarrow> sql_inv (snd (base_call (sql_ops like) s c))"
  by (cases c) (auto simp: sql_ops_def sql_Create_inv sql_Append_inv sql_Delete_inv)

lemma event_inv: "sql_inv (ob_base s) \<Longrightarrow> sql_inv (ob_base (observed_event cfg like s e))"
  by (auto simp: observed_event_def inst_call_step sql_call_inv sweep_inv split: db_event.split)

lemma event_gauge:
  assumes "sql_inv (ob_base s)" and "oc_metrics cfg"
  shows "sm_active (ob_metrics (observed_event cfg like s e)) (oc_backend cfg)
      - int (length (ss_rows (ob_base (observed_event cfg like s e))))
    = sm_active (ob_metrics s) (oc_backend cfg) - int (length (ss_rows (ob_base s)))
      + gauge_drift (ob_base s) e"
proof (cases e)
  case (Sweep now)
  with assms show ?thesis by (simp add: observed_event_def sweep_length sql_inv_def)
next
  case (OpEvent c)
  from assms(1) have up: "ss_up (ob_base s)" and d: "distinct (map cr_id (ss_rows (ob_base s)))"
    by (simp_all add: sql_inv_def)
  show ?thesis
  proof (cases c)
    case (CallCreate now k model msgs owner req rep)
    with OpEvent up assms(2) show ?thesis
      by (simp add: observed_event_def os_Create_def sql_ops_def sql_Create_def Let_def
          observed_active length_upsert [OF d])
  next
    case (CallDelete k)
    with OpEvent up assms(2) length_delete [OF d, of k] show ?thesis
      by (auto simp: observed_event_def os_Delete_def sql_ops_def sql_Delete_def Let_def
          observed_active)
  qed (use OpEvent in \<open>auto simp: observed_event_def observed_defs observed_active sql_ops_def
        sql_Append_def Let_def split: sum.split option.split prod.split\<close>)
qed

text \<open>what the gauge of active conversations shows. It starts at the number of rows; after any
  sequence of calls and sweeps it is the number of rows plus the creations that replaced a
  conversation, minus the deletions that found none, plus the conversations the sweeps removed. So
  every expired conversation stays in the gauge until the process restarts.\<close>
theorem active_gauge_drifts:
  assumes "sql_inv s" and "oc_metrics cfg"
  shows "let s0 = NewInstrumentedStore cfg (sql_ops like) s m;
             s1 = foldl (observed_event cfg like) s0 es
         in sm_active (ob_metrics s1) (oc_backend cfg)
              = int (sql_Size (ob_base s1)) + total_drift cfg like s0 es"
proof -
  have run: "sql_inv (ob_base t) \<Longrightarrow>
    sql_inv (ob_base (foldl (observed_event cfg like) t es)) \<and>
    sm_active (ob_metrics (foldl (observed_event cfg like) t es)) (oc_backend cfg)
      - int (length (ss_rows (ob_base (foldl (observed_event cfg like) t es))))
    = sm_active (ob_metrics t) (oc_backend cfg) - int (length (ss_rows (ob_base t)))
      + total_drift cfg like t es" for t
  proof (induction es arbitrary: t)
    case (Cons e es)
    then show ?case
      using event_gauge [OF Cons.prems assms(2), of like e] Cons.IH [OF event_inv [OF Cons.prems]]
      by simp
  qed simp
  show ?thesis
    using run [of "NewInstrumentedStore cfg (sql_ops like) s m"] assms
    by (auto simp: NewInstrumentedStore_def Let_def sql_ops_def sql_Size_def sql_inv_def)
qed

definition sample_metrics :: store_metrics where
  "sample_metrics = \<lparr>sm_total = (\<lambda>_. 0), sm_durations = (\<lambda>_. 0), sm_active = (\<lambda>_. 0)\<rparr>"

definition sample_obs :: obs_config where
  "sample_obs = \<lparr>oc_metrics = True, oc_tracing = False, oc_backend = ''sql'',
     oc_error_text = (\<lambda>_. [])\<rparr>"

theorem active_gauge_drifts_witness:
  "let s0 = NewInstrumentedStore sample_obs (sql_ops (\<lambda>_ _. False)) sample_store sample_metrics;
       s1 = foldl (observed_event sample_obs (\<lambda>_ _. False)) s0
              [OpEvent (CallCreate 1 ''r'' ''m'' [] sample_owner None None), Sweep 1000]
   in sm_active (ob_metrics s1) ''sql'' = 1 \<and> sql_Size (ob_base s1) = 0"
proof -
  let ?es = "[OpEvent (CallCreate 1 ''r'' ''m'' [] sample_owner None None), Sweep 1000]"
  let ?s0 = "NewInstrumentedStore sample_obs (sql_ops (\<lambda>_ _. False)) sample_store sample_metrics"
  have "sql_Size (ob_base (foldl (observed_event sample_obs (\<lambda>_ _. False)) ?s0 ?es)) = 0"
    and "total_drift sample_obs (\<lambda>_ _. False) ?s0 ?es = 1" by code_simp+
  with active_gauge_drifts [OF sample_store_inv, of sample_obs "\<lambda>_ _. False" sample_metrics ?es]
  show ?thesis by (simp add: Let_def sample_obs_def)
qed

subsection \<open>Spans and tokens of a provider call\<close>

text \<open>The span of a streamed call is exported as it was started: neither the tokens nor the error
  the goroutine records afterwards are in it.\<close>

lemma stream_span_empty:
  "oc_tracing cfg \<Longrightarrow>
   snd (ip_stream_records cfg p req ds err ttfb m spans) =
     spans @ [end_span (start_span ''provider.generate_stream''
       [AttrStr ''provider.name'' (pv_name p), AttrStr ''provider.model'' (rq_model req)])]"
  by (simp add: ip_stream_records_def record_stream_span_def set_status_def set_attributes_def
      end_span_def start_span_def Let_def split: option.split)

lemma stream_totals_snoc:
  "stream_totals (ds @ [d]) =
     (case pd_usage d of None \<Rightarrow> stream_totals ds | Some u \<Rightarrow> (us_input_tokens u, us_output_tokens u))"
  unfolding stream_totals_def by simp

lemma add_tokens_sel [simp]:
  "pm_tokens (add_tokens name model i out m) (n, k, t) =
     pm_tokens m (n, k, t) +
     (if (n, k) = (name, model) then (if t = ''input'' then i else if t = ''output'' then out else 0) else 0)"
  by (simp add: add_tokens_def Let_def)

text \<open>A stream that ends with the usage of a synchronous answer adds the same tokens.\<close>

lemma stream_tokens_like_sync:
  assumes "pv_generate p msgs req = Inr r" and "pd_usage d = Some (pr_usage r)"
    and "oc_metrics cfg" and "us_input_tokens (pr_usage r) \<ge> 0" and "us_output_tokens (pr_usage r) \<ge> 0"
  shows "pm_tokens (fst (ip_stream_records cfg p req (ds @ [d]) None ttfb m spans)) k
     = pm_tokens (fst (snd (ip_Generate cfg p msgs req m spans))) k"
proof (cases k)
  case (fields n kd t)
  with assms show ?thesis
    by (simp add: ip_stream_records_def record_stream_metrics_def ip_Generate_def stream_totals_snoc Let_def)
qed

subsection \<open>Lookups of the instrumented registry\<close>

text \<open>
  Lookups that overlap: one that misses is in flight from its read to its write. The answers given
  so far are kept with the lookup they answer.
\<close>

datatype reg_call = LookGet string | LookDefault string

record ('p, 'q) reg_run =
  rs_reg :: "('p, 'q) inst_registry"
  rs_flight :: "(reg_call \<times> string \<times> 'q) list"
  rs_answers :: "(reg_call \<times> 'q) list"

definition reg_start :: "'p registry \<Rightarrow> ('p, 'q) reg_run" where
  "reg_start base =
     \<lparr>rs_reg = \<lparr>ir_base = base, ir_wrapped = Map.empty\<rparr>, rs_flight = [], rs_answers = []\<rparr>"

inductive lookup_step ::
  "('p \<Rightarrow> 'q) \<Rightarrow> ('p \<Rightarrow> string) \<Rightarrow> ('p, 'q) reg_run \<Rightarrow> ('p, 'q) reg_run \<Rightarrow> bool"
  for wrap name where
  get_hit: "get_lookup wrap (rs_reg s) n = Cached w \<Longrightarrow>
     lookup_step wrap name s (s\<lparr>rs_answers := rs_answers s @ [(LookGet n, w)]\<rparr>)"
| get_miss: "get_lookup wrap (rs_reg s) n = Wrapped k w \<Longrightarrow>
     lookup_step wrap name s (s\<lparr>rs_flight := rs_flight s @ [(LookGet n, k, w)]\<rparr>)"
| default_hit: "map_order ord \<Longrightarrow> default_lookup wrap name ord (rs_reg s) m = Cached w \<Longrightarrow>
     lookup_step wrap name s (s\<lparr>rs_answers := rs_answers s @ [(LookDefault m, w)]\<rparr>)"
| default_miss: "map_order ord \<Longrightarrow> default_lookup wrap name ord (rs_reg s) m = Wrapped k w \<Longrightarrow>
     lookup_step wrap name s (s\<lparr>rs_flight := rs_flight s @ [(LookDefault m, k, w)]\<rparr>)"
| stored: "rs_flight s = fs @ (c, k, w) # gs \<Longrightarrow>
     lookup_step wrap name s (s\<lparr>rs_reg := store_wrapped k w (rs_reg s), rs_flight := fs @ gs,
                               rs_answers := rs_answers s @ [(c, w)]\<rparr>)"

definition reg_reach ::
  "('p \<Rightarrow> 'q) \<Rightarrow> ('p \<Rightarrow> string) \<Rightarrow> 'p registry \<Rightarrow> ('p, 'q) reg_run \<Rightarrow> bool" where
  "reg_reach wrap name base s = (lookup_step wrap name)\<^sup>*\<^sup>* (reg_start base) s"

text \<open>What the registry itself may answer, and the condition on the names.\<close>

fun base_answers :: "'p registry \<Rightarrow> reg_call \<Rightarrow> 'p \<Rightarrow> bool" where
  "base_answers base (LookGet n) p \<longleftrightarrow> Get base n = Some p"
| "base_answers base (LookDefault m) p \<longleftrightarrow> (\<exists>ord. map_order ord \<and> Default ord base m = Inr p)"

definition named_by_vendor :: "('p \<Rightarrow> string) \<Rightarrow> 'p registry \<Rightarrow> bool" where
  "named_by_vendor name base =
     list_all (\<lambda>n. case Get base n of None \<Rightarrow> True | Some p \<Rightarrow> Get base (name p) = Some p)
       (map fst (rg_providers base))"

lemma named_by_vendorD:
  "named_by_vendor name base \<Longrightarrow> Get base n = Some p \<Longrightarrow> Get base (name p) = Some p"
  using map_of_SomeD [of "rg_providers base" n p]
  by (force simp: named_by_vendor_def list_all_iff Get_def)

lemma Default_gets:
  assumes "Default ord base m = Inr p" and "map_order ord" and "distinct (map fst (rg_providers base))"
  shows "\<exists>n. Get base n = Some p"
proof (cases "m = []")
  case True
  with assms(1) have "p \<in> snd ` set (ord (rg_providers base))"
    by (force simp: Default_def split: list.splits)
  then obtain n where "(n, p) \<in> set (rg_providers base)" using assms(2) by auto
  with assms(3) show ?thesis by (auto simp: Get_def)
next
  case False
  with assms(1) show ?thesis by (auto simp: Default_def split: option.splits)
qed

lemma base_answers_gets:
  "base_answers base c p \<Longrightarrow> distinct (map fst (rg_providers base)) \<Longrightarrow> \<exists>n. Get base n = Some p"
  by (cases c) (auto dest: Default_gets)

definition reg_inv ::
  "('p \<Rightarrow> 'q) \<Rightarrow> 'p registry \<Rightarrow> ('p, 'q) reg_run \<Rightarrow> bool" where
  "reg_inv wrap base s \<longleftrightarrow>
     ir_base (rs_reg s) = base \<and>
     (\<forall>k w. ir_wrapped (rs_reg s) k = Some w \<longrightarrow> (\<exists>p. Get base k = Some p \<and> w = wrap p)) \<and>
     (\<forall>(c, k, w)\<in>set (rs_flight s). \<exists>p. Get base k = Some p \<and> base_answers base c p \<and> w = wrap p) \<and>
     (\<forall>(c, w)\<in>set (rs_answers s). \<exists>p. base_answers base c p \<and> w = wrap p)"

lemma reg_inv_step:
  assumes "lookup_step wrap name s s'" and "reg_inv wrap base s"
    and "named_by_vendor name base" and "distinct (map fst (rg_providers base))"
  shows "reg_inv wrap base s'"
  using assms(1,2)
proof cases
  case (get_hit n w)
  then show ?thesis using assms(2) by (auto simp: reg_inv_def get_lookup_def split: option.splits)
next
  case (get_miss n k w)
  then show ?thesis using assms(2) by (auto simp: reg_inv_def get_lookup_def split: option.splits)
next
  case (default_hit ord m w)
  then obtain p where p: "Default ord base m = Inr p" and w: "ir_wrapped (rs_reg s) (name p) = Some w"
    using assms(2) by (auto simp: reg_inv_def default_lookup_def split: sum.splits option.splits)
  from Default_gets [OF p default_hit(2) assms(4)] have "Get base (name p) = Some p"
    using named_by_vendorD [OF assms(3)] by blast
  with w assms(2) have "w = wrap p" unfolding reg_inv_def by (metis option.inject)
  moreover from p default_hit(2) have "base_answers base (LookDefault m) p" by auto
  ultimately show ?thesis using default_hit(1) assms(2) by (auto simp: reg_inv_def)
next
  case (default_miss ord m k w)
  then obtain p where p: "Default ord base m = Inr p" and k: "k = name p" and w: "w = wrap p"
    using assms(2) by (auto simp: reg_inv_def default_lookup_def split: sum.splits option.splits)
  from Default_gets [OF p default_miss(2) assms(4)] have "Get base (name p) = Some p"
    using named_by_vendorD [OF assms(3)] by blast
  moreover from p default_miss(2) have "base_answers base (LookDefault m) p" by auto
  ultimately show ?thesis using k w default_miss(1) assms(2) by (auto simp: reg_inv_def)
next
  case (stored fs c k w gs)
  then show ?thesis using assms(2) by (fastforce simp: reg_inv_def store_wrapped_def)
qed

lemma reg_inv_reach:
  assumes "reg_reach wrap name base s" and "named_by_vendor name base"
    and "distinct (map fst (rg_providers base))"
  shows "reg_inv wrap base s"
  using assms(1) unfolding reg_reach_def
proof (induction rule: rtranclp_induct)
  case base
  show ?case by (simp add: reg_inv_def reg_start_def)
next
  case (step s s')
  then show ?case using reg_inv_step assms(2,3) by blast
qed

text \<open>The answers of a run from which each lookup is answered by the provider the registry has for it.\<close>

definition answers_right :: "('p \<Rightarrow> 'q) \<Rightarrow> 'p registry \<Rightarrow> ('p, 'q) reg_run \<Rightarrow> bool" where
  "answers_right wrap base s \<longleftrightarrow> (\<forall>(c, w)\<in>set (rs_answers s). \<exists>p. base_answers base c p \<and> w = wrap p)"

lemma pick_first:
  assumes "x \<in> set xs"
  shows "\<exists>ord. map_order ord \<and> hd (ord xs) = x \<and> ord xs \<noteq> []"
proof -
  define ord where "ord ys = (if x \<in> set ys then x # remove1 x ys else ys)" for ys
  have "insert x (set (remove1 x ys)) = set ys" if "x \<in> set ys" for ys
    using that set_remove1_subset [of x ys] in_set_remove1 [of _ x ys] by blast
  then have "set (ord ys) = set ys" for ys
    by (auto simp: ord_def)
  moreover have "length (ord ys) = length ys" for ys
    by (auto simp: ord_def length_remove1) (metis Suc_pred length_pos_if_in_set)
  ultimately have "map_order ord" by (simp add: map_order_def)
  moreover have "hd (ord xs) = x" and "ord xs \<noteq> []" using assms by (simp_all add: ord_def)
  ultimately show ?thesis by blast
qed

lemma misnamed_wrong:
  assumes "inj wrap" and "\<not> named_by_vendor name base"
  shows "\<exists>s. reg_reach wrap name base s \<and> \<not> answers_right wrap base s"
proof -
  from assms(2) obtain n p where p: "Get base n = Some p" and wrong: "Get base (name p) \<noteq> Some p"
    by (auto simp: named_by_vendor_def list_all_iff split: option.splits)
  from p have "(n, p) \<in> set (rg_providers base)" by (auto simp: Get_def dest: map_of_SomeD)
  from pick_first [OF this] obtain ord ys where ord: "map_order ord"
      and first: "ord (rg_providers base) = (n, p) # ys"
    by (metis list.collapse)
  from first have d: "Default ord base [] = Inr p" by (simp add: Default_def)
  let ?s0 = "reg_start base"
  let ?s1 = "?s0\<lparr>rs_flight := rs_flight ?s0 @ [(LookDefault [], name p, wrap p)]\<rparr>"
  let ?s2 = "?s1\<lparr>rs_reg := store_wrapped (name p) (wrap p) (rs_reg ?s1), rs_flight := [] @ [],
                 rs_answers := rs_answers ?s1 @ [(LookDefault [], wrap p)]\<rparr>"
  let ?s3 = "?s2\<lparr>rs_answers := rs_answers ?s2 @ [(LookGet (name p), wrap p)]\<rparr>"
  have "lookup_step wrap name ?s0 ?s1"
    by (rule default_miss [OF ord]) (simp add: reg_start_def default_lookup_def d)
  moreover have "lookup_step wrap name ?s1 ?s2"
    by (rule stored) (simp add: reg_start_def)
  moreover have "lookup_step wrap name ?s2 ?s3"
    by (rule get_hit) (simp add: reg_start_def get_lookup_def store_wrapped_def)
  ultimately have "reg_reach wrap name base ?s3"
    unfolding reg_reach_def by (meson rtranclp.rtrancl_into_rtrancl rtranclp.rtrancl_refl)
  moreover have "\<not> answers_right wrap base ?s3"
    using wrong injD [OF assms(1)] by (auto simp: answers_right_def reg_start_def)
  ultimately show ?thesis by blast
qed

definition account :: "string \<Rightarrow> provider_entry" where
  "account key = \<lparr>pe_type = ''openai'', pe_api_key = key, pe_endpoint = [], pe_api_version = [],
     pe_project = [], pe_location = [], pe_circuit_breaker = None\<rparr>"

definition account_model :: "string \<Rightarrow> string \<Rightarrow> model_entry" where
  "account_model m n = \<lparr>me_name = m, me_provider = n, me_provider_model_id = []\<rparr>"

definition two_accounts :: "built_provider registry" where
  "two_accounts =
     \<lparr>rg_providers = [(''a'', BuiltOpenAI ''k1''), (''b'', BuiltOpenAI ''k2'')],
      rg_models = model_index [account_model ''m1'' ''a'', account_model ''m2'' ''b''],
      rg_model_ids = Map.empty, rg_model_list = [account_model ''m1'' ''a'', account_model ''m2'' ''b'']\<rparr>"

text \<open>C22: when the instrumented registry can be trusted. Whatever lookups run, overlap or repeat,
  each is answered by the instrumented form of a provider the registry has for it - exactly if
  every provider is registered under the name of its own vendor. In every other configuration some
  run answers with a provider that was not asked for.\<close>
theorem instrumented_registry_exact:
  assumes "inj wrap" and "distinct (map fst (rg_providers base))"
  shows "(\<forall>s. reg_reach wrap name base s \<longrightarrow> answers_right wrap base s) \<longleftrightarrow> named_by_vendor name base"
proof
  assume "\<forall>s. reg_reach wrap name base s \<longrightarrow> answers_right wrap base s"
  then show "named_by_vendor name base" using misnamed_wrong [OF assms(1), of name base] by blast
next
  assume "named_by_vendor name base"
  then show "\<forall>s. reg_reach wrap name base s \<longrightarrow> answers_right wrap base s"
    using reg_inv_reach [of wrap name base, OF _ _ assms(2)]
    by (simp add: reg_inv_def answers_right_def)
qed

theorem instrumented_registry_exact_witness:
  "\<exists>s. reg_reach (\<lambda>b. b) built_name two_accounts s \<and> \<not> answers_right (\<lambda>b. b) two_accounts s"
proof -
  have "inj (\<lambda>b::built_provider. b)" by (simp add: inj_def)
  moreover have "distinct (map fst (rg_providers two_accounts))" by (simp add: two_accounts_def)
  moreover have "\<not> named_by_vendor built_name two_accounts" by code_simp
  ultimately show ?thesis
    using instrumented_registry_exact [of "\<lambda>b. b" two_accounts built_name] by blast
qed

text \<open>C26: two entries of one vendor. A configuration that builds, with two models on two entries
  whose types belong to the same vendor package - a second account, or Azure next to the vendor
  itself: the registry keeps them apart, and behind the instrumentation the model asked for second
  is answered by the entry of the model asked for first, with that entry's credentials.\<close>
theorem second_entry_misrouted:
  assumes "NewRegistry ord genai mk entries models = Inr reg"
    and "\<And>b cfg. name (mk b cfg) = built_name b"
    and "map_of entries n1 = Some e1" and "buildProvider genai e1 = Inr b1"
    and "map_of entries n2 = Some e2" and "buildProvider genai e2 = Inr b2"
    and "model_index models m1 = Some n1" and "model_index models m2 = Some n2"
    and "m1 \<noteq> []" and "m2 \<noteq> []" and "built_name b1 = built_name b2"
    and "map_of (ord entries) = map_of entries"
  shows "let p1 = mk b1 (circuitBreakerConfigFromEntry e1); p2 = mk b2 (circuitBreakerConfigFromEntry e2);
             r0 = the (WrapProviderRegistry (Some reg));
             (a1, r1) = inst_Default wrap name pord r0 m1; (a2, r2) = inst_Default wrap name pord r1 m2
         in Default pord reg m1 = Inr p1 \<and> Default pord reg m2 = Inr p2 \<and>
            a1 = Inr (wrap p1) \<and> a2 = Inr (wrap p1)"
proof -
  from assms(1) obtain ps where ps: "build_all genai mk (ord entries) = Inr ps"
      and provs: "rg_providers reg = ps" and idx: "rg_models reg = model_index models"
    using index_models_fst [of models Map.empty Map.empty]
    by (auto simp: NewRegistry_def Let_def split: sum.splits prod.splits)
  have "map_of ps n1 = Some (mk b1 (circuitBreakerConfigFromEntry e1))"
    and "map_of ps n2 = Some (mk b2 (circuitBreakerConfigFromEntry e2))"
    using build_all_lookup [OF ps] assms(3-6,12) by simp_all
  with idx provs assms(7-10)
  have "Default pord reg m1 = Inr (mk b1 (circuitBreakerConfigFromEntry e1))"
    and "Default pord reg m2 = Inr (mk b2 (circuitBreakerConfigFromEntry e2))"
    by (simp_all add: Default_def Get_def)
  with assms(2,11) show ?thesis
    by (simp add: Let_def WrapProviderRegistry_def inst_Default_def default_lookup_def store_wrapped_def)
qed

theorem second_entry_misrouted_witness:
  "\<exists>reg. NewRegistry (\<lambda>es. es) (\<lambda>_. None) (\<lambda>b cfg. b) [(''a'', account ''k1''), (''b'', account ''k2'')]
         [account_model ''m1'' ''a'', account_model ''m2'' ''b''] = Inr reg \<and>
     fst (inst_Default (\<lambda>b. b) built_name (\<lambda>ps. ps)
            (snd (inst_Default (\<lambda>b. b) built_name (\<lambda>ps. ps) (the (WrapProviderRegistry (Some reg))) ''m1''))
            ''m2'') = Inr (BuiltOpenAI ''k1'') \<and>
     Default (\<lambda>ps. ps) reg ''m2'' = Inr (BuiltOpenAI ''k2'')"
proof -
  let ?es = "[(''a'', account ''k1''), (''b'', account ''k2'')]"
  let ?ms = "[account_model ''m1'' ''a'', account_model ''m2'' ''b'']"
  obtain reg where reg: "NewRegistry (\<lambda>es. es) (\<lambda>_. None) (\<lambda>b cfg. b) ?es ?ms = Inr reg"
    by (simp add: NewRegistry_def account_def buildProvider_def split: prod.split)
  have built: "buildProvider (\<lambda>_. None) (account k) = Inr (BuiltOpenAI k)" if "k \<noteq> []" for k
    using that by (simp add: account_def buildProvider_def)
  from second_entry_misrouted [OF reg refl, of "''a''" "account ''k1''" "BuiltOpenAI ''k1''"
      "''b''" "account ''k2''" "BuiltOpenAI ''k2''" "''m1''" "''m2''" "\<lambda>ps. ps" "\<lambda>b. b"]
  have "let r0 = the (WrapProviderRegistry (Some reg));
            (a1, r1) = inst_Default (\<lambda>b. b) built_name (\<lambda>ps. ps) r0 ''m1'';
            (a2, r2) = inst_Default (\<lambda>b. b) built_name (\<lambda>ps. ps) r1 ''m2''
        in Default (\<lambda>ps. ps) reg ''m2'' = Inr (BuiltOpenAI ''k2'') \<and> a2 = Inr (BuiltOpenAI ''k1'')"
    by (simp add: built model_index_def account_model_def Let_def case_prod_unfold)
  with reg show ?thesis by (auto simp: Let_def case_prod_unfold)
qed

end
