(* ===== verification/Migrations.thy ===== *)
theory Migrations
  imports Http
begin

text \<open>
  The schema migrations of the five packages that keep tables: \<open>migrate.go\<close> of
  \<open>internal/conversation\<close>, \<open>internal/users\<close>, \<open>internal/usage\<close> and \<open>internal/apikeys\<close>, and \<open>Migrate\<close>
  of \<open>internal/config/store.go\<close>. The packages carry copies of one algorithm that differ in the
  tracking table, the version they start from and what they check afterwards: the algorithm is
  modelled once and instantiated for each of them.

  A database is its tracking tables and its schema, a value of any type \<open>'d\<close>; \<open>exec\<close> is what the
  database makes of the text of a migration, or that it refuses it. A transaction that is rolled
  back leaves both as they were. Where a database call may fail for reasons of its own, a field of
  \<open>mig_faults\<close> says whether it does; a commit whose error reaches the client may have happened.
\<close>

subsection \<open>Loading the files\<close>

record migration =
  mg_version :: int
  mg_description :: string
  mg_sql :: string

record mig_file =
  mf_name :: string
  mf_is_dir :: bool
  mf_data :: "string option"

datatype load_error =
    ReadDirFailed
  | BadFileName string
  | BadVersion string string
  | ReadFileFailed string

text \<open>\<open>strconv.Atoi\<close> with its error: a syntax error or a value outside of \<open>int64\<close> is None.\<close>

definition signed_digits :: "bool \<Rightarrow> string \<Rightarrow> int option" where
  "signed_digits neg s =
     (if s = [] then None
      else case digits_val s 0 of
             None \<Rightarrow> None
           | Some n \<Rightarrow>
               (let v = (if neg then - int n else int n)
                in if min_int64 \<le> v \<and> v \<le> max_int64 then Some v else None))"

definition Atoi_checked :: "string \<Rightarrow> int option" where
  "Atoi_checked s =
     (case s of
        [] \<Rightarrow> None
      | c # cs \<Rightarrow> if c = CHR ''-'' then signed_digits True cs
                  else if c = CHR ''+'' then signed_digits False cs
                  else signed_digits False s)"

definition trim_suffix :: "string \<Rightarrow> string \<Rightarrow> string" where
  "trim_suffix s p = (if has_suffix s p then take (length s - length p) s else s)"

definition parse_file :: "mig_file \<Rightarrow> load_error + migration" where
  "parse_file f =
     (case split2 (CHR ''_'') (trim_suffix (mf_name f) ''.sql'') of
        [v, d] \<Rightarrow>
          (case Atoi_checked v of
             None \<Rightarrow> Inl (BadVersion (mf_name f) v)
           | Some n \<Rightarrow>
               (case mf_data f of
                  None \<Rightarrow> Inl (ReadFileFailed (mf_name f))
                | Some sql \<Rightarrow>
                    Inr \<lparr>mg_version = n,
                         mg_description = map (\<lambda>c. if c = CHR ''_'' then CHR '' '' else c) d,
                         mg_sql = sql\<rparr>))
      | _ \<Rightarrow> Inl (BadFileName (mf_name f)))"

fun load_files :: "mig_file list \<Rightarrow> load_error + migration list" where
  "load_files [] = Inr []"
| "load_files (f # fs) =
     (if mf_is_dir f \<or> \<not> has_suffix (mf_name f) ''.sql'' then load_files fs
      else case parse_file f of
             Inl e \<Rightarrow> Inl e
           | Inr m \<Rightarrow> (case load_files fs of Inl e \<Rightarrow> Inl e | Inr ms \<Rightarrow> Inr (m # ms)))"

text \<open>\<open>sort.Slice\<close> leaves the order of equal versions open; here it is the order of the files.\<close>

definition loadMigrations :: "mig_file list option \<Rightarrow> load_error + migration list" where
  "loadMigrations dir =
     (case dir of
        None \<Rightarrow> Inl ReadDirFailed
      | Some fs \<Rightarrow> (case load_files fs of
                      Inl e \<Rightarrow> Inl e | Inr ms \<Rightarrow> Inr (sort_key mg_version ms)))"

subsection \<open>The database\<close>

record 'd mig_db =
  md_tables :: "string \<Rightarrow> (int \<times> string \<times> timestamp) list option"
  md_schema :: 'd

datatype commit_result = CommitDone | CommitRefused | CommitLost

record mig_faults =
  mx_create :: bool
  mx_query :: bool
  mx_begin :: "int \<Rightarrow> bool"
  mx_insert :: "int \<Rightarrow> bool"
  mx_commit :: "int \<Rightarrow> commit_result"

datatype migrate_error =
    CreateTableFailed
  | LoadFailed load_error
  | QueryFailed
  | BeginFailed int
  | ApplyFailed int string
  | RecordFailed int
  | CommitFailed int

text \<open>\<open>CREATE TABLE IF NOT EXISTS\<close>.\<close>

definition createSchemaMigrationsTable :: "string \<Rightarrow> 'd mig_db \<Rightarrow> 'd mig_db" where
  "createSchemaMigrationsTable tbl db =
     (case md_tables db tbl of
        None \<Rightarrow> db\<lparr>md_tables := (md_tables db)(tbl \<mapsto> [])\<rparr>
      | Some _ \<Rightarrow> db)"

definition appliedVersions :: "string \<Rightarrow> 'd mig_db \<Rightarrow> int list option" where
  "appliedVersions tbl db = map_option (map fst) (md_tables db tbl)"

text \<open>The insert fails if the version is there: it is the primary key.\<close>

definition recordMigration ::
  "string \<Rightarrow> timestamp \<Rightarrow> migration \<Rightarrow> 'd mig_db \<Rightarrow> 'd mig_db option" where
  "recordMigration tbl now m db =
     (case md_tables db tbl of
        None \<Rightarrow> None
      | Some rows \<Rightarrow>
          if mg_version m \<in> fst ` set rows then None
          else Some (db\<lparr>md_tables := (md_tables db)
                 (tbl \<mapsto> rows @ [(mg_version m, mg_description m, now)])\<rparr>))"

text \<open>One migration in its transaction: the error, if any, and the database afterwards.\<close>

definition migrate_tx ::
  "(string \<Rightarrow> 'd \<Rightarrow> 'd option) \<Rightarrow> mig_faults \<Rightarrow> string \<Rightarrow> timestamp \<Rightarrow> migration \<Rightarrow> 'd mig_db \<Rightarrow>
   migrate_error option \<times> 'd mig_db" where
  "migrate_tx exec x tbl now m db =
     (if mx_begin x (mg_version m) then (Some (BeginFailed (mg_version m)), db)
      else case exec (mg_sql m) (md_schema db) of
             None \<Rightarrow> (Some (ApplyFailed (mg_version m) (mg_description m)), db)
           | Some d \<Rightarrow>
               (case (if mx_insert x (mg_version m) then None
                      else recordMigration tbl now m (db\<lparr>md_schema := d\<rparr>)) of
                  None \<Rightarrow> (Some (RecordFailed (mg_version m)), db)
                | Some db' \<Rightarrow>
                    (case mx_commit x (mg_version m) of
                       CommitDone \<Rightarrow> (None, db')
                     | CommitRefused \<Rightarrow> (Some (CommitFailed (mg_version m)), db)
                     | CommitLost \<Rightarrow> (Some (CommitFailed (mg_version m)), db'))))"

fun migrate_loop ::
  "(string \<Rightarrow> 'd \<Rightarrow> 'd option) \<Rightarrow> mig_faults \<Rightarrow> string \<Rightarrow> timestamp \<Rightarrow> int list \<Rightarrow> migration list \<Rightarrow> int \<Rightarrow>
   'd mig_db \<Rightarrow> (int \<times> migrate_error option) \<times> 'd mig_db" where
  "migrate_loop exec x tbl now applied [] cur db = ((cur, None), db)"
| "migrate_loop exec x tbl now applied (m # ms) cur db =
     (if mg_version m \<in> set applied
      then migrate_loop exec x tbl now applied ms (max cur (mg_version m)) db
      else case migrate_tx exec x tbl now m db of
             (Some e, db') \<Rightarrow> ((cur, Some e), db')
           | (None, db') \<Rightarrow> migrate_loop exec x tbl now applied ms (mg_version m) db')"

text \<open>
  \<open>start\<close> computes the version to start from: 0, and in \<open>internal/usage\<close> the largest version of
  the tracking table.
\<close>

definition migrate_with ::
  "(int list \<Rightarrow> int) \<Rightarrow> string \<Rightarrow> mig_file list option \<Rightarrow> (string \<Rightarrow> 'd \<Rightarrow> 'd option) \<Rightarrow> mig_faults \<Rightarrow>
   timestamp \<Rightarrow> 'd mig_db \<Rightarrow> (int \<times> migrate_error option) \<times> 'd mig_db" where
  "migrate_with start tbl dir exec x now db =
     (if mx_create x then ((0, Some CreateTableFailed), db)
      else let db1 = createSchemaMigrationsTable tbl db in
           case loadMigrations dir of
             Inl e \<Rightarrow> ((0, Some (LoadFailed e)), db1)
           | Inr ms \<Rightarrow>
               (if mx_query x then ((0, Some QueryFailed), db1)
                else case appliedVersions tbl db1 of
                       None \<Rightarrow> ((0, Some QueryFailed), db1)
                     | Some applied \<Rightarrow> migrate_loop exec x tbl now applied ms (start applied) db1))"

definition start_at_zero :: "int list \<Rightarrow> int" where
  "start_at_zero applied = 0"

definition start_at_latest :: "int list \<Rightarrow> int" where
  "start_at_latest applied = foldl max 0 applied"

subsection \<open>The packages\<close>

definition conversations_Migrate ::
  "mig_file list option \<Rightarrow> (string \<Rightarrow> 'd \<Rightarrow> 'd option) \<Rightarrow> mig_faults \<Rightarrow> timestamp \<Rightarrow> 'd mig_db \<Rightarrow>
   (int \<times> migrate_error option) \<times> 'd mig_db" where
  "conversations_Migrate = migrate_with start_at_zero ''schema_migrations''"

definition users_Migrate ::
  "mig_file list option \<Rightarrow> (string \<Rightarrow> 'd \<Rightarrow> 'd option) \<Rightarrow> mig_faults \<Rightarrow> timestamp \<Rightarrow> 'd mig_db \<Rightarrow>
   (int \<times> migrate_error option) \<times> 'd mig_db" where
  "users_Migrate = migrate_with start_at_zero ''users_schema_migrations''"

definition usage_Migrate ::
  "mig_file list option \<Rightarrow> (string \<Rightarrow> 'd \<Rightarrow> 'd option) \<Rightarrow> mig_faults \<Rightarrow> timestamp \<Rightarrow> 'd mig_db \<Rightarrow>
   (int \<times> migrate_error option) \<times> 'd mig_db" where
  "usage_Migrate = migrate_with start_at_latest ''usage_schema_migrations''"

definition apikeys_Migrate ::
  "mig_file list option \<Rightarrow> (string \<Rightarrow> 'd \<Rightarrow> 'd option) \<Rightarrow> mig_faults \<Rightarrow> timestamp \<Rightarrow> 'd mig_db \<Rightarrow>
   (int \<times> migrate_error option) \<times> 'd mig_db" where
  "apikeys_Migrate = migrate_with start_at_zero ''api_keys_schema_migrations''"

text \<open>\<open>Migrate\<close> of the configuration store returns no version.\<close>

definition config_Migrate ::
  "mig_file list option \<Rightarrow> (string \<Rightarrow> 'd \<Rightarrow> 'd option) \<Rightarrow> mig_faults \<Rightarrow> timestamp \<Rightarrow> 'd mig_db \<Rightarrow>
   migrate_error option \<times> 'd mig_db" where
  "config_Migrate dir exec x now db =
     map_prod snd id (migrate_with start_at_zero ''config_schema_migrations'' dir exec x now db)"

datatype version_error = VersionQueryFailed | VersionMismatch int int

text \<open>\<open>SELECT COALESCE(MAX(version), 0)\<close>; \<open>up\<close> says whether the database answers.\<close>

definition schema_version :: "bool \<Rightarrow> string \<Rightarrow> 'd mig_db \<Rightarrow> int option" where
  "schema_version up tbl db =
     (if \<not> up then None
      else case md_tables db tbl of
             None \<Rightarrow> None
           | Some [] \<Rightarrow> Some 0
           | Some (row # rows) \<Rightarrow> Some (foldl max (fst row) (map fst rows)))"

definition check_version ::
  "(int \<Rightarrow> bool) \<Rightarrow> int \<Rightarrow> bool \<Rightarrow> string \<Rightarrow> 'd mig_db \<Rightarrow> version_error option" where
  "check_version acceptable expected up tbl db =
     (case schema_version up tbl db of
        None \<Rightarrow> Some VersionQueryFailed
      | Some v \<Rightarrow> if acceptable v then None else Some (VersionMismatch v expected))"

definition conversations_CheckSchemaVersion :: "bool \<Rightarrow> 'd mig_db \<Rightarrow> version_error option" where
  "conversations_CheckSchemaVersion up = check_version (\<lambda>v. v = 3) 3 up ''schema_migrations''"

definition users_CheckSchemaVersion :: "bool \<Rightarrow> 'd mig_db \<Rightarrow> version_error option" where
  "users_CheckSchemaVersion up = check_version (\<lambda>v. v = 2) 2 up ''users_schema_migrations''"

definition usage_CheckSchemaVersion :: "bool \<Rightarrow> 'd mig_db \<Rightarrow> version_error option" where
  "usage_CheckSchemaVersion up = check_version (\<lambda>v. \<not> v < 1) 1 up ''usage_schema_migrations''"

text \<open>The start of \<open>NewSQLStore\<close>: migrate, then check.\<close>

definition open_conversations ::
  "mig_file list option \<Rightarrow> (string \<Rightarrow> 'd \<Rightarrow> 'd option) \<Rightarrow> mig_faults \<Rightarrow> bool \<Rightarrow> timestamp \<Rightarrow> 'd mig_db \<Rightarrow>
   (migrate_error + version_error) option \<times> 'd mig_db" where
  "open_conversations dir exec x up now db =
     (case conversations_Migrate dir exec x now db of
        ((_, Some e), db') \<Rightarrow> (Some (Inl e), db')
      | ((_, None), db') \<Rightarrow> (map_option Inr (conversations_CheckSchemaVersion up db'), db'))"

text \<open>The files of the four \<open>migrations\<close> directories of these packages, for any texts.\<close>

definition sql_file :: "string \<Rightarrow> string \<Rightarrow> mig_file" where
  "sql_file name sql = \<lparr>mf_name = name, mf_is_dir = False, mf_data = Some sql\<rparr>"

definition conversations_files :: "string \<Rightarrow> string \<Rightarrow> string \<Rightarrow> mig_file list" where
  "conversations_files a b c =
     [sql_file ''001_create_conversations.sql'' a, sql_file ''002_add_request_context.sql'' b,
      sql_file ''003_add_replay_state_to_conversations.sql'' c]"

definition users_files :: "string \<Rightarrow> string \<Rightarrow> mig_file list" where
  "users_files a b = [sql_file ''001_create_users.sql'' a, sql_file ''002_unique_email.sql'' b]"

definition usage_files :: "string \<Rightarrow> mig_file list" where
  "usage_files a = [sql_file ''001_create_token_usage.sql'' a]"

definition apikeys_files :: "string \<Rightarrow> mig_file list" where
  "apikeys_files a = [sql_file ''001_create_api_keys.sql'' a]"

subsection \<open>Several processes at once\<close>

text \<open>
  Each gateway process migrates when it starts. Its steps, one database call or transaction each,
  mix with those of the others; there is no lock around them.
\<close>

datatype replica =
    NotStarted
  | Running "int list" "migration list" int
  | Migrated int
  | Stopped migrate_error

definition replica_step ::
  "(int list \<Rightarrow> int) \<Rightarrow> string \<Rightarrow> migration list \<Rightarrow> (string \<Rightarrow> 'd \<Rightarrow> 'd option) \<Rightarrow> mig_faults \<Rightarrow>
   timestamp \<Rightarrow> 'd mig_db \<Rightarrow> replica \<Rightarrow> replica \<times> 'd mig_db" where
  "replica_step start tbl ms exec x now db r =
     (case r of
        NotStarted \<Rightarrow>
          (if mx_create x then (Stopped CreateTableFailed, db)
           else let db1 = createSchemaMigrationsTable tbl db in
                if mx_query x then (Stopped QueryFailed, db1)
                else case appliedVersions tbl db1 of
                       None \<Rightarrow> (Stopped QueryFailed, db1)
                     | Some applied \<Rightarrow> (Running applied ms (start applied), db1))
      | Running applied [] cur \<Rightarrow> (Migrated cur, db)
      | Running applied (m # rest) cur \<Rightarrow>
          (if mg_version m \<in> set applied then (Running applied rest (max cur (mg_version m)), db)
           else case migrate_tx exec x tbl now m db of
                  (Some e, db') \<Rightarrow> (Stopped e, db')
                | (None, db') \<Rightarrow> (Running applied rest (mg_version m), db'))
      | _ \<Rightarrow> (r, db))"

record 'd fleet =
  fl_db :: "'d mig_db"
  fl_replicas :: "replica list"

inductive fleet_step ::
  "(int list \<Rightarrow> int) \<Rightarrow> string \<Rightarrow> migration list \<Rightarrow> (string \<Rightarrow> 'd \<Rightarrow> 'd option) \<Rightarrow> 'd fleet \<Rightarrow> 'd fleet \<Rightarrow> bool"
  for start tbl ms exec where
  act: "i < length (fl_replicas s) \<Longrightarrow>
    replica_step start tbl ms exec x now (fl_db s) (fl_replicas s ! i) = (r, db') \<Longrightarrow>
    fleet_step start tbl ms exec s \<lparr>fl_db = db', fl_replicas = (fl_replicas s)[i := r]\<rparr>"
| join: "fleet_step start tbl ms exec s (s\<lparr>fl_replicas := fl_replicas s @ [NotStarted]\<rparr>)"

definition fleet_reach ::
  "(int list \<Rightarrow> int) \<Rightarrow> string \<Rightarrow> migration list \<Rightarrow> (string \<Rightarrow> 'd \<Rightarrow> 'd option) \<Rightarrow> 'd mig_db \<Rightarrow> 'd fleet \<Rightarrow> bool" where
  "fleet_reach start tbl ms exec db s =
     (fleet_step start tbl ms exec)\<^sup>*\<^sup>* \<lparr>fl_db = db, fl_replicas = []\<rparr> s"

end
