(* ===== verification/MigrationsProps.thy ===== *)
theory MigrationsProps
  imports Migrations
begin

text \<open>
  Migrations are applied once, in order, and an attempt that fails can be repeated: however many
  processes migrate one database and whatever fails, the tracking table is a prefix of the
  migrations and the schema is what those migrations make of the one the database began with.
\<close>

subsection \<open>What the tracking table says\<close>

fun replay :: "(string \<Rightarrow> 'd \<Rightarrow> 'd option) \<Rightarrow> migration list \<Rightarrow> 'd \<Rightarrow> 'd option" where
  "replay exec [] d = Some d"
| "replay exec (m # ms) d = (case exec (mg_sql m) d of None \<Rightarrow> None | Some d' \<Rightarrow> replay exec ms d')"

lemma replay_append:
  "replay exec (xs @ ys) d = (case replay exec xs d of None \<Rightarrow> None | Some d' \<Rightarrow> replay exec ys d')"
  by (induction xs arbitrary: d) (auto split: option.split)

definition recorded :: "string \<Rightarrow> 'd mig_db \<Rightarrow> int list" where
  "recorded tbl db = (case md_tables db tbl of None \<Rightarrow> [] | Some rows \<Rightarrow> map fst rows)"

text \<open>The first \<open>k\<close> migrations are recorded, and nothing else happened to the schema.\<close>

definition migrated_to ::
  "(string \<Rightarrow> 'd \<Rightarrow> 'd option) \<Rightarrow> string \<Rightarrow> migration list \<Rightarrow> 'd \<Rightarrow> nat \<Rightarrow> 'd mig_db \<Rightarrow> bool" where
  "migrated_to exec tbl ms d0 k db \<longleftrightarrow>
     k \<le> length ms \<and> recorded tbl db = map mg_version (take k ms) \<and>
     replay exec (take k ms) d0 = Some (md_schema db)"

lemma migrated_create:
  "migrated_to exec tbl ms d0 k db \<Longrightarrow> migrated_to exec tbl ms d0 k (createSchemaMigrationsTable tbl db)"
  by (auto simp: migrated_to_def recorded_def createSchemaMigrationsTable_def split: option.split)

lemma create_applied:
  "appliedVersions tbl (createSchemaMigrationsTable tbl db) = Some (recorded tbl db)"
  by (auto simp: appliedVersions_def createSchemaMigrationsTable_def recorded_def split: option.split)

text \<open>
  A transaction changes nothing or records the next migration; without faults, and where the
  database accepts the text, it records it.
\<close>

lemma migrate_tx_step:
  assumes "migrated_to exec tbl ms d0 k db" and "p \<le> k" and "p < length ms"
    and "migrate_tx exec x tbl now (ms ! p) db = (e, db')"
  shows "db' = db \<and> e \<noteq> None \<or> p = k \<and> migrated_to exec tbl ms d0 (Suc k) db'"
proof (cases "db' = db \<and> e \<noteq> None")
  case False
  from assms(4) False obtain d rows where d: "exec (mg_sql (ms ! p)) (md_schema db) = Some d"
    and rows: "md_tables db tbl = Some rows" and new: "mg_version (ms ! p) \<notin> fst ` set rows"
    and db': "md_schema db' = d"
      "md_tables db' tbl = Some (rows @ [(mg_version (ms ! p), mg_description (ms ! p), now)])"
    by (auto simp: migrate_tx_def recordMigration_def
        split: if_splits option.splits commit_result.splits)
  have "p = k"
  proof (rule ccontr)
    assume "p \<noteq> k"
    with assms(2) have "ms ! p \<in> set (take k ms)" using assms(3) by (auto simp: in_set_conv_nth)
    moreover from assms(1) rows have "set (map fst rows) = mg_version ` set (take k ms)"
      by (simp add: migrated_to_def recorded_def)
    ultimately show False using new by (metis image_eqI set_map)
  qed
  with assms(1,3) rows db' d show ?thesis
    by (auto simp: migrated_to_def recorded_def take_Suc_conv_app_nth replay_append)
qed simp

text \<open>
  What a replica knows: everything before the migration it is at is recorded, and the version it
  will report is the largest one.
\<close>

definition latest :: "int list \<Rightarrow> int" where
  "latest vs = foldl max 0 vs"

definition well_numbered :: "migration list \<Rightarrow> bool" where
  "well_numbered ms \<longleftrightarrow> sorted_wrt (<) (map mg_version ms) \<and> list_all (\<lambda>m. 0 \<le> mg_version m) ms"

fun replica_ok :: "migration list \<Rightarrow> nat \<Rightarrow> replica \<Rightarrow> bool" where
  "replica_ok ms k (Running applied rest cur) \<longleftrightarrow>
     (\<exists>p\<le>k. rest = drop p ms) \<and> (\<exists>j\<le>k. applied = map mg_version (take j ms)) \<and>
     cur \<in> insert 0 (mg_version ` set (take k ms)) \<and>
     foldl max cur (map mg_version rest) = latest (map mg_version ms)"
| "replica_ok ms k (Migrated cur) \<longleftrightarrow> k = length ms \<and> cur = latest (map mg_version ms)"
| "replica_ok ms k NotStarted \<longleftrightarrow> True"
| "replica_ok ms k (Stopped e) \<longleftrightarrow> True"

lemma foldl_max_shift: "foldl max (max a b) vs = max a (foldl max b (vs :: int list))"
  by (induction vs arbitrary: b) (simp_all add: max.assoc)

lemma foldl_max_mem: "foldl max a vs \<in> insert a (set (vs :: int list))"
  by (induction vs arbitrary: a) (auto simp: max_def)

lemma foldl_max_prefix:
  "foldl max (foldl max 0 (map f (take j ms))) (map f ms) = foldl max (0::int) (map f ms)"
proof -
  have "foldl max (0::int) (map f ms) = foldl max (foldl max 0 (map f (take j ms))) (map f (drop j ms))"
    by (metis append_take_drop_id foldl_append map_append)
  moreover have "foldl max (foldl max 0 vs) (vs @ ws) = foldl max (foldl max 0 vs) ws" for vs ws :: "int list"
    using foldl_max_shift [of "foldl max 0 vs" 0 vs] foldl_max_shift [of 0 0 vs] by simp
  ultimately show ?thesis
    by (metis append_take_drop_id map_append)
qed

lemma set_take_mono: "k \<le> k' \<Longrightarrow> set (take k xs) \<subseteq> set (take k' xs)"
  by (rule set_take_subset_set_take)

lemma replica_ok_mono:
  assumes "replica_ok ms k r" and "k \<le> k'" and "k' \<le> length ms"
  shows "replica_ok ms k' r"
proof (cases r)
  case (Running applied rest cur)
  with assms set_take_mono [OF assms(2), of ms] show ?thesis
    by auto (metis order_trans)+
qed (use assms in auto)

definition lawful_start :: "(int list \<Rightarrow> int) \<Rightarrow> bool" where
  "lawful_start start \<longleftrightarrow> start = start_at_zero \<or> start = start_at_latest"

lemma start_ok:
  assumes "lawful_start start"
  shows "start (map mg_version (take j ms)) \<in> insert 0 (mg_version ` set (take j ms))"
    and "foldl max (start (map mg_version (take j ms))) (map mg_version ms) = latest (map mg_version ms)"
  using assms foldl_max_mem [of 0 "map mg_version (take j ms)"] foldl_max_prefix [of mg_version j ms]
  by (auto simp: lawful_start_def start_at_zero_def start_at_latest_def latest_def)

lemma later_larger:
  assumes "well_numbered ms" and "k < length ms" and "cur \<in> insert 0 (mg_version ` set (take k ms))"
  shows "cur \<le> mg_version (ms ! k)"
proof -
  have "mg_version (ms ! i) \<le> mg_version (ms ! k)" if "i < k" for i
    using assms(1,2) that sorted_wrt_nth_less [of "(<)" "map mg_version ms" i k]
    by (simp add: well_numbered_def)
  moreover have "0 \<le> mg_version (ms ! k)"
    using assms(1,2) by (simp add: well_numbered_def list_all_length)
  ultimately show ?thesis using assms(2,3) by (auto simp: in_set_conv_nth)
qed

lemma replica_step_ok:
  assumes "migrated_to exec tbl ms d0 k db" and "replica_ok ms k r"
    and "replica_step start tbl ms exec x now db r = (r', db')" and "well_numbered ms"
    and "lawful_start start"
  shows "\<exists>k'\<ge>k. migrated_to exec tbl ms d0 k' db' \<and> replica_ok ms k' r'"
proof (cases r)
  case NotStarted
  have "replica_ok ms k (Running (map mg_version (take k ms)) ms (start (map mg_version (take k ms))))"
    using start_ok [OF assms(5), of k ms] by (auto intro: exI [of _ 0])
  with NotStarted assms(1,3) migrated_create [OF assms(1)] create_applied [of tbl db]
  show ?thesis
    by (intro exI [of _ k]) (auto simp: replica_step_def Let_def migrated_to_def split: if_splits)
next
  case (Running applied rest cur)
  with assms(2) obtain p j where p: "p \<le> k" "rest = drop p ms"
    and j: "j \<le> k" "applied = map mg_version (take j ms)"
    and cur: "cur \<in> insert 0 (mg_version ` set (take k ms))"
    and goal: "foldl max cur (map mg_version rest) = latest (map mg_version ms)" by auto
  from assms(1) have k: "k \<le> length ms" by (simp add: migrated_to_def)
  show ?thesis
  proof (cases rest)
    case Nil
    with p k have "k = length ms" by simp
    with Running Nil assms(1,3) goal show ?thesis by (auto simp: replica_step_def)
  next
    case (Cons m more)
    with p have len: "p < length ms" by (metis drop_eq_Nil leI list.distinct(1))
    with Cons p have m: "m = ms ! p" and more: "more = drop (Suc p) ms"
      by (simp_all add: Cons_nth_drop_Suc [symmetric])
    show ?thesis
    proof (cases "mg_version m \<in> set applied")
      case True
      then obtain q where q: "q < j" "q < length ms" "mg_version (ms ! q) = mg_version m"
        using j by (auto simp: in_set_conv_nth)
      have "q = p"
        using assms(4) q len m sorted_wrt_nth_less [of "(<)" "map mg_version ms"]
        by (simp add: well_numbered_def) (metis linorder_neqE_nat length_map nth_map less_irrefl)
      with q j have "Suc p \<le> k" by simp
      moreover have "max cur (mg_version m) \<in> insert 0 (mg_version ` set (take k ms))"
        using cur q j len k m \<open>q = p\<close> by (auto simp: max_def in_set_conv_nth intro!: imageI exI [of _ p])
      ultimately show ?thesis
        using True Running Cons assms(1,3) j goal more
        by (intro exI [of _ k]) (auto simp: replica_step_def)
    next
      case False
      obtain e db1 where tx: "migrate_tx exec x tbl now m db = (e, db1)" by fastforce
      from migrate_tx_step [OF assms(1) p(1) len] tx m
      consider (same) "db1 = db" "e \<noteq> None" | (one_more) "p = k" "migrated_to exec tbl ms d0 (Suc k) db1"
        by blast
      then show ?thesis
      proof cases
        case same
        with False tx Running Cons assms(1,3) show ?thesis
          by (intro exI [of _ k]) (auto simp: replica_step_def)
      next
        case one_more
        have "cur \<le> mg_version m" using later_larger [OF assms(4) _ cur] len m one_more by simp
        then have "foldl max (mg_version m) (map mg_version more) = latest (map mg_version ms)"
          using goal Cons by (simp add: max_absorb2)
        moreover have "mg_version m \<in> mg_version ` set (take (Suc k) ms)"
          using m len one_more by (simp add: take_Suc_conv_app_nth)
        ultimately have "replica_ok ms (Suc k) (Running applied more (mg_version m))"
          using j(1) by (simp add: more one_more j(2)) (metis le_Suc_eq order_refl)
        with False tx Running Cons assms(3) one_more show ?thesis
          by (intro exI [of _ "Suc k"]) (auto simp: replica_step_def split: option.splits)
      qed
    qed
  qed
qed (use assms in \<open>auto simp: replica_step_def\<close>)

subsection \<open>Any number of processes\<close>

definition fleet_ok ::
  "(string \<Rightarrow> 'd \<Rightarrow> 'd option) \<Rightarrow> string \<Rightarrow> migration list \<Rightarrow> 'd \<Rightarrow> 'd fleet \<Rightarrow> bool" where
  "fleet_ok exec tbl ms d0 s \<longleftrightarrow>
     (\<exists>k. migrated_to exec tbl ms d0 k (fl_db s) \<and> (\<forall>r\<in>set (fl_replicas s). replica_ok ms k r))"

lemma fleet_step_ok:
  assumes "fleet_step start tbl ms exec s s'" and "fleet_ok exec tbl ms d0 s"
    and "well_numbered ms" and "lawful_start start"
  shows "fleet_ok exec tbl ms d0 s'"
  using assms(1)
proof cases
  case (act i x now r db')
  from assms(2) obtain k where k: "migrated_to exec tbl ms d0 k (fl_db s)"
    and all: "\<forall>r\<in>set (fl_replicas s). replica_ok ms k r" by (auto simp: fleet_ok_def)
  from act(2) all have "replica_ok ms k (fl_replicas s ! i)" by simp
  from replica_step_ok [OF k this act(3) assms(3,4)] obtain k' where "k \<le> k'"
    and k': "migrated_to exec tbl ms d0 k' db'" and r: "replica_ok ms k' r" by blast
  then have "\<forall>q\<in>set ((fl_replicas s)[i := r]). replica_ok ms k' q"
    using all replica_ok_mono set_update_subset_insert [of "fl_replicas s" i r]
    by (fastforce simp: migrated_to_def)
  with k' act(1) show ?thesis by (auto simp: fleet_ok_def)
next
  case join
  with assms(2) show ?thesis by (auto simp: fleet_ok_def)
qed

lemma migrated_start: "recorded tbl db = [] \<Longrightarrow> migrated_to exec tbl ms (md_schema db) 0 db"
  by (simp add: migrated_to_def)

lemma fleet_reach_ok:
  assumes "fleet_reach start tbl ms exec db s" and "recorded tbl db = []"
    and "well_numbered ms" and "lawful_start start"
  shows "fleet_ok exec tbl ms (md_schema db) s"
  using assms(1) unfolding fleet_reach_def
proof (induction rule: rtranclp_induct)
  case base
  then show ?case using migrated_start [OF assms(2)] by (auto simp: fleet_ok_def)
next
  case (step s s')
  show ?case by (rule fleet_step_ok [OF step.hyps(2) step.IH assms(3,4)])
qed

text \<open>C21: migrating is safe however many processes do it. Any number of processes start at any time
  on one database, their calls and transactions interleave, and any call may fail: the tracking
  table always lists the first migrations in order, each once, and the schema is what exactly those
  made of the original one. A process that reports success reports the largest version, and then
  all migrations are recorded.\<close>
theorem migrations_applied_once:
  assumes "fleet_reach start tbl ms exec db s" and "recorded tbl db = []"
    and "well_numbered ms" and "lawful_start start"
  shows "\<exists>k\<le>length ms. recorded tbl (fl_db s) = map mg_version (take k ms) \<and>
           replay exec (take k ms) (md_schema db) = Some (md_schema (fl_db s)) \<and>
           (\<forall>v. Migrated v \<in> set (fl_replicas s) \<longrightarrow> k = length ms \<and> v = latest (map mg_version ms))"
proof -
  from fleet_reach_ok [OF assms] obtain k
    where k: "migrated_to exec tbl ms (md_schema db) k (fl_db s)"
      and all: "\<forall>r\<in>set (fl_replicas s). replica_ok ms k r" by (auto simp: fleet_ok_def)
  from k all show ?thesis by (auto simp: migrated_to_def intro!: exI [of _ k])
qed

definition no_faults :: mig_faults where
  "no_faults = \<lparr>mx_create = False, mx_query = False, mx_begin = (\<lambda>_. False), mx_insert = (\<lambda>_. False),
     mx_commit = (\<lambda>_. CommitDone)\<rparr>"

definition sample_exec :: "string \<Rightarrow> string list \<Rightarrow> string list option" where
  "sample_exec sql d = Some (d @ [sql])"

definition sample_ms :: "migration list" where
  "sample_ms = [\<lparr>mg_version = 1, mg_description = ''create api keys'', mg_sql = ''a''\<rparr>]"

definition empty_db :: "string list mig_db" where
  "empty_db = \<lparr>md_tables = (\<lambda>_. None), md_schema = []\<rparr>"

definition key_db :: "string list mig_db" where
  "key_db = snd (migrate_tx sample_exec no_faults ''t'' 7 (hd sample_ms)
     (createSchemaMigrationsTable ''t'' empty_db))"

lemma sample_fleet:
  "fleet_reach start_at_zero ''t'' sample_ms sample_exec empty_db
     \<lparr>fl_db = key_db, fl_replicas = [Migrated 1]\<rparr>"
proof -
  let ?step = "fleet_step start_at_zero ''t'' sample_ms sample_exec"
  let ?db1 = "createSchemaMigrationsTable ''t'' empty_db"
  note defs = replica_step_def no_faults_def empty_db_def sample_ms_def start_at_zero_def
    createSchemaMigrationsTable_def appliedVersions_def key_db_def
  have 1: "?step \<lparr>fl_db = empty_db, fl_replicas = []\<rparr> \<lparr>fl_db = empty_db, fl_replicas = [NotStarted]\<rparr>"
    using fleet_step.join [of start_at_zero "''t''" sample_ms sample_exec
        "\<lparr>fl_db = empty_db, fl_replicas = []\<rparr>"] by simp
  have 2: "?step \<lparr>fl_db = empty_db, fl_replicas = [NotStarted]\<rparr>
      \<lparr>fl_db = ?db1, fl_replicas = [Running [] sample_ms 0]\<rparr>"
    using fleet_step.act [of 0 "\<lparr>fl_db = empty_db, fl_replicas = [NotStarted]\<rparr>" start_at_zero "''t''"
        sample_ms sample_exec no_faults 7 "Running [] sample_ms 0" ?db1] by (simp add: defs)
  have 3: "?step \<lparr>fl_db = ?db1, fl_replicas = [Running [] sample_ms 0]\<rparr>
      \<lparr>fl_db = key_db, fl_replicas = [Running [] [] 1]\<rparr>"
    using fleet_step.act [of 0 "\<lparr>fl_db = ?db1, fl_replicas = [Running [] sample_ms 0]\<rparr>" start_at_zero
        "''t''" sample_ms sample_exec no_faults 7 "Running [] [] 1" key_db]
    by (simp add: defs migrate_tx_def sample_exec_def recordMigration_def)
  have 4: "?step \<lparr>fl_db = key_db, fl_replicas = [Running [] [] 1]\<rparr>
      \<lparr>fl_db = key_db, fl_replicas = [Migrated 1]\<rparr>"
    using fleet_step.act [of 0 "\<lparr>fl_db = key_db, fl_replicas = [Running [] [] 1]\<rparr>" start_at_zero "''t''"
        sample_ms sample_exec no_faults 7 "Migrated 1" key_db] by (simp add: replica_step_def)
  from 1 2 3 4 show ?thesis unfolding fleet_reach_def
    by (meson rtranclp.rtrancl_into_rtrancl rtranclp.rtrancl_refl)
qed

theorem migrations_applied_once_witness:
  "recorded ''t'' key_db = [1] \<and> replay sample_exec sample_ms [] = Some (md_schema key_db)"
proof -
  have "recorded ''t'' empty_db = []" and "well_numbered sample_ms" and "lawful_start start_at_zero"
    by (simp_all add: recorded_def empty_db_def well_numbered_def sample_ms_def lawful_start_def)
  from migrations_applied_once [OF sample_fleet this]
  have "recorded ''t'' key_db = map mg_version sample_ms"
    and "replay sample_exec sample_ms (md_schema empty_db) = Some (md_schema key_db)" by auto
  then show ?thesis by (simp add: empty_db_def sample_ms_def)
qed

text \<open>The price of having no lock: a process that read the table before another one migrated stops
  when it comes to that migration.\<close>

lemma late_replica_stops:
  assumes "mg_version m \<in> set (recorded tbl db)" and "mg_version m \<notin> set applied"
  shows "replica_step start tbl ms exec no_faults now db (Running applied (m # rest) cur)
    \<in> {(Stopped (RecordFailed (mg_version m)), db),
       (Stopped (ApplyFailed (mg_version m) (mg_description m)), db)}"
  using assms
  by (auto simp: replica_step_def migrate_tx_def no_faults_def recordMigration_def recorded_def
      split: option.splits)

subsection \<open>One process, again and again\<close>

lemma migrate_loop_ok:
  assumes "migrate_loop exec x tbl now applied rest cur db = ((v, e), db')"
    and "migrated_to exec tbl ms d0 k db" and "replica_ok ms k (Running applied rest cur)"
    and "well_numbered ms" and "lawful_start start"
  shows "\<exists>k'\<ge>k. migrated_to exec tbl ms d0 k' db' \<and>
    (e = None \<longrightarrow> k' = length ms \<and> v = latest (map mg_version ms))"
  using assms(1-3)
proof (induction rest arbitrary: cur db k)
  case Nil
  then show ?case by (auto simp: migrated_to_def intro!: exI [of _ k])
next
  case (Cons m rest)
  obtain r db1 where step: "replica_step start tbl ms exec x now db (Running applied (m # rest) cur) = (r, db1)"
    by fastforce
  from replica_step_ok [OF Cons.prems(2,3) step assms(4,5)] obtain k1 where "k \<le> k1"
    and k1: "migrated_to exec tbl ms d0 k1 db1" and r: "replica_ok ms k1 r" by blast
  show ?case
  proof (cases r)
    case (Running applied' rest' cur')
    with step have "applied' = applied" and "rest' = rest"
      and "migrate_loop exec x tbl now applied rest cur' db1 = ((v, e), db')"
      using Cons.prems(1) by (auto simp: replica_step_def split: if_splits prod.splits option.splits)
    with Cons.IH [OF _ k1, of cur'] r Running \<open>k \<le> k1\<close> show ?thesis by (auto intro: order_trans)
  next
    case (Stopped e')
    with step have "e \<noteq> None" and "db1 = db'"
      using Cons.prems(1) by (auto simp: replica_step_def split: if_splits prod.splits option.splits)
    with k1 \<open>k \<le> k1\<close> show ?thesis by auto
  qed (use step in \<open>auto simp: replica_step_def split: if_splits prod.splits option.splits\<close>)
qed

lemma migrate_with_ok:
  assumes "migrate_with start tbl dir exec x now db = ((v, e), db')"
    and "loadMigrations dir = Inr ms" and "migrated_to exec tbl ms d0 k db"
    and "well_numbered ms" and "lawful_start start"
  shows "\<exists>k'\<ge>k. migrated_to exec tbl ms d0 k' db' \<and>
    (e = None \<longrightarrow> k' = length ms \<and> v = latest (map mg_version ms))"
proof (cases "mx_create x \<or> mx_query x")
  case True
  with assms(1-3) migrated_create [OF assms(3)] show ?thesis
    by (auto simp: migrate_with_def Let_def split: if_splits)
next
  case False
  let ?db1 = "createSchemaMigrationsTable tbl db" and ?ap = "map mg_version (take k ms)"
  have "migrate_loop exec x tbl now ?ap ms (start ?ap) ?db1 = ((v, e), db')"
    using False assms(1,2,3) create_applied [of tbl db] by (simp add: migrate_with_def Let_def migrated_to_def)
  moreover have "replica_ok ms k (Running ?ap ms (start ?ap))"
    using start_ok [OF assms(5), of k ms] by (auto intro: exI [of _ 0])
  ultimately show ?thesis
    by (rule migrate_loop_ok [OF _ migrated_create [OF assms(3)] _ assms(4,5)])
qed

text \<open>Without faults, and where the database accepts every text, the loop gets to the end.\<close>

lemma new_version:
  assumes "well_numbered ms" and "k < length ms" and "j \<le> k"
  shows "mg_version (ms ! k) \<notin> mg_version ` set (take j ms)"
proof
  assume "mg_version (ms ! k) \<in> mg_version ` set (take j ms)"
  then obtain i where i: "i < j" "mg_version (ms ! i) = mg_version (ms ! k)"
    using assms(2,3) by (auto simp: in_set_conv_nth)
  have "sorted_wrt (<) (map mg_version ms)" using assms(1) by (simp add: well_numbered_def)
  from sorted_wrt_nth_less [OF this, of i k] i assms(2,3) show False by simp
qed

lemma migrate_tx_succeeds:
  assumes "migrated_to exec tbl ms d0 k db" and "k < length ms" and "replay exec ms d0 \<noteq> None"
    and "md_tables db tbl \<noteq> None" and "well_numbered ms"
  shows "\<exists>db'. migrate_tx exec no_faults tbl now (ms ! k) db = (None, db') \<and>
    migrated_to exec tbl ms d0 (Suc k) db' \<and> md_tables db' tbl \<noteq> None"
proof -
  from assms(1) have sofar: "replay exec (take k ms) d0 = Some (md_schema db)"
    by (simp add: migrated_to_def)
  have "ms = take k ms @ ms ! k # drop (Suc k) ms" using assms(2) by (simp add: id_take_nth_drop)
  with assms(3) have "replay exec (take k ms @ ms ! k # drop (Suc k) ms) d0 \<noteq> None" by simp
  with sofar obtain d where d: "exec (mg_sql (ms ! k)) (md_schema db) = Some d"
    by (auto simp: replay_append split: option.splits)
  from assms(4) obtain rows where rows: "md_tables db tbl = Some rows" by auto
  have "mg_version (ms ! k) \<notin> mg_version ` set (take k ms)"
    by (rule new_version [OF assms(5,2) order_refl])
  then have "mg_version (ms ! k) \<notin> fst ` set rows"
    using assms(1) rows by (simp add: migrated_to_def recorded_def) (metis list.set_map)
  then obtain db' where tx: "migrate_tx exec no_faults tbl now (ms ! k) db = (None, db')"
    and "md_tables db' tbl \<noteq> None"
    using d rows by (simp add: migrate_tx_def no_faults_def recordMigration_def)
  with migrate_tx_step [OF assms(1) order_refl assms(2) tx] show ?thesis by blast
qed

lemma migrate_loop_succeeds:
  assumes "migrated_to exec tbl ms d0 k db" and "p \<le> k" and "j = k \<or> p = k \<and> j \<le> k"
    and "md_tables db tbl \<noteq> None" and "replay exec ms d0 \<noteq> None" and "well_numbered ms"
  shows "snd (fst (migrate_loop exec no_faults tbl now (map mg_version (take j ms)) (drop p ms) cur db)) = None"
  using assms(1-4)
proof (induction "length ms - p" arbitrary: p k cur db)
  case 0
  then show ?case by simp
next
  case (Suc n)
  then have len: "p < length ms" by simp
  have drop: "drop p ms = ms ! p # drop (Suc p) ms" using len by (simp add: Cons_nth_drop_Suc)
  from Suc.hyps(2) have n: "n = length ms - Suc p" by simp
  show ?case
  proof (cases "p < j")
    case True
    with Suc.prems have "Suc p \<le> k" by auto
    moreover from True len have "mg_version (ms ! p) \<in> mg_version ` set (take j ms)"
      by (auto simp: in_set_conv_nth intro!: imageI exI [of _ p])
    ultimately show ?thesis
      using Suc.hyps(1) [OF n Suc.prems(1)] Suc.prems(3,4) True by (auto simp: drop)
  next
    case False
    with Suc.prems have "p = k" by auto
    have "mg_version (ms ! p) \<notin> mg_version ` set (take j ms)"
      using new_version [OF assms(6) len] False by simp
    moreover from migrate_tx_succeeds [OF Suc.prems(1) _ assms(5) Suc.prems(4) assms(6)] len \<open>p = k\<close>
    obtain db' where "migrate_tx exec no_faults tbl now (ms ! p) db = (None, db')"
      and "migrated_to exec tbl ms d0 (Suc k) db'" and "md_tables db' tbl \<noteq> None" by blast
    ultimately show ?thesis
      unfolding drop using Suc.hyps(1) [OF n, of "Suc k" db'] Suc.prems(3) \<open>p = k\<close> by auto
  qed
qed

text \<open>A run of \<open>Migrate\<close> with nothing failing, and the one after it.\<close>

lemma migrate_succeeds:
  assumes "loadMigrations dir = Inr ms" and "migrated_to exec tbl ms d0 k db"
    and "replay exec ms d0 = Some d" and "well_numbered ms" and "lawful_start start"
  shows "\<exists>db'. migrate_with start tbl dir exec no_faults now db = ((latest (map mg_version ms), None), db') \<and>
    migrated_to exec tbl ms d0 (length ms) db' \<and> md_schema db' = d"
proof -
  obtain v e db' where run: "migrate_with start tbl dir exec no_faults now db = ((v, e), db')"
    by (metis prod.collapse)
  let ?db1 = "createSchemaMigrationsTable tbl db" and ?ap = "map mg_version (take k ms)"
  have "migrate_loop exec no_faults tbl now ?ap ms (start ?ap) ?db1 = ((v, e), db')"
    using run assms(1,2) create_applied [of tbl db]
    by (simp add: migrate_with_def Let_def migrated_to_def no_faults_def)
  moreover have "md_tables ?db1 tbl \<noteq> None"
    by (simp add: createSchemaMigrationsTable_def split: option.split)
  ultimately have "e = None"
    using migrate_loop_succeeds [OF migrated_create [OF assms(2)], of 0 k now "start ?ap"] assms(3,4)
    by simp
  with migrate_with_ok [OF run assms(1,2,4,5)] run assms(3) show ?thesis
    by (auto simp: migrated_to_def)
qed

text \<open>The database after a list of attempts, each with its faults.\<close>

fun after_attempts ::
  "(int list \<Rightarrow> int) \<Rightarrow> string \<Rightarrow> mig_file list option \<Rightarrow> (string \<Rightarrow> 'd \<Rightarrow> 'd option) \<Rightarrow>
   (mig_faults \<times> timestamp) list \<Rightarrow> 'd mig_db \<Rightarrow> 'd mig_db" where
  "after_attempts start tbl dir exec [] db = db"
| "after_attempts start tbl dir exec ((x, now) # as) db =
     after_attempts start tbl dir exec as (snd (migrate_with start tbl dir exec x now db))"

lemma after_attempts_ok:
  assumes "loadMigrations dir = Inr ms" and "well_numbered ms" and "lawful_start start"
    and "migrated_to exec tbl ms d0 k db"
  shows "\<exists>k'. migrated_to exec tbl ms d0 k' (after_attempts start tbl dir exec as db)"
  using assms(4)
proof (induction as arbitrary: db k)
  case Nil
  then show ?case by auto
next
  case (Cons a as)
  obtain x now where a: "a = (x, now)" by fastforce
  obtain v e db' where run: "migrate_with start tbl dir exec x now db = ((v, e), db')"
    by (metis prod.collapse)
  from migrate_with_ok [OF run assms(1) Cons.prems assms(2,3)] Cons.IH show ?case
    by (auto simp: a run)
qed

text \<open>C25: an attempt that fails can be repeated. After any number of attempts on a fresh database, with
  any failures - also a commit that was done but reported as failed - one attempt in which nothing
  fails completes the rest and no more: the schema is what all migrations make of the original one,
  the largest version is reported, and another run changes nothing.\<close>
theorem migrations_resume:
  assumes "loadMigrations dir = Inr ms" and "well_numbered ms" and "lawful_start start"
    and "recorded tbl db = []" and "replay exec ms (md_schema db) = Some d"
  shows "let db1 = after_attempts start tbl dir exec as db;
             (result, db2) = migrate_with start tbl dir exec no_faults now db1;
             (again, db3) = migrate_with start tbl dir exec no_faults later db2
         in result = (latest (map mg_version ms), None) \<and> md_schema db2 = d \<and>
            recorded tbl db2 = map mg_version ms \<and>
            again = result \<and> md_schema db3 = d \<and> recorded tbl db3 = map mg_version ms"
proof -
  from after_attempts_ok [OF assms(1,2,3) migrated_start [OF assms(4)]] obtain k where
    "migrated_to exec tbl ms (md_schema db) k (after_attempts start tbl dir exec as db)" by blast
  from migrate_succeeds [OF assms(1) this assms(5,2,3)] obtain db2 where
    one: "migrate_with start tbl dir exec no_faults now (after_attempts start tbl dir exec as db)
      = ((latest (map mg_version ms), None), db2)"
    and k2: "migrated_to exec tbl ms (md_schema db) (length ms) db2" and "md_schema db2 = d" by blast
  moreover from migrate_succeeds [OF assms(1) k2 assms(5,2,3)] obtain db3 where
    "migrate_with start tbl dir exec no_faults later db2 = ((latest (map mg_version ms), None), db3)"
    and "migrated_to exec tbl ms (md_schema db) (length ms) db3" and "md_schema db3 = d" by blast
  ultimately show ?thesis by (simp add: Let_def migrated_to_def)
qed

text \<open>A list of migrations read from a directory is sorted; only equal versions would break the
  numbering.\<close>

lemma loaded_well_numbered:
  assumes "loadMigrations dir = Inr ms" and "distinct (map mg_version ms)"
    and "list_all (\<lambda>m. 0 \<le> mg_version m) ms"
  shows "well_numbered ms"
proof -
  from assms(1) obtain ls where "ms = sort_key mg_version ls"
    by (auto simp: loadMigrations_def split: option.splits sum.splits)
  then have "sorted (map mg_version ms)" by simp
  with assms(2,3) show ?thesis by (simp add: well_numbered_def strict_sorted_iff)
qed

subsection \<open>The files of the repository\<close>

definition conversations_migrations :: "string \<Rightarrow> string \<Rightarrow> string \<Rightarrow> migration list" where
  "conversations_migrations a b c =
     [\<lparr>mg_version = 1, mg_description = ''create conversations'', mg_sql = a\<rparr>,
      \<lparr>mg_version = 2, mg_description = ''add request context'', mg_sql = b\<rparr>,
      \<lparr>mg_version = 3, mg_description = ''add replay state to conversations'', mg_sql = c\<rparr>]"

lemma conversations_load:
  "loadMigrations (Some (conversations_files a b c)) = Inr (conversations_migrations a b c)"
  by (simp add: conversations_files_def sql_file_def loadMigrations_def parse_file_def
      trim_suffix_def has_suffix_def split2_def Atoi_checked_def signed_digits_def digit_val_def
      min_int64_def max_int64_def conversations_migrations_def Let_def)

lemma conversations_numbered: "well_numbered (conversations_migrations a b c)"
  by (simp add: well_numbered_def conversations_migrations_def)

theorem migrations_resume_witness:
  "let lost = no_faults\<lparr>mx_commit := (\<lambda>v. if v = 2 then CommitLost else CommitDone)\<rparr>;
       db1 = after_attempts start_at_zero ''schema_migrations'' (Some (conversations_files ''a'' ''b'' ''c''))
               sample_exec [(lost, 1)] empty_db;
       (result, db2) = migrate_with start_at_zero ''schema_migrations''
               (Some (conversations_files ''a'' ''b'' ''c'')) sample_exec no_faults 2 db1
   in result = (3, None) \<and> md_schema db2 = [''a'', ''b'', ''c'']"
proof -
  have "recorded ''schema_migrations'' empty_db = []" by (simp add: recorded_def empty_db_def)
  moreover have "replay sample_exec (conversations_migrations ''a'' ''b'' ''c'') (md_schema empty_db)
      = Some [''a'', ''b'', ''c'']"
    by (simp add: conversations_migrations_def sample_exec_def empty_db_def)
  moreover have "lawful_start start_at_zero" by (simp add: lawful_start_def)
  moreover have "latest (map mg_version (conversations_migrations ''a'' ''b'' ''c'')) = 3"
    by (simp add: latest_def conversations_migrations_def)
  ultimately show ?thesis
    using migrations_resume [OF conversations_load conversations_numbered, of start_at_zero
        "''schema_migrations''" empty_db sample_exec "''a''" "''b''" "''c''" "[''a'', ''b'', ''c'']"
        "[(no_faults\<lparr>mx_commit := (\<lambda>v. if v = 2 then CommitLost else CommitDone)\<rparr>, 1)]" 2 3]
    by (simp add: Let_def case_prod_unfold)
qed

lemma version_of_recorded:
  "schema_version True tbl db =
     (case md_tables db tbl of None \<Rightarrow> None
      | Some rows \<Rightarrow> Some (case recorded tbl db of [] \<Rightarrow> 0 | v # vs \<Rightarrow> foldl max v vs))"
  by (auto simp: schema_version_def recorded_def split: option.split list.split)

lemma migrate_keeps_table:
  "migrate_with start tbl dir exec no_faults now db = ((v, None), db') \<Longrightarrow> md_tables db' tbl \<noteq> None"
proof -
  have tx: "migrate_tx exec x tbl now m db = (e, db') \<Longrightarrow> md_tables db tbl \<noteq> None \<Longrightarrow> md_tables db' tbl \<noteq> None"
    for exec :: "string \<Rightarrow> 'd \<Rightarrow> 'd option" and x now m db e db'
    by (auto simp: migrate_tx_def recordMigration_def split: if_splits option.splits commit_result.splits)
  have loop: "migrate_loop exec x tbl now applied ms cur db = (r, db') \<Longrightarrow> md_tables db tbl \<noteq> None \<Longrightarrow>
      md_tables db' tbl \<noteq> None" for exec :: "string \<Rightarrow> 'd \<Rightarrow> 'd option" and x now applied ms cur db r db'
    by (induction ms arbitrary: cur db) (auto split: if_splits prod.splits option.splits dest: tx)
  assume "migrate_with start tbl dir exec no_faults now db = ((v, None), db')"
  then show ?thesis
    by (auto simp: migrate_with_def Let_def createSchemaMigrationsTable_def
        split: if_splits sum.splits option.splits dest!: loop)
qed

text \<open>what opening the conversation store asks of the schema. On a fresh database the three files of
  the repository bring it to the version the code expects. A database one migration ahead is
  refused: once a newer release has migrated it, the release before cannot start any more.\<close>
theorem conversation_schema_gate:
  assumes "recorded ''schema_migrations'' db = []"
    and "replay exec (conversations_migrations a b c) (md_schema db) = Some d"
    and "recorded ''schema_migrations'' newer = [1, 2, 3, 4]"
  shows "(let (err, db') = open_conversations (Some (conversations_files a b c)) exec no_faults True now db
          in err = None \<and> md_schema db' = d) \<and>
         open_conversations (Some (conversations_files a b c)) exec no_faults True now newer
           = (Some (Inr (VersionMismatch 4 3)), newer)"
proof -
  let ?dir = "Some (conversations_files a b c)" and ?ms = "conversations_migrations a b c"
  have start: "lawful_start start_at_zero" by (simp add: lawful_start_def)
  from migrate_succeeds [OF conversations_load migrated_start [OF assms(1)] assms(2) conversations_numbered start]
  obtain db' where run: "conversations_Migrate ?dir exec no_faults now db = ((latest (map mg_version ?ms), None), db')"
    and all: "recorded ''schema_migrations'' db' = map mg_version ?ms" and d: "md_schema db' = d"
    by (auto simp: conversations_Migrate_def migrated_to_def)
  from migrate_keeps_table run have "md_tables db' ''schema_migrations'' \<noteq> None"
    unfolding conversations_Migrate_def by blast
  with all have "conversations_CheckSchemaVersion True db' = None"
    by (auto simp: conversations_CheckSchemaVersion_def check_version_def version_of_recorded
        conversations_migrations_def)
  with run d have first: "let (err, db') = open_conversations ?dir exec no_faults True now db
      in err = None \<and> md_schema db' = d"
    by (simp add: open_conversations_def)
  from assms(3) obtain rows where rows: "md_tables newer ''schema_migrations'' = Some rows"
    by (cases "md_tables newer ''schema_migrations''") (auto simp: recorded_def)
  then have same: "createSchemaMigrationsTable ''schema_migrations'' newer = newer"
    by (simp add: createSchemaMigrationsTable_def)
  have "conversations_Migrate ?dir exec no_faults now newer = ((3, None), newer)"
    using create_applied [of "''schema_migrations''" newer] assms(3)
    by (simp add: conversations_Migrate_def migrate_with_def no_faults_def same conversations_load
        conversations_migrations_def start_at_zero_def)
  moreover have "conversations_CheckSchemaVersion True newer = Some (VersionMismatch 4 3)"
    using rows assms(3) by (simp add: conversations_CheckSchemaVersion_def check_version_def version_of_recorded)
  ultimately have "open_conversations ?dir exec no_faults True now newer
      = (Some (Inr (VersionMismatch 4 3)), newer)"
    by (simp add: open_conversations_def)
  with first show ?thesis by simp
qed

theorem conversation_schema_gate_witness:
  "fst (open_conversations (Some (conversations_files ''a'' ''b'' ''c'')) sample_exec no_faults True 1 empty_db) = None"
proof -
  define newer :: "string list mig_db" where
    "newer = empty_db\<lparr>md_tables := (\<lambda>_. Some [(1, [], 0), (2, [], 0), (3, [], 0), (4, [], 0)])\<rparr>"
  have "recorded ''schema_migrations'' empty_db = []" by (simp add: recorded_def empty_db_def)
  moreover have "replay sample_exec (conversations_migrations ''a'' ''b'' ''c'') (md_schema empty_db)
      = Some [''a'', ''b'', ''c'']"
    by (simp add: conversations_migrations_def sample_exec_def empty_db_def)
  moreover have "recorded ''schema_migrations'' newer = [1, 2, 3, 4]" by (simp add: newer_def recorded_def)
  ultimately show ?thesis
    using conversation_schema_gate [of empty_db sample_exec "''a''" "''b''" "''c''" "[''a'', ''b'', ''c'']" newer 1]
    by (simp add: Let_def case_prod_unfold)
qed

end
