(* ===== verification/Middleware.thy ===== *)
theory Middleware
  imports Observability
begin

text \<open>
  The middlewares around every route: panic recovery and the limit on request bodies
  (\<open>internal/server/middleware.go\<close>), the access log (\<open>cmd/gateway/main.go\<close>), tracing and HTTP
  metrics (\<open>internal/observability\<close>), and the chain \<open>main\<close> builds of them.

  A handler is seen as the calls it makes on the response writer it is given, in order, and
  whether it panics after them. Three middlewares hand their successor a writer of their own that
  wraps the one they were given; the innermost is the server's. Durations are left out.
\<close>

subsection \<open>The server's response writer\<close>

record net_response =
  nr_status :: "nat option"
  nr_header :: "(string \<times> string) list"
  nr_sent_header :: "(string \<times> string) list"
  nr_body :: string

definition new_response :: net_response where
  "new_response = \<lparr>nr_status = None, nr_header = [], nr_sent_header = [], nr_body = []\<rparr>"

text \<open>
  \<open>WriteHeader\<close> of package \<open>net/http\<close>: an informational code (other than 101) is not the final
  status, a second call is logged as superfluous and ignored. \<open>Write\<close> and \<open>Flush\<close> send 200 first
  if there is no status yet, and \<open>Write\<close> refuses a body where the status allows none.
\<close>

definition informational :: "nat \<Rightarrow> bool" where
  "informational c \<longleftrightarrow> 100 \<le> c \<and> c \<le> 199 \<and> c \<noteq> 101"

definition body_allowed :: "nat \<Rightarrow> bool" where
  "body_allowed c \<longleftrightarrow> \<not> (100 \<le> c \<and> c \<le> 199) \<and> c \<noteq> 204 \<and> c \<noteq> 304"

definition net_header :: "nat \<Rightarrow> net_response \<Rightarrow> net_response" where
  "net_header c w =
     (if nr_status w \<noteq> None \<or> informational c then w
      else w\<lparr>nr_status := Some c, nr_sent_header := nr_header w\<rparr>)"

definition net_flush :: "net_response \<Rightarrow> net_response" where
  "net_flush w = net_header 200 w"

definition net_write :: "string \<Rightarrow> net_response \<Rightarrow> nat \<times> net_response" where
  "net_write b w =
     (let w1 = net_header 200 w in
      if body_allowed (the (nr_status w1)) then (length b, w1\<lparr>nr_body := nr_body w1 @ b\<rparr>) else (0, w1))"

definition net_set :: "string \<Rightarrow> string \<Rightarrow> net_response \<Rightarrow> net_response" where
  "net_set k v w = w\<lparr>nr_header := (k, v) # filter (\<lambda>kv. fst kv \<noteq> k) (nr_header w)\<rparr>"

subsection \<open>The writers of the middlewares\<close>

text \<open>
  \<open>responseWriter\<close> of the log, \<open>statusResponseWriter\<close> of tracing, \<open>metricsResponseWriter\<close>: the
  status they will report, the bytes written (the one of tracing counts none) and \<open>wroteHeader\<close>,
  around another writer. \<open>Header\<close> is the embedded writer's, \<open>Flush\<close> goes straight to it.
\<close>

datatype writer_kind = LogWriter | StatusWriter | MetricsWriter

datatype writer =
    NetWriter net_response
  | Wrapper writer_kind nat nat bool writer

definition wrap_writer :: "writer_kind \<Rightarrow> writer \<Rightarrow> writer" where
  "wrap_writer kind w = Wrapper kind 200 0 False w"

fun WriteHeader :: "nat \<Rightarrow> writer \<Rightarrow> writer" where
  "WriteHeader c (NetWriter w) = NetWriter (net_header c w)"
| "WriteHeader c (Wrapper kind status n wrote w) =
     (if wrote then Wrapper kind status n wrote w else Wrapper kind c n True (WriteHeader c w))"

fun Write :: "string \<Rightarrow> writer \<Rightarrow> nat \<times> writer" where
  "Write b (NetWriter w) = map_prod id NetWriter (net_write b w)"
| "Write b (Wrapper kind status n wrote w) =
     (let status1 = (if wrote then status else 200); (k, w1) = Write b w
      in (k, Wrapper kind status1 (if kind = StatusWriter then n else n + k) True w1))"

fun Flush :: "writer \<Rightarrow> writer" where
  "Flush (NetWriter w) = NetWriter (net_flush w)"
| "Flush (Wrapper kind status n wrote w) = Wrapper kind status n wrote (Flush w)"

fun set_header :: "string \<Rightarrow> string \<Rightarrow> writer \<Rightarrow> writer" where
  "set_header k v (NetWriter w) = NetWriter (net_set k v w)"
| "set_header k v (Wrapper kind status n wrote w) = Wrapper kind status n wrote (set_header k v w)"

fun net_of :: "writer \<Rightarrow> net_response" where
  "net_of (NetWriter w) = w"
| "net_of (Wrapper kind status n wrote w) = net_of w"

fun status_of :: "writer \<Rightarrow> nat" where
  "status_of (NetWriter w) = (case nr_status w of None \<Rightarrow> 200 | Some c \<Rightarrow> c)"
| "status_of (Wrapper kind status n wrote w) = status"

fun bytes_of :: "writer \<Rightarrow> nat" where
  "bytes_of (NetWriter w) = length (nr_body w)"
| "bytes_of (Wrapper kind status n wrote w) = n"

fun unwrap :: "writer \<Rightarrow> writer" where
  "unwrap (NetWriter w) = NetWriter w"
| "unwrap (Wrapper kind status n wrote w) = w"

subsection \<open>Handlers\<close>

datatype w_action =
    ActSet string string
  | ActHeader nat
  | ActWrite string
  | ActFlush

fun act :: "w_action \<Rightarrow> writer \<Rightarrow> writer" where
  "act (ActSet k v) w = set_header k v w"
| "act (ActHeader c) w = WriteHeader c w"
| "act (ActWrite b) w = snd (Write b w)"
| "act ActFlush w = Flush w"

definition acts :: "w_action list \<Rightarrow> writer \<Rightarrow> writer" where
  "acts as w = fold act as w"

record web_request =
  wq_method :: string
  wq_path :: string
  wq_scheme :: string
  wq_host :: string
  wq_user_agent :: string
  wq_request_id :: string
  wq_remote_addr :: string
  wq_length :: int
  wq_body :: string
  wq_max_body :: "nat option"
  wq_ctx_request_id :: string

text \<open>\<open>MaxBytesReader\<close>: the bytes a read of the body gives, and whether it ends in an error.\<close>

definition read_body :: "web_request \<Rightarrow> string \<times> bool" where
  "read_body r =
     (case wq_max_body r of
        None \<Rightarrow> (wq_body r, False)
      | Some n \<Rightarrow> (take n (wq_body r), n < length (wq_body r)))"

datatype log_level = LevelDebug | LevelInfo | LevelWarn | LevelError

datatype log_line =
    RequestStarted string string string string string
  | RequestCompleted log_level string string string nat nat
  | PanicRecovered string string string string

record web_obs =
  wo_total :: "string \<times> string \<times> nat \<Rightarrow> nat"
  wo_durations :: "string \<times> string \<times> nat \<Rightarrow> nat"
  wo_request_sizes :: "(string \<times> string \<times> int) list"
  wo_response_sizes :: "(string \<times> string \<times> nat) list"
  wo_spans :: "span_rec list"
  wo_log :: "log_line list"

type_synonym web_handler = "web_request \<Rightarrow> writer \<Rightarrow> web_obs \<Rightarrow> bool \<times> writer \<times> web_obs"

definition run_handler :: "(web_request \<Rightarrow> w_action list \<times> bool) \<Rightarrow> web_handler" where
  "run_handler h r w obs = (let (as, panics) = h r in (panics, acts as w, obs))"

subsection \<open>The middlewares\<close>

definition MetricsMiddleware :: "bool \<Rightarrow> web_handler \<Rightarrow> web_handler" where
  "MetricsMiddleware on next r w obs =
     (if \<not> on then next r w obs
      else
        (let obs1 = (if wq_length r > 0
                     then obs\<lparr>wo_request_sizes := wo_request_sizes obs @ [(wq_method r, wq_path r, wq_length r)]\<rparr>
                     else obs);
             (panics, w1, obs2) = next r (wrap_writer MetricsWriter w) obs1;
             k = (wq_method r, wq_path r, status_of w1)
         in if panics then (True, unwrap w1, obs2)
            else (False, unwrap w1,
                  obs2\<lparr>wo_total := bump (wo_total obs2) k, wo_durations := bump (wo_durations obs2) k,
                       wo_response_sizes := wo_response_sizes obs2 @ [(wq_method r, wq_path r, bytes_of w1)]\<rparr>)))"

text \<open>\<open>text\<close> is \<open>http.StatusText\<close>. The span ends by \<open>defer\<close>, also when the handler panics.\<close>

definition TracingMiddleware :: "(nat \<Rightarrow> string) \<Rightarrow> bool \<Rightarrow> web_handler \<Rightarrow> web_handler" where
  "TracingMiddleware text on next r w obs =
     (if \<not> on then next r w obs
      else
        (let sp = start_span (''HTTP '' @ wq_method r @ '' '' @ wq_path r)
                    [AttrStr ''http.method'' (wq_method r), AttrStr ''http.route'' (wq_path r),
                     AttrStr ''http.scheme'' (wq_scheme r), AttrStr ''http.host'' (wq_host r),
                     AttrStr ''http.user_agent'' (wq_user_agent r)];
             sp1 = (if wq_request_id r \<noteq> []
                    then set_attributes [AttrStr ''http.request_id'' (wq_request_id r)] sp else sp);
             (panics, w1, obs1) = next r (wrap_writer StatusWriter w) obs;
             sp2 = (if panics then sp1
                    else (let sp2 = set_attributes [AttrInt ''http.status_code'' (int (status_of w1))] sp1
                          in if status_of w1 \<ge> 400 then set_status (SpanFailed (text (status_of w1))) sp2
                             else set_status SpanOk sp2))
         in (panics, unwrap w1, obs1\<lparr>wo_spans := wo_spans obs1 @ [end_span sp2]\<rparr>)))"

text \<open>\<open>uuid\<close> is the id \<open>uuid.NewString\<close> gives this request.\<close>

definition completed_level :: "nat \<Rightarrow> log_level" where
  "completed_level c = (if c \<ge> 500 then LevelError else if c \<ge> 400 then LevelWarn else LevelInfo)"

definition loggingMiddleware :: "string \<Rightarrow> web_handler \<Rightarrow> web_handler" where
  "loggingMiddleware uuid next r w obs =
     (let r1 = r\<lparr>wq_ctx_request_id := uuid\<rparr>;
          rw = wrap_writer LogWriter (set_header ''X-Request-ID'' uuid w);
          obs1 = obs\<lparr>wo_log := wo_log obs @ [RequestStarted uuid (wq_method r1) (wq_path r1)
                                             (wq_remote_addr r1) (wq_user_agent r1)]\<rparr>;
          (panics, w1, obs2) = next r1 rw obs1
      in if panics then (True, unwrap w1, obs2)
         else (False, unwrap w1,
               obs2\<lparr>wo_log := wo_log obs2 @ [RequestCompleted (completed_level (status_of w1)) uuid
                      (wq_method r1) (wq_path r1) (status_of w1) (bytes_of w1)]\<rparr>))"

definition RequestSizeLimitMiddleware :: "nat \<Rightarrow> web_handler \<Rightarrow> web_handler" where
  "RequestSizeLimitMiddleware n next r w obs =
     (if wq_method r = ''POST'' \<or> wq_method r = ''PUT'' \<or> wq_method r = ''PATCH''
      then next (r\<lparr>wq_max_body := Some n\<rparr>) w obs
      else next r w obs)"

text \<open>\<open>http.Error\<close> with its text, and the recovery. The request it logs is the one it was given.\<close>

definition http_Error :: "string \<Rightarrow> nat \<Rightarrow> writer \<Rightarrow> writer" where
  "http_Error msg c w =
     snd (Write (msg @ [CHR 0x0A])
       (WriteHeader c (set_header ''X-Content-Type-Options'' ''nosniff''
         (set_header ''Content-Type'' ''text/plain; charset=utf-8'' w))))"

definition PanicRecoveryMiddleware :: "web_handler \<Rightarrow> web_handler" where
  "PanicRecoveryMiddleware next r w obs =
     (case next r w obs of
        (False, w1, obs1) \<Rightarrow> (False, w1, obs1)
      | (True, w1, obs1) \<Rightarrow>
          (False, http_Error ''Internal Server Error'' 500 w1,
           obs1\<lparr>wo_log := wo_log obs1 @ [PanicRecovered (wq_ctx_request_id r) (wq_method r) (wq_path r)
                                           (wq_remote_addr r)]\<rparr>))"

text \<open>The chain of \<open>main\<close>; the limit is the configured one, 10 MB if that is 0. To \<open>MaxBytesReader\<close>
  a negative limit is 0.\<close>

definition max_body_size :: "int \<Rightarrow> nat" where
  "max_body_size configured = (if configured = 0 then 10 * 1024 * 1024 else nat configured)"

definition gateway_chain ::
  "(nat \<Rightarrow> string) \<Rightarrow> bool \<Rightarrow> bool \<Rightarrow> int \<Rightarrow> string \<Rightarrow> web_handler \<Rightarrow> web_handler" where
  "gateway_chain text tracing metrics limit uuid mux =
     PanicRecoveryMiddleware
       (RequestSizeLimitMiddleware (max_body_size limit)
         (loggingMiddleware uuid
           (TracingMiddleware text tracing (MetricsMiddleware metrics mux))))"

definition parseLevel :: "string \<Rightarrow> log_level" where
  "parseLevel level =
     (if level = ''debug'' then LevelDebug else if level = ''info'' then LevelInfo
      else if level = ''warn'' then LevelWarn else if level = ''error'' then LevelError else LevelInfo)"

end
