(* ===== verification/MiddlewareProps.thy ===== *)
theory MiddlewareProps
  imports Middleware
begin

text \<open>
  What log, trace and metrics say about a response against what the client got, and what becomes
  of a handler that panics.
\<close>

subsection \<open>A wrapper and what it forwards\<close>

text \<open>The calls a wrapper passes on, and the status it will report.\<close>

fun forwarded :: "bool \<Rightarrow> w_action list \<Rightarrow> w_action list" where
  "forwarded wrote [] = []"
| "forwarded wrote (ActSet k v # as) = ActSet k v # forwarded wrote as"
| "forwarded wrote (ActHeader c # as) =
     (if wrote then forwarded True as else ActHeader c # forwarded True as)"
| "forwarded wrote (ActWrite b # as) = ActWrite b # forwarded True as"
| "forwarded wrote (ActFlush # as) = ActFlush # forwarded wrote as"

fun recorded_status :: "w_action list \<Rightarrow> nat" where
  "recorded_status [] = 200"
| "recorded_status (ActSet k v # as) = recorded_status as"
| "recorded_status (ActHeader c # as) = c"
| "recorded_status (ActWrite b # as) = 200"
| "recorded_status (ActFlush # as) = recorded_status as"

fun flush_first :: "w_action list \<Rightarrow> bool" where
  "flush_first [] = False"
| "flush_first (ActSet k v # as) = flush_first as"
| "flush_first (ActHeader c # as) = False"
| "flush_first (ActWrite b # as) = False"
| "flush_first (ActFlush # as) = True"

fun final_action :: "w_action \<Rightarrow> bool" where
  "final_action (ActHeader c) = (\<not> informational c)"
| "final_action (ActSet k v) = (k \<noteq> ''X-Request-ID'')"
| "final_action a = True"

lemma acts_simps [simp]:
  "acts [] w = w"
  "acts (a # as) w = acts as (act a w)"
  by (simp_all add: acts_def)

lemma forwarded_recorded [simp]: "recorded_status (forwarded False as) = recorded_status as"
  by (induction as rule: recorded_status.induct) auto

lemma forwarded_flush [simp]: "flush_first (forwarded False as) = flush_first as"
  by (induction as rule: flush_first.induct) auto

lemma forwarded_final: "list_all final_action as \<Longrightarrow> list_all final_action (forwarded wrote as)"
  by (induction wrote as rule: forwarded.induct) auto

lemma Write_count:
  "length (nr_body (net_of (snd (Write b w)))) = length (nr_body (net_of w)) + fst (Write b w)"
  by (induction b w rule: Write.induct)
    (auto simp: net_write_def net_header_def Let_def split: prod.split)

lemma body_unchanged:
  "nr_body (net_of (WriteHeader c w)) = nr_body (net_of w)"
  "nr_body (net_of (Flush w)) = nr_body (net_of w)"
  "nr_body (net_of (set_header k v w)) = nr_body (net_of w)"
  by (induction w) (auto simp: net_header_def net_flush_def net_set_def)

text \<open>
  A wrapper that has written forwards the rest and keeps its status; one that has not reports
  what \<open>recorded_status\<close> says. The bytes are those the inner writer took.
\<close>

lemma wrapper_wrote:
  "\<exists>n'. acts as (Wrapper kind status n True w)
     = Wrapper kind status n' True (acts (forwarded True as) w) \<and>
     (kind \<noteq> StatusWriter \<longrightarrow>
        n' + length (nr_body (net_of w)) = n + length (nr_body (net_of (acts (forwarded True as) w))))"
proof (induction as arbitrary: n w)
  case (Cons a as)
  show ?case
  proof (cases a)
    case (ActWrite b)
    then show ?thesis
      using Cons.IH [of "if kind = StatusWriter then n else n + fst (Write b w)" "snd (Write b w)"]
        Write_count [of b w]
      by (auto simp: Let_def split: prod.splits)
  next
    case (ActHeader c)
    then show ?thesis using Cons.IH [of n w] by auto
  next
    case (ActSet k v)
    then show ?thesis using Cons.IH [of n "set_header k v w"] by (auto simp: body_unchanged)
  next
    case ActFlush
    then show ?thesis using Cons.IH [of n "Flush w"] by (auto simp: body_unchanged)
  qed
qed simp

lemma wrapper_fresh:
  "\<exists>n' wrote'. acts as (wrap_writer kind w)
     = Wrapper kind (recorded_status as) n' wrote' (acts (forwarded False as) w) \<and>
     (kind \<noteq> StatusWriter \<longrightarrow>
        n' + length (nr_body (net_of w)) = length (nr_body (net_of (acts (forwarded False as) w))))"
  unfolding wrap_writer_def
proof (induction as arbitrary: w)
  case (Cons a as)
  show ?case
  proof (cases a)
    case (ActWrite b)
    then show ?thesis
      using wrapper_wrote [of as kind 200 "if kind = StatusWriter then 0 else fst (Write b w)" "snd (Write b w)"]
        Write_count [of b w] by (auto simp: Let_def split: prod.splits)
  next
    case (ActHeader c)
    then show ?thesis
      using wrapper_wrote [of as kind c 0 "WriteHeader c w"] by (auto simp: body_unchanged)
  next
    case (ActSet k v)
    then show ?thesis using Cons.IH [of "set_header k v w"] by (auto simp: body_unchanged)
  next
    case ActFlush
    then show ?thesis using Cons.IH [of "Flush w"] by (auto simp: body_unchanged)
  qed
qed (auto simp: ex_bool_eq)

lemma wrapper_reports:
  "status_of (acts as (wrap_writer kind w)) = recorded_status as"
  "unwrap (acts as (wrap_writer kind w)) = acts (forwarded False as) w"
  "kind \<noteq> StatusWriter \<Longrightarrow> nr_body (net_of w) = [] \<Longrightarrow>
     bytes_of (acts as (wrap_writer kind w)) = length (nr_body (net_of (acts (forwarded False as) w)))"
  using wrapper_fresh [of as kind w] by auto

subsection \<open>The server's writer\<close>

text \<open>What the client gets from a writer nothing was written to.\<close>

definition final_status :: "net_response \<Rightarrow> nat" where
  "final_status w = (case nr_status w of None \<Rightarrow> 200 | Some c \<Rightarrow> c)"

definition final_header :: "net_response \<Rightarrow> (string \<times> string) list" where
  "final_header w = (if nr_status w = None then nr_header w else nr_sent_header w)"

lemma acts_net: "\<exists>w'. acts as (NetWriter w) = NetWriter w'"
proof (induction as arbitrary: w)
  case (Cons a as)
  have "\<exists>w1. act a (NetWriter w) = NetWriter w1" by (cases a) auto
  with Cons.IH show ?case by auto
qed simp

lemma net_sel:
  "nr_status (net_set k v w) = nr_status w"
  "nr_status w = Some c \<Longrightarrow> net_header d w = w"
  "nr_status w = Some c \<Longrightarrow> net_flush w = w"
  "nr_status w = Some c \<Longrightarrow> nr_status (snd (net_write b w)) = Some c"
  "nr_status w = Some c \<Longrightarrow> nr_sent_header (snd (net_write b w)) = nr_sent_header w"
  "nr_sent_header (net_set k v w) = nr_sent_header w"
  by (simp_all add: net_set_def net_header_def net_flush_def net_write_def Let_def)

lemma acts_sent:
  "nr_status w = Some c \<Longrightarrow>
   nr_status (net_of (acts as (NetWriter w))) = Some c \<and>
   nr_sent_header (net_of (acts as (NetWriter w))) = nr_sent_header w"
proof (induction as arbitrary: w)
  case (Cons a as)
  obtain w1 where w1: "act a (NetWriter w) = NetWriter w1" "nr_status w1 = Some c"
      "nr_sent_header w1 = nr_sent_header w"
    using Cons.prems by (cases a) (auto simp: net_sel)
  with Cons.IH [OF w1(2)] show ?case by simp
qed simp

lemma acts_status:
  assumes "list_all final_action as" and "nr_status w = None"
  shows "final_status (net_of (acts as (NetWriter w))) = (if flush_first as then 200 else recorded_status as)"
  using assms
proof (induction as arbitrary: w)
  case (Cons a as)
  have flushed: "nr_status (net_header d w) = Some d" if "\<not> informational d" for d
    using that Cons.prems(2) by (simp add: net_header_def)
  have ok: "\<not> informational 200" by (simp add: informational_def)
  show ?case
  proof (cases a)
    case (ActSet k v)
    with Cons show ?thesis by (simp add: net_sel)
  next
    case (ActHeader c)
    with Cons.prems acts_sent [OF flushed, of c as] show ?thesis by (simp add: final_status_def)
  next
    case (ActWrite b)
    have "nr_status (snd (net_write b w)) = Some 200"
      using flushed [OF ok] by (simp add: net_write_def Let_def)
    from acts_sent [OF this, of as] ActWrite show ?thesis by (simp add: final_status_def)
  next
    case ActFlush
    with acts_sent [OF flushed [OF ok], of as] show ?thesis by (simp add: final_status_def net_flush_def)
  qed
qed (simp add: final_status_def)

text \<open>The id set before the handler runs is in the response, unless the handler sets it itself.\<close>

lemma acts_header:
  assumes "list_all final_action as" and "nr_status w = None \<Longrightarrow> map_of (nr_header w) ''X-Request-ID'' = Some u"
    and "nr_status w \<noteq> None \<Longrightarrow> map_of (nr_sent_header w) ''X-Request-ID'' = Some u"
  shows "map_of (final_header (net_of (acts as (NetWriter w)))) ''X-Request-ID'' = Some u"
  using assms
proof (induction as arbitrary: w)
  case Nil
  then show ?case by (cases "nr_status w") (simp_all add: final_header_def)
next
  case (Cons a as)
  have keep: "map_of (filter (\<lambda>kv. fst kv \<noteq> k) xs) ''X-Request-ID'' = map_of xs ''X-Request-ID''"
    if "k \<noteq> ''X-Request-ID''" for k and xs :: "(string \<times> string) list"
    using that by (induction xs) auto
  have head: "map_of (nr_sent_header (net_header d w)) ''X-Request-ID'' = Some u"
    if "nr_status (net_header d w) \<noteq> None" for d
    using Cons.prems(2,3) that by (auto simp: net_header_def split: if_splits)
  have live: "map_of (nr_header (net_header d w)) ''X-Request-ID'' = Some u"
    if "nr_status (net_header d w) = None" for d
    using Cons.prems(2) that by (auto simp: net_header_def split: if_splits)
  show ?case
  proof (cases a)
    case (ActSet k v)
    with Cons.prems(1) have "''X-Request-ID'' \<noteq> k" by auto
    with ActSet Cons.prems Cons.IH [of "net_set k v w"] keep show ?thesis
      by (simp add: net_set_def)
  next
    case (ActHeader c)
    with Cons.prems(1) Cons.IH [of "net_header c w"] head live show ?thesis by simp
  next
    case (ActWrite b)
    with Cons.prems(1) Cons.IH [of "snd (net_write b w)"] head [of 200] live [of 200] show ?thesis
      by (auto simp: net_write_def Let_def split: if_splits)
  next
    case ActFlush
    with Cons.prems(1) Cons.IH [of "net_flush w"] head live show ?thesis by (simp add: net_flush_def)
  qed
qed

subsection \<open>The whole chain\<close>

text \<open>The request as the routes see it, and the calls that reach the server's writer.\<close>

definition limited_request :: "int \<Rightarrow> web_request \<Rightarrow> web_request" where
  "limited_request limit r =
     (if wq_method r \<in> {''POST'', ''PUT'', ''PATCH''} then r\<lparr>wq_max_body := Some (max_body_size limit)\<rparr> else r)"

definition seen_request :: "int \<Rightarrow> string \<Rightarrow> web_request \<Rightarrow> web_request" where
  "seen_request limit uuid r = (limited_request limit r)\<lparr>wq_ctx_request_id := uuid\<rparr>"

definition id_header :: "string \<Rightarrow> writer" where
  "id_header uuid = NetWriter (net_set ''X-Request-ID'' uuid new_response)"

definition chain_response :: "string \<Rightarrow> w_action list \<Rightarrow> writer" where
  "chain_response uuid as = acts (forwarded False (forwarded False (forwarded False as))) (id_header uuid)"

lemma net_of_wrap_writer [simp]: "net_of (wrap_writer kind w) = net_of w"
  by (simp add: wrap_writer_def)

lemma net_of_wrapped: "net_of (acts as (wrap_writer kind w)) = net_of (acts (forwarded False as) w)"
  using wrapper_fresh [of as kind w] by auto

lemma limited_request_simps [simp]:
  "wq_method (limited_request limit r) = wq_method r"
  "wq_path (limited_request limit r) = wq_path r"
  "wq_remote_addr (limited_request limit r) = wq_remote_addr r"
  "wq_user_agent (limited_request limit r) = wq_user_agent r"
  by (simp_all add: limited_request_def)

lemma RequestSizeLimit_limited:
  "RequestSizeLimitMiddleware (max_body_size limit) next r = next (limited_request limit r)"
  by (simp add: RequestSizeLimitMiddleware_def limited_request_def fun_eq_iff)

definition started_line :: "string \<Rightarrow> web_request \<Rightarrow> log_line" where
  "started_line uuid r = RequestStarted uuid (wq_method r) (wq_path r) (wq_remote_addr r) (wq_user_agent r)"

lemma chain_response_status:
  assumes "list_all final_action as"
  shows "final_status (net_of (chain_response uuid as)) = (if flush_first as then 200 else recorded_status as)"
    and "map_of (final_header (net_of (chain_response uuid as))) ''X-Request-ID'' = Some uuid"
proof -
  let ?as = "forwarded False (forwarded False (forwarded False as))"
  have ok: "list_all final_action ?as" using assms by (simp add: forwarded_final)
  show "final_status (net_of (chain_response uuid as)) = (if flush_first as then 200 else recorded_status as)"
    using acts_status [OF ok, of "net_set ''X-Request-ID'' uuid new_response"]
    by (simp add: chain_response_def id_header_def net_set_def new_response_def)
  show "map_of (final_header (net_of (chain_response uuid as))) ''X-Request-ID'' = Some uuid"
    unfolding chain_response_def id_header_def
    by (rule acts_header [OF ok]) (simp_all add: net_set_def new_response_def)
qed

text \<open>The chain run on a handler, with everything switched on.\<close>

lemma logging_chain:
  assumes "h (r\<lparr>wq_ctx_request_id := uuid\<rparr>) = (as, panics)"
  shows "\<exists>obs1. loggingMiddleware uuid (TracingMiddleware text True (MetricsMiddleware True (run_handler h))) r
      (NetWriter new_response) obs = (panics, chain_response uuid as, obs1) \<and>
    wo_log obs1 = wo_log obs @ [started_line uuid r] @
      (if panics then [] else [RequestCompleted (completed_level (recorded_status as)) uuid (wq_method r) (wq_path r)
         (recorded_status as) (length (nr_body (net_of (chain_response uuid as))))]) \<and>
    wo_total obs1 = (if panics then wo_total obs
                     else bump (wo_total obs) (wq_method r, wq_path r, recorded_status as)) \<and>
    wo_response_sizes obs1 = wo_response_sizes obs @
      (if panics then [] else [(wq_method r, wq_path r, length (nr_body (net_of (chain_response uuid as))))]) \<and>
    (\<exists>attrs. wo_spans obs1 = wo_spans obs @ [\<lparr>sp_name = ''HTTP '' @ wq_method r @ '' '' @ wq_path r,
       sp_attrs = attrs @ (if panics then [] else [AttrInt ''http.status_code'' (int (recorded_status as))]),
       sp_status = (if panics then SpanUnset
                    else if recorded_status as \<ge> 400 then SpanFailed (text (recorded_status as)) else SpanOk),
       sp_ended = True\<rparr>])"
proof -
  have empty: "nr_body (net_set ''X-Request-ID'' uuid new_response) = []"
    by (simp add: net_set_def new_response_def)
  show ?thesis
    using assms empty
    by (cases panics)
      (auto simp: loggingMiddleware_def TracingMiddleware_def MetricsMiddleware_def run_handler_def Let_def
        wrapper_reports net_of_wrapped chain_response_def id_header_def started_line_def set_attributes_def set_status_def start_span_def end_span_def)
qed

lemma chain_run:
  assumes "h (seen_request limit uuid r) = (as, panics)"
  shows "\<exists>obs1. gateway_chain text True True limit uuid (run_handler h) r (NetWriter new_response) obs
      = (False, if panics then http_Error ''Internal Server Error'' 500 (chain_response uuid as)
                else chain_response uuid as, obs1) \<and>
    wo_total obs1 = (if panics then wo_total obs
                     else bump (wo_total obs) (wq_method r, wq_path r, recorded_status as))"
  using logging_chain [of h uuid "limited_request limit r" "as" panics "text" obs] assms
  by (auto simp: gateway_chain_def PanicRecoveryMiddleware_def RequestSizeLimit_limited seen_request_def)

lemma http_Error_sent:
  "nr_status (net_of (http_Error msg 500 (NetWriter net)))
     = Some (case nr_status net of None \<Rightarrow> 500 | Some c \<Rightarrow> c)"
  "body_allowed (the (nr_status (net_of (http_Error msg 500 (NetWriter net))))) \<Longrightarrow>
     nr_body (net_of (http_Error msg 500 (NetWriter net))) = nr_body net @ msg @ [CHR 0x0A]"
  by (auto simp: http_Error_def net_write_def net_header_def net_set_def informational_def Let_def
      split: option.splits if_splits)

lemma chain_response_net: "\<exists>net. chain_response uuid as = NetWriter net"
  using acts_net unfolding chain_response_def id_header_def by blast



definition sample_web :: web_request where
  "sample_web = \<lparr>wq_method = ''GET'', wq_path = ''/ready'', wq_scheme = [], wq_host = ''h'',
     wq_user_agent = [], wq_request_id = [], wq_remote_addr = ''1.2.3.4'', wq_length = 0, wq_body = [],
     wq_max_body = None, wq_ctx_request_id = []\<rparr>"

definition sample_web_obs :: web_obs where
  "sample_web_obs = \<lparr>wo_total = (\<lambda>_. 0), wo_durations = (\<lambda>_. 0), wo_request_sizes = [],
     wo_response_sizes = [], wo_spans = [], wo_log = []\<rparr>"



end
