(* ===== verification/StaticPages.thy ===== *)
theory StaticPages
  imports MiddlewareProps
begin

text \<open>
  \<open>internal/ui/static.go\<close>: the pages of the admin interface. The embedded files are built by
  another tool and no part of the sources, so the directory \<open>dist\<close> is a parameter: what each
  valid name is, a file or a directory. \<open>path.Clean\<close> and \<open>fs.ValidPath\<close> are the library's.
\<close>

datatype dist_entry = DistFile string | DistDir

subsection \<open>Package path\<close>

text \<open>The components of a cleaned path, last one first.\<close>

fun clean_parts :: "bool \<Rightarrow> string list \<Rightarrow> string list \<Rightarrow> string list" where
  "clean_parts rooted acc [] = acc"
| "clean_parts rooted acc (p # ps) =
     (if p = [] \<or> p = ''.'' then clean_parts rooted acc ps
      else if p = ''..'' then
        (case acc of
           q # qs \<Rightarrow> if q = ''..'' then clean_parts rooted (p # acc) ps else clean_parts rooted qs ps
         | [] \<Rightarrow> if rooted then clean_parts rooted [] ps else clean_parts rooted [p] ps)
      else clean_parts rooted (p # acc) ps)"

definition path_clean :: "string \<Rightarrow> string" where
  "path_clean s =
     (let rooted = has_prefix s ''/'';
          parts = rev (clean_parts rooted [] (split_on (CHR ''/'') s));
          body = join_with ''/'' parts
      in if rooted then ''/'' @ body else if body = [] then ''.'' else body)"

definition valid_path :: "string \<Rightarrow> bool" where
  "valid_path name \<longleftrightarrow>
     name = ''.'' \<or>
     list_all (\<lambda>p. p \<noteq> [] \<and> p \<noteq> ''.'' \<and> p \<noteq> ''..'') (split_on (CHR ''/'') name)"

definition dist_open :: "(string \<Rightarrow> dist_entry option) \<Rightarrow> string \<Rightarrow> dist_entry option" where
  "dist_open files name =
     (if \<not> valid_path name then None else if name = ''.'' then Some DistDir else files name)"

subsection \<open>serveSPA\<close>

datatype spa_answer =
    SpaUnavailable
  | SpaNotFound
  | SpaContent string string
  | SpaPanic

text \<open>
  A directory opens like a file, and the conversion of what was opened to an \<open>io.ReadSeeker\<close>
  panics: the embedded file system's directories cannot seek.
\<close>

definition serve_entry :: "string \<Rightarrow> dist_entry \<Rightarrow> spa_answer" where
  "serve_entry name e = (case e of DistFile content \<Rightarrow> SpaContent name content | DistDir \<Rightarrow> SpaPanic)"

definition serveSPA :: "(string \<Rightarrow> dist_entry option) option \<Rightarrow> string \<Rightarrow> spa_answer" where
  "serveSPA assets path =
     (case assets of
        None \<Rightarrow> SpaUnavailable
      | Some files \<Rightarrow>
          (let urlPath = (if path = [] \<or> path = ''/'' then ''index.html'' else trim_prefix path ''/'');
               cleanPath = path_clean urlPath
           in case dist_open files cleanPath of
                Some e \<Rightarrow> serve_entry cleanPath e
              | None \<Rightarrow>
                  (case dist_open files ''index.html'' of
                     None \<Rightarrow> SpaNotFound
                   | Some e \<Rightarrow> serve_entry ''index.html'' e)))"

text \<open>The calls on the response writer; \<open>ServeContent\<close> answers a plain request with 200.\<close>

fun spa_actions :: "spa_answer \<Rightarrow> w_action list \<times> bool" where
  "spa_actions SpaUnavailable = ([ActHeader 404, ActWrite (''Admin UI not available'' @ [CHR 0x0A])], False)"
| "spa_actions SpaNotFound = ([ActHeader 404, ActWrite (''Not found'' @ [CHR 0x0A])], False)"
| "spa_actions (SpaContent name content) = ([ActHeader 200, ActWrite content], False)"
| "spa_actions SpaPanic = ([], True)"

lemma path_clean_examples:
  "path_clean ''assets/'' = ''assets''" "path_clean ''a/../..'' = ''..''" "path_clean ''a//b/./c'' = ''a/b/c''"
  "path_clean ''..'' = ''..''" "path_clean [] = ''.''" "path_clean ''/../x'' = ''/x''"
  by code_simp+

text \<open>what the page handler serves. With an index page, every path is answered from the embedded
  files: the file the cleaned path names, or the index page where it names none or leaves the
  directory - and a path that names a directory panics, so that the client gets a 500 the metrics
  do not count.\<close>
theorem spa_answers:
  assumes "files ''index.html'' = Some (DistFile index)" and "path \<notin> {[], ''/''}"
    and "wq_ctx_request_id r = []"
  shows "let name = path_clean (trim_prefix path ''/''); answer = serveSPA (Some files) path;
             (panics, w, obs') = gateway_chain text True True limit uuid (run_handler (\<lambda>_. spa_actions answer)) r
               (NetWriter new_response) obs
         in answer = (case dist_open files name of
                        Some (DistFile content) \<Rightarrow> SpaContent name content
                      | Some DistDir \<Rightarrow> SpaPanic
                      | None \<Rightarrow> SpaContent ''index.html'' index) \<and>
            final_status (net_of w) = (if dist_open files name = Some DistDir then 500 else 200) \<and>
            (dist_open files name = Some DistDir \<longrightarrow> wo_total obs' = wo_total obs)"
proof -
  have "valid_path ''index.html''" by code_simp
  then have "dist_open files ''index.html'' = Some (DistFile index)"
    using assms(1) by (simp add: dist_open_def)
  with assms(2) have answer: "serveSPA (Some files) path =
      (case dist_open files (path_clean (trim_prefix path ''/'')) of
         Some (DistFile content) \<Rightarrow> SpaContent (path_clean (trim_prefix path ''/'')) content
       | Some DistDir \<Rightarrow> SpaPanic
       | None \<Rightarrow> SpaContent ''index.html'' index)"
    by (simp add: serveSPA_def Let_def serve_entry_def split: option.split dist_entry.split)
  let ?name = "path_clean (trim_prefix path ''/'')" and ?answer = "serveSPA (Some files) path"
  obtain as panics where h: "spa_actions ?answer = (as, panics)" by fastforce
  obtain net where net: "chain_response uuid as = NetWriter net" using chain_response_net by blast
  from chain_run [of "\<lambda>_. spa_actions ?answer" limit uuid r "as" panics "text" obs, OF h] obtain obs1 where
    run: "gateway_chain text True True limit uuid (run_handler (\<lambda>_. spa_actions ?answer)) r
      (NetWriter new_response) obs
      = (False, if panics then http_Error ''Internal Server Error'' 500 (chain_response uuid as)
                else chain_response uuid as, obs1)"
    and total: "panics \<longrightarrow> wo_total obs1 = wo_total obs" by (auto split: if_splits)
  have panic: "panics \<longleftrightarrow> dist_open files ?name = Some DistDir"
    using h unfolding answer by (auto split: option.splits dist_entry.splits)
  have status: "final_status (net_of (if panics then http_Error ''Internal Server Error'' 500 (chain_response uuid as)
      else chain_response uuid as)) = (if panics then 500 else 200)"
  proof (cases panics)
    case True
    with h have "as = []" unfolding answer by (auto split: option.splits dist_entry.splits)
    with net have "nr_status net = None"
      by (auto simp: chain_response_def id_header_def net_set_def new_response_def)
    with True net http_Error_sent(1) [of "''Internal Server Error''" net] show ?thesis
      by (simp add: final_status_def)
  next
    case False
    with h have "\<exists>content. as = [ActHeader 200, ActWrite content]"
      unfolding answer by (auto split: option.splits dist_entry.splits)
    then have "list_all final_action as" and "\<not> flush_first as" and "recorded_status as = 200"
      by (auto simp: informational_def)
    with False chain_response_status(1) [of "as" uuid] show ?thesis by simp
  qed
  show ?thesis
    using answer run total panic status by (simp add: Let_def)
qed

definition sample_dist :: "string \<Rightarrow> dist_entry option" where
  "sample_dist name = (if name = ''index.html'' then Some (DistFile ''page'')
     else if name = ''assets'' then Some DistDir else None)"

theorem spa_answers_witness:
  "let (panics, w, obs') = gateway_chain (\<lambda>_. []) True True 0 ''u''
         (run_handler (\<lambda>_. spa_actions (serveSPA (Some sample_dist) ''/assets/''))) sample_web
         (NetWriter new_response) sample_web_obs
   in final_status (net_of w) = 500 \<and> wo_total obs' (''GET'', ''/ready'', 500) = 0"
proof -
  have "sample_dist ''index.html'' = Some (DistFile ''page'')" by (simp add: sample_dist_def)
  moreover have "dist_open sample_dist (path_clean (trim_prefix ''/assets/'' ''/'')) = Some DistDir"
    by code_simp
  ultimately show ?thesis
    using spa_answers [of sample_dist "''page''" "''/assets/''" sample_web "\<lambda>_. []" 0 "''u''" sample_web_obs]
    by (auto simp: sample_web_def sample_web_obs_def Let_def split: prod.splits)
qed

end
