(* ===== verification/ConfigSources.thy ===== *)
theory ConfigSources
  imports Config Http
begin

text \<open>
  Where the configuration comes from: the records of \<open>internal/config/config.go\<close>, the environment
  (\<open>env.go\<close>) and the file of providers and models with its \<open>${NAME}\<close> placeholders (\<open>file.go\<close>).

  The environment is a partial function. Reading a file, decoding YAML or JSON into entries and
  \<open>strconv.ParseFloat\<close> are arguments. A Go map is an association list, and the order in which
  \<open>range\<close> visits it an argument \<open>ord\<close>.
\<close>

subsection \<open>The configuration\<close>

record server_config =
  svc_address :: string
  svc_max_request_body_size :: int

record api_keys_config =
  akc_enabled :: bool
  akc_max_keys_per_user :: int

record conversation_config =
  cvc_enabled :: "bool option"
  cvc_store_by_default :: bool
  cvc_ttl :: string
  cvc_max_ttl :: string
  cvc_max_open_conns :: int
  cvc_max_idle_conns :: int
  cvc_conn_max_lifetime :: string
  cvc_conn_max_idle_time :: string

record logging_config =
  lgc_format :: string
  lgc_level :: string

record rate_limit_config =
  rlc_enabled :: bool
  rlc_redis_url :: string
  rlc_trusted_proxy_cidrs :: "string list"
  rlc_requests_per_second :: float64
  rlc_burst :: int
  rlc_max_prompt_tokens :: int
  rlc_max_output_tokens :: int
  rlc_max_concurrent_requests :: int
  rlc_daily_token_quota :: int

record session_config =
  snc_redis_url :: string
  snc_ttl :: string

record metrics_config =
  mtc_enabled :: bool
  mtc_path :: string

record sampler_config =
  smc_type :: string
  smc_rate :: float64

record exporter_config =
  exc_type :: string
  exc_endpoint :: string
  exc_insecure :: bool
  exc_headers :: "(string \<times> string) list"

record tracing_config =
  trc_enabled :: bool
  trc_service_name :: string
  trc_sampler :: sampler_config
  trc_exporter :: exporter_config

record observability_config =
  obc_enabled :: bool
  obc_metrics :: metrics_config
  obc_tracing :: tracing_config

record usage_config =
  usc_enabled :: bool
  usc_buffer_size :: int
  usc_flush_interval :: string

text \<open>\<open>AuthConfig\<close> of package \<open>config\<close>, not the \<open>Config\<close> of package \<open>auth\<close>.\<close>

record auth_settings =
  ast_enabled :: bool
  ast_issuer :: string
  ast_discovery_url :: string
  ast_audiences :: "string list"
  ast_client_id :: string
  ast_client_secret :: string
  ast_redirect_uri :: string
  ast_admin_email :: string

record ui_config =
  uic_enabled :: bool
  uic_claim :: string
  uic_allowed_values :: "string list"
  uic_ip_allowlist :: "string list"

record gateway_config =
  gc_server :: server_config
  gc_providers :: "(string \<times> provider_entry) list"
  gc_models :: "model_entry list"
  gc_auth :: auth_settings
  gc_api_keys :: api_keys_config
  gc_conversations :: conversation_config
  gc_logging :: logging_config
  gc_rate_limit :: rate_limit_config
  gc_session :: session_config
  gc_observability :: observability_config
  gc_usage :: usage_config
  gc_ui :: ui_config

definition IsEnabled :: "conversation_config \<Rightarrow> bool" where
  "IsEnabled c = (case cvc_enabled c of Some b \<Rightarrow> b | None \<Rightarrow> False)"

text \<open>The zero value.\<close>

definition zero_config :: gateway_config where
  "zero_config =
     \<lparr>gc_server = \<lparr>svc_address = [], svc_max_request_body_size = 0\<rparr>, gc_providers = [], gc_models = [],
      gc_auth = \<lparr>ast_enabled = False, ast_issuer = [], ast_discovery_url = [], ast_audiences = [],
        ast_client_id = [], ast_client_secret = [], ast_redirect_uri = [], ast_admin_email = []\<rparr>,
      gc_api_keys = \<lparr>akc_enabled = False, akc_max_keys_per_user = 0\<rparr>,
      gc_conversations = \<lparr>cvc_enabled = None, cvc_store_by_default = False, cvc_ttl = [],
        cvc_max_ttl = [], cvc_max_open_conns = 0, cvc_max_idle_conns = 0,
        cvc_conn_max_lifetime = [], cvc_conn_max_idle_time = []\<rparr>,
      gc_logging = \<lparr>lgc_format = [], lgc_level = []\<rparr>,
      gc_rate_limit = \<lparr>rlc_enabled = False, rlc_redis_url = [], rlc_trusted_proxy_cidrs = [],
        rlc_requests_per_second = 0, rlc_burst = 0, rlc_max_prompt_tokens = 0,
        rlc_max_output_tokens = 0, rlc_max_concurrent_requests = 0, rlc_daily_token_quota = 0\<rparr>,
      gc_session = \<lparr>snc_redis_url = [], snc_ttl = []\<rparr>,
      gc_observability = \<lparr>obc_enabled = False, obc_metrics = \<lparr>mtc_enabled = False, mtc_path = []\<rparr>,
        obc_tracing = \<lparr>trc_enabled = False, trc_service_name = [],
          trc_sampler = \<lparr>smc_type = [], smc_rate = 0\<rparr>,
          trc_exporter = \<lparr>exc_type = [], exc_endpoint = [], exc_insecure = False, exc_headers = []\<rparr>\<rparr>\<rparr>,
      gc_usage = \<lparr>usc_enabled = False, usc_buffer_size = 0, usc_flush_interval = []\<rparr>,
      gc_ui = \<lparr>uic_enabled = False, uic_claim = [], uic_allowed_values = [], uic_ip_allowlist = []\<rparr>\<rparr>"

subsection \<open>The environment\<close>

type_synonym environment = "string \<Rightarrow> string option"

definition Getenv :: "environment \<Rightarrow> string \<Rightarrow> string" where
  "Getenv env key = (case env key of Some v \<Rightarrow> v | None \<Rightarrow> [])"

datatype env_error = InvalidBool string string | InvalidInteger string string | InvalidFloat string string

text \<open>Run a fallible step and hand its value on.\<close>

definition then_do :: "'e + 'a \<Rightarrow> ('a \<Rightarrow> 'e + 'b) \<Rightarrow> 'e + 'b" where
  "then_do r f = (case r of Inl e \<Rightarrow> Inl e | Inr x \<Rightarrow> f x)"

lemma then_do_Inr: "then_do r f = Inr y \<longleftrightarrow> (\<exists>x. r = Inr x \<and> f x = Inr y)"
  by (auto simp: then_do_def split: sum.splits)

text \<open>\<open>strconv.ParseBool\<close>, and \<open>strconv.Atoi\<close> and \<open>ParseInt(v, 10, 64)\<close> with their error.\<close>

definition ParseBool :: "string \<Rightarrow> bool option" where
  "ParseBool s =
     (if s \<in> {''1'', ''t'', ''T'', ''TRUE'', ''true'', ''True''} then Some True
      else if s \<in> {''0'', ''f'', ''F'', ''FALSE'', ''false'', ''False''} then Some False else None)"

definition parse_int64 :: "string \<Rightarrow> int option" where
  "parse_int64 s =
     (let neg = (s \<noteq> [] \<and> hd s = CHR ''-'');
          ds = (if s \<noteq> [] \<and> (hd s = CHR ''-'' \<or> hd s = CHR ''+'') then tl s else s)
      in if ds = [] then None
         else case digits_val ds 0 of
           None \<Rightarrow> None
         | Some n \<Rightarrow>
             (let v = (if neg then - int n else int n) in
              if min_int64 \<le> v \<and> v \<le> max_int64 then Some v else None))"

definition setStr :: "environment \<Rightarrow> string \<Rightarrow> string \<Rightarrow> string" where
  "setStr env key dst = (if Getenv env key \<noteq> [] then Getenv env key else dst)"

definition setStrSlice :: "environment \<Rightarrow> string \<Rightarrow> string list \<Rightarrow> string list" where
  "setStrSlice env key dst =
     (if Getenv env key = [] then dst
      else filter (\<lambda>t. t \<noteq> []) (map trim_space (split_on (CHR '','') (Getenv env key))))"

definition setBool :: "environment \<Rightarrow> string \<Rightarrow> bool \<Rightarrow> env_error + bool" where
  "setBool env key dst =
     (if Getenv env key = [] then Inr dst
      else case ParseBool (Getenv env key) of
             None \<Rightarrow> Inl (InvalidBool key (Getenv env key)) | Some b \<Rightarrow> Inr b)"

definition setBoolPtr :: "environment \<Rightarrow> string \<Rightarrow> bool option \<Rightarrow> env_error + bool option" where
  "setBoolPtr env key dst =
     (if Getenv env key = [] then Inr dst
      else case ParseBool (Getenv env key) of
             None \<Rightarrow> Inl (InvalidBool key (Getenv env key)) | Some b \<Rightarrow> Inr (Some b))"

definition setInt :: "environment \<Rightarrow> string \<Rightarrow> int \<Rightarrow> env_error + int" where
  "setInt env key dst =
     (if Getenv env key = [] then Inr dst
      else case parse_int64 (Getenv env key) of
             None \<Rightarrow> Inl (InvalidInteger key (Getenv env key)) | Some n \<Rightarrow> Inr n)"

definition setInt64 :: "environment \<Rightarrow> string \<Rightarrow> int \<Rightarrow> env_error + int" where
  "setInt64 env key dst =
     (if Getenv env key = [] then Inr dst
      else case parse_int64 (Getenv env key) of
             None \<Rightarrow> Inl (InvalidInteger key (Getenv env key)) | Some n \<Rightarrow> Inr n)"

definition setFloat64 ::
  "(string \<Rightarrow> float64 option) \<Rightarrow> environment \<Rightarrow> string \<Rightarrow> float64 \<Rightarrow> env_error + float64" where
  "setFloat64 pf env key dst =
     (if Getenv env key = [] then Inr dst
      else case pf (Getenv env key) of
             None \<Rightarrow> Inl (InvalidFloat key (Getenv env key)) | Some f \<Rightarrow> Inr f)"

text \<open>\<open>applyEnvOverrides\<close>, section by section in the order of the source.\<close>

definition env_server :: "environment \<Rightarrow> server_config \<Rightarrow> env_error + server_config" where
  "env_server env c =
     then_do (setInt64 env ''SERVER_MAX_REQUEST_BODY_SIZE'' (svc_max_request_body_size c)) (\<lambda>n.
     Inr \<lparr>svc_address = setStr env ''SERVER_ADDRESS'' (svc_address c), svc_max_request_body_size = n\<rparr>)"

definition env_logging :: "environment \<Rightarrow> logging_config \<Rightarrow> logging_config" where
  "env_logging env c =
     \<lparr>lgc_format = setStr env ''LOG_FORMAT'' (lgc_format c), lgc_level = setStr env ''LOG_LEVEL'' (lgc_level c)\<rparr>"

definition env_auth :: "environment \<Rightarrow> auth_settings \<Rightarrow> env_error + auth_settings" where
  "env_auth env c =
     then_do (setBool env ''AUTH_ENABLED'' (ast_enabled c)) (\<lambda>b.
     Inr \<lparr>ast_enabled = b, ast_issuer = setStr env ''AUTH_ISSUER'' (ast_issuer c),
          ast_discovery_url = setStr env ''AUTH_DISCOVERY_URL'' (ast_discovery_url c),
          ast_audiences = setStrSlice env ''AUTH_AUDIENCE'' (ast_audiences c),
          ast_client_id = setStr env ''AUTH_CLIENT_ID'' (ast_client_id c),
          ast_client_secret = setStr env ''AUTH_CLIENT_SECRET'' (ast_client_secret c),
          ast_redirect_uri = setStr env ''AUTH_REDIRECT_URI'' (ast_redirect_uri c),
          ast_admin_email = setStr env ''AUTH_ADMIN_EMAIL'' (ast_admin_email c)\<rparr>)"

definition env_api_keys :: "environment \<Rightarrow> api_keys_config \<Rightarrow> env_error + api_keys_config" where
  "env_api_keys env c =
     then_do (setBool env ''API_KEYS_ENABLED'' (akc_enabled c)) (\<lambda>b.
     then_do (setInt env ''API_KEYS_MAX_PER_USER'' (akc_max_keys_per_user c)) (\<lambda>n.
     Inr \<lparr>akc_enabled = b, akc_max_keys_per_user = n\<rparr>))"

definition env_ui :: "environment \<Rightarrow> ui_config \<Rightarrow> env_error + ui_config" where
  "env_ui env c =
     then_do (setBool env ''UI_ENABLED'' (uic_enabled c)) (\<lambda>b.
     Inr \<lparr>uic_enabled = b, uic_claim = setStr env ''UI_CLAIM'' (uic_claim c),
          uic_allowed_values = setStrSlice env ''UI_ALLOWED_VALUES'' (uic_allowed_values c),
          uic_ip_allowlist = setStrSlice env ''UI_IP_ALLOWLIST'' (uic_ip_allowlist c)\<rparr>)"

definition env_rate_limit ::
  "(string \<Rightarrow> float64 option) \<Rightarrow> environment \<Rightarrow> rate_limit_config \<Rightarrow> env_error + rate_limit_config" where
  "env_rate_limit pf env c =
     then_do (setBool env ''RATE_LIMIT_ENABLED'' (rlc_enabled c)) (\<lambda>b.
     then_do (setFloat64 pf env ''RATE_LIMIT_REQUESTS_PER_SECOND'' (rlc_requests_per_second c)) (\<lambda>rps.
     then_do (setInt env ''RATE_LIMIT_BURST'' (rlc_burst c)) (\<lambda>burst.
     then_do (setInt env ''RATE_LIMIT_MAX_PROMPT_TOKENS'' (rlc_max_prompt_tokens c)) (\<lambda>mp.
     then_do (setInt env ''RATE_LIMIT_MAX_OUTPUT_TOKENS'' (rlc_max_output_tokens c)) (\<lambda>mo.
     then_do (setInt env ''RATE_LIMIT_MAX_CONCURRENT_REQUESTS'' (rlc_max_concurrent_requests c)) (\<lambda>mc.
     then_do (setInt64 env ''RATE_LIMIT_DAILY_TOKEN_QUOTA'' (rlc_daily_token_quota c)) (\<lambda>q.
     Inr \<lparr>rlc_enabled = b, rlc_redis_url = setStr env ''RATE_LIMIT_REDIS_URL'' (rlc_redis_url c),
          rlc_trusted_proxy_cidrs =
            setStrSlice env ''RATE_LIMIT_TRUSTED_PROXY_CIDRS'' (rlc_trusted_proxy_cidrs c),
          rlc_requests_per_second = rps, rlc_burst = burst, rlc_max_prompt_tokens = mp,
          rlc_max_output_tokens = mo, rlc_max_concurrent_requests = mc,
          rlc_daily_token_quota = q\<rparr>)))))))"

definition env_observability ::
  "(string \<Rightarrow> float64 option) \<Rightarrow> environment \<Rightarrow> observability_config \<Rightarrow> env_error + observability_config" where
  "env_observability pf env c =
     (let m = obc_metrics c; t = obc_tracing c; s = trc_sampler t; x = trc_exporter t in
     then_do (setBool env ''OBSERVABILITY_ENABLED'' (obc_enabled c)) (\<lambda>b.
     then_do (setBool env ''METRICS_ENABLED'' (mtc_enabled m)) (\<lambda>mb.
     then_do (setBool env ''TRACING_ENABLED'' (trc_enabled t)) (\<lambda>tb.
     then_do (setFloat64 pf env ''TRACING_SAMPLER_RATE'' (smc_rate s)) (\<lambda>rate.
     then_do (setBool env ''TRACING_EXPORTER_INSECURE'' (exc_insecure x)) (\<lambda>ins.
     Inr \<lparr>obc_enabled = b,
          obc_metrics = \<lparr>mtc_enabled = mb, mtc_path = setStr env ''METRICS_PATH'' (mtc_path m)\<rparr>,
          obc_tracing =
            \<lparr>trc_enabled = tb,
             trc_service_name = setStr env ''TRACING_SERVICE_NAME'' (trc_service_name t),
             trc_sampler =
               \<lparr>smc_type = setStr env ''TRACING_SAMPLER_TYPE'' (smc_type s), smc_rate = rate\<rparr>,
             trc_exporter =
               \<lparr>exc_type = setStr env ''TRACING_EXPORTER_TYPE'' (exc_type x),
                exc_endpoint = setStr env ''TRACING_EXPORTER_ENDPOINT'' (exc_endpoint x),
                exc_insecure = ins, exc_headers = exc_headers x\<rparr>\<rparr>\<rparr>))))))"

definition env_usage :: "environment \<Rightarrow> usage_config \<Rightarrow> env_error + usage_config" where
  "env_usage env c =
     then_do (setBool env ''USAGE_ENABLED'' (usc_enabled c)) (\<lambda>b.
     then_do (setInt env ''USAGE_BUFFER_SIZE'' (usc_buffer_size c)) (\<lambda>n.
     Inr \<lparr>usc_enabled = b, usc_buffer_size = n,
          usc_flush_interval = setStr env ''USAGE_FLUSH_INTERVAL'' (usc_flush_interval c)\<rparr>))"

definition env_conversations :: "environment \<Rightarrow> conversation_config \<Rightarrow> env_error + conversation_config" where
  "env_conversations env c =
     then_do (setBoolPtr env ''CONVERSATIONS_ENABLED'' (cvc_enabled c)) (\<lambda>b.
     then_do (setBool env ''CONVERSATIONS_STORE_BY_DEFAULT'' (cvc_store_by_default c)) (\<lambda>d.
     then_do (setInt env ''CONVERSATIONS_MAX_OPEN_CONNS'' (cvc_max_open_conns c)) (\<lambda>mo.
     then_do (setInt env ''CONVERSATIONS_MAX_IDLE_CONNS'' (cvc_max_idle_conns c)) (\<lambda>mi.
     Inr \<lparr>cvc_enabled = b, cvc_store_by_default = d, cvc_ttl = setStr env ''CONVERSATIONS_TTL'' (cvc_ttl c),
          cvc_max_ttl = setStr env ''CONVERSATIONS_MAX_TTL'' (cvc_max_ttl c),
          cvc_max_open_conns = mo, cvc_max_idle_conns = mi,
          cvc_conn_max_lifetime = setStr env ''CONVERSATIONS_CONN_MAX_LIFETIME'' (cvc_conn_max_lifetime c),
          cvc_conn_max_idle_time =
            setStr env ''CONVERSATIONS_CONN_MAX_IDLE_TIME'' (cvc_conn_max_idle_time c)\<rparr>))))"

definition env_session :: "environment \<Rightarrow> session_config \<Rightarrow> session_config" where
  "env_session env c =
     \<lparr>snc_redis_url = setStr env ''SESSION_REDIS_URL'' (snc_redis_url c),
      snc_ttl = setStr env ''SESSION_TTL'' (snc_ttl c)\<rparr>"

definition applyEnvOverrides ::
  "(string \<Rightarrow> float64 option) \<Rightarrow> environment \<Rightarrow> gateway_config \<Rightarrow> env_error + gateway_config" where
  "applyEnvOverrides pf env c =
     then_do (env_server env (gc_server c)) (\<lambda>sv.
     then_do (env_auth env (gc_auth c)) (\<lambda>au.
     then_do (env_api_keys env (gc_api_keys c)) (\<lambda>ak.
     then_do (env_ui env (gc_ui c)) (\<lambda>ui.
     then_do (env_rate_limit pf env (gc_rate_limit c)) (\<lambda>rl.
     then_do (env_observability pf env (gc_observability c)) (\<lambda>ob.
     then_do (env_usage env (gc_usage c)) (\<lambda>us.
     then_do (env_conversations env (gc_conversations c)) (\<lambda>cv.
     Inr (c\<lparr>gc_server := sv, gc_logging := env_logging env (gc_logging c), gc_auth := au,
            gc_api_keys := ak, gc_ui := ui, gc_rate_limit := rl, gc_observability := ob,
            gc_usage := us, gc_conversations := cv,
            gc_session := env_session env (gc_session c)\<rparr>)))))))))"

definition LoadFromEnv :: "(string \<Rightarrow> float64 option) \<Rightarrow> environment \<Rightarrow> env_error + gateway_config" where
  "LoadFromEnv pf env =
     then_do (applyEnvOverrides pf env zero_config) (\<lambda>cfg.
     (let a = gc_auth cfg in
      if ast_audiences a = [] \<and> ast_client_id a \<noteq> []
      then Inr (cfg\<lparr>gc_auth := a\<lparr>ast_audiences := [ast_client_id a]\<rparr>\<rparr>)
      else Inr cfg))"

text \<open>With a client id there is always an audience, whatever \<open>AUTH_AUDIENCE\<close> holds.\<close>

lemma LoadFromEnv_audience:
  assumes "LoadFromEnv pf env = Inr cfg" and "ast_client_id (gc_auth cfg) \<noteq> []"
  shows "ast_audiences (gc_auth cfg) \<noteq> []"
proof -
  from assms(1) obtain c where
    c: "cfg = (if ast_audiences (gc_auth c) = [] \<and> ast_client_id (gc_auth c) \<noteq> []
              then c\<lparr>gc_auth := (gc_auth c)\<lparr>ast_audiences := [ast_client_id (gc_auth c)]\<rparr>\<rparr> else c)"
    unfolding LoadFromEnv_def then_do_Inr Let_def by (metis (lifting) sum.inject(2))
  show ?thesis using assms(2) unfolding c by (auto split: if_splits)
qed

subsection \<open>The file\<close>

text \<open>A match of \<open>envPlaceholderPattern\<close> at the start: the name and what follows it.\<close>

definition name_start :: "char \<Rightarrow> bool" where
  "name_start c = (c = CHR ''_'' \<or> CHR ''A'' \<le> c \<and> c \<le> CHR ''Z'' \<or> CHR ''a'' \<le> c \<and> c \<le> CHR ''z'')"

definition name_char :: "char \<Rightarrow> bool" where
  "name_char c = (name_start c \<or> is_digit c)"

fun placeholder :: "string \<Rightarrow> (string \<times> string) option" where
  "placeholder (c # d # r) =
     (if c = CHR ''$'' \<and> d = CHR ''{'' then
        (let name = takeWhile name_char r; rest = dropWhile name_char r in
         if name \<noteq> [] \<and> name_start (hd name) \<and> rest \<noteq> [] \<and> hd rest = CHR ''}''
         then Some (name, tl rest) else None)
      else None)"
| "placeholder _ = None"

lemma placeholder_shorter: "placeholder s = Some (name, rest) \<Longrightarrow> length rest < length s"
proof (induction s rule: placeholder.induct)
  case (1 c d r)
  then have "rest = tl (dropWhile name_char r)"
    by (auto simp: Let_def split: if_splits)
  moreover have "length (dropWhile name_char r) \<le> length r" by (rule length_dropWhile_le)
  ultimately show ?case by simp
qed auto

function expandEnvString :: "environment \<Rightarrow> string \<Rightarrow> string + string" where
  "expandEnvString env s =
     (case s of
        [] \<Rightarrow> Inr []
      | c # cs \<Rightarrow>
          (case placeholder s of
             Some (name, rest) \<Rightarrow>
               (case env name of
                  None \<Rightarrow> Inl name
                | Some v \<Rightarrow> map_sum id ((@) v) (expandEnvString env rest))
           | None \<Rightarrow> map_sum id ((#) c) (expandEnvString env cs)))"
  by pat_completeness auto
termination
  by (relation "measure (\<lambda>(env, s). length s)") (auto dest: placeholder_shorter)

declare expandEnvString.simps [simp del]

lemma expand_Nil [simp]: "expandEnvString env [] = Inr []"
  by (simp add: expandEnvString.simps)

lemma expand_plain:
  "CHR ''$'' \<notin> set a \<Longrightarrow> expandEnvString env (a @ s) = map_sum id ((@) a) (expandEnvString env s)"
proof (induction a)
  case Nil
  then show ?case by (simp add: map_sum.identity)
next
  case (Cons c a)
  have "placeholder (c # a @ s) = None" using Cons.prems by (cases "a @ s") auto
  with Cons show ?case
    by (subst expandEnvString.simps; cases "expandEnvString env s") auto
qed

text \<open>Text without a dollar sign stands for itself.\<close>

lemma expand_literal: "CHR ''$'' \<notin> set s \<Longrightarrow> expandEnvString env s = Inr s"
  using expand_plain [of s env "[]"] by simp

lemma expand_placeholder:
  assumes "name \<noteq> []" and "name_start (hd name)" and "\<forall>c \<in> set name. name_char c"
  shows "expandEnvString env (''${'' @ name @ ''}'' @ s) =
     (case env name of None \<Rightarrow> Inl name | Some v \<Rightarrow> map_sum id ((@) v) (expandEnvString env s))"
proof -
  have n: "\<not> name_char (CHR ''}'')" by code_simp
  have "takeWhile name_char (name @ CHR ''}'' # s) = name"
    "dropWhile name_char (name @ CHR ''}'' # s) = CHR ''}'' # s"
    using assms(3) n by (simp_all add: takeWhile_append2 dropWhile_append2)
  with assms have "placeholder (''${'' @ name @ ''}'' @ s) = Some (name, s)" by (simp add: Let_def)
  then show ?thesis by (subst expandEnvString.simps) simp
qed

definition then_expand :: "environment \<Rightarrow> string \<Rightarrow> (string \<Rightarrow> string + 'a) \<Rightarrow> string + 'a" where
  "then_expand env s f = then_do (expandEnvString env s) f"

text \<open>The errors name the variable that is not set; the wrapping with field names is left out.\<close>

definition expandProviderEntry :: "environment \<Rightarrow> provider_entry \<Rightarrow> string + provider_entry" where
  "expandProviderEntry env e =
     then_expand env (pe_type e) (\<lambda>typ.
     then_expand env (pe_api_key e) (\<lambda>key.
     then_expand env (pe_endpoint e) (\<lambda>endpoint.
     then_expand env (pe_api_version e) (\<lambda>version.
     then_expand env (pe_project e) (\<lambda>project.
     then_expand env (pe_location e) (\<lambda>location.
     (let e' = e\<lparr>pe_type := typ, pe_api_key := key, pe_endpoint := endpoint,
                 pe_api_version := version, pe_project := project, pe_location := location\<rparr> in
      case pe_circuit_breaker e of
        None \<Rightarrow> Inr e'
      | Some cb \<Rightarrow>
          then_expand env (ce_interval cb) (\<lambda>interval.
          then_expand env (ce_timeout cb) (\<lambda>timeout.
          Inr (e'\<lparr>pe_circuit_breaker :=
                 Some (cb\<lparr>ce_interval := interval, ce_timeout := timeout\<rparr>)\<rparr>)))))))))) "

definition expandModelEntry :: "environment \<Rightarrow> model_entry \<Rightarrow> string + model_entry" where
  "expandModelEntry env m =
     then_expand env (me_name m) (\<lambda>name.
     then_expand env (me_provider m) (\<lambda>provider.
     then_expand env (me_provider_model_id m) (\<lambda>mid.
     Inr \<lparr>me_name = name, me_provider = provider, me_provider_model_id = mid\<rparr>)))"

datatype file_format = Yaml | JsonFile

datatype file_error =
    FileUnreadable
  | FileUnparsable file_format
  | FileUnsupported string
  | FileNoProviders
  | FileNoModels
  | FileUnsetVariable string

definition file_format :: "string \<Rightarrow> file_format option" where
  "file_format path =
     (let lower = to_lower path in
      if has_suffix lower ''.yaml'' \<or> has_suffix lower ''.yml'' then Some Yaml
      else if has_suffix lower ''.json'' then Some JsonFile else None)"

fun expand_providers ::
  "environment \<Rightarrow> (string \<times> provider_entry) list \<Rightarrow> string + (string \<times> provider_entry) list" where
  "expand_providers env [] = Inr []"
| "expand_providers env ((name, e) # es) =
     then_do (expandProviderEntry env e) (\<lambda>e'.
     then_do (expand_providers env es) (\<lambda>es'. Inr ((name, e') # es')))"

fun expand_models :: "environment \<Rightarrow> model_entry list \<Rightarrow> string + model_entry list" where
  "expand_models env [] = Inr []"
| "expand_models env (m # ms) =
     then_do (expandModelEntry env m) (\<lambda>m'.
     then_do (expand_models env ms) (\<lambda>ms'. Inr (m' # ms')))"

text \<open>
  \<open>read\<close> gives the bytes of the file, \<open>parse\<close> decodes them as the given format into the two
  fields of \<open>fileConfig\<close>.
\<close>

definition LoadFromFile ::
  "(string \<Rightarrow> string option) \<Rightarrow>
   (file_format \<Rightarrow> string \<Rightarrow> ((string \<times> provider_entry) list \<times> model_entry list) option) \<Rightarrow>
   ((string \<times> provider_entry) list \<Rightarrow> (string \<times> provider_entry) list) \<Rightarrow> environment \<Rightarrow> string \<Rightarrow>
   file_error + (string \<times> provider_entry) list \<times> model_entry list" where
  "LoadFromFile read parse ord env path =
     (case read path of
        None \<Rightarrow> Inl FileUnreadable
      | Some data \<Rightarrow>
          (case file_format path of
             None \<Rightarrow> Inl (FileUnsupported path)
           | Some fmt \<Rightarrow>
               (case parse fmt data of
                  None \<Rightarrow> Inl (FileUnparsable fmt)
                | Some (ps, ms) \<Rightarrow>
                    (if ps = [] then Inl FileNoProviders
                     else if ms = [] then Inl FileNoModels
                     else case expand_providers env (ord ps) of
                       Inl v \<Rightarrow> Inl (FileUnsetVariable v)
                     | Inr ps' \<Rightarrow>
                         (case expand_models env ms of
                            Inl v \<Rightarrow> Inl (FileUnsetVariable v)
                          | Inr ms' \<Rightarrow> Inr (ps', ms'))))))"

end
