(* ===== verification/Normalize.thy ===== *)
theory Normalize
  imports ApiTypes
begin

text \<open>
  \<open>internal/api/types.go\<close>, second half: \<open>NormalizeInput\<close> turns the items of a request into
  provider messages and collects the item references; \<open>InheritMissingContext\<close> fills the
  settings a follow-up request leaves out from the stored previous request.
\<close>

subsection \<open>Content blocks\<close>

definition getStringField :: "jmap \<Rightarrow> string \<Rightarrow> string" where
  "getStringField m key = (case jget_str m key of Some v \<Rightarrow> v | None \<Rightarrow> [])"

definition textContentBlock :: "string \<Rightarrow> string \<Rightarrow> content_block" where
  "textContentBlock role t =
     zero_block\<lparr>cb_type := (if role = ''assistant'' then ''output_text'' else ''input_text''),
                cb_text := t\<rparr>"

definition normalizeContentBlockMap :: "jmap \<Rightarrow> content_block option" where
  "normalizeContentBlockMap block =
     (let blockType = getStringField block ''type''; b = zero_block\<lparr>cb_type := blockType\<rparr> in
      if is_text_type blockType then Some (b\<lparr>cb_text := getStringField block ''text''\<rparr>)
      else if blockType = ''refusal'' then
        Some (b\<lparr>cb_refusal := getStringField block ''refusal''\<rparr>)
      else if blockType = ''input_image'' then
        Some (b\<lparr>cb_image_url := getStringField block ''image_url'',
                cb_detail := getStringField block ''detail''\<rparr>)
      else if blockType = ''input_file'' then
        Some (b\<lparr>cb_file_data := getStringField block ''file_data'',
                cb_file_url := getStringField block ''file_url'',
                cb_filename := getStringField block ''filename''\<rparr>)
      else if blockType = ''input_video'' then
        Some (b\<lparr>cb_video_url := getStringField block ''video_url''\<rparr>)
      else None)"

definition tool_use_call :: "jmap \<Rightarrow> tool_call" where
  "tool_use_call block =
     \<lparr>tc_id = getStringField block ''id'', tc_name = getStringField block ''name'',
      tc_arguments = (case jget_obj block ''input'' of
                        Some input \<Rightarrow> json_encode (JObj input) | None \<Rightarrow> [])\<rparr>"

fun normalize_blocks :: "jmap list \<Rightarrow> content_block list \<times> tool_call list" where
  "normalize_blocks [] = ([], [])"
| "normalize_blocks (block # blocks) =
     (let (content, tcs) = normalize_blocks blocks in
      if getStringField block ''type'' = ''tool_use'' then (content, tool_use_call block # tcs)
      else case normalizeContentBlockMap block of
             Some b \<Rightarrow> (b # content, tcs)
           | None \<Rightarrow> (content, tcs))"

definition normalizeMessageContent ::
  "string \<Rightarrow> raw \<Rightarrow> content_block list \<times> tool_call list" where
  "normalizeMessageContent role r =
     (case unmarshal_string r of
        Some s \<Rightarrow> ([textContentBlock role s], [])
      | None \<Rightarrow> (case unmarshal_maps r of
                   None \<Rightarrow> ([], [])
                 | Some rawBlocks \<Rightarrow> normalize_blocks rawBlocks))"

definition input_text_block :: "string \<Rightarrow> content_block" where
  "input_text_block s = zero_block\<lparr>cb_type := ''input_text'', cb_text := s\<rparr>"

definition normalizeToolOutputRaw :: "raw \<Rightarrow> content_block list" where
  "normalizeToolOutputRaw r =
     (case unmarshal_string r of
        Some s \<Rightarrow> [input_text_block s]
      | None \<Rightarrow> (case unmarshal_maps r of
                   None \<Rightarrow> []
                 | Some rawBlocks \<Rightarrow> List.map_filter normalizeContentBlockMap rawBlocks))"

text \<open>
  The \<open>default\<close> branch marshals the decoded value and reads it back, which gives the value
  itself.
\<close>

fun normalizeToolOutputContent :: "go_any \<Rightarrow> content_block list" where
  "normalizeToolOutputContent AnyNil = []"
| "normalizeToolOutputContent (AnyVal (JStr s)) = [input_text_block s]"
| "normalizeToolOutputContent (AnyRaw r) = normalizeToolOutputRaw r"
| "normalizeToolOutputContent (AnyVal v) = normalizeToolOutputRaw (RawJson v)"

subsection \<open>Reasoning items\<close>

record reasoning_summary =
  rs_type :: string
  rs_text :: string

fun as_summary :: "json \<Rightarrow> reasoning_summary option" where
  "as_summary (JObj m) =
     (case struct_string_field ''type'' m [] of
        None \<Rightarrow> None
      | Some ty \<Rightarrow> map_option (\<lambda>tx. \<lparr>rs_type = ty, rs_text = tx\<rparr>)
                    (struct_string_field ''text'' m []))"
| "as_summary JNull = Some \<lparr>rs_type = [], rs_text = []\<rparr>"
| "as_summary _ = None"

fun unmarshal_summaries :: "raw \<Rightarrow> reasoning_summary list option" where
  "unmarshal_summaries (RawJson (JArr xs)) = all_some (map as_summary xs)"
| "unmarshal_summaries (RawJson JNull) = Some []"
| "unmarshal_summaries _ = None"

definition summary_blocks :: "raw \<Rightarrow> content_block list" where
  "summary_blocks r =
     (case unmarshal_summaries r of
        None \<Rightarrow> []
      | Some ss \<Rightarrow> map (\<lambda>s. zero_block\<lparr>cb_type := ''output_text'', cb_text := rs_text s\<rparr>)
                    (filter (\<lambda>s. rs_text s \<noteq> []) ss))"

definition reasoning_content :: "input_item \<Rightarrow> content_block list" where
  "reasoning_content item =
     (if it_content item \<noteq> RawNil
      then fst (normalizeMessageContent ''assistant'' (it_content item)) else [])
     @ (if it_summary item \<noteq> RawNil then summary_blocks (it_summary item) else [])
     @ (if it_encrypted_content item \<noteq> []
        then [zero_block\<lparr>cb_type := ''encrypted_reasoning'',
                         cb_encrypted_content := it_encrypted_content item\<rparr>] else [])"

subsection \<open>NormalizeInput\<close>

definition item_call :: "input_item \<Rightarrow> tool_call" where
  "item_call item = \<lparr>tc_id = it_call_id item, tc_name = it_name item,
                     tc_arguments = it_arguments item\<rparr>"

definition tool_call_turn :: "message \<Rightarrow> bool" where
  "tool_call_turn m \<longleftrightarrow>
     msg_role m = ''assistant'' \<and> msg_tool_calls m \<noteq> [] \<and> msg_content m = []"

definition add_function_call :: "message list \<Rightarrow> tool_call \<Rightarrow> message list" where
  "add_function_call msgs tc =
     (if msgs \<noteq> [] \<and> tool_call_turn (last msgs)
      then butlast msgs @ [(last msgs)\<lparr>msg_tool_calls := msg_tool_calls (last msgs) @ [tc]\<rparr>]
      else msgs @ [new_message ''assistant'' [] [tc]])"

definition normalize_item ::
  "message list \<times> string list \<Rightarrow> input_item \<Rightarrow> message list \<times> string list" where
  "normalize_item st item =
     (let (msgs, itemRefs) = st; t = it_type item in
      if t = ''message'' \<or> t = [] then
        (let (content, tcs) = (if it_content item \<noteq> RawNil
                               then normalizeMessageContent (it_role item) (it_content item)
                               else ([], []))
         in (msgs @ [new_message (it_role item) content tcs], itemRefs))
      else if t = ''item_reference'' then
        (msgs, if it_id item \<noteq> [] then itemRefs @ [it_id item] else itemRefs)
      else if t = ''reasoning'' then
        (let content = reasoning_content item in
         (if content \<noteq> [] then msgs @ [new_message ''assistant'' content []] else msgs,
          itemRefs))
      else if t = ''function_call'' then (add_function_call msgs (item_call item), itemRefs)
      else if t = ''function_call_output'' then
        (msgs @ [\<lparr>msg_role = ''tool'',
                  msg_content = normalizeToolOutputContent (it_output item),
                  msg_call_id = it_call_id item, msg_name = it_name item,
                  msg_tool_calls = []\<rparr>], itemRefs)
      else (msgs, itemRefs))"

fun normalize_items ::
  "message list \<times> string list \<Rightarrow> input_item list \<Rightarrow> message list \<times> string list" where
  "normalize_items st [] = st"
| "normalize_items st (item # items) = normalize_items (normalize_item st item) items"

definition NormalizeInput :: "response_request \<Rightarrow> message list \<times> string list" where
  "NormalizeInput r =
     (case in_string (rq_input r) of
        Some s \<Rightarrow> ([new_message ''user'' [textContentBlock ''user'' s] []], [])
      | None \<Rightarrow> normalize_items ([], []) (input_list (rq_input r)))"

subsection \<open>InheritMissingContext\<close>

definition or_opt :: "'a option \<Rightarrow> 'a option \<Rightarrow> 'a option" where
  "or_opt a b = (case a of None \<Rightarrow> b | Some v \<Rightarrow> Some v)"

definition or_raw :: "raw \<Rightarrow> raw \<Rightarrow> raw" where
  "or_raw a b = (if a = RawNil then b else a)"

definition or_list :: "'a list \<Rightarrow> 'a list \<Rightarrow> 'a list" where
  "or_list a b = (if a = [] then b else a)"

fun InheritMissingContext ::
  "response_request \<Rightarrow> response_request option \<Rightarrow> response_request" where
  "InheritMissingContext r None = r"
| "InheritMissingContext r (Some prev) =
     r\<lparr>rq_instructions := or_opt (rq_instructions r) (rq_instructions prev),
       rq_tools := or_raw (rq_tools r) (rq_tools prev),
       rq_tool_choice := or_raw (rq_tool_choice r) (rq_tool_choice prev),
       rq_max_output_tokens := or_opt (rq_max_output_tokens r) (rq_max_output_tokens prev),
       rq_temperature := or_opt (rq_temperature r) (rq_temperature prev),
       rq_top_p := or_opt (rq_top_p r) (rq_top_p prev),
       rq_frequency_penalty := or_opt (rq_frequency_penalty r) (rq_frequency_penalty prev),
       rq_presence_penalty := or_opt (rq_presence_penalty r) (rq_presence_penalty prev),
       rq_top_logprobs := or_opt (rq_top_logprobs r) (rq_top_logprobs prev),
       rq_truncation := or_opt (rq_truncation r) (rq_truncation prev),
       rq_parallel_tool_calls := or_opt (rq_parallel_tool_calls r) (rq_parallel_tool_calls prev),
       rq_text := or_raw (rq_text r) (rq_text prev),
       rq_reasoning := or_raw (rq_reasoning r) (rq_reasoning prev),
       rq_include := or_list (rq_include r) (rq_include prev),
       rq_service_tier := or_opt (rq_service_tier r) (rq_service_tier prev),
       rq_max_tool_calls := or_opt (rq_max_tool_calls r) (rq_max_tool_calls prev),
       rq_stream_options := or_raw (rq_stream_options r) (rq_stream_options prev),
       rq_provider := or_list (rq_provider r) (rq_provider prev),
       rq_metadata := or_list (rq_metadata r) (rq_metadata prev)\<rparr>"

lemma or_idem [simp]:
  "or_opt (or_opt a b) b = or_opt a b" "or_raw (or_raw c d) d = or_raw c d"
  "or_list (or_list e f) f = or_list e f"
  by (auto simp: or_opt_def or_raw_def or_list_def split: option.splits)

lemma or_set [simp]:
  "or_opt (Some v) b = Some v" "or_raw (RawJson j) d = RawJson j" "or_list (x # xs) f = x # xs"
  "or_opt None b = b" "or_raw RawNil d = d" "or_list [] f = f"
  by (auto simp: or_opt_def or_raw_def or_list_def)

subsection \<open>Facts about normalisation\<close>

text \<open>The tool calls of a message list in order, and those of the items.\<close>

definition calls_of :: "message list \<Rightarrow> tool_call list" where
  "calls_of msgs = concat (map msg_tool_calls msgs)"

lemma calls_of_simps [simp]:
  "calls_of [] = []" "calls_of (m # ms) = msg_tool_calls m @ calls_of ms"
  "calls_of (xs @ ys) = calls_of xs @ calls_of ys"
  by (simp_all add: calls_of_def)

lemma new_message_sel [simp]:
  "msg_role (new_message r c t) = r" "msg_content (new_message r c t) = c"
  "msg_tool_calls (new_message r c t) = t" "msg_call_id (new_message r c t) = []"
  "msg_name (new_message r c t) = []"
  by (simp_all add: new_message_def)

lemma calls_of_add [simp]: "calls_of (add_function_call msgs tc) = calls_of msgs @ [tc]"
  by (cases msgs rule: rev_cases) (auto simp: add_function_call_def)

lemma add_function_call_not_Nil [simp]: "add_function_call msgs tc \<noteq> []"
  by (auto simp: add_function_call_def)

lemma add_function_call_turn [simp]: "tool_call_turn (last (add_function_call msgs tc))"
  by (auto simp: add_function_call_def tool_call_turn_def)

lemma normalize_items_append:
  "normalize_items st (xs @ ys) = normalize_items (normalize_items st xs) ys"
  by (induction xs arbitrary: st) auto

end
