(* ===== verification/Responses.thy ===== *)
theory Responses
  imports Normalize Conversation Providers
begin

text \<open>
  The pure part of \<open>internal/server/server.go\<close>: the policy on the tool calls a model emits, the
  output items and messages built from a provider result, the replay state that links output
  items to stored messages, and the response objects.

  \<open>generateID\<close> draws on \<open>uuid.NewString\<close>, third-party code: the parameter \<open>uuid\<close> gives the
  n-th value drawn, and a function that draws takes and returns the number of values drawn.
\<close>

subsection \<open>Server settings\<close>

record token_limits =
  tl_max_prompt_tokens :: int
  tl_max_output_tokens :: int

record gateway_server =
  gs_token_limits :: token_limits
  gs_store_by_default :: bool
  gs_admin_config :: admin_config

definition shouldStore :: "gateway_server \<Rightarrow> response_request \<Rightarrow> bool" where
  "shouldStore s req =
     (case rq_store req of Some b \<Rightarrow> b | None \<Rightarrow> gs_store_by_default s)"

definition generateID :: "(nat \<Rightarrow> string) \<Rightarrow> nat \<Rightarrow> string \<Rightarrow> string" where
  "generateID uuid n prefix = prefix @ take 24 (filter (\<lambda>c. c \<noteq> CHR ''-'') (uuid n))"

subsection \<open>Tool call policy\<close>

definition resp_error :: "string \<Rightarrow> response_error_text \<Rightarrow> response_error" where
  "resp_error ty msg = \<lparr>re_type = ty, re_message = msg, re_code = None, re_param = None\<rparr>"

definition check_declared_name ::
  "response_request \<Rightarrow> parsed_tool_choice \<Rightarrow> string \<Rightarrow> response_error option" where
  "check_declared_name req tc name =
     (case DeclaredToolNames (Some req) of
        Inl err \<Rightarrow> Some (resp_error ''invalid_request'' (BadRequest err))
      | Inr declared \<Rightarrow>
          if declared = [] then Some (resp_error ''model_error'' (UndeclaredTool name))
          else if name \<notin> set declared then Some (resp_error ''model_error'' (UndeclaredTool name))
          else if ptc_mode tc = ''function'' then
            (if name \<noteq> ptc_required_tool_name tc
             then Some (resp_error ''model_error'' (WrongTool name (ptc_required_tool_name tc)))
             else None)
          else if ptc_mode tc = ''allowed_tools'' then
            (if name \<notin> set (ptc_allowed_tools tc)
             then Some (resp_error ''model_error'' (DisallowedTool name)) else None)
          else None)"

fun validateToolCallName :: "response_request option \<Rightarrow> string \<Rightarrow> response_error option" where
  "validateToolCallName None name = None"
| "validateToolCallName (Some req) name =
     (case ParseToolChoice (Some req) of
        Inl err \<Rightarrow> Some (resp_error ''invalid_request'' (BadRequest err))
      | Inr tc \<Rightarrow>
          if ptc_mode tc = ''none'' then Some (resp_error ''model_error'' ToolCallWhileNone)
          else if name = [] then None
          else check_declared_name req tc name)"

fun validateToolCalls :: "response_request option \<Rightarrow> tool_call list \<Rightarrow> response_error option" where
  "validateToolCalls None tcs = None"
| "validateToolCalls (Some req) tcs =
     (case first_some (\<lambda>tc. validateToolCallName (Some req) (tc_name tc)) tcs of
        Some e \<Rightarrow> Some e
      | None \<Rightarrow>
          (case ParseToolChoice (Some req) of
             Inl err \<Rightarrow> Some (resp_error ''invalid_request'' (BadRequest err))
           | Inr tc \<Rightarrow>
               if tcs = [] \<and> (ptc_mode tc = ''required'' \<or> ptc_mode tc = ''any''
                               \<or> ptc_mode tc = ''function'')
               then Some (resp_error ''model_error''
                      (if ptc_mode tc = ''function'' then NoRequiredTool (ptc_required_tool_name tc)
                       else NoRequiredToolCall))
               else None))"

subsection \<open>Output items\<close>

definition message_item :: "string \<Rightarrow> string \<Rightarrow> content_part list \<Rightarrow> output_item" where
  "message_item i status parts =
     \<lparr>oi_id = i, oi_type = ''message'', oi_status = status, oi_role = ''assistant'',
      oi_content = parts, oi_call_id = [], oi_name = [], oi_arguments = []\<rparr>"

definition call_item :: "string \<Rightarrow> string \<Rightarrow> string \<Rightarrow> string \<Rightarrow> string \<Rightarrow> output_item" where
  "call_item i status callID name args =
     \<lparr>oi_id = i, oi_type = ''function_call'', oi_status = status, oi_role = [],
      oi_content = [], oi_call_id = callID, oi_name = name, oi_arguments = args\<rparr>"

lemma item_sel [simp]:
  "oi_id (message_item i s ps) = i" "oi_type (message_item i s ps) = ''message''"
  "oi_content (message_item i s ps) = ps"
  "oi_id (call_item i s c n a) = i" "oi_type (call_item i s c n a) = ''function_call''"
  "oi_call_id (call_item i s c n a) = c" "oi_name (call_item i s c n a) = n"
  "oi_arguments (call_item i s c n a) = a"
  by (simp_all add: message_item_def call_item_def)

definition output_text :: "string \<Rightarrow> content_part" where
  "output_text t = \<lparr>cp_type = ''output_text'', cp_text = t\<rparr>"

fun call_items :: "(nat \<Rightarrow> string) \<Rightarrow> nat \<Rightarrow> tool_call list \<Rightarrow> output_item list" where
  "call_items uuid n [] = []"
| "call_items uuid n (tc # tcs) =
     call_item (generateID uuid n ''item_'') ''completed'' (tc_id tc) (tc_name tc) (tc_arguments tc)
     # call_items uuid (Suc n) tcs"

definition buildOutputItems ::
  "(nat \<Rightarrow> string) \<Rightarrow> nat \<Rightarrow> provider_result \<Rightarrow> output_item list \<times> nat" where
  "buildOutputItems uuid n result =
     (let (items, n1) =
        (if pr_text result \<noteq> []
         then ([message_item (generateID uuid n ''msg_'') ''completed''
                  [output_text (pr_text result)]], Suc n)
         else ([], n))
      in (items @ call_items uuid n1 (pr_tool_calls result),
          n1 + length (pr_tool_calls result)))"

definition buildOutputItemsFromMessage ::
  "(nat \<Rightarrow> string) \<Rightarrow> nat \<Rightarrow> message \<Rightarrow> output_item list \<times> nat" where
  "buildOutputItemsFromMessage uuid n msg =
     (let (items, n1) =
        (if msg_content msg \<noteq> []
         then ([message_item (generateID uuid n ''msg_'') ''completed''
                  (map (\<lambda>b. \<lparr>cp_type = cb_type b, cp_text = cb_text b\<rparr>) (msg_content msg))], Suc n)
         else ([], n))
      in (items @ call_items uuid n1 (msg_tool_calls msg), n1 + length (msg_tool_calls msg)))"

definition output_text_block :: "string \<Rightarrow> content_block" where
  "output_text_block t = zero_block\<lparr>cb_type := ''output_text'', cb_text := t\<rparr>"

definition buildAssistantMessage :: "provider_result \<Rightarrow> message option" where
  "buildAssistantMessage result =
     (if pr_text result = [] \<and> pr_tool_calls result = [] then None
      else Some (new_message ''assistant''
        (if pr_text result \<noteq> [] then [output_text_block (pr_text result)] else [])
        (pr_tool_calls result)))"

subsection \<open>Replay state\<close>

text \<open>
  Slices hold values here, so \<open>cloneMessages\<close> and \<open>cloneToolCalls\<close> are identities.
\<close>

definition replay_item_of :: "provider_result \<Rightarrow> int \<Rightarrow> output_item \<Rightarrow> replay_item" where
  "replay_item_of result messageIndex item =
     \<lparr>ri_id = oi_id item, ri_output_item_type = oi_type item, ri_message_index = messageIndex,
      ri_message = (if oi_type item = ''message'' then pr_replay_message result else None)\<rparr>"

definition buildReplayState ::
  "string \<Rightarrow> provider_result \<Rightarrow> output_item list \<Rightarrow> int \<Rightarrow> replay_state option" where
  "buildReplayState providerName result outputItems messageIndex =
     (let items = map (replay_item_of result messageIndex)
            (filter (\<lambda>i. oi_type i = ''message'' \<or> oi_type i = ''function_call'') outputItems)
      in if pr_id result = [] \<and> items = [] then None
         else Some \<lparr>rp_provider = providerName, rp_provider_response_id = pr_id result,
                    rp_items = items\<rparr>)"

fun apply_items :: "replay_item list \<Rightarrow> message list \<Rightarrow> message list" where
  "apply_items [] out = out"
| "apply_items (item # items) out =
     (case ri_message item of
        None \<Rightarrow> apply_items items out
      | Some m \<Rightarrow>
          if ri_message_index item < 0 \<or> int (length out) \<le> ri_message_index item
          then apply_items items out
          else apply_items items (out[nat (ri_message_index item) := m]))"

definition applyReplayState ::
  "message list \<Rightarrow> replay_state option \<Rightarrow> string \<Rightarrow> message list" where
  "applyReplayState messages replay providerName =
     (case replay of
        None \<Rightarrow> messages
      | Some rp \<Rightarrow> if rp_provider rp \<noteq> providerName then messages
                   else apply_items (rp_items rp) messages)"

text \<open>The map from item ids to replay items: a later item of the same id wins.\<close>

definition replay_refs :: "replay_state \<Rightarrow> string \<Rightarrow> replay_item option" where
  "replay_refs rp i = map_of (rev (map (\<lambda>item. (ri_id item, item)) (rp_items rp))) i"

fun resolve_refs ::
  "replay_state \<Rightarrow> string \<Rightarrow> message list \<Rightarrow> string list \<Rightarrow> int list \<Rightarrow> message list" where
  "resolve_refs rp providerName history [] seen = []"
| "resolve_refs rp providerName history (refID # refs) seen =
     (case replay_refs rp refID of
        None \<Rightarrow> resolve_refs rp providerName history refs seen
      | Some item \<Rightarrow>
          (let i = ri_message_index item in
           if i < 0 \<or> int (length history) \<le> i then resolve_refs rp providerName history refs seen
           else if i \<in> set seen then resolve_refs rp providerName history refs seen
           else (case ri_message item of
                   Some m \<Rightarrow> if rp_provider rp = providerName then m else history ! nat i
                 | None \<Rightarrow> history ! nat i)
                # resolve_refs rp providerName history refs (i # seen)))"

definition resolveItemReferences ::
  "string list \<Rightarrow> message list \<Rightarrow> replay_state option \<Rightarrow> string \<Rightarrow> message list" where
  "resolveItemReferences refIDs history replay providerName =
     (case replay of
        None \<Rightarrow> []
      | Some rp \<Rightarrow> if refIDs = [] then [] else resolve_refs rp providerName history refIDs [])"

subsection \<open>Responses\<close>

definition raw_or :: "raw \<Rightarrow> json \<Rightarrow> raw" where
  "raw_or r d = (if r = RawNil then RawJson d else r)"

definition opt_or :: "'a option \<Rightarrow> 'a \<Rightarrow> 'a" where
  "opt_or v d = (case v of Some x \<Rightarrow> x | None \<Rightarrow> d)"

lemma raw_or_opt_or [simp]:
  "raw_or RawNil d = RawJson d" "raw_or RawInvalid d = RawInvalid" "raw_or (RawJson j) d = RawJson j"
  "opt_or None v = v" "opt_or (Some x) v = x"
  by (simp_all add: raw_or_def opt_or_def)

definition default_text :: json where
  "default_text = JObj [(''format'', JObj [(''type'', JStr ''text'')])]"

text \<open>\<open>now\<close> is the clock reading of \<open>time.Now().Unix()\<close>.\<close>

definition buildResponseWithOutput ::
  "gateway_server \<Rightarrow> timestamp \<Rightarrow> response_request \<Rightarrow> provider_result \<Rightarrow> string \<Rightarrow> string \<Rightarrow>
   output_item list \<Rightarrow> response" where
  "buildResponseWithOutput s now req result providerName responseID outputItems =
     \<lparr>rsp_id = responseID, rsp_object = ''response'', rsp_created_at = now,
      rsp_completed_at = Some now, rsp_status = ''completed'',
      rsp_model = (if pr_model result = [] then rq_model req else pr_model result),
      rsp_previous_response_id = rq_previous_response_id req,
      rsp_instructions = rq_instructions req, rsp_output = outputItems, rsp_error = None,
      rsp_tools = raw_or (rq_tools req) (JArr []),
      rsp_tool_choice = raw_or (rq_tool_choice req) (JStr ''auto''),
      rsp_truncation = opt_or (rq_truncation req) ''disabled'',
      rsp_parallel_tool_calls = opt_or (rq_parallel_tool_calls req) True,
      rsp_text = raw_or (rq_text req) default_text, rsp_top_p = opt_or (rq_top_p req) 1,
      rsp_presence_penalty = opt_or (rq_presence_penalty req) 0,
      rsp_frequency_penalty = opt_or (rq_frequency_penalty req) 0,
      rsp_top_logprobs = opt_or (rq_top_logprobs req) 0,
      rsp_temperature = opt_or (rq_temperature req) 1, rsp_reasoning = rq_reasoning req,
      rsp_usage = Some (pr_usage result), rsp_max_output_tokens = rq_max_output_tokens req,
      rsp_max_tool_calls = rq_max_tool_calls req, rsp_store = shouldStore s req,
      rsp_background = opt_or (rq_background req) False,
      rsp_service_tier = opt_or (rq_service_tier req) ''default'',
      rsp_metadata = rq_metadata req, rsp_provider = providerName\<rparr>"

definition buildResponse ::
  "gateway_server \<Rightarrow> (nat \<Rightarrow> string) \<Rightarrow> nat \<Rightarrow> timestamp \<Rightarrow> response_request \<Rightarrow> provider_result \<Rightarrow>
   string \<Rightarrow> string \<Rightarrow> response" where
  "buildResponse s uuid n now req result providerName responseID =
     buildResponseWithOutput s now req result providerName responseID
       (fst (buildOutputItems uuid n result))"

definition last_assistant :: "message list \<Rightarrow> message option" where
  "last_assistant msgs = List.find (\<lambda>m. msg_role m = ''assistant'') (rev msgs)"

definition unix_seconds :: "timestamp \<Rightarrow> int" where
  "unix_seconds t = t div 1000000000"

fun nonempty_from :: "(response_request \<Rightarrow> string option) \<Rightarrow> response_request option \<Rightarrow> string option" where
  "nonempty_from f None = None"
| "nonempty_from f (Some req) = (if nonempty_ptr (f req) then f req else None)"

definition previousResponseIDFromRequest :: "response_request option \<Rightarrow> string option" where
  "previousResponseIDFromRequest = nonempty_from rq_previous_response_id"

definition instructionsFromRequest :: "response_request option \<Rightarrow> string option" where
  "instructionsFromRequest = nonempty_from rq_instructions"

text \<open>A nil stored request gives the defaults, like a request that sets nothing.\<close>

definition buildResponseFromConversation ::
  "(nat \<Rightarrow> string) \<Rightarrow> nat \<Rightarrow> conversation \<Rightarrow> response" where
  "buildResponseFromConversation uuid n conv =
     (let req = (case cv_request conv of Some r \<Rightarrow> r | None \<Rightarrow> zero_request) in
      \<lparr>rsp_id = cv_id conv, rsp_object = ''response'',
       rsp_created_at = unix_seconds (cv_created_at conv),
       rsp_completed_at = Some (unix_seconds (cv_updated_at conv)), rsp_status = ''completed'',
       rsp_model = cv_model conv,
       rsp_previous_response_id = previousResponseIDFromRequest (cv_request conv),
       rsp_instructions = instructionsFromRequest (cv_request conv),
       rsp_output = (case last_assistant (cv_messages conv) of
                       Some msg \<Rightarrow> fst (buildOutputItemsFromMessage uuid n msg) | None \<Rightarrow> []),
       rsp_error = None, rsp_tools = raw_or (rq_tools req) (JArr []),
       rsp_tool_choice = raw_or (rq_tool_choice req) (JStr ''auto''),
       rsp_truncation = opt_or (rq_truncation req) ''disabled'',
       rsp_parallel_tool_calls = opt_or (rq_parallel_tool_calls req) True,
       rsp_text = raw_or (rq_text req) default_text, rsp_top_p = opt_or (rq_top_p req) 1,
       rsp_presence_penalty = opt_or (rq_presence_penalty req) 0,
       rsp_frequency_penalty = opt_or (rq_frequency_penalty req) 0,
       rsp_top_logprobs = opt_or (rq_top_logprobs req) 0,
       rsp_temperature = opt_or (rq_temperature req) 1, rsp_reasoning = rq_reasoning req,
       rsp_usage = None, rsp_max_output_tokens = rq_max_output_tokens req,
       rsp_max_tool_calls = rq_max_tool_calls req, rsp_store = True, rsp_background = False,
       rsp_service_tier = opt_or (rq_service_tier req) ''default'',
       rsp_metadata = rq_metadata req, rsp_provider = []\<rparr>)"

subsection \<open>Principals\<close>

definition ownerFromPrincipal :: "principal option \<Rightarrow> owner_info" where
  "ownerFromPrincipal p =
     (case p of
        None \<Rightarrow> \<lparr>ow_iss = [], ow_sub = [], ow_tenant = []\<rparr>
      | Some q \<Rightarrow> \<lparr>ow_iss = p_issuer q, ow_sub = p_subject q, ow_tenant = p_tenant_id q\<rparr>)"

definition tenantFromPrincipal :: "principal option \<Rightarrow> string" where
  "tenantFromPrincipal p = (case p of None \<Rightarrow> [] | Some q \<Rightarrow> p_tenant_id q)"

definition subFromPrincipal :: "principal option \<Rightarrow> string" where
  "subFromPrincipal p = (case p of None \<Rightarrow> [] | Some q \<Rightarrow> p_subject q)"

end
