(* ===== verification/Stream.thy ===== *)
theory Stream
  imports Responses
begin

text \<open>
  \<open>handleStreamingResponse\<close> of \<open>internal/server/server.go\<close> as a state machine. The \<open>select\<close>
  loop consumes one event at a time: a delta, a closed delta channel together with what the
  error channel then yields, a value or close of the error channel, or the end of the
  request context. The state collects the events sent to the client, the builders of the
  message and the tool calls, and what the provider reported on the way.
\<close>

subsection \<open>State\<close>

record message_builder =
  mb_item_id :: string
  mb_output_index :: nat
  mb_text :: string

text \<open>The map key of \<open>toolCallsInProgress\<close> is \<open>tb_stream_index\<close>, as in the source.\<close>

record tool_builder =
  tb_stream_index :: int
  tb_output_index :: nat
  tb_item_id :: string
  tb_id :: string
  tb_name :: string
  tb_arguments :: string

datatype sse_chunk = SseEvent string stream_event | SseDone

record stream_state =
  st_seq :: nat
  st_next_output_idx :: nat
  st_ids :: nat
  st_sent :: "sse_chunk list"
  st_msg :: "message_builder option"
  st_calls :: "tool_builder list"
  st_provider_model :: string
  st_provider_id :: string
  st_usage :: "usage option"
  st_replay :: "message option"

datatype select_event =
    SelDelta provider_stream_delta
  | SelDeltaClosed "go_error option"
  | SelErr "go_error option"
  | SelDisconnect

datatype loop_exit =
    ExitDisconnect
  | ExitLoop "go_error option" "response_error option"

subsection \<open>Sending\<close>

text \<open>\<open>json.Marshal\<close> of an event fails exactly when a \<open>RawMessage\<close> in it is no JSON.\<close>

definition response_marshals :: "response \<Rightarrow> bool" where
  "response_marshals r \<longleftrightarrow> rsp_tools r \<noteq> RawInvalid \<and> rsp_tool_choice r \<noteq> RawInvalid \<and>
     rsp_text r \<noteq> RawInvalid \<and> rsp_reasoning r \<noteq> RawInvalid"

definition event_marshals :: "stream_event \<Rightarrow> bool" where
  "event_marshals ev = (case ev_response ev of None \<Rightarrow> True | Some r \<Rightarrow> response_marshals r)"

definition zero_event :: "string \<Rightarrow> stream_event" where
  "zero_event ty = \<lparr>ev_type = ty, ev_sequence_number = 0, ev_response = None,
     ev_output_index = None, ev_item = None, ev_item_id = [], ev_content_index = None,
     ev_part = None, ev_delta = [], ev_text = [], ev_arguments = []\<rparr>"

definition sendSSE :: "stream_event \<Rightarrow> stream_state \<Rightarrow> stream_state" where
  "sendSSE ev st =
     (let ev' = ev\<lparr>ev_sequence_number := st_seq st\<rparr> in
      st\<lparr>st_seq := Suc (st_seq st),
         st_sent := (if event_marshals ev' then st_sent st @ [SseEvent (ev_type ev) ev']
                     else st_sent st)\<rparr>)"

definition sendSSEDone :: "stream_state \<Rightarrow> stream_state" where
  "sendSSEDone st = st\<lparr>st_sent := st_sent st @ [SseDone]\<rparr>"

definition ev_response_event :: "string \<Rightarrow> response \<Rightarrow> stream_event" where
  "ev_response_event ty r = (zero_event ty)\<lparr>ev_response := Some r\<rparr>"

definition ev_item_event :: "string \<Rightarrow> nat \<Rightarrow> output_item \<Rightarrow> stream_event" where
  "ev_item_event ty i item = (zero_event ty)\<lparr>ev_output_index := Some i, ev_item := Some item\<rparr>"

definition ev_msg_event :: "string \<Rightarrow> message_builder \<Rightarrow> stream_event" where
  "ev_msg_event ty b = (zero_event ty)\<lparr>ev_item_id := mb_item_id b,
     ev_output_index := Some (mb_output_index b), ev_content_index := Some 0\<rparr>"

definition ev_call_event :: "string \<Rightarrow> tool_builder \<Rightarrow> stream_event" where
  "ev_call_event ty b = (zero_event ty)\<lparr>ev_item_id := tb_item_id b,
     ev_output_index := Some (tb_output_index b)\<rparr>"

subsection \<open>One delta\<close>

definition builder_message_item :: "string \<Rightarrow> message_builder \<Rightarrow> output_item" where
  "builder_message_item status b = message_item (mb_item_id b) status [output_text (mb_text b)]"

definition builder_call_item :: "tool_builder \<Rightarrow> output_item" where
  "builder_call_item b =
     call_item (tb_item_id b) ''completed'' (tb_id b) (tb_name b) (tb_arguments b)"

definition ensureMessageStarted :: "(nat \<Rightarrow> string) \<Rightarrow> stream_state \<Rightarrow> stream_state" where
  "ensureMessageStarted uuid st =
     (case st_msg st of
        Some _ \<Rightarrow> st
      | None \<Rightarrow>
          (let b = \<lparr>mb_item_id = generateID uuid (st_ids st) ''msg_'',
                    mb_output_index = st_next_output_idx st, mb_text = []\<rparr>;
               st1 = st\<lparr>st_msg := Some b, st_ids := Suc (st_ids st),
                        st_next_output_idx := Suc (st_next_output_idx st)\<rparr>;
               st2 = sendSSE (ev_item_event ''response.output_item.added'' (mb_output_index b)
                        (message_item (mb_item_id b) ''in_progress'' [])) st1
           in sendSSE ((ev_msg_event ''response.content_part.added'' b)
                         \<lparr>ev_part := Some (output_text [])\<rparr>) st2))"

definition note_ids :: "provider_stream_delta \<Rightarrow> stream_state \<Rightarrow> stream_state" where
  "note_ids d st =
     st\<lparr>st_provider_model := (if pd_model d \<noteq> [] \<and> st_provider_model st = [] then pd_model d
                              else st_provider_model st),
        st_provider_id := (if pd_id d \<noteq> [] \<and> st_provider_id st = [] then pd_id d
                           else st_provider_id st)\<rparr>"

definition handle_text :: "(nat \<Rightarrow> string) \<Rightarrow> string \<Rightarrow> stream_state \<Rightarrow> stream_state" where
  "handle_text uuid t st =
     (if t = [] then st
      else
        (let st1 = ensureMessageStarted uuid st in
         case st_msg st1 of
           None \<Rightarrow> st1
         | Some b \<Rightarrow>
             sendSSE ((ev_msg_event ''response.output_text.delta'' b)\<lparr>ev_delta := t\<rparr>)
               (st1\<lparr>st_msg := Some (b\<lparr>mb_text := mb_text b @ t\<rparr>)\<rparr>)))"

fun find_builder :: "tool_builder list \<Rightarrow> int \<Rightarrow> tool_builder option" where
  "find_builder [] i = None"
| "find_builder (b # bs) i = (if tb_stream_index b = i then Some b else find_builder bs i)"

definition put_builder :: "tool_builder \<Rightarrow> tool_builder list \<Rightarrow> tool_builder list" where
  "put_builder b bs = map (\<lambda>b'. if tb_stream_index b' = tb_stream_index b then b else b') bs"

definition new_builder ::
  "(nat \<Rightarrow> string) \<Rightarrow> tool_call_delta \<Rightarrow> stream_state \<Rightarrow> tool_builder" where
  "new_builder uuid tc st =
     \<lparr>tb_stream_index = td_index tc, tb_output_index = st_next_output_idx st,
      tb_item_id = generateID uuid (st_ids st) ''item_'', tb_id = td_id tc, tb_name = td_name tc,
      tb_arguments = []\<rparr>"

text \<open>The builder of the delta's index, created and announced when it is new.\<close>

definition open_builder ::
  "(nat \<Rightarrow> string) \<Rightarrow> response_request option \<Rightarrow> tool_call_delta \<Rightarrow> stream_state \<Rightarrow>
   (tool_builder \<times> response_error option) \<times> stream_state" where
  "open_builder uuid req tc st =
     (case find_builder (st_calls st) (td_index tc) of
        Some b \<Rightarrow> ((b, None), st)
      | None \<Rightarrow>
          (let b = new_builder uuid tc st;
               st1 = st\<lparr>st_calls := st_calls st @ [b], st_ids := Suc (st_ids st),
                        st_next_output_idx := Suc (st_next_output_idx st)\<rparr>
           in case validateToolCallName req (tb_name b) of
                Some e \<Rightarrow> ((b, Some e), st1)
              | None \<Rightarrow>
                  ((b, None),
                   sendSSE (ev_item_event ''response.output_item.added'' (tb_output_index b)
                     (call_item (tb_item_id b) ''in_progress'' (tb_id b) (tb_name b) [])) st1)))"

definition fill_id :: "tool_call_delta \<Rightarrow> tool_builder \<Rightarrow> tool_builder" where
  "fill_id tc b = (if tb_id b = [] \<and> td_id tc \<noteq> [] then b\<lparr>tb_id := td_id tc\<rparr> else b)"

definition handle_tool_call ::
  "(nat \<Rightarrow> string) \<Rightarrow> response_request option \<Rightarrow> tool_call_delta \<Rightarrow> stream_state \<Rightarrow>
   response_error option \<times> stream_state" where
  "handle_tool_call uuid req tc st =
     (let ((b0, err), st1) = open_builder uuid req tc st in
      case err of
        Some e \<Rightarrow> (Some e, st1)
      | None \<Rightarrow>
          (let b1 = fill_id tc b0;
               named = (td_name tc \<noteq> [] \<and> tb_name b1 = []);
               b2 = (if named then b1\<lparr>tb_name := td_name tc\<rparr> else b1);
               st2 = st1\<lparr>st_calls := put_builder b2 (st_calls st1)\<rparr>
           in case (if named then validateToolCallName req (tb_name b2) else None) of
                Some e \<Rightarrow> (Some e, st2)
              | None \<Rightarrow>
                  if td_arguments tc = [] then (None, st2)
                  else
                    (let b3 = b2\<lparr>tb_arguments := tb_arguments b2 @ td_arguments tc\<rparr> in
                     (None,
                      sendSSE ((ev_call_event ''response.function_call_arguments.delta'' b3)
                                 \<lparr>ev_delta := td_arguments tc\<rparr>)
                        (st2\<lparr>st_calls := put_builder b3 (st_calls st2)\<rparr>)))))"

definition note_end :: "provider_stream_delta \<Rightarrow> stream_state \<Rightarrow> stream_state" where
  "note_end d st =
     st\<lparr>st_usage := (case pd_usage d of Some u \<Rightarrow> Some u | None \<Rightarrow> st_usage st),
        st_replay := (case pd_replay_message d of Some m \<Rightarrow> Some m | None \<Rightarrow> st_replay st)\<rparr>"

definition delta_step ::
  "(nat \<Rightarrow> string) \<Rightarrow> response_request option \<Rightarrow> provider_stream_delta \<Rightarrow> stream_state \<Rightarrow>
   loop_exit option \<times> stream_state" where
  "delta_step uuid req d st =
     (let st1 = handle_text uuid (pd_text d) (note_ids d st);
          (err, st2) = (case pd_tool_call_delta d of
                          None \<Rightarrow> (None, st1)
                        | Some tc \<Rightarrow> handle_tool_call uuid req tc st1)
      in case err of
           Some e \<Rightarrow> (Some (ExitLoop None (Some e)), st2)
         | None \<Rightarrow>
             (if pd_done d then Some (ExitLoop None None) else None, note_end d st2))"

subsection \<open>The loop\<close>

fun select_step ::
  "(nat \<Rightarrow> string) \<Rightarrow> response_request option \<Rightarrow> select_event \<Rightarrow> stream_state \<Rightarrow>
   loop_exit option \<times> stream_state" where
  "select_step uuid req (SelDelta d) st = delta_step uuid req d st"
| "select_step uuid req (SelDeltaClosed err) st = (Some (ExitLoop err None), st)"
| "select_step uuid req (SelErr err) st = (Some (ExitLoop err None), st)"
| "select_step uuid req SelDisconnect st = (Some ExitDisconnect, st)"

text \<open>\<open>None\<close>: the events are used up and the loop still waits for another.\<close>

fun stream_loop ::
  "(nat \<Rightarrow> string) \<Rightarrow> response_request option \<Rightarrow> select_event list \<Rightarrow> stream_state \<Rightarrow>
   loop_exit option \<times> stream_state" where
  "stream_loop uuid req [] st = (None, st)"
| "stream_loop uuid req (e # es) st =
     (case select_step uuid req e st of
        (Some x, st') \<Rightarrow> (Some x, st')
      | (None, st') \<Rightarrow> stream_loop uuid req es st')"

subsection \<open>After the loop\<close>

definition sortedToolCallBuilders :: "tool_builder list \<Rightarrow> tool_builder list" where
  "sortedToolCallBuilders bs = sort_key tb_output_index bs"

definition collectToolCalls :: "tool_builder list \<Rightarrow> tool_call list" where
  "collectToolCalls bs =
     map (\<lambda>b. \<lparr>tc_id = tb_id b, tc_name = tb_name b, tc_arguments = tb_arguments b\<rparr>)
       (sortedToolCallBuilders bs)"

definition buildOrderedStreamOutput ::
  "message_builder option \<Rightarrow> tool_builder list \<Rightarrow> output_item list" where
  "buildOrderedStreamOutput msg bs =
     (let items = (case msg of
                     None \<Rightarrow> []
                   | Some b \<Rightarrow> [(mb_output_index b, builder_message_item ''completed'' b)])
                  @ map (\<lambda>b. (tb_output_index b, builder_call_item b)) bs
      in map snd (sort_key fst items))"

definition stream_error :: "loop_exit \<Rightarrow> response_error option" where
  "stream_error x =
     (case x of
        ExitDisconnect \<Rightarrow> None
      | ExitLoop streamErr (Some e) \<Rightarrow> Some e
      | ExitLoop None None \<Rightarrow> None
      | ExitLoop (Some err) None \<Rightarrow>
          Some (if isCircuitBreakerError err then resp_error ''server_error'' BreakerOpen
                else resp_error ''model_error'' (ProviderFailure (go_error_text err))))"

definition send_message_done :: "message_builder \<Rightarrow> stream_state \<Rightarrow> stream_state" where
  "send_message_done b st =
     sendSSE (ev_item_event ''response.output_item.done'' (mb_output_index b)
                (builder_message_item ''completed'' b))
       (sendSSE ((ev_msg_event ''response.content_part.done'' b)
                   \<lparr>ev_part := Some (output_text (mb_text b))\<rparr>)
         (sendSSE ((ev_msg_event ''response.output_text.done'' b)\<lparr>ev_text := mb_text b\<rparr>) st))"

definition send_call_done :: "tool_builder \<Rightarrow> stream_state \<Rightarrow> stream_state" where
  "send_call_done b st =
     sendSSE (ev_item_event ''response.output_item.done'' (tb_output_index b) (builder_call_item b))
       (sendSSE ((ev_call_event ''response.function_call_arguments.done'' b)
                   \<lparr>ev_arguments := tb_arguments b\<rparr>) st)"

definition stream_result :: "response_request \<Rightarrow> stream_state \<Rightarrow> provider_result" where
  "stream_result req st =
     \<lparr>pr_id = st_provider_id st,
      pr_model = (if st_provider_model st \<noteq> [] then st_provider_model st else rq_model req),
      pr_text = (case st_msg st of Some b \<Rightarrow> mb_text b | None \<Rightarrow> []),
      pr_usage = opt_or (st_usage st) zero_usage,
      pr_tool_calls = collectToolCalls (st_calls st),
      pr_replay_message = st_replay st\<rparr>"

definition empty_result :: "response_request \<Rightarrow> provider_result" where
  "empty_result req = \<lparr>pr_id = [], pr_model = rq_model req, pr_text = [], pr_usage = zero_usage,
     pr_tool_calls = [], pr_replay_message = None\<rparr>"

text \<open>The events after the loop; the clock is read again for each response object.\<close>

definition finish_failed ::
  "gateway_server \<Rightarrow> timestamp \<Rightarrow> response_request \<Rightarrow> string \<Rightarrow> string \<Rightarrow> response_error \<Rightarrow>
   stream_state \<Rightarrow> stream_state" where
  "finish_failed s now req providerName responseID e st =
     sendSSEDone (sendSSE (ev_response_event ''response.failed''
       ((buildResponseWithOutput s now req (empty_result req) providerName responseID [])
          \<lparr>rsp_status := ''failed'', rsp_completed_at := None, rsp_output := [],
           rsp_error := Some e\<rparr>)) st)"

definition completed_response ::
  "gateway_server \<Rightarrow> timestamp \<Rightarrow> response_request \<Rightarrow> string \<Rightarrow> string \<Rightarrow> stream_state \<Rightarrow> response" where
  "completed_response s now req providerName responseID st =
     buildResponseWithOutput s now req (stream_result req st) providerName responseID
       (buildOrderedStreamOutput (st_msg st) (st_calls st))"

definition finish_completed ::
  "gateway_server \<Rightarrow> timestamp \<Rightarrow> response_request \<Rightarrow> string \<Rightarrow> string \<Rightarrow> stream_state \<Rightarrow> stream_state" where
  "finish_completed s now req providerName responseID st =
     (let st1 = (case st_msg st of None \<Rightarrow> st | Some b \<Rightarrow> send_message_done b st);
          st2 = fold send_call_done (sortedToolCallBuilders (st_calls st)) st1
      in sendSSEDone (sendSSE (ev_response_event ''response.completed''
           (completed_response s now req providerName responseID st)) st2))"

text \<open>
  The state before the first select: the headers are written, the response id is drawn and
  \<open>response.in_progress\<close> is sent.
\<close>

definition stream_init :: "nat \<Rightarrow> stream_state" where
  "stream_init n = \<lparr>st_seq = 0, st_next_output_idx = 0, st_ids = n, st_sent = [], st_msg = None,
     st_calls = [], st_provider_model = [], st_provider_id = [], st_usage = None,
     st_replay = None\<rparr>"

definition stream_start ::
  "gateway_server \<Rightarrow> timestamp \<Rightarrow> response_request \<Rightarrow> string \<Rightarrow> string \<Rightarrow> nat \<Rightarrow> stream_state" where
  "stream_start s now req providerName responseID n =
     sendSSE (ev_response_event ''response.in_progress''
       ((buildResponseWithOutput s now req (empty_result req) providerName responseID [])
          \<lparr>rsp_status := ''in_progress'', rsp_completed_at := None, rsp_output := [],
           rsp_usage := None\<rparr>)) (stream_init n)"

text \<open>How the request ends: what the code after the loop decides.\<close>

datatype stream_outcome =
    StreamPending
  | StreamDisconnected
  | StreamFailed response_error
  | StreamCompleted

definition stream_outcome :: "response_request \<Rightarrow> loop_exit option \<Rightarrow> stream_state \<Rightarrow> stream_outcome" where
  "stream_outcome req x st =
     (case x of
        None \<Rightarrow> StreamPending
      | Some ExitDisconnect \<Rightarrow> StreamDisconnected
      | Some (ExitLoop err resp) \<Rightarrow>
          (case stream_error (ExitLoop err resp) of
             Some e \<Rightarrow> StreamFailed e
           | None \<Rightarrow>
               (case validateToolCalls (Some req) (collectToolCalls (st_calls st)) of
                  Some e \<Rightarrow> StreamFailed e
                | None \<Rightarrow> StreamCompleted)))"

text \<open>
  The whole exchange with the client: outcome, the state when the loop is left and the
  state after the last event. The three clock readings are \<open>t0\<close> and \<open>t1\<close>.
\<close>

definition run_stream ::
  "gateway_server \<Rightarrow> (nat \<Rightarrow> string) \<Rightarrow> timestamp \<Rightarrow> timestamp \<Rightarrow> response_request \<Rightarrow> string \<Rightarrow>
   nat \<Rightarrow> select_event list \<Rightarrow> stream_outcome \<times> stream_state \<times> stream_state" where
  "run_stream s uuid t0 t1 req providerName n events =
     (let responseID = generateID uuid n ''resp_'';
          (x, st) = stream_loop uuid (Some req) events
                      (stream_start s t0 req providerName responseID (Suc n));
          out = stream_outcome req x st
      in (out, st,
          case out of
            StreamPending \<Rightarrow> st
          | StreamDisconnected \<Rightarrow> st
          | StreamFailed e \<Rightarrow> finish_failed s t1 req providerName responseID e st
          | StreamCompleted \<Rightarrow> finish_completed s t1 req providerName responseID st))"

end
