(* ===== verification/Gateway.thy ===== *)
theory Gateway
  imports Stream ConversationStore
begin

text \<open>
  The HTTP handlers of \<open>internal/server\<close>: \<open>server.go\<close> (\<open>handleModels\<close>, \<open>handleResponses\<close> and
  its synchronous and streaming halves, \<open>handleResponseByID\<close>), \<open>health.go\<close> and the error
  writer of \<open>middleware.go\<close>. A handler is a function of the store's method table and state,
  the registry and the request; it returns the answer, the store afterwards and the usage it
  recorded. Logging is left out.
\<close>

subsection \<open>Answers and effects\<close>

datatype gw_message =
    GmText string
  | GmApi api_error
  | GmRegistry registry_error
  | GmOutputLimit int int
  | GmResp response_error_text

datatype gw_body =
    GwError gw_message string "string option" "string option"
  | GwPlain string
  | GwModels "model_info list"
  | GwResponse response
  | GwEmpty
  | GwStream "sse_chunk list"
  | GwHealth string
  | GwReady string "(string \<times> string) list"

type_synonym gw_reply = "gw_body http_response"

definition WriteOpenResponsesError ::
  "gw_message \<Rightarrow> string \<Rightarrow> nat \<Rightarrow> string option \<Rightarrow> string option \<Rightarrow> gw_reply" where
  "WriteOpenResponsesError message errorType statusCode code param =
     reply statusCode (GwError message errorType code param)"

definition WriteJSONError :: "string \<Rightarrow> nat \<Rightarrow> gw_reply" where
  "WriteJSONError message statusCode =
     (let errorType = (if statusCode = 400 \<or> statusCode = 405 then ''invalid_request''
                       else if statusCode = 404 then ''not_found''
                       else if statusCode = 429 then ''too_many_requests''
                       else ''server_error'')
      in WriteOpenResponsesError (GmText message) errorType statusCode None None)"

abbreviation gw_error :: "string \<Rightarrow> string \<Rightarrow> nat \<Rightarrow> gw_reply" where
  "gw_error message errorType st \<equiv> WriteOpenResponsesError (GmText message) errorType st None None"

text \<open>The usage events and the token counts a request records (\<open>usage\<close> and \<open>ratelimit\<close>).\<close>

record usage_event =
  ue_tenant_id :: string
  ue_user_sub :: string
  ue_provider :: string
  ue_model :: string
  ue_input_tokens :: int
  ue_output_tokens :: int
  ue_response_id :: string
  ue_stream :: bool

record gw_effects =
  ef_rate :: "(int \<times> int) list"
  ef_usage :: "usage_event list"

definition no_effects :: gw_effects where
  "no_effects = \<lparr>ef_rate = [], ef_usage = []\<rparr>"

text \<open>
  What a request draws on besides its arguments: uuids, the clock readings at the first and
  the last response object and in the store, whether the writer can flush, and the order in
  which \<open>select\<close> sees what a provider sends.
\<close>

record gw_env =
  ge_uuid :: "nat \<Rightarrow> string"
  ge_t0 :: timestamp
  ge_t1 :: timestamp
  ge_create :: timestamp
  ge_flusher :: bool
  ge_select :: "provider_stream_delta list \<times> go_error option \<Rightarrow> select_event list"

subsection \<open>Models\<close>

definition handleModels :: "'p registry \<Rightarrow> http_request \<Rightarrow> gw_reply" where
  "handleModels reg r =
     (if hr_method r \<noteq> ''GET'' then gw_error ''method not allowed'' ''invalid_request'' 405
      else reply 200 (GwModels (map (\<lambda>(p, m). \<lparr>mi_id = m, mi_provider = p\<rparr>) (Models reg))))"

definition resolveProvider ::
  "((string \<times> 'p) list \<Rightarrow> (string \<times> 'p) list) \<Rightarrow> 'p registry \<Rightarrow> response_request \<Rightarrow> registry_error + 'p" where
  "resolveProvider ord reg req =
     (if rq_provider req \<noteq> [] then
        (case Get reg (rq_provider req) of
           Some p \<Rightarrow> Inr p
         | None \<Rightarrow> Inl (ProviderNotConfigured (rq_provider req)))
      else Default ord reg (rq_model req))"

subsection \<open>Storing and recording\<close>

definition usage_event_of ::
  "principal option \<Rightarrow> string \<Rightarrow> string \<Rightarrow> usage \<Rightarrow> string \<Rightarrow> bool \<Rightarrow> usage_event" where
  "usage_event_of prin providerName model u responseID stream =
     \<lparr>ue_tenant_id = tenantFromPrincipal prin, ue_user_sub = subFromPrincipal prin,
      ue_provider = providerName, ue_model = model, ue_input_tokens = us_input_tokens u,
      ue_output_tokens = us_output_tokens u, ue_response_id = responseID, ue_stream = stream\<rparr>"

definition record_usage ::
  "principal option \<Rightarrow> string \<Rightarrow> string \<Rightarrow> usage \<Rightarrow> string \<Rightarrow> bool \<Rightarrow> gw_effects" where
  "record_usage prin providerName model u responseID stream =
     \<lparr>ef_rate = [(us_input_tokens u, us_output_tokens u)],
      ef_usage = [usage_event_of prin providerName model u responseID stream]\<rparr>"

text \<open>
  The storing branch shared by both halves: with an assistant message it is appended and the
  replay items point at it; an error of \<open>Create\<close> is logged and otherwise ignored.
\<close>

definition store_result ::
  "'s store_ops \<Rightarrow> gw_env \<Rightarrow> principal option \<Rightarrow> string \<Rightarrow> string \<Rightarrow> string \<Rightarrow> response_request \<Rightarrow>
   message list \<Rightarrow> provider_result \<Rightarrow> output_item list \<Rightarrow> 's \<Rightarrow> 's" where
  "store_result ops env prin providerName responseID model origReq storeMsgs result outputItems cs =
     (case buildAssistantMessage result of
        Some assistantMsg \<Rightarrow>
          (let allMsgs = storeMsgs @ [assistantMsg] in
           snd (so_create ops cs (ge_create env) responseID model allMsgs (ownerFromPrincipal prin)
             (Some origReq)
             (buildReplayState providerName result outputItems (int (length allMsgs) - 1))))
      | None \<Rightarrow>
          snd (so_create ops cs (ge_create env) responseID model storeMsgs (ownerFromPrincipal prin)
             (Some origReq) (buildReplayState providerName result outputItems (- 1))))"

subsection \<open>Synchronous responses\<close>

definition provider_error_reply :: "go_error \<Rightarrow> gw_reply" where
  "provider_error_reply err =
     (if isCircuitBreakerError err
      then WriteOpenResponsesError (GmText ''service temporarily unavailable - circuit breaker open'')
             ''server_error'' 500 None None
      else gw_error ''provider error'' ''model_error'' 500)"

definition handleSyncResponse ::
  "'s store_ops \<Rightarrow> gateway_server \<Rightarrow> gw_env \<Rightarrow> principal option \<Rightarrow> provider \<Rightarrow> message list \<Rightarrow>
   response_request \<Rightarrow> response_request \<Rightarrow> message list \<Rightarrow> 's \<Rightarrow> gw_reply \<times> 's \<times> gw_effects" where
  "handleSyncResponse ops s env prin p providerMsgs resolvedReq origReq storeMsgs cs =
     (case pv_generate p providerMsgs resolvedReq of
        Inl err \<Rightarrow> (provider_error_reply err, cs, no_effects)
      | Inr result \<Rightarrow>
          (case validateToolCalls (Some origReq) (pr_tool_calls result) of
             Some e \<Rightarrow>
               (WriteOpenResponsesError (GmResp (re_message e)) (re_type e) 500 (re_code e) (re_param e),
                cs, no_effects)
           | None \<Rightarrow>
               (let responseID = generateID (ge_uuid env) 0 ''resp_'';
                    outputItems = fst (buildOutputItems (ge_uuid env) 1 result);
                    resp = buildResponseWithOutput s (ge_t0 env) origReq result (pv_name p)
                             responseID outputItems;
                    cs' = (if shouldStore s origReq
                           then store_result ops env prin (pv_name p) responseID (pr_model result)
                                  origReq storeMsgs result outputItems cs
                           else cs)
                in (reply 200 (if response_marshals resp then GwResponse resp else GwEmpty), cs',
                    record_usage prin (pv_name p) (pr_model result) (pr_usage result) responseID False))))"

subsection \<open>Streaming responses\<close>

definition handleStreamingResponse ::
  "'s store_ops \<Rightarrow> gateway_server \<Rightarrow> gw_env \<Rightarrow> principal option \<Rightarrow> provider \<Rightarrow> message list \<Rightarrow>
   response_request \<Rightarrow> response_request \<Rightarrow> message list \<Rightarrow> 's \<Rightarrow> gw_reply \<times> 's \<times> gw_effects" where
  "handleStreamingResponse ops s env prin p providerMsgs resolvedReq origReq storeMsgs cs =
     (if \<not> ge_flusher env then (gw_error ''streaming not supported'' ''server_error'' 500, cs, no_effects)
      else
        (let responseID = generateID (ge_uuid env) 0 ''resp_'';
             (out, st, fin) = run_stream s (ge_uuid env) (ge_t0 env) (ge_t1 env) origReq (pv_name p) 0
                                (ge_select env (pv_stream p providerMsgs resolvedReq));
             answer = reply 200 (GwStream (st_sent fin))
         in if out \<noteq> StreamCompleted then (answer, cs, no_effects)
            else
              (let result = stream_result origReq st;
                   items = rsp_output (completed_response s (ge_t1 env) origReq (pv_name p) responseID st);
                   cs' = (if shouldStore s origReq \<and> (pr_text result \<noteq> [] \<or> pr_tool_calls result \<noteq> [])
                          then store_result ops env prin (pv_name p) responseID (pr_model result)
                                 origReq storeMsgs result items cs
                          else cs)
               in (answer, cs',
                   record_usage prin (pv_name p) (pr_model result) (pr_usage result) responseID True))))"

subsection \<open>POST /v1/responses\<close>

text \<open>What \<open>json.NewDecoder(r.Body).Decode\<close> yields.\<close>

datatype decoded = BodyTooLarge | BodyInvalid | BodyOk response_request

text \<open>Whether the ownership check lets the caller use the conversation.\<close>

definition may_access :: "gateway_server \<Rightarrow> principal option \<Rightarrow> conversation \<Rightarrow> bool" where
  "may_access s prin conv =
     (if prin \<noteq> None \<and> \<not> OwnsConversation prin (cv_owner_iss conv) (cv_owner_sub conv) (cv_tenant_id conv)
      then HasAdminRole prin (gs_admin_config s) else True)"

definition load_previous ::
  "'s store_ops \<Rightarrow> gateway_server \<Rightarrow> principal option \<Rightarrow> response_request \<Rightarrow> 's \<Rightarrow>
   gw_reply + conversation option" where
  "load_previous ops s prin req cs =
     (if \<not> nonempty_ptr (rq_previous_response_id req) then Inr None
      else case so_get ops cs (the (rq_previous_response_id req)) of
             Inl e \<Rightarrow> Inl (gw_error ''error retrieving conversation'' ''server_error'' 500)
           | Inr None \<Rightarrow> Inl (gw_error ''conversation not found'' ''not_found'' 404)
           | Inr (Some conv) \<Rightarrow>
               if may_access s prin conv then Inr (Some conv)
               else Inl (gw_error ''conversation not found'' ''not_found'' 404))"

definition over_output_limit :: "gateway_server \<Rightarrow> response_request \<Rightarrow> int option" where
  "over_output_limit s req =
     (let limit = tl_max_output_tokens (gs_token_limits s) in
      case rq_max_output_tokens req of
        Some m \<Rightarrow> if 0 < limit \<and> limit < m then Some m else None
      | None \<Rightarrow> None)"

definition history_messages :: "conversation option \<Rightarrow> string list \<Rightarrow> string \<Rightarrow> message list" where
  "history_messages prev itemRefIDs providerName =
     (case prev of
        None \<Rightarrow> []
      | Some conv \<Rightarrow>
          (let h = applyReplayState (cv_messages conv) (cv_replay conv) providerName
           in resolveItemReferences itemRefIDs h (cv_replay conv) providerName @ h))"

definition instruction_messages :: "response_request \<Rightarrow> message list" where
  "instruction_messages req =
     (if nonempty_ptr (rq_instructions req)
      then [new_message ''developer'' [zero_block\<lparr>cb_type := ''input_text'',
              cb_text := the (rq_instructions req)\<rparr>] []]
      else [])"

text \<open>
  \<open>reg\<close> answers the provider lookup and \<open>reg'\<close> the later \<open>ResolveModelID\<close>: the registry may
  be swapped in between. \<open>mord\<close> and \<open>pord\<close> are the map orders of \<open>Validate\<close> and \<open>Default\<close>.
\<close>

definition respond ::
  "'s store_ops \<Rightarrow> gateway_server \<Rightarrow> gw_env \<Rightarrow> (string list \<Rightarrow> string list) \<Rightarrow>
   ((string \<times> provider) list \<Rightarrow> (string \<times> provider) list) \<Rightarrow> provider registry \<Rightarrow>
   provider registry \<Rightarrow> principal option \<Rightarrow> response_request \<Rightarrow> conversation option \<Rightarrow> 's \<Rightarrow>
   gw_reply \<times> 's \<times> gw_effects" where
  "respond ops s env mord pord reg reg' prin req prev cs =
     (case Validate mord (Some req) of
        Some e \<Rightarrow> (WriteOpenResponsesError (GmApi e) ''invalid_request'' 400 None None, cs, no_effects)
      | None \<Rightarrow>
          (case over_output_limit s req of
             Some m \<Rightarrow>
               (WriteOpenResponsesError (GmOutputLimit m (tl_max_output_tokens (gs_token_limits s)))
                  ''invalid_request'' 400 None None, cs, no_effects)
           | None \<Rightarrow>
               (case resolveProvider pord reg req of
                  Inl e \<Rightarrow>
                    (WriteOpenResponsesError (GmRegistry e) ''invalid_request'' 400 None None, cs, no_effects)
                | Inr p \<Rightarrow>
                    (let (inputMsgs, itemRefIDs) = NormalizeInput req;
                         storeMsgs = history_messages prev itemRefIDs (pv_name p) @ inputMsgs;
                         providerMsgs = instruction_messages req @ storeMsgs;
                         resolvedReq = req\<lparr>rq_model := ResolveModelID reg' (rq_model req)\<rparr>
                     in if rq_stream req
                        then handleStreamingResponse ops s env prin p providerMsgs resolvedReq req storeMsgs cs
                        else handleSyncResponse ops s env prin p providerMsgs resolvedReq req storeMsgs cs))))"

definition handleResponses ::
  "'s store_ops \<Rightarrow> gateway_server \<Rightarrow> gw_env \<Rightarrow> (string list \<Rightarrow> string list) \<Rightarrow>
   ((string \<times> provider) list \<Rightarrow> (string \<times> provider) list) \<Rightarrow> provider registry \<Rightarrow>
   provider registry \<Rightarrow> http_request \<Rightarrow> decoded \<Rightarrow> 's \<Rightarrow> gw_reply \<times> 's \<times> gw_effects" where
  "handleResponses ops s env mord pord reg reg' r body cs =
     (if hr_method r \<noteq> ''POST'' then (gw_error ''method not allowed'' ''invalid_request'' 405, cs, no_effects)
      else case body of
        BodyTooLarge \<Rightarrow> (gw_error ''request body too large'' ''invalid_request'' 413, cs, no_effects)
      | BodyInvalid \<Rightarrow> (gw_error ''invalid JSON payload'' ''invalid_request'' 400, cs, no_effects)
      | BodyOk req0 \<Rightarrow>
          (case load_previous ops s (hr_principal r) req0 cs of
             Inl err \<Rightarrow> (err, cs, no_effects)
           | Inr prev \<Rightarrow>
               respond ops s env mord pord reg reg' (hr_principal r)
                 (case prev of None \<Rightarrow> req0 | Some conv \<Rightarrow> InheritMissingContext req0 (cv_request conv))
                 prev cs))"

subsection \<open>GET and DELETE /v1/responses/{id}\<close>

definition handleGetResponse ::
  "'s store_ops \<Rightarrow> gateway_server \<Rightarrow> gw_env \<Rightarrow> http_request \<Rightarrow> string \<Rightarrow> 's \<Rightarrow> gw_reply" where
  "handleGetResponse ops s env r k cs =
     (case so_get ops cs k of
        Inl e \<Rightarrow> gw_error ''error looking up conversation'' ''server_error'' 500
      | Inr None \<Rightarrow> gw_error ''conversation not found'' ''not_found'' 404
      | Inr (Some conv) \<Rightarrow>
          if \<not> may_access s (hr_principal r) conv
          then gw_error ''conversation not found'' ''not_found'' 404
          else (let resp = buildResponseFromConversation (ge_uuid env) 0 conv
                in reply 200 (if response_marshals resp then GwResponse resp else GwEmpty)))"

definition handleDeleteResponse ::
  "'s store_ops \<Rightarrow> http_request \<Rightarrow> string \<Rightarrow> 's \<Rightarrow> gw_reply \<times> 's" where
  "handleDeleteResponse ops r k cs =
     (case so_get ops cs k of
        Inl e \<Rightarrow> (gw_error ''error looking up conversation'' ''server_error'' 500, cs)
      | Inr None \<Rightarrow> (gw_error ''conversation not found'' ''not_found'' 404, cs)
      | Inr (Some conv) \<Rightarrow>
          (case so_delete ops cs k of
             (Some e, cs') \<Rightarrow> (gw_error ''error deleting conversation'' ''server_error'' 500, cs')
           | (None, cs') \<Rightarrow> (reply 204 GwEmpty, cs')))"

definition handleResponseByID ::
  "'s store_ops \<Rightarrow> gateway_server \<Rightarrow> gw_env \<Rightarrow> http_request \<Rightarrow> 's \<Rightarrow> gw_reply \<times> 's" where
  "handleResponseByID ops s env r cs =
     (let k = (case after_last ''/responses/'' (hr_path r) of Some i \<Rightarrow> i | None \<Rightarrow> []) in
      if k = [] then (gw_error ''response id is required'' ''invalid_request'' 400, cs)
      else if hr_method r = ''GET'' then (handleGetResponse ops s env r k cs, cs)
      else if hr_method r = ''DELETE'' then handleDeleteResponse ops r k cs
      else (gw_error ''method not allowed'' ''invalid_request'' 405, cs))"

subsection \<open>Probes\<close>

definition handleHealth :: "http_request \<Rightarrow> gw_reply" where
  "handleHealth r =
     (if hr_method r \<noteq> ''GET'' then reply 405 (GwPlain ''method not allowed'')
      else reply 200 (GwHealth ''healthy''))"

text \<open>The text of a store error is the database's; here it is a constant.\<close>

definition handleReady :: "'s store_ops \<Rightarrow> 'p registry \<Rightarrow> http_request \<Rightarrow> 's \<Rightarrow> gw_reply" where
  "handleReady ops reg r cs =
     (if hr_method r \<noteq> ''GET'' then reply 405 (GwPlain ''method not allowed'')
      else
        (let store_ok = is_ok (so_get ops cs ''health_check_test'');
             models_ok = (Models reg \<noteq> []);
             checks = [(''conversation_store'', if store_ok then ''healthy'' else ''unhealthy''),
                       (''providers'', if models_ok then ''healthy''
                                       else ''unhealthy: no providers configured'')]
         in if store_ok \<and> models_ok then reply 200 (GwReady ''ready'' checks)
            else reply 503 (GwReady ''not_ready'' checks)))"

end
