(* ===== verification/Users.thy ===== *)
theory Users
  imports Http
begin

text \<open>
  \<open>internal/users\<close>: users (\<open>user.go\<close>), their table (\<open>store.go\<close>) and the management endpoints
  (\<open>api.go\<close>). The table is the list of its rows; ids, emails and OIDC identities are unique by
  the migrations of the package, and \<open>us_up\<close> says whether the database answers.
\<close>

subsection \<open>Users\<close>

record user =
  u_id :: string
  u_oidc_iss :: string
  u_oidc_sub :: string
  u_email :: string
  u_name :: string
  u_role :: string
  u_status :: string
  u_created_at :: timestamp
  u_updated_at :: timestamp

definition RoleUser :: string where "RoleUser = ''user''"
definition RoleAdmin :: string where "RoleAdmin = ''admin''"
definition StatusActive :: string where "StatusActive = ''active''"
definition StatusSuspended :: string where "StatusSuspended = ''suspended''"
definition StatusDeleted :: string where "StatusDeleted = ''deleted''"

lemma role_distinct [simp]: "RoleUser \<noteq> RoleAdmin" "RoleAdmin \<noteq> RoleUser"
  by (simp_all add: RoleUser_def RoleAdmin_def)

lemma status_distinct [simp]:
  "StatusActive \<noteq> StatusSuspended" "StatusActive \<noteq> StatusDeleted"
  "StatusSuspended \<noteq> StatusActive" "StatusDeleted \<noteq> StatusActive"
  by (simp_all add: StatusActive_def StatusSuspended_def StatusDeleted_def)

lemma role_nonempty [simp]: "RoleUser \<noteq> []" "RoleAdmin \<noteq> []"
  by (simp_all add: RoleUser_def RoleAdmin_def)

lemma status_nonempty [simp]: "StatusActive \<noteq> []" "StatusSuspended \<noteq> []" "StatusDeleted \<noteq> []"
  by (simp_all add: StatusActive_def StatusSuspended_def StatusDeleted_def)

definition IsAdmin :: "user \<Rightarrow> bool" where
  "IsAdmin u = (u_role u = RoleAdmin)"

definition IsActive :: "user \<Rightarrow> bool" where
  "IsActive u = (u_status u = StatusActive)"

subsection \<open>The store\<close>

record user_store =
  us_up :: bool
  us_rows :: "user list"

datatype user_error =
    UserNoRows
  | UserDbError
  | UserNotFound string
  | UserUnique

definition get_where :: "(user \<Rightarrow> bool) \<Rightarrow> user_store \<Rightarrow> user_error + user" where
  "get_where P s =
     (if \<not> us_up s then Inl UserDbError
      else case List.find P (us_rows s) of None \<Rightarrow> Inl UserNoRows | Some u \<Rightarrow> Inr u)"

definition GetByOIDC :: "user_store \<Rightarrow> string \<Rightarrow> string \<Rightarrow> user_error + user" where
  "GetByOIDC s iss sub = get_where (\<lambda>u. u_oidc_iss u = iss \<and> u_oidc_sub u = sub) s"

definition GetBySub :: "user_store \<Rightarrow> string \<Rightarrow> user_error + user" where
  "GetBySub s sub = get_where (\<lambda>u. u_oidc_sub u = sub) s"

definition GetByID :: "user_store \<Rightarrow> string \<Rightarrow> user_error + user" where
  "GetByID s k = get_where (\<lambda>u. u_id u = k) s"

definition GetByEmail :: "user_store \<Rightarrow> string \<Rightarrow> user_error + user" where
  "GetByEmail s email = get_where (\<lambda>u. u_email u = email) s"

definition ResolveUserSub :: "user_store \<Rightarrow> string \<Rightarrow> user_error + (string \<times> string)" where
  "ResolveUserSub s sub = (case GetByID s sub of Inl e \<Rightarrow> Inl e | Inr u \<Rightarrow> Inr (u_name u, u_email u))"

definition same_identity :: "user \<Rightarrow> user \<Rightarrow> bool" where
  "same_identity u v \<longleftrightarrow> u_id u = u_id v \<or> u_email u = u_email v \<or>
     (u_oidc_iss u = u_oidc_iss v \<and> u_oidc_sub u = u_oidc_sub v)"

text \<open>\<open>uuid\<close> is the value \<open>uuid.New\<close> yields when the record has no id.\<close>

definition Create :: "user_store \<Rightarrow> timestamp \<Rightarrow> string \<Rightarrow> user \<Rightarrow> (user_error + user) \<times> user_store" where
  "Create s now uuid u0 =
     (let u = u0\<lparr>u_id := (if u_id u0 = [] then uuid else u_id u0), u_created_at := now,
                u_updated_at := now,
                u_role := (if u_role u0 = [] then RoleUser else u_role u0),
                u_status := (if u_status u0 = [] then StatusActive else u_status u0)\<rparr>
      in if \<not> us_up s then (Inl UserDbError, s)
         else if list_ex (same_identity u) (us_rows s) then (Inl UserUnique, s)
         else (Inr u, s\<lparr>us_rows := us_rows s @ [u]\<rparr>))"

definition update_rows :: "string \<Rightarrow> (user \<Rightarrow> user) \<Rightarrow> user_store \<Rightarrow> user_store" where
  "update_rows k f s = s\<lparr>us_rows := map (\<lambda>u. if u_id u = k then f u else u) (us_rows s)\<rparr>"

definition has_user :: "user_store \<Rightarrow> string \<Rightarrow> bool" where
  "has_user s k = list_ex (\<lambda>u. u_id u = k) (us_rows s)"

definition Update :: "user_store \<Rightarrow> timestamp \<Rightarrow> user \<Rightarrow> user_error option \<times> user_store" where
  "Update s now u =
     (if \<not> us_up s then (Some UserDbError, s)
      else if list_ex (\<lambda>v. u_id v \<noteq> u_id u \<and> u_email v = u_email u) (us_rows s) \<and> has_user s (u_id u)
      then (Some UserUnique, s)
      else if \<not> has_user s (u_id u) then (Some (UserNotFound (u_id u)), s)
      else (None, update_rows (u_id u) (\<lambda>v. v\<lparr>u_email := u_email u, u_name := u_name u,
                    u_role := u_role u, u_status := u_status u, u_updated_at := now\<rparr>) s))"

definition UpdateRole :: "user_store \<Rightarrow> timestamp \<Rightarrow> string \<Rightarrow> string \<Rightarrow> user_error option \<times> user_store" where
  "UpdateRole s now k role =
     (if \<not> us_up s then (Some UserDbError, s)
      else if \<not> has_user s k then (Some (UserNotFound k), s)
      else (None, update_rows k (\<lambda>v. v\<lparr>u_role := role, u_updated_at := now\<rparr>) s))"

text \<open>\<open>List\<close>: an empty status lists all.\<close>

definition UList :: "user_store \<Rightarrow> string \<Rightarrow> user_error + user list" where
  "UList s status =
     (if \<not> us_up s then Inl UserDbError
      else Inr (sort_key (\<lambda>u. - u_created_at u)
                  (filter (\<lambda>u. status \<noteq> [] \<longrightarrow> u_status u = status) (us_rows s))))"

record user_list_options =
  ul_page :: int
  ul_limit :: int
  ul_role :: string
  ul_status :: string
  ul_search :: string
  ul_sort_by :: string
  ul_sort_dir :: string

definition valid_sort_columns :: "string list" where
  "valid_sort_columns = [''name'', ''email'', ''role'', ''status'', ''created_at'']"

text \<open>
  \<open>like\<close> is the database's pattern match and \<open>order_by\<close> its ordering by a column, ascending or
  not; a negative offset is refused by PostgreSQL.
\<close>

definition user_matches :: "(string \<Rightarrow> string \<Rightarrow> bool) \<Rightarrow> user_list_options \<Rightarrow> user \<Rightarrow> bool" where
  "user_matches like opts u \<longleftrightarrow>
     (ul_role opts \<noteq> [] \<longrightarrow> u_role u = ul_role opts) \<and>
     (ul_status opts \<noteq> [] \<longrightarrow> u_status u = ul_status opts) \<and>
     (ul_search opts \<noteq> [] \<longrightarrow> like (''%'' @ ul_search opts @ ''%'') (u_email u) \<or>
                               like (''%'' @ ul_search opts @ ''%'') (u_name u))"

definition ListWithOptions ::
  "(string \<Rightarrow> string \<Rightarrow> bool) \<Rightarrow> (string \<Rightarrow> bool \<Rightarrow> user list \<Rightarrow> user list) \<Rightarrow> bool \<Rightarrow> user_store \<Rightarrow>
   user_list_options \<Rightarrow> user_error + (user list \<times> nat)" where
  "ListWithOptions like order_by pg s opts =
     (let page = (if ul_page opts < 1 then 1 else ul_page opts);
          limit = (if ul_limit opts < 1 then 20 else ul_limit opts);
          col = (if ul_sort_by opts \<in> set valid_sort_columns then ul_sort_by opts else ''created_at'');
          offset = wrap64 ((page - 1) * limit);
          found = filter (user_matches like opts) (us_rows s)
      in if \<not> us_up s then Inl UserDbError
         else if pg \<and> offset < 0 then Inl UserDbError
         else Inr (take (nat limit) (drop (nat offset)
                     (order_by col (ul_sort_dir opts = ''asc'') found)), length found))"

text \<open>
  \<open>BulkUpdate\<close> writes one row after the other; an unknown id stops it and keeps what was
  written before.
\<close>

fun BulkUpdate ::
  "user_store \<Rightarrow> timestamp \<Rightarrow> string list \<Rightarrow> string \<Rightarrow> string \<Rightarrow> user_error option \<times> user_store" where
  "BulkUpdate s now [] role status = (None, s)"
| "BulkUpdate s now (k # ks) role status =
     (case GetByID s k of
        Inl e \<Rightarrow> (Some (UserNotFound k), s)
      | Inr u \<Rightarrow>
          BulkUpdate
            (update_rows k (\<lambda>v. v\<lparr>u_role := (if role \<noteq> [] then role else u_role u),
                                  u_status := (if status \<noteq> [] then status else u_status u),
                                  u_updated_at := now\<rparr>) s)
            now ks role status)"

definition GetOrCreate ::
  "user_store \<Rightarrow> timestamp \<Rightarrow> string \<Rightarrow> string \<Rightarrow> string \<Rightarrow> string \<Rightarrow> string \<Rightarrow>
   (user_error + user) \<times> user_store" where
  "GetOrCreate s now uuid iss sub email name =
     (case GetByOIDC s iss sub of
        Inr user \<Rightarrow>
          (if u_email user \<noteq> email \<or> u_name user \<noteq> name then
             (case Update s now (user\<lparr>u_email := email, u_name := name\<rparr>) of
                (Some e, s') \<Rightarrow> (Inl e, s')
              | (None, s') \<Rightarrow> (Inr (user\<lparr>u_email := email, u_name := name, u_updated_at := now\<rparr>), s'))
           else (Inr user, s))
      | Inl UserNoRows \<Rightarrow>
          (case GetByEmail s email of
             Inr user \<Rightarrow> (Inr user, s)
           | Inl UserNoRows \<Rightarrow>
               Create s now uuid \<lparr>u_id = [], u_oidc_iss = iss, u_oidc_sub = sub, u_email = email,
                 u_name = name, u_role = RoleUser, u_status = StatusActive, u_created_at = 0,
                 u_updated_at = 0\<rparr>
           | Inl e \<Rightarrow> (Inl e, s))
      | Inl e \<Rightarrow> (Inl e, s))"

text \<open>
  The provisioning step of the OIDC callback (\<open>OIDCClient.HandleCallback\<close>,
  \<open>internal/auth/oidc_client.go\<close>): the claims name the user, a configured \<open>admin_email\<close> makes
  the user an admin, and only an active account logs in.
\<close>

datatype login_result =
    LoginFailed
  | LoginInactive
  | LoginOk user

definition promote_admin :: "user_store \<Rightarrow> timestamp \<Rightarrow> string \<Rightarrow> user \<Rightarrow> user \<times> user_store" where
  "promote_admin s now adminEmail u =
     (if adminEmail \<noteq> [] \<and> u_email u = adminEmail \<and> u_role u = RoleUser then
        (case UpdateRole s now (u_id u) RoleAdmin of
           (Some e, s') \<Rightarrow> (u, s')
         | (None, s') \<Rightarrow> (u\<lparr>u_role := RoleAdmin\<rparr>, s'))
      else (u, s))"

definition provision_login ::
  "string \<Rightarrow> user_store \<Rightarrow> timestamp \<Rightarrow> string \<Rightarrow> string \<Rightarrow> string \<Rightarrow> string \<Rightarrow> string \<Rightarrow>
   login_result \<times> user_store" where
  "provision_login adminEmail s now uuid iss sub email name =
     (case GetOrCreate s now uuid iss sub email name of
        (Inl e, s1) \<Rightarrow> (LoginFailed, s1)
      | (Inr u, s1) \<Rightarrow>
          (case promote_admin s1 now adminEmail u of
             (u', s2) \<Rightarrow> ((if IsActive u' then LoginOk u' else LoginInactive), s2)))"

subsection \<open>The endpoints\<close>

text \<open>
  \<open>UserResponse\<close>: the times are formatted by the handler, and a handler that leaves a field out
  sends it empty (\<open>None\<close>).
\<close>

record user_response =
  ur_id :: string
  ur_email :: string
  ur_name :: string
  ur_role :: string
  ur_status :: string
  ur_created_at :: "timestamp option"
  ur_updated_at :: "timestamp option"
  ur_oidc_iss :: string
  ur_oidc_sub :: string

definition me_response :: "user \<Rightarrow> user_response" where
  "me_response u = \<lparr>ur_id = u_id u, ur_email = u_email u, ur_name = u_name u, ur_role = u_role u,
     ur_status = u_status u, ur_created_at = Some (u_created_at u), ur_updated_at = None,
     ur_oidc_iss = [], ur_oidc_sub = []\<rparr>"

definition listed_response :: "user \<Rightarrow> user_response" where
  "listed_response u = (me_response u)\<lparr>ur_updated_at := Some (u_updated_at u)\<rparr>"

definition full_response :: "user \<Rightarrow> user_response" where
  "full_response u =
     (listed_response u)\<lparr>ur_oidc_iss := u_oidc_iss u, ur_oidc_sub := u_oidc_sub u\<rparr>"

definition updated_response :: "user \<Rightarrow> user_response" where
  "updated_response u = (listed_response u)\<lparr>ur_created_at := None\<rparr>"

datatype user_body =
    UbText string
  | UbError string
  | UbErrorOf user_error
  | UbUser user_response
  | UbUsers "user_response list" nat int int
  | UbMessage string nat
  | UbDeleted string

type_synonym user_reply = "user_body http_response"

definition getUserID :: "http_request \<Rightarrow> string" where
  "getUserID r = ctx_string (hr_user_id r)"

text \<open>\<open>requireAdmin\<close>: the answer it writes when access is denied.\<close>

definition requireAdmin :: "user_store \<Rightarrow> http_request \<Rightarrow> user_reply option" where
  "requireAdmin s r =
     (if ctx_is_admin r then None
      else if getUserID r = [] then Some (reply 401 (UbError ''Not authenticated''))
      else case GetByID s (getUserID r) of
             Inr u \<Rightarrow> if IsAdmin u then None else Some (reply 403 (UbError ''Admin access required''))
           | Inl e \<Rightarrow> Some (reply 403 (UbError ''Admin access required'')))"

text \<open>\<open>checkLastAdmin\<close>: whether it returns an error.\<close>

definition checkLastAdmin :: "user_store \<Rightarrow> string \<Rightarrow> string option" where
  "checkLastAdmin s excludeUserID =
     (case UList s StatusActive of
        Inl e \<Rightarrow> Some ''failed to check admin count''
      | Inr users \<Rightarrow>
          if length (filter (\<lambda>u. u_role u = RoleAdmin \<and> u_id u \<noteq> excludeUserID) users) = 0
          then Some ''cannot demote or delete the last admin'' else None)"

definition HandleMe :: "user_store \<Rightarrow> http_request \<Rightarrow> user_reply" where
  "HandleMe s r =
     (if hr_method r \<noteq> ''GET'' then reply 405 (UbText ''Method not allowed'')
      else case hr_user_id r of
             None \<Rightarrow> reply 401 (UbError ''Not authenticated'')
           | Some v \<Rightarrow>
               (if ctx_string (Some v) = [] then reply 401 (UbError ''Invalid user ID'')
                else case GetByID s (ctx_string (Some v)) of
                       Inl e \<Rightarrow> reply 500 (UbError ''Failed to fetch user'')
                     | Inr u \<Rightarrow> reply 200 (UbUser (me_response u))))"

definition HandleListUsers ::
  "(string \<Rightarrow> string \<Rightarrow> bool) \<Rightarrow> (string \<Rightarrow> bool \<Rightarrow> user list \<Rightarrow> user list) \<Rightarrow> bool \<Rightarrow> user_store \<Rightarrow>
   http_request \<Rightarrow> user_reply" where
  "HandleListUsers like order_by pg s r =
     (case requireAdmin s r of
        Some denied \<Rightarrow> denied
      | None \<Rightarrow>
          (let opts = \<lparr>ul_page = Atoi (query_get r ''page''), ul_limit = Atoi (query_get r ''limit''),
                       ul_role = query_get r ''role'', ul_status = query_get r ''status'',
                       ul_search = query_get r ''search'', ul_sort_by = query_get r ''sort_by'',
                       ul_sort_dir = query_get r ''sort_dir''\<rparr>
           in case ListWithOptions like order_by pg s opts of
                Inl e \<Rightarrow> reply 500 (UbError ''Failed to list users'')
              | Inr (users, n) \<Rightarrow> reply 200 (UbUsers (map listed_response users) n
                                                   (ul_page opts) (ul_limit opts))))"

definition HandleListUsersOnly ::
  "(string \<Rightarrow> string \<Rightarrow> bool) \<Rightarrow> (string \<Rightarrow> bool \<Rightarrow> user list \<Rightarrow> user list) \<Rightarrow> bool \<Rightarrow> user_store \<Rightarrow>
   http_request \<Rightarrow> user_reply" where
  "HandleListUsersOnly like order_by pg s r =
     (if hr_method r \<noteq> ''GET'' then reply 405 (UbText ''Method not allowed'')
      else HandleListUsers like order_by pg s r)"

definition HandleGetUser :: "user_store \<Rightarrow> http_request \<Rightarrow> string \<Rightarrow> user_reply" where
  "HandleGetUser s r userID =
     (case requireAdmin s r of
        Some denied \<Rightarrow> denied
      | None \<Rightarrow> (case GetByID s userID of
                   Inl e \<Rightarrow> reply 404 (UbError ''User not found'')
                 | Inr u \<Rightarrow> reply 200 (UbUser (full_response u))))"

text \<open>A decoded body: role and status; \<open>None\<close> when it does not decode.\<close>

definition valid_role :: "string \<Rightarrow> bool" where
  "valid_role role = (role = RoleAdmin \<or> role = RoleUser)"

definition valid_status :: "string \<Rightarrow> bool" where
  "valid_status st = (st = StatusActive \<or> st = StatusSuspended \<or> st = StatusDeleted)"

definition invalid_role_message :: string where
  "invalid_role_message = ''Invalid role. Must be '' @ [CHR 0x27] @ ''admin'' @ [CHR 0x27] @ '' or '' @
     [CHR 0x27] @ ''user'' @ [CHR 0x27]"

definition invalid_status_message :: string where
  "invalid_status_message = ''Invalid status. Must be '' @ [CHR 0x27] @ ''active'' @ [CHR 0x27] @ '', '' @
     [CHR 0x27] @ ''suspended'' @ [CHR 0x27] @ '', or '' @ [CHR 0x27] @ ''deleted'' @ [CHR 0x27]"

definition role_change :: "user_store \<Rightarrow> http_request \<Rightarrow> user \<Rightarrow> string \<Rightarrow> string \<Rightarrow> user_reply + user" where
  "role_change s r user userID role =
     (if role = [] then Inr user
      else if \<not> valid_role role then Inl (reply 400 (UbError invalid_role_message))
      else if getUserID r = userID \<and> role \<noteq> RoleAdmin
      then Inl (reply 400 (UbError ''Cannot change your own role''))
      else if u_role user = RoleAdmin \<and> role \<noteq> RoleAdmin \<and> checkLastAdmin s userID \<noteq> None
      then Inl (reply 400 (UbError (the (checkLastAdmin s userID))))
      else Inr (user\<lparr>u_role := role\<rparr>))"

definition status_change :: "user \<Rightarrow> string \<Rightarrow> user_reply + user" where
  "status_change user st =
     (if st = [] then Inr user
      else if \<not> valid_status st then Inl (reply 400 (UbError invalid_status_message))
      else Inr (user\<lparr>u_status := st\<rparr>))"

definition HandleUpdateUser ::
  "user_store \<Rightarrow> timestamp \<Rightarrow> http_request \<Rightarrow> (string \<times> string) option \<Rightarrow> string \<Rightarrow> user_reply \<times> user_store" where
  "HandleUpdateUser s now r body userID =
     (case requireAdmin s r of
        Some denied \<Rightarrow> (denied, s)
      | None \<Rightarrow>
          (case body of
             None \<Rightarrow> (reply 400 (UbError ''Invalid request body''), s)
           | Some (role, status) \<Rightarrow>
               (case GetByID s userID of
                  Inl e \<Rightarrow> (reply 404 (UbError ''User not found''), s)
                | Inr user \<Rightarrow>
                    (case role_change s r user userID role of
                       Inl bad \<Rightarrow> (bad, s)
                     | Inr user1 \<Rightarrow>
                         (case status_change user1 status of
                            Inl bad \<Rightarrow> (bad, s)
                          | Inr user2 \<Rightarrow>
                              (case Update s now user2 of
                                 (Some e, s') \<Rightarrow> (reply 500 (UbError ''Failed to update user''), s')
                               | (None, s') \<Rightarrow> (reply 200 (UbUser (updated_response (user2\<lparr>u_updated_at := now\<rparr>))), s')))))))"

definition HandleDeleteUser ::
  "user_store \<Rightarrow> timestamp \<Rightarrow> http_request \<Rightarrow> string \<Rightarrow> user_reply \<times> user_store" where
  "HandleDeleteUser s now r userID =
     (case requireAdmin s r of
        Some denied \<Rightarrow> (denied, s)
      | None \<Rightarrow>
          (if getUserID r = userID then (reply 400 (UbError ''Cannot delete your own account''), s)
           else case GetByID s userID of
                  Inl e \<Rightarrow> (reply 404 (UbError ''User not found''), s)
                | Inr user \<Rightarrow>
                    (if u_role user = RoleAdmin \<and> checkLastAdmin s userID \<noteq> None
                     then (reply 400 (UbError (the (checkLastAdmin s userID))), s)
                     else (case Update s now (user\<lparr>u_status := StatusDeleted\<rparr>) of
                             (Some e, s') \<Rightarrow> (reply 500 (UbError ''Failed to delete user''), s')
                           | (None, s') \<Rightarrow> (reply 200 (UbDeleted userID), s')))))"

definition HandleBulkUpdateUsers ::
  "user_store \<Rightarrow> timestamp \<Rightarrow> http_request \<Rightarrow> (string list \<times> string \<times> string) option \<Rightarrow>
   user_reply \<times> user_store" where
  "HandleBulkUpdateUsers s now r body =
     (if hr_method r \<noteq> ''PATCH'' then (reply 405 (UbText ''Method not allowed''), s)
      else case requireAdmin s r of
        Some denied \<Rightarrow> (denied, s)
      | None \<Rightarrow>
          (case body of
             None \<Rightarrow> (reply 400 (UbError ''Invalid request body''), s)
           | Some (ids, role, status) \<Rightarrow>
               (if ids = [] then (reply 400 (UbError ''No user IDs provided''), s)
                else if getUserID r \<in> set ids
                then (reply 400 (UbError ''Cannot bulk-update your own account''), s)
                else if role \<noteq> [] \<and> \<not> valid_role role then (reply 400 (UbError ''Invalid role''), s)
                else if status \<noteq> [] \<and> \<not> valid_status status
                then (reply 400 (UbError ''Invalid status''), s)
                else (case BulkUpdate s now ids role status of
                        (Some e, s') \<Rightarrow> (reply 500 (UbErrorOf e), s')
                      | (None, s') \<Rightarrow>
                          (reply 200 (UbMessage ''Users updated successfully'' (length ids)), s')))))"

definition HandleUsers ::
  "user_store \<Rightarrow> timestamp \<Rightarrow> http_request \<Rightarrow> (string \<times> string) option \<Rightarrow> user_reply \<times> user_store" where
  "HandleUsers s now r body =
     (let userID = trim_space (trim_prefix (hr_path r) ''/api/users/'') in
      if userID = [] \<or> userID = ''me'' then (reply 404 (UbText ''Not found''), s)
      else if hr_method r = ''GET'' then (HandleGetUser s r userID, s)
      else if hr_method r = ''PATCH'' then HandleUpdateUser s now r body userID
      else if hr_method r = ''DELETE'' then HandleDeleteUser s now r userID
      else (reply 405 (UbText ''Method not allowed''), s))"

end
