(* ===== verification/Usage.thy ===== *)
theory Usage
  imports Gateway Users
begin

text \<open>
  \<open>internal/usage\<close>: the buffered store of usage events (\<open>store.go\<close>), its queries, and the read
  API (\<open>api.go\<close>). The events themselves are those the request handlers record
  (\<open>usage_event\<close> of \<open>Gateway\<close>).

  The PostgreSQL table is the list of its rows. A transaction is what PostgreSQL documents: a
  failed statement aborts it, later statements fail and the commit becomes a rollback. The
  outcomes of the statements are an argument.
\<close>

subsection \<open>Events\<close>

record timed_event =
  te_time :: timestamp
  te_event :: usage_event

text \<open>The row \<open>insertBatch\<close> writes: the event with the sum of its tokens.\<close>

record usage_row =
  uw_time :: timestamp
  uw_tenant_id :: string
  uw_user_sub :: string
  uw_provider :: string
  uw_model :: string
  uw_input :: int
  uw_output :: int
  uw_total :: int
  uw_response_id :: string
  uw_stream :: bool

definition row_of_event :: "timed_event \<Rightarrow> usage_row" where
  "row_of_event t = (let e = te_event t in
     \<lparr>uw_time = te_time t, uw_tenant_id = ue_tenant_id e, uw_user_sub = ue_user_sub e,
      uw_provider = ue_provider e, uw_model = ue_model e, uw_input = ue_input_tokens e,
      uw_output = ue_output_tokens e, uw_total = wrap64 (ue_input_tokens e + ue_output_tokens e),
      uw_response_id = ue_response_id e, uw_stream = ue_stream e\<rparr>)"

subsection \<open>The writing side\<close>

record db_outcome =
  dbo_begin :: bool
  dbo_prepare :: bool
  dbo_exec :: "timed_event \<Rightarrow> bool"
  dbo_commit :: bool

definition insertBatch :: "db_outcome \<Rightarrow> timed_event list \<Rightarrow> usage_row list \<Rightarrow> usage_row list" where
  "insertBatch db batch table =
     (if batch = [] \<or> \<not> dbo_begin db \<or> \<not> dbo_prepare db then table
      else if list_all (dbo_exec db) batch \<and> dbo_commit db then table @ map row_of_event batch
      else table)"

datatype flush_phase = Looping | Draining | Returned

record usage_store =
  ug_cap :: nat
  ug_batch_size :: nat
  ug_interval :: int
  ug_buffer :: "timed_event list"
  ug_batch :: "timed_event list"
  ug_done :: bool
  ug_phase :: flush_phase
  ug_table :: "usage_row list"

definition NewUsageStore :: "int \<Rightarrow> int \<Rightarrow> usage_store" where
  "NewUsageStore bufferSize flushInterval =
     \<lparr>ug_cap = (if bufferSize \<le> 0 then 1000 else nat bufferSize), ug_batch_size = 100,
      ug_interval = (if flushInterval \<le> 0 then 5000000000 else flushInterval),
      ug_buffer = [], ug_batch = [], ug_done = False, ug_phase = Looping, ug_table = []\<rparr>"

text \<open>\<open>Record\<close>: whether the event was taken. A zero time (\<open>None\<close>) becomes now.\<close>

definition Record :: "usage_store \<Rightarrow> timestamp \<Rightarrow> timestamp option \<Rightarrow> usage_event \<Rightarrow> bool \<times> usage_store" where
  "Record s now t e =
     (let evt = \<lparr>te_time = (case t of None \<Rightarrow> now | Some u \<Rightarrow> u), te_event = e\<rparr> in
      if length (ug_buffer s) < ug_cap s then (True, s\<lparr>ug_buffer := ug_buffer s @ [evt]\<rparr>)
      else (False, s))"

text \<open>
  The branches of \<open>flushLoop\<close>: an event is received, the ticker fires, \<open>done\<close> is seen, and the
  rounds of the drain loop. \<open>Close\<close> closes \<open>done\<close> and waits for the goroutine to return; the
  buffer channel itself is never closed.
\<close>

definition flush_batch :: "db_outcome \<Rightarrow> usage_store \<Rightarrow> usage_store" where
  "flush_batch db s = s\<lparr>ug_table := insertBatch db (ug_batch s) (ug_table s), ug_batch := []\<rparr>"

definition flush_receive :: "db_outcome \<Rightarrow> usage_store \<Rightarrow> usage_store option" where
  "flush_receive db s =
     (case ug_buffer s of
        [] \<Rightarrow> None
      | e # rest \<Rightarrow>
          (if ug_phase s \<noteq> Looping then None
           else (let s' = s\<lparr>ug_buffer := rest, ug_batch := ug_batch s @ [e]\<rparr> in
                 if ug_batch_size s \<le> length (ug_batch s') then Some (flush_batch db s') else Some s')))"

definition flush_tick :: "db_outcome \<Rightarrow> usage_store \<Rightarrow> usage_store option" where
  "flush_tick db s =
     (if ug_phase s \<noteq> Looping then None
      else if ug_batch s \<noteq> [] then Some (flush_batch db s) else Some s)"

definition flush_done :: "usage_store \<Rightarrow> usage_store option" where
  "flush_done s = (if ug_phase s = Looping \<and> ug_done s then Some (s\<lparr>ug_phase := Draining\<rparr>) else None)"

definition flush_drain :: "db_outcome \<Rightarrow> usage_store \<Rightarrow> usage_store option" where
  "flush_drain db s =
     (if ug_phase s \<noteq> Draining then None
      else case ug_buffer s of
        e # rest \<Rightarrow> Some (s\<lparr>ug_buffer := rest, ug_batch := ug_batch s @ [e]\<rparr>)
      | [] \<Rightarrow> Some ((flush_batch db s)\<lparr>ug_phase := Returned\<rparr>))"

text \<open>
  The interleaving of the callers of \<open>Record\<close>, of \<open>Close\<close> and of the goroutine. The label of a
  step is the event that was taken, if any.
\<close>

inductive usage_step :: "db_outcome \<Rightarrow> usage_store \<Rightarrow> timed_event option \<Rightarrow> usage_store \<Rightarrow> bool" where
  taken: "Record s now t e = (True, s') \<Longrightarrow>
     usage_step db s (Some \<lparr>te_time = (case t of None \<Rightarrow> now | Some u \<Rightarrow> u), te_event = e\<rparr>) s'"
| dropped: "Record s now t e = (False, s') \<Longrightarrow> usage_step db s None s'"
| close: "usage_step db s None (s\<lparr>ug_done := True\<rparr>)"
| receive: "flush_receive db s = Some s' \<Longrightarrow> usage_step db s None s'"
| tick: "flush_tick db s = Some s' \<Longrightarrow> usage_step db s None s'"
| seen_done: "flush_done s = Some s' \<Longrightarrow> usage_step db s None s'"
| drain: "flush_drain db s = Some s' \<Longrightarrow> usage_step db s None s'"

text \<open>A run in which every step meets a database outcome that satisfies \<open>P\<close>, and the events taken.\<close>

inductive usage_run :: "(db_outcome \<Rightarrow> bool) \<Rightarrow> usage_store \<Rightarrow> timed_event list \<Rightarrow> usage_store \<Rightarrow> bool"
  for P s where
  nil: "usage_run P s [] s"
| silent: "usage_run P s es s1 \<Longrightarrow> P db \<Longrightarrow> usage_step db s1 None s2 \<Longrightarrow> usage_run P s es s2"
| event: "usage_run P s es s1 \<Longrightarrow> P db \<Longrightarrow> usage_step db s1 (Some e) s2 \<Longrightarrow> usage_run P s (es @ [e]) s2"

inductive_cases usage_stepE: "usage_step db s l s'"

subsection \<open>Filters\<close>

record query_filter =
  qf_tenant_id :: string
  qf_user_sub :: string
  qf_model :: string
  qf_provider :: string
  qf_start :: "timestamp option"
  qf_end :: "timestamp option"

text \<open>A clause names a column, a comparison and the number of its parameter.\<close>

datatype usage_column = ColTenant | ColUser | ColModel | ColProvider | ColTime
datatype comparison = CmpEq | CmpGe | CmpLt
datatype sql_arg = ArgStr string | ArgTime timestamp | ArgInt int

type_synonym sql_clause = "usage_column \<times> comparison \<times> nat"

definition string_clause ::
  "usage_column \<Rightarrow> string \<Rightarrow> sql_clause list \<times> sql_arg list \<times> nat \<Rightarrow> sql_clause list \<times> sql_arg list \<times> nat" where
  "string_clause col v = (\<lambda>(clauses, args, idx).
     if v \<noteq> [] then (clauses @ [(col, CmpEq, idx)], args @ [ArgStr v], idx + 1) else (clauses, args, idx))"

definition appendFilters :: "query_filter \<Rightarrow> nat \<Rightarrow> sql_clause list \<times> sql_arg list" where
  "appendFilters f paramIdx =
     (let (c, a, i) = string_clause ColProvider (qf_provider f)
            (string_clause ColModel (qf_model f)
              (string_clause ColUser (qf_user_sub f)
                (string_clause ColTenant (qf_tenant_id f) ([], [], paramIdx))));
          (c, a, i) = (case qf_start f of
             None \<Rightarrow> (c, a, i) | Some t \<Rightarrow> (c @ [(ColTime, CmpGe, i)], a @ [ArgTime t], i + 1))
      in case qf_end f of
           None \<Rightarrow> (c, a) | Some t \<Rightarrow> (c @ [(ColTime, CmpLt, i)], a @ [ArgTime t]))"

text \<open>What the database makes of a clause with the arguments of the query, numbered from 1.\<close>

definition column_string :: "usage_column \<Rightarrow> usage_row \<Rightarrow> string" where
  "column_string col r = (case col of ColTenant \<Rightarrow> uw_tenant_id r | ColUser \<Rightarrow> uw_user_sub r
     | ColModel \<Rightarrow> uw_model r | ColProvider \<Rightarrow> uw_provider r | ColTime \<Rightarrow> [])"

definition clause_holds :: "sql_arg list \<Rightarrow> usage_row \<Rightarrow> sql_clause \<Rightarrow> bool" where
  "clause_holds args r = (\<lambda>(col, cmp, i).
     i \<noteq> 0 \<and> i \<le> length args \<and>
     (case (cmp, args ! (i - 1)) of
        (CmpEq, ArgStr v) \<Rightarrow> column_string col r = v
      | (CmpGe, ArgTime t) \<Rightarrow> t \<le> uw_time r
      | (CmpLt, ArgTime t) \<Rightarrow> uw_time r < t
      | _ \<Rightarrow> False))"

definition where_rows :: "sql_clause list \<Rightarrow> sql_arg list \<Rightarrow> usage_row list \<Rightarrow> usage_row list" where
  "where_rows clauses args rows = filter (\<lambda>r. list_all (clause_holds args r) clauses) rows"

subsection \<open>Queries\<close>

text \<open>
  \<open>GROUP BY\<close> in order of first appearance. The database may return groups of equal totals in any
  order; here they stay in that order.
\<close>

definition groups :: "('r \<Rightarrow> 'k) \<Rightarrow> 'r list \<Rightarrow> ('k \<times> 'r list) list" where
  "groups key rows = map (\<lambda>k. (k, filter (\<lambda>r. key r = k) rows)) (remdups (map key rows))"

record usage_sums =
  sm_input :: int
  sm_output :: int
  sm_total :: int
  sm_count :: int

definition sums_of :: "usage_row list \<Rightarrow> usage_sums" where
  "sums_of rows = \<lparr>sm_input = sum_list (map uw_input rows), sm_output = sum_list (map uw_output rows),
     sm_total = sum_list (map uw_total rows), sm_count = int (length rows)\<rparr>"

datatype usage_query_error = UsageDb | UsageDimension string | UsageRange

record usage_db =
  ud_up :: bool
  ud_rows :: "usage_row list"

type_synonym summary_key = "string \<times> string \<times> string \<times> string"

definition summary_key :: "usage_row \<Rightarrow> summary_key" where
  "summary_key r = (uw_tenant_id r, uw_user_sub r, uw_provider r, uw_model r)"

definition QuerySummary ::
  "usage_db \<Rightarrow> query_filter \<Rightarrow> usage_query_error + (summary_key \<times> usage_sums) list" where
  "QuerySummary db f =
     (let (clauses, args) = appendFilters f 1 in
      if \<not> ud_up db then Inl UsageDb
      else Inr (sort_key (\<lambda>(k, s). - sm_total s)
                  (map (\<lambda>(k, rs). (k, sums_of rs)) (groups summary_key (where_rows clauses args (ud_rows db))))))"

definition dimension_column :: "string \<Rightarrow> usage_column option" where
  "dimension_column d =
     (if d = ''user_sub'' then Some ColUser else if d = ''model'' then Some ColModel
      else if d = ''provider'' then Some ColProvider else if d = ''tenant_id'' then Some ColTenant
      else None)"

text \<open>The limit is one more argument, its parameter the number of arguments.\<close>

definition limit_rows :: "sql_arg list \<Rightarrow> nat \<Rightarrow> 'a list \<Rightarrow> 'a list" where
  "limit_rows args param rows =
     (if param = 0 \<or> length args < param then []
      else case args ! (param - 1) of ArgInt n \<Rightarrow> take (nat n) rows | _ \<Rightarrow> [])"

definition QueryTop ::
  "usage_db \<Rightarrow> query_filter \<Rightarrow> string \<Rightarrow> int \<Rightarrow> usage_query_error + (string \<times> usage_sums) list" where
  "QueryTop db f dimension limit0 =
     (case dimension_column dimension of
        None \<Rightarrow> Inl (UsageDimension dimension)
      | Some col \<Rightarrow>
          (let limit = (if limit0 \<le> 0 then 10 else limit0);
               (clauses, args0) = appendFilters f 1;
               args = args0 @ [ArgInt limit];
               limitParam = length args
           in if \<not> ud_up db then Inl UsageDb
              else Inr (limit_rows args limitParam
                     (sort_key (\<lambda>(k, s). - sm_total s)
                        (map (\<lambda>(k, rs). (k, sums_of rs))
                           (groups (column_string col) (where_rows clauses args (ud_rows db))))))))"

text \<open>\<open>date_trunc\<close> of a UTC database session, on times in nanoseconds since the epoch.\<close>

definition date_trunc :: "bool \<Rightarrow> timestamp \<Rightarrow> timestamp" where
  "date_trunc hourly t = (let unit = (if hourly then 3600000000000 else 86400000000000) in t div unit * unit)"

definition trend_dimension :: "string \<Rightarrow> usage_column option option" where
  "trend_dimension d = (if d = [] then Some None else map_option Some (dimension_column d))"

definition trend_key :: "bool \<Rightarrow> usage_column option \<Rightarrow> usage_row \<Rightarrow> timestamp \<times> string" where
  "trend_key hourly dm r =
     (date_trunc hourly (uw_time r), (case dm of None \<Rightarrow> [] | Some col \<Rightarrow> column_string col r))"

definition QueryTrends ::
  "usage_db \<Rightarrow> query_filter \<Rightarrow> string \<Rightarrow> string \<Rightarrow>
   usage_query_error + ((timestamp \<times> string) \<times> usage_sums) list" where
  "QueryTrends db f granularity dimension =
     (case trend_dimension dimension of
        None \<Rightarrow> Inl (UsageDimension dimension)
      | Some dm \<Rightarrow>
          (if qf_start f = None \<or> qf_end f = None then Inl UsageRange
           else (let (clauses, args) = appendFilters f 1 in
                 if \<not> ud_up db then Inl UsageDb
                 else Inr (sort_key (\<lambda>((bucket, k), s). bucket)
                        (map (\<lambda>(k, rs). (k, sums_of rs))
                           (groups (trend_key (granularity = ''hourly'') dm)
                              (where_rows clauses args (ud_rows db))))))))"

subsection \<open>The read API\<close>

datatype usage_body =
    UsText string
  | UsError string
  | UsErrorOf usage_query_error
  | UsSummary "(summary_key \<times> usage_sums) list" "timestamp option" "timestamp option"
  | UsTop string "(string \<times> usage_sums) list" "timestamp option" "timestamp option"
  | UsTrends string "((timestamp \<times> string) \<times> usage_sums) list" "timestamp option" "timestamp option"

type_synonym usage_reply = "usage_body http_response"

text \<open>
  \<open>parse_time\<close> is \<open>time.Parse\<close> with the RFC 3339 layout; \<open>None\<close> for a text it refuses (the error
  is ignored) and for the zero time.
\<close>

definition parse_bound :: "(string \<Rightarrow> timestamp option) \<Rightarrow> http_request \<Rightarrow> string \<Rightarrow> timestamp option" where
  "parse_bound parse_time r key = (let v = query_get r key in if v = [] then None else parse_time v)"

definition parseFilter :: "(string \<Rightarrow> timestamp option) \<Rightarrow> http_request \<Rightarrow> query_filter" where
  "parseFilter parse_time r =
     (let f = \<lparr>qf_tenant_id = query_get r ''tenant_id'', qf_user_sub = query_get r ''user_sub'',
               qf_model = query_get r ''model'', qf_provider = query_get r ''provider'',
               qf_start = parse_bound parse_time r ''start'', qf_end = parse_bound parse_time r ''end''\<rparr>
      in case hr_principal r of
           None \<Rightarrow> f
         | Some p \<Rightarrow>
             (let f = (if qf_tenant_id f = [] \<and> p_tenant_id p \<noteq> [] then f\<lparr>qf_tenant_id := p_tenant_id p\<rparr> else f)
              in if qf_user_sub f = [] then f\<lparr>qf_user_sub := p_subject p\<rparr> else f))"

definition default_range :: "timestamp \<Rightarrow> int \<Rightarrow> query_filter \<Rightarrow> query_filter" where
  "default_range now period f =
     (if qf_start f = None \<and> qf_end f = None then f\<lparr>qf_end := Some now, qf_start := Some (now - period)\<rparr>
      else f)"

definition day_span :: int where "day_span = 86400000000000"

text \<open>\<open>users\<close> is the resolver, \<open>None\<close> when none is configured.\<close>

definition display_name :: "user_store option \<Rightarrow> string \<Rightarrow> string" where
  "display_name users sub =
     (case users of
        None \<Rightarrow> sub
      | Some us \<Rightarrow>
          (case ResolveUserSub us sub of
             Inl e \<Rightarrow> sub
           | Inr (name, email) \<Rightarrow> if name \<noteq> [] then name else if email \<noteq> [] then email else sub))"

definition handleSummary ::
  "(string \<Rightarrow> timestamp option) \<Rightarrow> usage_db \<Rightarrow> timestamp \<Rightarrow> http_request \<Rightarrow> usage_reply" where
  "handleSummary parse_time db now r =
     (if hr_method r \<noteq> ''GET'' then reply 405 (UsText ''method not allowed'')
      else (let f = default_range now day_span (parseFilter parse_time r) in
            case QuerySummary db f of
              Inl e \<Rightarrow> reply 500 (UsError ''failed to query summary'')
            | Inr rows \<Rightarrow> reply 200 (UsSummary rows (qf_start f) (qf_end f))))"

definition handleTop ::
  "(string \<Rightarrow> timestamp option) \<Rightarrow> user_store option \<Rightarrow> usage_db \<Rightarrow> timestamp \<Rightarrow> http_request \<Rightarrow> usage_reply" where
  "handleTop parse_time users db now r =
     (if hr_method r \<noteq> ''GET'' then reply 405 (UsText ''method not allowed'')
      else (let f = default_range now day_span (parseFilter parse_time r);
                dimension = (if query_get r ''dimension'' = [] then ''model'' else query_get r ''dimension'');
                limit = (if Atoi (query_get r ''limit'') \<le> 0 then 10 else Atoi (query_get r ''limit''))
            in case QueryTop db f dimension limit of
                 Inl e \<Rightarrow> reply 400 (UsErrorOf e)
               | Inr rows \<Rightarrow>
                   reply 200 (UsTop dimension
                     (if dimension = ''user_sub'' then map (\<lambda>(k, s). (display_name users k, s)) rows else rows)
                     (qf_start f) (qf_end f))))"

definition handleTrends ::
  "(string \<Rightarrow> timestamp option) \<Rightarrow> user_store option \<Rightarrow> usage_db \<Rightarrow> timestamp \<Rightarrow> http_request \<Rightarrow> usage_reply" where
  "handleTrends parse_time users db now r =
     (if hr_method r \<noteq> ''GET'' then reply 405 (UsText ''method not allowed'')
      else (let f = default_range now (30 * day_span) (parseFilter parse_time r);
                granularity = (if query_get r ''granularity'' = ''hourly'' then ''hourly'' else ''daily'');
                dimension = query_get r ''dimension''
            in case QueryTrends db f granularity dimension of
                 Inl e \<Rightarrow> reply 500 (UsError ''failed to query trends'')
               | Inr rows \<Rightarrow>
                   reply 200 (UsTrends granularity
                     (if dimension = ''user_sub''
                      then map (\<lambda>((b, k), s). ((b, display_name users k), s)) rows else rows)
                     (qf_start f) (qf_end f))))"

end
