(* ===== verification/UsageProps.thy ===== *)
theory UsageProps
  imports Usage "HOL-Library.Sublist" "HOL-Library.Multiset"
begin

text \<open>
  Properties of usage accounting: what becomes of a recorded event, that the filters of the queries
  select what they say, and that the three reports agree.
\<close>

subsection \<open>The path of an event\<close>

definition healthy :: "db_outcome \<Rightarrow> bool" where
  "healthy db \<longleftrightarrow> dbo_begin db \<and> dbo_prepare db \<and> dbo_commit db \<and> (\<forall>e. dbo_exec db e)"

lemma insertBatch_cases:
  obtains (all) "insertBatch db batch table = table @ map row_of_event batch"
  | (none) "insertBatch db batch table = table" "\<not> healthy db \<or> batch = []"
  by (cases "insertBatch db batch table = table @ map row_of_event batch")
     (auto simp: insertBatch_def healthy_def list_all_iff split: if_splits)

definition usage_inv :: "(db_outcome \<Rightarrow> bool) \<Rightarrow> nat \<Rightarrow> timed_event list \<Rightarrow> usage_store \<Rightarrow> bool" where
  "usage_inv P cap es s \<longleftrightarrow> ug_cap s = cap \<and> ug_batch_size s = 100 \<and>
     (\<exists>gone. es = gone @ ug_batch s @ ug_buffer s \<and> subseq (ug_table s) (map row_of_event gone) \<and>
        ((\<forall>db. P db \<longrightarrow> healthy db) \<longrightarrow> ug_table s = map row_of_event gone)) \<and>
     length (ug_buffer s) \<le> cap \<and> (ug_phase s = Looping \<longrightarrow> length (ug_batch s) < 100) \<and>
     (ug_phase s = Returned \<longrightarrow> ug_batch s = [])"

lemma flush_batch_gone:
  assumes "subseq (ug_table s) (map row_of_event gone)" "P db"
    and "(\<forall>db. P db \<longrightarrow> healthy db) \<longrightarrow> ug_table s = map row_of_event gone"
  shows "subseq (ug_table (flush_batch db s)) (map row_of_event (gone @ ug_batch s)) \<and>
    ((\<forall>db. P db \<longrightarrow> healthy db) \<longrightarrow> ug_table (flush_batch db s) = map row_of_event (gone @ ug_batch s))"
proof (cases rule: insertBatch_cases [of db "ug_batch s" "ug_table s"])
  case all
  with assms show ?thesis by (auto simp: flush_batch_def intro: list_emb_append_mono)
next
  case none
  with assms show ?thesis by (auto simp: flush_batch_def intro: list_emb_append2)
qed

lemma flush_batch_sel [simp]:
  "ug_cap (flush_batch db s) = ug_cap s" "ug_batch_size (flush_batch db s) = ug_batch_size s"
  "ug_buffer (flush_batch db s) = ug_buffer s" "ug_batch (flush_batch db s) = []"
  "ug_phase (flush_batch db s) = ug_phase s" "ug_done (flush_batch db s) = ug_done s"
  by (simp_all add: flush_batch_def)

text \<open>Moving events from the buffer to the batch and flushing keep the invariant.\<close>

lemma usage_inv_flush:
  assumes "usage_inv P cap es s" "P db"
  shows "usage_inv P cap es (flush_batch db s)"
proof -
  from assms(1) obtain gone where g: "es = gone @ ug_batch s @ ug_buffer s"
    "subseq (ug_table s) (map row_of_event gone)"
    "(\<forall>db. P db \<longrightarrow> healthy db) \<longrightarrow> ug_table s = map row_of_event gone"
    by (auto simp: usage_inv_def)
  from flush_batch_gone [OF g(2) assms(2) g(3)] g(1) assms(1) show ?thesis
    unfolding usage_inv_def by (auto intro!: exI [of _ "gone @ ug_batch s"])
qed

lemma usage_inv_move:
  assumes "usage_inv P cap es s" "ug_buffer s = e # rest"
    and "ug_phase s = Draining \<or> length (ug_batch s) + 1 < 100"
    and "ug_phase s \<noteq> Returned"
  shows "usage_inv P cap es (s\<lparr>ug_buffer := rest, ug_batch := ug_batch s @ [e]\<rparr>)"
  using assms by (auto simp: usage_inv_def)

lemma usage_inv_step:
  assumes inv: "usage_inv P cap es s" and db: "P db" and st: "usage_step db s l s'"
  shows "usage_inv P cap (es @ (case l of None \<Rightarrow> [] | Some e \<Rightarrow> [e])) s'"
  using st
proof cases
  case (taken now t e)
  with inv show ?thesis by (auto simp: usage_inv_def Record_def Let_def split: if_splits)
next
  case (dropped now t e)
  with inv show ?thesis by (auto simp: Record_def Let_def split: if_splits)
next
  case close
  with inv show ?thesis by (auto simp: usage_inv_def)
next
  case receive
  then obtain e rest where b: "ug_buffer s = e # rest" "ug_phase s = Looping"
    by (auto simp: flush_receive_def split: list.splits if_splits)
  let ?s1 = "s\<lparr>ug_buffer := rest, ug_batch := ug_batch s @ [e]\<rparr>"
  show ?thesis
  proof (cases "length (ug_batch s) + 1 < 100")
    case True
    with receive b inv have "s' = ?s1" by (auto simp: flush_receive_def usage_inv_def Let_def)
    with usage_inv_move [OF inv b(1)] True b(2) receive show ?thesis by simp
  next
    case False
    with receive b inv have s': "s' = flush_batch db ?s1"
      by (auto simp: flush_receive_def usage_inv_def Let_def)
    have "usage_inv P cap es (?s1\<lparr>ug_phase := Draining\<rparr>)"
      using usage_inv_move [of P cap es "s\<lparr>ug_phase := Draining\<rparr>" e rest] inv b
      by (auto simp: usage_inv_def)
    from usage_inv_flush [OF this db] s' receive b show ?thesis
      by (auto simp: usage_inv_def flush_batch_def)
  qed
next
  case tick
  with usage_inv_flush [OF inv db] inv show ?thesis by (auto simp: flush_tick_def split: if_splits)
next
  case seen_done
  with inv show ?thesis by (auto simp: flush_done_def usage_inv_def split: if_splits)
next
  case drain
  then have d: "ug_phase s = Draining" by (auto simp: flush_drain_def split: if_splits)
  show ?thesis
  proof (cases "ug_buffer s")
    case Nil
    with drain d have "s' = (flush_batch db s)\<lparr>ug_phase := Returned\<rparr>" by (simp add: flush_drain_def)
    with usage_inv_flush [OF inv db] drain show ?thesis by (auto simp: usage_inv_def)
  next
    case (Cons e rest)
    with drain d have "s' = s\<lparr>ug_buffer := rest, ug_batch := ug_batch s @ [e]\<rparr>" by (simp add: flush_drain_def)
    with usage_inv_move [OF inv Cons] d drain show ?thesis by simp
  qed
qed

lemma usage_inv_run:
  "usage_run P s0 es s \<Longrightarrow> usage_inv P cap [] s0 \<Longrightarrow> usage_inv P cap es s"
proof (induction rule: usage_run.induct)
  case (silent es s1 db s2)
  with usage_inv_step [of P cap es s1 db None s2] show ?case by simp
next
  case (event es s1 db e s2)
  with usage_inv_step [of P cap es s1 db "Some e" s2] show ?case by simp
qed

text \<open>C31: What becomes of the usage events the store takes. After any interleaving of \<open>Record\<close>,
  \<open>Close\<close>, ticks and the flush goroutine, the taken events are, in order, those already handed to the
  database, then the batch, then the buffer; the table holds rows of handed-over events only,
  each at most once and in order, and all of them if no statement ever failed. The buffer never
  exceeds its size, the batch stays below 100 until shutdown, and when the goroutine has
  returned the batch is empty.\<close>
theorem usage_events_conserved:
  assumes "usage_run P (NewUsageStore bufsize ival) es s"
  shows "(\<exists>gone. es = gone @ ug_batch s @ ug_buffer s \<and> subseq (ug_table s) (map row_of_event gone) \<and>
      ((\<forall>db. P db \<longrightarrow> healthy db) \<longrightarrow> ug_table s = map row_of_event gone)) \<and>
    length (ug_buffer s) \<le> (if bufsize \<le> 0 then 1000 else nat bufsize) \<and>
    (ug_phase s = Looping \<longrightarrow> length (ug_batch s) < 100) \<and> (ug_phase s = Returned \<longrightarrow> ug_batch s = [])"
proof -
  have "usage_inv P (if bufsize \<le> 0 then 1000 else nat bufsize) [] (NewUsageStore bufsize ival)"
    by (simp add: usage_inv_def NewUsageStore_def)
  from usage_inv_run [OF assms this] show ?thesis by (auto simp: usage_inv_def)
qed

definition sample_event :: usage_event where
  "sample_event = \<lparr>ue_tenant_id = [], ue_user_sub = ''alice'', ue_provider = ''openai'', ue_model = ''m'',
     ue_input_tokens = 3, ue_output_tokens = 4, ue_response_id = ''r'', ue_stream = False\<rparr>"

definition good_db :: db_outcome where
  "good_db = \<lparr>dbo_begin = True, dbo_prepare = True, dbo_exec = (\<lambda>_. True), dbo_commit = True\<rparr>"

theorem usage_events_conserved_witness:
  "\<exists>s. usage_run ((=) good_db) (NewUsageStore 1 0) [\<lparr>te_time = 9, te_event = sample_event\<rparr>] s \<and>
     ug_phase s = Returned \<and> ug_table s = [row_of_event \<lparr>te_time = 9, te_event = sample_event\<rparr>]"
proof -
  let ?e = "\<lparr>te_time = 9, te_event = sample_event\<rparr>"
  let ?s0 = "NewUsageStore 1 0"
  let ?s1 = "?s0\<lparr>ug_buffer := [?e]\<rparr>"
  let ?s2 = "?s1\<lparr>ug_done := True\<rparr>"
  let ?s3 = "?s2\<lparr>ug_phase := Draining\<rparr>"
  let ?s4 = "?s3\<lparr>ug_buffer := [], ug_batch := [?e]\<rparr>"
  let ?s5 = "(flush_batch good_db ?s4)\<lparr>ug_phase := Returned\<rparr>"
  let ?run = "usage_run ((=) good_db) ?s0"
  have "usage_step good_db ?s0 (Some \<lparr>te_time = (case None of None \<Rightarrow> 9 | Some u \<Rightarrow> u), te_event = sample_event\<rparr>) ?s1"
    by (rule usage_step.taken) (simp add: Record_def NewUsageStore_def)
  then have "?run ([] @ [?e]) ?s1" by (intro usage_run.event [OF usage_run.nil]) simp_all
  then have r1: "?run [?e] ?s1" by simp
  have r2: "?run [?e] ?s2"
    by (rule usage_run.silent [OF r1 refl]) (rule usage_step.close)
  have r3: "?run [?e] ?s3"
    by (rule usage_run.silent [OF r2 refl usage_step.seen_done]) (simp add: flush_done_def NewUsageStore_def)
  have r4: "?run [?e] ?s4"
    by (rule usage_run.silent [OF r3 refl usage_step.drain]) (simp add: flush_drain_def NewUsageStore_def)
  have r5: "?run [?e] ?s5"
    by (rule usage_run.silent [OF r4 refl usage_step.drain]) (simp add: flush_drain_def NewUsageStore_def)
  have h: "healthy good_db" by (simp add: healthy_def good_db_def)
  have b: "ug_buffer ?s5 = []" "ug_batch ?s5 = []" "ug_phase ?s5 = Returned" by simp_all
  from usage_events_conserved [OF r5] h b have "ug_table ?s5 = [row_of_event ?e]" by auto
  with r5 show ?thesis by (intro exI [of _ ?s5] conjI) (assumption | simp)+
qed

text \<open>
  One row the database refuses takes the whole batch with it: the transaction is aborted and the
  commit rolls back, although the loop logs the error of the row and goes on.
\<close>

lemma bad_row_loses_batch:
  "e \<in> set batch \<Longrightarrow> \<not> dbo_exec db e \<Longrightarrow> insertBatch db batch table = table"
  by (auto simp: insertBatch_def list_all_iff)

subsection \<open>Filters\<close>

definition row_selected :: "query_filter \<Rightarrow> usage_row \<Rightarrow> bool" where
  "row_selected f r \<longleftrightarrow>
     (qf_tenant_id f \<noteq> [] \<longrightarrow> uw_tenant_id r = qf_tenant_id f) \<and>
     (qf_user_sub f \<noteq> [] \<longrightarrow> uw_user_sub r = qf_user_sub f) \<and>
     (qf_model f \<noteq> [] \<longrightarrow> uw_model r = qf_model f) \<and>
     (qf_provider f \<noteq> [] \<longrightarrow> uw_provider r = qf_provider f) \<and>
     (\<forall>t. qf_start f = Some t \<longrightarrow> t \<le> uw_time r) \<and> (\<forall>t. qf_end f = Some t \<longrightarrow> uw_time r < t)"

text \<open>Clauses and arguments grow together, and what is there keeps its meaning.\<close>

definition filter_state :: "(usage_row \<Rightarrow> bool) \<Rightarrow> sql_clause list \<times> sql_arg list \<times> nat \<Rightarrow> bool" where
  "filter_state P = (\<lambda>(clauses, args, idx). idx = length args + 1 \<and>
     (\<forall>extra r. list_all (clause_holds (args @ extra) r) clauses \<longleftrightarrow> P r))"

lemma new_clause:
  "clause_holds (a @ x # extra) r (col, cmp, Suc (length a)) \<longleftrightarrow>
     (case (cmp, x) of
        (CmpEq, ArgStr v) \<Rightarrow> column_string col r = v
      | (CmpGe, ArgTime t) \<Rightarrow> t \<le> uw_time r
      | (CmpLt, ArgTime t) \<Rightarrow> uw_time r < t
      | _ \<Rightarrow> False)"
  by (simp add: clause_holds_def split: comparison.split)

lemma filter_state_string:
  assumes "filter_state P st" "col \<noteq> ColTime"
  shows "filter_state (\<lambda>r. P r \<and> (v \<noteq> [] \<longrightarrow> column_string col r = v)) (string_clause col v st)"
proof -
  obtain c a i where st: "st = (c, a, i)" by (cases st)
  with assms(1) have i: "i = length a + 1"
    and p: "\<And>extra r. list_all (clause_holds (a @ extra) r) c \<longleftrightarrow> P r" by (auto simp: filter_state_def)
  show ?thesis
  proof (cases "v = []")
    case True
    with i p show ?thesis by (simp add: filter_state_def string_clause_def st)
  next
    case False
    then have "string_clause col v st = (c @ [(col, CmpEq, Suc (length a))], a @ [ArgStr v], length a + 2)"
      using i by (simp add: string_clause_def st)
    with False show ?thesis by (simp add: filter_state_def p new_clause)
  qed
qed

lemma appendFilters_exact:
  assumes "appendFilters f (Suc 0) = (clauses, args)"
  shows "where_rows clauses (args @ extra) rows = filter (row_selected f) rows"
proof -
  let ?st = "string_clause ColProvider (qf_provider f)
            (string_clause ColModel (qf_model f)
              (string_clause ColUser (qf_user_sub f)
                (string_clause ColTenant (qf_tenant_id f) ([], [], Suc 0))))"
  let ?P = "\<lambda>r. (((True \<and> (qf_tenant_id f \<noteq> [] \<longrightarrow> column_string ColTenant r = qf_tenant_id f)) \<and>
     (qf_user_sub f \<noteq> [] \<longrightarrow> column_string ColUser r = qf_user_sub f)) \<and>
     (qf_model f \<noteq> [] \<longrightarrow> column_string ColModel r = qf_model f)) \<and>
     (qf_provider f \<noteq> [] \<longrightarrow> column_string ColProvider r = qf_provider f)"
  have "filter_state (\<lambda>r. True) ([], [], Suc 0)" by (simp add: filter_state_def)
  then have s: "filter_state ?P ?st" by (intro filter_state_string) simp_all
  obtain c a i where st: "?st = (c, a, i)" by (cases ?st)
  with s have i: "i = length a + 1"
    and p: "\<And>extra r. list_all (clause_holds (a @ extra) r) c \<longleftrightarrow> ?P r"
    by (simp_all add: filter_state_def)
  let ?n = "length a"
  have row: "list_all (clause_holds (args @ extra) r) clauses \<longleftrightarrow> row_selected f r" for r
  proof -
    have sel: "row_selected f r \<longleftrightarrow> ?P r \<and> (\<forall>t. qf_start f = Some t \<longrightarrow> t \<le> uw_time r) \<and>
        (\<forall>t. qf_end f = Some t \<longrightarrow> uw_time r < t)"
      by (auto simp: row_selected_def column_string_def)
    have c1: "clauses = c @ (case qf_start f of None \<Rightarrow> [] | Some t \<Rightarrow> [(ColTime, CmpGe, Suc ?n)]) @
        (case qf_end f of None \<Rightarrow> [] | Some t \<Rightarrow>
           [(ColTime, CmpLt, if qf_start f = None then Suc ?n else Suc (Suc ?n))])"
      and c2: "args = a @ (case qf_start f of None \<Rightarrow> [] | Some t \<Rightarrow> [ArgTime t]) @
        (case qf_end f of None \<Rightarrow> [] | Some t \<Rightarrow> [ArgTime t])"
      using assms by (auto simp: appendFilters_def st i split: option.splits)
    have two: "clause_holds (a @ ArgTime t # ArgTime u # extra) r (ColTime, CmpLt, Suc (Suc ?n)) \<longleftrightarrow> uw_time r < u"
      for t u using new_clause [of "a @ [ArgTime t]" "ArgTime u" extra r ColTime CmpLt] by simp
    show ?thesis
      unfolding sel c1 c2
      by (cases "qf_start f"; cases "qf_end f") (simp_all only: option.case append_Nil append_Cons
          append_assoc list_all_append list.pred_inject p new_clause two if_True if_False option.distinct
          comparison.case sql_arg.case prod.case simp_thms option.inject all_simps refl)
  qed
  then show ?thesis by (simp add: where_rows_def)
qed

subsection \<open>Reports\<close>

lemma sum_groups:
  assumes "finite K" "key ` set rows \<subseteq> K"
  shows "(\<Sum>k\<in>K. sum_list (map h (filter (\<lambda>r. key r = k) rows))) = (sum_list (map h rows) :: int)"
  using assms(2)
proof (induction rows)
  case (Cons a rows)
  have "(\<Sum>k\<in>K. sum_list (map h (filter (\<lambda>r. key r = k) (a # rows))))
      = (\<Sum>k\<in>K. (if key a = k then h a else 0) + sum_list (map h (filter (\<lambda>r. key r = k) rows)))"
    by (rule sum.cong) auto
  also have "\<dots> = h a + sum_list (map h rows)"
    using Cons assms(1) by (simp add: sum.distrib)
  finally show ?case by simp
qed simp

lemma groups_sum:
  "sum_list (map (\<lambda>(k, rs). sum_list (map h rs)) (groups key rows)) = (sum_list (map h rows) :: int)"
proof -
  have "sum_list (map (\<lambda>(k, rs). sum_list (map h rs)) (groups key rows))
      = sum_list (map (\<lambda>k. sum_list (map h (filter (\<lambda>r. key r = k) rows))) (remdups (map key rows)))"
    by (simp add: groups_def comp_def)
  also have "\<dots> = (\<Sum>k\<in>set (map key rows). sum_list (map h (filter (\<lambda>r. key r = k) rows)))"
    by (simp add: sum_list_distinct_conv_sum_set)
  also have "\<dots> = sum_list (map h rows)" by (rule sum_groups) auto
  finally show ?thesis .
qed

lemma groups_distinct: "distinct (map fst (groups key rows))"
  by (simp add: groups_def comp_def)

definition add_sums :: "usage_sums list \<Rightarrow> usage_sums" where
  "add_sums ss = \<lparr>sm_input = sum_list (map sm_input ss), sm_output = sum_list (map sm_output ss),
     sm_total = sum_list (map sm_total ss), sm_count = sum_list (map sm_count ss)\<rparr>"

lemma length_sum_list: "int (length xs) = sum_list (map (\<lambda>_. 1) xs)"
  by (induction xs) auto

lemma sum_list_sort_key: "sum_list (map f (sort_key g xs)) = (sum_list (map f xs) :: int)"
proof -
  have "sum_mset (mset (map f (sort_key g xs))) = sum_mset (mset (map f xs))" by simp
  then show ?thesis by (simp only: sum_mset_sum_list)
qed

lemma report_sums:
  "add_sums (map snd (sort_key g (map (\<lambda>(k, rs). (k, sums_of rs)) (groups key rows)))) = sums_of rows"
  using groups_sum [of uw_input key rows] groups_sum [of uw_output key rows]
    groups_sum [of uw_total key rows] groups_sum [of "\<lambda>_. 1" key rows]
  by (simp add: add_sums_def sums_of_def sum_list_sort_key comp_def case_prod_unfold length_sum_list)

lemma report_distinct:
  "distinct (map fst (sort_key g (map (\<lambda>(k, rs). (k, sums_of rs)) (groups key rows))))"
proof -
  let ?xs = "map (\<lambda>(k, rs). (k, sums_of rs)) (groups key rows)"
  have "distinct (map fst ?xs)"
    using groups_distinct [of key rows] by (simp add: comp_def case_prod_unfold)
  moreover have "mset (map fst (sort_key g ?xs)) = mset (map fst ?xs)"
    by (simp only: mset_map mset_sort)
  ultimately show ?thesis by (metis mset_eq_imp_distinct_iff)
qed

lemma limit_rows_uncut:
  "limit_rows (args @ [ArgInt n]) (Suc (length args)) xs = rows \<Longrightarrow> int (length rows) < n \<Longrightarrow> rows = xs"
  by (auto simp: limit_rows_def)

text \<open>The reports add up. For one filter, the lines of the summary, of the trends in any granularity
  and for any dimension, and of the top list when its limit cuts nothing off, have distinct
  keys and add up, token by token and request by request, to the rows the filter selects: no row
  is counted twice, none is lost, and no row outside the filter is counted.\<close>
theorem usage_reports_add_up:
  assumes "ud_up db"
  shows "(\<forall>rows. QuerySummary db f = Inr rows \<longrightarrow>
       distinct (map fst rows) \<and> add_sums (map snd rows) = sums_of (filter (row_selected f) (ud_rows db))) \<and>
    (\<forall>g dm rows. QueryTrends db f g dm = Inr rows \<longrightarrow>
       distinct (map fst rows) \<and> add_sums (map snd rows) = sums_of (filter (row_selected f) (ud_rows db))) \<and>
    (\<forall>dm n rows. QueryTop db f dm n = Inr rows \<longrightarrow> int (length rows) < n \<longrightarrow>
       distinct (map fst rows) \<and> add_sums (map snd rows) = sums_of (filter (row_selected f) (ud_rows db)))"
proof -
  obtain clauses args where f: "appendFilters f (Suc 0) = (clauses, args)" by fastforce
  have w: "where_rows clauses (args @ extra) (ud_rows db) = filter (row_selected f) (ud_rows db)" for extra
    by (rule appendFilters_exact) (simp add: f)
  have w0: "where_rows clauses args (ud_rows db) = filter (row_selected f) (ud_rows db)"
    using w [of "[]"] by simp
  have top: "distinct (map fst rows) \<and> add_sums (map snd rows) = sums_of (filter (row_selected f) (ud_rows db))"
    if q: "QueryTop db f dm n = Inr rows" and n: "int (length rows) < n" for dm n rows
  proof -
    from n have "\<not> n \<le> 0" by simp
    with q obtain col where "limit_rows (args @ [ArgInt n]) (Suc (length args))
        (sort_key (\<lambda>(k, s). - sm_total s) (map (\<lambda>(k, rs). (k, sums_of rs))
           (groups (column_string col) (filter (row_selected f) (ud_rows db))))) = rows"
      by (auto simp: QueryTop_def f w Let_def split: option.splits if_splits)
    from limit_rows_uncut [OF this n] show ?thesis by (simp only: report_sums report_distinct simp_thms)
  qed
  have sum: "distinct (map fst rows) \<and> add_sums (map snd rows) = sums_of (filter (row_selected f) (ud_rows db))"
    if "QuerySummary db f = Inr rows" for rows
    using that assms report_sums report_distinct by (auto simp: QuerySummary_def f w0)
  have tr: "distinct (map fst rows) \<and> add_sums (map snd rows) = sums_of (filter (row_selected f) (ud_rows db))"
    if "QueryTrends db f g dm = Inr rows" for rows g dm
    using that assms report_sums report_distinct
    by (auto simp: QueryTrends_def f w0 split: option.splits if_splits)
  show ?thesis using sum tr top by blast
qed

definition sample_usage_db :: usage_db where
  "sample_usage_db = \<lparr>ud_up = True, ud_rows = [row_of_event \<lparr>te_time = 9, te_event = sample_event\<rparr>,
     row_of_event \<lparr>te_time = 20, te_event = sample_event\<lparr>ue_model := ''n''\<rparr>\<rparr>]\<rparr>"

definition sample_filter :: query_filter where
  "sample_filter = \<lparr>qf_tenant_id = [], qf_user_sub = ''alice'', qf_model = [], qf_provider = [],
     qf_start = Some 0, qf_end = Some 15\<rparr>"

theorem usage_reports_add_up_witness:
  "\<exists>rows. QuerySummary sample_usage_db sample_filter = Inr rows \<and>
     add_sums (map snd rows) = \<lparr>sm_input = 3, sm_output = 4, sm_total = 7, sm_count = 1\<rparr>"
proof -
  have up: "ud_up sample_usage_db" by (simp add: sample_usage_db_def)
  obtain rows where q: "QuerySummary sample_usage_db sample_filter = Inr rows"
    by (cases "appendFilters sample_filter (Suc 0)") (auto simp: QuerySummary_def up)
  have "sums_of (filter (row_selected sample_filter) (ud_rows sample_usage_db))
      = \<lparr>sm_input = 3, sm_output = 4, sm_total = 7, sm_count = 1\<rparr>"
    by (simp add: sample_usage_db_def sample_filter_def row_selected_def row_of_event_def
        sample_event_def sums_of_def Let_def wrap64_def)
  with usage_reports_add_up [OF up, of sample_filter] q show ?thesis by auto
qed

subsection \<open>Whose usage a caller sees\<close>

lemma parseFilter_user:
  "qf_user_sub (parseFilter parse_time r) =
     (if query_get r ''user_sub'' \<noteq> [] then query_get r ''user_sub''
      else case hr_principal r of None \<Rightarrow> [] | Some p \<Rightarrow> p_subject p)"
  by (auto simp: parseFilter_def Let_def split: option.split)

lemma parseFilter_tenant:
  "qf_tenant_id (parseFilter parse_time r) =
     (if query_get r ''tenant_id'' \<noteq> [] then query_get r ''tenant_id''
      else case hr_principal r of None \<Rightarrow> [] | Some p \<Rightarrow> p_tenant_id p)"
  by (auto simp: parseFilter_def Let_def split: option.split)

text \<open>The usage reports scope a caller by default only. Without the query parameters, the summary
  counts the caller's own rows (subject, and tenant where there is one) and nothing else; but any
  caller who names another user and tenant in the query gets exactly that user's usage: the
  parameters replace the identity, for everybody and without an admin check.\<close>
theorem usage_scope_overridable:
  "(hr_principal r = Some p \<and> p_subject p \<noteq> [] \<and> query_get r ''user_sub'' = [] \<and> query_get r ''tenant_id'' = [] \<longrightarrow>
      (\<forall>row. row_selected (parseFilter parse_time r) row \<longrightarrow>
         uw_user_sub row = p_subject p \<and> (p_tenant_id p \<noteq> [] \<longrightarrow> uw_tenant_id row = p_tenant_id p))) \<and>
   (query_get r ''user_sub'' = victim \<and> victim \<noteq> [] \<and> query_get r ''tenant_id'' = tenant \<and> tenant \<noteq> [] \<longrightarrow>
      (\<forall>row. row_selected (parseFilter parse_time r) row \<longleftrightarrow>
         row_selected (parseFilter parse_time (r\<lparr>hr_principal := None\<rparr>)) row) \<and>
      qf_user_sub (parseFilter parse_time r) = victim \<and> qf_tenant_id (parseFilter parse_time r) = tenant)"
proof (intro conjI impI allI)
  fix row
  assume "hr_principal r = Some p \<and> p_subject p \<noteq> [] \<and> query_get r ''user_sub'' = [] \<and> query_get r ''tenant_id'' = []"
    and "row_selected (parseFilter parse_time r) row"
  then show "uw_user_sub row = p_subject p" "p_tenant_id p \<noteq> [] \<Longrightarrow> uw_tenant_id row = p_tenant_id p"
    using parseFilter_user [of parse_time r] parseFilter_tenant [of parse_time r]
    by (auto simp: row_selected_def)
next
  fix row
  assume "query_get r ''user_sub'' = victim \<and> victim \<noteq> [] \<and> query_get r ''tenant_id'' = tenant \<and> tenant \<noteq> []"
  then have "parseFilter parse_time r = parseFilter parse_time (r\<lparr>hr_principal := None\<rparr>)"
    by (auto simp: parseFilter_def Let_def query_get_def parse_bound_def split: option.split)
  then show "row_selected (parseFilter parse_time r) row \<longleftrightarrow>
      row_selected (parseFilter parse_time (r\<lparr>hr_principal := None\<rparr>)) row" by simp
next
  assume "query_get r ''user_sub'' = victim \<and> victim \<noteq> [] \<and> query_get r ''tenant_id'' = tenant \<and> tenant \<noteq> []"
  then show "qf_user_sub (parseFilter parse_time r) = victim" "qf_tenant_id (parseFilter parse_time r) = tenant"
    by (simp_all add: parseFilter_user parseFilter_tenant)
qed

theorem usage_scope_overridable_witness:
  "qf_user_sub (parseFilter (\<lambda>_. None) (zero_http\<lparr>hr_query := [(''user_sub'', ''bob''), (''tenant_id'', ''t2'')],
      hr_principal := Some \<lparr>p_issuer = [], p_subject = ''eve'', p_tenant_id = ''t1'', p_roles = []\<rparr>\<rparr>)) = ''bob''"
proof -
  let ?r = "zero_http\<lparr>hr_query := [(''user_sub'', ''bob''), (''tenant_id'', ''t2'')],
      hr_principal := Some \<lparr>p_issuer = [], p_subject = ''eve'', p_tenant_id = ''t1'', p_roles = []\<rparr>\<rparr>"
  have "query_get ?r ''user_sub'' = ''bob''" "query_get ?r ''tenant_id'' = ''t2''"
    by (simp_all add: query_get_def)
  with usage_scope_overridable [of ?r undefined "\<lambda>_. None" "''bob''" "''t2''"] show ?thesis by simp
qed

end
