(* ===== verification/Lifecycle.thy ===== *)
theory Lifecycle
  imports Middleware ConfigSources UsageProps
begin

text \<open>
  How the process begins and ends: the logger and the tracer \<open>main\<close> sets up before everything else
  (\<open>cmd/gateway/main.go\<close>, \<open>internal/observability/tracing.go\<close>), and what it shuts down, in which
  order, when the server fails or a signal arrives. The exporters of OpenTelemetry are a parameter:
  the error creating one gives, if any.
\<close>

subsection \<open>Logger and tracer\<close>

datatype log_format = LogJson | LogText

definition logger_settings :: "logging_config \<Rightarrow> log_format \<times> log_level" where
  "logger_settings c =
     (let format = (if lgc_format c = [] then ''json'' else lgc_format c);
          level = (if lgc_level c = [] then ''info'' else lgc_level c)
      in (if format = ''json'' then LogJson else LogText, parseLevel level))"

datatype exporter = OtlpExporter string bool "(string \<times> string) list" | StdoutExporter

datatype sampler = AlwaysSample | NeverSample | RatioSample float64

record tracer =
  tr_service :: string
  tr_exporter :: exporter
  tr_sampler :: sampler

datatype tracer_error = ExporterFailed exporter string | UnsupportedExporter string

definition createSampler :: "sampler_config \<Rightarrow> sampler" where
  "createSampler c =
     (if smc_type c = ''always'' then AlwaysSample
      else if smc_type c = ''never'' then NeverSample
      else if smc_type c = ''probability'' then RatioSample (smc_rate c)
      else RatioSample (1 / 10))"

definition createOTLPExporter :: "exporter_config \<Rightarrow> exporter" where
  "createOTLPExporter c = OtlpExporter (exc_endpoint c) (exc_insecure c) (exc_headers c)"

definition InitTracer :: "(exporter \<Rightarrow> string option) \<Rightarrow> tracing_config \<Rightarrow> tracer_error + tracer" where
  "InitTracer client c =
     (let x = trc_exporter c in
      case (if exc_type x = ''otlp'' then Some (createOTLPExporter x)
            else if exc_type x = ''stdout'' then Some StdoutExporter else None) of
        None \<Rightarrow> Inl (UnsupportedExporter (exc_type x))
      | Some e \<Rightarrow>
          (case client e of
             Some err \<Rightarrow> Inl (ExporterFailed e err)
           | None \<Rightarrow> Inr \<lparr>tr_service = trc_service_name c, tr_exporter = e,
                          tr_sampler = createSampler (trc_sampler c)\<rparr>))"

definition tracing_defaults :: "tracing_config \<Rightarrow> tracing_config" where
  "tracing_defaults c =
     (let c1 = (if trc_service_name c = [] then c\<lparr>trc_service_name := ''llm-gateway''\<rparr> else c)
      in if smc_type (trc_sampler c1) = []
         then c1\<lparr>trc_sampler := \<lparr>smc_type = ''probability'', smc_rate = 1 / 10\<rparr>\<rparr> else c1)"

text \<open>A tracer that cannot be set up is left out, with a warning.\<close>

definition start_tracing :: "(exporter \<Rightarrow> string option) \<Rightarrow> observability_config \<Rightarrow> tracer option" where
  "start_tracing client c =
     (if obc_enabled c \<and> trc_enabled (obc_tracing c)
      then (case InitTracer client (tracing_defaults (obc_tracing c)) of
              Inl _ \<Rightarrow> None | Inr t \<Rightarrow> Some t)
      else None)"

text \<open>
  A rate is only given together with a type: \<open>TRACING_SAMPLER_RATE\<close> alone is overwritten by the
  default, and the type \<open>probability\<close> without a rate samples nothing.
\<close>

lemma sampler_of_default:
  "tr_sampler (the (start_tracing client c)) =
     (if smc_type (trc_sampler (obc_tracing c)) = [] then RatioSample (1 / 10)
      else createSampler (trc_sampler (obc_tracing c)))"
  if "start_tracing client c \<noteq> None"
  using that
  by (auto simp: start_tracing_def InitTracer_def tracing_defaults_def createSampler_def Let_def
      split: if_splits sum.splits option.splits)

subsection \<open>The end of the process\<close>

datatype stop_cause = ServerFailed | ServerClosed | StopSignal

datatype stop_action =
    StopPolling
  | ShutdownServer
  | ShutdownTracer
  | CloseUsage
  | CloseConversations
  | CloseSessions
  | CloseConfigStore

record open_parts =
  op_tracer :: bool
  op_usage :: bool
  op_sessions :: bool
  op_config_store :: bool

text \<open>The actions in order and the exit code. An error of one of them is logged and the next one follows.\<close>

definition stop_actions :: "stop_cause \<Rightarrow> open_parts \<Rightarrow> stop_action list \<times> nat" where
  "stop_actions cause p =
     (case cause of
        ServerFailed \<Rightarrow> ([], 1)
      | ServerClosed \<Rightarrow> ([], 0)
      | StopSignal \<Rightarrow>
          ([StopPolling, ShutdownServer] @
           (if op_tracer p then [ShutdownTracer] else []) @
           (if op_usage p then [CloseUsage] else []) @
           [CloseConversations] @
           (if op_sessions p then [CloseSessions] else []) @
           (if op_config_store p then [CloseConfigStore] else []), 0))"

text \<open>
  \<open>Close\<close> of the usage store waits for the flush goroutine, which takes what is in the buffer and
  writes it with the batch. \<open>drained\<close> are its rounds after it has seen the end.
\<close>

fun drained :: "db_outcome \<Rightarrow> timed_event list \<Rightarrow> usage_store \<Rightarrow> usage_store" where
  "drained db [] s = (flush_batch db (s\<lparr>ug_buffer := []\<rparr>))\<lparr>ug_phase := Returned\<rparr>"
| "drained db (e # rest) s = drained db rest (s\<lparr>ug_batch := ug_batch s @ [e]\<rparr>)"

definition close_usage :: "db_outcome \<Rightarrow> usage_store \<Rightarrow> usage_store" where
  "close_usage db s = drained db (ug_buffer s) (s\<lparr>ug_done := True, ug_phase := Draining\<rparr>)"

definition after_action :: "db_outcome \<Rightarrow> stop_action \<Rightarrow> usage_store \<Rightarrow> usage_store" where
  "after_action db a s = (if a = CloseUsage then close_usage db s else s)"

text \<open>
  The usage store when the process is gone: \<open>s\<close> is its state when the server has been shut down,
  \<open>late\<close> are the events of requests that were still running then, because the 30 seconds of the
  shutdown had passed.
\<close>

definition after_stop ::
  "db_outcome \<Rightarrow> stop_cause \<Rightarrow> open_parts \<Rightarrow> (timestamp \<times> usage_event) list \<Rightarrow> usage_store \<Rightarrow> usage_store" where
  "after_stop db cause p late s =
     fold (\<lambda>(now, e) s. snd (Record s now None e)) late
       (fold (after_action db) (fst (stop_actions cause p)) s)"

text \<open>\<open>close_usage\<close> is a run of the goroutine, as \<open>usage_step\<close> describes it.\<close>

lemma drained_run:
  assumes "usage_run P s0 es s" and "P db" and "ug_phase s = Draining"
  shows "usage_run P s0 es (drained db (ug_buffer s) (s\<lparr>ug_buffer := xs\<rparr>))"
  using assms
proof (induction "ug_buffer s" arbitrary: s xs)
  case Nil
  from Nil.hyps have same: "s\<lparr>ug_buffer := []\<rparr> = s" by (cases s) simp
  have "usage_step db s None ((flush_batch db s)\<lparr>ug_phase := Returned\<rparr>)"
    by (rule usage_step.drain) (use Nil in \<open>simp add: flush_drain_def flip: Nil.hyps\<close>)
  from usage_run.silent [OF Nil.prems(1,2) this] show ?case
    by (simp add: same flip: Nil.hyps)
next
  case (Cons e rest)
  let ?s1 = "s\<lparr>ug_buffer := rest, ug_batch := ug_batch s @ [e]\<rparr>"
  have "usage_step db s None ?s1"
    by (rule usage_step.drain) (use Cons.prems in \<open>simp add: flush_drain_def flip: Cons.hyps(2)\<close>)
  with Cons.prems have "usage_run P s0 es ?s1" by (blast intro: usage_run.silent)
  from Cons.hyps(1) [OF _ this, of xs] Cons.prems
  have "usage_run P s0 es (drained db rest (s\<lparr>ug_batch := ug_batch s @ [e], ug_buffer := xs\<rparr>))" by simp
  moreover have "s\<lparr>ug_batch := ug_batch s @ [e], ug_buffer := xs\<rparr> = s\<lparr>ug_buffer := xs, ug_batch := ug_batch s @ [e]\<rparr>"
    by (cases s) simp
  ultimately show ?case by (simp flip: Cons.hyps(2))
qed

lemma close_usage_run:
  assumes "usage_run P s0 es s" and "P db" and "ug_phase s = Looping"
  shows "usage_run P s0 es (close_usage db s)"
proof -
  have "usage_step db s None (s\<lparr>ug_done := True\<rparr>)" by (rule usage_step.close)
  from usage_run.silent [OF assms(1,2) this] have one: "usage_run P s0 es (s\<lparr>ug_done := True\<rparr>)" .
  have "usage_step db (s\<lparr>ug_done := True\<rparr>) None (s\<lparr>ug_done := True, ug_phase := Draining\<rparr>)"
    by (rule usage_step.seen_done) (simp add: flush_done_def assms(3))
  from drained_run [OF usage_run.silent [OF one assms(2) this] assms(2), of "ug_buffer s"]
  show ?thesis by (simp add: close_usage_def)
qed

lemma drained_ends:
  "ug_phase (drained db evs s) = Returned \<and> ug_buffer (drained db evs s) = [] \<and> ug_batch (drained db evs s) = []"
  by (induction evs arbitrary: s) (simp_all add: flush_batch_def)

lemma late_keeps_table:
  "ug_table (fold (\<lambda>(now, e) s. snd (Record s now None e)) late s) = ug_table s"
  by (induction late arbitrary: s) (auto simp: Record_def Let_def)

lemma after_stop_table:
  "ug_table (after_stop db cause p late s) =
     (if cause = StopSignal \<and> op_usage p then ug_table (close_usage db s) else ug_table s)"
  by (auto simp: after_stop_def late_keeps_table stop_actions_def after_action_def split: stop_cause.split)



end
