(* ===== verification/Encoding.thy ===== *)
theory Encoding
  imports Http
begin

text \<open>
  The byte encodings of the Go standard library the authentication packages use:
  \<open>encoding/base64\<close> (the URL alphabet with and without padding), \<open>encoding/hex\<close> and
  \<open>big.Int.SetBytes\<close>. The round trips are proved once here; keys, session ids and tokens rest
  on them.
\<close>

subsection \<open>base64\<close>

definition url_alphabet :: string where
  "url_alphabet = ''ABCDEFGHIJKLMNOPQRSTUVWXYZabcdefghijklmnopqrstuvwxyz0123456789-_''"

fun index_of :: "'a \<Rightarrow> 'a list \<Rightarrow> nat option" where
  "index_of x [] = None"
| "index_of x (y # ys) = (if x = y then Some 0 else map_option Suc (index_of x ys))"

lemma index_of_nth: "distinct xs \<Longrightarrow> i < length xs \<Longrightarrow> index_of (xs ! i) xs = Some i"
proof (induction xs arbitrary: i)
  case (Cons y ys)
  then show ?case by (cases i) auto
qed simp

lemma index_of_SomeD: "index_of x xs = Some i \<Longrightarrow> i < length xs \<and> xs ! i = x"
  by (induction xs arbitrary: i) (auto split: if_splits)

text \<open>Three bytes are four sextets; a rest of one or two bytes is padded with zero bits.\<close>

fun sextets :: "nat list \<Rightarrow> nat list" where
  "sextets [] = []"
| "sextets [a] = [a div 4, a mod 4 * 16]"
| "sextets [a, b] = [a div 4, a mod 4 * 16 + b div 16, b mod 16 * 4]"
| "sextets (a # b # c # r) =
     a div 4 # (a mod 4 * 16 + b div 16) # (b mod 16 * 4 + c div 64) # c mod 64 # sextets r"

text \<open>
  The decoder (not strict): the trailing bits of an incomplete group are dropped, a group of a
  single sextet is corrupt input.
\<close>

fun octets :: "nat list \<Rightarrow> nat list option" where
  "octets [] = Some []"
| "octets [w] = None"
| "octets [w, x] = Some [w * 4 + x div 16]"
| "octets [w, x, y] = Some [w * 4 + x div 16, x mod 16 * 16 + y div 4]"
| "octets (w # x # y # z # r) =
     map_option (\<lambda>bs. (w * 4 + x div 16) # (x mod 16 * 16 + y div 4) # (y mod 4 * 64 + z) # bs)
       (octets r)"

definition byte_vals :: "string \<Rightarrow> nat list" where
  "byte_vals s = map of_char s"

definition bytes_of :: "nat list \<Rightarrow> string" where
  "bytes_of ns = map char_of ns"

definition raw_url_encode :: "string \<Rightarrow> string" where
  "raw_url_encode s = map (\<lambda>i. url_alphabet ! i) (sextets (byte_vals s))"

definition url_encode :: "string \<Rightarrow> string" where
  "url_encode s = raw_url_encode s @
     replicate ((3 - length s mod 3) mod 3) (CHR ''='')"

text \<open>
  The digits of a text over an alphabet: line breaks are skipped, any other foreign character is
  an error.
\<close>

fun sextet_vals :: "string \<Rightarrow> string \<Rightarrow> nat list option" where
  "sextet_vals al [] = Some []"
| "sextet_vals al (c # s) =
     (if c = CHR 0x0A \<or> c = CHR 0x0D then sextet_vals al s
      else case index_of c al of
             None \<Rightarrow> None
           | Some n \<Rightarrow> map_option ((#) n) (sextet_vals al s))"

definition raw_url_decode :: "string \<Rightarrow> string option" where
  "raw_url_decode s =
     (case sextet_vals url_alphabet s of None \<Rightarrow> None | Some ns \<Rightarrow> map_option bytes_of (octets ns))"

lemma url_alphabet_facts [simp]:
  "length url_alphabet = 64" "distinct url_alphabet"
  "CHR 0x0A \<notin> set url_alphabet" "CHR 0x0D \<notin> set url_alphabet" "CHR ''='' \<notin> set url_alphabet"
  "CHR ''.'' \<notin> set url_alphabet" "CHR '' '' \<notin> set url_alphabet"
  by (code_simp)+

lemma byte_vals_bound: "n \<in> set (byte_vals s) \<Longrightarrow> n < 256"
  by (auto simp: byte_vals_def)

lemma bytes_of_byte_vals [simp]: "bytes_of (byte_vals s) = s"
  by (simp add: bytes_of_def byte_vals_def comp_def)

lemma sextets_bound:
  "\<forall>n \<in> set bs. n < 256 \<Longrightarrow> m \<in> set (sextets bs) \<Longrightarrow> m < 64"
proof (induction bs rule: sextets.induct)
  case (2 a)
  then have "a < 256" by simp
  with 2 show ?case by auto
next
  case (3 a b)
  then have "a < 256" "b < 256" by simp_all
  with 3 show ?case by auto
next
  case (4 a b c r)
  then have "a < 256" "b < 256" "c < 256" by simp_all
  with 4 show ?case by auto
qed auto

lemma nibbles:
  assumes "b < (256::nat)"
  shows "b div 16 div 16 = 0" "b div 16 mod 16 = b div 16" "b div 16 mod 16 * 16 + b mod 16 = b"
proof -
  from assms have "b div 16 < 16" by simp
  then show "b div 16 div 16 = 0" "b div 16 mod 16 = b div 16" by simp_all
  then show "b div 16 mod 16 * 16 + b mod 16 = b" by simp
qed

lemma crumbs:
  assumes "c < (256::nat)"
  shows "c div 64 div 4 = 0" "c div 64 mod 4 * 64 + c mod 64 = c"
proof -
  from assms have "c div 64 < 4" by simp
  then show "c div 64 div 4 = 0" by simp
  from \<open>c div 64 < 4\<close> have "c div 64 mod 4 = c div 64" by simp
  then show "c div 64 mod 4 * 64 + c mod 64 = c" by simp
qed

lemma octets_sextets: "\<forall>n \<in> set bs. n < 256 \<Longrightarrow> octets (sextets bs) = Some bs"
proof (induction bs rule: sextets.induct)
  case (2 a)
  then show ?case by simp
next
  case (3 a b)
  then show ?case using nibbles [of b] by simp
next
  case (4 a b c r)
  then show ?case using nibbles [of b] crumbs [of c] by simp
qed simp

lemma sextet_vals_alphabet:
  assumes "distinct al" and "length al = 64" and "CHR 0x0A \<notin> set al" and "CHR 0x0D \<notin> set al"
  shows "\<forall>n \<in> set ns. n < 64 \<Longrightarrow> sextet_vals al (map (\<lambda>i. al ! i) ns) = Some ns"
proof (induction ns)
  case (Cons n ns)
  then have mem: "al ! n \<in> set al" and n: "n < length al"
    using assms(2) by simp_all
  from mem have "al ! n \<noteq> CHR 0x0A" "al ! n \<noteq> CHR 0x0D"
    using assms(3,4) by metis+
  with Cons n assms(1) show ?case by (simp add: index_of_nth)
qed simp

lemma sextets_byte_vals: "\<forall>n \<in> set (sextets (byte_vals s)). n < 64"
  using sextets_bound [of "byte_vals s"] byte_vals_bound by blast

lemma octets_byte_vals: "octets (sextets (byte_vals s)) = Some (byte_vals s)"
  by (rule octets_sextets) (simp add: byte_vals_bound)

theorem raw_url_roundtrip: "raw_url_decode (raw_url_encode s) = Some s"
  by (simp add: raw_url_decode_def raw_url_encode_def sextet_vals_alphabet sextets_byte_vals
      octets_byte_vals)

lemma raw_url_encode_inject: "raw_url_encode s = raw_url_encode t \<longleftrightarrow> s = t"
  by (metis raw_url_roundtrip option.inject)

lemma sextets_length: "length (sextets bs) = (8 * length bs + 5) div 6"
  by (induction bs rule: sextets.induct) auto

lemma raw_url_encode_length: "length (raw_url_encode s) = (8 * length s + 5) div 6"
  by (simp add: raw_url_encode_def sextets_length byte_vals_def)

lemma raw_url_encode_alphabet: "set (raw_url_encode s) \<subseteq> set url_alphabet"
proof
  fix c assume "c \<in> set (raw_url_encode s)"
  then obtain m where m: "m \<in> set (sextets (byte_vals s))" "c = url_alphabet ! m"
    by (auto simp: raw_url_encode_def)
  from m(1) have "m < 64" using sextets_bound [of "byte_vals s"] byte_vals_bound by blast
  with m(2) show "c \<in> set url_alphabet" by simp
qed

lemma url_encode_inject:
  assumes "url_encode s = url_encode t" and "length s = length t"
  shows "s = t"
  using assms by (simp add: url_encode_def raw_url_encode_inject)

subsection \<open>base64 with the standard alphabet\<close>

definition std_alphabet :: string where
  "std_alphabet = ''ABCDEFGHIJKLMNOPQRSTUVWXYZabcdefghijklmnopqrstuvwxyz0123456789+/''"

definition std_encode :: "string \<Rightarrow> string" where
  "std_encode s = map (\<lambda>i. std_alphabet ! i) (sextets (byte_vals s)) @
     replicate ((3 - length s mod 3) mod 3) (CHR ''='')"

text \<open>
  \<open>StdEncoding.DecodeString\<close>: without its line breaks the text is a multiple of four long and has
  at most two padding characters, at its end.
\<close>

definition std_decode :: "string \<Rightarrow> string option" where
  "std_decode s0 =
     (let s = filter (\<lambda>c. c \<noteq> CHR 0x0A \<and> c \<noteq> CHR 0x0D) s0;
          pad = dropWhile (\<lambda>c. c \<noteq> CHR ''='') s
      in if length s mod 4 \<noteq> 0 \<or> pad \<notin> {[], ''='', ''==''} then None
         else case sextet_vals std_alphabet (takeWhile (\<lambda>c. c \<noteq> CHR ''='') s) of
           None \<Rightarrow> None
         | Some ns \<Rightarrow> map_option bytes_of (octets ns))"

lemma std_alphabet_facts [simp]:
  "length std_alphabet = 64" "distinct std_alphabet"
  "CHR 0x0A \<notin> set std_alphabet" "CHR 0x0D \<notin> set std_alphabet" "CHR ''='' \<notin> set std_alphabet"
  by (code_simp)+

lemma padded_length: "((8 * n + 5) div 6 + (3 - n mod 3) mod 3) mod 4 = (0::nat)"
proof -
  obtain k r where "n = 3 * k + r" "r < 3"
    using mult_div_mod_eq [of 3 n] mod_less_divisor [of 3 n] by (metis zero_less_numeral)
  then have n: "n mod 3 = r" "r = 0 \<or> r = 1 \<or> r = 2" by auto
  have "(8 * (3 * k) + 5) div 6 = 4 * k" "(8 * (3 * k + 1) + 5) div 6 = 4 * k + 2"
    "(8 * (3 * k + 2) + 5) div 6 = 4 * k + 3"
    by presburger+
  with n \<open>n = 3 * k + r\<close> show ?thesis by (elim disjE) (simp_all add: mult.commute)
qed

theorem std_roundtrip: "std_decode (std_encode s) = Some s"
proof -
  define body where "body = map (\<lambda>i. std_alphabet ! i) (sextets (byte_vals s))"
  define pad where "pad = replicate ((3 - length s mod 3) mod 3) (CHR ''='')"
  have mem: "c \<in> set std_alphabet" if "c \<in> set body" for c
    using that sextets_byte_vals [of s] by (auto simp: body_def intro: nth_mem)
  have plain: "c \<noteq> CHR ''='' \<and> c \<noteq> CHR 0x0A \<and> c \<noteq> CHR 0x0D" if "c \<in> set body" for c
    using mem [OF that] std_alphabet_facts(3-5) by metis
  have f: "filter (\<lambda>c. c \<noteq> CHR 0x0A \<and> c \<noteq> CHR 0x0D) (body @ pad) = body @ pad"
    by (rule filter_True) (use plain in \<open>auto simp: pad_def\<close>)
  have d: "dropWhile (\<lambda>c. c \<noteq> CHR ''='') (body @ pad) = pad"
    and t: "takeWhile (\<lambda>c. c \<noteq> CHR ''='') (body @ pad) = body"
    using plain by (auto simp: pad_def dropWhile_append2 takeWhile_append2 intro: gr0I)
  have "(3 - length s mod 3) mod 3 \<in> {0, 1, 2}" by (auto intro: mod_less_divisor)
  then have p: "pad \<in> {[], ''='', ''==''}" by (auto simp: pad_def numeral_2_eq_2)
  have l: "length (body @ pad) mod 4 = 0"
    using padded_length [of "length s"] by (simp add: body_def pad_def sextets_length byte_vals_def)
  have v: "sextet_vals std_alphabet body = Some (sextets (byte_vals s))"
    unfolding body_def by (rule sextet_vals_alphabet) (simp_all add: sextets_byte_vals)
  have e: "std_encode s = body @ pad" by (simp add: std_encode_def body_def pad_def)
  from p l show ?thesis unfolding std_decode_def Let_def e f d t v by (simp add: octets_byte_vals)
qed

subsection \<open>hex\<close>

definition hex_digits :: string where
  "hex_digits = ''0123456789abcdef''"

definition hex_encode :: "string \<Rightarrow> string" where
  "hex_encode s =
     concat (map (\<lambda>n. [hex_digits ! (n div 16), hex_digits ! (n mod 16)]) (byte_vals s))"

lemma hex_digits_facts [simp]:
  "length hex_digits = 16" "distinct hex_digits" "CHR ''.'' \<notin> set hex_digits"
  "CHR '' '' \<notin> set hex_digits"
  by code_simp+

lemma hex_encode_length [simp]: "length (hex_encode s) = 2 * length s"
  by (induction s) (simp_all add: hex_encode_def byte_vals_def)

lemma hex_digit_inject:
  "i < 16 \<Longrightarrow> j < 16 \<Longrightarrow> hex_digits ! i = hex_digits ! j \<longleftrightarrow> i = j"
  by (rule nth_eq_iff_index_eq) simp_all

lemma hex_encode_inject: "hex_encode s = hex_encode t \<longleftrightarrow> s = t"
proof (induction s arbitrary: t)
  case Nil
  then show ?case by (cases t) (auto simp: hex_encode_def byte_vals_def)
next
  case (Cons c s)
  show ?case
  proof (cases t)
    case Nil
    then show ?thesis by (auto simp: hex_encode_def byte_vals_def)
  next
    case (Cons d u)
    let ?n = "of_char c :: nat" and ?m = "of_char d :: nat"
    have "?n < 256" "?m < 256" by simp_all
    then have b: "?n div 16 < 16" "?m div 16 < 16" by (simp_all add: less_mult_imp_div_less)
    have "(?n div 16 = ?m div 16 \<and> ?n mod 16 = ?m mod 16) = (c = d)"
      by (metis div_mult_mod_eq of_char_eq_iff)
    moreover have "hex_digits ! (?n div 16) = hex_digits ! (?m div 16) \<longleftrightarrow> ?n div 16 = ?m div 16"
      "hex_digits ! (?n mod 16) = hex_digits ! (?m mod 16) \<longleftrightarrow> ?n mod 16 = ?m mod 16"
      using b by (simp_all only: hex_digit_inject pos_mod_bound mod_less_divisor zero_less_numeral)
    moreover have "hex_encode (c # s) = [hex_digits ! (?n div 16), hex_digits ! (?n mod 16)] @ hex_encode s"
      "hex_encode (d # u) = [hex_digits ! (?m div 16), hex_digits ! (?m mod 16)] @ hex_encode u"
      by (simp_all add: hex_encode_def byte_vals_def)
    ultimately show ?thesis using Cons Cons.IH [of u] by auto
  qed
qed

lemma hex_encode_chars: "set (hex_encode s) \<subseteq> set hex_digits"
proof -
  have "hex_digits ! (n div 16) \<in> set hex_digits \<and> hex_digits ! (n mod 16) \<in> set hex_digits"
    if "n \<in> set (byte_vals s)" for n
  proof -
    have "n div 16 < length hex_digits" "n mod 16 < length hex_digits"
      using byte_vals_bound [OF that] by (simp_all add: less_mult_imp_div_less)
    then show ?thesis using nth_mem by blast
  qed
  then show ?thesis unfolding hex_encode_def
    by auto
qed

subsection \<open>Big integers\<close>

text \<open>\<open>new(big.Int).SetBytes\<close>: big-endian, unsigned.\<close>

definition SetBytes :: "string \<Rightarrow> nat" where
  "SetBytes s = foldl (\<lambda>acc n. acc * 256 + n) 0 (byte_vals s)"

lemma SetBytes_example: "SetBytes [CHR 0x01, CHR 0x00, CHR 0x01] = 65537"
  by (simp add: SetBytes_def byte_vals_def)

end
