(* ===== verification/JsonText.thy ===== *)
theory JsonText
  imports Json
begin

text \<open>
  \<open>json.Unmarshal\<close> from text, where the gateway applies it to a string of its own: the arguments
  of a tool call and the output of a tool. The text is valid UTF-8, as every string is that came
  out of a JSON document, so bytes from 128 up are copied. The argument \<open>num\<close> is what
  \<open>strconv.ParseFloat\<close> and printing make of a number token, \<open>None\<close> when it is out of range.
  The limit of 10000 nested levels is left out.
\<close>

subsection \<open>Strings\<close>

definition hex_value :: "char \<Rightarrow> nat option" where
  "hex_value c =
     (let n = of_char c :: nat in
      if 48 \<le> n \<and> n \<le> 57 then Some (n - 48)
      else if 97 \<le> n \<and> n \<le> 102 then Some (n - 87)
      else if 65 \<le> n \<and> n \<le> 70 then Some (n - 55)
      else None)"

definition hex4 :: "string \<Rightarrow> (nat \<times> string) option" where
  "hex4 s =
     (if length s < 4 then None
      else case all_some (map hex_value (take 4 s)) of
        None \<Rightarrow> None
      | Some ds \<Rightarrow> Some (foldl (\<lambda>n d. 16 * n + d) 0 ds, drop 4 s))"

lemma hex4_length: "hex4 s = Some (r, t) \<Longrightarrow> length t < length s"
  by (auto simp: hex4_def split: if_splits option.splits)

text \<open>The bytes of a code point in UTF-8.\<close>

definition utf8 :: "nat \<Rightarrow> string" where
  "utf8 r =
     (if r < 128 then [char_of r]
      else if r < 2048 then [char_of (192 + r div 64), char_of (128 + r mod 64)]
      else if r < 65536 then
        [char_of (224 + r div 4096), char_of (128 + r div 64 mod 64), char_of (128 + r mod 64)]
      else [char_of (240 + r div 262144), char_of (128 + r div 4096 mod 64),
            char_of (128 + r div 64 mod 64), char_of (128 + r mod 64)])"

text \<open>
  \<open>\u\<close> with its four digits already read: a surrogate pair is one code point, a lone surrogate the
  replacement character.
\<close>

definition after_u :: "nat \<Rightarrow> string \<Rightarrow> string \<times> string" where
  "after_u r t =
     (if 55296 \<le> r \<and> r < 57344 then
        (case (if has_prefix t [CHR 0x5C, CHR ''u''] then hex4 (drop 2 t) else None) of
           Some (r2, t2) \<Rightarrow>
             (if r < 56320 \<and> 56320 \<le> r2 \<and> r2 < 57344
              then (utf8 ((r - 55296) * 1024 + (r2 - 56320) + 65536), t2)
              else (utf8 65533, t))
         | None \<Rightarrow> (utf8 65533, t))
      else (utf8 r, t))"

lemma after_u_length: "length (snd (after_u r t)) \<le> length t"
  using hex4_length [of "drop 2 t"]
  by (fastforce simp: after_u_def split: option.splits)

definition plain_escape :: "char \<Rightarrow> char option" where
  "plain_escape c = map_of
     [(CHR 0x22, CHR 0x22), (CHR 0x5C, CHR 0x5C), (CHR ''/'', CHR ''/''), (CHR ''b'', CHR 0x08),
      (CHR ''f'', CHR 0x0C), (CHR ''n'', CHR 0x0A), (CHR ''r'', CHR 0x0D), (CHR ''t'', CHR 0x09)] c"

text \<open>What follows the opening quote: the string and the text after the closing quote.\<close>

function parse_chars :: "string \<Rightarrow> (string \<times> string) option" where
  "parse_chars s =
     (case s of
        [] \<Rightarrow> None
      | c # t \<Rightarrow>
          (if c = CHR 0x22 then Some ([], t)
           else if c = CHR 0x5C then
             (case t of
                [] \<Rightarrow> None
              | e # u \<Rightarrow>
                  (if e = CHR ''u'' then
                     (case hex4 u of
                        None \<Rightarrow> None
                      | Some (r, v) \<Rightarrow>
                          map_option (\<lambda>(w, x). (fst (after_u r v) @ w, x)) (parse_chars (snd (after_u r v))))
                   else case plain_escape e of
                     None \<Rightarrow> None
                   | Some d \<Rightarrow> map_option (\<lambda>(w, x). (d # w, x)) (parse_chars u)))
           else if (of_char c :: nat) < 32 then None
           else map_option (\<lambda>(w, x). (c # w, x)) (parse_chars t)))"
  by pat_completeness auto
termination
proof (relation "measure length", goal_cases)
  case (2 s c t e u p r v)
  then show ?case using hex4_length [of u r v] after_u_length [of r v] by simp
qed auto

declare parse_chars.simps [simp del]

subsection \<open>Numbers\<close>

definition json_digit :: "char \<Rightarrow> bool" where
  "json_digit c = (CHR ''0'' \<le> c \<and> c \<le> CHR ''9'')"

text \<open>Digits, at least one; then the optional fraction and exponent.\<close>

definition some_digits :: "string \<Rightarrow> (string \<times> string) option" where
  "some_digits s =
     (let d = takeWhile json_digit s in if d = [] then None else Some (d, dropWhile json_digit s))"

definition int_part :: "string \<Rightarrow> (string \<times> string) option" where
  "int_part s =
     (case s of [] \<Rightarrow> None | c # t \<Rightarrow> if c = CHR ''0'' then Some (''0'', t) else some_digits s)"

definition frac_part :: "string \<Rightarrow> (string \<times> string) option" where
  "frac_part s =
     (case s of
        c # t \<Rightarrow> if c = CHR ''.'' then map_option (\<lambda>(d, u). (c # d, u)) (some_digits t) else Some ([], s)
      | [] \<Rightarrow> Some ([], s))"

definition exp_part :: "string \<Rightarrow> (string \<times> string) option" where
  "exp_part s =
     (case s of
        c # t \<Rightarrow>
          (if c = CHR ''e'' \<or> c = CHR ''E'' then
             (if t \<noteq> [] \<and> (hd t = CHR ''+'' \<or> hd t = CHR ''-'')
              then map_option (\<lambda>(d, u). (c # hd t # d, u)) (some_digits (tl t))
              else map_option (\<lambda>(d, u). (c # d, u)) (some_digits t))
           else Some ([], s))
      | [] \<Rightarrow> Some ([], s))"

definition number_token :: "string \<Rightarrow> (string \<times> string) option" where
  "number_token s =
     (let (sign, s0) = (if s \<noteq> [] \<and> hd s = CHR ''-'' then (''-'', tl s) else ([], s)) in
      case int_part s0 of
        None \<Rightarrow> None
      | Some (i, s1) \<Rightarrow>
          (case frac_part s1 of
             None \<Rightarrow> None
           | Some (f, s2) \<Rightarrow>
               (case exp_part s2 of
                  None \<Rightarrow> None
                | Some (e, s3) \<Rightarrow> Some (sign @ i @ f @ e, s3))))"

subsection \<open>Values\<close>

definition json_space :: "char \<Rightarrow> bool" where
  "json_space c = (c = CHR '' '' \<or> c = CHR 0x09 \<or> c = CHR 0x0A \<or> c = CHR 0x0D)"

definition skip_ws :: "string \<Rightarrow> string" where
  "skip_ws s = dropWhile json_space s"

definition starts :: "string \<Rightarrow> char \<Rightarrow> bool" where
  "starts s c = (s \<noteq> [] \<and> hd s = c)"

definition literal :: "string \<Rightarrow> json \<Rightarrow> string \<Rightarrow> (json \<times> string) option" where
  "literal w v s = (if has_prefix s w then Some (v, drop (length w) s) else None)"

definition parse_number :: "(string \<Rightarrow> string option) \<Rightarrow> string \<Rightarrow> (json \<times> string) option" where
  "parse_number num s =
     (case number_token s of
        None \<Rightarrow> None
      | Some (t, r) \<Rightarrow> map_option (\<lambda>x. (JNum x, r)) (num t))"

text \<open>The first argument bounds the recursion; twice the length of the text is enough.\<close>

fun parse_value :: "(string \<Rightarrow> string option) \<Rightarrow> nat \<Rightarrow> string \<Rightarrow> (json \<times> string) option"
  and parse_elems :: "(string \<Rightarrow> string option) \<Rightarrow> nat \<Rightarrow> string \<Rightarrow> (json list \<times> string) option"
  and parse_members ::
    "(string \<Rightarrow> string option) \<Rightarrow> nat \<Rightarrow> string \<Rightarrow> ((string \<times> json) list \<times> string) option" where
  "parse_value num 0 s = None"
| "parse_value num (Suc n) s0 =
     (let s = skip_ws s0; r = tl s in
      if starts s (CHR 0x22) then map_option (\<lambda>(t, r'). (JStr t, r')) (parse_chars r)
      else if starts s (CHR ''['') then
        (if starts (skip_ws r) (CHR '']'') then Some (JArr [], tl (skip_ws r))
         else map_option (\<lambda>(vs, r'). (JArr vs, r')) (parse_elems num n r))
      else if starts s (CHR ''{'') then
        (if starts (skip_ws r) (CHR ''}'') then Some (JObj [], tl (skip_ws r))
         else map_option (\<lambda>(ms, r'). (JObj ms, r')) (parse_members num n r))
      else if starts s (CHR ''t'') then literal ''true'' (JBool True) s
      else if starts s (CHR ''f'') then literal ''false'' (JBool False) s
      else if starts s (CHR ''n'') then literal ''null'' JNull s
      else parse_number num s)"
| "parse_elems num 0 s = None"
| "parse_elems num (Suc n) s =
     (case parse_value num n s of
        None \<Rightarrow> None
      | Some (v, r0) \<Rightarrow>
          (let r = skip_ws r0 in
           if starts r (CHR '','') then map_option (\<lambda>(vs, r'). (v # vs, r')) (parse_elems num n (tl r))
           else if starts r (CHR '']'') then Some ([v], tl r)
           else None))"
| "parse_members num 0 s = None"
| "parse_members num (Suc n) s0 =
     (let s = skip_ws s0 in
      if \<not> starts s (CHR 0x22) then None
      else case parse_chars (tl s) of
        None \<Rightarrow> None
      | Some (k, r0) \<Rightarrow>
          (let r = skip_ws r0 in
           if \<not> starts r (CHR '':'') then None
           else case parse_value num n (tl r) of
             None \<Rightarrow> None
           | Some (v, q0) \<Rightarrow>
               (let q = skip_ws q0 in
                if starts q (CHR '','')
                then map_option (\<lambda>(ms, r'). ((k, v) # ms, r')) (parse_members num n (tl q))
                else if starts q (CHR ''}'') then Some ([(k, v)], tl q)
                else None)))"

definition json_decode :: "(string \<Rightarrow> string option) \<Rightarrow> string \<Rightarrow> json option" where
  "json_decode num s =
     (case parse_value num (2 * length s + 2) s of
        Some (v, r) \<Rightarrow> if skip_ws r = [] then Some v else None
      | None \<Rightarrow> None)"

text \<open>Into \<open>map[string]any\<close>: an object, or \<open>null\<close>, which leaves the map nil.\<close>

definition decode_map :: "(string \<Rightarrow> string option) \<Rightarrow> string \<Rightarrow> json option" where
  "decode_map num s =
     (case json_decode num s of
        Some (JObj m) \<Rightarrow> Some (JObj m)
      | Some JNull \<Rightarrow> Some JNull
      | _ \<Rightarrow> None)"

lemma decode_examples:
  "json_decode Some '' {'' = None" "json_decode Some [] = None"
  "json_decode Some ''[1, -2.5e+3, {}]'' = Some (JArr [JNum ''1'', JNum ''-2.5e+3'', JObj []])"
  "json_decode Some ''01'' = None" "json_decode Some ''null '' = Some JNull"
  by code_simp+

end
