(* ===== verification/Vendor.thy ===== *)
theory Vendor
  imports Encoding JsonText Normalize Providers
begin

text \<open>
  What the three vendor packages under \<open>internal/providers\<close> share: the error values and texts of
  package \<open>fmt\<close>, \<open>url.QueryUnescape\<close>, and \<open>parseDataURL\<close> with its two companions, which the
  Anthropic and the Google package declare each for itself.

  An error of \<open>encoding/json\<close> or \<open>encoding/base64\<close> is one value, whatever its text.
\<close>

subsection \<open>Texts\<close>

text \<open>
  The verb \<open>%q\<close>. The text is valid UTF-8, as every string is that came out of a JSON document, and
  bytes from 128 up are copied: the escapes of code points that cannot be printed are left out.
\<close>

definition quote_char :: "char \<Rightarrow> string" where
  "quote_char c =
     (let n = of_char c :: nat in
      if n = 34 \<or> n = 92 then [CHR 0x5C, c]
      else if n = 7 then [CHR 0x5C, CHR ''a'']
      else if n = 8 then [CHR 0x5C, CHR ''b'']
      else if n = 9 then [CHR 0x5C, CHR ''t'']
      else if n = 10 then [CHR 0x5C, CHR ''n'']
      else if n = 11 then [CHR 0x5C, CHR ''v'']
      else if n = 12 then [CHR 0x5C, CHR ''f'']
      else if n = 13 then [CHR 0x5C, CHR ''r'']
      else if n < 32 \<or> n = 127 then [CHR 0x5C, CHR ''x'', hex_digit (n div 16), hex_digit (n mod 16)]
      else [c])"

definition go_quote :: "string \<Rightarrow> string" where
  "go_quote s = [CHR 0x22] @ concat (map quote_char s) @ [CHR 0x22]"

definition json_error :: go_error where
  "json_error = ErrOther ''invalid JSON''"

definition base64_error :: go_error where
  "base64_error = ErrOther ''illegal base64 data''"

text \<open>The errors of \<open>internal/api/types.go\<close> as the text they carry.\<close>

fun api_go_error :: "api_error \<Rightarrow> go_error" where
  "api_go_error RequestNil = ErrOther ''request is nil''"
| "api_go_error ModelRequired = ErrOther ''model is required''"
| "api_go_error InputRequired = ErrOther ''input is required''"
| "api_go_error BadTruncation =
     ErrOther (''truncation must be '' @ go_quote ''auto'' @ '' or '' @ go_quote ''disabled'')"
| "api_go_error InvalidToolChoice = ErrWrap ''invalid tool_choice'' json_error"
| "api_go_error (InvalidToolChoiceValue s) = ErrOther (''invalid tool_choice value '' @ go_quote s)"
| "api_go_error InvalidToolChoiceFormat = ErrOther ''invalid tool_choice format''"
| "api_go_error FunctionNameRequired = ErrOther ''tool_choice function name is required''"
| "api_go_error AllowedToolsEmpty = ErrOther ''allowed_tools requires at least one tool''"
| "api_go_error AllowedToolsEntryNotObject = ErrOther ''allowed_tools entries must be objects''"
| "api_go_error AllowedToolsEntryNoName = ErrOther ''allowed_tools entries require a tool name''"
| "api_go_error InvalidTools = ErrWrap ''invalid tools'' json_error"
| "api_go_error ToolChoiceNeedsTools = ErrOther ''tool_choice requires tools to be declared''"
| "api_go_error (UnknownToolChoice s) =
     ErrOther (''tool_choice references unknown tool '' @ go_quote s)"
| "api_go_error (UnknownAllowedTool s) =
     ErrOther (''allowed_tools references unknown tool '' @ go_quote s)"
| "api_go_error (UnsupportedMode s) = ErrOther (''unsupported tool_choice mode '' @ go_quote s)"
| "api_go_error ItemReferenceIdRequired = ErrOther ''item_reference id is required''"
| "api_go_error ReasoningItemEmpty =
     ErrOther ''reasoning item must include content, summary, or encrypted_content''"
| "api_go_error (UnsupportedItemType s) = ErrOther (''unsupported input item type '' @ go_quote s)"
| "api_go_error PreviousIdRequired =
     ErrOther ''previous_response_id is required when using item_reference''"

text \<open>\<open>m[k]\<close> of a decoded map as a value of type \<open>any\<close>: absent and \<open>null\<close> are both nil.\<close>

definition jget_any :: "jmap \<Rightarrow> string \<Rightarrow> json option" where
  "jget_any m k = (case jget m k of Some JNull \<Rightarrow> None | v \<Rightarrow> v)"

text \<open>\<open>fmt.Errorf(text + ": %w", err)\<close> on the error of a call.\<close>

definition wrap_error :: "string \<Rightarrow> go_error + 'a \<Rightarrow> go_error + 'a" where
  "wrap_error t r = (case r of Inl e \<Rightarrow> Inl (ErrWrap t e) | Inr v \<Rightarrow> Inr v)"

lemma wrap_error_simps [simp]:
  "wrap_error t (Inl e) = Inl (ErrWrap t e)" "wrap_error t (Inr v) = Inr v"
  by (simp_all add: wrap_error_def)

lemma wrap_error_Inr [simp]: "wrap_error t r = Inr v \<longleftrightarrow> r = Inr v"
  by (cases r) simp_all

lemma wrap_error_ok [simp]: "is_ok (wrap_error t r) = is_ok r"
  by (cases r) simp_all

text \<open>The loop of a function that converts a list and returns at the first error.\<close>

fun convert_all :: "('a \<Rightarrow> go_error + 'b list) \<Rightarrow> 'a list \<Rightarrow> go_error + 'b list" where
  "convert_all f [] = Inr []"
| "convert_all f (x # xs) =
     (case f x of
        Inl e \<Rightarrow> Inl e
      | Inr ys \<Rightarrow> (case convert_all f xs of Inl e \<Rightarrow> Inl e | Inr zs \<Rightarrow> Inr (ys @ zs)))"

lemma convert_all_ok: "is_ok (convert_all f xs) \<longleftrightarrow> (\<forall>x \<in> set xs. is_ok (f x))"
  by (induction xs) (auto split: sum.splits)

lemma convert_all_set:
  "convert_all f xs = Inr ys \<Longrightarrow> y \<in> set ys \<Longrightarrow> \<exists>x \<in> set xs. \<exists>zs. f x = Inr zs \<and> y \<in> set zs"
  by (induction xs arbitrary: ys) (auto split: sum.splits)

lemma convert_all_concat:
  "convert_all f xs = Inr ys \<Longrightarrow> ys = concat (map (\<lambda>x. projr (f x)) xs)"
  by (induction xs arbitrary: ys) (auto split: sum.splits)

lemma convert_all_append:
  "convert_all f (xs @ ys) =
     (case convert_all f xs of
        Inl e \<Rightarrow> Inl e
      | Inr us \<Rightarrow> (case convert_all f ys of Inl e \<Rightarrow> Inl e | Inr vs \<Rightarrow> Inr (us @ vs)))"
  by (induction xs) (auto split: sum.splits)

subsection \<open>Package net/url\<close>

text \<open>\<open>None\<close> is the error of a \<open>%\<close> that two hexadecimal digits do not follow.\<close>

fun query_unescape :: "string \<Rightarrow> string option" where
  "query_unescape (c # a # b # s) =
     (if c = CHR ''%'' then
        (case (hex_value a, hex_value b) of
           (Some i, Some j) \<Rightarrow> map_option ((#) (char_of (16 * i + j))) (query_unescape s)
         | _ \<Rightarrow> None)
      else map_option ((#) (if c = CHR ''+'' then CHR '' '' else c)) (query_unescape (a # b # s)))"
| "query_unescape (c # s) =
     (if c = CHR ''%'' then None
      else map_option ((#) (if c = CHR ''+'' then CHR '' '' else c)) (query_unescape s))"
| "query_unescape [] = Some []"

subsection \<open>Data URLs\<close>

definition parseDataURL :: "string \<Rightarrow> go_error + (string \<times> string)" where
  "parseDataURL dataURL =
     (if \<not> has_prefix dataURL ''data:'' then
        Inl (ErrOther (''invalid data URL: must start with '' @ [CHR 0x27] @ ''data:'' @ [CHR 0x27]))
      else
        (let remaining = trim_prefix dataURL ''data:'';
             metadata = takeWhile (\<lambda>c. c \<noteq> CHR '','') remaining
         in
         if CHR '','' \<notin> set remaining then
           Inl (ErrOther ''invalid data URL: missing comma before data'')
         else
           (let encodedData = drop (Suc (length metadata)) remaining;
                parts = split_on (CHR '';'') metadata
            in
            if length parts < 2 \<or> last parts \<noteq> ''base64'' then
              Inl (ErrOther ''invalid data URL: expected base64 encoding'')
            else if hd parts = [] then Inl (ErrOther ''invalid data URL: missing media type'')
            else
              (let decodedData = (case query_unescape encodedData of
                                    Some d \<Rightarrow> d | None \<Rightarrow> encodedData)
               in
               case std_decode decodedData of
                 None \<Rightarrow> Inl (ErrWrap ''invalid base64 data'' base64_error)
               | Some _ \<Rightarrow> Inr (hd parts, decodedData)))))"

definition ant_parseBase64Payload :: "string \<Rightarrow> string \<Rightarrow> go_error + (string \<times> string)" where
  "ant_parseBase64Payload v defaultMediaType =
     (if has_prefix v ''data:'' then parseDataURL v
      else if defaultMediaType = [] then
        Inl (ErrOther ''raw base64 content requires a known media type'')
      else case std_decode v of
        None \<Rightarrow> Inl (ErrWrap ''invalid base64 data'' base64_error)
      | Some _ \<Rightarrow> Inr (defaultMediaType, v))"

definition gem_parseBase64Payload :: "string \<Rightarrow> string \<Rightarrow> go_error + (string \<times> string)" where
  "gem_parseBase64Payload v defaultMediaType =
     (if has_prefix v ''data:'' then parseDataURL v
      else case std_decode v of
        None \<Rightarrow> Inl (ErrWrap ''invalid base64 data'' base64_error)
      | Some _ \<Rightarrow>
          Inr (if defaultMediaType = [] then ''application/octet-stream'' else defaultMediaType, v))"

definition decodeBase64Text :: "string \<Rightarrow> go_error + string" where
  "decodeBase64Text data =
     (case std_decode data of
        None \<Rightarrow> Inl (ErrWrap ''decode base64 text'' base64_error)
      | Some d \<Rightarrow> Inr d)"

definition has_suffix_in :: "string list \<Rightarrow> string \<Rightarrow> bool" where
  "has_suffix_in exts s = list_ex (has_suffix s) exts"

subsection \<open>Facts\<close>

lemma parseDataURL_decodes: "parseDataURL u = Inr (m, d) \<Longrightarrow> std_decode d \<noteq> None \<and> m \<noteq> []"
  by (auto simp: parseDataURL_def Let_def split: if_splits option.splits)

lemma gem_payload_decodes: "gem_parseBase64Payload v t = Inr (m, d) \<Longrightarrow> std_decode d \<noteq> None"
  by (auto simp: gem_parseBase64Payload_def split: if_splits option.splits dest: parseDataURL_decodes)

text \<open>Text without a percent or plus sign is its own decoding.\<close>

lemma query_unescape_plain:
  "CHR ''%'' \<notin> set s \<Longrightarrow> CHR ''+'' \<notin> set s \<Longrightarrow> query_unescape s = Some s"
  by (induction s rule: query_unescape.induct) auto

lemma query_unescape_plus:
  "query_unescape s = Some t \<Longrightarrow> CHR ''+'' \<in> set s \<Longrightarrow> CHR ''%'' \<notin> set s \<Longrightarrow> CHR '' '' \<in> set t"
  by (induction s arbitrary: t rule: query_unescape.induct) (auto split: if_splits)

lemma sextet_vals_foreign:
  "c \<in> set s \<Longrightarrow> c \<notin> set al \<Longrightarrow> c \<noteq> CHR 0x0A \<Longrightarrow> c \<noteq> CHR 0x0D \<Longrightarrow> sextet_vals al s = None"
proof (induction s)
  case (Cons x s)
  have "index_of c al = None" using Cons.prems(2)
    by (metis index_of_SomeD not_None_eq nth_mem)
  with Cons show ?case by (auto split: option.splits)
qed simp

end
