(* ===== verification/Anthropic.thy ===== *)
theory Anthropic
  imports Vendor "HOL-Library.AList"
begin

text \<open>
  \<open>internal/providers/anthropic\<close>: conversion of messages and parameters to the Messages API, of the
  answer back, and the two calls. The client of the SDK is a parameter, as for OpenAI. What
  \<open>json.Marshal\<close> makes of the input of a tool call, a value of an SDK type, is a field of the answer;
  so is the JSON text of a streamed piece of it.
\<close>

subsection \<open>The vendor's types\<close>

datatype ant_block =
    AntText string
  | AntImageBase64 string string
  | AntImageURL string
  | AntPdfURL string
  | AntPdfBase64 string
  | AntPlainText string
  | AntThinking string string
  | AntRedacted string
  | AntToolUse string json string
  | AntToolResult string "string list"

record ant_message =
  am_role :: string
  am_content :: "ant_block list"

definition ant_user :: "ant_block list \<Rightarrow> ant_message" where
  "ant_user bs = \<lparr>am_role = ''user'', am_content = bs\<rparr>"

definition ant_assistant :: "ant_block list \<Rightarrow> ant_message" where
  "ant_assistant bs = \<lparr>am_role = ''assistant'', am_content = bs\<rparr>"

record ant_tool =
  at_name :: string
  at_description :: "string option"
  at_properties :: "json option"
  at_required :: "string list"

datatype ant_choice = AntChoiceUnset | AntAuto | AntAny | AntNone | AntTool string

record ant_params =
  aq_model :: string
  aq_messages :: "ant_message list"
  aq_max_tokens :: int
  aq_system :: "string list"
  aq_temperature :: "float64 option"
  aq_top_p :: "float64 option"
  aq_tools :: "ant_tool list"
  aq_tool_choice :: ant_choice

subsection \<open>Blocks\<close>

definition buildAnthropicImageBlock :: "content_block \<Rightarrow> go_error + ant_block" where
  "buildAnthropicImageBlock b =
     (if cb_image_url b \<noteq> [] then
        (if has_prefix (cb_image_url b) ''data:'' then
           (case wrap_error ''parse image data'' (parseDataURL (cb_image_url b)) of
              Inl e \<Rightarrow> Inl e
            | Inr (mediaType, data) \<Rightarrow> Inr (AntImageBase64 mediaType data))
         else Inr (AntImageURL (cb_image_url b)))
      else Inl (ErrOther ''image input requires image_url field''))"

definition inferAnthropicDocumentMediaType :: "string \<Rightarrow> string" where
  "inferAnthropicDocumentMediaType name =
     (let lower = to_lower name in
      if has_suffix lower ''.pdf'' then ''application/pdf''
      else if has_suffix_in [''.txt'', ''.md'', ''.csv'', ''.json'', ''.xml'', ''.yaml'', ''.yml''] lower
        then ''text/plain''
      else [])"

definition buildAnthropicDocumentBlock :: "content_block \<Rightarrow> go_error + ant_block" where
  "buildAnthropicDocumentBlock b =
     (if cb_file_url b \<noteq> [] then
        (if inferAnthropicDocumentMediaType (cb_file_url b) \<noteq> ''application/pdf''
         then Inl (ErrOther ''anthropic only supports PDF document URLs'')
         else Inr (AntPdfURL (cb_file_url b)))
      else if cb_file_data b \<noteq> [] then
        (case wrap_error ''parse file data''
                (ant_parseBase64Payload (cb_file_data b) (inferAnthropicDocumentMediaType (cb_filename b))) of
           Inl e \<Rightarrow> Inl e
         | Inr (mediaType, data) \<Rightarrow>
             (if mediaType = ''application/pdf'' then Inr (AntPdfBase64 data)
              else if mediaType = ''text/plain'' then
                (case decodeBase64Text data of Inl e \<Rightarrow> Inl e | Inr t \<Rightarrow> Inr (AntPlainText t))
              else Inl (ErrOther (''anthropic only supports PDF or text documents, got '' @ go_quote mediaType))))
      else Inl (ErrOther ''document input requires file_url or file_data field''))"

definition ant_user_block :: "string \<Rightarrow> content_block \<Rightarrow> go_error + ant_block list" where
  "ant_user_block role b =
     (if is_text_type (cb_type b) then Inr [AntText (cb_text b)]
      else if cb_type b = ''input_image'' then
        (case wrap_error ''build image block'' (buildAnthropicImageBlock b) of
           Inl e \<Rightarrow> Inl e | Inr x \<Rightarrow> Inr [x])
      else if cb_type b = ''input_file'' then
        (case wrap_error ''build document block'' (buildAnthropicDocumentBlock b) of
           Inl e \<Rightarrow> Inl e | Inr x \<Rightarrow> Inr [x])
      else if cb_type b = ''encrypted_reasoning'' then Inr []
      else Inl (ErrOther (role @ '' messages do not support '' @ go_quote (cb_type b) @
                          '' content in the Anthropic provider'')))"

definition buildAnthropicTextBlocks :: "content_block list \<Rightarrow> string \<Rightarrow> go_error + ant_block list" where
  "buildAnthropicTextBlocks blocks role = convert_all (ant_user_block role) blocks"

definition ant_system_block :: "string \<Rightarrow> content_block \<Rightarrow> go_error + string list" where
  "ant_system_block role b =
     (if cb_type b = ''encrypted_reasoning'' then Inr []
      else case TextValue b of
        Some t \<Rightarrow> Inr [t]
      | None \<Rightarrow>
          Inl (ErrOther (role @ '' messages only support text content in the Anthropic provider; found '' @
                         go_quote (cb_type b))))"

definition buildAnthropicSystemBlocks :: "content_block list \<Rightarrow> string \<Rightarrow> go_error + string list" where
  "buildAnthropicSystemBlocks blocks role = convert_all (ant_system_block role) blocks"

definition ant_assistant_block :: "content_block \<Rightarrow> go_error + ant_block list" where
  "ant_assistant_block b =
     (if cb_type b = ''encrypted_reasoning'' then Inr []
      else if cb_type b = ''anthropic_thinking'' then Inr [AntThinking (cb_signature b) (cb_text b)]
      else if cb_type b = ''anthropic_redacted_thinking'' then Inr [AntRedacted (cb_data b)]
      else case TextValue b of
        Some t \<Rightarrow> Inr [AntText t]
      | None \<Rightarrow>
          Inl (ErrOther (''assistant messages only support text or Anthropic thinking content; found '' @
                         go_quote (cb_type b))))"

text \<open>A call whose arguments do not parse is left out.\<close>

definition ant_tool_use :: "(string \<Rightarrow> string option) \<Rightarrow> tool_call \<Rightarrow> ant_block option" where
  "ant_tool_use num tc =
     (case decode_map num (tc_arguments tc) of
        None \<Rightarrow> None
      | Some input \<Rightarrow> Some (AntToolUse (tc_id tc) input (tc_name tc)))"

definition buildAnthropicAssistantBlocks ::
  "(string \<Rightarrow> string option) \<Rightarrow> content_block list \<Rightarrow> tool_call list \<Rightarrow> go_error + ant_block list" where
  "buildAnthropicAssistantBlocks num blocks tcs =
     (case convert_all ant_assistant_block blocks of
        Inl e \<Rightarrow> Inl e
      | Inr content \<Rightarrow> Inr (content @ List.map_filter (ant_tool_use num) tcs))"

definition ant_result_text :: "content_block \<Rightarrow> go_error + string list" where
  "ant_result_text b =
     (if cb_type b = ''encrypted_reasoning'' then Inr []
      else case TextValue b of
        Some t \<Rightarrow> Inr [t]
      | None \<Rightarrow>
          Inl (ErrOther (''tool results only support text content in the Anthropic provider; found '' @
                         go_quote (cb_type b))))"

definition buildAnthropicToolResultContent :: "content_block list \<Rightarrow> go_error + string list" where
  "buildAnthropicToolResultContent blocks = convert_all ant_result_text blocks"

subsection \<open>Messages\<close>

text \<open>The messages and system blocks one message adds.\<close>

definition ant_message_of ::
  "(string \<Rightarrow> string option) \<Rightarrow> message \<Rightarrow> go_error + (ant_message list \<times> string list)" where
  "ant_message_of num m =
     (let r = msg_role m in
      if r = ''user'' then
        (case buildAnthropicTextBlocks (msg_content m) r of
           Inl e \<Rightarrow> Inl e | Inr bs \<Rightarrow> Inr ([ant_user bs], []))
      else if r = ''assistant'' then
        (case buildAnthropicAssistantBlocks num (msg_content m) (msg_tool_calls m) of
           Inl e \<Rightarrow> Inl e | Inr bs \<Rightarrow> Inr (if bs \<noteq> [] then [ant_assistant bs] else [], []))
      else if r = ''tool'' then
        (case buildAnthropicToolResultContent (msg_content m) of
           Inl e \<Rightarrow> Inl e | Inr ts \<Rightarrow> Inr ([ant_user [AntToolResult (msg_call_id m) ts]], []))
      else if r = ''system'' \<or> r = ''developer'' then
        (case buildAnthropicSystemBlocks (msg_content m) r of
           Inl e \<Rightarrow> Inl e | Inr ts \<Rightarrow> Inr ([], ts))
      else Inr ([], []))"

fun buildAnthropicMessages ::
  "(string \<Rightarrow> string option) \<Rightarrow> message list \<Rightarrow> go_error + (ant_message list \<times> string list)" where
  "buildAnthropicMessages num [] = Inr ([], [])"
| "buildAnthropicMessages num (m # ms) =
     (case ant_message_of num m of
        Inl e \<Rightarrow> Inl e
      | Inr (us, ss) \<Rightarrow>
          (case buildAnthropicMessages num ms of
             Inl e \<Rightarrow> Inl e
           | Inr (vs, ts) \<Rightarrow> Inr (us @ vs, ss @ ts)))"

subsection \<open>Tools\<close>

text \<open>A nil map answers every lookup with nil, so absent parameters count as an empty object.\<close>

definition ant_tool_of :: "jmap \<Rightarrow> ant_tool" where
  "ant_tool_of td =
     (let desc = getStringField td ''description'';
          params = (case jget_obj td ''parameters'' of Some p \<Rightarrow> p | None \<Rightarrow> [])
      in \<lparr>at_name = getStringField td ''name'',
          at_description = (if desc \<noteq> [] then Some desc else None),
          at_properties = jget_any params ''properties'',
          at_required =
            (case jget_arr params ''required'' of
               None \<Rightarrow> []
             | Some rs \<Rightarrow> List.map_filter (\<lambda>r. case r of JStr s \<Rightarrow> Some s | _ \<Rightarrow> None) rs)\<rparr>)"

definition ant_parseTools :: "response_request \<Rightarrow> go_error + ant_tool list" where
  "ant_parseTools req =
     (if raw_len0 (rq_tools req) then Inr []
      else case unmarshal_maps (rq_tools req) of
        None \<Rightarrow> Inl (ErrWrap ''unmarshal tools'' json_error)
      | Some defs \<Rightarrow> Inr (map ant_tool_of defs))"

definition ant_parseToolChoice :: "response_request \<Rightarrow> go_error + ant_choice" where
  "ant_parseToolChoice req =
     (case ParseToolChoice (Some req) of
        Inl e \<Rightarrow> Inl (api_go_error e)
      | Inr parsed \<Rightarrow>
          (let mode = ptc_mode parsed in
           if raw_len0 (rq_tool_choice req) then Inr AntChoiceUnset
           else if mode = ''auto'' \<or> mode = ''allowed_tools'' then Inr AntAuto
           else if mode = ''any'' \<or> mode = ''required'' then Inr AntAny
           else if mode = ''none'' then Inr AntNone
           else if mode = ''function'' then Inr (AntTool (ptc_required_tool_name parsed))
           else Inl (ErrOther ''invalid tool_choice format'')))"

definition ant_params_of ::
  "(string \<Rightarrow> string option) \<Rightarrow> message list \<Rightarrow> response_request \<Rightarrow> go_error + ant_params" where
  "ant_params_of num msgs req =
     (case wrap_error ''convert messages'' (buildAnthropicMessages num msgs) of
        Inl e \<Rightarrow> Inl e
      | Inr (anthropicMsgs, systemBlocks) \<Rightarrow>
          (case (if raw_len0 (rq_tools req) then Inr []
                 else wrap_error ''parse tools'' (ant_parseTools req)) of
             Inl e \<Rightarrow> Inl e
           | Inr tools \<Rightarrow>
               (case (if raw_len0 (rq_tool_choice req) then Inr AntChoiceUnset
                      else wrap_error ''parse tool_choice'' (ant_parseToolChoice req)) of
                  Inl e \<Rightarrow> Inl e
                | Inr choice \<Rightarrow>
                    Inr \<lparr>aq_model = rq_model req, aq_messages = anthropicMsgs,
                         aq_max_tokens = (case rq_max_output_tokens req of Some n \<Rightarrow> n | None \<Rightarrow> 4096),
                         aq_system = systemBlocks, aq_temperature = rq_temperature req,
                         aq_top_p = rq_top_p req, aq_tools = tools, aq_tool_choice = choice\<rparr>)))"

subsection \<open>The answer\<close>

datatype ant_answer =
    AnsText string
  | AnsThinking string string
  | AnsRedacted string
  | AnsToolUse string string string
  | AnsOther

record ant_response =
  ar_id :: string
  ar_model :: string
  ar_content :: "ant_answer list"
  ar_input_tokens :: int
  ar_output_tokens :: int

definition thinking_block :: "string \<Rightarrow> string \<Rightarrow> content_block" where
  "thinking_block t sig =
     zero_block\<lparr>cb_type := ''anthropic_thinking'', cb_text := t, cb_signature := sig\<rparr>"

definition redacted_block :: "string \<Rightarrow> content_block" where
  "redacted_block d = zero_block\<lparr>cb_type := ''anthropic_redacted_thinking'', cb_data := d\<rparr>"

definition text_block :: "string \<Rightarrow> content_block" where
  "text_block t = zero_block\<lparr>cb_type := ''output_text'', cb_text := t\<rparr>"

fun answer_text :: "ant_answer \<Rightarrow> string" where
  "answer_text (AnsText t) = t"
| "answer_text _ = []"

fun answer_block :: "ant_answer \<Rightarrow> content_block option" where
  "answer_block (AnsText t) = Some (text_block t)"
| "answer_block (AnsThinking t sig) = Some (thinking_block t sig)"
| "answer_block (AnsRedacted d) = Some (redacted_block d)"
| "answer_block _ = None"

fun answer_call :: "ant_answer \<Rightarrow> tool_call option" where
  "answer_call (AnsToolUse i name args) = Some \<lparr>tc_id = i, tc_name = name, tc_arguments = args\<rparr>"
| "answer_call _ = None"

definition ant_extractToolCalls :: "ant_answer list \<Rightarrow> tool_call list" where
  "ant_extractToolCalls content = List.map_filter answer_call content"

definition replay_or_nil :: "content_block list \<Rightarrow> tool_call list \<Rightarrow> message option" where
  "replay_or_nil content tcs =
     (if content = [] \<and> tcs = [] then None else Some (new_message ''assistant'' content tcs))"

definition ant_usage :: "int \<Rightarrow> int \<Rightarrow> usage" where
  "ant_usage i ot = \<lparr>us_input_tokens = i, us_output_tokens = ot, us_total_tokens = i + ot\<rparr>"

definition ant_result :: "ant_response \<Rightarrow> provider_result" where
  "ant_result resp =
     (let tcs = List.map_filter answer_call (ar_content resp) in
      \<lparr>pr_id = ar_id resp, pr_model = ar_model resp,
       pr_text = concat (map answer_text (ar_content resp)),
       pr_usage = ant_usage (ar_input_tokens resp) (ar_output_tokens resp),
       pr_tool_calls = tcs,
       pr_replay_message = replay_or_nil (List.map_filter answer_block (ar_content resp)) tcs\<rparr>)"

subsection \<open>The stream\<close>

text \<open>The events the loop looks at; every other one is \<open>EvOther\<close>.\<close>

datatype ant_start =
    StartToolUse string string
  | StartText string
  | StartThinking string string
  | StartRedacted string
  | StartOther

datatype ant_delta =
    DeltaText string
  | DeltaThinking string
  | DeltaSignature string
  | DeltaJson string
  | DeltaOther

datatype ant_event =
    EvMessageStart string string int
  | EvMessageDelta int
  | EvBlockStart int ant_start
  | EvBlockDelta int ant_delta
  | EvOther

text \<open>The maps of blocks and calls are keyed by the index of the content block.\<close>

record ant_state =
  as_input_tokens :: int
  as_output_tokens :: int
  as_response_id :: string
  as_response_model :: string
  as_blocks :: "(int \<times> content_block) list"
  as_calls :: "(int \<times> tool_call) list"

definition ant_init :: ant_state where
  "ant_init = \<lparr>as_input_tokens = 0, as_output_tokens = 0, as_response_id = [],
     as_response_model = [], as_blocks = [], as_calls = []\<rparr>"

text \<open>\<open>if v := m[i]; v != nil { ... }\<close> on a map of pointers.\<close>

definition change_at :: "int \<Rightarrow> ('a \<Rightarrow> 'a) \<Rightarrow> (int \<times> 'a) list \<Rightarrow> (int \<times> 'a) list" where
  "change_at i f m = (case map_of m i of None \<Rightarrow> m | Some v \<Rightarrow> AList.update i (f v) m)"

definition block_start :: "int \<Rightarrow> ant_start \<Rightarrow> ant_state \<Rightarrow> ant_state" where
  "block_start i x st =
     (case x of
        StartToolUse tid name \<Rightarrow>
          st\<lparr>as_calls := AList.update i \<lparr>tc_id = tid, tc_name = name, tc_arguments = []\<rparr> (as_calls st)\<rparr>
      | StartText t \<Rightarrow> st\<lparr>as_blocks := AList.update i (text_block t) (as_blocks st)\<rparr>
      | StartThinking t sig \<Rightarrow> st\<lparr>as_blocks := AList.update i (thinking_block t sig) (as_blocks st)\<rparr>
      | StartRedacted d \<Rightarrow> st\<lparr>as_blocks := AList.update i (redacted_block d) (as_blocks st)\<rparr>
      | StartOther \<Rightarrow> st)"

definition add_text :: "string \<Rightarrow> content_block \<Rightarrow> content_block" where
  "add_text t b = b\<lparr>cb_text := cb_text b @ t\<rparr>"

definition block_delta :: "int \<Rightarrow> ant_delta \<Rightarrow> ant_state \<Rightarrow> ant_state" where
  "block_delta i x st =
     (case x of
        DeltaText t \<Rightarrow> st\<lparr>as_blocks := change_at i (add_text t) (as_blocks st)\<rparr>
      | DeltaThinking t \<Rightarrow> st\<lparr>as_blocks := change_at i (add_text t) (as_blocks st)\<rparr>
      | DeltaSignature sig \<Rightarrow>
          st\<lparr>as_blocks := change_at i (\<lambda>b. b\<lparr>cb_signature := sig\<rparr>) (as_blocks st)\<rparr>
      | DeltaJson s \<Rightarrow>
          st\<lparr>as_calls := change_at i (\<lambda>c. c\<lparr>tc_arguments := tc_arguments c @ s\<rparr>) (as_calls st)\<rparr>
      | DeltaOther \<Rightarrow> st)"

fun ant_step :: "ant_event \<Rightarrow> ant_state \<Rightarrow> ant_state" where
  "ant_step (EvMessageStart i model tokens) st =
     st\<lparr>as_input_tokens := tokens, as_response_id := i, as_response_model := model\<rparr>"
| "ant_step (EvMessageDelta tokens) st = st\<lparr>as_output_tokens := tokens\<rparr>"
| "ant_step (EvBlockStart i x) st = block_start i x st"
| "ant_step (EvBlockDelta i x) st = block_delta i x st"
| "ant_step EvOther st = st"

definition call_delta :: "int \<Rightarrow> string \<Rightarrow> string \<Rightarrow> string \<Rightarrow> tool_call_delta" where
  "call_delta i tid name args = \<lparr>td_index = i, td_id = tid, td_name = name, td_arguments = args\<rparr>"

text \<open>What an event sends.\<close>

fun ant_sent :: "ant_event \<Rightarrow> ant_state \<Rightarrow> provider_stream_delta list" where
  "ant_sent (EvBlockStart i (StartToolUse tid name)) st =
     [zero_delta\<lparr>pd_tool_call_delta := Some (call_delta i tid name [])\<rparr>]"
| "ant_sent (EvBlockDelta i (DeltaText t)) st =
     [zero_delta\<lparr>pd_id := as_response_id st, pd_model := as_response_model st, pd_text := t\<rparr>]"
| "ant_sent (EvBlockDelta i (DeltaJson s)) st =
     [zero_delta\<lparr>pd_id := as_response_id st, pd_model := as_response_model st,
                 pd_tool_call_delta := Some (call_delta i [] [] s)\<rparr>]"
| "ant_sent _ st = []"

fun ant_stream_loop ::
  "ant_event list \<Rightarrow> ant_state \<Rightarrow> provider_stream_delta list \<times> ant_state" where
  "ant_stream_loop [] st = ([], st)"
| "ant_stream_loop (ev # evs) st =
     (let (ds, st') = ant_stream_loop evs (ant_step ev st) in (ant_sent ev st @ ds, st'))"

definition max_index :: "int list \<Rightarrow> int" where
  "max_index is = foldl max (- 1) is"

definition buildStreamReplayMessage ::
  "(int \<times> content_block) list \<Rightarrow> (int \<times> tool_call) list \<Rightarrow> message option" where
  "buildStreamReplayMessage blocks tcs =
     (let is = [0..max_index (map fst blocks @ map fst tcs)] in
      replay_or_nil (List.map_filter (map_of blocks) is) (List.map_filter (map_of tcs) is))"

definition ant_final_delta :: "ant_state \<Rightarrow> provider_stream_delta" where
  "ant_final_delta st =
     zero_delta\<lparr>pd_id := as_response_id st, pd_model := as_response_model st, pd_done := True,
                pd_usage := Some (ant_usage (as_input_tokens st) (as_output_tokens st)),
                pd_replay_message := buildStreamReplayMessage (as_blocks st) (as_calls st)\<rparr>"

subsection \<open>The provider\<close>

record ant_client =
  ac_new :: "ant_params \<Rightarrow> go_error + ant_response"
  ac_stream :: "ant_params \<Rightarrow> ant_event list \<times> go_error option"

record ant_provider =
  np_api_key :: string
  np_model :: string
  np_client :: "ant_client option"
  np_azure :: bool

definition ant_New :: "(string \<Rightarrow> ant_client) \<Rightarrow> string \<Rightarrow> string \<Rightarrow> ant_provider" where
  "ant_New mk key model =
     \<lparr>np_api_key = key, np_model = model, np_client = (if key \<noteq> [] then Some (mk key) else None),
      np_azure = False\<rparr>"

definition ant_NewAzure ::
  "(string \<Rightarrow> string \<Rightarrow> ant_client) \<Rightarrow> string \<Rightarrow> string \<Rightarrow> string \<Rightarrow> ant_provider" where
  "ant_NewAzure mk key endpoint model =
     \<lparr>np_api_key = key, np_model = model,
      np_client = (if key \<noteq> [] \<and> endpoint \<noteq> [] then Some (mk endpoint key) else None),
      np_azure = True\<rparr>"

definition ant_ready :: "ant_provider \<Rightarrow> go_error + ant_client" where
  "ant_ready p =
     (if np_api_key p = [] then Inl (ErrOther ''anthropic api key missing'')
      else case np_client p of
        None \<Rightarrow> Inl (ErrOther ''anthropic client not initialized'')
      | Some c \<Rightarrow> Inr c)"

definition ant_Generate ::
  "(string \<Rightarrow> string option) \<Rightarrow> ant_provider \<Rightarrow> message list \<Rightarrow> response_request \<Rightarrow>
   go_error + provider_result" where
  "ant_Generate num p msgs req =
     (case ant_ready p of
        Inl e \<Rightarrow> Inl e
      | Inr client \<Rightarrow>
          (case ant_params_of num msgs req of
             Inl e \<Rightarrow> Inl e
           | Inr params \<Rightarrow>
               (case wrap_error ''anthropic api error'' (ac_new client params) of
                  Inl e \<Rightarrow> Inl e
                | Inr resp \<Rightarrow> Inr (ant_result resp))))"

definition ant_GenerateStream ::
  "(string \<Rightarrow> string option) \<Rightarrow> ant_provider \<Rightarrow> message list \<Rightarrow> response_request \<Rightarrow>
   provider_stream_delta list \<times> go_error option" where
  "ant_GenerateStream num p msgs req =
     (case ant_ready p of
        Inl e \<Rightarrow> ([], Some e)
      | Inr client \<Rightarrow>
          (case ant_params_of num msgs req of
             Inl e \<Rightarrow> ([], Some e)
           | Inr params \<Rightarrow>
               (let (events, err) = ac_stream client params;
                    (deltas, st) = ant_stream_loop events ant_init
                in case err of
                     Some e \<Rightarrow> (deltas, Some (ErrWrap ''anthropic stream error'' e))
                   | None \<Rightarrow> (deltas @ [ant_final_delta st], None))))"

definition anthropic_provider :: "(string \<Rightarrow> string option) \<Rightarrow> ant_provider \<Rightarrow> provider" where
  "anthropic_provider num p =
     \<lparr>pv_name = ''anthropic'', pv_generate = ant_Generate num p,
      pv_stream = ant_GenerateStream num p\<rparr>"

definition ant_chooseModel :: "string \<Rightarrow> string \<Rightarrow> string" where
  "ant_chooseModel requested defaultModel =
     (if requested \<noteq> [] then requested
      else if defaultModel \<noteq> [] then defaultModel else ''claude-3-5-sonnet'')"

end
