(* ===== verification/StreamFacts.thy ===== *)
theory StreamFacts
  imports Stream "HOL-Library.Multiset"
begin

text \<open>
  Facts about the streaming loop that the properties share: how a delta changes the state,
  the declarative meaning of the deltas consumed so far (\<open>stream_sim\<close>) and what has been
  sent to the client (\<open>sent_inv\<close>).
\<close>

subsection \<open>Selectors\<close>

lemma sendSSE_sel [simp]:
  "st_next_output_idx (sendSSE ev st) = st_next_output_idx st"
  "st_ids (sendSSE ev st) = st_ids st" "st_msg (sendSSE ev st) = st_msg st"
  "st_calls (sendSSE ev st) = st_calls st"
  "st_provider_model (sendSSE ev st) = st_provider_model st"
  "st_provider_id (sendSSE ev st) = st_provider_id st" "st_usage (sendSSE ev st) = st_usage st"
  "st_replay (sendSSE ev st) = st_replay st" "st_seq (sendSSE ev st) = Suc (st_seq st)"
  by (simp_all add: sendSSE_def Let_def)

lemma event_marshals_simps [simp]:
  "event_marshals (ev\<lparr>ev_sequence_number := q\<rparr>) = event_marshals ev"
  "event_marshals (ev\<lparr>ev_part := p\<rparr>) = event_marshals ev"
  "event_marshals (ev\<lparr>ev_delta := t\<rparr>) = event_marshals ev"
  "event_marshals (ev\<lparr>ev_text := t\<rparr>) = event_marshals ev"
  "event_marshals (ev\<lparr>ev_arguments := t\<rparr>) = event_marshals ev"
  "event_marshals (zero_event ty)" "event_marshals (ev_item_event ty i it)"
  "event_marshals (ev_msg_event ty b)" "event_marshals (ev_call_event ty c)"
  "event_marshals (ev_response_event ty r) = response_marshals r"
  by (simp_all add: event_marshals_def zero_event_def ev_item_event_def ev_msg_event_def
      ev_call_event_def ev_response_event_def)

lemma event_types [simp]:
  "ev_type (zero_event ty) = ty" "ev_type (ev_item_event ty i it) = ty"
  "ev_type (ev_msg_event ty b) = ty" "ev_type (ev_call_event ty c) = ty"
  "ev_type (ev_response_event ty r) = ty" "ev_delta (ev_item_event ty i it) = []"
  "ev_output_index (ev_item_event ty i it) = Some i" "ev_item (ev_item_event ty i it) = Some it"
  "ev_output_index (ev_call_event ty c) = Some (tb_output_index c)"
  "ev_delta (ev_msg_event ty b) = []" "ev_delta (ev_call_event ty c) = []"
  "ev_delta (ev_response_event ty r) = []"
  by (simp_all add: zero_event_def ev_item_event_def ev_msg_event_def ev_call_event_def
      ev_response_event_def)

lemma st_sent_sendSSE:
  "st_sent (sendSSE ev st) =
     (if event_marshals (ev\<lparr>ev_sequence_number := st_seq st\<rparr>)
      then st_sent st @ [SseEvent (ev_type ev) (ev\<lparr>ev_sequence_number := st_seq st\<rparr>)]
      else st_sent st)"
  by (simp add: sendSSE_def Let_def)

subsection \<open>Builders\<close>

lemma find_builder_Some: "find_builder bs i = Some b \<Longrightarrow> b \<in> set bs \<and> tb_stream_index b = i"
  by (induction bs) (auto split: if_splits)

lemma find_builder_None: "find_builder bs i = None \<longleftrightarrow> i \<notin> tb_stream_index ` set bs"
  by (induction bs) auto

lemma put_builder_map:
  assumes "\<And>b'. b' \<in> set bs \<Longrightarrow> tb_stream_index b' = tb_stream_index b \<Longrightarrow> f b' = f b"
  shows "map f (put_builder b bs) = map f bs"
  using assms by (auto simp: put_builder_def)

lemma put_builder_stream_index [simp]:
  "map tb_stream_index (put_builder b bs) = map tb_stream_index bs"
  by (rule put_builder_map) simp

lemma distinct_stream_index:
  "distinct (map tb_stream_index bs) \<Longrightarrow> b \<in> set bs \<Longrightarrow> b' \<in> set bs \<Longrightarrow>
   tb_stream_index b' = tb_stream_index b \<Longrightarrow> b' = b"
  by (auto simp: distinct_map inj_on_def)

lemma put_builder_output_index:
  assumes "distinct (map tb_stream_index bs)" and "b \<in> set bs"
    and "tb_stream_index b' = tb_stream_index b" and "tb_output_index b' = tb_output_index b"
  shows "map tb_output_index (put_builder b' bs) = map tb_output_index bs"
proof (rule put_builder_map)
  fix c assume "c \<in> set bs" "tb_stream_index c = tb_stream_index b'"
  then have "c = b" using distinct_stream_index [OF assms(1,2)] assms(3) by simp
  then show "tb_output_index c = tb_output_index b'" using assms(4) by simp
qed

lemma put_put [simp]:
  "tb_stream_index b' = tb_stream_index b \<Longrightarrow> put_builder b' (put_builder b bs) = put_builder b' bs"
  by (auto simp: put_builder_def)

lemma put_builder_snoc:
  "tb_stream_index b' = tb_stream_index b \<Longrightarrow> tb_stream_index b \<notin> tb_stream_index ` set bs \<Longrightarrow>
   put_builder b' (bs @ [b]) = bs @ [b']"
  by (induction bs) (auto simp: put_builder_def)

lemma put_builder_mem:
  "b \<in> set bs \<Longrightarrow> tb_stream_index b' = tb_stream_index b \<Longrightarrow> b' \<in> set (put_builder b' bs)"
  by (force simp: put_builder_def)

subsection \<open>A tool call delta in one equation\<close>

text \<open>The builder after a delta, and the name the delta has validated.\<close>

definition merge_builder :: "tool_call_delta \<Rightarrow> tool_builder \<Rightarrow> tool_builder" where
  "merge_builder tc b =
     b\<lparr>tb_id := (if tb_id b = [] then td_id tc else tb_id b),
       tb_name := (if tb_name b = [] then td_name tc else tb_name b),
       tb_arguments := tb_arguments b @ td_arguments tc\<rparr>"

definition send_args :: "tool_call_delta \<Rightarrow> tool_builder \<Rightarrow> stream_state \<Rightarrow> stream_state" where
  "send_args tc b st =
     (if td_arguments tc = [] then st
      else sendSSE ((ev_call_event ''response.function_call_arguments.delta'' b)
                      \<lparr>ev_delta := td_arguments tc\<rparr>) st)"

definition announce_call :: "tool_builder \<Rightarrow> stream_state \<Rightarrow> stream_state" where
  "announce_call b st =
     sendSSE (ev_item_event ''response.output_item.added'' (tb_output_index b)
       (call_item (tb_item_id b) ''in_progress'' (tb_id b) (tb_name b) [])) st"

lemma merge_builder_sel [simp]:
  "tb_stream_index (merge_builder tc b) = tb_stream_index b"
  "tb_output_index (merge_builder tc b) = tb_output_index b"
  "tb_item_id (merge_builder tc b) = tb_item_id b"
  by (simp_all add: merge_builder_def)

lemma fill_id_sel [simp]:
  "tb_name (fill_id tc b) = tb_name b" "tb_arguments (fill_id tc b) = tb_arguments b"
  "tb_stream_index (fill_id tc b) = tb_stream_index b"
  "tb_output_index (fill_id tc b) = tb_output_index b"
  "tb_item_id (fill_id tc b) = tb_item_id b"
  by (simp_all add: fill_id_def)

lemma handle_known:
  assumes "find_builder (st_calls st) (td_index tc) = Some b"
  shows "handle_tool_call uuid req tc st =
     (let named = (td_name tc \<noteq> [] \<and> tb_name b = []);
          b2 = (if named then (fill_id tc b)\<lparr>tb_name := td_name tc\<rparr> else fill_id tc b) in
      case (if named then validateToolCallName req (td_name tc) else None) of
        Some e \<Rightarrow> (Some e, st\<lparr>st_calls := put_builder b2 (st_calls st)\<rparr>)
      | None \<Rightarrow> (None, send_args tc (merge_builder tc b)
                  (st\<lparr>st_calls := put_builder (merge_builder tc b) (st_calls st)\<rparr>)))"
proof (cases "td_name tc \<noteq> [] \<and> tb_name b = []")
  case True
  let ?b2 = "(fill_id tc b)\<lparr>tb_name := td_name tc\<rparr>"
  have step: "?b2\<lparr>tb_arguments := tb_arguments b @ td_arguments tc\<rparr> = merge_builder tc b"
    using True by (cases b) (simp add: fill_id_def merge_builder_def)
  have same: "?b2 = merge_builder tc b" if "td_arguments tc = []"
    using True that by (cases b) (simp add: fill_id_def merge_builder_def)
  have nm: "tb_name (merge_builder tc b) = td_name tc" using True by (simp add: merge_builder_def)
  show ?thesis
    unfolding handle_tool_call_def open_builder_def assms
    using True step same nm
    by (cases "td_arguments tc = []")
       (simp_all add: Let_def send_args_def split: option.splits)
next
  case False
  have step: "(fill_id tc b)\<lparr>tb_arguments := tb_arguments b @ td_arguments tc\<rparr> = merge_builder tc b"
    using False by (cases b) (auto simp: fill_id_def merge_builder_def)
  have same: "fill_id tc b = merge_builder tc b" if "td_arguments tc = []"
    using False that by (cases b) (auto simp: fill_id_def merge_builder_def)
  have nm: "td_name tc = [] \<or> tb_name (merge_builder tc b) \<noteq> []"
    using False by (auto simp: merge_builder_def)
  show ?thesis
    unfolding handle_tool_call_def open_builder_def assms
    using False step same nm
    by (cases "td_arguments tc = []") (auto simp: Let_def send_args_def)
qed

lemma handle_new:
  assumes "find_builder (st_calls st) (td_index tc) = None"
  shows "handle_tool_call uuid req tc st =
     (let b = new_builder uuid tc st;
          st1 = st\<lparr>st_calls := st_calls st @ [b], st_ids := Suc (st_ids st),
                   st_next_output_idx := Suc (st_next_output_idx st)\<rparr> in
      case validateToolCallName req (td_name tc) of
        Some e \<Rightarrow> (Some e, st1)
      | None \<Rightarrow> (None, send_args tc (merge_builder tc b)
                  ((announce_call b st1)
                     \<lparr>st_calls := st_calls st @ [merge_builder tc b]\<rparr>)))"
proof -
  let ?b = "new_builder uuid tc st"
  have n: "tb_name ?b = td_name tc" "tb_id ?b = td_id tc" "tb_arguments ?b = []"
    by (simp_all add: new_builder_def)
  have f: "fill_id tc ?b = ?b" by (simp add: fill_id_def n)
  have fresh: "tb_stream_index ?b \<notin> tb_stream_index ` set (st_calls st)"
    using assms by (simp add: find_builder_None new_builder_def)
  have m: "?b\<lparr>tb_arguments := td_arguments tc\<rparr> = merge_builder tc ?b"
    by (cases ?b) (use n in \<open>simp add: merge_builder_def\<close>)
  have p: "put_builder b' (st_calls st @ [?b]) = st_calls st @ [b']"
    if "tb_stream_index b' = tb_stream_index ?b" for b'
    by (rule put_builder_snoc [OF that fresh])
  have e: "td_arguments tc = [] \<Longrightarrow> merge_builder tc ?b = ?b"
    using n by (cases ?b) (simp add: merge_builder_def)
  show ?thesis
    unfolding handle_tool_call_def open_builder_def assms
    by (cases "td_arguments tc = []")
       (simp_all add: Let_def send_args_def announce_call_def n f p m e split: option.splits)
qed

subsection \<open>What the deltas consumed so far mean\<close>

definition first_nonempty :: "string list \<Rightarrow> string" where
  "first_nonempty xs = (case filter (\<lambda>x. x \<noteq> []) xs of [] \<Rightarrow> [] | x # _ \<Rightarrow> x)"

definition last_some :: "'a option list \<Rightarrow> 'a option" where
  "last_some xs = foldl (\<lambda>acc x. case x of Some v \<Rightarrow> Some v | None \<Rightarrow> acc) None xs"

definition firsts :: "'a list \<Rightarrow> 'a list" where
  "firsts xs = rev (remdups (rev xs))"

definition call_at :: "int \<Rightarrow> tool_call_delta list \<Rightarrow> tool_call" where
  "call_at i tds =
     (let mine = filter (\<lambda>td. td_index td = i) tds in
      \<lparr>tc_id = first_nonempty (map td_id mine), tc_name = first_nonempty (map td_name mine),
       tc_arguments = concat (map td_arguments mine)\<rparr>)"

text \<open>The tool calls a sequence of tool call deltas describes, in order of appearance.\<close>

definition merge_calls :: "tool_call_delta list \<Rightarrow> tool_call list" where
  "merge_calls tds = map (\<lambda>i. call_at i tds) (firsts (map td_index tds))"

definition tool_deltas :: "provider_stream_delta list \<Rightarrow> tool_call_delta list" where
  "tool_deltas ds = List.map_filter pd_tool_call_delta ds"

lemma first_nonempty_snoc:
  "first_nonempty (xs @ [x]) = (if first_nonempty xs = [] then x else first_nonempty xs)"
proof (cases "filter (\<lambda>x. x \<noteq> []) xs")
  case (Cons y ys)
  then have "y \<in> set (filter (\<lambda>x. x \<noteq> []) xs)" by simp
  then have "y \<noteq> []" by simp
  with Cons show ?thesis by (simp add: first_nonempty_def)
qed (simp add: first_nonempty_def)

lemma first_nonempty_simps [simp]:
  "first_nonempty [] = []"
  "first_nonempty (xs @ [x]) = (if first_nonempty xs = [] then x else first_nonempty xs)"
  "first_nonempty [x] = x"
  using first_nonempty_snoc [of "[]" x]
  by (simp_all add: first_nonempty_snoc) (simp_all add: first_nonempty_def)

lemma last_some_simps [simp]:
  "last_some [] = None"
  "last_some (xs @ [x]) = (case x of Some v \<Rightarrow> Some v | None \<Rightarrow> last_some xs)"
  by (simp_all add: last_some_def split: option.split)

lemma firsts_simps [simp]:
  "firsts [] = []" "firsts (xs @ [x]) = (if x \<in> set xs then firsts xs else firsts xs @ [x])"
  "set (firsts xs) = set xs" "distinct (firsts xs)"
  by (simp_all add: firsts_def)

lemma tool_deltas_simps [simp]:
  "tool_deltas [] = []"
  "tool_deltas (ds @ [d]) =
     tool_deltas ds @ (case pd_tool_call_delta d of None \<Rightarrow> [] | Some tc \<Rightarrow> [tc])"
  by (auto simp: tool_deltas_def map_filter_def split: option.splits)

definition builder_call :: "tool_builder \<Rightarrow> tool_call" where
  "builder_call b = \<lparr>tc_id = tb_id b, tc_name = tb_name b, tc_arguments = tb_arguments b\<rparr>"

definition msg_text :: "stream_state \<Rightarrow> string" where
  "msg_text st = (case st_msg st of Some b \<Rightarrow> mb_text b | None \<Rightarrow> [])"

definition calls_sim :: "tool_call_delta list \<Rightarrow> stream_state \<Rightarrow> bool" where
  "calls_sim tds st \<longleftrightarrow>
     map (\<lambda>b. (tb_stream_index b, builder_call b)) (st_calls st)
       = map (\<lambda>i. (i, call_at i tds)) (firsts (map td_index tds)) \<and>
     sorted (map tb_output_index (st_calls st)) \<and>
     (\<forall>b \<in> set (st_calls st). tb_output_index b < st_next_output_idx st)"

lemma calls_sim_index:
  assumes "calls_sim tds st"
  shows "map tb_stream_index (st_calls st) = firsts (map td_index tds)"
proof -
  from assms have "map fst (map (\<lambda>b. (tb_stream_index b, builder_call b)) (st_calls st))
     = map fst (map (\<lambda>i. (i, call_at i tds)) (firsts (map td_index tds)))"
    by (simp add: calls_sim_def)
  then show ?thesis by (simp add: comp_def)
qed

lemma calls_sim_builder:
  assumes "calls_sim tds st" and "b \<in> set (st_calls st)"
  shows "builder_call b = call_at (tb_stream_index b) tds"
proof -
  from assms(2) have "(tb_stream_index b, builder_call b)
      \<in> set (map (\<lambda>b. (tb_stream_index b, builder_call b)) (st_calls st))" by auto
  with assms(1) show ?thesis by (auto simp: calls_sim_def)
qed

lemma calls_sim_merge: "calls_sim tds st \<Longrightarrow> map builder_call (st_calls st) = merge_calls tds"
proof -
  assume "calls_sim tds st"
  then have "map snd (map (\<lambda>b. (tb_stream_index b, builder_call b)) (st_calls st))
     = map snd (map (\<lambda>i. (i, call_at i tds)) (firsts (map td_index tds)))"
    by (simp add: calls_sim_def)
  then show ?thesis by (simp add: comp_def merge_calls_def)
qed

lemma call_at_other: "td_index td \<noteq> i \<Longrightarrow> call_at i (tds @ [td]) = call_at i tds"
  by (simp add: call_at_def)

lemma call_at_same:
  assumes "builder_call b = call_at (td_index td) tds"
  shows "builder_call (merge_builder td b) = call_at (td_index td) (tds @ [td])"
  using assms by (auto simp: builder_call_def call_at_def merge_builder_def Let_def)

lemma call_at_new:
  assumes "td_index td \<notin> set (map td_index tds)"
  shows "call_at (td_index td) (tds @ [td])
     = \<lparr>tc_id = td_id td, tc_name = td_name td, tc_arguments = td_arguments td\<rparr>"
proof -
  have "filter (\<lambda>t. td_index t = td_index td) tds = []"
    using assms by (simp add: filter_empty_conv image_iff) metis
  then show ?thesis by (simp add: call_at_def)
qed

lemma send_args_sel [simp]:
  "st_next_output_idx (send_args tc b st) = st_next_output_idx st"
  "st_msg (send_args tc b st) = st_msg st" "st_calls (send_args tc b st) = st_calls st"
  "st_provider_model (send_args tc b st) = st_provider_model st"
  "st_provider_id (send_args tc b st) = st_provider_id st"
  "st_usage (send_args tc b st) = st_usage st" "st_replay (send_args tc b st) = st_replay st"
  by (simp_all add: send_args_def)

lemma announce_call_sel [simp]:
  "st_next_output_idx (announce_call b st) = st_next_output_idx st"
  "st_msg (announce_call b st) = st_msg st" "st_calls (announce_call b st) = st_calls st"
  "st_provider_model (announce_call b st) = st_provider_model st"
  "st_provider_id (announce_call b st) = st_provider_id st"
  "st_usage (announce_call b st) = st_usage st" "st_replay (announce_call b st) = st_replay st"
  "st_seq (announce_call b st) = Suc (st_seq st)"
  by (simp_all add: announce_call_def)

lemma handle_sim_known:
  assumes sim: "calls_sim tds st" and b: "find_builder (st_calls st) (td_index tc) = Some b"
    and h: "handle_tool_call uuid req tc st = (None, st')"
  shows "calls_sim (tds @ [tc]) st'"
proof -
  let ?b' = "merge_builder tc b"
  have st': "st_calls st' = put_builder ?b' (st_calls st)"
      "st_next_output_idx st' = st_next_output_idx st"
    using h by (auto simp: handle_known [OF b] Let_def split: option.splits if_splits)
  have mem: "b \<in> set (st_calls st)" and idx: "tb_stream_index b = td_index tc"
    using find_builder_Some [OF b] by auto
  have dist: "distinct (map tb_stream_index (st_calls st))" by (simp add: calls_sim_index [OF sim])
  have known: "td_index tc \<in> set (map td_index tds)"
    using mem idx calls_sim_index [OF sim] by (metis firsts_simps(3) image_eqI set_map)
  have new: "builder_call ?b' = call_at (td_index tc) (tds @ [tc])"
    by (rule call_at_same) (simp add: calls_sim_builder [OF sim mem] idx)
  have "map (\<lambda>b. (tb_stream_index b, builder_call b)) (put_builder ?b' (st_calls st))
      = map (\<lambda>b. (tb_stream_index b, call_at (tb_stream_index b) (tds @ [tc]))) (st_calls st)"
    using calls_sim_builder [OF sim] new idx
    by (auto simp: put_builder_def call_at_other)
  also have "\<dots> = map (\<lambda>i. (i, call_at i (tds @ [tc]))) (firsts (map td_index tds))"
    by (simp flip: calls_sim_index [OF sim])
  finally have m: "map (\<lambda>b. (tb_stream_index b, builder_call b)) (put_builder ?b' (st_calls st))
      = map (\<lambda>i. (i, call_at i (tds @ [tc]))) (firsts (map td_index (tds @ [tc])))"
    using known by simp
  have o: "map tb_output_index (put_builder ?b' (st_calls st)) = map tb_output_index (st_calls st)"
    by (rule put_builder_output_index [OF dist mem]) simp_all
  then have "tb_output_index ` set (put_builder ?b' (st_calls st)) = tb_output_index ` set (st_calls st)"
    by (metis set_map)
  then have "\<forall>x \<in> set (put_builder ?b' (st_calls st)). tb_output_index x < st_next_output_idx st"
    using sim by (metis (no_types, lifting) calls_sim_def imageE image_eqI)
  with sim o m show ?thesis by (simp add: calls_sim_def st')
qed

lemma handle_sim_new:
  assumes sim: "calls_sim tds st" and b: "find_builder (st_calls st) (td_index tc) = None"
    and h: "handle_tool_call uuid req tc st = (None, st')"
  shows "calls_sim (tds @ [tc]) st'"
proof -
  let ?b = "merge_builder tc (new_builder uuid tc st)"
  have st': "st_calls st' = st_calls st @ [?b]"
      "st_next_output_idx st' = Suc (st_next_output_idx st)"
    using h by (auto simp: handle_new [OF b] Let_def split: option.splits)
  have new: "td_index tc \<notin> set (map td_index tds)"
    using b calls_sim_index [OF sim] by (metis find_builder_None firsts_simps(3) set_map)
  have sb: "tb_stream_index (new_builder uuid tc st) = td_index tc"
      "tb_output_index (new_builder uuid tc st) = st_next_output_idx st"
      "builder_call ?b = call_at (td_index tc) (tds @ [tc])"
    using call_at_new [OF new] by (simp_all add: new_builder_def builder_call_def merge_builder_def)
  have old: "map (\<lambda>i. (i, call_at i (tds @ [tc]))) (firsts (map td_index tds))
      = map (\<lambda>i. (i, call_at i tds)) (firsts (map td_index tds))"
    by (rule map_cong [OF refl]) (use new in \<open>auto intro!: call_at_other\<close>)
  show ?thesis
    using sim new old unfolding calls_sim_def st'
    by (auto simp: sb sorted_append less_imp_le)
qed

lemma handle_sim:
  "calls_sim tds st \<Longrightarrow> handle_tool_call uuid req tc st = (None, st') \<Longrightarrow> calls_sim (tds @ [tc]) st'"
  using handle_sim_known handle_sim_new by (cases "find_builder (st_calls st) (td_index tc)") blast+

definition stream_sim :: "provider_stream_delta list \<Rightarrow> stream_state \<Rightarrow> bool" where
  "stream_sim ds st \<longleftrightarrow>
     st_provider_model st = first_nonempty (map pd_model ds) \<and>
     st_provider_id st = first_nonempty (map pd_id ds) \<and>
     msg_text st = concat (map pd_text ds) \<and>
     st_usage st = last_some (map pd_usage ds) \<and>
     st_replay st = last_some (map pd_replay_message ds) \<and>
     calls_sim (tool_deltas ds) st"

lemma ensureMessageStarted_sel [simp]:
  "st_calls (ensureMessageStarted uuid st) = st_calls st"
  "st_provider_model (ensureMessageStarted uuid st) = st_provider_model st"
  "st_provider_id (ensureMessageStarted uuid st) = st_provider_id st"
  "st_usage (ensureMessageStarted uuid st) = st_usage st"
  "st_replay (ensureMessageStarted uuid st) = st_replay st"
  "msg_text (ensureMessageStarted uuid st) = msg_text st"
  "st_msg (ensureMessageStarted uuid st) \<noteq> None"
  "st_next_output_idx st \<le> st_next_output_idx (ensureMessageStarted uuid st)"
  by (auto simp: ensureMessageStarted_def Let_def msg_text_def split: option.splits)

lemma handle_text_sel [simp]:
  "st_calls (handle_text uuid t st) = st_calls st"
  "st_provider_model (handle_text uuid t st) = st_provider_model st"
  "st_provider_id (handle_text uuid t st) = st_provider_id st"
  "st_usage (handle_text uuid t st) = st_usage st"
  "st_replay (handle_text uuid t st) = st_replay st"
  "st_next_output_idx st \<le> st_next_output_idx (handle_text uuid t st)"
  by (auto simp: handle_text_def Let_def split: option.splits)

lemma handle_text_msg [simp]: "msg_text (handle_text uuid t st) = msg_text st @ t"
proof (cases "t = []")
  case False
  obtain b where b: "st_msg (ensureMessageStarted uuid st) = Some b"
    using ensureMessageStarted_sel(7) [of uuid st] by blast
  with ensureMessageStarted_sel(6) [of uuid st] have "mb_text b = msg_text st"
    by (simp add: msg_text_def)
  with b False show ?thesis by (simp add: handle_text_def msg_text_def)
qed (simp add: handle_text_def)

lemma handle_tool_call_sel:
  assumes "handle_tool_call uuid req tc st = (e, st')"
  shows "st_provider_model st' = st_provider_model st" "st_provider_id st' = st_provider_id st"
    "st_usage st' = st_usage st" "st_replay st' = st_replay st" "st_msg st' = st_msg st"
  using assms
  by (cases "find_builder (st_calls st) (td_index tc)",
      auto simp: handle_new handle_known Let_def split: option.splits if_splits)+

lemma calls_sim_mono:
  "calls_sim tds st \<Longrightarrow> st_calls st' = st_calls st \<Longrightarrow>
   st_next_output_idx st \<le> st_next_output_idx st' \<Longrightarrow> calls_sim tds st'"
  by (auto simp: calls_sim_def intro: less_le_trans)

lemma delta_step_parts:
  assumes "delta_step uuid req d st = (x, st')" and "\<And>err e. x \<noteq> Some (ExitLoop err (Some e))"
  obtains st2 where
    "case pd_tool_call_delta d of
       None \<Rightarrow> st2 = handle_text uuid (pd_text d) (note_ids d st)
     | Some tc \<Rightarrow> handle_tool_call uuid req tc (handle_text uuid (pd_text d) (note_ids d st)) = (None, st2)"
    and "st' = note_end d st2" and "x = (if pd_done d then Some (ExitLoop None None) else None)"
  using assms by (auto simp: delta_step_def Let_def split: option.splits prod.splits)

lemma delta_step_sim:
  assumes sim: "stream_sim ds st" and step: "delta_step uuid req d st = (x, st')"
    and ok: "\<And>err e. x \<noteq> Some (ExitLoop err (Some e))"
  shows "stream_sim (ds @ [d]) st'"
proof -
  let ?t = "handle_text uuid (pd_text d) (note_ids d st)"
  obtain st2 where st2: "case pd_tool_call_delta d of None \<Rightarrow> st2 = ?t
       | Some tc \<Rightarrow> handle_tool_call uuid req tc ?t = (None, st2)"
    and st': "st' = note_end d st2"
    using delta_step_parts [OF step ok] by blast
  have "calls_sim (tool_deltas ds) (note_ids d st)"
    using sim by (auto simp: stream_sim_def calls_sim_def note_ids_def)
  then have t: "calls_sim (tool_deltas ds) ?t"
    by (rule calls_sim_mono) simp_all
  then have calls: "calls_sim (tool_deltas (ds @ [d])) st2"
    using st2 handle_sim [OF t] by (cases "pd_tool_call_delta d") auto
  have keep: "st_provider_model st2 = st_provider_model ?t" "st_provider_id st2 = st_provider_id ?t"
      "st_usage st2 = st_usage ?t" "st_replay st2 = st_replay ?t" "msg_text st2 = msg_text ?t"
    using st2 by (auto simp: msg_text_def handle_tool_call_sel split: option.splits)
  have c': "calls_sim (tool_deltas (ds @ [d])) st'"
    by (rule calls_sim_mono [OF calls]) (simp_all add: st' note_end_def)
  have m: "msg_text st' = msg_text st2" "msg_text (note_ids d st) = msg_text st"
    by (simp_all add: st' note_end_def note_ids_def msg_text_def)
  have k: "st_provider_model st' = st_provider_model (note_ids d st)"
      "st_provider_id st' = st_provider_id (note_ids d st)"
      "st_usage st' = (case pd_usage d of Some u \<Rightarrow> Some u | None \<Rightarrow> st_usage st)"
      "st_replay st' = (case pd_replay_message d of Some m \<Rightarrow> Some m | None \<Rightarrow> st_replay st)"
    by (simp_all add: st' note_end_def keep note_ids_def split: option.split)
  have t': "msg_text st' = msg_text st @ pd_text d" by (simp add: m keep)
  have n: "st_provider_model (note_ids d st) = (if st_provider_model st = [] then pd_model d
           else st_provider_model st)"
      "st_provider_id (note_ids d st) = (if st_provider_id st = [] then pd_id d
           else st_provider_id st)"
    by (simp_all add: note_ids_def)
  show ?thesis
    using sim c' unfolding stream_sim_def t' k n
    by (simp split: option.split)
qed

text \<open>The deltas a run consumes: up to a \<open>Done\<close> delta, the close of a channel or an error.\<close>

fun consumed :: "select_event list \<Rightarrow> provider_stream_delta list" where
  "consumed [] = []"
| "consumed (SelDelta d # es) = d # (if pd_done d then [] else consumed es)"
| "consumed (SelDeltaClosed err # es) = []"
| "consumed (SelErr err # es) = []"
| "consumed (SelDisconnect # es) = []"

lemma stream_loop_sim:
  "stream_sim ds st \<Longrightarrow> stream_loop uuid req es st = (x, st') \<Longrightarrow>
   (\<And>err e. x \<noteq> Some (ExitLoop err (Some e))) \<Longrightarrow> stream_sim (ds @ consumed es) st'"
proof (induction es arbitrary: ds st)
  case (Cons e es)
  show ?case
  proof (cases e)
    case (SelDelta d)
    obtain y st1 where y: "delta_step uuid req d st = (y, st1)" by fastforce
    have nerr: "y \<noteq> Some (ExitLoop err e)" if "e \<noteq> None" for err e
      using y Cons.prems(2) Cons.prems(3) [of err "the e"] that by (auto simp: SelDelta)
    have sim1: "stream_sim (ds @ [d]) st1"
      by (rule delta_step_sim [OF Cons.prems(1) y]) (simp add: nerr)
    have yd: "y = (if pd_done d then Some (ExitLoop None None) else None)"
      using delta_step_parts [OF y] nerr by blast
    show ?thesis
    proof (cases "pd_done d")
      case True
      with yd y sim1 Cons.prems(2) show ?thesis by (simp add: SelDelta)
    next
      case False
      with yd y Cons.prems(2) have "stream_loop uuid req es st1 = (x, st')" by (simp add: SelDelta)
      from Cons.IH [OF sim1 this Cons.prems(3)] False show ?thesis by (simp add: SelDelta)
    qed
  qed (use Cons.prems in auto)
qed simp

subsection \<open>What has been sent\<close>

definition events_of :: "sse_chunk list \<Rightarrow> stream_event list" where
  "events_of cs = concat (map (\<lambda>c. case c of SseEvent ty ev \<Rightarrow> [ev] | SseDone \<Rightarrow> []) cs)"

definition is_terminal :: "string \<Rightarrow> bool" where
  "is_terminal ty = (ty = ''response.completed'' \<or> ty = ''response.failed'')"

text \<open>The chunks that end an exchange: a completed or failed event and the \<open>[DONE]\<close> mark.\<close>

definition terminals :: "sse_chunk list \<Rightarrow> string list" where
  "terminals cs = concat (map (\<lambda>c. case c of SseEvent ty ev \<Rightarrow> if is_terminal ty then [ty] else []
                                          | SseDone \<Rightarrow> [''[DONE]'']) cs)"

definition event_seqs :: "sse_chunk list \<Rightarrow> nat list" where
  "event_seqs cs = map ev_sequence_number (events_of cs)"

definition added_indices :: "sse_chunk list \<Rightarrow> nat list" where
  "added_indices cs = concat (map (\<lambda>e. if ev_type e = ''response.output_item.added''
                                      then [the (ev_output_index e)] else []) (events_of cs))"

definition text_deltas :: "sse_chunk list \<Rightarrow> string" where
  "text_deltas cs = concat (map (\<lambda>e. if ev_type e = ''response.output_text.delta''
                                    then ev_delta e else []) (events_of cs))"

definition arg_deltas :: "nat \<Rightarrow> sse_chunk list \<Rightarrow> string" where
  "arg_deltas i cs = concat (map (\<lambda>e. if ev_type e = ''response.function_call_arguments.delta''
                                         \<and> ev_output_index e = Some i
                                      then ev_delta e else []) (events_of cs))"

definition done_items :: "sse_chunk list \<Rightarrow> (nat \<times> output_item) list" where
  "done_items cs = concat (map (\<lambda>e. if ev_type e = ''response.output_item.done''
                                   then [(the (ev_output_index e), the (ev_item e))] else [])
                          (events_of cs))"

lemma sent_append [simp]:
  "events_of (xs @ ys) = events_of xs @ events_of ys"
  "terminals (xs @ ys) = terminals xs @ terminals ys"
  "event_seqs (xs @ ys) = event_seqs xs @ event_seqs ys"
  "added_indices (xs @ ys) = added_indices xs @ added_indices ys"
  "text_deltas (xs @ ys) = text_deltas xs @ text_deltas ys"
  "arg_deltas i (xs @ ys) = arg_deltas i xs @ arg_deltas i ys"
  "done_items (xs @ ys) = done_items xs @ done_items ys"
  by (simp_all add: events_of_def terminals_def event_seqs_def added_indices_def text_deltas_def
      arg_deltas_def done_items_def)

lemma sent_Nil [simp]:
  "events_of [] = []" "terminals [] = []" "event_seqs [] = []" "added_indices [] = []"
  "text_deltas [] = []" "arg_deltas i [] = []" "done_items [] = []"
  by (simp_all add: events_of_def terminals_def event_seqs_def added_indices_def text_deltas_def
      arg_deltas_def done_items_def)

lemma sent_Cons [simp]:
  "events_of (SseEvent ty ev # cs) = ev # events_of cs" "events_of (SseDone # cs) = events_of cs"
  "terminals (SseEvent ty ev # cs) = (if is_terminal ty then [ty] else []) @ terminals cs"
  "terminals (SseDone # cs) = ''[DONE]'' # terminals cs"
  "event_seqs (SseEvent ty ev # cs) = ev_sequence_number ev # event_seqs cs"
  "event_seqs (SseDone # cs) = event_seqs cs" "added_indices (SseDone # cs) = added_indices cs"
  "text_deltas (SseDone # cs) = text_deltas cs" "arg_deltas i (SseDone # cs) = arg_deltas i cs"
  "done_items (SseDone # cs) = done_items cs"
  "added_indices (SseEvent ty ev # cs) =
     (if ev_type ev = ''response.output_item.added'' then [the (ev_output_index ev)] else [])
     @ added_indices cs"
  "text_deltas (SseEvent ty ev # cs) =
     (if ev_type ev = ''response.output_text.delta'' then ev_delta ev else []) @ text_deltas cs"
  "arg_deltas i (SseEvent ty ev # cs) =
     (if ev_type ev = ''response.function_call_arguments.delta'' \<and> ev_output_index ev = Some i
      then ev_delta ev else []) @ arg_deltas i cs"
  "done_items (SseEvent ty ev # cs) =
     (if ev_type ev = ''response.output_item.done'' then [(the (ev_output_index ev), the (ev_item ev))]
      else []) @ done_items cs"
  by (simp_all add: events_of_def terminals_def event_seqs_def added_indices_def text_deltas_def
      arg_deltas_def done_items_def)

text \<open>\<open>seq_inv\<close>: the numbers of the events sent so far are consecutive and no end was sent.\<close>

definition seq_inv :: "stream_state \<Rightarrow> bool" where
  "seq_inv st \<longleftrightarrow> event_seqs (st_sent st) = [0..<st_seq st] \<and> terminals (st_sent st) = []"

lemma seq_inv_send:
  "seq_inv st \<Longrightarrow> event_marshals (ev\<lparr>ev_sequence_number := st_seq st\<rparr>) \<Longrightarrow>
   \<not> is_terminal (ev_type ev) \<Longrightarrow> seq_inv (sendSSE ev st)"
  by (simp add: seq_inv_def st_sent_sendSSE)

lemma seq_inv_cong:
  "seq_inv st \<Longrightarrow> st_sent st' = st_sent st \<Longrightarrow> st_seq st' = st_seq st \<Longrightarrow> seq_inv st'"
  by (simp add: seq_inv_def)

lemma is_terminal_simps [simp]:
  "\<not> is_terminal ''response.output_item.added''" "\<not> is_terminal ''response.content_part.added''"
  "\<not> is_terminal ''response.output_text.delta''" "\<not> is_terminal ''response.output_item.done''"
  "\<not> is_terminal ''response.function_call_arguments.delta''"
  "\<not> is_terminal ''response.output_text.done''" "\<not> is_terminal ''response.content_part.done''"
  "\<not> is_terminal ''response.function_call_arguments.done''"
  "\<not> is_terminal ''response.in_progress''" "is_terminal ''response.completed''"
  "is_terminal ''response.failed''"
  by (simp_all add: is_terminal_def)

text \<open>
  \<open>items_inv\<close>: output indices are handed out consecutively, each is announced once and in
  order, and the deltas sent add up to the builders' text and arguments.
\<close>

definition out_indices :: "stream_state \<Rightarrow> nat list" where
  "out_indices st = (case st_msg st of Some b \<Rightarrow> [mb_output_index b] | None \<Rightarrow> [])
                    @ map tb_output_index (st_calls st)"

definition items_inv :: "stream_state \<Rightarrow> bool" where
  "items_inv st \<longleftrightarrow>
     mset (out_indices st) = mset [0..<st_next_output_idx st] \<and>
     distinct (map tb_stream_index (st_calls st)) \<and>
     added_indices (st_sent st) = [0..<st_next_output_idx st] \<and>
     text_deltas (st_sent st) = msg_text st \<and>
     (\<forall>b \<in> set (st_calls st). arg_deltas (tb_output_index b) (st_sent st) = tb_arguments b) \<and>
     (\<forall>i \<ge> st_next_output_idx st. arg_deltas i (st_sent st) = []) \<and>
     done_items (st_sent st) = []"

lemma items_inv_index_bound: "items_inv st \<Longrightarrow> b \<in> set (st_calls st) \<Longrightarrow> tb_output_index b < st_next_output_idx st"
proof -
  assume "items_inv st" "b \<in> set (st_calls st)"
  then have "tb_output_index b \<in># mset (out_indices st)" by (simp add: out_indices_def)
  with \<open>items_inv st\<close> show ?thesis by (simp add: items_inv_def del: set_mset_mset)
qed

lemma items_inv_distinct: "items_inv st \<Longrightarrow> distinct (map tb_output_index (st_calls st))"
proof -
  assume "items_inv st"
  then have "distinct (out_indices st)"
    unfolding items_inv_def by (metis distinct_upt mset_eq_imp_distinct_iff)
  then show ?thesis by (simp add: out_indices_def)
qed

lemma items_inv_start:
  assumes "items_inv st" and "seq_inv st"
  shows "items_inv (ensureMessageStarted uuid st) \<and> seq_inv (ensureMessageStarted uuid st)"
proof (cases "st_msg st")
  case None
  with assms show ?thesis
    by (simp add: ensureMessageStarted_def Let_def items_inv_def seq_inv_def out_indices_def
        st_sent_sendSSE msg_text_def)
qed (use assms in \<open>simp add: ensureMessageStarted_def\<close>)

lemma items_inv_text:
  assumes "items_inv st" and "seq_inv st"
  shows "items_inv (handle_text uuid t st) \<and> seq_inv (handle_text uuid t st)"
proof (cases "t = []")
  case False
  let ?s = "ensureMessageStarted uuid st"
  obtain b where b: "st_msg ?s = Some b"
    using ensureMessageStarted_sel(7) [of uuid st] by blast
  from items_inv_start [OF assms, of uuid] b False show ?thesis
    by (simp add: handle_text_def items_inv_def seq_inv_def out_indices_def st_sent_sendSSE
        msg_text_def)
qed (use assms in \<open>simp add: handle_text_def\<close>)

lemma send_args_sent:
  "seq_inv st \<Longrightarrow> seq_inv (send_args tc b st)"
  "added_indices (st_sent (send_args tc b st)) = added_indices (st_sent st)"
  "text_deltas (st_sent (send_args tc b st)) = text_deltas (st_sent st)"
  "arg_deltas i (st_sent (send_args tc b st)) =
     arg_deltas i (st_sent st) @ (if i = tb_output_index b then td_arguments tc else [])"
  "done_items (st_sent (send_args tc b st)) = done_items (st_sent st)"
  by (auto simp: send_args_def st_sent_sendSSE intro: seq_inv_send)

lemma announce_sent:
  "seq_inv st \<Longrightarrow> seq_inv (announce_call b st)"
  "added_indices (st_sent (announce_call b st)) = added_indices (st_sent st) @ [tb_output_index b]"
  "text_deltas (st_sent (announce_call b st)) = text_deltas (st_sent st)"
  "arg_deltas i (st_sent (announce_call b st)) = arg_deltas i (st_sent st)"
  "done_items (st_sent (announce_call b st)) = done_items (st_sent st)"
  by (auto simp: announce_call_def st_sent_sendSSE intro: seq_inv_send)

lemma items_inv_known:
  assumes inv: "items_inv st" and b: "find_builder (st_calls st) (td_index tc) = Some b"
  shows "items_inv (send_args tc (merge_builder tc b)
           (st\<lparr>st_calls := put_builder (merge_builder tc b) (st_calls st)\<rparr>))"
proof -
  let ?b' = "merge_builder tc b" and ?bs = "st_calls st"
  have mem: "b \<in> set ?bs" using find_builder_Some [OF b] by simp
  have dist: "distinct (map tb_stream_index ?bs)" using inv by (simp add: items_inv_def)
  have o: "map tb_output_index (put_builder ?b' ?bs) = map tb_output_index ?bs"
    by (rule put_builder_output_index [OF dist mem]) simp_all
  have args: "arg_deltas (tb_output_index c) (st_sent st)
       @ (if tb_output_index c = tb_output_index b then td_arguments tc else []) = tb_arguments c"
    if c: "c \<in> set (put_builder ?b' ?bs)" for c
  proof (cases "c = ?b'")
    case True
    with inv mem show ?thesis by (simp add: items_inv_def merge_builder_def)
  next
    case False
    then have c': "c \<in> set ?bs" "c \<noteq> b" using c by (auto simp: put_builder_def split: if_splits)
    then have "tb_output_index c \<noteq> tb_output_index b"
      using items_inv_distinct [OF inv] mem by (auto simp: distinct_map dest: inj_onD)
    with c' inv show ?thesis by (simp add: items_inv_def)
  qed
  have bound: "tb_output_index b < st_next_output_idx st" by (rule items_inv_index_bound [OF inv mem])
  have oi: "out_indices (send_args tc ?b' (st\<lparr>st_calls := put_builder ?b' ?bs\<rparr>)) = out_indices st"
    using o by (simp add: out_indices_def)
  show ?thesis
    using inv args bound unfolding items_inv_def oi
    by (auto simp: send_args_sent msg_text_def)
qed

lemma items_inv_new:
  assumes inv: "items_inv st" and b: "find_builder (st_calls st) (td_index tc) = None"
    and b0: "b0 = new_builder uuid tc st"
  shows "items_inv (send_args tc (merge_builder tc b0)
     ((announce_call b0 (st\<lparr>st_calls := st_calls st @ [b0], st_ids := Suc (st_ids st),
          st_next_output_idx := Suc (st_next_output_idx st)\<rparr>))
        \<lparr>st_calls := st_calls st @ [merge_builder tc b0]\<rparr>))"
proof -
  have i0: "tb_output_index b0 = st_next_output_idx st" "tb_stream_index b0 = td_index tc"
      "tb_arguments (merge_builder tc b0) = td_arguments tc"
    by (simp_all add: b0 new_builder_def merge_builder_def)
  have lt: "tb_output_index c \<noteq> st_next_output_idx st" if "c \<in> set (st_calls st)" for c
    using items_inv_index_bound [OF inv that] by simp
  show ?thesis
    using inv b lt unfolding items_inv_def
    by (auto simp: send_args_sent announce_sent i0 msg_text_def out_indices_def find_builder_None
        split: option.split)
qed

lemma seq_inv_update [simp]:
  "seq_inv (st\<lparr>st_calls := bs\<rparr>) = seq_inv st" "seq_inv (st\<lparr>st_ids := n\<rparr>) = seq_inv st"
  "seq_inv (st\<lparr>st_next_output_idx := n\<rparr>) = seq_inv st"
  "seq_inv (note_ids d st) = seq_inv st" "seq_inv (note_end d st) = seq_inv st"
  by (simp_all add: seq_inv_def note_ids_def note_end_def)

lemma items_inv_update [simp]:
  "items_inv (note_ids d st) = items_inv st" "items_inv (note_end d st) = items_inv st"
  by (simp_all add: items_inv_def note_ids_def note_end_def msg_text_def out_indices_def)

lemma tool_inv:
  assumes "handle_tool_call uuid req tc st = (e, st')" and "seq_inv st"
  shows "seq_inv st' \<and> (items_inv st \<longrightarrow> e = None \<longrightarrow> items_inv st')"
proof (cases "find_builder (st_calls st) (td_index tc)")
  case None
  show ?thesis
    using assms handle_new [OF None, of uuid req] items_inv_new [OF _ None refl, of uuid]
    by (auto simp: Let_def split: option.splits intro!: send_args_sent announce_sent)
next
  case (Some b)
  show ?thesis
    using assms handle_known [OF Some, of uuid req] items_inv_known [OF _ Some]
    by (auto simp: Let_def split: option.splits if_splits intro!: send_args_sent)
qed

lemma handle_text_seq: "seq_inv st \<Longrightarrow> seq_inv (handle_text uuid t st)"
proof -
  assume s: "seq_inv st"
  have e: "seq_inv (ensureMessageStarted uuid st)"
    using s by (auto simp: ensureMessageStarted_def Let_def seq_inv_def st_sent_sendSSE
        split: option.split)
  then show ?thesis using s
    by (auto simp: handle_text_def Let_def seq_inv_def st_sent_sendSSE split: option.split)
qed

lemma delta_step_inv:
  assumes "delta_step uuid req d st = (x, st')" and "seq_inv st"
  shows "seq_inv st' \<and>
     (items_inv st \<longrightarrow> (\<forall>err e. x \<noteq> Some (ExitLoop err (Some e))) \<longrightarrow> items_inv st')"
proof -
  let ?t = "handle_text uuid (pd_text d) (note_ids d st)"
  have t: "seq_inv ?t" using assms(2) by (simp add: handle_text_seq)
  have ti: "items_inv ?t" if "items_inv st"
    using items_inv_text [of "note_ids d st"] that assms(2) by simp
  show ?thesis
  proof (cases "pd_tool_call_delta d")
    case None
    then show ?thesis using assms(1) t ti by (auto simp: delta_step_def Let_def)
  next
    case (Some tc)
    obtain e st2 where h: "handle_tool_call uuid req tc ?t = (e, st2)" by fastforce
    from tool_inv [OF h t] assms(1) ti h Some show ?thesis
      by (cases e) (auto simp: delta_step_def Let_def)
  qed
qed

lemma stream_loop_inv:
  "stream_loop uuid req es st = (x, st') \<Longrightarrow> seq_inv st \<Longrightarrow>
     seq_inv st' \<and> (items_inv st \<longrightarrow> (\<forall>err e. x \<noteq> Some (ExitLoop err (Some e))) \<longrightarrow> items_inv st')"
proof (induction es arbitrary: st)
  case (Cons e es)
  obtain y st1 where y: "select_step uuid req e st = (y, st1)" by fastforce
  have inv: "seq_inv st1 \<and>
     (items_inv st \<longrightarrow> (\<forall>err e. y \<noteq> Some (ExitLoop err (Some e))) \<longrightarrow> items_inv st1)"
    using y Cons.prems(2) delta_step_inv by (cases e) auto
  show ?case
  proof (cases y)
    case None
    with y Cons.prems(1) have "stream_loop uuid req es st1 = (x, st')" by simp
    from Cons.IH [OF this] inv None show ?thesis by simp
  next
    case (Some z)
    with y Cons.prems(1) inv show ?thesis by auto
  qed
qed simp

end
