(* ===== verification/StreamProps.thy ===== *)
theory StreamProps
  imports StreamFacts
begin

text \<open>
  Properties of the streaming handler: the event protocol, the agreement of the deltas sent
  with the final response, the reference meaning of a stream as the merge of its deltas, and
  the tool call policy, which a stream and a synchronous result meet alike.
\<close>

subsection \<open>Event protocol\<close>

definition request_marshals :: "response_request \<Rightarrow> bool" where
  "request_marshals req \<longleftrightarrow> rq_tools req \<noteq> RawInvalid \<and> rq_tool_choice req \<noteq> RawInvalid \<and>
     rq_text req \<noteq> RawInvalid \<and> rq_reasoning req \<noteq> RawInvalid"

lemma raw_or_valid [simp]: "raw_or r d = RawInvalid \<longleftrightarrow> r = RawInvalid"
  by (simp add: raw_or_def)

lemma response_marshals_build [simp]:
  "response_marshals (buildResponseWithOutput s now req result pn rid items) = request_marshals req"
  "response_marshals (r\<lparr>rsp_status := a\<rparr>) = response_marshals r"
  "response_marshals (r\<lparr>rsp_completed_at := b\<rparr>) = response_marshals r"
  "response_marshals (r\<lparr>rsp_output := c\<rparr>) = response_marshals r"
  "response_marshals (r\<lparr>rsp_usage := d\<rparr>) = response_marshals r"
  "response_marshals (r\<lparr>rsp_error := e\<rparr>) = response_marshals r"
  by (simp_all add: response_marshals_def buildResponseWithOutput_def request_marshals_def)

lemma stream_start_inv:
  assumes "request_marshals req"
  shows "seq_inv (stream_start s now req pn rid n) \<and> items_inv (stream_start s now req pn rid n)"
  using assms
  by (simp add: stream_start_def stream_init_def seq_inv_def items_inv_def st_sent_sendSSE
      msg_text_def out_indices_def)

lemma stream_start_sim: "stream_sim [] (stream_start s now req pn rid n)"
  by (simp add: stream_start_def stream_init_def stream_sim_def calls_sim_def msg_text_def)

lemma run_stream_loop:
  assumes "run_stream s uuid t0 t1 req pn n es = (out, st, fin)"
  obtains x where
    "stream_loop uuid (Some req) es
       (stream_start s t0 req pn (generateID uuid n ''resp_'') (Suc n)) = (x, st)"
    and "out = stream_outcome req x st"
    and "fin = (case out of StreamPending \<Rightarrow> st | StreamDisconnected \<Rightarrow> st
          | StreamFailed e \<Rightarrow> finish_failed s t1 req pn (generateID uuid n ''resp_'') e st
          | StreamCompleted \<Rightarrow> finish_completed s t1 req pn (generateID uuid n ''resp_'') st)"
  using assms by (auto simp: run_stream_def Let_def split: prod.splits)

lemma seq_inv_message_done: "seq_inv st \<Longrightarrow> seq_inv (send_message_done b st)"
  by (simp add: send_message_done_def seq_inv_send)

lemma seq_inv_calls_done: "seq_inv st \<Longrightarrow> seq_inv (fold send_call_done bs st)"
  by (induction bs arbitrary: st) (simp_all add: send_call_done_def seq_inv_send)

lemma loop_sent_prefix:
  "stream_loop uuid req es st = (x, st') \<Longrightarrow> \<exists>cs. st_sent st' = st_sent st @ cs"
proof (induction es arbitrary: st)
  case (Cons e es)
  have t: "\<exists>cs. st_sent (handle_text uuid t s) = st_sent s @ cs" for t s
    by (auto simp: handle_text_def ensureMessageStarted_def Let_def st_sent_sendSSE split: option.split)
  have h: "\<exists>cs. st_sent s' = st_sent s @ cs" if "handle_tool_call uuid req tc s = (e', s')" for tc s s' e'
    using that by (cases "find_builder (st_calls s) (td_index tc)")
      (auto simp: handle_new handle_known Let_def send_args_def announce_call_def st_sent_sendSSE
        split: option.splits if_splits)
  have d: "\<exists>cs. st_sent s' = st_sent s @ cs" if "delta_step uuid req d s = (y, s')" for d s s' y
  proof -
    let ?s1 = "handle_text uuid (pd_text d) (note_ids d s)"
    have n: "st_sent (note_ids d s) = st_sent s" "st_sent (note_end d s2) = st_sent s2" for s2
      by (simp_all add: note_ids_def note_end_def)
    obtain cs where cs: "st_sent ?s1 = st_sent s @ cs" using t [of "pd_text d" "note_ids d s"] n by auto
    show ?thesis
    proof (cases "pd_tool_call_delta d")
      case None
      with that cs n show ?thesis by (auto simp: delta_step_def Let_def)
    next
      case (Some tc)
      obtain e' s2 where s2: "handle_tool_call uuid req tc ?s1 = (e', s2)" by fastforce
      from h [OF this] cs obtain cs' where "st_sent s2 = st_sent s @ cs'" by auto
      with that s2 n Some show ?thesis by (cases e') (auto simp: delta_step_def Let_def)
    qed
  qed
  obtain y st1 where y: "select_step uuid req e st = (y, st1)" by fastforce
  then have "\<exists>cs. st_sent st1 = st_sent st @ cs" by (cases e) (auto dest: d)
  then obtain cs where cs: "st_sent st1 = st_sent st @ cs" by blast
  show ?case
  proof (cases y)
    case None
    with y Cons.prems have "stream_loop uuid req es st1 = (x, st')" by simp
    from Cons.IH [OF this] cs show ?thesis by auto
  qed (use y Cons.prems cs in auto)
qed simp


definition sample_stream_request :: response_request where
  "sample_stream_request = zero_request\<lparr>rq_model := ''gpt'', rq_stream := True,
     rq_input := \<lparr>in_string = Some ''hi'', in_items = None\<rparr>,
     rq_tools := RawJson (JArr [JObj [(''type'', JStr ''function''), (''name'', JStr ''f'')]])\<rparr>"

definition sample_gateway :: gateway_server where
  "sample_gateway = \<lparr>gs_token_limits = \<lparr>tl_max_prompt_tokens = 0, tl_max_output_tokens = 0\<rparr>,
     gs_store_by_default = True,
     gs_admin_config = \<lparr>ac_enabled = False, ac_claim = [], ac_allowed_values = []\<rparr>\<rparr>"

text \<open>Text, a call in two pieces with its name in the second, and the final delta.\<close>

definition sample_deltas :: "provider_stream_delta list" where
  "sample_deltas =
     [zero_delta\<lparr>pd_text := ''a'', pd_model := ''m''\<rparr>,
      zero_delta\<lparr>pd_tool_call_delta := Some \<lparr>td_index = 0, td_id = ''c1'', td_name = [],
                                            td_arguments = ''{''\<rparr>\<rparr>,
      zero_delta\<lparr>pd_text := ''b''\<rparr>,
      zero_delta\<lparr>pd_tool_call_delta := Some \<lparr>td_index = 0, td_id = [], td_name = ''f'',
                                            td_arguments = ''}''\<rparr>\<rparr>,
      zero_delta\<lparr>pd_done := True\<rparr>]"

definition sample_uuid :: "nat \<Rightarrow> string" where
  "sample_uuid n = replicate n CHR ''x''"

definition sample_run :: "stream_outcome \<times> stream_state \<times> stream_state" where
  "sample_run = run_stream sample_gateway sample_uuid 7 8 sample_stream_request ''openai'' 0
     (map SelDelta sample_deltas)"

lemma sample_marshals: "request_marshals sample_stream_request"
  by (simp add: request_marshals_def sample_stream_request_def zero_request_def)

lemma sample_run_completed: "fst sample_run = StreamCompleted"
  by code_simp


subsection \<open>Items and deltas\<close>

lemma run_completed:
  assumes "run_stream s uuid t0 t1 req pn n es = (StreamCompleted, st, fin)"
  shows "stream_sim (consumed es) st \<and> (request_marshals req \<longrightarrow> seq_inv st \<and> items_inv st) \<and>
     fin = finish_completed s t1 req pn (generateID uuid n ''resp_'') st \<and>
     validateToolCalls (Some req) (collectToolCalls (st_calls st)) = None"
proof -
  obtain x where x: "stream_loop uuid (Some req) es
       (stream_start s t0 req pn (generateID uuid n ''resp_'') (Suc n)) = (x, st)"
    and out: "StreamCompleted = stream_outcome req x st"
    and fin: "fin = finish_completed s t1 req pn (generateID uuid n ''resp_'') st"
    by (rule run_stream_loop [OF assms]) simp
  have nerr: "x \<noteq> Some (ExitLoop err (Some e))" for err e
    using out by (cases err) (auto simp: stream_outcome_def stream_error_def)
  have v: "validateToolCalls (Some req) (collectToolCalls (st_calls st)) = None"
    using out by (auto simp: stream_outcome_def split: option.splits loop_exit.splits)
  have "stream_sim ([] @ consumed es) st"
    by (rule stream_loop_sim [OF stream_start_sim x nerr])
  moreover have "request_marshals req \<longrightarrow> seq_inv st \<and> items_inv st"
    using stream_loop_inv [OF x] stream_start_inv nerr by blast
  ultimately show ?thesis using fin v by simp
qed

lemma sim_sorted_calls: "stream_sim ds st \<Longrightarrow> sortedToolCallBuilders (st_calls st) = st_calls st"
  unfolding sortedToolCallBuilders_def
  by (rule sort_key_id_if_sorted) (simp add: stream_sim_def calls_sim_def)

lemma sim_collect:
  "stream_sim ds st \<Longrightarrow> collectToolCalls (st_calls st) = merge_calls (tool_deltas ds)"
  using calls_sim_merge [of "tool_deltas ds" st]
  by (simp add: collectToolCalls_def sim_sorted_calls)
     (simp add: stream_sim_def builder_call_def [abs_def])

text \<open>The finished items with their output indices, message first.\<close>

definition indexed_items :: "stream_state \<Rightarrow> (nat \<times> output_item) list" where
  "indexed_items st =
     (case st_msg st of None \<Rightarrow> []
      | Some b \<Rightarrow> [(mb_output_index b, builder_message_item ''completed'' b)])
     @ map (\<lambda>b. (tb_output_index b, builder_call_item b)) (st_calls st)"

lemma buildOrdered_indexed:
  "buildOrderedStreamOutput (st_msg st) (st_calls st) = map snd (sort_key fst (indexed_items st))"
  by (simp add: buildOrderedStreamOutput_def indexed_items_def Let_def)

lemma indexed_items_fst: "map fst (indexed_items st) = out_indices st"
  by (simp add: indexed_items_def out_indices_def comp_def split: option.split)

lemma sort_key_enumerate:
  assumes "mset (map fst xs) = mset [0..<k]"
  shows "sort_key fst xs = zip [0..<k] (map snd (sort_key fst xs)) \<and> length xs = k"
proof -
  have "mset (map fst (sort_key fst xs)) = mset [0..<k]"
    using assms by (metis mset_map mset_sort)
  then have "sort [0..<k] = map fst (sort_key fst xs)"
    by (rule properties_for_sort) simp
  then have "map fst (sort_key fst xs) = [0..<k]" by (simp add: sort_key_id_if_sorted)
  moreover have "length xs = k" using arg_cong [OF assms, of size] by simp
  ultimately show ?thesis by (metis zip_map_fst_snd)
qed

lemma done_items_message:
  "done_items (st_sent (send_message_done b st))
     = done_items (st_sent st) @ [(mb_output_index b, builder_message_item ''completed'' b)]"
  by (simp add: send_message_done_def st_sent_sendSSE)

lemma done_items_calls:
  "done_items (st_sent (fold send_call_done bs st))
     = done_items (st_sent st) @ map (\<lambda>b. (tb_output_index b, builder_call_item b)) bs"
  by (induction bs arbitrary: st) (simp_all add: send_call_done_def st_sent_sendSSE)

lemma finish_keeps:
  "added_indices (st_sent (finish_completed s t req pn rid st)) = added_indices (st_sent st)"
  "text_deltas (st_sent (finish_completed s t req pn rid st)) = text_deltas (st_sent st)"
  "arg_deltas i (st_sent (finish_completed s t req pn rid st)) = arg_deltas i (st_sent st)"
proof -
  have "added_indices (st_sent (fold send_call_done bs s')) = added_indices (st_sent s') \<and>
     text_deltas (st_sent (fold send_call_done bs s')) = text_deltas (st_sent s') \<and>
     arg_deltas i (st_sent (fold send_call_done bs s')) = arg_deltas i (st_sent s')" for bs s'
    by (induction bs arbitrary: s') (simp_all add: send_call_done_def st_sent_sendSSE)
  then show
    "added_indices (st_sent (finish_completed s t req pn rid st)) = added_indices (st_sent st)"
    "text_deltas (st_sent (finish_completed s t req pn rid st)) = text_deltas (st_sent st)"
    "arg_deltas i (st_sent (finish_completed s t req pn rid st)) = arg_deltas i (st_sent st)"
    by (simp_all add: finish_completed_def Let_def sendSSEDone_def st_sent_sendSSE
        send_message_done_def split: option.split)
qed

lemma finish_done_items:
  assumes "stream_sim ds st" and "items_inv st"
  shows "done_items (st_sent (finish_completed s t req pn rid st)) = indexed_items st"
  using assms(2)
  by (simp add: finish_completed_def Let_def sendSSEDone_def st_sent_sendSSE done_items_calls
      done_items_message sim_sorted_calls [OF assms(1)] indexed_items_def items_inv_def
      split: option.split)

lemma completed_output:
  "rsp_output (completed_response s t req pn rid st) = buildOrderedStreamOutput (st_msg st) (st_calls st)"
  by (simp add: completed_response_def buildResponseWithOutput_def)

text \<open>A completed stream is a faithful account of its final response. The items announced by
  \<open>output_item.added\<close> get the positions 0, 1, 2, ... in order, and the \<open>output_item.done\<close> events
  carry exactly the items of the final \<open>output\<close> list, each at its position, none missing and
  none twice.\<close>
theorem stream_items_faithful:
  assumes "request_marshals req"
    and "run_stream s uuid t0 t1 req pn n es = (StreamCompleted, st, fin)"
  shows "let output = rsp_output (completed_response s t1 req pn (generateID uuid n ''resp_'') st) in
     added_indices (st_sent fin) = [0..<length output] \<and>
     mset (done_items (st_sent fin)) = mset (zip [0..<length output] output)"
proof -
  from run_completed [OF assms(2)] assms(1) have sim: "stream_sim (consumed es) st"
    and inv: "items_inv st"
    and fin: "fin = finish_completed s t1 req pn (generateID uuid n ''resp_'') st" by auto
  have m: "mset (map fst (indexed_items st)) = mset [0..<st_next_output_idx st]"
    using inv unfolding indexed_items_fst by (simp only: items_inv_def)
  from sort_key_enumerate [OF m] inv show ?thesis
    unfolding Let_def completed_output buildOrdered_indexed fin finish_keeps
      finish_done_items [OF sim inv]
    by (metis items_inv_def length_map length_sort mset_sort)
qed

lemma sample_run_split:
  obtains st fin where "sample_run = (StreamCompleted, st, fin)"
  using sample_run_completed by (metis fst_conv prod_cases3)

theorem stream_items_faithful_witness:
  "added_indices (st_sent (snd (snd sample_run))) = [0, 1] \<and>
   (\<exists>output. mset (done_items (st_sent (snd (snd sample_run)))) = mset (zip [0, 1] output))"
proof -
  obtain st fin where r: "sample_run = (StreamCompleted, st, fin)" by (rule sample_run_split)
  have "st = fst (snd sample_run)" unfolding r by simp
  then have l: "length (buildOrderedStreamOutput (st_msg st) (st_calls st)) = 2"
    by (simp only:) code_simp
  have u: "[0..<2] = [0, 1::nat]" by (simp add: upt_rec)
  from stream_items_faithful [OF sample_marshals r [unfolded sample_run_def]]
  show ?thesis unfolding r Let_def completed_output l u by auto
qed

text \<open>The deltas a client receives add up to what it is told at the end. In a completed
  stream the text deltas concatenate to the text of the result, and the argument deltas sent
  for an output position concatenate to the arguments of the function call the final output
  has at that position.\<close>
theorem stream_deltas_add_up:
  assumes "request_marshals req"
    and "run_stream s uuid t0 t1 req pn n es = (StreamCompleted, st, fin)"
  shows "text_deltas (st_sent fin) = pr_text (stream_result req st) \<and>
     (\<forall>(i, item) \<in> set (done_items (st_sent fin)). oi_type item = ''function_call'' \<longrightarrow>
        arg_deltas i (st_sent fin) = oi_arguments item)"
proof -
  from run_completed [OF assms(2)] assms(1) have sim: "stream_sim (consumed es) st"
    and inv: "items_inv st"
    and fin: "fin = finish_completed s t1 req pn (generateID uuid n ''resp_'') st" by auto
  have "oi_type (builder_message_item ''completed'' b) \<noteq> ''function_call''" for b
    by (simp add: builder_message_item_def)
  with inv show ?thesis
    unfolding fin finish_keeps finish_done_items [OF sim inv]
    by (auto simp: items_inv_def stream_result_def msg_text_def indexed_items_def
        builder_call_item_def split: option.splits)
qed

theorem stream_deltas_add_up_witness:
  "text_deltas (st_sent (snd (snd sample_run))) = ''ab'' \<and>
   arg_deltas 1 (st_sent (snd (snd sample_run))) = ''{}''"
proof -
  obtain st fin where r: "sample_run = (StreamCompleted, st, fin)" by (rule sample_run_split)
  have st: "st = fst (snd sample_run)" unfolding r by simp
  have fin: "fin = snd (snd sample_run)" unfolding r by simp
  have t: "pr_text (stream_result sample_stream_request st) = ''ab''"
    unfolding st by code_simp
  have d: "(1, call_item ''item_xx'' ''completed'' ''c1'' ''f'' ''{}'') \<in> set (done_items (st_sent fin))"
    unfolding fin by code_simp
  from stream_deltas_add_up [OF sample_marshals r [unfolded sample_run_def]] t d
  show ?thesis unfolding r by fastforce
qed

end
