(* ===== verification/StreamPolicy.thy ===== *)
theory StreamPolicy
  imports StreamProps
begin

text \<open>
  The meaning of a stream as the merge of its deltas, and the tool call policy: what
  \<open>validateToolCalls\<close> accepts, and that a stream is accepted exactly when the synchronous
  handler would accept the merged result.
\<close>

subsection \<open>The merged result\<close>

definition merge_deltas :: "response_request \<Rightarrow> provider_stream_delta list \<Rightarrow> provider_result" where
  "merge_deltas req ds =
     \<lparr>pr_id = first_nonempty (map pd_id ds),
      pr_model = (let m = first_nonempty (map pd_model ds) in if m \<noteq> [] then m else rq_model req),
      pr_text = concat (map pd_text ds), pr_usage = opt_or (last_some (map pd_usage ds)) zero_usage,
      pr_tool_calls = merge_calls (tool_deltas ds),
      pr_replay_message = last_some (map pd_replay_message ds)\<rparr>"

lemma sim_result: "stream_sim ds st \<Longrightarrow> stream_result req st = merge_deltas req ds"
  using sim_collect [of ds st]
  by (simp add: stream_result_def merge_deltas_def stream_sim_def msg_text_def Let_def)

lemma completed_merge:
  "run_stream s uuid t0 t1 req pn n es = (StreamCompleted, st, fin) \<Longrightarrow>
   stream_result req st = merge_deltas req (consumed es)"
  using run_completed sim_result by blast

text \<open>C8: A completed stream means the merge of the deltas it consumed: the text is their
  concatenation, each tool call has the first non-empty id and name sent for its index and the
  concatenation of its argument pieces, calls come in the order their indices first appeared,
  model and id are the first ones given and usage and replay message the last ones. Deltas after
  the final one are ignored.\<close>
theorem stream_result_is_merge:
  assumes "run_stream s uuid t0 t1 req pn n es = (StreamCompleted, st, fin)"
  shows "stream_result req st = merge_deltas req (consumed es)"
  by (rule completed_merge [OF assms])

theorem stream_result_is_merge_witness:
  "stream_result sample_stream_request (fst (snd sample_run)) =
   \<lparr>pr_id = [], pr_model = ''m'', pr_text = ''ab'', pr_usage = zero_usage,
    pr_tool_calls = [\<lparr>tc_id = ''c1'', tc_name = ''f'', tc_arguments = ''{}''\<rparr>],
    pr_replay_message = None\<rparr>"
proof -
  obtain st fin where r: "sample_run = (StreamCompleted, st, fin)" by (rule sample_run_split)
  have "merge_deltas sample_stream_request (consumed (map SelDelta sample_deltas)) =
   \<lparr>pr_id = [], pr_model = ''m'', pr_text = ''ab'', pr_usage = zero_usage,
    pr_tool_calls = [\<lparr>tc_id = ''c1'', tc_name = ''f'', tc_arguments = ''{}''\<rparr>],
    pr_replay_message = None\<rparr>" by code_simp
  with stream_result_is_merge [OF r [unfolded sample_run_def]] show ?thesis unfolding r by simp
qed

subsection \<open>What the policy accepts\<close>

definition call_permitted :: "response_request \<Rightarrow> parsed_tool_choice \<Rightarrow> tool_call \<Rightarrow> bool" where
  "call_permitted req tc call \<longleftrightarrow>
     ptc_mode tc \<noteq> ''none'' \<and>
     (tc_name call \<noteq> [] \<longrightarrow>
        (\<exists>names. DeclaredToolNames (Some req) = Inr names \<and> tc_name call \<in> set names) \<and>
        (ptc_mode tc = ''function'' \<longrightarrow> tc_name call = ptc_required_tool_name tc) \<and>
        (ptc_mode tc = ''allowed_tools'' \<longrightarrow> tc_name call \<in> set (ptc_allowed_tools tc)))"

lemma validate_name:
  "validateToolCallName (Some req) (tc_name call) = None \<longleftrightarrow>
     (\<exists>tc. ParseToolChoice (Some req) = Inr tc \<and> call_permitted req tc call)"
  by (auto simp: check_declared_name_def call_permitted_def simp del: ParseToolChoice.simps
      DeclaredToolNames.simps split: sum.splits if_splits)

text \<open>The tool call policy, exactly. The gateway accepts a model's tool calls if and only if
  the request's \<open>tool_choice\<close> parses, no call is made under \<open>none\<close>, at least one is made under
  \<open>required\<close>, \<open>any\<close> or a named function, and every call that has a name names a declared tool,
  the required one if one is required, and an allowed one if a list of allowed tools is given.\<close>
theorem tool_policy_exact:
  "validateToolCalls (Some req) calls = None \<longleftrightarrow>
     (\<exists>tc. ParseToolChoice (Some req) = Inr tc \<and>
        (\<forall>call \<in> set calls. call_permitted req tc call) \<and>
        (ptc_mode tc \<in> {''required'', ''any'', ''function''} \<longrightarrow> calls \<noteq> []))"
proof (cases "ParseToolChoice (Some req)")
  case (Inl e)
  have "validateToolCallName (Some req) n \<noteq> None" for n using Inl by (simp del: ParseToolChoice.simps)
  with Inl show ?thesis
    by (auto simp del: ParseToolChoice.simps validateToolCallName.simps split: option.split)
next
  case (Inr tc)
  have name: "validateToolCallName (Some req) (tc_name call) = None \<longleftrightarrow> call_permitted req tc call" for call
    using validate_name [of req call] Inr
    by (simp del: ParseToolChoice.simps validateToolCallName.simps)
  have first: "first_some (\<lambda>c. validateToolCallName (Some req) (tc_name c)) calls = None \<longleftrightarrow>
      (\<forall>call \<in> set calls. call_permitted req tc call)"
    by (simp only: first_some_None name)
  show ?thesis
  proof (cases "first_some (\<lambda>c. validateToolCallName (Some req) (tc_name c)) calls")
    case None
    with first Inr show ?thesis
      by (auto simp del: ParseToolChoice.simps validateToolCallName.simps)
  next
    case (Some e)
    with first Inr show ?thesis
      by (auto simp del: ParseToolChoice.simps validateToolCallName.simps)
  qed
qed

theorem tool_policy_exact_witness:
  "validateToolCalls (Some sample_stream_request) [\<lparr>tc_id = ''1'', tc_name = ''f'', tc_arguments = []\<rparr>] = None \<and>
   validateToolCalls (Some sample_stream_request) [\<lparr>tc_id = ''1'', tc_name = ''g'', tc_arguments = []\<rparr>] \<noteq> None"
proof -
  have p: "ParseToolChoice (Some sample_stream_request) = Inr (parsed_mode ''auto'')" by code_simp
  have d: "DeclaredToolNames (Some sample_stream_request) = Inr [''f'']" by code_simp
  show ?thesis
    unfolding tool_policy_exact p
    by (simp add: call_permitted_def parsed_mode_def d del: DeclaredToolNames.simps)
qed

subsection \<open>Streaming and synchronous validation agree\<close>

fun exit_of :: "select_event list \<Rightarrow> loop_exit option" where
  "exit_of [] = None"
| "exit_of (SelDelta d # es) = (if pd_done d then Some (ExitLoop None None) else exit_of es)"
| "exit_of (SelDeltaClosed err # es) = Some (ExitLoop err None)"
| "exit_of (SelErr err # es) = Some (ExitLoop err None)"
| "exit_of (SelDisconnect # es) = Some ExitDisconnect"

lemma loop_exit_of:
  "stream_loop uuid req es st = (x, st') \<Longrightarrow> (\<And>err e. x \<noteq> Some (ExitLoop err (Some e))) \<Longrightarrow>
   x = exit_of es"
proof (induction es arbitrary: st)
  case (Cons e es)
  show ?case
  proof (cases e)
    case (SelDelta d)
    obtain y st1 where y: "delta_step uuid req d st = (y, st1)" by fastforce
    have nerr: "y \<noteq> Some (ExitLoop err (Some e))" for err e
      using y Cons.prems(1) Cons.prems(2) [of err e] by (auto simp: SelDelta)
    have yd: "y = (if pd_done d then Some (ExitLoop None None) else None)"
      using delta_step_parts [OF y nerr] by blast
    show ?thesis
    proof (cases "pd_done d")
      case False
      with yd y Cons.prems(1) have "stream_loop uuid req es st1 = (x, st')" by (simp add: SelDelta)
      from Cons.IH [OF this Cons.prems(2)] False show ?thesis by (simp add: SelDelta)
    qed (use yd y Cons.prems(1) in \<open>simp add: SelDelta\<close>)
  qed (use Cons.prems(1) in auto)
qed simp

lemma first_nonempty_later:
  "first_nonempty xs = [] \<Longrightarrow> x \<noteq> [] \<Longrightarrow> first_nonempty (xs @ x # ys) = x"
proof -
  assume a: "first_nonempty xs = []" "x \<noteq> []"
  have "filter (\<lambda>x. x \<noteq> []) xs = []"
  proof (cases "filter (\<lambda>x. x \<noteq> []) xs")
    case (Cons y ys)
    then have "y \<in> set (filter (\<lambda>x. x \<noteq> []) xs)" by simp
    then have "y \<noteq> []" by simp
    with a(1) Cons show ?thesis by (simp add: first_nonempty_def)
  qed simp
  with a(2) show ?thesis by (simp add: first_nonempty_def)
qed

lemma handle_no_error:
  assumes sim: "calls_sim tds st" and empty: "validateToolCallName req [] = None"
    and final: "validateToolCallName req (tc_name (call_at (td_index tc) (tds @ tc # rest))) = None"
  shows "fst (handle_tool_call uuid req tc st) = None"
proof (cases "find_builder (st_calls st) (td_index tc)")
  case None
  then have "td_index tc \<notin> set (map td_index tds)"
    using calls_sim_index [OF sim] by (metis find_builder_None firsts_simps(3) set_map)
  then have f: "filter (\<lambda>td. td_index td = td_index tc) tds = []"
    by (simp add: filter_empty_conv image_iff) metis
  have "validateToolCallName req (td_name tc) = None"
  proof (cases "td_name tc = []")
    case False
    then have "tc_name (call_at (td_index tc) (tds @ tc # rest)) = td_name tc"
      using first_nonempty_later [of "[]" "td_name tc"] f by (simp add: call_at_def)
    with final show ?thesis by simp
  qed (use empty in simp)
  then show ?thesis by (simp add: handle_new [OF None] Let_def)
next
  case (Some b)
  have b: "b \<in> set (st_calls st)" "tb_stream_index b = td_index tc"
    using find_builder_Some [OF Some] by auto
  have bc: "tb_name b = tc_name (call_at (td_index tc) tds)"
    using calls_sim_builder [OF sim b(1)] b(2) by (simp add: builder_call_def) (metis tool_call.select_convs(2))
  show ?thesis
  proof (cases "td_name tc \<noteq> [] \<and> tb_name b = []")
    case True
    then have "tc_name (call_at (td_index tc) (tds @ tc # rest)) = td_name tc"
      using bc by (simp add: call_at_def Let_def first_nonempty_later)
    with final show ?thesis by (auto simp: handle_known [OF Some] Let_def)
  next
    case False
    then show ?thesis by (auto simp: handle_known [OF Some] Let_def)
  qed
qed

lemma loop_no_error:
  assumes "validateToolCallName req [] = None"
  shows "stream_sim ds st \<Longrightarrow> stream_loop uuid req es st = (x, st') \<Longrightarrow>
    (\<And>i. i \<in> set (map td_index (tool_deltas (ds @ consumed es))) \<Longrightarrow>
       validateToolCallName req (tc_name (call_at i (tool_deltas (ds @ consumed es)))) = None) \<Longrightarrow>
    x \<noteq> Some (ExitLoop err (Some e))"
proof (induction es arbitrary: ds st)
  case (Cons ev es)
  show ?case
  proof (cases ev)
    case (SelDelta d)
    let ?t = "handle_text uuid (pd_text d) (note_ids d st)"
    let ?rest = "if pd_done d then [] else consumed es"
    have app: "tool_deltas (ds @ d # r) = tool_deltas (ds @ [d]) @ tool_deltas r" for r
      by (simp add: tool_deltas_def map_filter_def)
    have "calls_sim (tool_deltas ds) (note_ids d st)"
      using Cons.prems(1) by (auto simp: stream_sim_def calls_sim_def note_ids_def)
    then have t: "calls_sim (tool_deltas ds) ?t" by (rule calls_sim_mono) simp_all
    have noerr: "fst (handle_tool_call uuid req tc ?t) = None" if "pd_tool_call_delta d = Some tc" for tc
    proof (rule handle_no_error [OF t assms])
      show "validateToolCallName req
         (tc_name (call_at (td_index tc) (tool_deltas ds @ tc # tool_deltas ?rest))) = None"
        using Cons.prems(3) [of "td_index tc"] that by (simp add: SelDelta app)
    qed
    obtain y st1 where y: "delta_step uuid req d st = (y, st1)" by fastforce
    have nerr: "y \<noteq> Some (ExitLoop err (Some e))" for err e
      using y noerr
      by (cases "pd_tool_call_delta d") (auto simp: delta_step_def Let_def split: prod.splits if_splits)
    have sim1: "stream_sim (ds @ [d]) st1" by (rule delta_step_sim [OF Cons.prems(1) y nerr])
    have yd: "y = (if pd_done d then Some (ExitLoop None None) else None)"
      using delta_step_parts [OF y nerr] by blast
    show ?thesis
    proof (cases "pd_done d")
      case False
      with yd y Cons.prems(2) have l: "stream_loop uuid req es st1 = (x, st')" by (simp add: SelDelta)
      from Cons.IH [OF sim1 l] Cons.prems(3) False show ?thesis by (simp add: SelDelta)
    qed (use yd y Cons.prems(2) in \<open>auto simp: SelDelta\<close>)
  qed (use Cons.prems in auto)
qed simp

lemma loop_no_calls:
  "tool_deltas (consumed es) = [] \<Longrightarrow> stream_loop uuid req es st = (x, st') \<Longrightarrow>
   x \<noteq> Some (ExitLoop err (Some e))"
proof (induction es arbitrary: st)
  case (Cons ev es)
  show ?case
  proof (cases ev)
    case (SelDelta d)
    have d: "pd_tool_call_delta d = None" "\<not> pd_done d \<Longrightarrow> tool_deltas (consumed es) = []"
      using Cons.prems(1) by (auto simp: SelDelta tool_deltas_def map_filter_def split: if_splits)
    show ?thesis
      using Cons.prems(2) Cons.IH d by (auto simp: SelDelta delta_step_def Let_def split: if_splits)
  qed (use Cons.prems(2) in auto)
qed simp

lemma stream_accepts:
  "fst (run_stream s uuid t0 t1 req pn n es) = StreamCompleted \<longleftrightarrow>
     exit_of es = Some (ExitLoop None None) \<and>
     validateToolCalls (Some req) (pr_tool_calls (merge_deltas req (consumed es))) = None"
proof -
  let ?rid = "generateID uuid n ''resp_''"
  obtain out st fin where r: "run_stream s uuid t0 t1 req pn n es = (out, st, fin)"
    by (metis prod_cases3)
  obtain x where x: "stream_loop uuid (Some req) es (stream_start s t0 req pn ?rid (Suc n)) = (x, st)"
    and out: "out = stream_outcome req x st"
    by (rule run_stream_loop [OF r])
  let ?calls = "merge_calls (tool_deltas (consumed es))"
  have mc: "pr_tool_calls (merge_deltas req (consumed es)) = ?calls" by (simp add: merge_deltas_def)
  have "out = StreamCompleted" if ex: "exit_of es = Some (ExitLoop None None)"
    and ok: "validateToolCalls (Some req) ?calls = None"
  proof -
    have nerr: "x \<noteq> Some (ExitLoop err (Some e))" for err e
    proof (cases "?calls = []")
      case True
      then have "tool_deltas (consumed es) = []" by (simp add: merge_calls_def firsts_def)
      then show ?thesis
        using loop_no_calls [OF _ x] by blast
    next
      case False
      obtain tc where tc: "ParseToolChoice (Some req) = Inr tc"
          "\<forall>call \<in> set ?calls. call_permitted req tc call"
        using ok unfolding tool_policy_exact by blast
      then have empty: "validateToolCallName (Some req) [] = None"
        using False by (cases ?calls) (auto simp: call_permitted_def simp del: ParseToolChoice.simps)
      show ?thesis
      proof (rule loop_no_error [OF empty stream_start_sim x])
        fix i assume "i \<in> set (map td_index (tool_deltas ([] @ consumed es)))"
        then have "call_at i (tool_deltas (consumed es)) \<in> set ?calls" by (auto simp: merge_calls_def)
        with tc show "validateToolCallName (Some req)
            (tc_name (call_at i (tool_deltas ([] @ consumed es)))) = None"
          using validate_name [of req "call_at i (tool_deltas (consumed es))"]
          by (simp del: ParseToolChoice.simps validateToolCallName.simps)
      qed
    qed
    have "stream_sim ([] @ consumed es) st" by (rule stream_loop_sim [OF stream_start_sim x nerr])
    then have "collectToolCalls (st_calls st) = ?calls" using sim_collect by simp
    moreover have "x = Some (ExitLoop None None)" using loop_exit_of [OF x nerr] ex by simp
    ultimately show ?thesis using ok by (simp add: out stream_outcome_def stream_error_def)
  qed
  moreover have "exit_of es = Some (ExitLoop None None) \<and> validateToolCalls (Some req) ?calls = None"
    if c: "out = StreamCompleted"
  proof -
    have nerr: "x \<noteq> Some (ExitLoop err (Some e))" for err e
      using out c by (cases err) (auto simp: stream_outcome_def stream_error_def)
    have "x = Some (ExitLoop None None)"
      using out c nerr by (auto simp: stream_outcome_def stream_error_def
          split: option.splits loop_exit.splits)
    with loop_exit_of [OF x nerr] run_completed [OF r [unfolded c]] sim_collect
    show ?thesis by metis
  qed
  ultimately show ?thesis unfolding r mc by auto
qed

text \<open>C4: Streaming enforces the same tool policy as the synchronous path, although it checks
  names while they arrive: a stream completes if and only if the provider ends it cleanly and
  the merged tool calls pass \<open>validateToolCalls\<close>, the test the synchronous handler applies to
  a finished result.\<close>
theorem stream_accepts_iff_sync:
  "fst (run_stream s uuid t0 t1 req pn n es) = StreamCompleted \<longleftrightarrow>
     exit_of es = Some (ExitLoop None None) \<and>
     validateToolCalls (Some req) (pr_tool_calls (merge_deltas req (consumed es))) = None"
  by (rule stream_accepts)

end
