(* ===== verification/GatewayProps.thy ===== *)
theory GatewayProps
  imports Gateway StreamPolicy
begin

text \<open>
  Properties of the request handlers: tenant isolation, the storage policy, what is stored
  after a synchronous and a streamed response, reading it back, and the use of a stored
  conversation in the next turn.
\<close>

subsection \<open>Isolation\<close>

lemma load_previous_denied:
  assumes "so_get ops cs k = Inr (Some conv)" and "\<not> may_access s prin conv"
    and "rq_previous_response_id req = Some k" and "k \<noteq> []"
  shows "load_previous ops s prin req cs = Inl (gw_error ''conversation not found'' ''not_found'' 404)"
  using assms by (simp add: load_previous_def)


definition sample_conversation_store :: sql_store where
  "sample_conversation_store = sample_store\<lparr>ss_rows :=
     [\<lparr>cr_id = ''resp_1'', cr_model = ''m'', cr_messages = ColVal [new_message ''assistant'' [] []],
       cr_request = ColNull, cr_replay = ColNull, cr_owner_iss = ''iss'', cr_owner_sub = ''alice'',
       cr_tenant_id = ''t1'', cr_created_at = 0, cr_updated_at = 0\<rparr>]\<rparr>"

definition sample_principal :: "string \<Rightarrow> principal" where
  "sample_principal sub = \<lparr>p_issuer = ''iss'', p_subject = sub, p_tenant_id = ''t1'', p_roles = []\<rparr>"

definition sample_env :: gw_env where
  "sample_env = \<lparr>ge_uuid = sample_uuid, ge_t0 = 1, ge_t1 = 2, ge_create = 3, ge_flusher = True,
     ge_select = (\<lambda>(ds, err). map SelDelta ds @ [SelDeltaClosed err])\<rparr>"

definition sample_conversation :: conversation where
  "sample_conversation =
     \<lparr>cv_id = ''resp_1'', cv_messages = [new_message ''assistant'' [] []], cv_replay = None,
      cv_model = ''m'', cv_request = None, cv_owner_iss = ''iss'', cv_owner_sub = ''alice'',
      cv_tenant_id = ''t1'', cv_created_at = 0, cv_updated_at = 0\<rparr>"

lemma sample_conversation_get: "sql_Get sample_conversation_store ''resp_1'' = Inr (Some sample_conversation)"
  by code_simp

lemma sample_bob_denied: "\<not> may_access sample_gateway (Some (sample_principal ''bob'')) sample_conversation"
  by code_simp


text \<open>Deleting a response skips the ownership check the other operations make. Whoever the
  caller is, principal or none, \<open>DELETE /v1/responses/{id}\<close> on an existing conversation answers
  204 and removes it, even for a caller whom GET answers 404.\<close>
theorem delete_response_ignores_owner:
  assumes "sql_inv cs" and "sql_Get cs k = Inr (Some conv)"
    and "after_last ''/responses/'' (hr_path r) = Some k" and "k \<noteq> []" and "hr_method r = ''DELETE''"
  shows "let (resp, cs') = handleResponseByID (sql_ops like) s env r cs in
     resp = reply 204 GwEmpty \<and> sql_Get cs' k = Inr None"
proof -
  have g: "so_get (sql_ops like) cs k = Inr (Some conv)" using assms(2) by (simp add: sql_ops_def)
  obtain e cs' where d: "so_delete (sql_ops like) cs k = (e, cs')" by fastforce
  have "e = None" using sqlst.delete_ok [OF assms(1), of like k] d by simp
  moreover have "so_get (sql_ops like) cs' k = Inr None"
    using sqlst.delete_get [OF assms(1), of like k k] d by simp
  ultimately show ?thesis
    using assms(3-5) g d by (simp add: handleResponseByID_def handleDeleteResponse_def sql_ops_def)
qed

theorem delete_response_ignores_owner_witness:
  "let r = zero_http\<lparr>hr_method := ''DELETE'', hr_path := ''/v1/responses/resp_1'',
              hr_principal := Some (sample_principal ''bob'')\<rparr>;
       (resp, cs') = handleResponseByID (sql_ops (=)) sample_gateway sample_env r sample_conversation_store
   in \<not> may_access sample_gateway (hr_principal r) sample_conversation \<and>
      rs_status resp = 204 \<and> sql_Get cs' ''resp_1'' = Inr None"
proof -
  let ?r = "zero_http\<lparr>hr_method := ''DELETE'', hr_path := ''/v1/responses/resp_1'',
              hr_principal := Some (sample_principal ''bob'')\<rparr>"
  have i: "sql_inv sample_conversation_store"
    by (simp add: sql_inv_def sample_conversation_store_def sample_store_def row_decodes_def)
  have p: "after_last ''/responses/'' (hr_path ?r) = Some ''resp_1''"
    by (simp add: has_prefix_def)
  from delete_response_ignores_owner [OF i sample_conversation_get p, of "(=)" sample_gateway sample_env]
    sample_bob_denied
  show ?thesis by (auto simp: Let_def split: prod.splits)
qed

subsection \<open>Storage policy\<close>

definition store_discipline ::
  "gateway_server \<Rightarrow> response_request \<Rightarrow> 's \<Rightarrow> gw_reply \<times> 's \<times> gw_effects \<Rightarrow> bool" where
  "store_discipline s req cs res =
     (case res of (resp, cs', eff) \<Rightarrow>
        (\<not> shouldStore s req \<longrightarrow> cs' = cs) \<and> (rs_status resp \<noteq> 200 \<longrightarrow> cs' = cs \<and> eff = no_effects) \<and>
        (cs' \<noteq> cs \<longrightarrow> length (ef_usage eff) = 1))"

lemma store_discipline_error: "store_discipline s req cs (resp, cs, no_effects)"
  by (simp add: store_discipline_def)

lemma store_discipline_recorded:
  "(\<not> shouldStore s req \<Longrightarrow> cs' = cs) \<Longrightarrow>
   store_discipline s req cs (reply 200 b, cs', record_usage prin pn m u rid str)"
  by (simp add: store_discipline_def record_usage_def)

lemma sync_discipline:
  "store_discipline s req cs (handleSyncResponse ops s env prin p pm rr req sm cs)"
  unfolding handleSyncResponse_def Let_def
  by (auto simp del: validateToolCalls.simps intro: store_discipline_error store_discipline_recorded
      split: sum.split option.split)

lemma stream_discipline:
  "store_discipline s req cs (handleStreamingResponse ops s env prin p pm rr req sm cs)"
  unfolding handleStreamingResponse_def Let_def
  by (auto intro: store_discipline_error store_discipline_recorded split: prod.split)

lemma respond_store: "store_discipline s req cs (respond ops s env mord pord reg reg' prin req prev cs)"
  unfolding respond_def Let_def
  by (auto intro: store_discipline_error sync_discipline stream_discipline
      simp del: Validate.simps split: option.split sum.split prod.split)

lemma inherit_store: "rq_store (InheritMissingContext req prev) = rq_store req"
  by (cases prev) simp_all

text \<open>Nothing is kept against the caller's wish or after a failure. A request with
  \<open>store: false\<close> leaves the conversation store as it was, whatever the server default and the
  conversation it continues; any answer other than 200 leaves it as it was and records no
  usage; and a conversation is only ever stored together with exactly one usage event.\<close>
theorem storage_policy:
  assumes "handleResponses ops s env mord pord reg reg' r (BodyOk req) cs = (resp, cs', eff)"
  shows "(rq_store req = Some False \<longrightarrow> cs' = cs) \<and>
     (rs_status resp \<noteq> 200 \<longrightarrow> cs' = cs \<and> eff = no_effects) \<and>
     (cs' \<noteq> cs \<longrightarrow> length (ef_usage eff) = 1)"
proof (cases "hr_method r = ''POST''")
  case False
  with assms show ?thesis by (auto simp: handleResponses_def)
next
  case True
  show ?thesis
  proof (cases "load_previous ops s (hr_principal r) req cs")
    case (Inl err)
    with assms True show ?thesis by (auto simp: handleResponses_def)
  next
    case (Inr prev)
    let ?req = "case prev of None \<Rightarrow> req | Some conv \<Rightarrow> InheritMissingContext req (cv_request conv)"
    have "respond ops s env mord pord reg reg' (hr_principal r) ?req prev cs = (resp, cs', eff)"
      using assms True Inr by (simp add: handleResponses_def)
    moreover have "rq_store ?req = rq_store req" by (simp add: inherit_store split: option.split)
    ultimately show ?thesis
      using respond_store [of s ?req cs ops env mord pord reg reg' "hr_principal r" prev]
      by (auto simp: store_discipline_def shouldStore_def)
  qed
qed

definition sample_provider :: provider where
  "sample_provider =
     \<lparr>pv_name = ''openai'',
      pv_generate = (\<lambda>msgs req. Inr \<lparr>pr_id = ''x'', pr_model = ''m'', pr_text = ''ab'', pr_usage = zero_usage,
         pr_tool_calls = [\<lparr>tc_id = ''c1'', tc_name = ''f'', tc_arguments = ''{}''\<rparr>],
         pr_replay_message = None\<rparr>),
      pv_stream = (\<lambda>msgs req. (sample_deltas, None))\<rparr>"

definition sample_provider_registry :: "provider registry" where
  "sample_provider_registry =
     \<lparr>rg_providers = [(''oai'', sample_provider)], rg_models = [''gpt'' \<mapsto> ''oai''],
      rg_model_ids = Map.empty,
      rg_model_list = [\<lparr>me_name = ''gpt'', me_provider = ''oai'', me_provider_model_id = []\<rparr>]\<rparr>"

theorem storage_policy_witness:
  "fst (snd (handleResponses (sql_ops (=)) sample_gateway sample_env id id sample_provider_registry
     sample_provider_registry (zero_http\<lparr>hr_method := ''POST''\<rparr>)
     (BodyOk (sample_stream_request\<lparr>rq_store := Some False\<rparr>)) sample_store)) = sample_store"
proof -
  let ?req = "sample_stream_request\<lparr>rq_store := Some False\<rparr>"
  obtain resp cs' eff where h: "handleResponses (sql_ops (=)) sample_gateway sample_env id id
      sample_provider_registry sample_provider_registry (zero_http\<lparr>hr_method := ''POST''\<rparr>)
      (BodyOk ?req) sample_store = (resp, cs', eff)"
    by (metis prod_cases3)
  from storage_policy [OF h] show ?thesis unfolding h by simp
qed

subsection \<open>What is stored\<close>

definition turn_messages :: "message list \<Rightarrow> provider_result \<Rightarrow> message list" where
  "turn_messages storeMsgs result =
     storeMsgs @ (case buildAssistantMessage result of Some m \<Rightarrow> [m] | None \<Rightarrow> [])"

definition owned_by :: "principal option \<Rightarrow> conversation \<Rightarrow> bool" where
  "owned_by prin c \<longleftrightarrow> cv_owner_iss c = ow_iss (ownerFromPrincipal prin) \<and>
     cv_owner_sub c = ow_sub (ownerFromPrincipal prin) \<and>
     cv_tenant_id c = ow_tenant (ownerFromPrincipal prin)"

lemma owned_may_access: "owned_by prin c \<Longrightarrow> may_access s prin c"
  by (cases prin) (auto simp: owned_by_def may_access_def ownerFromPrincipal_def)

context persistent_store begin

lemma store_result_get:
  assumes "inv cs" and "so_get ops cs rid = Inr None"
  shows "\<exists>c. so_get ops (store_result ops env prin pn rid model req sm result items cs) rid = Inr (Some c) \<and>
     cv_id c = rid \<and> cv_messages c = turn_messages sm result \<and> cv_model c = model \<and>
     cv_request c = Some req \<and> owned_by prin c \<and>
     (buildAssistantMessage result \<noteq> None \<longrightarrow>
        cv_replay c = buildReplayState pn result items (int (length sm)))"
proof -
  let ?ow = "ownerFromPrincipal prin"
  have *: "\<exists>c. so_get ops (snd (so_create ops cs now rid model msgs ?ow (Some req) rep)) rid = Inr (Some c) \<and>
     cv_id c = rid \<and> cv_messages c = msgs \<and> cv_model c = model \<and> cv_request c = Some req \<and> owned_by prin c \<and>
     cv_replay c = rep"
    for now msgs rep
    using create_get [OF assms(1), of now rid model msgs ?ow "Some req" rep]
      create_owner [OF assms, of now model msgs ?ow "Some req" rep]
    by (auto simp: owned_by_def)
  show ?thesis
  proof (cases "buildAssistantMessage result")
    case None
    then show ?thesis using * [of "ge_create env" sm "buildReplayState pn result items (- 1)"]
      by (auto simp: store_result_def turn_messages_def)
  next
    case (Some m)
    then show ?thesis
      using * [of "ge_create env" "sm @ [m]" "buildReplayState pn result items (int (length sm))"]
      by (simp add: store_result_def turn_messages_def Let_def)
  qed
qed

lemma store_result_inv:
  "inv cs \<Longrightarrow> inv (store_result ops env prin pn rid model req sm result items cs)"
  by (simp add: store_result_def Let_def create_inv split: option.split)

end

definition strip_ids :: "output_item list \<Rightarrow> output_item list" where
  "strip_ids items = map (\<lambda>i. i\<lparr>oi_id := []\<rparr>) items"

lemma strip_ids_simps [simp]:
  "strip_ids (xs @ ys) = strip_ids xs @ strip_ids ys" "strip_ids [] = []"
  "strip_ids (message_item i st ps # xs) = message_item [] st ps # strip_ids xs"
  "strip_ids (call_item i st c n a # xs) = call_item [] st c n a # strip_ids xs"
  by (simp_all add: strip_ids_def message_item_def call_item_def)

lemma strip_call_items:
  "strip_ids (call_items uuid n tcs) = strip_ids (call_items uuid' n' tcs)"
  by (induction tcs arbitrary: n n') auto

lemma strip_assistant:
  assumes "buildAssistantMessage result = Some m"
  shows "strip_ids (fst (buildOutputItemsFromMessage uuid n m))
     = strip_ids (fst (buildOutputItems uuid' n' result))"
  using assms strip_call_items [of uuid _ _ uuid']
  by (auto simp: buildAssistantMessage_def buildOutputItemsFromMessage_def buildOutputItems_def
      output_text_def output_text_block_def split: if_splits)

lemma last_assistant_append:
  "buildAssistantMessage result = Some m \<Longrightarrow> last_assistant (sm @ [m]) = Some m"
  by (auto simp: last_assistant_def buildAssistantMessage_def split: if_splits)

text \<open>A stored response can be read back by whoever created it. After a synchronous answer
  that was stored under a fresh id, GET by the same principal answers 200 with the same id, the
  same tools, tool choice and text format, and the same output items, texts, calls and
  arguments; only the item ids are drawn anew.\<close>
theorem response_read_back:
  assumes "sql_inv cs" and "sql_Get cs (generateID (ge_uuid env) 0 ''resp_'') = Inr None"
    and "pv_generate p pm rr = Inr result" and "buildAssistantMessage result \<noteq> None"
    and "validateToolCalls (Some req) (pr_tool_calls result) = None"
    and "shouldStore s req" and "request_marshals req"
    and "handleSyncResponse (sql_ops like) s env (hr_principal r) p pm rr req sm cs = (resp, cs', eff)"
  shows "\<exists>orig got. resp = reply 200 (GwResponse orig) \<and>
     handleGetResponse (sql_ops like) s env' r (rsp_id orig) cs' = reply 200 (GwResponse got) \<and>
     rsp_id got = rsp_id orig \<and> strip_ids (rsp_output got) = strip_ids (rsp_output orig) \<and>
     rsp_tools got = rsp_tools orig \<and> rsp_tool_choice got = rsp_tool_choice orig \<and>
     rsp_text got = rsp_text orig"
proof -
  let ?rid = "generateID (ge_uuid env) 0 ''resp_''"
  let ?items = "fst (buildOutputItems (ge_uuid env) 1 result)"
  let ?orig = "buildResponseWithOutput s (ge_t0 env) req result (pv_name p) ?rid ?items"
  obtain m where m: "buildAssistantMessage result = Some m" using assms(4) by blast
  have get0: "so_get (sql_ops like) cs ?rid = Inr None" using assms(2) by (simp add: sql_ops_def)
  have cs': "cs' = store_result (sql_ops like) env (hr_principal r) (pv_name p) ?rid (pr_model result)
       req sm result ?items cs" and resp: "resp = reply 200 (GwResponse ?orig)"
    using assms(3,5-8) by (auto simp: handleSyncResponse_def Let_def simp del: validateToolCalls.simps)
  obtain c where c: "so_get (sql_ops like) cs' ?rid = Inr (Some c)" "cv_id c = ?rid"
      "cv_messages c = turn_messages sm result" "cv_request c = Some req" "owned_by (hr_principal r) c"
    using sqlst.store_result_get [OF assms(1) get0] unfolding cs' by blast
  let ?got = "buildResponseFromConversation (ge_uuid env') 0 c"
  have "handleGetResponse (sql_ops like) s env' r ?rid cs' = reply 200 (GwResponse ?got)"
    using c(1,4) owned_may_access [OF c(5)] assms(7)
    by (auto simp: handleGetResponse_def Let_def response_marshals_def request_marshals_def
        buildResponseFromConversation_def)
  moreover have "last_assistant (cv_messages c) = Some m"
    using last_assistant_append [OF m] by (simp add: c(3) turn_messages_def m)
  ultimately show ?thesis
    unfolding resp using strip_assistant [OF m] c(2,4)
    by (intro exI [of _ ?orig] exI [of _ ?got])
       (simp add: buildResponseFromConversation_def buildResponseWithOutput_def Let_def)
qed

theorem response_read_back_witness:
  "let (resp, cs', eff) = handleSyncResponse (sql_ops (=)) sample_gateway sample_env
       (Some (sample_principal ''alice'')) sample_provider [] sample_stream_request
       sample_stream_request [] sample_store in
   \<exists>orig got. resp = reply 200 (GwResponse orig) \<and>
     handleGetResponse (sql_ops (=)) sample_gateway sample_env
       (zero_http\<lparr>hr_principal := Some (sample_principal ''alice'')\<rparr>) (rsp_id orig) cs'
       = reply 200 (GwResponse got) \<and>
     strip_ids (rsp_output got) = strip_ids (rsp_output orig)"
proof -
  let ?r = "zero_http\<lparr>hr_principal := Some (sample_principal ''alice'')\<rparr>"
  obtain resp cs' eff where h: "handleSyncResponse (sql_ops (=)) sample_gateway sample_env
      (hr_principal ?r) sample_provider [] sample_stream_request sample_stream_request []
      sample_store = (resp, cs', eff)"
    by (metis prod_cases3)
  have g: "sql_Get sample_store (generateID (ge_uuid sample_env) 0 ''resp_'') = Inr None"
    by (simp add: sql_Get_def sample_store_def)
  let ?res = "\<lparr>pr_id = ''x'', pr_model = ''m'', pr_text = ''ab'', pr_usage = zero_usage,
         pr_tool_calls = [\<lparr>tc_id = ''c1'', tc_name = ''f'', tc_arguments = ''{}''\<rparr>],
         pr_replay_message = None\<rparr>"
  have gen: "pv_generate sample_provider [] sample_stream_request = Inr ?res"
    by (simp add: sample_provider_def)
  have am: "buildAssistantMessage ?res \<noteq> None" by (simp add: buildAssistantMessage_def)
  have v: "validateToolCalls (Some sample_stream_request) (pr_tool_calls ?res) = None" by code_simp
  have st: "shouldStore sample_gateway sample_stream_request" by code_simp
  from response_read_back [OF sample_store_inv g gen am v st sample_marshals h, of sample_env] h
  show ?thesis by auto
qed


definition sample_merged :: provider_result where
  "sample_merged = merge_deltas sample_stream_request (consumed (map SelDelta sample_deltas))"

definition sample_agreeing_provider :: provider where
  "sample_agreeing_provider = sample_provider\<lparr>pv_generate := (\<lambda>msgs req. Inr sample_merged)\<rparr>"

definition sample_select :: "provider_stream_delta list \<times> go_error option \<Rightarrow> select_event list" where
  "sample_select x = map SelDelta (fst x)"


text \<open>When the model returns neither text nor a tool call, the synchronous handler still
  stores the turn but without an assistant message, and reading that response back presents the
  assistant's message of an earlier turn as its output.\<close>
theorem empty_turn_reads_previous_output:
  assumes "sql_inv cs" and "sql_Get cs (generateID (ge_uuid env) 0 ''resp_'') = Inr None"
    and "pv_generate p pm rr = Inr result" and "buildAssistantMessage result = None"
    and "validateToolCalls (Some req) (pr_tool_calls result) = None"
    and "shouldStore s req" and "request_marshals req" and "last_assistant sm = Some old"
    and "handleSyncResponse (sql_ops like) s env (hr_principal r) p pm rr req sm cs = (resp, cs', eff)"
  shows "\<exists>orig got. resp = reply 200 (GwResponse orig) \<and> rsp_output orig = [] \<and>
     handleGetResponse (sql_ops like) s env' r (rsp_id orig) cs' = reply 200 (GwResponse got) \<and>
     rsp_output got = fst (buildOutputItemsFromMessage (ge_uuid env') 0 old)"
proof -
  let ?rid = "generateID (ge_uuid env) 0 ''resp_''"
  let ?items = "fst (buildOutputItems (ge_uuid env) 1 result)"
  let ?orig = "buildResponseWithOutput s (ge_t0 env) req result (pv_name p) ?rid ?items"
  have get0: "so_get (sql_ops like) cs ?rid = Inr None" using assms(2) by (simp add: sql_ops_def)
  have empty: "?items = []"
    using assms(4) by (auto simp: buildAssistantMessage_def buildOutputItems_def split: if_splits)
  have cs': "cs' = store_result (sql_ops like) env (hr_principal r) (pv_name p) ?rid (pr_model result)
       req sm result ?items cs" and resp: "resp = reply 200 (GwResponse ?orig)"
    using assms(3,5-7,9) by (auto simp: handleSyncResponse_def Let_def simp del: validateToolCalls.simps)
  obtain c where c: "so_get (sql_ops like) cs' ?rid = Inr (Some c)" "cv_id c = ?rid"
      "cv_messages c = turn_messages sm result" "cv_request c = Some req" "owned_by (hr_principal r) c"
    using sqlst.store_result_get [OF assms(1) get0] unfolding cs' by blast
  let ?got = "buildResponseFromConversation (ge_uuid env') 0 c"
  have "handleGetResponse (sql_ops like) s env' r ?rid cs' = reply 200 (GwResponse ?got)"
    using c(1,4) owned_may_access [OF c(5)] assms(7)
    by (auto simp: handleGetResponse_def Let_def response_marshals_def request_marshals_def
        buildResponseFromConversation_def)
  moreover have "rsp_output ?got = fst (buildOutputItemsFromMessage (ge_uuid env') 0 old)"
    using assms(4,8) by (simp add: buildResponseFromConversation_def Let_def c(3) turn_messages_def)
  ultimately show ?thesis unfolding resp using empty
    by (intro exI [of _ ?orig] exI [of _ ?got]) (simp add: buildResponseWithOutput_def)
qed

definition sample_silent_provider :: provider where
  "sample_silent_provider = sample_provider\<lparr>pv_generate := (\<lambda>msgs req. Inr (empty_result req))\<rparr>"

definition sample_history :: "message list" where
  "sample_history =
     [new_message ''user'' [output_text_block ''q''] [],
      new_message ''assistant'' [output_text_block ''earlier answer''] []]"

theorem empty_turn_reads_previous_output_witness:
  "let (resp, cs', eff) = handleSyncResponse (sql_ops (=)) sample_gateway sample_env
       (Some (sample_principal ''alice'')) sample_silent_provider [] sample_stream_request
       sample_stream_request sample_history sample_store in
   \<exists>orig got. resp = reply 200 (GwResponse orig) \<and> rsp_output orig = [] \<and>
     handleGetResponse (sql_ops (=)) sample_gateway sample_env
       (zero_http\<lparr>hr_principal := Some (sample_principal ''alice'')\<rparr>) (rsp_id orig) cs'
       = reply 200 (GwResponse got) \<and>
     map oi_content (rsp_output got) = [[output_text ''earlier answer'']]"
proof -
  let ?r = "zero_http\<lparr>hr_principal := Some (sample_principal ''alice'')\<rparr>"
  let ?res = "empty_result sample_stream_request"
  let ?old = "new_message ''assistant'' [output_text_block ''earlier answer''] []"
  obtain resp cs' eff where h: "handleSyncResponse (sql_ops (=)) sample_gateway sample_env
      (hr_principal ?r) sample_silent_provider [] sample_stream_request sample_stream_request
      sample_history sample_store = (resp, cs', eff)"
    by (metis prod_cases3)
  have g: "sql_Get sample_store (generateID (ge_uuid sample_env) 0 ''resp_'') = Inr None"
    by (simp add: sql_Get_def sample_store_def)
  have gen: "pv_generate sample_silent_provider [] sample_stream_request = Inr ?res"
    by (simp add: sample_silent_provider_def)
  have am: "buildAssistantMessage ?res = None" by (simp add: buildAssistantMessage_def empty_result_def)
  have v: "validateToolCalls (Some sample_stream_request) (pr_tool_calls ?res) = None" by code_simp
  have st: "shouldStore sample_gateway sample_stream_request" by code_simp
  have la: "last_assistant sample_history = Some ?old" by code_simp
  have out: "map oi_content (fst (buildOutputItemsFromMessage (ge_uuid sample_env) 0 ?old))
      = [[output_text ''earlier answer'']]" by code_simp
  from empty_turn_reads_previous_output
      [OF sample_store_inv g gen am v st sample_marshals la h, of sample_env] h out
  show ?thesis by auto
qed

subsection \<open>Applying replay state\<close>

lemma length_apply_items [simp]: "length (apply_items items out) = length out"
  by (induction items arbitrary: out) (auto split: option.split)

lemma apply_items_other:
  "(\<And>item. item \<in> set items \<Longrightarrow> ri_message item \<noteq> None \<Longrightarrow> ri_message_index item \<noteq> int i) \<Longrightarrow>
   apply_items items out ! i = out ! i"
proof (induction items arbitrary: out)
  case (Cons item items)
  show ?case
  proof (cases "ri_message item")
    case None
    with Cons show ?thesis by simp
  next
    case (Some m)
    then have "ri_message_index item \<noteq> int i" using Cons.prems [of item] by simp
    then have "ri_message_index item \<ge> 0 \<Longrightarrow> nat (ri_message_index item) \<noteq> i" by auto
    with Some Cons show ?thesis by simp
  qed
qed simp

lemma apply_items_none:
  "(\<And>item. item \<in> set items \<Longrightarrow> ri_message item = None) \<Longrightarrow> apply_items items out = out"
  by (induction items) auto

lemma call_items_types: "i \<in> set (call_items uuid n tcs) \<Longrightarrow> oi_type i = ''function_call''"
  by (induction tcs arbitrary: n) auto

text \<open>
  What a later turn sees of an assistant's message: the provider's own record of it, if it made
  one and the same provider is asked again, and the message as it was stored otherwise.
\<close>

definition replayed_message :: "provider_result \<Rightarrow> bool \<Rightarrow> message \<Rightarrow> message" where
  "replayed_message result same m =
     (if same \<and> pr_text result \<noteq> [] then
        (case pr_replay_message result of Some rm \<Rightarrow> rm | None \<Rightarrow> m) else m)"

lemma replay_of_turn:
  "applyReplayState (sm @ [m])
     (buildReplayState pn result (fst (buildOutputItems uuid n result)) (int (length sm))) pn'
   = sm @ [replayed_message result (pn = pn') m]"
proof -
  have none: "apply_items (map (replay_item_of result k)
      (filter (\<lambda>i. oi_type i = ''message'' \<or> oi_type i = ''function_call'') (call_items uuid n' tcs))) out = out"
    for k n' tcs out
    by (rule apply_items_none) (auto simp: replay_item_of_def dest: call_items_types)
  show ?thesis
    by (auto simp: applyReplayState_def buildReplayState_def buildOutputItems_def replayed_message_def none
        Let_def replay_item_of_def [of _ _ "message_item _ _ _"] split: option.split)
qed

subsection \<open>The next turn\<close>


definition sample_follow_up :: response_request where
  "sample_follow_up = sample_stream_request\<lparr>rq_stream := False, rq_previous_response_id := Some ''resp_''\<rparr>"


subsection \<open>Replay and item references\<close>

text \<open>Provider-native messages are only replayed to the provider they came from. Applying a
  replay state never changes the number of messages; for another provider it changes nothing;
  and for the same one it changes a message only at an index some replay item with a message
  names.\<close>
theorem replay_confined:
  "length (applyReplayState msgs replay pn) = length msgs \<and>
   (applyReplayState msgs replay pn ! i \<noteq> msgs ! i \<longrightarrow>
      (\<exists>rp. replay = Some rp \<and> rp_provider rp = pn \<and>
         (\<exists>item \<in> set (rp_items rp). ri_message item \<noteq> None \<and> ri_message_index item = int i)))"
proof -
  have "applyReplayState msgs replay pn ! i = msgs ! i"
    if "\<not> (\<exists>rp. replay = Some rp \<and> rp_provider rp = pn \<and>
         (\<exists>item \<in> set (rp_items rp). ri_message item \<noteq> None \<and> ri_message_index item = int i))"
  proof (cases "\<exists>rp. replay = Some rp \<and> rp_provider rp = pn")
    case True
    then obtain rp where rp: "replay = Some rp" "rp_provider rp = pn" by blast
    with that have "apply_items (rp_items rp) msgs ! i = msgs ! i"
      by (intro apply_items_other) blast
    with rp show ?thesis by (simp add: applyReplayState_def)
  qed (auto simp: applyReplayState_def split: option.split)
  moreover have "length (applyReplayState msgs replay pn) = length msgs"
    by (simp add: applyReplayState_def split: option.split)
  ultimately show ?thesis by blast
qed

definition sample_replay :: replay_state where
  "sample_replay = \<lparr>rp_provider = ''anthropic'', rp_provider_response_id = ''x'',
     rp_items = [\<lparr>ri_id = ''msg_1'', ri_output_item_type = ''message'', ri_message_index = 1,
                  ri_message = Some (new_message ''assistant'' [output_text_block ''native''] [])\<rparr>,
                 \<lparr>ri_id = ''item_1'', ri_output_item_type = ''function_call'', ri_message_index = 1,
                  ri_message = None\<rparr>]\<rparr>"

theorem replay_confined_witness:
  "applyReplayState sample_history (Some sample_replay) ''openai'' ! 1 = sample_history ! 1"
  using replay_confined [of sample_history "Some sample_replay" "''openai''" 1]
  by (auto simp: sample_replay_def)

text \<open>An item reference adds a message only if the conversation already has it: each message
  \<open>resolveItemReferences\<close> returns is a message of the history, or what the provider itself
  recorded for an index of the history; several references to the same message, such as a
  message and its function calls, add it once.\<close>
theorem item_references_from_history:
  assumes "replay = Some rp"
  shows "length (resolveItemReferences refs hist replay pn)
       \<le> card (ri_message_index ` set (rp_items rp) \<inter> {0..<int (length hist)}) \<and>
     (\<forall>m \<in> set (resolveItemReferences refs hist replay pn).
        m \<in> set hist \<or> (rp_provider rp = pn \<and> (\<exists>item \<in> set (rp_items rp).
           ri_message item = Some m \<and> 0 \<le> ri_message_index item \<and>
           ri_message_index item < int (length hist))))"
proof -
  let ?I = "ri_message_index ` set (rp_items rp) \<inter> {0..<int (length hist)}"
  have ref: "item \<in> set (rp_items rp)" if "replay_refs rp i = Some item" for i item
    using map_of_SomeD [OF that [unfolded replay_refs_def]] by auto
  have len: "length (resolve_refs rp pn hist rs seen) \<le> card (?I - set seen)" for rs seen
  proof (induction rs arbitrary: seen)
    case (Cons k rs)
    show ?case
    proof (cases "replay_refs rp k")
      case None
      with Cons show ?thesis by simp
    next
      case (Some item)
      let ?i = "ri_message_index item"
      show ?thesis
      proof (cases "?i < 0 \<or> int (length hist) \<le> ?i \<or> ?i \<in> set seen")
        case True
        with Some Cons [of seen] show ?thesis by (auto simp: Let_def)
      next
        case False
        then have "?i \<in> ?I - set seen" using ref [OF Some] by auto
        then have "card (?I - set seen) = Suc (card (?I - set seen - {?i}))"
          by (intro card.remove) auto
        also have "?I - set seen - {?i} = ?I - set (?i # seen)" by auto
        finally show ?thesis using Some False Cons [of "?i # seen"] by (simp add: Let_def)
      qed
    qed
  qed simp
  have mem: "m \<in> set (resolve_refs rp pn hist rs seen) \<Longrightarrow> m \<in> set hist \<or> (rp_provider rp = pn \<and>
      (\<exists>item \<in> set (rp_items rp). ri_message item = Some m \<and> 0 \<le> ri_message_index item \<and>
           ri_message_index item < int (length hist)))" for m rs seen
    by (induction rs arbitrary: seen) (auto simp: Let_def split: option.splits if_splits dest!: ref)
  from len [of refs "[]"] mem [of _ refs "[]"] show ?thesis
    unfolding assms resolveItemReferences_def by auto
qed

theorem item_references_from_history_witness:
  "length (resolveItemReferences [''msg_1'', ''item_1'', ''msg_1''] sample_history (Some sample_replay) ''openai'') \<le> 1"
proof -
  have "ri_message_index ` set (rp_items sample_replay) \<inter> {0..<int (length sample_history)} = {1}"
    by (auto simp: sample_replay_def sample_history_def)
  with item_references_from_history [OF refl, of "[''msg_1'', ''item_1'', ''msg_1'']" sample_history sample_replay "''openai''"]
  show ?thesis by simp
qed

end
