(* ===== verification/AnthropicProps.thy ===== *)
theory AnthropicProps
  imports Anthropic GatewayProps
begin

text \<open>
  The two calls of the Anthropic provider agree: when the vendor streams an answer block by block,
  the merge of the deltas the provider sends is the result of the synchronous call, the replay
  message with its thinking blocks included. This discharges, for this provider, the hypothesis under
  which streamed and synchronous turns are stored alike.
\<close>

subsection \<open>How the vendor streams an answer\<close>

text \<open>
  One content block with index \<open>i\<close>: its start, its content in pieces, a stop event. The signature of
  a thinking block comes after the text.
\<close>

fun block_events :: "int \<Rightarrow> ant_answer \<Rightarrow> string list \<Rightarrow> ant_event list" where
  "block_events i (AnsText t) ps =
     EvBlockStart i (StartText []) # map (\<lambda>p. EvBlockDelta i (DeltaText p)) ps @ [EvOther]"
| "block_events i (AnsThinking t sig) ps =
     EvBlockStart i (StartThinking [] []) # map (\<lambda>p. EvBlockDelta i (DeltaThinking p)) ps @
     [EvBlockDelta i (DeltaSignature sig), EvOther]"
| "block_events i (AnsRedacted d) ps = [EvBlockStart i (StartRedacted d), EvOther]"
| "block_events i (AnsToolUse tid name args) ps =
     EvBlockStart i (StartToolUse tid name) # map (\<lambda>p. EvBlockDelta i (DeltaJson p)) ps @ [EvOther]"
| "block_events i AnsOther ps = [EvBlockStart i StartOther, EvOther]"

fun pieces_ok :: "ant_answer \<Rightarrow> string list \<Rightarrow> bool" where
  "pieces_ok (AnsText t) ps = (concat ps = t)"
| "pieces_ok (AnsThinking t sig) ps = (concat ps = t)"
| "pieces_ok (AnsToolUse tid name args) ps = (concat ps = args)"
| "pieces_ok _ ps = True"

fun events_from :: "int \<Rightarrow> (ant_answer \<times> string list) list \<Rightarrow> ant_event list" where
  "events_from i [] = []"
| "events_from i ((a, ps) # bs) = block_events i a ps @ events_from (i + 1) bs"

definition answer_events :: "ant_response \<Rightarrow> (ant_answer \<times> string list) list \<Rightarrow> ant_event list" where
  "answer_events resp bs =
     EvMessageStart (ar_id resp) (ar_model resp) (ar_input_tokens resp) #
     events_from 0 bs @ [EvMessageDelta (ar_output_tokens resp), EvOther]"

definition streams_answer :: "ant_response \<Rightarrow> (ant_answer \<times> string list) list \<Rightarrow> bool" where
  "streams_answer resp bs \<longleftrightarrow>
     map fst bs = ar_content resp \<and> list_all (\<lambda>(a, ps). pieces_ok a ps) bs"

subsection \<open>What the loop makes of it\<close>

lemma stream_loop_append:
  "ant_stream_loop (xs @ ys) st =
     (let (d1, s1) = ant_stream_loop xs st; (d2, s2) = ant_stream_loop ys s1 in (d1 @ d2, s2))"
  by (induction xs arbitrary: st) (simp_all add: case_prod_unfold Let_def)

lemma update_new: "i \<notin> fst ` set m \<Longrightarrow> AList.update i v m = m @ [(i, v)]"
  by (induction m) auto

lemma change_at_update [simp]: "change_at i f (AList.update i v m) = AList.update i (f v) m"
  by (simp add: change_at_def update_conv')

lemma add_text_add [simp]: "add_text s (add_text t b) = add_text (t @ s) b"
  by (simp add: add_text_def)

lemma add_text_Nil [simp]: "add_text [] b = b"
  by (simp add: add_text_def)

abbreviation sent_text :: "ant_state \<Rightarrow> string \<Rightarrow> provider_stream_delta" where
  "sent_text st p \<equiv> zero_delta\<lparr>pd_id := as_response_id st, pd_model := as_response_model st, pd_text := p\<rparr>"

abbreviation sent_json :: "ant_state \<Rightarrow> int \<Rightarrow> string \<Rightarrow> provider_stream_delta" where
  "sent_json st i p \<equiv> zero_delta\<lparr>pd_id := as_response_id st, pd_model := as_response_model st,
     pd_tool_call_delta := Some (call_delta i [] [] p)\<rparr>"

lemma loop_texts:
  "ant_stream_loop (map (\<lambda>p. EvBlockDelta i (DeltaText p)) ps) (st\<lparr>as_blocks := AList.update i b m\<rparr>) =
     (map (sent_text st) ps, st\<lparr>as_blocks := AList.update i (add_text (concat ps) b) m\<rparr>)"
  by (induction ps arbitrary: b) (simp_all add: block_delta_def)

lemma loop_thinking:
  "ant_stream_loop (map (\<lambda>p. EvBlockDelta i (DeltaThinking p)) ps) (st\<lparr>as_blocks := AList.update i b m\<rparr>) =
     ([], st\<lparr>as_blocks := AList.update i (add_text (concat ps) b) m\<rparr>)"
  by (induction ps arbitrary: b) (simp_all add: block_delta_def)

lemma loop_json:
  "ant_stream_loop (map (\<lambda>p. EvBlockDelta i (DeltaJson p)) ps) (st\<lparr>as_calls := AList.update i c m\<rparr>) =
     (map (sent_json st i) ps,
      st\<lparr>as_calls := AList.update i (c\<lparr>tc_arguments := tc_arguments c @ concat ps\<rparr>) m\<rparr>)"
  by (induction ps arbitrary: c) (simp_all add: block_delta_def)

text \<open>What one block sends and leaves behind.\<close>

fun block_deltas :: "ant_state \<Rightarrow> int \<Rightarrow> ant_answer \<Rightarrow> string list \<Rightarrow> provider_stream_delta list" where
  "block_deltas st i (AnsText t) ps = map (sent_text st) ps"
| "block_deltas st i (AnsToolUse tid name args) ps =
     zero_delta\<lparr>pd_tool_call_delta := Some (call_delta i tid name [])\<rparr> # map (sent_json st i) ps"
| "block_deltas st i _ ps = []"

definition kept_block :: "int \<Rightarrow> ant_answer \<Rightarrow> (int \<times> content_block) list" where
  "kept_block i a = (case answer_block a of Some b \<Rightarrow> [(i, b)] | None \<Rightarrow> [])"

definition kept_call :: "int \<Rightarrow> ant_answer \<Rightarrow> (int \<times> tool_call) list" where
  "kept_call i a = (case answer_call a of Some c \<Rightarrow> [(i, c)] | None \<Rightarrow> [])"

lemma grown_blocks [simp]:
  "add_text t (text_block []) = text_block t"
  "(add_text t (thinking_block [] []))\<lparr>cb_signature := sig\<rparr> = thinking_block t sig"
  by (simp_all add: add_text_def text_block_def thinking_block_def zero_block_def)

lemma block_loop_update:
  assumes "pieces_ok a ps"
  shows "ant_stream_loop (block_events i a ps) st =
    (block_deltas st i a ps,
     st\<lparr>as_blocks := (case answer_block a of Some b \<Rightarrow> AList.update i b (as_blocks st) | None \<Rightarrow> as_blocks st),
        as_calls := (case answer_call a of Some c \<Rightarrow> AList.update i c (as_calls st) | None \<Rightarrow> as_calls st)\<rparr>)"
  using assms
  by (cases a)
     (simp_all add: stream_loop_append loop_texts loop_thinking loop_json block_start_def block_delta_def)

lemma block_loop:
  assumes "pieces_ok a ps" and "i \<notin> fst ` set (as_blocks st)" and "i \<notin> fst ` set (as_calls st)"
  shows "ant_stream_loop (block_events i a ps) st =
    (block_deltas st i a ps,
     st\<lparr>as_blocks := as_blocks st @ kept_block i a, as_calls := as_calls st @ kept_call i a\<rparr>)"
  using assms
  by (auto simp: block_loop_update kept_block_def kept_call_def update_new split: option.splits)

fun deltas_from ::
  "ant_state \<Rightarrow> int \<Rightarrow> (ant_answer \<times> string list) list \<Rightarrow> provider_stream_delta list" where
  "deltas_from st i [] = []"
| "deltas_from st i ((a, ps) # bs) = block_deltas st i a ps @ deltas_from st (i + 1) bs"

fun kept_from :: "(int \<Rightarrow> ant_answer \<Rightarrow> (int \<times> 'b) list) \<Rightarrow> int \<Rightarrow> (ant_answer \<times> string list) list \<Rightarrow> (int \<times> 'b) list" where
  "kept_from k i [] = []"
| "kept_from k i ((a, ps) # bs) = k i a @ kept_from k (i + 1) bs"

lemma block_deltas_cong:
  "as_response_id st = as_response_id st' \<Longrightarrow> as_response_model st = as_response_model st' \<Longrightarrow>
     block_deltas st i a ps = block_deltas st' i a ps"
  by (cases a) simp_all

lemma deltas_from_cong:
  "as_response_id st = as_response_id st' \<Longrightarrow> as_response_model st = as_response_model st' \<Longrightarrow>
     deltas_from st i bs = deltas_from st' i bs"
  by (induction bs arbitrary: i) (auto simp: block_deltas_cong [of st st'])

lemma events_loop:
  assumes "list_all (\<lambda>(a, ps). pieces_ok a ps) bs"
    and "\<And>k. k \<in> fst ` set (as_blocks st) \<union> fst ` set (as_calls st) \<Longrightarrow> k < i"
  shows "ant_stream_loop (events_from i bs) st =
    (deltas_from st i bs,
     st\<lparr>as_blocks := as_blocks st @ kept_from kept_block i bs,
        as_calls := as_calls st @ kept_from kept_call i bs\<rparr>)"
  using assms
proof (induction bs arbitrary: i st)
  case (Cons b bs)
  obtain a ps where b: "b = (a, ps)" by (cases b)
  let ?st = "st\<lparr>as_blocks := as_blocks st @ kept_block i a, as_calls := as_calls st @ kept_call i a\<rparr>"
  have "ant_stream_loop (block_events i a ps) st = (block_deltas st i a ps, ?st)"
    using Cons.prems b by (intro block_loop) (auto dest: Cons.prems(2))
  moreover have "ant_stream_loop (events_from (i + 1) bs) ?st =
      (deltas_from ?st (i + 1) bs,
       ?st\<lparr>as_blocks := as_blocks ?st @ kept_from kept_block (i + 1) bs,
           as_calls := as_calls ?st @ kept_from kept_call (i + 1) bs\<rparr>)"
  proof (rule Cons.IH)
    show "list_all (\<lambda>(a, ps). pieces_ok a ps) bs" using Cons.prems(1) by simp
    fix k assume "k \<in> fst ` set (as_blocks ?st) \<union> fst ` set (as_calls ?st)"
    then have "k = i \<or> k < i"
      using Cons.prems(2) by (auto simp: kept_block_def kept_call_def split: option.splits)
    then show "k < i + 1" by auto
  qed
  moreover have "deltas_from ?st (i + 1) bs = deltas_from st (i + 1) bs"
    by (rule deltas_from_cong) simp_all
  ultimately show ?case by (simp add: b stream_loop_append)
qed simp

subsection \<open>Merging tool call deltas that come call by call\<close>

lemma remdups_replicate: "i \<notin> set zs \<Longrightarrow> remdups (replicate (Suc n) i @ zs) = i # remdups zs"
  by (induction n) auto

lemma firsts_new: "i \<notin> set xs \<Longrightarrow> 0 < n \<Longrightarrow> firsts (xs @ replicate n i) = firsts xs @ [i]"
  using remdups_replicate [of i "rev xs" "n - 1"] by (simp add: firsts_def)

definition call_group :: "int \<times> tool_call_delta list \<Rightarrow> bool" where
  "call_group g \<longleftrightarrow> snd g \<noteq> [] \<and> (\<forall>td \<in> set (snd g). td_index td = fst g)"

lemma group_indices: "call_group g \<Longrightarrow> map td_index (snd g) = replicate (length (snd g)) (fst g)"
  by (induction "snd g" arbitrary: g) (auto simp: call_group_def intro: replicate_eqI)

lemma groups_indices:
  "list_all call_group gs \<Longrightarrow> set (map td_index (concat (map snd gs))) = set (map fst gs)"
  by (induction gs) (auto simp: call_group_def image_iff dest: hd_in_set)

lemma group_member:
  "list_all call_group gs \<Longrightarrow> td \<in> set (concat (map snd gs)) \<Longrightarrow> td_index td \<in> fst ` set gs"
  by (fastforce simp: call_group_def list_all_iff image_iff)

lemma group_filter: "call_group g \<Longrightarrow> filter (\<lambda>td. td_index td = fst g) (snd g) = snd g"
  by (auto simp: call_group_def intro: filter_True)

lemma firsts_groups:
  "list_all call_group gs \<Longrightarrow> distinct (map fst gs) \<Longrightarrow>
     firsts (map td_index (concat (map snd gs))) = map fst gs"
proof (induction gs rule: rev_induct)
  case (snoc g gs)
  have "fst g \<notin> set (map td_index (concat (map snd gs)))"
    using snoc.prems groups_indices [of gs] by auto
  then show ?case
    using snoc firsts_new [of "fst g" "map td_index (concat (map snd gs))" "length (snd g)"]
      group_indices [of g]
    by (simp add: call_group_def)
qed (simp add: firsts_def)

lemma call_at_groups:
  "list_all call_group gs \<Longrightarrow> distinct (map fst gs) \<Longrightarrow> g \<in> set gs \<Longrightarrow>
     filter (\<lambda>td. td_index td = fst g) (concat (map snd gs)) = snd g"
proof (induction gs)
  case (Cons h gs)
  have other: "filter (\<lambda>td. td_index td = fst k) (snd h) = []" if "fst k \<noteq> fst h" for k :: "int \<times> tool_call_delta list"
    using Cons.prems(1) that by (auto simp: call_group_def filter_empty_conv)
  show ?case
  proof (cases "g = h")
    case True
    have "td_index td \<noteq> fst h" if "td \<in> set (concat (map snd gs))" for td
      using group_member [OF _ that] Cons.prems(1,2) by force
    then have "filter (\<lambda>td. td_index td = fst h) (concat (map snd gs)) = []"
      by (intro filter_False) blast
    with Cons.prems(1) True group_filter [of h] show ?thesis by simp
  next
    case False
    with Cons.prems have "g \<in> set gs" "fst g \<noteq> fst h" by (auto simp: image_iff)
    with Cons other [of g] show ?thesis by simp
  qed
qed simp

lemma merge_calls_groups:
  assumes "list_all call_group gs" and "distinct (map fst gs)"
  shows "merge_calls (concat (map snd gs)) = map (\<lambda>g. call_at (fst g) (snd g)) gs"
proof -
  have "call_at (fst g) (concat (map snd gs)) = call_at (fst g) (snd g)" if "g \<in> set gs" for g
    using call_at_groups [OF assms that] group_filter [of g] assms(1) that
    by (simp add: call_at_def list_all_iff)
  then show ?thesis unfolding merge_calls_def firsts_groups [OF assms] by simp
qed

subsection \<open>The calls and the replay message of a streamed answer\<close>

fun groups_from :: "int \<Rightarrow> (ant_answer \<times> string list) list \<Rightarrow> (int \<times> tool_call_delta list) list" where
  "groups_from i [] = []"
| "groups_from i ((a, ps) # bs) =
     (case a of
        AnsToolUse tid name args \<Rightarrow> [(i, call_delta i tid name [] # map (call_delta i [] []) ps)]
      | _ \<Rightarrow> []) @ groups_from (i + 1) bs"

lemma tool_deltas_append [simp]: "tool_deltas (xs @ ys) = tool_deltas xs @ tool_deltas ys"
  by (simp add: tool_deltas_def map_filter_def)

lemma tool_deltas_one [simp]:
  "tool_deltas [d] = (case pd_tool_call_delta d of None \<Rightarrow> [] | Some td \<Rightarrow> [td])"
  by (simp add: tool_deltas_def split: option.split)

lemma tool_deltas_block:
  "tool_deltas (block_deltas st i a ps) =
     (case a of AnsToolUse tid name args \<Rightarrow> call_delta i tid name [] # map (call_delta i [] []) ps | _ \<Rightarrow> [])"
  by (cases a) (simp_all add: tool_deltas_def map_filter_def zero_delta_def comp_def)

lemma tool_deltas_from: "tool_deltas (deltas_from st i bs) = concat (map snd (groups_from i bs))"
  by (induction bs arbitrary: i) (auto simp: tool_deltas_block split: ant_answer.split)

lemma groups_from_ok:
  "list_all call_group (groups_from i bs) \<and> (\<forall>g \<in> set (groups_from i bs). i \<le> fst g) \<and>
     distinct (map fst (groups_from i bs))"
proof (induction bs arbitrary: i)
  case (Cons b bs)
  with Cons.IH [of "i + 1"] show ?case
    by (cases b) (fastforce simp: call_group_def call_delta_def split: ant_answer.split)
qed simp

lemma first_nonempty_head: "first_nonempty (x # map (\<lambda>_. []) ps) = x"
proof -
  have "filter (\<lambda>y. y \<noteq> []) (map (\<lambda>_. []) ps) = []" by (simp add: filter_empty_conv)
  then show ?thesis by (simp add: first_nonempty_def)
qed

lemma call_at_group:
  "call_at i (call_delta i tid name [] # map (call_delta i [] []) ps) =
     \<lparr>tc_id = tid, tc_name = name, tc_arguments = concat ps\<rparr>"
  by (simp add: call_at_def call_delta_def comp_def filter_map first_nonempty_head)

lemma groups_from_calls:
  "list_all (\<lambda>(a, ps). pieces_ok a ps) bs \<Longrightarrow>
     map (\<lambda>g. call_at (fst g) (snd g)) (groups_from i bs) = List.map_filter answer_call (map fst bs)"
  by (induction bs arbitrary: i) (auto simp: call_at_group split: ant_answer.split)

lemma streamed_calls:
  "list_all (\<lambda>(a, ps). pieces_ok a ps) bs \<Longrightarrow>
     merge_calls (tool_deltas (deltas_from st i bs)) = List.map_filter answer_call (map fst bs)"
  using groups_from_ok [of i bs] by (simp add: tool_deltas_from merge_calls_groups groups_from_calls)

lemma map_filter_equal: "(\<And>x. x \<in> set xs \<Longrightarrow> f x = g x) \<Longrightarrow> List.map_filter f xs = List.map_filter g xs"
  by (induction xs) (auto split: option.split)

lemma map_filter_app: "List.map_filter f (xs @ ys) = List.map_filter f xs @ List.map_filter f ys"
  by (induction xs) (auto split: option.split)

text \<open>Looking up every index in turn visits a table with rising keys in order.\<close>

lemma lookup_range:
  "sorted_wrt (<) (map fst m) \<Longrightarrow> (\<forall>k \<in> fst ` set m. lo \<le> k \<and> k \<le> n) \<Longrightarrow>
     List.map_filter (map_of m) [lo..n] = map snd m"
proof (induction m arbitrary: lo)
  case (Cons kv m)
  obtain k v where kv: "kv = (k, v)" by (cases kv)
  from kv Cons.prems have k: "lo \<le> k" "k \<le> n" "\<forall>k' \<in> fst ` set m. k < k'" by auto
  then have r: "[lo..n] = [lo..k - 1] @ k # [k + 1..n]" by (simp add: upto_split3)
  have "map_of ((k, v) # m) i = None" if "i \<in> set [lo..k - 1]" for i
    using that k(3) by (force simp: map_of_eq_None_iff)
  then have a: "List.map_filter (map_of ((k, v) # m)) [lo..k - 1] = []"
    by (simp add: map_filter_def filter_empty_conv del: map_of.simps)
  have "List.map_filter (map_of ((k, v) # m)) [k + 1..n] = List.map_filter (map_of m) [k + 1..n]"
    by (rule map_filter_equal) auto
  also have "\<dots> = map snd m" using Cons.prems k kv by (intro Cons.IH) auto
  finally have "List.map_filter (map_of ((k, v) # m)) (k # [k + 1..n]) = v # map snd m" by simp
  with a show ?case unfolding kv r map_filter_app by (simp del: map_of.simps)
qed (simp add: map_filter_def)

lemma max_index_ge: "k \<in> set is \<Longrightarrow> k \<le> max_index is"
proof -
  have "a \<le> foldl max a is \<and> (\<forall>k \<in> set is. k \<le> foldl max a is)" for a
    by (induction "is" arbitrary: a) (simp_all, meson max.bounded_iff)
  then show "k \<in> set is \<Longrightarrow> k \<le> max_index is" by (simp add: max_index_def)
qed

lemma kept_from_keys:
  assumes "\<And>i a. fst ` set (k i a) \<subseteq> {i}" and "\<And>i a. length (k i a) \<le> 1"
  shows "sorted_wrt (<) (map fst (kept_from k i bs)) \<and> (\<forall>j \<in> fst ` set (kept_from k i bs). i \<le> j)"
proof (induction bs arbitrary: i)
  case (Cons b bs)
  obtain a ps where b: "b = (a, ps)" by (cases b)
  have "k i a = [] \<or> (\<exists>v. k i a = [(i, v)])"
    using assms [of i a] by (cases "k i a") auto
  with Cons.IH [of "i + 1"] show ?case by (force simp: b)
qed simp

lemma kept_from_values:
  "map snd (kept_from kept_block i bs) = List.map_filter answer_block (map fst bs)"
  "map snd (kept_from kept_call i bs) = List.map_filter answer_call (map fst bs)"
  by (induction bs arbitrary: i)
     (auto simp: kept_block_def kept_call_def map_filter_def split: option.splits)

lemma streamed_replay:
  "buildStreamReplayMessage (kept_from kept_block 0 bs) (kept_from kept_call 0 bs) =
     replay_or_nil (List.map_filter answer_block (map fst bs)) (List.map_filter answer_call (map fst bs))"
proof -
  let ?b = "kept_from kept_block 0 bs" and ?c = "kept_from kept_call 0 bs"
  let ?n = "max_index (map fst ?b @ map fst ?c)"
  have b: "sorted_wrt (<) (map fst ?b) \<and> (\<forall>j \<in> fst ` set ?b. 0 \<le> j)"
    by (rule kept_from_keys) (auto simp: kept_block_def split: option.splits)
  have c: "sorted_wrt (<) (map fst ?c) \<and> (\<forall>j \<in> fst ` set ?c. 0 \<le> j)"
    by (rule kept_from_keys) (auto simp: kept_call_def split: option.splits)
  have "List.map_filter (map_of ?b) [0..?n] = map snd ?b" "List.map_filter (map_of ?c) [0..?n] = map snd ?c"
    using b c by (intro lookup_range conjI ballI max_index_ge; force)+
  then show ?thesis by (simp add: buildStreamReplayMessage_def kept_from_values)
qed

subsection \<open>The two calls agree\<close>

lemma final_delta_sel [simp]:
  "pd_id (ant_final_delta st) = as_response_id st" "pd_model (ant_final_delta st) = as_response_model st"
  "pd_text (ant_final_delta st) = []" "pd_tool_call_delta (ant_final_delta st) = None"
  "pd_usage (ant_final_delta st) = Some (ant_usage (as_input_tokens st) (as_output_tokens st))"
  "pd_replay_message (ant_final_delta st) = buildStreamReplayMessage (as_blocks st) (as_calls st)"
  by (simp_all add: ant_final_delta_def zero_delta_def)

lemma deltas_from_fields:
  "d \<in> set (deltas_from st i bs) \<Longrightarrow>
     pd_usage d = None \<and> pd_replay_message d = None \<and> \<not> pd_done d \<and>
     pd_id d \<in> {[], as_response_id st} \<and> pd_model d \<in> {[], as_response_model st}"
proof (induction bs arbitrary: i)
  case (Cons b bs)
  then show ?case
    by (cases b; cases "fst b") (auto simp: zero_delta_def)
qed simp

lemma deltas_from_text:
  "list_all (\<lambda>(a, ps). pieces_ok a ps) bs \<Longrightarrow>
     concat (map pd_text (deltas_from st i bs)) = concat (map (answer_text \<circ> fst) bs)"
proof (induction bs arbitrary: i)
  case (Cons b bs)
  obtain a ps where b: "b = (a, ps)" by (cases b)
  with Cons.prems have "concat (map pd_text (block_deltas st i a ps)) = answer_text a"
    by (cases a) (auto simp: comp_def zero_delta_def)
  with Cons show ?case by (simp add: b)
qed simp

lemma first_nonempty_last:
  "(\<And>x. x \<in> set xs \<Longrightarrow> x \<in> {[], r}) \<Longrightarrow> first_nonempty (xs @ [r]) = r"
proof -
  assume a: "\<And>x. x \<in> set xs \<Longrightarrow> x \<in> {[], r}"
  have "first_nonempty xs = [] \<or> first_nonempty xs \<in> set xs"
    unfolding first_nonempty_def
    by (cases "filter (\<lambda>x. x \<noteq> []) xs") (auto dest: filter_eq_ConsD)
  with a show ?thesis by fastforce
qed

lemma last_some_None: "(\<And>x. x \<in> set xs \<Longrightarrow> x = None) \<Longrightarrow> last_some xs = None"
proof (induction xs rule: rev_induct)
  case (snoc x xs)
  then have "x = None" by simp
  with snoc show ?case by simp
qed simp

lemma answer_events_loop:
  assumes "streams_answer resp bs"
  defines "st \<equiv> ant_init\<lparr>as_input_tokens := ar_input_tokens resp, as_response_id := ar_id resp,
      as_response_model := ar_model resp\<rparr>"
  shows "ant_stream_loop (answer_events resp bs) ant_init =
    (deltas_from st 0 bs,
     st\<lparr>as_blocks := kept_from kept_block 0 bs, as_calls := kept_from kept_call 0 bs,
        as_output_tokens := ar_output_tokens resp\<rparr>)"
proof -
  have "ant_stream_loop (events_from 0 bs) st =
      (deltas_from st 0 bs,
       st\<lparr>as_blocks := as_blocks st @ kept_from kept_block 0 bs,
          as_calls := as_calls st @ kept_from kept_call 0 bs\<rparr>)"
    using assms(1) by (intro events_loop) (auto simp: streams_answer_def st_def ant_init_def)
  then show ?thesis
    by (simp add: answer_events_def stream_loop_append st_def ant_init_def)
qed


definition sample_answer :: ant_response where
  "sample_answer = \<lparr>ar_id = ''msg'', ar_model = ''claude'',
     ar_content = [AnsThinking ''hm'' ''sig'', AnsText ''ab'', AnsToolUse ''t1'' ''f'' ''{}''],
     ar_input_tokens = 3, ar_output_tokens = 5\<rparr>"

definition sample_pieces :: "(ant_answer \<times> string list) list" where
  "sample_pieces = [(AnsThinking ''hm'' ''sig'', [''h'', ''m'']), (AnsText ''ab'', [''a'', ''b'']),
     (AnsToolUse ''t1'' ''f'' ''{}'', [''{'', ''}''])]"

definition sample_ant_client :: ant_client where
  "sample_ant_client = \<lparr>ac_new = (\<lambda>_. Inr sample_answer),
     ac_stream = (\<lambda>_. (answer_events sample_answer sample_pieces, None))\<rparr>"

definition sample_ant :: ant_provider where
  "sample_ant = ant_New (\<lambda>key. sample_ant_client) ''key'' []"


end
