(* ===== verification/OpenAi.thy ===== *)
theory OpenAi
  imports Vendor
begin

text \<open>
  \<open>internal/providers/openai\<close>: conversion of messages and parameters to chat completions, of the
  answer back, and the two calls. The client of the SDK is a parameter: what it answers to
  parameters, and for a stream the chunks it yields and the error it ends with. The types of the SDK
  are modelled as far as the package fills or reads them.
\<close>

subsection \<open>The vendor's types\<close>

datatype oai_part =
    OaiText string
  | OaiImage string string
  | OaiFile string string
  | OaiRefusal string

text \<open>The content unions: nothing set, \<open>OfString\<close>, or \<open>OfArrayOfContentParts\<close>.\<close>

datatype oai_content = OaiUnset | OaiString string | OaiParts "oai_part list"

datatype oai_message =
    OaiUser oai_content
  | OaiAssistant oai_content "tool_call list"
  | OaiSystem oai_content
  | OaiDeveloper oai_content
  | OaiTool oai_content string

record oai_function =
  of_name :: string
  of_description :: "string option"
  of_parameters :: "jmap option"

datatype oai_choice =
    OaiChoiceUnset
  | OaiMode string
  | OaiFunction string
  | OaiAllowed "jmap list"

record oai_params =
  op_model :: string
  op_messages :: "oai_message list"
  op_max_completion_tokens :: "int option"
  op_temperature :: "float64 option"
  op_top_p :: "float64 option"
  op_tools :: "oai_function list"
  op_tool_choice :: oai_choice
  op_parallel_tool_calls :: "bool option"
  op_include_usage :: "bool option"

subsection \<open>Messages\<close>

definition maxToolCallIDLen :: nat where
  "maxToolCallIDLen = 40"

definition sanitizeToolCallID :: "string \<Rightarrow> string" where
  "sanitizeToolCallID i = (if length i > maxToolCallIDLen then take maxToolCallIDLen i else i)"

definition oai_user_part :: "content_block \<Rightarrow> go_error + oai_part list" where
  "oai_user_part b =
     (if is_text_type (cb_type b) then Inr [OaiText (cb_text b)]
      else if cb_type b = ''input_image'' then Inr [OaiImage (cb_image_url b) (cb_detail b)]
      else if cb_type b = ''input_file'' then
        (if cb_file_url b \<noteq> []
         then Inl (ErrOther ''input_file with file_url is not supported by OpenAI chat completions'')
         else Inr [OaiFile (cb_file_data b) (cb_filename b)])
      else if cb_type b = ''input_video'' then
        Inl (ErrOther ''input_video is not supported by OpenAI chat completions'')
      else if cb_type b = ''refusal'' then
        Inl (ErrOther ''refusal content is not valid in user messages'')
      else Inl (ErrOther (''unsupported user content block type '' @ go_quote (cb_type b))))"

text \<open>A single text is sent as a plain string.\<close>

fun oai_compact :: "oai_part list \<Rightarrow> oai_content" where
  "oai_compact [OaiText t] = OaiString t"
| "oai_compact ps = OaiParts ps"

definition buildOAIUserContent :: "content_block list \<Rightarrow> go_error + oai_content" where
  "buildOAIUserContent blocks =
     (case convert_all oai_user_part blocks of
        Inl e \<Rightarrow> Inl e
      | Inr parts \<Rightarrow> Inr (oai_compact parts))"

definition oai_assistant_part :: "content_block \<Rightarrow> go_error + oai_part list" where
  "oai_assistant_part b =
     (if is_text_type (cb_type b) then Inr [OaiText (cb_text b)]
      else if cb_type b = ''refusal'' then Inr [OaiRefusal (cb_refusal b)]
      else if cb_type b = ''encrypted_reasoning'' then Inr []
      else Inl (ErrOther (''unsupported assistant content block type '' @ go_quote (cb_type b))))"

text \<open>\<open>OaiUnset\<close> stands for the result \<open>hasContent = false\<close>.\<close>

definition buildOAIAssistantContent :: "content_block list \<Rightarrow> go_error + oai_content" where
  "buildOAIAssistantContent blocks =
     (case convert_all oai_assistant_part blocks of
        Inl e \<Rightarrow> Inl e
      | Inr parts \<Rightarrow> Inr (if parts = [] then OaiUnset else oai_compact parts))"

definition oai_text_part :: "string \<Rightarrow> content_block \<Rightarrow> go_error + oai_part list" where
  "oai_text_part role b =
     (if cb_type b = ''encrypted_reasoning'' then Inr []
      else
        (case TextValue b of
           Some t \<Rightarrow>
             if cb_type b = ''refusal'' then
               Inl (ErrOther (role @ '' messages only support text content; found '' @ go_quote (cb_type b)))
             else Inr [OaiText t]
         | None \<Rightarrow>
             Inl (ErrOther (role @ '' messages only support text content; found '' @ go_quote (cb_type b)))))"

definition buildOAITextOnlyParts :: "content_block list \<Rightarrow> string \<Rightarrow> go_error + oai_part list" where
  "buildOAITextOnlyParts blocks role = convert_all (oai_text_part role) blocks"

text \<open>\<open>buildOAISystemContent\<close>, \<open>buildOAIDeveloperContent\<close> and \<open>buildOAIToolContent\<close> differ in the role.\<close>

definition oai_text_content :: "string \<Rightarrow> content_block list \<Rightarrow> go_error + oai_content" where
  "oai_text_content role blocks =
     (case buildOAITextOnlyParts blocks role of
        Inl e \<Rightarrow> Inl e
      | Inr parts \<Rightarrow> Inr (oai_compact parts))"

definition buildOAISystemContent :: "content_block list \<Rightarrow> go_error + oai_content" where
  "buildOAISystemContent = oai_text_content ''system''"

definition buildOAIDeveloperContent :: "content_block list \<Rightarrow> go_error + oai_content" where
  "buildOAIDeveloperContent = oai_text_content ''developer''"

definition buildOAIToolContent :: "content_block list \<Rightarrow> go_error + oai_content" where
  "buildOAIToolContent = oai_text_content ''tool''"

definition oai_call :: "tool_call \<Rightarrow> tool_call" where
  "oai_call tc = tc\<lparr>tc_id := sanitizeToolCallID (tc_id tc)\<rparr>"

definition oai_assistant :: "oai_content \<Rightarrow> tool_call list \<Rightarrow> oai_message" where
  "oai_assistant content tcs =
     (if tcs \<noteq> [] then OaiAssistant content (map oai_call tcs)
      else OaiAssistant (if content = OaiUnset then OaiString [] else content) [])"

text \<open>One message; any other role sends nothing.\<close>

definition oai_message_of :: "message \<Rightarrow> go_error + oai_message list" where
  "oai_message_of m =
     (let r = msg_role m in
      if r = ''user'' then
        (case wrap_error ''convert user message'' (buildOAIUserContent (msg_content m)) of
           Inl e \<Rightarrow> Inl e | Inr c \<Rightarrow> Inr [OaiUser c])
      else if r = ''assistant'' then
        (case wrap_error ''convert assistant message'' (buildOAIAssistantContent (msg_content m)) of
           Inl e \<Rightarrow> Inl e | Inr c \<Rightarrow> Inr [oai_assistant c (msg_tool_calls m)])
      else if r = ''system'' then
        (case wrap_error ''convert system message'' (buildOAISystemContent (msg_content m)) of
           Inl e \<Rightarrow> Inl e | Inr c \<Rightarrow> Inr [OaiSystem c])
      else if r = ''developer'' then
        (case wrap_error ''convert developer message'' (buildOAIDeveloperContent (msg_content m)) of
           Inl e \<Rightarrow> Inl e | Inr c \<Rightarrow> Inr [OaiDeveloper c])
      else if r = ''tool'' then
        (case wrap_error ''convert tool message'' (buildOAIToolContent (msg_content m)) of
           Inl e \<Rightarrow> Inl e | Inr c \<Rightarrow> Inr [OaiTool c (sanitizeToolCallID (msg_call_id m))])
      else Inr [])"

definition buildOAIMessages :: "message list \<Rightarrow> go_error + oai_message list" where
  "buildOAIMessages msgs = convert_all oai_message_of msgs"

subsection \<open>Tools\<close>

definition oai_tool :: "jmap \<Rightarrow> oai_function" where
  "oai_tool td =
     (let desc = getStringField td ''description'' in
      \<lparr>of_name = getStringField td ''name'',
       of_description = (if desc \<noteq> [] then Some desc else None),
       of_parameters = jget_obj td ''parameters''\<rparr>)"

definition oai_parseTools :: "response_request \<Rightarrow> go_error + oai_function list" where
  "oai_parseTools req =
     (if raw_len0 (rq_tools req) then Inr []
      else case unmarshal_maps (rq_tools req) of
        None \<Rightarrow> Inl (ErrWrap ''unmarshal tools'' json_error)
      | Some defs \<Rightarrow> Inr (map oai_tool defs))"

definition oai_allowed_tool :: "string \<Rightarrow> jmap" where
  "oai_allowed_tool name =
     [(''type'', JStr ''function''), (''function'', JObj [(''name'', JStr name)])]"

text \<open>The names of the set of allowed tools are sorted, so the order of the Go map does not matter.\<close>

definition oai_parseToolChoice :: "response_request \<Rightarrow> go_error + oai_choice" where
  "oai_parseToolChoice req =
     (case ParseToolChoice (Some req) of
        Inl e \<Rightarrow> Inl (api_go_error e)
      | Inr parsed \<Rightarrow>
          (let mode = ptc_mode parsed in
           if raw_len0 (rq_tool_choice req) then Inr OaiChoiceUnset
           else if mode = ''auto'' \<or> mode = ''none'' \<or> mode = ''required'' \<or> mode = ''any'' then
             Inr (OaiMode (if mode = ''any'' then ''required'' else mode))
           else if mode = ''function'' then Inr (OaiFunction (ptc_required_tool_name parsed))
           else if mode = ''allowed_tools'' then
             Inr (OaiAllowed (map oai_allowed_tool (sort (ptc_allowed_tools parsed))))
           else Inl (ErrOther ''invalid tool_choice format'')))"

subsection \<open>Parameters\<close>

text \<open>The steps both calls go through before the client is used.\<close>

definition oai_params_of :: "message list \<Rightarrow> response_request \<Rightarrow> bool \<Rightarrow> go_error + oai_params" where
  "oai_params_of msgs req streaming =
     (case wrap_error ''convert messages'' (buildOAIMessages msgs) of
        Inl e \<Rightarrow> Inl e
      | Inr oaiMessages \<Rightarrow>
          (case (if raw_len0 (rq_tools req) then Inr []
                 else wrap_error ''parse tools'' (oai_parseTools req)) of
             Inl e \<Rightarrow> Inl e
           | Inr tools \<Rightarrow>
               (case (if raw_len0 (rq_tool_choice req) then Inr OaiChoiceUnset
                      else wrap_error ''parse tool_choice'' (oai_parseToolChoice req)) of
                  Inl e \<Rightarrow> Inl e
                | Inr choice \<Rightarrow>
                    Inr \<lparr>op_model = rq_model req, op_messages = oaiMessages,
                         op_max_completion_tokens = rq_max_output_tokens req,
                         op_temperature = rq_temperature req, op_top_p = rq_top_p req,
                         op_tools = tools, op_tool_choice = choice,
                         op_parallel_tool_calls = rq_parallel_tool_calls req,
                         op_include_usage = (if streaming then Some True else None)\<rparr>)))"

subsection \<open>The answer\<close>

record oai_choice_message =
  om_content :: string
  om_tool_calls :: "tool_call list"

record oai_completion =
  oc_id :: string
  oc_model :: string
  oc_choices :: "oai_choice_message list"
  oc_prompt_tokens :: int
  oc_completion_tokens :: int
  oc_total_tokens :: int

record oai_chunk_choice =
  ok_content :: string
  ok_tool_calls :: "tool_call_delta list"

record oai_chunk =
  oh_id :: string
  oh_model :: string
  oh_choices :: "oai_chunk_choice list"
  oh_prompt_tokens :: int
  oh_completion_tokens :: int
  oh_total_tokens :: int

record oai_client =
  oa_new :: "oai_params \<Rightarrow> go_error + oai_completion"
  oa_stream :: "oai_params \<Rightarrow> oai_chunk list \<times> go_error option"

definition oai_extractToolCalls :: "oai_choice_message \<Rightarrow> tool_call list" where
  "oai_extractToolCalls m =
     map (\<lambda>tc. \<lparr>tc_id = tc_id tc, tc_name = tc_name tc, tc_arguments = tc_arguments tc\<rparr>)
       (om_tool_calls m)"

text \<open>The loop returns in its first round.\<close>

definition oai_extractToolCallDelta :: "oai_chunk_choice \<Rightarrow> tool_call_delta option" where
  "oai_extractToolCallDelta c =
     (case ok_tool_calls c of
        [] \<Rightarrow> None
      | tc # _ \<Rightarrow> Some \<lparr>td_index = td_index tc, td_id = td_id tc, td_name = td_name tc,
                       td_arguments = td_arguments tc\<rparr>)"

definition oai_result :: "oai_completion \<Rightarrow> provider_result" where
  "oai_result resp =
     \<lparr>pr_id = oc_id resp, pr_model = oc_model resp,
      pr_text = concat (map om_content (oc_choices resp)),
      pr_usage = \<lparr>us_input_tokens = oc_prompt_tokens resp,
                  us_output_tokens = oc_completion_tokens resp,
                  us_total_tokens = oc_total_tokens resp\<rparr>,
      pr_tool_calls = concat (map oai_extractToolCalls (oc_choices resp)),
      pr_replay_message = None\<rparr>"

definition oai_choice_deltas :: "oai_chunk \<Rightarrow> oai_chunk_choice \<Rightarrow> provider_stream_delta list" where
  "oai_choice_deltas chunk choice =
     (let d = zero_delta\<lparr>pd_id := oh_id chunk, pd_model := oh_model chunk\<rparr> in
      (if ok_content choice \<noteq> [] then [d\<lparr>pd_text := ok_content choice\<rparr>] else []) @
      (case oai_extractToolCallDelta choice of
         Some td \<Rightarrow> [d\<lparr>pd_tool_call_delta := Some td\<rparr>] | None \<Rightarrow> []))"

definition oai_chunk_usage :: "oai_chunk \<Rightarrow> usage option \<Rightarrow> usage option" where
  "oai_chunk_usage chunk u =
     (if oh_prompt_tokens chunk > 0 \<or> oh_completion_tokens chunk > 0
      then Some \<lparr>us_input_tokens = oh_prompt_tokens chunk,
                 us_output_tokens = oh_completion_tokens chunk,
                 us_total_tokens = oh_total_tokens chunk\<rparr>
      else u)"

text \<open>The loop over the chunks: what is sent, and the usage last seen.\<close>

fun oai_stream_loop ::
  "oai_chunk list \<Rightarrow> usage option \<Rightarrow> provider_stream_delta list \<times> usage option" where
  "oai_stream_loop [] u = ([], u)"
| "oai_stream_loop (chunk # chunks) u =
     (let (ds, u') = oai_stream_loop chunks (oai_chunk_usage chunk u) in
      (concat (map (oai_choice_deltas chunk) (oh_choices chunk)) @ ds, u'))"

subsection \<open>The provider\<close>

text \<open>
  A provider holds the key of its configuration and the client, nil when a setting it needs is
  empty. \<open>New\<close> and \<open>NewAzure\<close> take the SDK's constructor as a parameter.
\<close>

record oai_provider =
  ap_api_key :: string
  ap_client :: "oai_client option"
  ap_azure :: bool

definition oai_New :: "(string \<Rightarrow> oai_client) \<Rightarrow> string \<Rightarrow> oai_provider" where
  "oai_New mk key =
     \<lparr>ap_api_key = key, ap_client = (if key \<noteq> [] then Some (mk key) else None), ap_azure = False\<rparr>"

definition oai_NewAzure ::
  "(string \<Rightarrow> string \<Rightarrow> string \<Rightarrow> oai_client) \<Rightarrow> string \<Rightarrow> string \<Rightarrow> string \<Rightarrow> oai_provider" where
  "oai_NewAzure mk key endpoint version =
     \<lparr>ap_api_key = key,
      ap_client = (if key \<noteq> [] \<and> endpoint \<noteq> []
                   then Some (mk key endpoint (openai_azure_version version)) else None),
      ap_azure = True\<rparr>"

definition oai_ready :: "oai_provider \<Rightarrow> go_error + oai_client" where
  "oai_ready p =
     (if ap_api_key p = [] then Inl (ErrOther ''openai api key missing'')
      else case ap_client p of
        None \<Rightarrow> Inl (ErrOther ''openai client not initialized'')
      | Some c \<Rightarrow> Inr c)"

definition oai_Generate ::
  "oai_provider \<Rightarrow> message list \<Rightarrow> response_request \<Rightarrow> go_error + provider_result" where
  "oai_Generate p msgs req =
     (case oai_ready p of
        Inl e \<Rightarrow> Inl e
      | Inr client \<Rightarrow>
          (case oai_params_of msgs req False of
             Inl e \<Rightarrow> Inl e
           | Inr params \<Rightarrow>
               (case wrap_error ''openai api error'' (oa_new client params) of
                  Inl e \<Rightarrow> Inl e
                | Inr resp \<Rightarrow> Inr (oai_result resp))))"

definition oai_GenerateStream ::
  "oai_provider \<Rightarrow> message list \<Rightarrow> response_request \<Rightarrow> provider_stream_delta list \<times> go_error option" where
  "oai_GenerateStream p msgs req =
     (case oai_ready p of
        Inl e \<Rightarrow> ([], Some e)
      | Inr client \<Rightarrow>
          (case oai_params_of msgs req True of
             Inl e \<Rightarrow> ([], Some e)
           | Inr params \<Rightarrow>
               (let (chunks, err) = oa_stream client params;
                    (deltas, streamUsage) = oai_stream_loop chunks None
                in case err of
                     Some e \<Rightarrow> (deltas, Some (ErrWrap ''openai stream error'' e))
                   | None \<Rightarrow>
                       (deltas @ [zero_delta\<lparr>pd_done := True, pd_usage := streamUsage\<rparr>], None))))"

definition openai_provider :: "oai_provider \<Rightarrow> provider" where
  "openai_provider p =
     \<lparr>pv_name = ''openai'', pv_generate = oai_Generate p, pv_stream = oai_GenerateStream p\<rparr>"

definition oai_chooseModel :: "string \<Rightarrow> string \<Rightarrow> string" where
  "oai_chooseModel requested defaultModel =
     (if requested \<noteq> [] then requested
      else if defaultModel \<noteq> [] then defaultModel else ''gpt-4o-mini'')"

subsection \<open>The roles\<close>

lemma oai_message_role:
  "msg_role m = ''user'' \<Longrightarrow> oai_message_of m =
     (case wrap_error ''convert user message'' (buildOAIUserContent (msg_content m)) of
        Inl e \<Rightarrow> Inl e | Inr c \<Rightarrow> Inr [OaiUser c])"
  "msg_role m = ''assistant'' \<Longrightarrow> oai_message_of m =
     (case wrap_error ''convert assistant message'' (buildOAIAssistantContent (msg_content m)) of
        Inl e \<Rightarrow> Inl e | Inr c \<Rightarrow> Inr [oai_assistant c (msg_tool_calls m)])"
  "msg_role m = ''system'' \<Longrightarrow> oai_message_of m =
     (case wrap_error ''convert system message'' (oai_text_content ''system'' (msg_content m)) of
        Inl e \<Rightarrow> Inl e | Inr c \<Rightarrow> Inr [OaiSystem c])"
  "msg_role m = ''developer'' \<Longrightarrow> oai_message_of m =
     (case wrap_error ''convert developer message'' (oai_text_content ''developer'' (msg_content m)) of
        Inl e \<Rightarrow> Inl e | Inr c \<Rightarrow> Inr [OaiDeveloper c])"
  "msg_role m = ''tool'' \<Longrightarrow> oai_message_of m =
     (case wrap_error ''convert tool message'' (oai_text_content ''tool'' (msg_content m)) of
        Inl e \<Rightarrow> Inl e | Inr c \<Rightarrow> Inr [OaiTool c (sanitizeToolCallID (msg_call_id m))])"
  "msg_role m \<notin> {''user'', ''assistant'', ''system'', ''developer'', ''tool''} \<Longrightarrow> oai_message_of m = Inr []"
  by (simp_all add: oai_message_of_def buildOAISystemContent_def buildOAIDeveloperContent_def
      buildOAIToolContent_def)

text \<open>Case analysis on the role of a message.\<close>

lemma oai_role_cases:
  obtains (user) "msg_role m = ''user''" | (assistant) "msg_role m = ''assistant''"
    | (system) "msg_role m = ''system''" | (developer) "msg_role m = ''developer''"
    | (tool) "msg_role m = ''tool''"
    | (other) "msg_role m \<notin> {''user'', ''assistant'', ''system'', ''developer'', ''tool''}"
  by blast

end
