(* ===== verification/Google.thy ===== *)
theory Google
  imports Vendor "HOL-Library.Word"
begin

unbundle bit_operations_syntax

text \<open>
  \<open>internal/providers/google\<close>: conversion of messages and parameters to the Gemini API, of the
  answer back, and the two calls. The client of the SDK is a parameter. So are the path \<open>url.Parse\<close>
  finds in a location (\<open>None\<close> for an error), the bytes the n-th \<open>cryptorand.Read\<close> of a call
  delivers (\<open>None\<close> for an error) and the value of \<open>uuid.NewString\<close>.
\<close>

subsection \<open>The vendor's types\<close>

datatype gem_part =
    GemText string
  | GemBytes string string
  | GemURI string string
  | GemCall string string json
  | GemResponse string string json

record gem_content =
  gc_role :: string
  gc_parts :: "gem_part list"

record gem_function =
  gf_name :: string
  gf_description :: string
  gf_parameters :: "json option"

datatype gem_mode = GemAuto | GemNone | GemAny

record gem_tool_config =
  gt_mode :: gem_mode
  gt_allowed :: "string list"

text \<open>\<open>float32(v)\<close>, kept as the value it narrows.\<close>

datatype float32 = Float32 float64

record gem_config =
  gg_system :: "gem_content option"
  gg_max_output_tokens :: "32 word"
  gg_temperature :: "float32 option"
  gg_top_p :: "float32 option"
  gg_tools :: "gem_function list"
  gg_tool_config :: "gem_tool_config option"

subsection \<open>Media types\<close>

definition normalizeMediaLocation :: "(string \<Rightarrow> string option) \<Rightarrow> string \<Rightarrow> string" where
  "normalizeMediaLocation url_path location =
     (if location = [] then []
      else case url_path location of
        Some path \<Rightarrow> if path \<noteq> [] then path else location
      | None \<Rightarrow> location)"

definition guessImageMimeType :: "(string \<Rightarrow> string option) \<Rightarrow> string \<Rightarrow> string" where
  "guessImageMimeType url_path location =
     (let lower = to_lower (normalizeMediaLocation url_path location) in
      if has_suffix lower ''.png'' then ''image/png''
      else if has_suffix lower ''.gif'' then ''image/gif''
      else if has_suffix lower ''.webp'' then ''image/webp''
      else ''image/jpeg'')"

definition guessFileMimeType :: "(string \<Rightarrow> string option) \<Rightarrow> string \<Rightarrow> string" where
  "guessFileMimeType url_path location =
     (let lower = to_lower (normalizeMediaLocation url_path location) in
      if has_suffix lower ''.pdf'' then ''application/pdf''
      else if has_suffix_in [''.txt'', ''.md'', ''.csv'', ''.xml'', ''.yaml'', ''.yml''] lower
        then ''text/plain''
      else if has_suffix lower ''.json'' then ''application/json''
      else ''application/octet-stream'')"

definition guessVideoMimeType :: "(string \<Rightarrow> string option) \<Rightarrow> string \<Rightarrow> string" where
  "guessVideoMimeType url_path location =
     (let lower = to_lower (normalizeMediaLocation url_path location) in
      if has_suffix lower ''.mp4'' then ''video/mp4''
      else if has_suffix lower ''.webm'' then ''video/webm''
      else if has_suffix lower ''.mov'' then ''video/quicktime''
      else ''video/mp4'')"

subsection \<open>Parts\<close>

text \<open>A data URL as a part with its decoded bytes; \<open>what\<close> is the kind named in the errors.\<close>

definition gem_data_part :: "string \<Rightarrow> go_error + (string \<times> string) \<Rightarrow> go_error + gem_part" where
  "gem_data_part what payload =
     (case payload of
        Inl e \<Rightarrow> Inl e
      | Inr (mediaType, data) \<Rightarrow>
          (case std_decode data of
             None \<Rightarrow> Inl (ErrWrap (''decode base64 '' @ what) base64_error)
           | Some decodedData \<Rightarrow> Inr (GemBytes decodedData mediaType)))"

definition buildGeminiImagePart ::
  "(string \<Rightarrow> string option) \<Rightarrow> content_block \<Rightarrow> go_error + gem_part" where
  "buildGeminiImagePart url_path b =
     (if cb_image_url b \<noteq> [] then
        (if has_prefix (cb_image_url b) ''data:'' then
           gem_data_part ''image''
             (wrap_error ''parse image data URL'' (parseDataURL (cb_image_url b)))
         else Inr (GemURI (cb_image_url b) (guessImageMimeType url_path (cb_image_url b))))
      else Inl (ErrOther ''image input requires image_url field''))"

definition buildGeminiFilePart ::
  "(string \<Rightarrow> string option) \<Rightarrow> content_block \<Rightarrow> go_error + gem_part" where
  "buildGeminiFilePart url_path b =
     (if cb_file_url b \<noteq> [] then
        Inr (GemURI (cb_file_url b) (guessFileMimeType url_path (cb_file_url b)))
      else if cb_file_data b \<noteq> [] then
        gem_data_part ''file''
          (wrap_error ''parse file data''
            (gem_parseBase64Payload (cb_file_data b) (guessFileMimeType url_path (cb_filename b))))
      else Inl (ErrOther ''file input requires file_url or file_data field''))"

definition buildGeminiVideoPart ::
  "(string \<Rightarrow> string option) \<Rightarrow> content_block \<Rightarrow> go_error + gem_part" where
  "buildGeminiVideoPart url_path b =
     (if cb_video_url b \<noteq> [] then
        (if has_prefix (cb_video_url b) ''data:'' then
           gem_data_part ''video''
             (wrap_error ''parse video data URL'' (parseDataURL (cb_video_url b)))
         else Inr (GemURI (cb_video_url b) (guessVideoMimeType url_path (cb_video_url b))))
      else Inl (ErrOther ''video input requires video_url field''))"

definition gem_text_part ::
  "(string \<Rightarrow> string option) \<Rightarrow> string \<Rightarrow> content_block \<Rightarrow> go_error + gem_part list" where
  "gem_text_part url_path role b =
     (let one = (\<lambda>r. case r of Inl e \<Rightarrow> Inl e | Inr x \<Rightarrow> Inr [x]) in
      if is_text_type (cb_type b) then Inr [GemText (cb_text b)]
      else if cb_type b = ''input_image'' then
        one (wrap_error ''build image part'' (buildGeminiImagePart url_path b))
      else if cb_type b = ''input_file'' then
        one (wrap_error ''build file part'' (buildGeminiFilePart url_path b))
      else if cb_type b = ''input_video'' then
        one (wrap_error ''build video part'' (buildGeminiVideoPart url_path b))
      else if cb_type b = ''encrypted_reasoning'' then Inr []
      else Inl (ErrOther (role @ '' messages do not support '' @ go_quote (cb_type b) @
                          '' content in the Google provider'')))"

definition buildGeminiTextParts ::
  "(string \<Rightarrow> string option) \<Rightarrow> content_block list \<Rightarrow> string \<Rightarrow> go_error + gem_part list" where
  "buildGeminiTextParts url_path blocks role = convert_all (gem_text_part url_path role) blocks"

definition gem_entry :: "content_block \<Rightarrow> go_error + json list" where
  "gem_entry b =
     (if cb_type b = ''encrypted_reasoning'' then Inr []
      else case TextValue b of
        None \<Rightarrow>
          Inl (ErrOther (''tool results only support text content in the Google provider; found '' @
                         go_quote (cb_type b)))
      | Some t \<Rightarrow>
          Inr [JObj [(''type'', JStr (cb_type b)),
                     (if cb_type b = ''refusal'' then ''refusal'' else ''text'', JStr t)]])"

text \<open>
  The output of a tool: JSON that is an object (or \<open>null\<close>) is sent as it is, another single text
  under \<open>output\<close>, and everything else as the list of its blocks.
\<close>

definition buildGeminiToolResponse ::
  "(string \<Rightarrow> string option) \<Rightarrow> content_block list \<Rightarrow> go_error + json" where
  "buildGeminiToolResponse num blocks =
     (case (case blocks of
              [b] \<Rightarrow> if cb_type b \<noteq> ''refusal'' then TextValue b else None
            | _ \<Rightarrow> None) of
        Some t \<Rightarrow>
          (case decode_map num t of
             Some responseMap \<Rightarrow> Inr responseMap
           | None \<Rightarrow> Inr (JObj [(''output'', JStr t)]))
      | None \<Rightarrow>
          (case convert_all gem_entry blocks of
             Inl e \<Rightarrow> Inl e
           | Inr content \<Rightarrow> Inr (JObj [(''content'', JArr content)])))"

subsection \<open>Messages\<close>

definition model_role :: "string \<Rightarrow> bool" where
  "model_role r = (r = ''assistant'' \<or> r = ''model'')"

text \<open>The map from call ids to function names; the last call of an id wins.\<close>

definition call_entries :: "message \<Rightarrow> (string \<times> string) list" where
  "call_entries m =
     (if model_role (msg_role m)
      then map (\<lambda>tc. (tc_id tc, tc_name tc))
             (filter (\<lambda>tc. tc_id tc \<noteq> [] \<and> tc_name tc \<noteq> []) (msg_tool_calls m))
      else [])"

definition callIDToName :: "message list \<Rightarrow> string \<Rightarrow> string" where
  "callIDToName msgs i =
     (case map_of (rev (concat (map call_entries msgs))) i of Some n \<Rightarrow> n | None \<Rightarrow> [])"

definition gem_call_part :: "(string \<Rightarrow> string option) \<Rightarrow> tool_call \<Rightarrow> gem_part option" where
  "gem_call_part num tc =
     (case decode_map num (tc_arguments tc) of
        None \<Rightarrow> None
      | Some args \<Rightarrow> Some (GemCall (tc_id tc) (tc_name tc) args))"

text \<open>The contents and system parts one message adds; \<open>names\<close> is the finished map.\<close>

definition gem_message_of ::
  "(string \<Rightarrow> string option) \<Rightarrow> (string \<Rightarrow> string option) \<Rightarrow> (string \<Rightarrow> string) \<Rightarrow> message \<Rightarrow>
   go_error + (gem_content list \<times> gem_part list)" where
  "gem_message_of num url_path names m =
     (let r = msg_role m in
      if r = ''system'' \<or> r = ''developer'' then
        (case buildGeminiTextParts url_path (msg_content m) r of
           Inl e \<Rightarrow> Inl e | Inr parts \<Rightarrow> Inr ([], parts))
      else if r = ''tool'' then
        (case buildGeminiToolResponse num (msg_content m) of
           Inl e \<Rightarrow> Inl e
         | Inr responseMap \<Rightarrow>
             (let name = (if msg_name m = [] \<and> msg_call_id m \<noteq> [] then names (msg_call_id m)
                          else msg_name m)
              in Inr ([\<lparr>gc_role = ''user'',
                        gc_parts = [GemResponse (msg_call_id m) name responseMap]\<rparr>], [])))
      else
        (case buildGeminiTextParts url_path (msg_content m) r of
           Inl e \<Rightarrow> Inl e
         | Inr parts \<Rightarrow>
             Inr ([\<lparr>gc_role = (if model_role r then ''model'' else ''user''),
                    gc_parts = parts @
                      (if model_role r then List.map_filter (gem_call_part num) (msg_tool_calls m)
                       else [])\<rparr>], [])))"

fun gem_messages ::
  "(string \<Rightarrow> string option) \<Rightarrow> (string \<Rightarrow> string option) \<Rightarrow> (string \<Rightarrow> string) \<Rightarrow> message list \<Rightarrow>
   go_error + (gem_content list \<times> gem_part list)" where
  "gem_messages num url_path names [] = Inr ([], [])"
| "gem_messages num url_path names (m # ms) =
     (case gem_message_of num url_path names m of
        Inl e \<Rightarrow> Inl e
      | Inr (us, ss) \<Rightarrow>
          (case gem_messages num url_path names ms of
             Inl e \<Rightarrow> Inl e
           | Inr (vs, ts) \<Rightarrow> Inr (us @ vs, ss @ ts)))"

definition convertMessages ::
  "(string \<Rightarrow> string option) \<Rightarrow> (string \<Rightarrow> string option) \<Rightarrow> message list \<Rightarrow>
   go_error + (gem_content list \<times> gem_content option)" where
  "convertMessages num url_path msgs =
     (case gem_messages num url_path (callIDToName msgs) msgs of
        Inl e \<Rightarrow> Inl e
      | Inr (contents, systemParts) \<Rightarrow>
          Inr (contents,
               if systemParts \<noteq> [] then Some \<lparr>gc_role = [], gc_parts = systemParts\<rparr> else None))"

subsection \<open>Tools\<close>

definition gem_tool_of :: "jmap \<Rightarrow> gem_function" where
  "gem_tool_of toolDef =
     (let d = (case jget_obj toolDef ''function'' of Some functionData \<Rightarrow> functionData | None \<Rightarrow> toolDef)
      in \<lparr>gf_name = getStringField d ''name'', gf_description = getStringField d ''description'',
          gf_parameters = jget_any d ''parameters''\<rparr>)"

text \<open>The empty list is the nil slice: without a named tool no \<open>Tool\<close> is returned.\<close>

definition gem_parseTools :: "response_request \<Rightarrow> go_error + gem_function list" where
  "gem_parseTools req =
     (if raw_len0 (rq_tools req) then Inr []
      else case unmarshal_maps (rq_tools req) of
        None \<Rightarrow> Inl (ErrWrap ''unmarshal tools'' json_error)
      | Some defs \<Rightarrow> Inr (filter (\<lambda>f. gf_name f \<noteq> []) (map gem_tool_of defs)))"

definition gem_parseToolChoice :: "response_request \<Rightarrow> go_error + gem_tool_config option" where
  "gem_parseToolChoice req =
     (case ParseToolChoice (Some req) of
        Inl e \<Rightarrow> Inl (api_go_error e)
      | Inr parsed \<Rightarrow>
          (let mode = ptc_mode parsed in
           if raw_len0 (rq_tool_choice req) then Inr None
           else if mode = ''auto'' \<or> mode = ''allowed_tools'' then
             Inr (Some \<lparr>gt_mode = GemAuto, gt_allowed = []\<rparr>)
           else if mode = ''none'' then Inr (Some \<lparr>gt_mode = GemNone, gt_allowed = []\<rparr>)
           else if mode = ''required'' \<or> mode = ''any'' then
             Inr (Some \<lparr>gt_mode = GemAny, gt_allowed = []\<rparr>)
           else if mode = ''function'' then
             Inr (Some \<lparr>gt_mode = GemAny, gt_allowed = [ptc_required_tool_name parsed]\<rparr>)
           else Inl (ErrOther ''unsupported tool_choice format'')))"

subsection \<open>Parameters\<close>

definition maxInt32Value :: int where
  "maxInt32Value = uint (drop_bit 1 (NOT (0 :: 32 word)))"

definition clampMaxOutputTokens :: "int \<Rightarrow> 32 word" where
  "clampMaxOutputTokens v =
     (if v \<le> 0 then 0
      else if v > maxInt32Value then word_of_int maxInt32Value
      else word_of_int v)"

definition buildConfig ::
  "gem_content option \<Rightarrow> response_request \<Rightarrow> gem_function list \<Rightarrow> gem_tool_config option \<Rightarrow>
   gem_config option" where
  "buildConfig systemInstruction req tools toolConfig =
     (if systemInstruction = None \<and> rq_max_output_tokens req = None \<and> rq_temperature req = None \<and>
         rq_top_p req = None \<and> tools = [] \<and> toolConfig = None
      then None
      else Some
        \<lparr>gg_system = systemInstruction,
         gg_max_output_tokens = (case rq_max_output_tokens req of
                                   Some n \<Rightarrow> clampMaxOutputTokens n | None \<Rightarrow> 0),
         gg_temperature = map_option Float32 (rq_temperature req),
         gg_top_p = map_option Float32 (rq_top_p req), gg_tools = tools,
         gg_tool_config = toolConfig\<rparr>)"

record gem_params =
  gp_model :: string
  gp_contents :: "gem_content list"
  gp_config :: "gem_config option"

definition gem_params_of ::
  "(string \<Rightarrow> string option) \<Rightarrow> (string \<Rightarrow> string option) \<Rightarrow> message list \<Rightarrow> response_request \<Rightarrow>
   go_error + gem_params" where
  "gem_params_of num url_path msgs req =
     (case wrap_error ''convert messages'' (convertMessages num url_path msgs) of
        Inl e \<Rightarrow> Inl e
      | Inr (contents, systemInstruction) \<Rightarrow>
          (case (if raw_len0 (rq_tools req) then Inr []
                 else wrap_error ''parse tools'' (gem_parseTools req)) of
             Inl e \<Rightarrow> Inl e
           | Inr tools \<Rightarrow>
               (case (if raw_len0 (rq_tool_choice req) then Inr None
                      else wrap_error ''parse tool_choice'' (gem_parseToolChoice req)) of
                  Inl e \<Rightarrow> Inl e
                | Inr toolConfig \<Rightarrow>
                    Inr \<lparr>gp_model = rq_model req, gp_contents = contents,
                         gp_config = buildConfig systemInstruction req tools toolConfig\<rparr>)))"

subsection \<open>The answer\<close>

record gem_function_call =
  fc_id :: string
  fc_name :: string
  fc_args :: "jmap option"

text \<open>A part of an answer; a nil part is \<open>None\<close>.\<close>

record gem_answer_part =
  ga_text :: string
  ga_call :: "gem_function_call option"

record gem_tokens =
  gk_prompt :: int
  gk_candidates :: int
  gk_total :: int

text \<open>A candidate is its content, \<open>None\<close> when that is nil.\<close>

record gem_response =
  gr_candidates :: "gem_answer_part option list option list"
  gr_usage :: "gem_tokens option"

definition id_charset :: string where
  "id_charset = ''abcdefghijklmnopqrstuvwxyz0123456789''"

text \<open>The argument is what one read of 24 bytes delivers.\<close>

definition generateRandomID :: "string option \<Rightarrow> string" where
  "generateRandomID random =
     (case random of
        None \<Rightarrow> ''aaaaaaaaaaaaaaaaaaaaaaaa''
      | Some bytes \<Rightarrow> map (\<lambda>v. id_charset ! (of_char v mod 36)) bytes)"

text \<open>A decoded argument map always marshals, so the fallback of the code is the nil map's \<open>{}\<close> only.\<close>

definition gem_args :: "gem_function_call \<Rightarrow> string" where
  "gem_args fc = (case fc_args fc of Some args \<Rightarrow> json_encode (JObj args) | None \<Rightarrow> ''{}'')"

text \<open>The id of a call and the number of reads done.\<close>

definition gem_call_id :: "(nat \<Rightarrow> string option) \<Rightarrow> nat \<Rightarrow> gem_function_call \<Rightarrow> string \<times> nat" where
  "gem_call_id rnd n fc =
     (if fc_id fc = [] then (''call_'' @ generateRandomID (rnd n), Suc n) else (fc_id fc, n))"

fun gem_calls ::
  "(nat \<Rightarrow> string option) \<Rightarrow> nat \<Rightarrow> gem_function_call list \<Rightarrow> tool_call list" where
  "gem_calls rnd n [] = []"
| "gem_calls rnd n (fc # fcs) =
     (let (callID, n') = gem_call_id rnd n fc in
      \<lparr>tc_id = callID, tc_name = fc_name fc, tc_arguments = gem_args fc\<rparr> # gem_calls rnd n' fcs)"

definition part_call :: "gem_answer_part option \<Rightarrow> gem_function_call option" where
  "part_call part = (case part of None \<Rightarrow> None | Some p \<Rightarrow> ga_call p)"

text \<open>The calls of all candidates, in order.\<close>

definition gem_extractToolCalls :: "(nat \<Rightarrow> string option) \<Rightarrow> gem_response \<Rightarrow> tool_call list" where
  "gem_extractToolCalls rnd resp =
     gem_calls rnd 0
       (concat (map (\<lambda>c. case c of None \<Rightarrow> [] | Some parts \<Rightarrow> List.map_filter part_call parts)
                  (gr_candidates resp)))"

definition gem_extractToolCallDelta ::
  "(nat \<Rightarrow> string option) \<Rightarrow> nat \<Rightarrow> gem_answer_part option \<Rightarrow> nat \<Rightarrow>
   (tool_call_delta \<times> nat) option" where
  "gem_extractToolCallDelta rnd n part index =
     (case part_call part of
        None \<Rightarrow> None
      | Some fc \<Rightarrow>
          (let (callID, n') = gem_call_id rnd n fc in
           Some (\<lparr>td_index = int index, td_id = callID, td_name = fc_name fc,
                  td_arguments = gem_args fc\<rparr>, n')))"

definition part_text :: "gem_answer_part option \<Rightarrow> string" where
  "part_text part = (case part of None \<Rightarrow> [] | Some p \<Rightarrow> ga_text p)"

text \<open>The parts of the first candidate.\<close>

definition first_parts :: "gem_response \<Rightarrow> gem_answer_part option list" where
  "first_parts resp = (case gr_candidates resp of Some parts # _ \<Rightarrow> parts | _ \<Rightarrow> [])"

definition gem_result ::
  "string \<Rightarrow> (nat \<Rightarrow> string option) \<Rightarrow> string \<Rightarrow> gem_response \<Rightarrow> provider_result" where
  "gem_result uuid rnd model resp =
     (let (inputTokens, outputTokens) =
            (case gr_usage resp of None \<Rightarrow> (0, 0) | Some u \<Rightarrow> (gk_prompt u, gk_candidates u))
      in \<lparr>pr_id = uuid, pr_model = model, pr_text = concat (map part_text (first_parts resp)),
          pr_usage = \<lparr>us_input_tokens = inputTokens, us_output_tokens = outputTokens,
                      us_total_tokens = inputTokens + outputTokens\<rparr>,
          pr_tool_calls = gem_extractToolCalls rnd resp, pr_replay_message = None\<rparr>)"

subsection \<open>The stream\<close>

fun gem_part_deltas ::
  "(nat \<Rightarrow> string option) \<Rightarrow> nat \<Rightarrow> nat \<Rightarrow> gem_answer_part option list \<Rightarrow>
   provider_stream_delta list \<times> nat" where
  "gem_part_deltas rnd n index [] = ([], n)"
| "gem_part_deltas rnd n index (part # parts) =
     (let texts = (if part_text part \<noteq> [] then [zero_delta\<lparr>pd_text := part_text part\<rparr>] else []);
          (calls, n1) = (case gem_extractToolCallDelta rnd n part index of
                           None \<Rightarrow> ([], n)
                         | Some (td, n') \<Rightarrow> ([zero_delta\<lparr>pd_tool_call_delta := Some td\<rparr>], n'));
          (ds, n2) = gem_part_deltas rnd n1 (Suc index) parts
      in (texts @ calls @ ds, n2))"

definition gem_stream_usage :: "gem_response \<Rightarrow> usage option \<Rightarrow> usage option" where
  "gem_stream_usage resp u =
     (case gr_usage resp of
        None \<Rightarrow> u
      | Some k \<Rightarrow> Some \<lparr>us_input_tokens = gk_prompt k, us_output_tokens = gk_candidates k,
                       us_total_tokens = gk_total k\<rparr>)"

fun gem_stream_loop ::
  "(nat \<Rightarrow> string option) \<Rightarrow> nat \<Rightarrow> gem_response list \<Rightarrow> usage option \<Rightarrow>
   provider_stream_delta list \<times> usage option" where
  "gem_stream_loop rnd n [] u = ([], u)"
| "gem_stream_loop rnd n (resp # resps) u =
     (let (ds, n') = gem_part_deltas rnd n 0 (first_parts resp);
          (ds', u') = gem_stream_loop rnd n' resps (gem_stream_usage resp u)
      in (ds @ ds', u'))"

subsection \<open>The provider\<close>

record gem_client =
  gl_generate :: "gem_params \<Rightarrow> go_error + gem_response"
  gl_stream :: "gem_params \<Rightarrow> gem_response list \<times> go_error option"

record gem_provider =
  gv_api_key :: string
  gv_client :: "gem_client option"

definition gem_New :: "(string \<Rightarrow> go_error + gem_client) \<Rightarrow> string \<Rightarrow> go_error + gem_provider" where
  "gem_New mk key =
     (if key = [] then Inr \<lparr>gv_api_key = key, gv_client = None\<rparr>
      else case wrap_error ''failed to create google client'' (mk key) of
        Inl e \<Rightarrow> Inl e
      | Inr c \<Rightarrow> Inr \<lparr>gv_api_key = key, gv_client = Some c\<rparr>)"

definition gem_NewVertexAI ::
  "(string \<Rightarrow> string \<Rightarrow> go_error + gem_client) \<Rightarrow> string \<Rightarrow> string \<Rightarrow> go_error + gem_provider" where
  "gem_NewVertexAI mk project location =
     (if project = [] \<or> location = [] then Inr \<lparr>gv_api_key = [], gv_client = None\<rparr>
      else case wrap_error ''failed to create vertex ai client'' (mk project location) of
        Inl e \<Rightarrow> Inl e
      | Inr c \<Rightarrow> Inr \<lparr>gv_api_key = [], gv_client = Some c\<rparr>)"

definition gem_Generate ::
  "(string \<Rightarrow> string option) \<Rightarrow> (string \<Rightarrow> string option) \<Rightarrow> string \<Rightarrow> (nat \<Rightarrow> string option) \<Rightarrow>
   gem_provider \<Rightarrow> message list \<Rightarrow> response_request \<Rightarrow> go_error + provider_result" where
  "gem_Generate num url_path uuid rnd p msgs req =
     (case gv_client p of
        None \<Rightarrow> Inl (ErrOther ''google client not initialized'')
      | Some client \<Rightarrow>
          (case gem_params_of num url_path msgs req of
             Inl e \<Rightarrow> Inl e
           | Inr params \<Rightarrow>
               (case wrap_error ''google api error'' (gl_generate client params) of
                  Inl e \<Rightarrow> Inl e
                | Inr resp \<Rightarrow> Inr (gem_result uuid rnd (rq_model req) resp))))"

definition gem_GenerateStream ::
  "(string \<Rightarrow> string option) \<Rightarrow> (string \<Rightarrow> string option) \<Rightarrow> (nat \<Rightarrow> string option) \<Rightarrow>
   gem_provider \<Rightarrow> message list \<Rightarrow> response_request \<Rightarrow>
   provider_stream_delta list \<times> go_error option" where
  "gem_GenerateStream num url_path rnd p msgs req =
     (case gv_client p of
        None \<Rightarrow> ([], Some (ErrOther ''google client not initialized''))
      | Some client \<Rightarrow>
          (case gem_params_of num url_path msgs req of
             Inl e \<Rightarrow> ([], Some e)
           | Inr params \<Rightarrow>
               (let (resps, err) = gl_stream client params;
                    (deltas, streamUsage) = gem_stream_loop rnd 0 resps None
                in case err of
                     Some e \<Rightarrow> (deltas, Some (ErrWrap ''google stream error'' e))
                   | None \<Rightarrow>
                       (deltas @ [zero_delta\<lparr>pd_done := True, pd_usage := streamUsage\<rparr>], None))))"

definition google_provider ::
  "(string \<Rightarrow> string option) \<Rightarrow> (string \<Rightarrow> string option) \<Rightarrow> string \<Rightarrow> (nat \<Rightarrow> string option) \<Rightarrow>
   gem_provider \<Rightarrow> provider" where
  "google_provider num url_path uuid rnd p =
     \<lparr>pv_name = ''google'', pv_generate = gem_Generate num url_path uuid rnd p,
      pv_stream = gem_GenerateStream num url_path rnd p\<rparr>"

definition gem_chooseModel :: "string \<Rightarrow> string \<Rightarrow> string" where
  "gem_chooseModel requested defaultModel =
     (if requested \<noteq> [] then requested
      else if defaultModel \<noteq> [] then defaultModel else ''gemini-2.0-flash-exp'')"

end
