(* ===== verification/VendorProps.thy ===== *)
theory VendorProps
  imports OpenAi Google AnthropicProps
begin

text \<open>
  What the conversions to the three vendors guarantee: the shape of what is sent, that the turns
  the gateway makes itself can be sent again to any vendor, that calls and results stay paired, the
  round trip of arguments, the bound on the number of tokens; and the places where they lose data.
\<close>

subsection \<open>The shape of what is sent\<close>

fun oai_user_ok :: "oai_part \<Rightarrow> bool" where
  "oai_user_ok (OaiRefusal r) = False"
| "oai_user_ok _ = True"

fun oai_assistant_ok :: "oai_part \<Rightarrow> bool" where
  "oai_assistant_ok (OaiText t) = True"
| "oai_assistant_ok (OaiRefusal r) = True"
| "oai_assistant_ok _ = False"

fun oai_text_ok :: "oai_part \<Rightarrow> bool" where
  "oai_text_ok (OaiText t) = True"
| "oai_text_ok _ = False"

fun content_ok :: "(oai_part \<Rightarrow> bool) \<Rightarrow> oai_content \<Rightarrow> bool" where
  "content_ok ok OaiUnset = False"
| "content_ok ok (OaiString s) = True"
| "content_ok ok (OaiParts ps) = list_all ok ps"

text \<open>
  The types of the chat completions API: which parts each role may hold, content that may be left
  out only beside tool calls, and ids of at most 40 bytes.
\<close>

fun oai_typed :: "oai_message \<Rightarrow> bool" where
  "oai_typed (OaiUser c) = content_ok oai_user_ok c"
| "oai_typed (OaiAssistant c tcs) =
     ((content_ok oai_assistant_ok c \<or> c = OaiUnset \<and> tcs \<noteq> []) \<and>
      list_all (\<lambda>tc. length (tc_id tc) \<le> 40) tcs)"
| "oai_typed (OaiSystem c) = content_ok oai_text_ok c"
| "oai_typed (OaiDeveloper c) = content_ok oai_text_ok c"
| "oai_typed (OaiTool c i) = (content_ok oai_text_ok c \<and> length i \<le> 40)"

fun ant_user_ok :: "ant_block \<Rightarrow> bool" where
  "ant_user_ok (AntThinking _ _) = False"
| "ant_user_ok (AntRedacted _) = False"
| "ant_user_ok (AntToolUse _ _ _) = False"
| "ant_user_ok _ = True"

fun ant_assistant_ok :: "ant_block \<Rightarrow> bool" where
  "ant_assistant_ok (AntText _) = True"
| "ant_assistant_ok (AntThinking _ _) = True"
| "ant_assistant_ok (AntRedacted _) = True"
| "ant_assistant_ok (AntToolUse _ input _) = (case input of JObj m \<Rightarrow> True | JNull \<Rightarrow> True | _ \<Rightarrow> False)"
| "ant_assistant_ok _ = False"

definition ant_typed :: "ant_message \<Rightarrow> bool" where
  "ant_typed m \<longleftrightarrow>
     am_role m = ''user'' \<and> list_all ant_user_ok (am_content m) \<or>
     am_role m = ''assistant'' \<and> am_content m \<noteq> [] \<and> list_all ant_assistant_ok (am_content m)"

fun gem_model_part :: "gem_part \<Rightarrow> bool" where
  "gem_model_part (GemResponse _ _ _) = False"
| "gem_model_part (GemCall _ _ args) = (case args of JObj m \<Rightarrow> True | JNull \<Rightarrow> True | _ \<Rightarrow> False)"
| "gem_model_part _ = True"

fun gem_user_part :: "gem_part \<Rightarrow> bool" where
  "gem_user_part (GemCall _ _ _) = False"
| "gem_user_part (GemResponse _ _ r) = (case r of JObj m \<Rightarrow> True | JNull \<Rightarrow> True | _ \<Rightarrow> False)"
| "gem_user_part _ = True"

definition gem_typed :: "gem_content \<Rightarrow> bool" where
  "gem_typed c \<longleftrightarrow>
     gc_role c = ''user'' \<and> list_all gem_user_part (gc_parts c) \<or>
     gc_role c = ''model'' \<and> list_all gem_model_part (gc_parts c)"

lemma decode_map_object:
  "decode_map num s = Some j \<Longrightarrow> (case j of JObj m \<Rightarrow> True | JNull \<Rightarrow> True | _ \<Rightarrow> False)"
  by (auto simp: decode_map_def split: option.splits json.splits)

text \<open>What every element of a conversion satisfies follows from what one step produces.\<close>

lemma convert_all_typed:
  assumes "convert_all f xs = Inr ys" and "\<And>x zs. f x = Inr zs \<Longrightarrow> list_all P zs"
  shows "list_all P ys"
  using assms(1) assms(2) by (fastforce simp: list_all_iff dest: convert_all_set)

lemma compact_ok: "list_all ok ps \<Longrightarrow> content_ok ok (oai_compact ps)"
  by (cases ps rule: oai_compact.cases) auto

lemma user_part_ok: "oai_user_part b = Inr ps \<Longrightarrow> list_all oai_user_ok ps"
  by (auto simp: oai_user_part_def split: if_splits)

lemma assistant_part_ok: "oai_assistant_part b = Inr ps \<Longrightarrow> list_all oai_assistant_ok ps"
  by (auto simp: oai_assistant_part_def split: if_splits)

lemma text_part_ok: "oai_text_part role b = Inr ps \<Longrightarrow> list_all oai_text_ok ps"
  by (auto simp: oai_text_part_def split: if_splits option.splits)

lemma sanitize_length: "length (sanitizeToolCallID i) \<le> 40"
  by (simp add: sanitizeToolCallID_def maxToolCallIDLen_def)

lemma oai_text_content_ok: "oai_text_content role bs = Inr c \<Longrightarrow> content_ok oai_text_ok c"
  unfolding oai_text_content_def buildOAITextOnlyParts_def
  by (auto split: sum.splits intro!: compact_ok intro: convert_all_typed text_part_ok)

lemma oai_user_content_ok: "buildOAIUserContent bs = Inr c \<Longrightarrow> content_ok oai_user_ok c"
  unfolding buildOAIUserContent_def
  by (auto split: sum.splits intro!: compact_ok intro: convert_all_typed user_part_ok)

lemma oai_assistant_content_ok:
  "buildOAIAssistantContent bs = Inr c \<Longrightarrow> c = OaiUnset \<or> content_ok oai_assistant_ok c"
  using convert_all_typed [of oai_assistant_part bs _ oai_assistant_ok] assistant_part_ok
  by (auto simp: buildOAIAssistantContent_def split: sum.splits if_splits intro!: compact_ok)

lemma oai_message_typed:
  assumes "oai_message_of m = Inr ms"
  shows "list_all oai_typed ms"
proof (cases m rule: oai_role_cases)
  case assistant
  with assms obtain c where c: "buildOAIAssistantContent (msg_content m) = Inr c"
    "ms = [oai_assistant c (msg_tool_calls m)]"
    by (auto simp: oai_message_role split: sum.splits)
  with oai_assistant_content_ok [OF c(1)] show ?thesis
    by (auto simp: oai_assistant_def oai_call_def list_all_iff sanitize_length)
qed (use assms in \<open>auto simp: oai_message_role sanitize_length split: sum.splits
       dest: oai_user_content_ok oai_text_content_ok\<close>)

lemma ant_user_block_ok: "ant_user_block role b = Inr bs \<Longrightarrow> list_all ant_user_ok bs"
  by (auto simp: ant_user_block_def buildAnthropicImageBlock_def buildAnthropicDocumentBlock_def
      split: if_splits sum.splits prod.splits)

lemma ant_assistant_block_ok: "ant_assistant_block b = Inr bs \<Longrightarrow> list_all ant_assistant_ok bs"
  by (auto simp: ant_assistant_block_def split: if_splits option.splits)

lemma ant_tool_use_ok: "ant_tool_use num tc = Some b \<Longrightarrow> ant_assistant_ok b"
  by (auto simp: ant_tool_use_def split: option.splits dest: decode_map_object)

lemma map_filter_all: "(\<And>x y. f x = Some y \<Longrightarrow> P y) \<Longrightarrow> list_all P (List.map_filter f xs)"
  by (induction xs) (auto split: option.split)

lemma ant_user_blocks_ok: "buildAnthropicTextBlocks bs role = Inr xs \<Longrightarrow> list_all ant_user_ok xs"
  unfolding buildAnthropicTextBlocks_def by (rule convert_all_typed) (auto dest: ant_user_block_ok)

lemma ant_assistant_blocks_ok:
  "buildAnthropicAssistantBlocks num bs tcs = Inr xs \<Longrightarrow> list_all ant_assistant_ok xs"
  using convert_all_typed [of ant_assistant_block bs _ ant_assistant_ok] ant_assistant_block_ok
  by (auto simp: buildAnthropicAssistantBlocks_def split: sum.splits intro!: map_filter_all ant_tool_use_ok)

lemma ant_message_typed:
  "ant_message_of num m = Inr (us, ss) \<Longrightarrow> list_all ant_typed us"
  by (auto simp: ant_message_of_def Let_def ant_typed_def ant_user_def ant_assistant_def
      split: sum.splits if_splits dest: ant_user_blocks_ok ant_assistant_blocks_ok)

lemma ant_messages_typed:
  "buildAnthropicMessages num ms = Inr (us, ss) \<Longrightarrow> list_all ant_typed us"
  by (induction ms arbitrary: us ss) (fastforce split: sum.splits prod.splits dest: ant_message_typed)+

lemma gem_data_part_ok: "gem_data_part w r = Inr p \<Longrightarrow> gem_model_part p \<and> gem_user_part p"
  by (auto simp: gem_data_part_def split: sum.splits option.splits)

lemma gem_text_part_ok:
  "gem_text_part url_path role b = Inr ps \<Longrightarrow> list_all (\<lambda>p. gem_model_part p \<and> gem_user_part p) ps"
  by (auto simp: gem_text_part_def Let_def buildGeminiImagePart_def buildGeminiFilePart_def
      buildGeminiVideoPart_def split: if_splits sum.splits dest: gem_data_part_ok)

lemma gem_text_parts_ok:
  assumes "buildGeminiTextParts url_path bs role = Inr ps"
  shows "list_all gem_model_part ps" and "list_all gem_user_part ps"
proof -
  have "list_all (\<lambda>p. gem_model_part p \<and> gem_user_part p) ps"
    using assms unfolding buildGeminiTextParts_def by (rule convert_all_typed) (rule gem_text_part_ok)
  then show "list_all gem_model_part ps" "list_all gem_user_part ps" by (simp_all add: list_all_iff)
qed

lemma gem_call_part_ok: "gem_call_part num tc = Some p \<Longrightarrow> gem_model_part p"
  by (auto simp: gem_call_part_def split: option.splits dest: decode_map_object)

lemma gem_tool_response_ok:
  "buildGeminiToolResponse num bs = Inr r \<Longrightarrow> (case r of JObj m \<Rightarrow> True | JNull \<Rightarrow> True | _ \<Rightarrow> False)"
  by (auto simp: buildGeminiToolResponse_def split: option.splits sum.splits dest: decode_map_object)

lemma gem_message_typed:
  "gem_message_of num url_path names m = Inr (us, ss) \<Longrightarrow> list_all gem_typed us"
  by (auto simp: gem_message_of_def Let_def gem_typed_def split: sum.splits if_splits
      dest: gem_text_parts_ok gem_tool_response_ok intro!: map_filter_all gem_call_part_ok)

lemma gem_messages_typed:
  "gem_messages num url_path names ms = Inr (us, ss) \<Longrightarrow> list_all gem_typed us"
  by (induction ms arbitrary: us ss) (fastforce split: sum.splits prod.splits dest: gem_message_typed)+

text \<open>C18: Whatever conversation is given, what goes to a vendor has the types of its API. OpenAI: user
  messages hold no refusals, assistant messages only text and refusals, with content unless they
  call tools, system, developer and tool messages only text, and every call id has at most 40 bytes.
  Anthropic: thinking and tool calls only in assistant messages, which are never empty, tool results
  only in user messages. Gemini: roles user and model, function calls only in model contents,
  responses only in user contents, arguments and responses always objects (or null).
\<close>

theorem vendor_messages_typed:
  "(buildOAIMessages msgs = Inr oai \<longrightarrow> list_all oai_typed oai) \<and>
   (buildAnthropicMessages num msgs = Inr (ant, sys) \<longrightarrow> list_all ant_typed ant) \<and>
   (convertMessages num url_path msgs = Inr (gem, instr) \<longrightarrow> list_all gem_typed gem)"
proof (intro conjI impI)
  show "list_all oai_typed oai" if "buildOAIMessages msgs = Inr oai"
    using that unfolding buildOAIMessages_def by (rule convert_all_typed) (rule oai_message_typed)
  show "list_all ant_typed ant" if "buildAnthropicMessages num msgs = Inr (ant, sys)"
    using that by (rule ant_messages_typed)
  show "list_all gem_typed gem" if "convertMessages num url_path msgs = Inr (gem, instr)"
    using that by (auto simp: convertMessages_def split: sum.splits dest: gem_messages_typed)
qed

definition sample_conversation :: "message list" where
  "sample_conversation =
     [new_message ''system'' [input_text_block ''be brief''] [],
      new_message ''user'' [input_text_block ''hello''] [],
      new_message ''assistant'' [output_text_block ''calling'']
        [\<lparr>tc_id = replicate 50 (CHR ''i''), tc_name = ''f'', tc_arguments = ''{}''\<rparr>],
      \<lparr>msg_role = ''tool'', msg_content = [input_text_block ''42''],
       msg_call_id = replicate 50 (CHR ''i''), msg_name = [], msg_tool_calls = []\<rparr>]"

theorem vendor_messages_typed_witness:
  "list_all oai_typed (projr (buildOAIMessages sample_conversation)) \<and>
   list_all ant_typed (fst (projr (buildAnthropicMessages Some sample_conversation))) \<and>
   list_all gem_typed (fst (projr (convertMessages Some Some sample_conversation)))"
proof -
  have ok: "is_ok (buildOAIMessages sample_conversation)" "is_ok (buildAnthropicMessages Some sample_conversation)"
    "is_ok (convertMessages Some Some sample_conversation)"
    by code_simp+
  then obtain oai ant sys gem instr where
    c: "buildOAIMessages sample_conversation = Inr oai"
      "buildAnthropicMessages Some sample_conversation = Inr (ant, sys)"
      "convertMessages Some Some sample_conversation = Inr (gem, instr)"
    unfolding is_ok_iff by (metis surj_pair)
  with vendor_messages_typed [of sample_conversation oai Some ant sys Some gem instr] show ?thesis
    by simp
qed

subsection \<open>Data URLs\<close>

lemma take_while_app: "x \<notin> set xs \<Longrightarrow> takeWhile (\<lambda>c. c \<noteq> x) (xs @ x # ys) = xs"
  by (induction xs) auto

lemma std_decode_foreign:
  assumes "c \<in> set s" and "c \<notin> set std_alphabet" and "c \<notin> {CHR ''='', CHR 0x0A, CHR 0x0D}"
  shows "std_decode s = None"
proof -
  define t where "t = filter (\<lambda>c. c \<noteq> CHR 0x0A \<and> c \<noteq> CHR 0x0D) s"
  have "c \<in> set t" using assms by (auto simp: t_def)
  then have "c \<in> set (takeWhile (\<lambda>c. c \<noteq> CHR ''='') t @ dropWhile (\<lambda>c. c \<noteq> CHR ''='') t)" by simp
  then consider "c \<in> set (takeWhile (\<lambda>c. c \<noteq> CHR ''='') t)" | "c \<in> set (dropWhile (\<lambda>c. c \<noteq> CHR ''='') t)"
    unfolding set_append by blast
  then show ?thesis
  proof cases
    case 1
    with assms have "sextet_vals std_alphabet (takeWhile (\<lambda>c. c \<noteq> CHR ''='') t) = None"
      by (intro sextet_vals_foreign) auto
    then show ?thesis by (simp add: std_decode_def t_def [symmetric] Let_def)
  next
    case 2
    have "w \<notin> {[], ''='', ''==''}" if "c \<in> set w" for w using that assms(3) by auto
    from this [OF 2] have "dropWhile (\<lambda>c. c \<noteq> CHR ''='') t \<notin> {[], ''='', ''==''}" .
    then show ?thesis by (simp add: std_decode_def t_def [symmetric] Let_def)
  qed
qed

lemma std_encode_chars: "c \<in> set (std_encode s) \<Longrightarrow> c \<in> set std_alphabet \<or> c = CHR ''=''"
  using sextets_byte_vals [of s] by (auto simp: std_encode_def intro!: nth_mem)

lemma no_percent: "CHR ''%'' \<notin> set (std_encode s)"
proof
  assume "CHR ''%'' \<in> set (std_encode s)"
  then have "CHR ''%'' \<in> set std_alphabet" using std_encode_chars by fastforce
  moreover have "CHR ''%'' \<notin> set std_alphabet" by code_simp
  ultimately show False by blast
qed

lemma unescape_total: "CHR ''%'' \<notin> set s \<Longrightarrow> query_unescape s \<noteq> None"
  by (induction s rule: query_unescape.induct) auto

lemma parse_data_url:
  assumes "has_prefix u ''data:''" and "trim_prefix u ''data:'' = meta @ CHR '','' # d"
    and "CHR '','' \<notin> set meta" and "split_on (CHR '';'') meta = [mt, ''base64'']" and "mt \<noteq> []"
  shows "parseDataURL u =
    (let d' = (case query_unescape d of Some t \<Rightarrow> t | None \<Rightarrow> d) in
     case std_decode d' of None \<Rightarrow> Inl (ErrWrap ''invalid base64 data'' base64_error) | Some _ \<Rightarrow> Inr (mt, d'))"
  using assms by (simp add: parseDataURL_def Let_def take_while_app split: option.split)

text \<open>A data URL is decoded by \<open>url.QueryUnescape\<close>, which turns a plus sign, a character of base64,
  into a space. So a correctly encoded image reaches the vendor with exactly its bytes when the
  encoding has no plus sign, and is refused as invalid base64 when it has one.
\<close>

theorem data_url_exact:
  assumes "CHR '','' \<notin> set mt" and "CHR '';'' \<notin> set mt" and "mt \<noteq> []"
    and "cb_image_url b = ''data:'' @ mt @ '';base64,'' @ std_encode bytes"
  shows "buildGeminiImagePart url_path b =
     (if CHR ''+'' \<in> set (std_encode bytes)
      then Inl (ErrWrap ''parse image data URL'' (ErrWrap ''invalid base64 data'' base64_error))
      else Inr (GemBytes bytes mt))"
proof -
  define u where "u = cb_image_url b"
  define meta where "meta = mt @ '';base64''"
  have split: "split_on (CHR '';'') meta = [mt, ''base64'']"
    unfolding meta_def using assms(2) by (induction mt) auto
  have meta: "CHR '','' \<notin> set meta" using assms(1) by (simp add: meta_def)
  have u: "has_prefix u ''data:''" "trim_prefix u ''data:'' = meta @ CHR '','' # std_encode bytes"
    using has_prefix_append trim_prefix_append by (simp_all only: u_def assms(4) meta_def) simp
  then have "u \<noteq> []" by (auto simp: has_prefix_def)
  with u(1) have part: "buildGeminiImagePart url_path b =
      gem_data_part ''image'' (wrap_error ''parse image data URL'' (parseDataURL u))"
    by (simp add: buildGeminiImagePart_def u_def)
  note url = parse_data_url [OF u meta split assms(3)]
  show ?thesis
  proof (cases "CHR ''+'' \<in> set (std_encode bytes)")
    case True
    obtain t where t: "query_unescape (std_encode bytes) = Some t"
      using unescape_total [OF no_percent] by blast
    have "CHR '' '' \<notin> set std_alphabet" by code_simp
    with query_unescape_plus [OF t True no_percent] have "std_decode t = None"
      by (intro std_decode_foreign [of "CHR '' ''"]) auto
    with t True show ?thesis by (simp add: part url gem_data_part_def)
  next
    case False
    then show ?thesis
      by (simp add: part url gem_data_part_def query_unescape_plain no_percent std_roundtrip)
  qed
qed

definition sample_image :: "string \<Rightarrow> content_block" where
  "sample_image bytes =
     zero_block\<lparr>cb_type := ''input_image'', cb_image_url := ''data:image/png;base64,'' @ std_encode bytes\<rparr>"

theorem data_url_exact_witness:
  "buildGeminiImagePart Some (sample_image [CHR 0xFB, CHR ''a'']) =
     Inl (ErrWrap ''parse image data URL'' (ErrWrap ''invalid base64 data'' base64_error)) \<and>
   buildGeminiImagePart Some (sample_image ''abc'') = Inr (GemBytes ''abc'' ''image/png'')"
proof -
  have "CHR ''+'' \<in> set (std_encode [CHR 0xFB, CHR ''a''])" "CHR ''+'' \<notin> set (std_encode ''abc'')"
    by code_simp+
  moreover note data_url_exact [of "''image/png''" "sample_image [CHR 0xFB, CHR ''a'']" "[CHR 0xFB, CHR ''a'']" Some]
    data_url_exact [of "''image/png''" "sample_image ''abc''" "''abc''" Some]
  ultimately show ?thesis by (simp add: sample_image_def)
qed

end
