(* ===== verification/JsonTextProps.thy ===== *)
theory JsonTextProps
  imports JsonText
begin

text \<open>
  What \<open>json.Marshal\<close> writes, \<open>json.Unmarshal\<close> reads: the round trip of the two models.
\<close>

subsection \<open>Strings\<close>

lemma hex_digit_values: "d < 16 \<Longrightarrow> hex_value (hex_digit d) = Some d"
  by (auto simp: hex_value_def hex_digit_def)

lemma hex4_four:
  "hex_value a = Some i \<Longrightarrow> hex_value b = Some j \<Longrightarrow> hex_value c = Some k \<Longrightarrow> hex_value d = Some l \<Longrightarrow>
     hex4 (a # b # c # d # t) = Some (16 * (16 * (16 * i + j) + k) + l, t)"
  by (simp add: hex4_def)

lemma hex4_u00: "n < 256 \<Longrightarrow> hex4 (CHR ''0'' # CHR ''0'' # hex_digit (n div 16) # hex_digit (n mod 16) # t) = Some (n, t)"
proof -
  assume n: "n < 256"
  then have "hex_value (hex_digit (n div 16)) = Some (n div 16)" by (intro hex_digit_values) simp
  moreover have "hex_value (hex_digit (n mod 16)) = Some (n mod 16)" by (intro hex_digit_values) simp
  moreover have "hex_value (CHR ''0'') = Some 0" by code_simp
  ultimately show ?thesis by (simp add: hex4_four)
qed

lemma parse_chars_quote: "parse_chars (CHR 0x22 # t) = Some ([], t)"
  by (subst parse_chars.simps) simp

lemma parse_chars_plain:
  "c \<noteq> CHR 0x22 \<Longrightarrow> c \<noteq> CHR 0x5C \<Longrightarrow> 32 \<le> (of_char c :: nat) \<Longrightarrow>
     parse_chars (c # t) = map_option (\<lambda>(w, x). (c # w, x)) (parse_chars t)"
  by (subst parse_chars.simps) simp

lemma parse_chars_escape:
  "e \<noteq> CHR ''u'' \<Longrightarrow> plain_escape e = Some d \<Longrightarrow>
     parse_chars (CHR 0x5C # e # u) = map_option (\<lambda>(w, x). (d # w, x)) (parse_chars u)"
  by (subst parse_chars.simps) simp

lemma parse_chars_unicode:
  "hex4 u = Some (r, v) \<Longrightarrow> r < 55296 \<Longrightarrow>
     parse_chars (CHR 0x5C # CHR ''u'' # u) = map_option (\<lambda>(w, x). (utf8 r @ w, x)) (parse_chars v)"
  by (subst parse_chars.simps) (simp add: after_u_def)

lemma plain_escape_values:
  "plain_escape (CHR 0x22) = Some (CHR 0x22)" "plain_escape (CHR 0x5C) = Some (CHR 0x5C)"
  "plain_escape (CHR ''b'') = Some (CHR 0x08)" "plain_escape (CHR ''f'') = Some (CHR 0x0C)"
  "plain_escape (CHR ''n'') = Some (CHR 0x0A)" "plain_escape (CHR ''r'') = Some (CHR 0x0D)"
  "plain_escape (CHR ''t'') = Some (CHR 0x09)"
  by code_simp+

text \<open>The characters \<open>json.Marshal\<close> escapes with a letter.\<close>

definition letter_escapes :: "char list" where
  "letter_escapes = [CHR 0x22, CHR 0x5C, CHR 0x08, CHR 0x0C, CHR 0x0A, CHR 0x0D, CHR 0x09]"

lemma letter_escape_codes:
  "(of_char c :: nat) \<in> {34, 92, 8, 12, 10, 13, 9} \<longleftrightarrow> c \<in> set letter_escapes"
proof -
  have "set (map of_char letter_escapes) = {34, 92, 8, 12, 10, 13, (9::nat)}" by code_simp
  then have "(of_char c :: nat) \<in> {34, 92, 8, 12, 10, 13, 9} \<longleftrightarrow> (of_char c :: nat) \<in> of_char ` set letter_escapes"
    by simp
  then show ?thesis by (auto simp: image_iff)
qed

lemma letter_escaped:
  "list_all (\<lambda>c. \<exists>e. enc_char c = [CHR 0x5C, e] \<and> e \<noteq> CHR ''u'' \<and> plain_escape e = Some c) letter_escapes"
proof -
  have "list_all (\<lambda>c. length (enc_char c) = 2 \<and> hd (enc_char c) = CHR 0x5C \<and>
      last (enc_char c) \<noteq> CHR ''u'' \<and> plain_escape (last (enc_char c)) = Some c) letter_escapes" by code_simp
  then show ?thesis
    by (auto simp: list_all_iff length_Suc_conv numeral_2_eq_2)
qed

lemma parse_chars_enc_char:
  "parse_chars (enc_char c @ t) = map_option (\<lambda>(w, x). (c # w, x)) (parse_chars t)"
proof -
  let ?n = "of_char c :: nat"
  have n: "?n < 256" by simp
  consider (esc) "c \<in> set letter_escapes" | (uni) "c \<notin> set letter_escapes"
      "?n < 32 \<or> ?n = 38 \<or> ?n = 60 \<or> ?n = 62"
    | (plain) "c \<notin> set letter_escapes" "32 \<le> ?n" "?n \<noteq> 38" "?n \<noteq> 60" "?n \<noteq> 62" by force
  then show ?thesis
  proof cases
    case esc
    with letter_escaped show ?thesis by (auto simp: list_all_iff parse_chars_escape)
  next
    case uni
    then have "enc_char c = u00 ?n" unfolding letter_escape_codes [symmetric] by (auto simp: enc_char_def Let_def)
    moreover have "utf8 ?n = [c]" using uni by (auto simp: utf8_def)
    ultimately show ?thesis
      using uni parse_chars_unicode [OF hex4_u00 [OF n]] by (auto simp: u00_def)
  next
    case plain
    then have "c \<noteq> CHR 0x22" "c \<noteq> CHR 0x5C" by (auto simp: letter_escapes_def)
    moreover have "enc_char c = [c]"
      using plain unfolding letter_escape_codes [symmetric] by (simp add: enc_char_def Let_def)
    ultimately show ?thesis using plain(2) by (simp add: parse_chars_plain)
  qed
qed

lemma parse_chars_line_separators:
  "parse_chars (CHR 0x5C # ''u2028'' @ t) = map_option (\<lambda>(w, x). ([CHR 0xE2, CHR 0x80, CHR 0xA8] @ w, x)) (parse_chars t)"
  "parse_chars (CHR 0x5C # ''u2029'' @ t) = map_option (\<lambda>(w, x). ([CHR 0xE2, CHR 0x80, CHR 0xA9] @ w, x)) (parse_chars t)"
proof -
  have v: "hex_value (CHR ''0'') = Some 0" "hex_value (CHR ''2'') = Some 2" "hex_value (CHR ''8'') = Some 8"
    "hex_value (CHR ''9'') = Some 9" by code_simp+
  have h: "hex4 (CHR ''2'' # CHR ''0'' # CHR ''2'' # CHR ''8'' # t) = Some (8232, t)"
    "hex4 (CHR ''2'' # CHR ''0'' # CHR ''2'' # CHR ''9'' # t) = Some (8233, t)"
    by (simp_all add: hex4_four v)
  have "of_char (CHR 0xE2) = (226::nat)" "of_char (CHR 0x80) = (128::nat)" "of_char (CHR 0xA8) = (168::nat)"
    "of_char (CHR 0xA9) = (169::nat)" by code_simp+
  then have "char_of (226::nat) = CHR 0xE2" "char_of (128::nat) = CHR 0x80" "char_of (168::nat) = CHR 0xA8"
    "char_of (169::nat) = CHR 0xA9" by (metis char_of_char)+
  then have u: "utf8 8232 = [CHR 0xE2, CHR 0x80, CHR 0xA8]" "utf8 8233 = [CHR 0xE2, CHR 0x80, CHR 0xA9]"
    by (simp_all add: utf8_def)
  show "parse_chars (CHR 0x5C # ''u2028'' @ t) = map_option (\<lambda>(w, x). ([CHR 0xE2, CHR 0x80, CHR 0xA8] @ w, x)) (parse_chars t)"
    using parse_chars_unicode [OF h(1)] unfolding u append_Cons append_Nil by simp
  show "parse_chars (CHR 0x5C # ''u2029'' @ t) = map_option (\<lambda>(w, x). ([CHR 0xE2, CHR 0x80, CHR 0xA9] @ w, x)) (parse_chars t)"
    using parse_chars_unicode [OF h(2)] unfolding u append_Cons append_Nil by simp
qed

lemma parse_chars_enc: "parse_chars (enc_chars s @ CHR 0x22 # t) = Some (s, t)"
proof (induction s rule: enc_chars.induct)
  case (1 a b c s)
  then show ?case
    using parse_chars_line_separators [of "enc_chars s @ CHR 0x22 # t"]
    by (auto simp: parse_chars_enc_char)
qed (simp_all add: parse_chars_enc_char parse_chars_quote)

subsection \<open>Numbers\<close>

text \<open>What may follow a value inside a document.\<close>

definition delimited :: "string \<Rightarrow> bool" where
  "delimited r \<longleftrightarrow> r = [] \<or> hd r \<in> {CHR '','', CHR '']'', CHR ''}''}"

lemma delimited_simps [simp]:
  "delimited []" "delimited (CHR '','' # r)" "delimited (CHR '']'' # r)" "delimited (CHR ''}'' # r)"
  by (simp_all add: delimited_def)

lemma delimited_digit: "delimited r \<Longrightarrow> takeWhile json_digit r = [] \<and> dropWhile json_digit r = r"
  by (cases r) (auto simp: delimited_def json_digit_def)

lemma some_digits_append:
  "some_digits s = Some (d, t) \<Longrightarrow> delimited r \<Longrightarrow> some_digits (s @ r) = Some (d, t @ r)"
proof -
  assume a: "some_digits s = Some (d, t)" "delimited r"
  have "takeWhile json_digit (s @ r) = takeWhile json_digit s \<and>
      dropWhile json_digit (s @ r) = dropWhile json_digit s @ r"
    using delimited_digit [OF a(2)]
    by (induction s) auto
  with a(1) show ?thesis by (auto simp: some_digits_def Let_def split: if_splits)
qed

lemma some_digits_nonempty: "some_digits s = Some x \<Longrightarrow> s \<noteq> []"
  by (auto simp: some_digits_def)

lemma int_part_append:
  "int_part s = Some (d, t) \<Longrightarrow> delimited r \<Longrightarrow> int_part (s @ r) = Some (d, t @ r)"
  using some_digits_append [of s d t r] by (auto simp: int_part_def split: list.splits if_splits)

lemma frac_part_append:
  "frac_part s = Some (d, t) \<Longrightarrow> delimited r \<Longrightarrow> frac_part (s @ r) = Some (d, t @ r)"
  using some_digits_append [of "tl s" _ t r]
  by (cases s; cases r) (auto simp: frac_part_def delimited_def split: if_splits)

lemma exp_part_append:
  "exp_part s = Some (d, t) \<Longrightarrow> delimited r \<Longrightarrow> exp_part (s @ r) = Some (d, t @ r)"
proof (cases s)
  case Nil
  then show "exp_part s = Some (d, t) \<Longrightarrow> delimited r \<Longrightarrow> exp_part (s @ r) = Some (d, t @ r)"
    by (cases r) (auto simp: exp_part_def delimited_def)
next
  case (Cons c u)
  assume a: "exp_part s = Some (d, t)" "delimited r"
  show ?thesis
  proof (cases "c = CHR ''e'' \<or> c = CHR ''E''")
    case True
    show ?thesis
    proof (cases u)
      case Nil
      with a Cons True show ?thesis by (simp add: exp_part_def some_digits_def)
    next
      case (Cons c' v)
      then show ?thesis
        using a \<open>s = c # u\<close> True some_digits_append [OF _ a(2), of u] some_digits_append [OF _ a(2), of v]
        by (auto simp: exp_part_def split: if_splits)
    qed
  qed (use a Cons in \<open>auto simp: exp_part_def\<close>)
qed

lemma number_token_append:
  assumes "number_token s = Some (d, t)" and "delimited r"
  shows "number_token (s @ r) = Some (d, t @ r)"
proof -
  have ne: "s \<noteq> []" using assms(1) by (auto simp: number_token_def int_part_def)
  let ?s = "if hd s = CHR ''-'' then tl s else s"
  from assms(1) ne obtain i s1 f s2 e where
    p: "int_part ?s = Some (i, s1)" "frac_part s1 = Some (f, s2)" "exp_part s2 = Some (e, t)"
    and d: "d = (if hd s = CHR ''-'' then ''-'' else []) @ i @ f @ e"
    by (auto simp: number_token_def Let_def split: option.splits if_splits)
  from ne have "(if hd (s @ r) = CHR ''-'' then tl (s @ r) else s @ r) = ?s @ r" by simp
  with ne d int_part_append [OF p(1) assms(2)] frac_part_append [OF p(2) assms(2)]
    exp_part_append [OF p(3) assms(2)]
  show ?thesis by (auto simp: number_token_def Let_def)
qed

lemma number_head:
  assumes "number_token s = Some (d, t)"
  shows "s \<noteq> [] \<and> (hd s = CHR ''-'' \<or> json_digit (hd s))"
proof -
  have "int_part u = Some (x, y) \<Longrightarrow> u \<noteq> [] \<and> json_digit (hd u)" for u x y
    by (cases u) (auto simp: int_part_def some_digits_def json_digit_def Let_def split: if_splits)
  with assms show ?thesis
    by (cases s) (fastforce simp: number_token_def Let_def split: option.splits if_splits)+
qed

subsection \<open>Values\<close>

text \<open>
  What comes back: the members of an object sorted, each key once. The number tokens must be ones
  a document can hold and \<open>num\<close> must print them as they are.
\<close>

fun canon :: "json \<Rightarrow> json" where
  "canon (JArr xs) = JArr (map canon xs)"
| "canon (JObj kvs) = JObj (sort_members (map (\<lambda>(k, v). (k, canon v)) kvs))"
| "canon j = j"

fun json_ok :: "(string \<Rightarrow> string option) \<Rightarrow> json \<Rightarrow> bool" where
  "json_ok num (JNum s) = (number_token s = Some (s, []) \<and> num s = Some s)"
| "json_ok num (JArr xs) = list_all (json_ok num) xs"
| "json_ok num (JObj kvs) = list_all (\<lambda>(k, v). json_ok num v) kvs"
| "json_ok num j = True"

text \<open>Sorting the members looks only at the keys.\<close>

lemma sort_members_map:
  "sort_members (map (\<lambda>(k, v). (k, f v)) kvs) = map (\<lambda>(k, v). (k, f v)) (sort_members kvs)"
proof -
  have "the (map_of (rev (map (\<lambda>(k, v). (k, f v)) kvs)) k) = f (the (map_of (rev kvs) k))"
    if "k \<in> set (map fst kvs)" for k
  proof -
    from that obtain v where "map_of (rev kvs) k = Some v"
      by (metis (no_types) map_of_eq_None_iff not_None_eq rev_map set_map set_rev)
    then show ?thesis by (simp add: rev_map map_of_map)
  qed
  then show ?thesis by (simp add: sort_members_def comp_def case_prod_unfold)
qed

lemma sort_members_values: "(k, v) \<in> set (sort_members kvs) \<Longrightarrow> (k, v) \<in> set kvs"
proof -
  assume "(k, v) \<in> set (sort_members kvs)"
  then have "map_of (sort_members kvs) k = Some v" by (simp add: distinct_sort_members)
  then show ?thesis using map_of_SomeD [of "rev kvs" k v] by (simp add: sort_members_lookup)
qed

lemma sort_members_Nil: "sort_members kvs = [] \<longleftrightarrow> kvs = []"
  by (simp add: sort_members_def flip: set_empty)

lemma skip_ws_delimited: "delimited r \<Longrightarrow> skip_ws r = r"
  by (cases r) (auto simp: skip_ws_def delimited_def json_space_def)

lemma enc_head:
  assumes "json_ok num j"
  shows "json_encode j \<noteq> [] \<and> \<not> json_space (hd (json_encode j)) \<and> hd (json_encode j) \<noteq> CHR '']''"
proof (cases j)
  case (JNum s)
  have "json_digit c \<Longrightarrow> \<not> json_space c \<and> c \<noteq> CHR '']''" for c
    by (auto simp: json_digit_def json_space_def)
  with JNum assms number_head [of s s "[]"] show ?thesis by (auto simp: json_space_def)
qed (auto simp: json_space_def enc_string_def)

lemma skip_ws_enc: "json_ok num j \<Longrightarrow> skip_ws (json_encode j @ r) = json_encode j @ r"
  using enc_head [of num j] by (cases "json_encode j") (auto simp: skip_ws_def)

text \<open>What the induction proves for one value.\<close>

definition reads :: "(string \<Rightarrow> string option) \<Rightarrow> json \<Rightarrow> bool" where
  "reads num j \<longleftrightarrow> (\<forall>n r. delimited r \<longrightarrow> 2 * length (json_encode j) < n \<longrightarrow>
     parse_value num n (json_encode j @ r) = Some (canon j, r))"

lemma readsD:
  "reads num j \<Longrightarrow> delimited r \<Longrightarrow> 2 * length (json_encode j) < n \<Longrightarrow>
     parse_value num n (json_encode j @ r) = Some (canon j, r)"
  by (simp add: reads_def)

lemma parse_elems_join:
  assumes "xs \<noteq> []" and "\<And>x. x \<in> set xs \<Longrightarrow> reads num x"
    and "2 * length (join_with '','' (map json_encode xs)) + 1 < n"
  shows "parse_elems num n (join_with '','' (map json_encode xs) @ CHR '']'' # r) = Some (map canon xs, r)"
  using assms
proof (induction xs arbitrary: n)
  case (Cons x xs)
  from Cons.prems(3) obtain m where n: "n = Suc m" by (cases n) auto
  show ?case
  proof (cases xs)
    case Nil
    with Cons.prems n readsD [of num x "CHR '']'' # r" m] show ?thesis
      by (simp add: skip_ws_delimited starts_def)
  next
    case (Cons y ys)
    let ?rest = "join_with '','' (map json_encode xs)"
    have j: "join_with '','' (map json_encode (x # xs)) = json_encode x @ CHR '','' # ?rest"
      using Cons by simp
    have "parse_value num m (json_encode x @ CHR '','' # ?rest @ CHR '']'' # r)
        = Some (canon x, CHR '','' # ?rest @ CHR '']'' # r)"
      using Cons.prems n j by (intro readsD) auto
    moreover have "parse_elems num m (?rest @ CHR '']'' # r) = Some (map canon xs, r)"
      using Cons.prems n j Cons by (intro Cons.IH) auto
    ultimately show ?thesis
      unfolding j n by (simp add: skip_ws_delimited starts_def)
  qed
qed simp

lemma parse_members_join:
  assumes "kvs \<noteq> []" and "\<And>k v. (k, v) \<in> set kvs \<Longrightarrow> reads num v"
    and "2 * length (join_with '','' (map (\<lambda>(k, v). enc_string k @ '':'' @ json_encode v) kvs)) + 1 < n"
  shows "parse_members num n
      (join_with '','' (map (\<lambda>(k, v). enc_string k @ '':'' @ json_encode v) kvs) @ CHR ''}'' # r)
    = Some (map (\<lambda>(k, v). (k, canon v)) kvs, r)"
  using assms
proof (induction kvs arbitrary: n)
  case (Cons kv kvs)
  obtain k v where kv: "kv = (k, v)" by (cases kv)
  let ?enc = "\<lambda>kvs. join_with '','' (map (\<lambda>(k, v). enc_string k @ '':'' @ json_encode v) kvs)"
  from Cons.prems(3) obtain m where n: "n = Suc m" by (cases n) auto
  have head: "parse_members num n (enc_string k @ '':'' @ json_encode v @ q) =
      (case parse_value num m (json_encode v @ q) of
         None \<Rightarrow> None
       | Some (v, q0) \<Rightarrow>
           (let q = skip_ws q0 in
            if starts q (CHR '','')
            then map_option (\<lambda>(ms, r'). ((k, v) # ms, r')) (parse_members num m (tl q))
            else if starts q (CHR ''}'') then Some ([(k, v)], tl q)
            else None))" for q
    unfolding n by (simp add: enc_string_def skip_ws_def json_space_def starts_def parse_chars_enc)
  show ?case
  proof (cases kvs)
    case Nil
    with Cons.prems n kv have "parse_value num m (json_encode v @ CHR ''}'' # r) = Some (canon v, CHR ''}'' # r)"
      by (intro readsD) auto
    with Nil kv head [of "CHR ''}'' # r"] show ?thesis
      by (simp add: skip_ws_delimited starts_def)
  next
    case (Cons y ys)
    have j: "?enc (kv # kvs) = enc_string k @ '':'' @ json_encode v @ CHR '','' # ?enc kvs"
      using Cons kv by simp
    have "parse_value num m (json_encode v @ CHR '','' # ?enc kvs @ CHR ''}'' # r)
        = Some (canon v, CHR '','' # ?enc kvs @ CHR ''}'' # r)"
      using Cons.prems n j kv by (intro readsD) auto
    moreover have "parse_members num m (?enc kvs @ CHR ''}'' # r) = Some (map (\<lambda>(k, v). (k, canon v)) kvs, r)"
      using Cons.prems n j Cons by (intro Cons.IH) auto
    ultimately have "parse_members num n
        (enc_string k @ '':'' @ json_encode v @ CHR '','' # ?enc kvs @ CHR ''}'' # r)
      = Some (map (\<lambda>(k, v). (k, canon v)) (kv # kvs), r)"
      using head [of "CHR '','' # ?enc kvs @ CHR ''}'' # r"] kv
      by (simp add: skip_ws_delimited starts_def)
    moreover have "?enc (kv # kvs) @ CHR ''}'' # r
        = enc_string k @ '':'' @ json_encode v @ CHR '','' # ?enc kvs @ CHR ''}'' # r"
      unfolding j by simp
    ultimately show ?thesis by (simp only:)
  qed
qed simp

lemma reads_literal:
  "reads num JNull" "reads num (JBool b)" "reads num (JStr s)"
  by (auto simp: reads_def gr0_conv_Suc less_eq_Suc_le literal_def has_prefix_def skip_ws_def
      json_space_def starts_def enc_string_def parse_chars_enc numeral_eq_Suc dest!: Suc_le_D)

lemma reads_number:
  assumes "number_token s = Some (s, [])" and "num s = Some s"
  shows "reads num (JNum s)"
proof (unfold reads_def, intro allI impI)
  fix n r
  assume r: "delimited r" and n: "2 * length (json_encode (JNum s)) < n"
  from n obtain m where m: "n = Suc m" by (cases n) auto
  have h: "s \<noteq> []" "hd s = CHR ''-'' \<or> json_digit (hd s)" using number_head [OF assms(1)] by auto
  then have "skip_ws (s @ r) = s @ r"
    using skip_ws_enc [of num "JNum s" r] assms by simp
  moreover from h have "\<not> starts (s @ r) c" if "c \<in> set [CHR 0x22, CHR ''['', CHR ''{'', CHR ''t'', CHR ''f'', CHR ''n'']" for c
    using that by (auto simp: starts_def json_digit_def)
  ultimately show "parse_value num n (json_encode (JNum s) @ r) = Some (canon (JNum s), r)"
    using number_token_append [OF assms(1) r] assms(2) m by (simp add: parse_number_def)
qed

lemma reads_array:
  assumes "\<And>x. x \<in> set xs \<Longrightarrow> reads num x" and "list_all (json_ok num) xs"
  shows "reads num (JArr xs)"
proof (unfold reads_def, intro allI impI)
  fix n r
  assume r: "delimited r" and n: "2 * length (json_encode (JArr xs)) < n"
  from n obtain m where m: "n = Suc m" by (cases n) auto
  show "parse_value num n (json_encode (JArr xs) @ r) = Some (canon (JArr xs), r)"
  proof (cases xs)
    case Nil
    with m show ?thesis by (simp add: skip_ws_def json_space_def starts_def)
  next
    case (Cons y ys)
    let ?t = "join_with '','' (map json_encode xs) @ CHR '']'' # r"
    have "?t \<noteq> [] \<and> \<not> json_space (hd ?t) \<and> hd ?t \<noteq> CHR '']''"
      using enc_head [of num y] assms(2) Cons by (cases ys) auto
    then have "\<not> starts (skip_ws ?t) (CHR '']'')" by (cases ?t) (auto simp: skip_ws_def starts_def)
    moreover have "parse_elems num m ?t = Some (map canon xs, r)"
      using n m Cons by (intro parse_elems_join assms(1)) auto
    ultimately show ?thesis by (simp add: m skip_ws_def json_space_def starts_def)
  qed
qed

lemma reads_object:
  assumes "\<And>k v. (k, v) \<in> set kvs \<Longrightarrow> reads num v"
  shows "reads num (JObj kvs)"
proof (unfold reads_def, intro allI impI)
  fix n r
  assume r: "delimited r" and n: "2 * length (json_encode (JObj kvs)) < n"
  from n obtain m where m: "n = Suc m" by (cases n) auto
  let ?ms = "sort_members kvs"
  let ?j = "join_with '','' (map (\<lambda>(k, v). enc_string k @ '':'' @ json_encode v) ?ms)"
  have e: "json_encode (JObj kvs) = ''{'' @ ?j @ ''}''"
    using sort_members_map [of json_encode kvs] by (simp add: comp_def case_prod_unfold)
  show "parse_value num n (json_encode (JObj kvs) @ r) = Some (canon (JObj kvs), r)"
  proof (cases "?ms = []")
    case True
    with m show ?thesis
      unfolding e by (simp add: sort_members_map skip_ws_def json_space_def starts_def)
  next
    case False
    let ?t = "?j @ CHR ''}'' # r"
    from False obtain k v ys where "?ms = (k, v) # ys" by (cases ?ms) auto
    then have "?t \<noteq> [] \<and> hd ?t = CHR 0x22" by (cases ys) (auto simp: enc_string_def)
    then have "\<not> starts (skip_ws ?t) (CHR ''}'')"
      by (cases ?t) (auto simp: skip_ws_def starts_def json_space_def)
    moreover have "parse_members num m ?t = Some (map (\<lambda>(k, v). (k, canon v)) ?ms, r)"
    proof (rule parse_members_join [OF False])
      show "reads num v" if "(k, v) \<in> set ?ms" for k v
        using assms sort_members_values [OF that] by blast
      show "2 * length ?j + 1 < m" using n m unfolding e by simp
    qed
    ultimately show ?thesis
      unfolding e by (simp add: m sort_members_map skip_ws_def json_space_def starts_def)
  qed
qed

lemma json_reads: "json_ok num j \<Longrightarrow> reads num j"
proof (induction j)
  case (JNum s)
  then show ?case by (simp add: reads_number)
next
  case (JArr xs)
  then show ?case by (intro reads_array) (auto simp: list_all_iff)
next
  case (JObj kvs)
  then show ?case by (intro reads_object) (fastforce simp: list_all_iff)
qed (rule reads_literal)+

lemma decode_encode:
  "json_ok num j \<Longrightarrow> json_decode num (json_encode j) = Some (canon j)"
  using readsD [OF json_reads, of num j "[]" "2 * length (json_encode j) + 2"]
  by (simp add: json_decode_def skip_ws_def del: parse_value.simps)

lemma decode_encode_example:
  "json_decode Some (json_encode (JObj [(''b'', JArr [JNum ''1'', JNull]), (''a'', JStr ''<x>'')]))
     = Some (JObj [(''a'', JStr ''<x>''), (''b'', JArr [JNum ''1'', JNull])])"
proof -
  have "json_ok Some (JObj [(''b'', JArr [JNum ''1'', JNull]), (''a'', JStr ''<x>'')])" by code_simp
  moreover have "canon (JObj [(''b'', JArr [JNum ''1'', JNull]), (''a'', JStr ''<x>'')])
      = JObj [(''a'', JStr ''<x>''), (''b'', JArr [JNum ''1'', JNull])]" by code_simp
  ultimately show ?thesis using decode_encode by metis
qed

subsection \<open>The bound on the recursion\<close>

text \<open>Every reader consumes text.\<close>

lemma skip_ws_length: "length (skip_ws s) \<le> length s"
  by (simp add: skip_ws_def length_dropWhile_le)

lemma starts_tl_length: "starts s c \<Longrightarrow> length (tl s) < length s"
  by (cases s) (auto simp: starts_def)

lemma parse_chars_length: "parse_chars s = Some (w, r) \<Longrightarrow> length r < length s"
proof (induction s arbitrary: w r rule: parse_chars.induct)
  case (1 s)
  show ?case
  proof (cases s)
    case (Cons c t)
    then have t: "parse_chars t = Some (w', r') \<Longrightarrow> \<not> c = CHR 0x22 \<Longrightarrow> \<not> c = CHR 0x5C \<Longrightarrow>
        \<not> (of_char c :: nat) < 32 \<Longrightarrow> length r' < length s" for w' r'
      using "1.IH"(3) [of c t w' r'] by simp
    have plain: "parse_chars u = Some (w', r') \<Longrightarrow> c = CHR 0x5C \<Longrightarrow> t = e # u \<Longrightarrow> \<not> e = CHR ''u'' \<Longrightarrow>
        plain_escape e = Some d \<Longrightarrow> length r' < length s" for e u d w' r'
      using "1.IH"(2) [of c t e u d w' r'] Cons by simp
    have coded: "parse_chars (snd (after_u n v)) = Some (w', r') \<Longrightarrow> c = CHR 0x5C \<Longrightarrow> t = CHR ''u'' # u \<Longrightarrow>
        hex4 u = Some (n, v) \<Longrightarrow> length r' < length s" for u n v w' r'
      using "1.IH"(1) [of c t "CHR ''u''" u "(n, v)" n v] Cons hex4_length [of u n v] after_u_length [of n v] by simp
    show ?thesis
      using "1.prems" Cons t plain coded
      by (subst (asm) parse_chars.simps)
        (auto split: if_splits list.splits option.splits)
  qed (use "1.prems" in \<open>simp add: parse_chars.simps\<close>)
qed

lemma some_digits_length: "some_digits s = Some (d, r) \<Longrightarrow> length r < length s"
  by (cases s) (auto simp: some_digits_def Let_def length_dropWhile_le less_Suc_eq_le split: if_splits)

lemma int_part_length: "int_part s = Some (d, r) \<Longrightarrow> length r < length s"
  by (auto simp: int_part_def dest: some_digits_length split: list.splits if_splits)

lemma frac_part_length: "frac_part s = Some (d, r) \<Longrightarrow> length r \<le> length s"
  by (auto simp: frac_part_def dest: some_digits_length split: list.splits if_splits)

lemma exp_part_length: "exp_part s = Some (d, r) \<Longrightarrow> length r \<le> length s"
  by (auto simp: exp_part_def dest!: some_digits_length split: list.splits if_splits)

lemma parse_number_length: "parse_number num s = Some (v, r) \<Longrightarrow> length r < length s"
  by (cases s) (fastforce simp: parse_number_def number_token_def Let_def dest!: int_part_length frac_part_length exp_part_length
    split: option.splits if_splits)+

lemma literal_length: "literal w v s = Some (v', r) \<Longrightarrow> w \<noteq> [] \<Longrightarrow> length r < length s"
  by (cases s) (auto simp: literal_def has_prefix_def split: if_splits)

lemma parse_consumes:
  "parse_value num n s = Some (v, r) \<Longrightarrow> length r < length s"
  "parse_elems num n s = Some (vs, r) \<Longrightarrow> length r < length s"
  "parse_members num n s = Some (ms, r) \<Longrightarrow> length r < length s"
proof (induction num n s and num n s and num n s arbitrary: v r and vs r and ms r
    rule: parse_value_parse_elems_parse_members.induct)
  case (2 num n s0)
  let ?s = "skip_ws s0" and ?r = "tl (skip_ws s0)"
  have s: "length ?s \<le> length s0" and r: "length (skip_ws ?r) \<le> length ?r"
    by (rule skip_ws_length)+
  have t: "length (tl (skip_ws ?r)) \<le> length (skip_ws ?r)" "length ?r \<le> length ?s" by simp_all
  show ?case
    using "2.prems" s r t "2.IH"(1) [OF refl refl] "2.IH"(2) [OF refl refl] starts_tl_length [of ?s]
    by (auto simp: Let_def dest!: parse_chars_length literal_length parse_number_length starts_tl_length split: if_splits)
next
  case (4 num n s)
  from "4.prems" obtain w q where w: "parse_value num n s = Some (w, q)"
    by (auto split: option.splits)
  have q: "length q < length s" "length (skip_ws q) \<le> length q"
    using "4.IH"(1) [OF w] by (simp_all add: skip_ws_length)
  show ?case
    using "4.prems" w q "4.IH"(2) [OF w refl refl]
    by (fastforce simp: Let_def dest: starts_tl_length split: if_splits)
next
  case (6 num n s0)
  have s: "length (skip_ws s0) \<le> length s0" by (rule skip_ws_length)
  from "6.prems" obtain k q where k: "starts (skip_ws s0) (CHR 0x22)" "parse_chars (tl (skip_ws s0)) = Some (k, q)"
      "starts (skip_ws q) (CHR '':'')"
    by (auto simp: Let_def split: if_splits option.splits)
  from "6.prems" k obtain w p where w: "parse_value num n (tl (skip_ws q)) = Some (w, p)"
    by (auto simp: Let_def split: option.splits)
  have "length q < length s0"
    using parse_chars_length [OF k(2)] starts_tl_length [OF k(1)] s by simp
  then have p: "length p < length s0" "length (skip_ws p) \<le> length p"
    using "6.IH"(1) [OF refl _ k(2) refl refl _ w] k starts_tl_length [OF k(3)] skip_ws_length [of q] skip_ws_length [of p]
    by auto
  show ?case
    using "6.prems" k w p "6.IH"(2) [OF refl _ k(2) refl refl _ w refl refl]
    by (fastforce simp: Let_def dest: starts_tl_length split: if_splits)
qed simp_all

text \<open>More fuel than the bound changes nothing.\<close>

lemma fuel_enough:
  "2 * length s < n \<Longrightarrow> n \<le> m \<Longrightarrow> parse_value num m s = parse_value num n s"
  "2 * length s + 1 < n \<Longrightarrow> n \<le> m \<Longrightarrow> parse_elems num m s = parse_elems num n s"
  "2 * length s + 1 < n \<Longrightarrow> n \<le> m \<Longrightarrow> parse_members num m s = parse_members num n s"
proof (induction num n s and num n s and num n s arbitrary: m and m and m
    rule: parse_value_parse_elems_parse_members.induct)
  case (2 num n s0)
  from "2.prems" obtain k where m: "m = Suc k" "n \<le> k" by (cases m) auto
  let ?s = "skip_ws s0"
  have "starts ?s c \<Longrightarrow> 2 * length (tl ?s) + 1 < n" for c
    using starts_tl_length [of ?s c] skip_ws_length [of s0] "2.prems"(1) by simp
  then have "starts ?s (CHR ''['') \<Longrightarrow> \<not> starts (skip_ws (tl ?s)) (CHR '']'') \<Longrightarrow>
        parse_elems num k (tl ?s) = parse_elems num n (tl ?s)"
      "starts ?s (CHR ''{'') \<Longrightarrow> \<not> starts ?s (CHR ''['') \<Longrightarrow> \<not> starts (skip_ws (tl ?s)) (CHR ''}'') \<Longrightarrow>
        parse_members num k (tl ?s) = parse_members num n (tl ?s)"
    using "2.IH"(1) [OF refl refl _ _ _ _ m(2)] "2.IH"(2) [OF refl refl _ _ _ _ _ m(2)]
    by (auto simp: starts_def)
  then show ?case using m by (simp add: Let_def)
next
  case (4 num n s)
  from "4.prems" obtain k where m: "m = Suc k" "n \<le> k" by (cases m) auto
  have v: "parse_value num k s = parse_value num n s"
    using "4.IH"(1) [OF _ m(2)] "4.prems"(1) by simp
  show ?case
  proof (cases "parse_value num n s")
    case (Some wq)
    obtain w q where wq: "wq = (w, q)" by (cases wq)
    have "starts (skip_ws q) c \<Longrightarrow> 2 * length (tl (skip_ws q)) + 1 < n" for c
      using parse_consumes(1) [of num n s w q] Some wq starts_tl_length [of "skip_ws q" c]
        skip_ws_length [of q] "4.prems"(1) by simp
    then have "starts (skip_ws q) (CHR '','') \<Longrightarrow> parse_elems num k (tl (skip_ws q)) = parse_elems num n (tl (skip_ws q))"
      using "4.IH"(2) [OF Some wq [symmetric] refl _ _ m(2)] by simp
    then show ?thesis using m v Some wq by (simp add: Let_def)
  qed (use m v in simp)
next
  case (6 num n s0)
  from "6.prems" obtain l where m: "m = Suc l" "n \<le> l" by (cases m) auto
  let ?s = "skip_ws s0"
  show ?case
  proof (cases "starts ?s (CHR 0x22)")
    case True
    show ?thesis
    proof (cases "parse_chars (tl ?s)")
      case (Some kq)
      obtain k q where kq: "kq = (k, q)" by (cases kq)
      have q: "length q + 1 < length s0"
        using parse_chars_length [of "tl ?s" k q] Some kq starts_tl_length [OF True] skip_ws_length [of s0]
        by simp
      show ?thesis
      proof (cases "starts (skip_ws q) (CHR '':'')")
        case colon: True
        let ?t = "tl (skip_ws q)"
        have t: "length ?t + 1 < length q + 1"
          using starts_tl_length [OF colon] skip_ws_length [of q] by simp
        have v: "parse_value num l ?t = parse_value num n ?t"
          using "6.IH"(1) [OF refl _ Some kq [symmetric] refl _ _ m(2)] True colon t q "6.prems"(1) by simp
        show ?thesis
        proof (cases "parse_value num n ?t")
          case sv: (Some wp)
          obtain w p where wp: "wp = (w, p)" by (cases wp)
          have "starts (skip_ws p) c \<Longrightarrow> 2 * length (tl (skip_ws p)) + 1 < n" for c
            using parse_consumes(1) [of num n ?t w p] sv wp starts_tl_length [of "skip_ws p" c]
              skip_ws_length [of p] "6.prems"(1) q t by simp
          then have "starts (skip_ws p) (CHR '','') \<Longrightarrow>
              parse_members num l (tl (skip_ws p)) = parse_members num n (tl (skip_ws p))"
            using "6.IH"(2) [OF refl _ Some kq [symmetric] refl _ sv wp [symmetric] refl _ _ m(2)] True colon
            by simp
          then show ?thesis using m v sv wp True Some kq colon by (simp add: Let_def)
        qed (use m v True Some kq colon in \<open>simp add: Let_def\<close>)
      qed (use m True Some kq in \<open>simp add: Let_def\<close>)
    qed (use m True in \<open>simp add: Let_def\<close>)
  qed (use m in \<open>simp add: Let_def\<close>)
qed simp_all

lemma json_decode_any_fuel:
  assumes "2 * length s < n"
  shows "json_decode num s =
    (case parse_value num n s of Some (v, r) \<Rightarrow> if skip_ws r = [] then Some v else None | None \<Rightarrow> None)"
  using fuel_enough(1) [of s "2 * length s + 1" n num]
    fuel_enough(1) [of s "2 * length s + 1" "2 * length s + 2" num] assms
  by (simp add: json_decode_def del: parse_value.simps)

end
