(* ===== verification/VendorTurns.thy ===== *)
theory VendorTurns
  imports JsonTextProps OpenAi Google AnthropicProps
begin

text \<open>
  Conversations over several turns and the vendors: the turns the gateway makes itself can be sent
  again to every vendor, tool calls and their results stay paired, arguments survive; and the cases
  in which a call is lost.
\<close>

subsection \<open>Sending a conversation again\<close>

lemma oai_messages_append:
  "is_ok (buildOAIMessages (xs @ ys)) \<longleftrightarrow> is_ok (buildOAIMessages xs) \<and> is_ok (buildOAIMessages ys)"
  by (auto simp: buildOAIMessages_def convert_all_ok)

lemma ant_messages_ok:
  "is_ok (buildAnthropicMessages num ms) \<longleftrightarrow> (\<forall>m \<in> set ms. is_ok (ant_message_of num m))"
  by (induction ms) (auto split: sum.splits prod.splits)

lemma gem_messages_ok:
  "is_ok (gem_messages num url_path names ms) \<longleftrightarrow>
     (\<forall>m \<in> set ms. is_ok (gem_message_of num url_path names m))"
  by (induction ms) (auto split: sum.splits prod.splits)

text \<open>Whether a message converts does not depend on the names found for calls.\<close>

lemma gem_message_names:
  "is_ok (gem_message_of num url_path names m) = is_ok (gem_message_of num url_path names' m)"
  by (auto simp: gem_message_of_def Let_def split: sum.splits)

lemma convert_messages_ok:
  "is_ok (convertMessages num url_path ms) \<longleftrightarrow>
     (\<forall>m \<in> set ms. is_ok (gem_message_of num url_path (\<lambda>_. []) m))"
proof -
  have "is_ok (convertMessages num url_path ms) = is_ok (gem_messages num url_path (callIDToName ms) ms)"
    by (simp add: convertMessages_def split: sum.split prod.split)
  then show ?thesis
    using gem_message_names [of num url_path "callIDToName ms" _ "\<lambda>_. []"] by (simp add: gem_messages_ok)
qed

text \<open>The message of an answer holds at most one block of text.\<close>

lemma output_text_sel [simp]:
  "cb_type (output_text_block t) = ''output_text''" "cb_text (output_text_block t) = t"
  by (simp_all add: output_text_block_def)

lemma assistant_message_sendable:
  assumes "buildAssistantMessage result = Some m"
  shows "is_ok (oai_message_of m)" and "is_ok (ant_message_of num m)"
    and "is_ok (gem_message_of num url_path names m)"
proof -
  from assms have m: "m = new_message ''assistant''
      (if pr_text result \<noteq> [] then [output_text_block (pr_text result)] else []) (pr_tool_calls result)"
    by (auto simp: buildAssistantMessage_def split: if_splits)
  show "is_ok (oai_message_of m)"
    by (simp add: m oai_message_of_def buildOAIAssistantContent_def oai_assistant_part_def is_text_type_def)
  show "is_ok (ant_message_of num m)"
    by (simp add: m ant_message_of_def buildAnthropicAssistantBlocks_def ant_assistant_block_def
        TextValue_def is_text_type_def)
  show "is_ok (gem_message_of num url_path names m)"
    by (simp add: m gem_message_of_def Let_def buildGeminiTextParts_def gem_text_part_def is_text_type_def)
qed

lemma answer_block_sendable: "answer_block a = Some b \<Longrightarrow> is_ok (ant_assistant_block b)"
  by (cases a)
     (auto simp: ant_assistant_block_def text_block_def thinking_block_def redacted_block_def
       TextValue_def is_text_type_def)

lemma replay_sendable:
  assumes "pr_replay_message (ant_result resp) = Some rm"
  shows "is_ok (ant_message_of num rm)"
proof -
  let ?bs = "List.map_filter answer_block (ar_content resp)"
  from assms have rm: "rm = new_message ''assistant'' ?bs (List.map_filter answer_call (ar_content resp))"
    by (auto simp: ant_result_def replay_or_nil_def Let_def split: if_splits)
  have "is_ok (convert_all ant_assistant_block ?bs)"
    by (auto simp: convert_all_ok map_filter_def answer_block_sendable)
  then show ?thesis
    by (auto simp: rm ant_message_of_def buildAnthropicAssistantBlocks_def split: sum.splits)
qed

text \<open>C11: A conversation that could be sent stays sendable after the model's answer: whatever a provider
  answered, the history with that answer in the middle converts for OpenAI, Anthropic and Gemini
  exactly when the messages around it do. For an answer of Anthropic this holds with the native
  message, thinking blocks included, that is replayed to Anthropic, and with the stored message that
  the other vendors get.
\<close>

theorem conversation_stays_sendable:
  assumes "buildAssistantMessage result = Some m"
    and "result = ant_result resp \<or> pr_replay_message result = None"
  shows "(is_ok (buildAnthropicMessages num (hist @ replayed_message result same m # input)) \<longleftrightarrow>
      is_ok (buildAnthropicMessages num hist) \<and> is_ok (buildAnthropicMessages num input)) \<and>
    (is_ok (buildOAIMessages (hist @ replayed_message result False m # input)) \<longleftrightarrow>
      is_ok (buildOAIMessages hist) \<and> is_ok (buildOAIMessages input)) \<and>
    (is_ok (convertMessages num url_path (hist @ replayed_message result False m # input)) \<longleftrightarrow>
      is_ok (convertMessages num url_path hist) \<and> is_ok (convertMessages num url_path input))"
proof (intro conjI)
  note m = assistant_message_sendable [OF assms(1)]
  have plain: "replayed_message result False m = m" by (simp add: replayed_message_def)
  have "is_ok (ant_message_of num (replayed_message result same m))"
    using assms(2) m(2) replay_sendable [of resp]
    by (auto simp: replayed_message_def split: option.split)
  then show "is_ok (buildAnthropicMessages num (hist @ replayed_message result same m # input)) \<longleftrightarrow>
      is_ok (buildAnthropicMessages num hist) \<and> is_ok (buildAnthropicMessages num input)"
    by (auto simp: ant_messages_ok)
  show "is_ok (buildOAIMessages (hist @ replayed_message result False m # input)) \<longleftrightarrow>
      is_ok (buildOAIMessages hist) \<and> is_ok (buildOAIMessages input)"
    using m(1) unfolding plain by (auto simp: buildOAIMessages_def convert_all_ok)
  show "is_ok (convertMessages num url_path (hist @ replayed_message result False m # input)) \<longleftrightarrow>
      is_ok (convertMessages num url_path hist) \<and> is_ok (convertMessages num url_path input)"
    using m(3) unfolding plain by (auto simp: convert_messages_ok)
qed

theorem conversation_stays_sendable_witness:
  "is_ok (buildAnthropicMessages Some
     ([] @ replayed_message (ant_result sample_answer) True
        (the (buildAssistantMessage (ant_result sample_answer))) # []))"
proof -
  obtain m where m: "buildAssistantMessage (ant_result sample_answer) = Some m"
    by (simp add: buildAssistantMessage_def ant_result_def sample_answer_def Let_def)
  from conversation_stays_sendable [OF m, of sample_answer Some "[]" True "[]" Some] show ?thesis
    by (simp add: m)
qed

subsection \<open>Calls and results stay paired\<close>

text \<open>
  For each message the ids of the calls it makes and of the results it brings. A conversation is
  paired when every result follows its call.
\<close>

fun paired :: "string list \<Rightarrow> (string list \<times> string list) list \<Rightarrow> bool" where
  "paired seen [] = True"
| "paired seen ((calls, results) # es) =
     (set results \<subseteq> set seen \<and> paired (calls @ seen) es)"

definition message_ids :: "message \<Rightarrow> string list \<times> string list" where
  "message_ids m =
     (if msg_role m = ''assistant'' then map tc_id (msg_tool_calls m) else [],
      if msg_role m = ''tool'' then [msg_call_id m] else [])"

fun oai_ids :: "oai_message \<Rightarrow> string list \<times> string list" where
  "oai_ids (OaiAssistant c tcs) = (map tc_id tcs, [])"
| "oai_ids (OaiTool c i) = ([], [i])"
| "oai_ids _ = ([], [])"

fun block_call :: "ant_block \<Rightarrow> string option" where
  "block_call (AntToolUse i input name) = Some i"
| "block_call _ = None"

fun block_result :: "ant_block \<Rightarrow> string option" where
  "block_result (AntToolResult i ts) = Some i"
| "block_result _ = None"

definition ant_ids :: "ant_message \<Rightarrow> string list \<times> string list" where
  "ant_ids m = (List.map_filter block_call (am_content m), List.map_filter block_result (am_content m))"

lemma paired_mono: "paired seen es \<Longrightarrow> set seen \<subseteq> set seen' \<Longrightarrow> paired seen' es"
proof (induction es arbitrary: seen seen')
  case (Cons e es)
  obtain cs rs where e: "e = (cs, rs)" by (cases e)
  have "paired (cs @ seen') es"
  proof (rule Cons.IH)
    show "paired (cs @ seen) es" using Cons.prems(1) by (simp add: e)
    show "set (cs @ seen) \<subseteq> set (cs @ seen')" using Cons.prems(2) by auto
  qed
  moreover have "set rs \<subseteq> set seen" using Cons.prems(1) by (simp add: e)
  with Cons.prems(2) have "set rs \<subseteq> set seen'" by (rule subset_trans [rotated])
  ultimately show ?case by (simp add: e)
qed simp

lemma oai_message_ids:
  assumes "oai_message_of m = Inr out"
  shows "out = [] \<and> message_ids m = ([], []) \<or>
    (\<exists>x. out = [x] \<and> oai_ids x = map_prod (map sanitizeToolCallID) (map sanitizeToolCallID) (message_ids m))"
proof (cases m rule: oai_role_cases)
  case assistant
  with assms show ?thesis
    by (auto simp: oai_message_role message_ids_def oai_assistant_def oai_call_def split: sum.splits)
qed (use assms in \<open>auto simp: oai_message_role message_ids_def split: sum.splits\<close>)

lemma oai_paired:
  "buildOAIMessages ms = Inr out \<Longrightarrow> paired seen (map message_ids ms) \<Longrightarrow>
     paired (map sanitizeToolCallID seen) (map oai_ids out)"
proof (induction ms arbitrary: out seen)
  case (Cons m ms)
  obtain cs rs where ids: "message_ids m = (cs, rs)" by (cases "message_ids m")
  from Cons.prems(1) obtain o1 o2 where o: "oai_message_of m = Inr o1" "buildOAIMessages ms = Inr o2"
      "out = o1 @ o2"
    by (auto simp: buildOAIMessages_def split: sum.splits)
  have "paired (map sanitizeToolCallID (cs @ seen)) (map oai_ids o2)"
    using Cons.prems(2) ids by (intro Cons.IH [OF o(2)]) simp
  moreover have "sanitizeToolCallID ` set rs \<subseteq> sanitizeToolCallID ` set seen"
    using Cons.prems(2) ids by (intro image_mono) simp
  ultimately show ?case
    using oai_message_ids [OF o(1)] by (auto simp: o(3) ids)
qed (simp add: buildOAIMessages_def)

lemma ant_role_cases:
  obtains (user) "msg_role m = ''user''" | (assistant) "msg_role m = ''assistant''"
    | (tool) "msg_role m = ''tool''" | (system) "msg_role m = ''system'' \<or> msg_role m = ''developer''"
    | (other) "msg_role m \<notin> {''user'', ''assistant'', ''system'', ''developer'', ''tool''}"
  by blast

lemma ant_message_role:
  "msg_role m = ''user'' \<Longrightarrow> ant_message_of num m =
     (case buildAnthropicTextBlocks (msg_content m) ''user'' of
        Inl e \<Rightarrow> Inl e | Inr bs \<Rightarrow> Inr ([ant_user bs], []))"
  "msg_role m = ''assistant'' \<Longrightarrow> ant_message_of num m =
     (case buildAnthropicAssistantBlocks num (msg_content m) (msg_tool_calls m) of
        Inl e \<Rightarrow> Inl e | Inr bs \<Rightarrow> Inr (if bs \<noteq> [] then [ant_assistant bs] else [], []))"
  "msg_role m = ''tool'' \<Longrightarrow> ant_message_of num m =
     (case buildAnthropicToolResultContent (msg_content m) of
        Inl e \<Rightarrow> Inl e | Inr ts \<Rightarrow> Inr ([ant_user [AntToolResult (msg_call_id m) ts]], []))"
  "msg_role m = ''system'' \<or> msg_role m = ''developer'' \<Longrightarrow> ant_message_of num m =
     (case buildAnthropicSystemBlocks (msg_content m) (msg_role m) of
        Inl e \<Rightarrow> Inl e | Inr ts \<Rightarrow> Inr ([], ts))"
  "msg_role m \<notin> {''user'', ''assistant'', ''system'', ''developer'', ''tool''} \<Longrightarrow>
     ant_message_of num m = Inr ([], [])"
  by (auto simp: ant_message_of_def split: sum.splits)

lemma plain_blocks_ids:
  assumes "convert_all f bs = Inr out" and "\<And>b xs x. f b = Inr xs \<Longrightarrow> x \<in> set xs \<Longrightarrow> g x = None"
  shows "List.map_filter g out = []"
proof -
  have "g x = None" if "x \<in> set out" for x
    using convert_all_set [OF assms(1) that] assms(2) by blast
  then show ?thesis by (simp add: map_filter_def filter_empty_conv)
qed

lemma user_blocks_ids:
  "buildAnthropicTextBlocks bs role = Inr out \<Longrightarrow>
     List.map_filter block_call out = [] \<and> List.map_filter block_result out = []"
  unfolding buildAnthropicTextBlocks_def
  by (intro conjI; erule plain_blocks_ids)
     (auto simp: ant_user_block_def buildAnthropicImageBlock_def buildAnthropicDocumentBlock_def
       split: if_splits sum.splits prod.splits)

lemma tool_uses_ids:
  "(\<And>tc. tc \<in> set tcs \<Longrightarrow> decode_map num (tc_arguments tc) \<noteq> None) \<Longrightarrow>
     List.map_filter block_call (List.map_filter (ant_tool_use num) tcs) = map tc_id tcs \<and>
     List.map_filter block_result (List.map_filter (ant_tool_use num) tcs) = []"
proof (induction tcs)
  case (Cons tc tcs)
  then obtain input where "decode_map num (tc_arguments tc) = Some input" by fastforce
  with Cons show ?case by (simp add: ant_tool_use_def)
qed simp

lemma assistant_blocks_ids:
  assumes "buildAnthropicAssistantBlocks num bs tcs = Inr out"
    and "\<And>tc. tc \<in> set tcs \<Longrightarrow> decode_map num (tc_arguments tc) \<noteq> None"
  shows "List.map_filter block_call out = map tc_id tcs \<and> List.map_filter block_result out = []"
proof -
  from assms(1) obtain content where c: "convert_all ant_assistant_block bs = Inr content"
    "out = content @ List.map_filter (ant_tool_use num) tcs"
    by (auto simp: buildAnthropicAssistantBlocks_def split: sum.splits)
  have "List.map_filter block_call content = []" "List.map_filter block_result content = []"
    by (rule plain_blocks_ids [OF c(1)];
        auto simp: ant_assistant_block_def split: if_splits option.splits)+
  with tool_uses_ids [of tcs num] assms(2) show ?thesis by (simp add: c(2) map_filter_app)
qed

text \<open>What one message becomes, when the arguments of its calls parse.\<close>

lemma ant_message_ids:
  assumes "ant_message_of num m = Inr (out, sys)"
    and "\<And>tc. tc \<in> set (msg_tool_calls m) \<Longrightarrow> decode_map num (tc_arguments tc) \<noteq> None"
  shows "out = [] \<and> message_ids m = ([], []) \<or> (\<exists>x. out = [x] \<and> ant_ids x = message_ids m)"
proof (cases m rule: ant_role_cases)
  case user
  with assms(1) user_blocks_ids show ?thesis
    by (auto simp: ant_message_role message_ids_def ant_ids_def ant_user_def split: sum.splits)
next
  case assistant
  with assms(1) obtain bs where "buildAnthropicAssistantBlocks num (msg_content m) (msg_tool_calls m) = Inr bs"
    "out = (if bs \<noteq> [] then [ant_assistant bs] else [])"
    by (auto simp: ant_message_role split: sum.splits)
  with assistant_blocks_ids [OF this(1)] assms(2) assistant show ?thesis
    by (cases "bs = []") (auto simp: message_ids_def ant_ids_def ant_assistant_def)
qed (use assms(1) in \<open>auto simp: ant_message_role message_ids_def ant_ids_def ant_user_def split: sum.splits\<close>)

lemma ant_paired:
  "buildAnthropicMessages num ms = Inr (out, sys) \<Longrightarrow>
   (\<And>m tc. m \<in> set ms \<Longrightarrow> tc \<in> set (msg_tool_calls m) \<Longrightarrow> decode_map num (tc_arguments tc) \<noteq> None) \<Longrightarrow>
   paired seen (map message_ids ms) \<Longrightarrow> paired seen (map ant_ids out)"
proof (induction ms arbitrary: out sys seen)
  case (Cons m ms)
  obtain cs rs where ids: "message_ids m = (cs, rs)" by (cases "message_ids m")
  from Cons.prems(1) obtain o1 s1 o2 s2 where o: "ant_message_of num m = Inr (o1, s1)"
      "buildAnthropicMessages num ms = Inr (o2, s2)" "out = o1 @ o2"
    by (auto split: sum.splits)
  have "paired (cs @ seen) (map ant_ids o2)"
    using Cons.prems(2,3) ids by (intro Cons.IH [OF o(2)]) auto
  moreover have "o1 = [] \<and> message_ids m = ([], []) \<or> (\<exists>x. o1 = [x] \<and> ant_ids x = message_ids m)"
    by (rule ant_message_ids [OF o(1)]) (rule Cons.prems(2) [of m], simp_all)
  ultimately show ?case using Cons.prems(3) by (auto simp: o(3) ids)
qed simp

fun part_call_id :: "gem_part \<Rightarrow> string option" where
  "part_call_id (GemCall i name args) = Some i"
| "part_call_id _ = None"

fun part_result_id :: "gem_part \<Rightarrow> string option" where
  "part_result_id (GemResponse i name r) = Some i"
| "part_result_id _ = None"

definition gem_ids :: "gem_content \<Rightarrow> string list \<times> string list" where
  "gem_ids c = (List.map_filter part_call_id (gc_parts c), List.map_filter part_result_id (gc_parts c))"

lemma gem_data_ids: "gem_data_part w r = Inr p \<Longrightarrow> part_call_id p = None \<and> part_result_id p = None"
  by (auto simp: gem_data_part_def split: sum.splits option.splits)

lemma gem_text_part_ids:
  "gem_text_part url_path role b = Inr ps \<Longrightarrow> p \<in> set ps \<Longrightarrow> part_call_id p = None \<and> part_result_id p = None"
  by (auto simp: gem_text_part_def Let_def buildGeminiImagePart_def buildGeminiFilePart_def
      buildGeminiVideoPart_def split: if_splits sum.splits dest: gem_data_ids)

lemma gem_text_parts_ids:
  assumes "buildGeminiTextParts url_path bs role = Inr out"
  shows "List.map_filter part_call_id out = []" and "List.map_filter part_result_id out = []"
  using assms gem_text_part_ids unfolding buildGeminiTextParts_def
  by (blast intro: plain_blocks_ids)+

lemma gem_calls_ids:
  "(\<And>tc. tc \<in> set tcs \<Longrightarrow> decode_map num (tc_arguments tc) \<noteq> None) \<Longrightarrow>
     List.map_filter part_call_id (List.map_filter (gem_call_part num) tcs) = map tc_id tcs \<and>
     List.map_filter part_result_id (List.map_filter (gem_call_part num) tcs) = []"
proof (induction tcs)
  case (Cons tc tcs)
  then obtain input where "decode_map num (tc_arguments tc) = Some input" by fastforce
  with Cons show ?case by (simp add: gem_call_part_def)
qed simp

text \<open>A message of the role \<open>model\<close>, which only Gemini knows, may add calls.\<close>

lemma gem_message_ids:
  assumes "gem_message_of num url_path names m = Inr (out, sys)"
    and "\<And>tc. tc \<in> set (msg_tool_calls m) \<Longrightarrow> decode_map num (tc_arguments tc) \<noteq> None"
  shows "out = [] \<and> message_ids m = ([], []) \<or>
    (\<exists>x calls. out = [x] \<and> gem_ids x = (calls, snd (message_ids m)) \<and> set (fst (message_ids m)) \<subseteq> set calls)"
proof -
  let ?r = "msg_role m"
  consider (system) "?r = ''system'' \<or> ?r = ''developer''" | (tool) "?r = ''tool''"
    | (model) "model_role ?r" "?r \<noteq> ''tool''" "?r \<noteq> ''system''" "?r \<noteq> ''developer''"
    | (other) "\<not> model_role ?r" "?r \<noteq> ''tool''" "?r \<noteq> ''system''" "?r \<noteq> ''developer''"
    by blast
  then show ?thesis
  proof cases
    case system
    with assms(1) show ?thesis
      by (auto simp: gem_message_of_def message_ids_def split: sum.splits)
  next
    case tool
    with assms(1) show ?thesis
      by (auto simp: gem_message_of_def message_ids_def gem_ids_def split: sum.splits)
  next
    case model
    with assms(1) obtain parts where "buildGeminiTextParts url_path (msg_content m) ?r = Inr parts"
      "out = [\<lparr>gc_role = ''model'', gc_parts = parts @ List.map_filter (gem_call_part num) (msg_tool_calls m)\<rparr>]"
      by (auto simp: gem_message_of_def Let_def split: sum.splits)
    with gem_text_parts_ids [OF this(1)] gem_calls_ids [of "msg_tool_calls m" num] assms(2) model
    show ?thesis by (auto simp: message_ids_def gem_ids_def map_filter_app)
  next
    case other
    then have "?r \<noteq> ''assistant''" by (auto simp: model_role_def)
    moreover from other assms(1) obtain parts where "buildGeminiTextParts url_path (msg_content m) ?r = Inr parts"
      "out = [\<lparr>gc_role = ''user'', gc_parts = parts\<rparr>]"
      by (auto simp: gem_message_of_def Let_def split: sum.splits)
    ultimately show ?thesis
      using gem_text_parts_ids [OF \<open>buildGeminiTextParts _ _ _ = _\<close>] other
      by (simp add: message_ids_def gem_ids_def)
  qed
qed

lemma gem_paired:
  "gem_messages num url_path names ms = Inr (out, sys) \<Longrightarrow>
   (\<And>m tc. m \<in> set ms \<Longrightarrow> tc \<in> set (msg_tool_calls m) \<Longrightarrow> decode_map num (tc_arguments tc) \<noteq> None) \<Longrightarrow>
   paired seen (map message_ids ms) \<Longrightarrow> paired seen (map gem_ids out)"
proof (induction ms arbitrary: out sys seen)
  case (Cons m ms)
  obtain cs rs where ids: "message_ids m = (cs, rs)" by (cases "message_ids m")
  from Cons.prems(1) obtain o1 s1 o2 s2 where o: "gem_message_of num url_path names m = Inr (o1, s1)"
      "gem_messages num url_path names ms = Inr (o2, s2)" "out = o1 @ o2"
    by (auto split: sum.splits)
  have rest: "paired (cs @ seen) (map gem_ids o2)"
    using Cons.prems(2,3) ids by (intro Cons.IH [OF o(2)]) auto
  have "o1 = [] \<and> message_ids m = ([], []) \<or>
      (\<exists>x calls. o1 = [x] \<and> gem_ids x = (calls, snd (message_ids m)) \<and> set (fst (message_ids m)) \<subseteq> set calls)"
    by (rule gem_message_ids [OF o(1)]) (rule Cons.prems(2) [of m], simp_all)
  then consider "o1 = []" "cs = []" "rs = []" | x calls where "o1 = [x]" "gem_ids x = (calls, rs)" "set cs \<subseteq> set calls"
    by (auto simp: ids)
  then show ?case
  proof cases
    case 1
    with rest show ?thesis by (simp add: o(3))
  next
    case 2
    have "paired (calls @ seen) (map gem_ids o2)"
      by (rule paired_mono [OF rest]) (use 2(3) in auto)
    with 2 Cons.prems(3) show ?thesis by (simp add: o(3) ids)
  qed
qed simp

text \<open>C12: Tool calls and their results stay paired on the way to every vendor. When each tool result of a
  conversation follows the call it answers and the arguments of the calls parse, the same holds of
  what OpenAI, Anthropic and Gemini receive; for OpenAI although ids are cut to 40 bytes.
\<close>

theorem calls_stay_paired:
  assumes "paired [] (map message_ids msgs)"
    and "\<And>m tc. m \<in> set msgs \<Longrightarrow> tc \<in> set (msg_tool_calls m) \<Longrightarrow> decode_map num (tc_arguments tc) \<noteq> None"
  shows "(buildOAIMessages msgs = Inr oai \<longrightarrow> paired [] (map oai_ids oai)) \<and>
    (buildAnthropicMessages num msgs = Inr (ant, sys) \<longrightarrow> paired [] (map ant_ids ant)) \<and>
    (convertMessages num url_path msgs = Inr (gem, instr) \<longrightarrow> paired [] (map gem_ids gem))"
proof (intro conjI impI)
  show "paired [] (map oai_ids oai)" if "buildOAIMessages msgs = Inr oai"
    using oai_paired [OF that assms(1)] by simp
  show "paired [] (map ant_ids ant)" if "buildAnthropicMessages num msgs = Inr (ant, sys)"
    using that assms(2,1) by (rule ant_paired)
  show "paired [] (map gem_ids gem)" if "convertMessages num url_path msgs = Inr (gem, instr)"
  proof -
    from that obtain sys' where "gem_messages num url_path (callIDToName msgs) msgs = Inr (gem, sys')"
      by (auto simp: convertMessages_def split: sum.splits)
    then show ?thesis using assms(2,1) by (rule gem_paired)
  qed
qed

definition tool_message :: "string \<Rightarrow> content_block list \<Rightarrow> message" where
  "tool_message i content =
     \<lparr>msg_role = ''tool'', msg_content = content, msg_call_id = i, msg_name = [], msg_tool_calls = []\<rparr>"

definition sample_turns :: "message list" where
  "sample_turns =
     [new_message ''assistant'' [] [\<lparr>tc_id = replicate 50 (CHR ''i''), tc_name = ''f'', tc_arguments = ''{}''\<rparr>],
      tool_message (replicate 50 (CHR ''i'')) [input_text_block ''42'']]"

theorem calls_stay_paired_witness:
  "paired [] (map oai_ids (projr (buildOAIMessages sample_turns))) \<and>
   map oai_ids (projr (buildOAIMessages sample_turns)) =
     [([replicate 40 (CHR ''i'')], []), ([], [replicate 40 (CHR ''i'')])]"
proof -
  have p: "paired [] (map message_ids sample_turns)" by code_simp
  have d: "list_all (\<lambda>m. list_all (\<lambda>tc. decode_map Some (tc_arguments tc) \<noteq> None) (msg_tool_calls m)) sample_turns"
    by code_simp
  have "is_ok (buildOAIMessages sample_turns)" by code_simp
  then obtain oai where o: "buildOAIMessages sample_turns = Inr oai" by (auto simp: is_ok_iff)
  have "paired [] (map oai_ids oai)"
    using calls_stay_paired [OF p, of Some oai "[]" "[]" Some "[]" None] d o by (auto simp: list_all_iff)
  moreover have "map oai_ids (projr (buildOAIMessages sample_turns)) =
     [([replicate 40 (CHR ''i'')], []), ([], [replicate 40 (CHR ''i'')])]" by code_simp
  ultimately show ?thesis by (simp add: o)
qed

subsection \<open>Arguments come back\<close>

definition given_args :: "gem_function_call \<Rightarrow> json" where
  "given_args fc = JObj (case fc_args fc of Some a \<Rightarrow> a | None \<Rightarrow> [])"

lemma gem_args_encode: "gem_args fc = json_encode (given_args fc)"
  by (simp add: gem_args_def given_args_def sort_members_def split: option.split)

lemma gem_args_decode:
  "json_ok num (given_args fc) \<Longrightarrow> decode_map num (gem_args fc) = Some (canon (given_args fc))"
  using decode_encode [of num "given_args fc"]
  by (simp add: gem_args_encode decode_map_def) (simp add: given_args_def)

fun sent_call :: "gem_part \<Rightarrow> (string \<times> json) option" where
  "sent_call (GemCall i name args) = Some (name, args)"
| "sent_call _ = None"

lemma gem_calls_sent:
  "(\<And>fc. fc \<in> set fcs \<Longrightarrow> json_ok num (given_args fc)) \<Longrightarrow>
     List.map_filter sent_call (List.map_filter (gem_call_part num) (gem_calls rnd n fcs)) =
       map (\<lambda>fc. (fc_name fc, canon (given_args fc))) fcs"
proof (induction fcs arbitrary: n)
  case (Cons fc fcs)
  then have "decode_map num (gem_args fc) = Some (canon (given_args fc))" by (simp add: gem_args_decode)
  with Cons show ?case by (simp add: gem_call_part_def case_prod_unfold Let_def)
qed simp


definition sample_fc :: "string \<Rightarrow> gem_function_call" where
  "sample_fc i = \<lparr>fc_id = i, fc_name = ''f'', fc_args = Some [(''b'', JNum ''1''), (''a'', JStr ''<x>'')]\<rparr>"

definition call_response :: "gem_function_call list \<Rightarrow> gem_response" where
  "call_response fcs =
     \<lparr>gr_candidates = [Some (map (\<lambda>fc. Some \<lparr>ga_text = [], ga_call = Some fc\<rparr>) fcs)], gr_usage = None\<rparr>"


subsection \<open>The token limit\<close>

lemma tool_deltas_Cons:
  "tool_deltas (d # ds) = (case pd_tool_call_delta d of None \<Rightarrow> [] | Some td \<Rightarrow> [td]) @ tool_deltas ds"
  by (simp add: tool_deltas_def split: option.split)

lemma max_int32: "maxInt32Value = 2147483647"
  by (simp add: maxInt32Value_def uint_mask_eq mask_eq_exp_minus_1)

text \<open>
  The limit on output tokens that Gemini gets is the requested number moved into the range of a
  non-negative \<open>int32\<close>: a negative number counts as 0, a number above the range as its largest value,
  and every other number is passed on unchanged; the conversion never wraps around.
\<close>

lemma clamp_exact:
  "sint (clampMaxOutputTokens v) = max 0 (min v (2 ^ 31 - 1))"
proof -
  have "sint (word_of_int w :: 32 word) = w" if "0 \<le> w" "w \<le> 2147483647" for w :: int
    using that by (simp add: signed_of_int signed_take_bit_int_eq_self)
  then show ?thesis by (auto simp: clampMaxOutputTokens_def max_int32)
qed

subsection \<open>Where calls are lost\<close>

text \<open>
  A chunk of an OpenAI stream can carry pieces of several tool calls; only the first piece of a
  choice is passed on, the others are lost without an error.
\<close>

lemma openai_chunk_keeps_one_piece:
  "tool_deltas (oai_choice_deltas chunk choice) = take 1 (ok_tool_calls choice)"
  by (cases "ok_tool_calls choice")
     (simp_all add: oai_choice_deltas_def oai_extractToolCallDelta_def zero_delta_def Let_def)

text \<open>Parallel function calls of Gemini that arrive in separate chunks of a stream are merged into
  one: the index of a call is its position inside its chunk, so both have index 0, and the handler
  appends the arguments of the second call to those of the first. The synchronous answer has two
  calls.
\<close>

theorem gemini_parallel_calls_merged:
  assumes "fc_id a \<noteq> []" and "fc_name a \<noteq> []" and "fc_id b \<noteq> []"
  shows "merge_calls (tool_deltas (fst (gem_stream_loop rnd 0 [call_response [a], call_response [b]] None))) =
      [\<lparr>tc_id = fc_id a, tc_name = fc_name a, tc_arguments = gem_args a @ gem_args b\<rparr>] \<and>
    gem_extractToolCalls rnd (call_response [a, b]) =
      [\<lparr>tc_id = fc_id a, tc_name = fc_name a, tc_arguments = gem_args a\<rparr>,
       \<lparr>tc_id = fc_id b, tc_name = fc_name b, tc_arguments = gem_args b\<rparr>]"
proof
  let ?d = "\<lambda>fc. \<lparr>td_index = 0, td_id = fc_id fc, td_name = fc_name fc, td_arguments = gem_args fc\<rparr>"
  have "tool_deltas (fst (gem_stream_loop rnd 0 [call_response [a], call_response [b]] None)) = [?d a, ?d b]"
    using assms
    by (simp add: call_response_def first_parts_def part_text_def gem_extractToolCallDelta_def
        part_call_def gem_call_id_def zero_delta_def tool_deltas_Cons)
  then show "merge_calls (tool_deltas (fst (gem_stream_loop rnd 0 [call_response [a], call_response [b]] None))) =
      [\<lparr>tc_id = fc_id a, tc_name = fc_name a, tc_arguments = gem_args a @ gem_args b\<rparr>]"
    using assms by (simp add: merge_calls_def firsts_def call_at_def first_nonempty_def)
  show "gem_extractToolCalls rnd (call_response [a, b]) =
      [\<lparr>tc_id = fc_id a, tc_name = fc_name a, tc_arguments = gem_args a\<rparr>,
       \<lparr>tc_id = fc_id b, tc_name = fc_name b, tc_arguments = gem_args b\<rparr>]"
    using assms by (simp add: gem_extractToolCalls_def call_response_def part_call_def gem_call_id_def)
qed

definition bare_fc :: "string \<Rightarrow> gem_function_call" where
  "bare_fc i = \<lparr>fc_id = i, fc_name = ''f'', fc_args = None\<rparr>"

theorem gemini_parallel_calls_merged_witness:
  "map tc_arguments (merge_calls (tool_deltas (fst (gem_stream_loop (\<lambda>_. None) 0
     [call_response [bare_fc ''c1''], call_response [bare_fc ''c2'']] None)))) = [''{}{}''] \<and>
   decode_map Some ''{}{}'' = None"
proof -
  have a: "gem_args (bare_fc i) = ''{}''" for i by (simp add: gem_args_def bare_fc_def)
  have "decode_map Some ''{}{}'' = None" by code_simp
  moreover have "fc_id (bare_fc ''c1'') \<noteq> []" "fc_name (bare_fc ''c1'') \<noteq> []" "fc_id (bare_fc ''c2'') \<noteq> []"
    by (simp_all add: bare_fc_def)
  note calls = gemini_parallel_calls_merged [OF this, of "\<lambda>_. None", THEN conjunct1]
  have "map tc_arguments (merge_calls (tool_deltas (fst (gem_stream_loop (\<lambda>_. None) 0
     [call_response [bare_fc ''c1''], call_response [bare_fc ''c2'']] None)))) = [''{}{}'']"
    unfolding calls a by simp
  ultimately show ?thesis by blast
qed

lemma decode_empty: "decode_map num [] = None"
  by (simp add: decode_map_def json_decode_def numeral_2_eq_2 skip_ws_def starts_def parse_number_def
      number_token_def int_part_def)

text \<open>A tool call that Anthropic streams without any piece of arguments ends up with empty arguments,
  which are no JSON. On the next turn the call is left out of the history while its result is still
  sent, so the vendor gets a result for a call it has not seen.
\<close>

theorem silent_call_orphans_result:
  assumes "concat ps = []" and "buildAnthropicToolResultContent content = Inr texts"
  shows "merge_calls (tool_deltas (fst (ant_stream_loop (block_events i (AnsToolUse tid name []) ps) ant_init))) =
      [\<lparr>tc_id = tid, tc_name = name, tc_arguments = []\<rparr>] \<and>
    buildAnthropicMessages num
      [new_message ''assistant'' [] [\<lparr>tc_id = tid, tc_name = name, tc_arguments = []\<rparr>], tool_message tid content] =
      Inr ([ant_user [AntToolResult tid texts]], [])"
proof
  have "fst (ant_stream_loop (block_events i (AnsToolUse tid name []) ps) ant_init) =
      deltas_from ant_init i [(AnsToolUse tid name [], ps)]"
    using block_loop_update [of "AnsToolUse tid name []" ps i ant_init] assms(1) by simp
  then show "merge_calls (tool_deltas (fst (ant_stream_loop (block_events i (AnsToolUse tid name []) ps) ant_init))) =
      [\<lparr>tc_id = tid, tc_name = name, tc_arguments = []\<rparr>]"
    using streamed_calls [of "[(AnsToolUse tid name [], ps)]" ant_init i] assms(1) by simp
  show "buildAnthropicMessages num
      [new_message ''assistant'' [] [\<lparr>tc_id = tid, tc_name = name, tc_arguments = []\<rparr>], tool_message tid content] =
      Inr ([ant_user [AntToolResult tid texts]], [])"
    using assms(2)
    by (simp add: ant_message_role tool_message_def buildAnthropicAssistantBlocks_def ant_tool_use_def decode_empty)
qed

theorem silent_call_orphans_result_witness:
  "buildAnthropicMessages Some
     [new_message ''assistant'' [] [\<lparr>tc_id = ''t1'', tc_name = ''now'', tc_arguments = []\<rparr>],
      tool_message ''t1'' [input_text_block ''noon'']] =
     Inr ([ant_user [AntToolResult ''t1'' [''noon'']]], [])"
proof -
  have "buildAnthropicToolResultContent [input_text_block ''noon''] = Inr [''noon'']" by code_simp
  from silent_call_orphans_result [OF _ this, of "[[]]" 0 "''t1''" "''now''" Some] show ?thesis by simp
qed

end
