(* ===== verification/Vendors.thy ===== *)
theory Vendors
  imports OpenAi Anthropic Google
begin

text \<open>
  From the registry to the vendors: the provider that stands behind what \<open>buildProvider\<close> returned,
  and the errors it can answer with.
\<close>

subsection \<open>The provider behind a registry entry\<close>

text \<open>The constructors of the SDKs' clients.\<close>

record vendor_sdk =
  vs_openai :: "string \<Rightarrow> oai_client"
  vs_azure_openai :: "string \<Rightarrow> string \<Rightarrow> string \<Rightarrow> oai_client"
  vs_anthropic :: "string \<Rightarrow> ant_client"
  vs_azure_anthropic :: "string \<Rightarrow> string \<Rightarrow> ant_client"
  vs_google :: "string \<Rightarrow> go_error + gem_client"
  vs_vertex :: "string \<Rightarrow> string \<Rightarrow> go_error + gem_client"

text \<open>The values a call draws from outside, beside the vendor's answer.\<close>

record call_env =
  ce_num :: "string \<Rightarrow> string option"
  ce_url_path :: "string \<Rightarrow> string option"
  ce_uuid :: string
  ce_random :: "nat \<Rightarrow> string option"

definition google_in :: "call_env \<Rightarrow> gem_provider \<Rightarrow> provider" where
  "google_in env p = google_provider (ce_num env) (ce_url_path env) (ce_uuid env) (ce_random env) p"

fun live_provider :: "vendor_sdk \<Rightarrow> call_env \<Rightarrow> built_provider \<Rightarrow> go_error + provider" where
  "live_provider sdk env (BuiltOpenAI key) = Inr (openai_provider (oai_New (vs_openai sdk) key))"
| "live_provider sdk env (BuiltAzureOpenAI key endpoint version) =
     Inr (openai_provider (oai_NewAzure (vs_azure_openai sdk) key endpoint version))"
| "live_provider sdk env (BuiltAnthropic key) =
     Inr (anthropic_provider (ce_num env) (ant_New (vs_anthropic sdk) key []))"
| "live_provider sdk env (BuiltAzureAnthropic key endpoint) =
     Inr (anthropic_provider (ce_num env) (ant_NewAzure (vs_azure_anthropic sdk) key endpoint []))"
| "live_provider sdk env (BuiltGoogle key) =
     (case gem_New (vs_google sdk) key of Inl e \<Rightarrow> Inl e | Inr p \<Rightarrow> Inr (google_in env p))"
| "live_provider sdk env (BuiltVertexAI project location) =
     (case gem_NewVertexAI (vs_vertex sdk) project location of
        Inl e \<Rightarrow> Inl e | Inr p \<Rightarrow> Inr (google_in env p))"

text \<open>The parameter \<open>genai\<close> of the registry and the constructors of the SDK speak of the same thing.\<close>

definition genai_agrees :: "vendor_sdk \<Rightarrow> (built_provider \<Rightarrow> string option) \<Rightarrow> bool" where
  "genai_agrees sdk genai \<longleftrightarrow>
     (\<forall>key. genai (BuiltGoogle key) = None \<longrightarrow> is_ok (vs_google sdk key)) \<and>
     (\<forall>project location. genai (BuiltVertexAI project location) = None \<longrightarrow>
        is_ok (vs_vertex sdk project location))"

subsection \<open>The errors of a call\<close>

definition call_error_texts :: "string list" where
  "call_error_texts =
     [''convert messages'', ''parse tools'', ''parse tool_choice'', ''openai api error'',
      ''openai stream error'', ''anthropic api error'', ''anthropic stream error'',
      ''google api error'', ''google stream error'']"

definition call_error :: "go_error \<Rightarrow> bool" where
  "call_error e \<longleftrightarrow> (\<exists>t e'. e = ErrWrap t e' \<and> t \<in> set call_error_texts)"

lemma call_error_wrap: "t \<in> set call_error_texts \<Longrightarrow> call_error (ErrWrap t e)"
  by (simp add: call_error_def)

lemma wrap_error_Inl: "wrap_error t r = Inl e \<longleftrightarrow> (\<exists>e'. r = Inl e' \<and> e = ErrWrap t e')"
  by (cases r) auto

lemma oai_params_error: "oai_params_of msgs req str = Inl e \<Longrightarrow> call_error e"
  by (auto simp: oai_params_of_def wrap_error_Inl call_error_def call_error_texts_def
      split: sum.splits if_splits)

lemma ant_params_error: "ant_params_of num msgs req = Inl e \<Longrightarrow> call_error e"
  by (auto simp: ant_params_of_def wrap_error_Inl call_error_def call_error_texts_def
      split: sum.splits if_splits)

lemma gem_params_error: "gem_params_of num url_path msgs req = Inl e \<Longrightarrow> call_error e"
  by (auto simp: gem_params_of_def wrap_error_Inl call_error_def call_error_texts_def
      split: sum.splits if_splits)

definition only_call_errors :: "provider \<Rightarrow> bool" where
  "only_call_errors p \<longleftrightarrow>
     (\<forall>msgs req e. pv_generate p msgs req = Inl e \<longrightarrow> call_error e) \<and>
     (\<forall>msgs req e. snd (pv_stream p msgs req) = Some e \<longrightarrow> call_error e)"

lemma openai_errors: "oai_ready p = Inr client \<Longrightarrow> only_call_errors (openai_provider p)"
  by (auto simp: only_call_errors_def openai_provider_def oai_Generate_def oai_GenerateStream_def
      wrap_error_Inl call_error_texts_def intro!: call_error_wrap dest: oai_params_error
      split: sum.splits option.splits prod.splits)

lemma anthropic_errors: "ant_ready p = Inr client \<Longrightarrow> only_call_errors (anthropic_provider num p)"
  by (auto simp: only_call_errors_def anthropic_provider_def ant_Generate_def ant_GenerateStream_def
      wrap_error_Inl call_error_texts_def intro!: call_error_wrap dest: ant_params_error
      split: sum.splits option.splits prod.splits)

lemma google_errors: "gv_client p = Some client \<Longrightarrow> only_call_errors (google_in env p)"
  by (auto simp: only_call_errors_def google_in_def google_provider_def gem_Generate_def
      gem_GenerateStream_def wrap_error_Inl call_error_texts_def intro!: call_error_wrap
      dest: gem_params_error split: sum.splits option.splits prod.splits)

lemma gem_New_ok:
  "key \<noteq> [] \<Longrightarrow> is_ok (mk key) \<Longrightarrow> \<exists>p c. gem_New mk key = Inr p \<and> gv_client p = Some c"
  "project \<noteq> [] \<Longrightarrow> location \<noteq> [] \<Longrightarrow> is_ok (mk' project location) \<Longrightarrow>
     \<exists>p c. gem_NewVertexAI mk' project location = Inr p \<and> gv_client p = Some c"
  by (auto simp: gem_New_def gem_NewVertexAI_def is_ok_iff)

text \<open>C20: A provider the registry was able to build has its client: it carries the name the registry
  reports, and neither call ever ends with a missing key or an uninitialised client; every error is
  one of a conversion, of a tool declaration, or of the vendor itself.
\<close>

theorem configured_provider_ready:
  assumes "buildProvider genai e = Inr b" and "genai_agrees sdk genai"
  shows "\<exists>p. live_provider sdk env b = Inr p \<and> pv_name p = built_name b \<and> only_call_errors p"
proof (cases b)
  case (BuiltOpenAI key)
  with assms(1) have "key \<noteq> []" by (auto simp: buildProvider_def split: if_splits option.splits)
  then have "oai_ready (oai_New (vs_openai sdk) key) = Inr (vs_openai sdk key)"
    by (simp add: oai_ready_def oai_New_def)
  from openai_errors [OF this] BuiltOpenAI show ?thesis by (simp add: openai_provider_def)
next
  case (BuiltAzureOpenAI key endpoint version)
  with assms(1) have "key \<noteq> [] \<and> endpoint \<noteq> []"
    by (auto simp: buildProvider_def split: if_splits option.splits)
  then have "oai_ready (oai_NewAzure (vs_azure_openai sdk) key endpoint version) =
      Inr (vs_azure_openai sdk key endpoint (openai_azure_version version))"
    by (simp add: oai_ready_def oai_NewAzure_def)
  from openai_errors [OF this] BuiltAzureOpenAI show ?thesis by (simp add: openai_provider_def)
next
  case (BuiltAnthropic key)
  with assms(1) have "key \<noteq> []" by (auto simp: buildProvider_def split: if_splits option.splits)
  then have "ant_ready (ant_New (vs_anthropic sdk) key []) = Inr (vs_anthropic sdk key)"
    by (simp add: ant_ready_def ant_New_def)
  from anthropic_errors [OF this] BuiltAnthropic show ?thesis by (simp add: anthropic_provider_def)
next
  case (BuiltAzureAnthropic key endpoint)
  with assms(1) have "key \<noteq> [] \<and> endpoint \<noteq> []"
    by (auto simp: buildProvider_def split: if_splits option.splits)
  then have "ant_ready (ant_NewAzure (vs_azure_anthropic sdk) key endpoint []) =
      Inr (vs_azure_anthropic sdk endpoint key)"
    by (simp add: ant_ready_def ant_NewAzure_def)
  from anthropic_errors [OF this] BuiltAzureAnthropic show ?thesis by (simp add: anthropic_provider_def)
next
  case (BuiltGoogle key)
  with assms(1) have "key \<noteq> []" "genai (BuiltGoogle key) = None"
    by (auto simp: buildProvider_def split: if_splits option.splits)
  with assms(2) have "is_ok (vs_google sdk key)" by (simp add: genai_agrees_def)
  with gem_New_ok(1) [OF \<open>key \<noteq> []\<close>] obtain p c where
    "gem_New (vs_google sdk) key = Inr p" "gv_client p = Some c" by blast
  with google_errors [of p c env] BuiltGoogle show ?thesis by (simp add: google_in_def google_provider_def)
next
  case (BuiltVertexAI project location)
  with assms(1) have "project \<noteq> []" "location \<noteq> []" "genai (BuiltVertexAI project location) = None"
    by (auto simp: buildProvider_def split: if_splits option.splits)
  with assms(2) have "is_ok (vs_vertex sdk project location)" by (simp add: genai_agrees_def)
  with gem_New_ok(2) [OF \<open>project \<noteq> []\<close> \<open>location \<noteq> []\<close>] obtain p c where
    "gem_NewVertexAI (vs_vertex sdk) project location = Inr p" "gv_client p = Some c" by blast
  with google_errors [of p c env] BuiltVertexAI show ?thesis by (simp add: google_in_def google_provider_def)
qed

definition sample_sdk :: vendor_sdk where
  "sample_sdk =
     (let oai = \<lparr>oa_new = (\<lambda>_. Inl (ErrOther ''down'')), oa_stream = (\<lambda>_. ([], None))\<rparr>;
          ant = \<lparr>ac_new = (\<lambda>_. Inl (ErrOther ''down'')), ac_stream = (\<lambda>_. ([], None))\<rparr>;
          gem = \<lparr>gl_generate = (\<lambda>_. Inl (ErrOther ''down'')), gl_stream = (\<lambda>_. ([], None))\<rparr>
      in \<lparr>vs_openai = (\<lambda>_. oai), vs_azure_openai = (\<lambda>_ _ _. oai), vs_anthropic = (\<lambda>_. ant),
          vs_azure_anthropic = (\<lambda>_ _. ant), vs_google = (\<lambda>_. Inr gem), vs_vertex = (\<lambda>_ _. Inr gem)\<rparr>)"

definition sample_env :: call_env where
  "sample_env = \<lparr>ce_num = Some, ce_url_path = Some, ce_uuid = ''u'', ce_random = (\<lambda>_. None)\<rparr>"

theorem configured_provider_ready_witness:
  "\<exists>p. live_provider sample_sdk sample_env (BuiltGoogle ''k'') = Inr p \<and> pv_name p = ''google'' \<and>
     only_call_errors p"
proof -
  let ?e = "\<lparr>pe_type = ''google'', pe_api_key = ''k'', pe_endpoint = [], pe_api_version = [],
     pe_project = [], pe_location = [], pe_circuit_breaker = None\<rparr>"
  have b: "buildProvider (\<lambda>_. None) ?e = Inr (BuiltGoogle ''k'')" by (simp add: buildProvider_def)
  have "genai_agrees sample_sdk (\<lambda>_. None)" by (simp add: genai_agrees_def sample_sdk_def Let_def)
  from configured_provider_ready [OF b this, of sample_env] show ?thesis by simp
qed

end
