(* ===== verification/ApiProps.thy ===== *)
theory ApiProps
  imports Normalize
begin

text \<open>
  What the request functions of \<open>internal/api/types.go\<close> guarantee: the shape of a parsed
  \<open>tool_choice\<close>, a declarative account of \<open>Validate\<close>, and what \<open>NormalizeInput\<close> and
  \<open>InheritMissingContext\<close> preserve.
\<close>

subsection \<open>The shape of a parsed tool_choice\<close>

definition plain_mode :: "string \<Rightarrow> bool" where
  "plain_mode m \<longleftrightarrow> m \<in> {''auto'', ''none'', ''required'', ''any''}"

definition tool_choice_wf :: "parsed_tool_choice \<Rightarrow> bool" where
  "tool_choice_wf tc \<longleftrightarrow>
     (plain_mode (ptc_mode tc) \<and> ptc_required_tool_name tc = [] \<and> ptc_allowed_tools tc = []) \<or>
     (ptc_mode tc = ''function'' \<and> ptc_required_tool_name tc \<noteq> [] \<and> ptc_allowed_tools tc = []) \<or>
     (ptc_mode tc = ''allowed_tools'' \<and> ptc_required_tool_name tc = [] \<and>
      ptc_allowed_tools tc \<noteq> [] \<and> [] \<notin> set (ptc_allowed_tools tc) \<and>
      distinct (ptc_allowed_tools tc))"

lemma parse_allowed_tools_wf:
  "parse_allowed_tools ts acc = Inr names \<Longrightarrow> distinct acc \<Longrightarrow> [] \<notin> set acc \<Longrightarrow>
     distinct names \<and> [] \<notin> set names \<and> set acc \<subseteq> set names"
  by (induction ts acc rule: parse_allowed_tools.induct)
     (auto simp: Let_def split: json.splits if_splits)

lemma parse_allowed_tools_nonempty:
  "parse_allowed_tools ts acc = Inr names \<Longrightarrow> ts \<noteq> [] \<or> acc \<noteq> [] \<Longrightarrow> names \<noteq> []"
  by (induction ts acc rule: parse_allowed_tools.induct)
     (auto simp: Let_def split: json.splits if_splits)

lemma plain_mode_simps [simp]:
  "plain_mode ''auto''" "plain_mode ''none''" "plain_mode ''required''" "plain_mode ''any''"
  "\<not> plain_mode ''function''" "\<not> plain_mode ''allowed_tools''" "\<not> plain_mode []"
  by (simp_all add: plain_mode_def)

lemma tool_choice_wf_plain [simp]: "tool_choice_wf (parsed_mode m) \<longleftrightarrow> plain_mode m"
  by (auto simp: tool_choice_wf_def parsed_mode_def)

lemma parse_tool_choice_obj_wf:
  "parse_tool_choice_obj obj = Inr tc \<Longrightarrow> tool_choice_wf tc"
  using parse_allowed_tools_wf [of _ "[]"] parse_allowed_tools_nonempty [of _ "[]"]
  by (fastforce simp: parse_tool_choice_obj_def tool_choice_wf_def Let_def
      split: if_splits sum.splits)

lemma parsed_choice_wf: "ParseToolChoice r = Inr tc \<Longrightarrow> tool_choice_wf tc"
  by (cases r)
     (auto dest: parse_tool_choice_obj_wf simp: plain_mode_def
       split: raw.splits json.splits if_splits)

lemma tool_choice_modes:
  "tool_choice_wf tc \<Longrightarrow>
     ptc_mode tc \<in> {''auto'', ''none'', ''required'', ''any'', ''function'', ''allowed_tools''}"
  by (auto simp: tool_choice_wf_def plain_mode_def)

text \<open>Every \<open>tool_choice\<close> that parses gives one of six modes; the mode \<open>function\<close> always
  carries a non-empty tool name, the mode \<open>allowed_tools\<close> a non-empty set of non-empty names,
  and the four plain modes carry neither.\<close>
theorem parse_tool_choice_shape:
  assumes "ParseToolChoice r = Inr tc"
  shows "tool_choice_wf tc"
  using assms by (rule parsed_choice_wf)

theorem parse_tool_choice_shape_witness:
  "\<exists>tc. ParseToolChoice (Some (zero_request\<lparr>rq_tool_choice := RawJson (JObj
       [(''type'', JStr ''allowed_tools''),
        (''tools'', JArr [JObj [(''name'', JStr ''f'')], JObj [(''name'', JStr ''f'')]])])\<rparr>))
     = Inr tc \<and> ptc_allowed_tools tc = [''f''] \<and> tool_choice_wf tc"
proof -
  let ?r = "Some (zero_request\<lparr>rq_tool_choice := RawJson (JObj
       [(''type'', JStr ''allowed_tools''),
        (''tools'', JArr [JObj [(''name'', JStr ''f'')], JObj [(''name'', JStr ''f'')]])])\<rparr>)"
  have "ParseToolChoice ?r = Inr \<lparr>ptc_mode = ''allowed_tools'', ptc_required_tool_name = [],
          ptc_allowed_tools = [''f'']\<rparr>"
    by code_simp
  with parse_tool_choice_shape [OF this] show ?thesis by auto
qed

subsection \<open>Validate\<close>

text \<open>
  The contract of \<open>Validate\<close>, stated without its control flow.
\<close>

definition choice_ok :: "response_request \<Rightarrow> bool" where
  "choice_ok r \<longleftrightarrow>
     (\<exists>tc. ParseToolChoice (Some r) = Inr tc \<and>
        (ptc_mode tc \<in> {''auto'', ''none''} \<or>
         (\<exists>names. DeclaredToolNames (Some r) = Inr names \<and> names \<noteq> [] \<and>
            (ptc_mode tc = ''function'' \<longrightarrow> ptc_required_tool_name tc \<in> set names) \<and>
            set (ptc_allowed_tools tc) \<subseteq> set names)))"

definition item_ok :: "input_item \<Rightarrow> bool" where
  "item_ok item \<longleftrightarrow>
     it_type item \<in> {[], ''message'', ''function_call'', ''function_call_output''} \<or>
     (it_type item = ''item_reference'' \<and> it_id item \<noteq> []) \<or>
     (it_type item = ''reasoning'' \<and>
      \<not> (it_content item = RawNil \<and> it_summary item = RawNil \<and> it_encrypted_content item = []))"

definition is_reference :: "input_item \<Rightarrow> bool" where
  "is_reference item \<longleftrightarrow> it_type item = ''item_reference''"

definition valid_request :: "response_request \<Rightarrow> bool" where
  "valid_request r \<longleftrightarrow>
     rq_model r \<noteq> [] \<and>
     (in_string (rq_input r) \<noteq> None \<or> input_list (rq_input r) \<noteq> [] \<or>
      nonempty_ptr (rq_previous_response_id r)) \<and>
     rq_truncation r \<in> {None, Some ''auto'', Some ''disabled''} \<and>
     choice_ok r \<and>
     (\<forall>item \<in> set (input_list (rq_input r)). item_ok item) \<and>
     (list_ex is_reference (input_list (rq_input r)) \<longrightarrow>
      nonempty_ptr (rq_previous_response_id r))"

lemma validate_items_iff:
  "validate_items items seen = Inr seen' \<longleftrightarrow>
     (\<forall>item \<in> set items. item_ok item) \<and> seen' = (seen \<or> list_ex is_reference items)"
  by (induction items seen rule: validate_items.induct)
     (auto simp: Let_def item_ok_def is_reference_def)

lemma validate_tool_choice_iff:
  assumes "map_order ord" and "ParseToolChoice (Some r) = Inr tc"
  shows "validate_tool_choice ord r tc = None \<longleftrightarrow> choice_ok r"
  using assms parsed_choice_wf [OF assms(2)]
  by (auto simp: validate_tool_choice_def choice_ok_def tool_choice_wf_def plain_mode_def
      first_some_None Let_def split: sum.splits)

lemma validate_iff:
  assumes "map_order ord"
  shows "Validate ord (Some r) = None \<longleftrightarrow> valid_request r"
proof (cases "ParseToolChoice (Some r)")
  case (Inl e)
  then have "\<not> choice_ok r" by (simp add: choice_ok_def)
  with Inl show ?thesis by (auto simp: valid_request_def)
next
  case parsed: (Inr tc)
  note choice = validate_tool_choice_iff [OF assms parsed]
  show ?thesis
  proof (cases "validate_items (input_list (rq_input r)) False")
    case items: (Inl e)
    then have "\<not> (\<forall>item \<in> set (input_list (rq_input r)). item_ok item)"
      using validate_items_iff [of "input_list (rq_input r)" False
          "list_ex is_reference (input_list (rq_input r))"] by auto
    with items parsed show ?thesis
      by (auto simp: valid_request_def simp del: ParseToolChoice.simps split: option.splits)
  next
    case items: (Inr ref)
    then have "\<forall>item \<in> set (input_list (rq_input r)). item_ok item"
      and "ref = list_ex is_reference (input_list (rq_input r))"
      by (simp_all add: validate_items_iff)
    with items parsed choice show ?thesis
      by (auto simp: valid_request_def simp del: ParseToolChoice.simps split: option.splits)
  qed
qed

text \<open>\<open>Validate\<close> accepts a request exactly when it satisfies the declarative contract
  \<open>valid_request\<close>, whatever order Go ranges over the set of allowed tools in: so acceptance
  never depends on map iteration order.\<close>
theorem validate_exact:
  assumes "map_order ord"
  shows "Validate ord (Some r) = None \<longleftrightarrow> valid_request r"
  using assms by (rule validate_iff)

theorem validate_exact_witness:
  "map_order rev \<and>
   (let r = zero_request\<lparr>rq_model := ''m'', rq_previous_response_id := Some ''resp_1'',
              rq_input := \<lparr>in_string = None, in_items = Some
                [zero_item\<lparr>it_type := ''item_reference'', it_id := ''msg_1''\<rparr>]\<rparr>\<rparr>
    in Validate rev (Some r) = None \<and> valid_request r)"
proof -
  let ?r = "zero_request\<lparr>rq_model := ''m'', rq_previous_response_id := Some ''resp_1'',
              rq_input := \<lparr>in_string = None, in_items = Some
                [zero_item\<lparr>it_type := ''item_reference'', it_id := ''msg_1''\<rparr>]\<rparr>\<rparr>"
  have "Validate rev (Some ?r) = None"
    by (simp add: zero_request_def zero_item_def input_list_def validate_tool_choice_def
        parsed_mode_def)
  with validate_exact [OF map_order_rev, of ?r] map_order_rev show ?thesis by simp
qed

subsection \<open>NormalizeInput\<close>

definition item_calls :: "input_item \<Rightarrow> tool_call list" where
  "item_calls item =
     (if it_type item = ''function_call'' then [item_call item]
      else if (it_type item = ''message'' \<or> it_type item = []) \<and> it_content item \<noteq> RawNil
      then snd (normalizeMessageContent (it_role item) (it_content item))
      else [])"

definition item_refs :: "input_item \<Rightarrow> string list" where
  "item_refs item = (if is_reference item \<and> it_id item \<noteq> [] then [it_id item] else [])"

lemma normalize_item_calls:
  "calls_of (fst (normalize_item st item)) = calls_of (fst st) @ item_calls item"
  by (auto simp: normalize_item_def item_calls_def Let_def split: prod.splits)

lemma normalize_item_refs:
  "snd (normalize_item st item) = snd st @ item_refs item"
  by (auto simp: normalize_item_def item_refs_def is_reference_def Let_def split: prod.splits)

lemma normalize_items_calls:
  "calls_of (fst (normalize_items st items)) = calls_of (fst st) @ concat (map item_calls items)"
  by (induction items arbitrary: st) (simp_all add: normalize_item_calls)

lemma normalize_items_refs:
  "snd (normalize_items st items) = snd st @ concat (map item_refs items)"
  by (induction items arbitrary: st) (simp_all add: normalize_item_refs)

text \<open>\<open>NormalizeInput\<close> loses no tool call and invents none: the tool calls of the messages
  it returns are those of the input items (the \<open>function_call\<close> items and the \<open>tool_use\<close> blocks
  inside message content), in the order of the items; the item references it returns are the
  non-empty ids of the \<open>item_reference\<close> items, in order.\<close>
theorem normalize_preserves_calls:
  "in_string (rq_input r) = None \<Longrightarrow>
   calls_of (fst (NormalizeInput r)) = concat (map item_calls (input_list (rq_input r))) \<and>
   snd (NormalizeInput r) = concat (map item_refs (input_list (rq_input r)))"
  by (simp add: NormalizeInput_def normalize_items_calls normalize_items_refs)

definition sample_items :: "input_item list" where
  "sample_items =
     [zero_item\<lparr>it_type := ''message'', it_role := ''user'', it_content := RawJson (JStr ''hi'')\<rparr>,
      zero_item\<lparr>it_type := ''function_call'', it_call_id := ''c1'', it_name := ''f''\<rparr>,
      zero_item\<lparr>it_type := ''function_call'', it_call_id := ''c2'', it_name := ''g''\<rparr>,
      zero_item\<lparr>it_type := ''item_reference'', it_id := ''msg_1''\<rparr>]"

definition sample_request :: response_request where
  "sample_request = zero_request\<lparr>rq_model := ''m'',
     rq_input := \<lparr>in_string = None, in_items = Some sample_items\<rparr>\<rparr>"

theorem normalize_preserves_calls_witness:
  "map tc_id (calls_of (fst (NormalizeInput sample_request))) = [''c1'', ''c2''] \<and>
   snd (NormalizeInput sample_request) = [''msg_1'']"
proof -
  have h: "in_string (rq_input sample_request) = None"
    by (simp add: sample_request_def)
  show ?thesis
    unfolding normalize_preserves_calls [OF h, THEN conjunct1]
      normalize_preserves_calls [OF h, THEN conjunct2]
    by code_simp
qed

lemma normalize_call_run:
  assumes "\<forall>item \<in> set items. it_type item = ''function_call''"
    and "msgs \<noteq> [] \<and> tool_call_turn (last msgs)"
  shows "normalize_items (msgs, refs) items
    = (butlast msgs @ [(last msgs)\<lparr>msg_tool_calls := msg_tool_calls (last msgs) @ map item_call items\<rparr>],
       refs)"
  using assms
proof (induction items arbitrary: msgs)
  case (Cons item items)
  let ?msgs = "add_function_call msgs (item_call item)"
  have step: "normalize_item (msgs, refs) item = (?msgs, refs)"
    using Cons.prems by (simp add: normalize_item_def)
  have "normalize_items (?msgs, refs) items
    = (butlast ?msgs @ [(last ?msgs)\<lparr>msg_tool_calls := msg_tool_calls (last ?msgs) @ map item_call items\<rparr>],
       refs)"
    using Cons.prems by (intro Cons.IH) auto
  then show ?case using Cons.prems step by (simp add: add_function_call_def)
qed simp

text \<open>A run of consecutive \<open>function_call\<close> items (parallel tool calls) becomes one single
  assistant message that carries all their calls in order, whenever the message before the run
  is not itself a pure tool-call turn: the shape the providers require.\<close>
theorem parallel_calls_merge:
  assumes "\<forall>item \<in> set items. it_type item = ''function_call''" and "items \<noteq> []"
    and "msgs = [] \<or> \<not> tool_call_turn (last msgs)"
  shows "normalize_items (msgs, refs) items
    = (msgs @ [new_message ''assistant'' [] (map item_call items)], refs)"
proof -
  obtain item rest where items: "items = item # rest" using assms(2) by (cases items) auto
  let ?m = "new_message ''assistant'' [] [item_call item]"
  have "normalize_item (msgs, refs) item = (msgs @ [?m], refs)"
    using assms items by (auto simp: normalize_item_def add_function_call_def)
  moreover have "normalize_items (msgs @ [?m], refs) rest
      = (butlast (msgs @ [?m]) @ [?m\<lparr>msg_tool_calls := [item_call item] @ map item_call rest\<rparr>], refs)"
    using assms items normalize_call_run [of rest "msgs @ [?m]" refs]
    by (simp add: tool_call_turn_def)
  ultimately show ?thesis by (simp add: items new_message_def)
qed

theorem parallel_calls_merge_witness:
  "length (fst (normalize_items ([], []) (take 2 (drop 1 sample_items)))) = 1"
proof -
  have "normalize_items ([], []) (take 2 (drop 1 sample_items))
    = ([] @ [new_message ''assistant'' [] (map item_call (take 2 (drop 1 sample_items)))], [])"
    by (rule parallel_calls_merge) (simp_all add: sample_items_def)
  then show ?thesis by simp
qed

subsection \<open>InheritMissingContext\<close>

text \<open>Inheriting from a previous request is idempotent, keeps every setting the new
  request gives explicitly, takes a missing one from the previous request, and never touches
  the model, the input, the previous response id, the stream flag, the store flag or the
  background flag.\<close>
theorem inherit_contract:
  "InheritMissingContext (InheritMissingContext r (Some p)) (Some p)
     = InheritMissingContext r (Some p) \<and>
   rq_instructions (InheritMissingContext r (Some p))
     = (case rq_instructions r of Some i \<Rightarrow> Some i | None \<Rightarrow> rq_instructions p) \<and>
   rq_tools (InheritMissingContext r (Some p))
     = (if rq_tools r = RawNil then rq_tools p else rq_tools r) \<and>
   rq_tool_choice (InheritMissingContext r (Some p))
     = (if rq_tool_choice r = RawNil then rq_tool_choice p else rq_tool_choice r) \<and>
   (let r' = InheritMissingContext r (Some p) in
     rq_model r' = rq_model r \<and> rq_input r' = rq_input r \<and>
     rq_previous_response_id r' = rq_previous_response_id r \<and>
     rq_stream r' = rq_stream r \<and> rq_store r' = rq_store r \<and>
     rq_background r' = rq_background r)"
  by (simp add: Let_def or_opt_def or_raw_def or_list_def split: option.splits)

end
