(* ===== verification/ConversationApi.thy ===== *)
theory ConversationApi
  imports ConversationStore
begin

text \<open>
  \<open>internal/conversation/api.go\<close>: the admin UI's conversation endpoints. Each handler is a
  function of the store's method table, the store's state and the request; it returns the
  response and the store afterwards. A timestamp is returned as such, not formatted.
\<close>

record conversation_summary =
  cs_id :: string
  cs_model :: string
  cs_message_count :: nat
  cs_created_at :: timestamp
  cs_updated_at :: timestamp

record message_response =
  mr_role :: string
  mr_content :: string

datatype conv_body =
    ConvText string
  | ConvError string
  | ConvList "conversation_summary list" nat int int
  | ConvDetail string string "message_response list" timestamp timestamp
  | ConvDeleted string

type_synonym conv_reply = "conv_body http_response"

definition conversation_summary :: "conversation \<Rightarrow> conversation_summary" where
  "conversation_summary c = \<lparr>cs_id = cv_id c, cs_model = cv_model c,
     cs_message_count = length (cv_messages c), cs_created_at = cv_created_at c,
     cs_updated_at = cv_updated_at c\<rparr>"

definition list_request_options :: "http_request \<Rightarrow> list_options" where
  "list_request_options r =
     \<lparr>lo_page = Atoi (query_get r ''page''), lo_limit = Atoi (query_get r ''limit''),
      lo_owner_iss = [], lo_owner_sub = [], lo_tenant_id = [],
      lo_model = query_get r ''model'', lo_search = query_get r ''search''\<rparr>"

definition getOwner :: "http_request \<Rightarrow> string \<times> string" where
  "getOwner r = (ctx_string (hr_owner_iss r), ctx_string (hr_owner_sub r))"

definition run_list :: "'s store_ops \<Rightarrow> 's \<Rightarrow> list_options \<Rightarrow> conv_reply" where
  "run_list ops s opts =
     (case so_list ops s opts of
        Inl e \<Rightarrow> reply 500 (ConvError ''Failed to list conversations'')
      | Inr result \<Rightarrow>
          reply 200 (ConvList (map conversation_summary (lr_conversations result))
                       (lr_total result) (lo_page opts) (lo_limit opts)))"

definition HandleListConversations :: "'s store_ops \<Rightarrow> 's \<Rightarrow> http_request \<Rightarrow> conv_reply" where
  "HandleListConversations ops s r =
     (if hr_method r \<noteq> ''GET'' then reply 405 (ConvText ''Method not allowed'')
      else if \<not> ctx_is_admin r then
        (let (ownerIss, ownerSub) = getOwner r in
         if ownerIss = [] \<or> ownerSub = [] then reply 401 (ConvError ''Not authenticated'')
         else run_list ops s ((list_request_options r)\<lparr>lo_owner_iss := ownerIss,
                                                       lo_owner_sub := ownerSub\<rparr>))
      else run_list ops s ((list_request_options r)\<lparr>lo_tenant_id := query_get r ''tenant_id''\<rparr>))"

text \<open>\<open>canAccess\<close>: the error response it writes when access is denied.\<close>

definition canAccess :: "http_request \<Rightarrow> conversation \<Rightarrow> conv_reply option" where
  "canAccess r conv =
     (if ctx_is_admin r then None
      else case (hr_owner_iss r, hr_owner_sub r) of
             (Some (CtxStr ownerIss), Some (CtxStr ownerSub)) \<Rightarrow>
               if cv_owner_iss conv \<noteq> ownerIss \<or> cv_owner_sub conv \<noteq> ownerSub
               then Some (reply 404 (ConvError ''Conversation not found''))
               else None
           | (None, _) \<Rightarrow> Some (reply 403 (ConvError ''Access denied''))
           | (_, None) \<Rightarrow> Some (reply 403 (ConvError ''Access denied''))
           | _ \<Rightarrow> Some (reply 500 (ConvError ''Invalid owner context'')))"

definition message_response :: "message \<Rightarrow> message_response" where
  "message_response m = \<lparr>mr_role = msg_role m,
     mr_content = (case msg_content m of [] \<Rightarrow> [] | b # _ \<Rightarrow> cb_text b)\<rparr>"

definition HandleGetConversation ::
  "'s store_ops \<Rightarrow> 's \<Rightarrow> http_request \<Rightarrow> string \<Rightarrow> conv_reply" where
  "HandleGetConversation ops s r convID =
     (case so_get ops s convID of
        Inl e \<Rightarrow> reply 500 (ConvError ''Failed to retrieve conversation'')
      | Inr None \<Rightarrow> reply 404 (ConvError ''Conversation not found'')
      | Inr (Some conv) \<Rightarrow>
          (case canAccess r conv of
             Some denied \<Rightarrow> denied
           | None \<Rightarrow> reply 200 (ConvDetail (cv_id conv) (cv_model conv)
                       (map message_response (cv_messages conv))
                       (cv_created_at conv) (cv_updated_at conv))))"

definition HandleDeleteConversation ::
  "'s store_ops \<Rightarrow> 's \<Rightarrow> http_request \<Rightarrow> string \<Rightarrow> conv_reply \<times> 's" where
  "HandleDeleteConversation ops s r convID =
     (case so_get ops s convID of
        Inl e \<Rightarrow> (reply 500 (ConvError ''Failed to retrieve conversation''), s)
      | Inr None \<Rightarrow> (reply 404 (ConvError ''Conversation not found''), s)
      | Inr (Some conv) \<Rightarrow>
          (case canAccess r conv of
             Some denied \<Rightarrow> (denied, s)
           | None \<Rightarrow>
               (case so_delete ops s convID of
                  (Some e, s') \<Rightarrow> (reply 500 (ConvError ''Failed to delete conversation''), s')
                | (None, s') \<Rightarrow> (reply 200 (ConvDeleted convID), s'))))"

definition HandleConversationByID ::
  "'s store_ops \<Rightarrow> 's \<Rightarrow> http_request \<Rightarrow> conv_reply \<times> 's" where
  "HandleConversationByID ops s r =
     (let convID = trim_space (trim_prefix (hr_path r) ''/api/conversations/'') in
      if convID = [] then (reply 404 (ConvText ''Not found''), s)
      else if hr_method r = ''GET'' then (HandleGetConversation ops s r convID, s)
      else if hr_method r = ''DELETE'' then HandleDeleteConversation ops s r convID
      else (reply 405 (ConvText ''Method not allowed''), s))"

subsection \<open>Access control\<close>

definition owns_ctx :: "http_request \<Rightarrow> conversation \<Rightarrow> bool" where
  "owns_ctx r conv \<longleftrightarrow> hr_owner_iss r = Some (CtxStr (cv_owner_iss conv)) \<and>
     hr_owner_sub r = Some (CtxStr (cv_owner_sub conv))"

lemma canAccess_iff: "canAccess r conv = None \<longleftrightarrow> ctx_is_admin r \<or> owns_ctx r conv"
  by (auto simp: canAccess_def owns_ctx_def split: option.splits ctx_val.splits)

lemma canAccess_denied_status: "canAccess r conv = Some d \<Longrightarrow> rs_status d \<in> {403, 404, 500}"
  by (auto simp: canAccess_def split: option.splits ctx_val.splits if_splits)

context conv_store begin

lemma delete_handler_guard:
  assumes "HandleDeleteConversation ops s r k = (resp, s')"
  shows "s' = s \<or> (\<exists>c. so_get ops s k = Inr (Some c) \<and> (ctx_is_admin r \<or> owns_ctx r c))"
  using assms
  by (auto simp: HandleDeleteConversation_def canAccess_iff
      split: sum.splits option.splits prod.splits)

lemma delete_handler_effect:
  assumes "inv s" and "so_get ops s k = Inr (Some c)" and "ctx_is_admin r \<or> owns_ctx r c"
  shows "fst (HandleDeleteConversation ops s r k) = reply 200 (ConvDeleted k) \<and>
    so_get ops (snd (HandleDeleteConversation ops s r k)) k = Inr None \<and>
    (\<forall>k'. k' \<noteq> k \<longrightarrow> so_get ops (snd (HandleDeleteConversation ops s r k)) k' = so_get ops s k')"
proof -
  have "canAccess r c = None" using assms(3) by (simp add: canAccess_iff)
  with assms(1,2) show ?thesis
    using delete_ok [OF assms(1), of k] delete_get [OF assms(1), of k]
    by (auto simp: HandleDeleteConversation_def split: prod.splits)
qed

lemma get_handler_hides:
  assumes "so_get ops s k = Inr (Some c)" and "\<not> ctx_is_admin r" and "\<not> owns_ctx r c"
  shows "rs_status (HandleGetConversation ops s r k) \<in> {403, 404, 500}"
proof -
  from assms obtain d where "canAccess r c = Some d" using canAccess_iff [of r c] by auto
  with assms(1) canAccess_denied_status [OF this] show ?thesis
    by (simp add: HandleGetConversation_def)
qed

end

text \<open>C33: The conversation endpoints enforce ownership. On the SQL store a DELETE takes effect
  only for an admin or the conversation's owner: for anyone else the store is unchanged; for
  them it removes that conversation and no other; and a GET by a stranger never answers 200.\<close>
theorem conversation_endpoints_owner_only:
  assumes "sql_inv s" and "sql_Get s k = Inr (Some c)"
  shows "if ctx_is_admin r \<or> owns_ctx r c
     then fst (HandleDeleteConversation (sql_ops like) s r k) = reply 200 (ConvDeleted k) \<and>
          sql_Get (snd (HandleDeleteConversation (sql_ops like) s r k)) k = Inr None \<and>
          (\<forall>k'. k' \<noteq> k \<longrightarrow>
             sql_Get (snd (HandleDeleteConversation (sql_ops like) s r k)) k' = sql_Get s k')
     else snd (HandleDeleteConversation (sql_ops like) s r k) = s \<and>
          rs_status (fst (HandleDeleteConversation (sql_ops like) s r k)) \<in> {403, 404, 500} \<and>
          rs_status (HandleGetConversation (sql_ops like) s r k) \<in> {403, 404, 500}"
proof (cases "ctx_is_admin r \<or> owns_ctx r c")
  case True
  then show ?thesis
    using sqlst.delete_handler_effect [OF assms(1), of like k c r] assms(2)
    by (simp add: sql_ops_def)
next
  case False
  then obtain d where d: "canAccess r c = Some d" using canAccess_iff [of r c] by auto
  with False assms(2) canAccess_denied_status [OF d] show ?thesis
    by (simp add: HandleDeleteConversation_def HandleGetConversation_def sql_ops_def)
qed

theorem conversation_endpoints_owner_only_witness:
  "snd (HandleDeleteConversation (sql_ops (=)) (sample_store\<lparr>ss_rows := sample_rows\<rparr>)
      (zero_http\<lparr>hr_owner_iss := Some (CtxStr ''iss''), hr_owner_sub := Some (CtxStr ''bob'')\<rparr>) ''b'')
   = sample_store\<lparr>ss_rows := sample_rows\<rparr>"
proof -
  let ?s = "sample_store\<lparr>ss_rows := sample_rows\<rparr>"
  let ?r = "zero_http\<lparr>hr_owner_iss := Some (CtxStr ''iss''), hr_owner_sub := Some (CtxStr ''bob'')\<rparr>"
  obtain c where c: "sql_Get ?s ''b'' = Inr (Some c)" "cv_owner_sub c = ''alice''"
    by (simp add: sql_Get_def sample_store_def sample_rows_def sample_row_def row_conversation_def)
  have "\<not> (ctx_is_admin ?r \<or> owns_ctx ?r c)"
    using c(2) by (simp add: ctx_is_admin_def owns_ctx_def zero_http_def)
  with conversation_endpoints_owner_only [OF sample_rows_inv c(1), of ?r "(=)"] show ?thesis by simp
qed

lemma matching_rows_owner:
  assumes "row \<in> set (matching_rows like s opts)" and "lo_owner_iss opts \<noteq> []"
    and "lo_owner_sub opts \<noteq> []"
  shows "cr_owner_iss row = lo_owner_iss opts \<and> cr_owner_sub row = lo_owner_sub opts"
  using assms by (simp add: matching_rows_def row_matches_def)

lemma all_some_mem: "all_some (map f xs) = Some ys \<Longrightarrow> y \<in> set ys \<Longrightarrow> \<exists>x \<in> set xs. f x = Some y"
  by (auto simp: all_some_Some) (metis imageE image_eqI image_set)

lemma listed_rows_owned:
  assumes "\<not> ctx_is_admin r"
    and "HandleListConversations (sql_ops like) s r = reply 200 (ConvList cs n page limit)"
  shows "hr_owner_iss r \<noteq> None \<and> hr_owner_sub r \<noteq> None \<and>
     (\<forall>c \<in> set cs. \<exists>row \<in> set (ss_rows s). cs_id c = cr_id row \<and>
        hr_owner_iss r = Some (CtxStr (cr_owner_iss row)) \<and>
        hr_owner_sub r = Some (CtxStr (cr_owner_sub row)))"
proof -
  let ?iss = "ctx_string (hr_owner_iss r)" and ?sub = "ctx_string (hr_owner_sub r)"
  let ?opts = "(list_request_options r)\<lparr>lo_owner_iss := ?iss, lo_owner_sub := ?sub\<rparr>"
  have ne: "?iss \<noteq> []" "?sub \<noteq> []" and run: "run_list (sql_ops like) s ?opts = reply 200 (ConvList cs n page limit)"
    using assms by (auto simp: HandleListConversations_def getOwner_def split: if_splits)
  have ctx: "hr_owner_iss r = Some (CtxStr ?iss)" "hr_owner_sub r = Some (CtxStr ?sub)"
    using ne by (auto simp: ctx_string_def split: option.splits ctx_val.splits)
  from run obtain convs where convs: "cs = map conversation_summary convs"
      "all_some (map (list_row (ss_driver s)) (list_page ?opts (matching_rows like s ?opts))) = Some convs"
    by (auto simp: run_list_def sql_ops_def sql_List_def split: sum.splits if_splits option.splits)
  have "\<exists>row \<in> set (ss_rows s). cs_id c = cr_id row \<and> cr_owner_iss row = ?iss \<and> cr_owner_sub row = ?sub"
    if c: "c \<in> set cs" for c
  proof -
    from c convs obtain conv where conv: "conv \<in> set convs" "c = conversation_summary conv" by auto
    from all_some_mem [OF convs(2) conv(1)] obtain row where row: "row \<in> set (list_page ?opts (matching_rows like s ?opts))"
        "list_row (ss_driver s) row = Some conv"
      by blast
    have mem: "row \<in> set (matching_rows like s ?opts)"
      by (rule subsetD [OF set_list_page row(1)])
    with matching_rows_owner [OF this] ne row(2) conv(2) list_row_sel [OF row(2)] show ?thesis
      by (auto simp: matching_rows_def conversation_summary_def)
  qed
  with ctx show ?thesis by fastforce
qed

text \<open>A caller who is not an admin only ever lists their own conversations: whatever query
  parameters the request carries, every conversation in a 200 answer is the summary of a row
  whose owner is the caller's issuer and subject; without an identity the answer is 401.\<close>
theorem list_endpoint_owner_scoped:
  assumes "\<not> ctx_is_admin r"
    and "HandleListConversations (sql_ops like) s r = reply 200 (ConvList cs n page limit)"
  shows "hr_owner_iss r \<noteq> None \<and> hr_owner_sub r \<noteq> None \<and>
     (\<forall>c \<in> set cs. \<exists>row \<in> set (ss_rows s). cs_id c = cr_id row \<and>
        hr_owner_iss r = Some (CtxStr (cr_owner_iss row)) \<and>
        hr_owner_sub r = Some (CtxStr (cr_owner_sub row)))"
  using assms by (rule listed_rows_owned)

theorem list_endpoint_owner_scoped_witness:
  "\<exists>cs. HandleListConversations (sql_ops (=)) (sample_store\<lparr>ss_rows := sample_rows\<rparr>)
      (zero_http\<lparr>hr_owner_iss := Some (CtxStr ''iss''), hr_owner_sub := Some (CtxStr ''alice'')\<rparr>)
     = reply 200 (ConvList cs 3 0 0) \<and> length cs = 3 \<and>
     (\<forall>c \<in> set cs. \<exists>row \<in> set sample_rows. cs_id c = cr_id row)"
proof -
  let ?s = "sample_store\<lparr>ss_rows := sample_rows\<rparr>"
  let ?r = "zero_http\<lparr>hr_owner_iss := Some (CtxStr ''iss''), hr_owner_sub := Some (CtxStr ''alice'')\<rparr>"
  have na: "\<not> ctx_is_admin ?r" by (simp add: ctx_is_admin_def zero_http_def)
  define cs where "cs = map conversation_summary
     (map (\<lambda>row. the (list_row ''pgx'' row)) (rev sample_rows))"
  have h: "HandleListConversations (sql_ops (=)) ?s ?r = reply 200 (ConvList cs 3 0 0)"
    by (simp add: cs_def HandleListConversations_def zero_http_def ctx_is_admin_def getOwner_def
        ctx_string_def run_list_def sql_ops_def sql_List_def sample_store_def sample_rows_def
        sample_row_def list_request_options_def query_get_def Atoi_def page_offset_def page_of_def
        limit_of_def wrap64_def matching_rows_def row_matches_def list_page_def list_row_def)
  from list_endpoint_owner_scoped [OF na h] h show ?thesis
    by (intro exI [of _ cs]) (auto simp: cs_def sample_rows_def)
qed

end
