(* ===== verification/ProvidersProps.thy ===== *)
theory ProvidersProps
  imports Providers
begin

text \<open>
  Properties of configuration validation, the provider registry and the circuit breaker
  settings, and the interpretation of the registry contract on the model's \<open>registry\<close>.
\<close>

subsection \<open>Construction and lookup\<close>

lemma map_of_order:
  assumes "distinct (map fst es)" and "map_order ord"
  shows "map_of (ord es) = map_of es"
proof -
  from assms(2) have s: "set (ord es) = set es" and l: "length (ord es) = length es"
    by (auto simp: map_order_def)
  have "card (set (map fst (ord es))) = length (map fst (ord es))"
    using s l distinct_card [OF assms(1)] by simp
  then have "distinct (map fst (ord es))" by (rule card_distinct)
  with assms(1) s show ?thesis by (simp add: map_of_inject_set)
qed

lemma model_index_mem: "m \<in> set ms \<Longrightarrow> \<exists>m' \<in> set ms. me_name m' = me_name m \<and> model_index ms (me_name m) = Some (me_provider m')"
proof -
  assume "m \<in> set ms"
  then have "map_of (rev (map (\<lambda>m. (me_name m, me_provider m)) ms)) (me_name m) \<noteq> None"
    by (simp add: map_of_eq_None_iff image_image)
  then obtain p where p: "model_index ms (me_name m) = Some p" by (auto simp: model_index_def)
  from map_of_SomeD [OF p [unfolded model_index_def]] p show ?thesis by auto
qed

lemma NewRegistry_Inr:
  assumes "NewRegistry ord genai mk entries models = Inr reg"
  shows "build_all genai mk (ord entries) = Inr (rg_providers reg) \<and>
     rg_models reg = model_index models \<and> rg_model_ids reg = id_index models \<and>
     rg_model_list reg = models"
  using assms index_models_fst [of models Map.empty Map.empty]
    index_models_snd [of models Map.empty Map.empty]
  by (auto simp: NewRegistry_def split: sum.splits prod.splits)

lemma registry_lookup:
  assumes "NewRegistry ord genai mk entries models = Inr reg"
    and "distinct (map fst entries)" and "map_order ord"
    and "map_of entries n = Some e"
  shows "\<exists>b. buildProvider genai e = Inr b \<and> Get reg n = Some (mk b (circuitBreakerConfigFromEntry e))"
proof -
  have b: "build_all genai mk (ord entries) = Inr (rg_providers reg)"
    using NewRegistry_Inr [OF assms(1)] by simp
  have "(n, e) \<in> set (ord entries)" using assms(3,4) map_of_SomeD by fastforce
  moreover have "is_ok (buildProvider genai e')"
    if "(n', e') \<in> set es" "build_all genai mk es = Inr ps" for es ps n' e'
    using that by (induction genai mk es arbitrary: ps rule: build_all.induct)
      (auto split: sum.splits)
  ultimately have "is_ok (buildProvider genai e)" using b by blast
  with build_all_lookup [OF b, of n] map_of_order [OF assms(2,3)] assms(4) show ?thesis
    by (auto simp: Get_def is_ok_iff)
qed

lemma validate_config_mem:
  "validate_config entries models = None \<Longrightarrow> m \<in> set models \<Longrightarrow> validate_model entries m = None"
  by (simp add: validate_config_def first_some_None)

lemma validated_lookup:
  assumes "distinct (map fst entries)" and "map_order ord"
    and "validate_config entries models = None"
    and "NewRegistry ord genai mk entries models = Inr reg" and "m \<in> set models"
  shows "\<exists>n e b. model_index models (me_name m) = Some n \<and> map_of entries n = Some e \<and>
     buildProvider genai e = Inr b \<and> Get reg n = Some (mk b (circuitBreakerConfigFromEntry e))"
proof -
  obtain m' where m': "m' \<in> set models" "model_index models (me_name m) = Some (me_provider m')"
    using model_index_mem [OF assms(5)] by blast
  obtain e where e: "map_of entries (me_provider m') = Some e"
    using validate_model_entry [OF validate_config_mem [OF assms(3) m'(1)], of genai] by blast
  with registry_lookup [OF assms(4,1,2) e] m' show ?thesis by blast
qed

text \<open>A validated configuration is served as written. If \<open>Config.Validate\<close> accepts and the
  registry is built, then looking up any configured model name gives the provider built, behind
  its circuit breaker, from the entry that the last model entry of that name refers to,
  whatever order Go ranges over the provider map.\<close>
theorem validated_models_resolve:
  assumes "distinct (map fst entries)" and "map_order ord"
    and "validate_config entries models = None"
    and "NewRegistry ord genai mk entries models = Inr reg"
    and "m \<in> set models" and "me_name m \<noteq> []"
  shows "\<exists>n e b. model_index models (me_name m) = Some n \<and> map_of entries n = Some e \<and>
     buildProvider genai e = Inr b \<and>
     Default ord' reg (me_name m) = Inr (mk b (circuitBreakerConfigFromEntry e))"
  using validated_lookup [OF assms(1-5)] NewRegistry_Inr [OF assms(4)] assms(6)
  by (fastforce simp: Default_def)

definition sample_entries :: "(string \<times> provider_entry) list" where
  "sample_entries =
     [(''oai'', \<lparr>pe_type = ''openai'', pe_api_key = ''k'', pe_endpoint = [], pe_api_version = [],
               pe_project = [], pe_location = [], pe_circuit_breaker = None\<rparr>),
      (''az'', \<lparr>pe_type = ''azureopenai'', pe_api_key = ''k'', pe_endpoint = ''https'',
              pe_api_version = [], pe_project = [], pe_location = [], pe_circuit_breaker = None\<rparr>)]"

definition sample_models :: "model_entry list" where
  "sample_models =
     [\<lparr>me_name = ''gpt'', me_provider = ''oai'', me_provider_model_id = []\<rparr>,
      \<lparr>me_name = ''gpt'', me_provider = ''az'', me_provider_model_id = ''deploy''\<rparr>]"

lemma sample_registry:
  "NewRegistry rev (\<lambda>_. None) (\<lambda>b cfg. b) sample_entries sample_models =
     Inr \<lparr>rg_providers = [(''az'', BuiltAzureOpenAI ''k'' ''https'' ''2024-12-01-preview''),
                          (''oai'', BuiltOpenAI ''k'')],
          rg_models = model_index sample_models, rg_model_ids = id_index sample_models,
          rg_model_list = sample_models\<rparr>"
  using index_models_fst [of sample_models Map.empty Map.empty]
    index_models_snd [of sample_models Map.empty Map.empty]
  by (auto simp: NewRegistry_def sample_entries_def buildProvider_def openai_azure_version_def
      split: prod.splits)

theorem validated_models_resolve_witness:
  "\<exists>reg. NewRegistry rev (\<lambda>_. None) (\<lambda>b cfg. b) sample_entries sample_models = Inr reg \<and>
     Default id reg ''gpt'' = Inr (BuiltAzureOpenAI ''k'' ''https'' ''2024-12-01-preview'')"
proof -
  have v: "validate_config sample_entries sample_models = None" by code_simp
  have d: "distinct (map fst sample_entries)" by (simp add: sample_entries_def)
  have m: "\<lparr>me_name = ''gpt'', me_provider = ''oai'', me_provider_model_id = []\<rparr> \<in> set sample_models"
    by (simp add: sample_models_def)
  from validated_models_resolve [OF d map_order_rev v sample_registry m, of id] sample_registry
  show ?thesis
    by (auto simp: model_index_def sample_models_def sample_entries_def buildProvider_def
        openai_azure_version_def)
qed

text \<open>Validation is enough for start-up: if every provider entry is used by some model,
  \<open>Config.Validate\<close> accepts and the vendor client libraries construct their clients, then
  building the registry cannot fail.\<close>
theorem validated_config_builds:
  assumes "validate_config entries models = None" and "map_order ord"
    and "\<forall>n e. (n, e) \<in> set entries \<longrightarrow> (\<exists>m \<in> set models. me_provider m = n)"
    and "distinct (map fst entries)" and "\<forall>b. genai b = None"
  shows "is_ok (NewRegistry ord genai mk entries models)"
proof -
  have "is_ok (buildProvider genai e)" if "(n, e) \<in> set (ord entries)" for n e
  proof -
    from that assms(2) have mem: "(n, e) \<in> set entries" by simp
    with assms(3) obtain m where m: "m \<in> set models" "me_provider m = n" by blast
    with validate_model_entry [OF validate_config_mem [OF assms(1) m(1)], of genai] assms(5)
    show ?thesis using mem assms(4) by auto
  qed
  then have "is_ok (build_all genai mk (ord entries))" by (rule build_all_ok)
  then show ?thesis by (auto simp: is_ok_iff NewRegistry_def split: prod.splits)
qed

theorem validated_config_builds_witness:
  "is_ok (NewRegistry rev (\<lambda>_. None) (\<lambda>b cfg. b) sample_entries sample_models)"
proof (rule validated_config_builds [OF _ map_order_rev])
  show "validate_config sample_entries sample_models = None" by code_simp
qed (auto simp: sample_entries_def sample_models_def)

subsection \<open>The contract\<close>

definition registry_wf :: "'p registry \<Rightarrow> bool" where
  "registry_wf reg \<longleftrightarrow>
     (\<forall>m \<in> set (rg_model_list reg). me_name m \<noteq> [] \<and>
        (\<exists>n p. rg_models reg (me_name m) = Some n \<and> Get reg n = Some p))"

interpretation regst: provider_registry registry_wf Get Models "Default ord"
proof (unfold_locales, goal_cases)
  case (1 r m p)
  then show ?case by (auto simp: Default_def split: option.splits)
next
  case (2 r n m)
  then show ?case by (auto simp: Models_def)
next
  case (3 r n m)
  then obtain e where "e \<in> set (rg_model_list r)" "m = me_name e" by (auto simp: Models_def)
  with 3(1) obtain k p where "m \<noteq> []" "rg_models r m = Some k" "Get r k = Some p"
    by (auto simp: registry_wf_def)
  then show ?case by (simp add: Default_def)
qed

lemma validated_registry_wf:
  assumes "distinct (map fst entries)" and "map_order ord"
    and "validate_config entries models = None"
    and "NewRegistry ord genai mk entries models = Inr reg"
    and "\<forall>m \<in> set models. me_name m \<noteq> []"
  shows "registry_wf reg"
  unfolding registry_wf_def
proof (intro ballI conjI)
  fix m assume "m \<in> set (rg_model_list reg)"
  then have m: "m \<in> set models" using NewRegistry_Inr [OF assms(4)] by simp
  then show ne: "me_name m \<noteq> []" using assms(5) by simp
  from validated_lookup [OF assms(1-4) m] NewRegistry_Inr [OF assms(4)]
  show "\<exists>n p. rg_models reg (me_name m) = Some n \<and> Get reg n = Some p" by auto
qed

text \<open>What \<open>GET /v1/models\<close> lists can be requested: on a registry built from a validated
  configuration every configured model is listed, and each listed model name resolves to a
  provider that is registered under some entry name.\<close>
theorem listed_models_served:
  assumes "distinct (map fst entries)" and "map_order ord"
    and "validate_config entries models = None"
    and "NewRegistry ord genai mk entries models = Inr reg"
    and "\<forall>m \<in> set models. me_name m \<noteq> []"
  shows "map snd (Models reg) = map me_name models \<and>
     (\<forall>(n, name) \<in> set (Models reg). \<exists>p n'. Default ord' reg name = Inr p \<and> Get reg n' = Some p)"
proof -
  note wf = validated_registry_wf [OF assms]
  have "Get reg (me_provider m) \<noteq> None" if "m \<in> set models" for m
    using validate_model_entry [OF validate_config_mem [OF assms(3) that], of genai]
      registry_lookup [OF assms(4,1,2)] by force
  then have "map snd (Models reg) = map me_name models"
    using NewRegistry_Inr [OF assms(4)] by (simp add: Models_def comp_def)
  moreover have "\<exists>p n'. Default ord' reg name = Inr p \<and> Get reg n' = Some p"
    if l: "(n, name) \<in> set (Models reg)" for n name
  proof (rule regst.listed_model_served [OF wf])
    from l show "name \<in> snd ` set (Models reg)" by force
    from l assms(5) NewRegistry_Inr [OF assms(4)] show "name \<noteq> []" by (auto simp: Models_def)
  qed
  ultimately show ?thesis by auto
qed

theorem listed_models_served_witness:
  "\<exists>reg. NewRegistry rev (\<lambda>_. None) (\<lambda>b cfg. b) sample_entries sample_models = Inr reg \<and>
     map snd (Models reg) = [''gpt'', ''gpt'']"
proof -
  have v: "validate_config sample_entries sample_models = None" by code_simp
  have d: "distinct (map fst sample_entries)" by (simp add: sample_entries_def)
  have ne: "\<forall>m \<in> set sample_models. me_name m \<noteq> []" by (simp add: sample_models_def)
  from listed_models_served [OF d map_order_rev v sample_registry ne, of id] sample_registry
  show ?thesis by (simp add: sample_models_def)
qed

subsection \<open>Circuit breaker settings\<close>

lemma min_requests_pos: "0 < bc_min_requests (circuitBreakerConfigFromEntry e)"
  by (auto simp: circuitBreakerConfigFromEntry_def DefaultCircuitBreakerConfig_def Let_def
      split: option.splits)

text \<open>However a provider entry overrides the circuit breaker, the trip test never divides by
  zero and decides exactly "at least the minimum number of requests, and at least the
  configured share of them failed"; an override of zero keeps the default of 5 requests and
  one half.\<close>
lemma breaker_trip_exact:
  "let cfg = circuitBreakerConfigFromEntry e in
   ready_to_trip cfg n f \<longleftrightarrow>
     bc_min_requests cfg \<le> n \<and> bc_failure_ratio cfg * of_nat n \<le> of_nat f \<and> 0 < n"
proof -
  let ?cfg = "circuitBreakerConfigFromEntry e"
  have "ready_to_trip ?cfg n f \<longleftrightarrow>
     bc_min_requests ?cfg \<le> n \<and> bc_failure_ratio ?cfg * of_nat n \<le> of_nat f" if "0 < n"
    using that by (auto simp: ready_to_trip_def pos_le_divide_eq)
  moreover have "\<not> ready_to_trip ?cfg 0 f"
    using min_requests_pos [of e] by (simp add: ready_to_trip_def)
  ultimately show ?thesis by (cases "n = 0") (auto simp: Let_def)
qed

end
