(* ===== verification/Channels.thy ===== *)
theory Channels
  imports StreamPolicy
begin

text \<open>
  The goroutines between a provider and the streaming handler, as interleaved steps.

  Without observability there are three: the provider's goroutine (\<open>GenerateStream\<close> of
  \<open>internal/providers/{openai,anthropic,google}\<close>), which sends its deltas on an unbuffered
  channel, puts an error into a channel of capacity one and closes the error channel before
  the delta channel; the forwarding goroutine of \<open>CircuitBreakerProvider.GenerateStream\<close>; and
  the handler, whose \<open>select\<close> picks any channel that is ready. With observability the goroutine
  of \<open>InstrumentedProvider.GenerateStream\<close> (\<open>internal/observability/provider_wrapper.go\<close>) sits
  before the handler. A step is labelled with what the handler receives, if anything.
\<close>

subsection \<open>Provider and circuit breaker goroutines\<close>

datatype prov_phase = Sending | Reported | ErrClosed | AllClosed

datatype cb_phase = CbWaiting | CbGot "go_error option" | CbSent | CbClosed

record chan_state =
  ch_todo :: "provider_stream_delta list"
  ch_err :: "go_error option"
  ch_phase :: prov_phase
  ch_buf :: "go_error option"
  ch_cb :: cb_phase
  ch_wbuf :: "go_error option"
  ch_done :: "bool list"
  ch_stopped :: bool

definition chan_init :: "provider_stream_delta list \<Rightarrow> go_error option \<Rightarrow> chan_state" where
  "chan_init ds err = \<lparr>ch_todo = ds, ch_err = err, ch_phase = Sending, ch_buf = None,
     ch_cb = CbWaiting, ch_wbuf = None, ch_done = [], ch_stopped = False\<rparr>"

text \<open>
  Steps no receiver on the delta channel takes part in: the provider reports and closes; the
  forwarder receives, tells the breaker the outcome, forwards and closes.
\<close>

inductive internal_step :: "chan_state \<Rightarrow> chan_state \<Rightarrow> bool" where
  report: "ch_phase c = Sending \<Longrightarrow> ch_todo c = [] \<Longrightarrow>
     internal_step c (c\<lparr>ch_phase := Reported, ch_buf := ch_err c\<rparr>)"
| close_err: "ch_phase c = Reported \<Longrightarrow> internal_step c (c\<lparr>ch_phase := ErrClosed\<rparr>)"
| close_delta: "ch_phase c = ErrClosed \<Longrightarrow> internal_step c (c\<lparr>ch_phase := AllClosed\<rparr>)"
| cb_value: "ch_cb c = CbWaiting \<Longrightarrow> ch_buf c = Some e \<Longrightarrow>
     internal_step c (c\<lparr>ch_buf := None, ch_cb := CbGot (Some e), ch_done := ch_done c @ [False]\<rparr>)"
| cb_closed: "ch_cb c = CbWaiting \<Longrightarrow> ch_buf c = None \<Longrightarrow> ch_phase c \<in> {ErrClosed, AllClosed} \<Longrightarrow>
     internal_step c (c\<lparr>ch_cb := CbGot None, ch_done := ch_done c @ [True]\<rparr>)"
| cb_forward: "ch_cb c = CbGot v \<Longrightarrow> internal_step c (c\<lparr>ch_wbuf := v, ch_cb := CbSent\<rparr>)"
| cb_close: "ch_cb c = CbSent \<Longrightarrow> internal_step c (c\<lparr>ch_cb := CbClosed\<rparr>)"

subsection \<open>The handler behind the circuit breaker\<close>

text \<open>
  A receive on the closed delta channel blocks on the error channel before the handler goes
  on, so the two receives are one step.
\<close>

inductive direct_step :: "chan_state \<Rightarrow> select_event option \<Rightarrow> chan_state \<Rightarrow> bool" where
  internal: "internal_step c c' \<Longrightarrow> direct_step c None c'"
| delta: "\<not> ch_stopped c \<Longrightarrow> ch_phase c = Sending \<Longrightarrow> ch_todo c = d # ds \<Longrightarrow>
     direct_step c (Some (SelDelta d)) (c\<lparr>ch_todo := ds\<rparr>)"
| err_value: "\<not> ch_stopped c \<Longrightarrow> ch_wbuf c = Some e \<Longrightarrow>
     direct_step c (Some (SelErr (Some e))) (c\<lparr>ch_wbuf := None, ch_stopped := True\<rparr>)"
| err_closed: "\<not> ch_stopped c \<Longrightarrow> ch_wbuf c = None \<Longrightarrow> ch_cb c = CbClosed \<Longrightarrow>
     direct_step c (Some (SelErr None)) (c\<lparr>ch_stopped := True\<rparr>)"
| delta_closed: "\<not> ch_stopped c \<Longrightarrow> ch_phase c = AllClosed \<Longrightarrow> ch_wbuf c = v \<Longrightarrow>
     v \<noteq> None \<or> ch_cb c = CbClosed \<Longrightarrow>
     direct_step c (Some (SelDeltaClosed v)) (c\<lparr>ch_wbuf := None, ch_stopped := True\<rparr>)"

inductive direct_trace :: "chan_state \<Rightarrow> select_event list \<Rightarrow> chan_state \<Rightarrow> bool" where
  nil: "direct_trace c [] c"
| silent: "direct_trace c ls c' \<Longrightarrow> direct_step c' None c'' \<Longrightarrow> direct_trace c ls c''"
| visible: "direct_trace c ls c' \<Longrightarrow> direct_step c' (Some l) c'' \<Longrightarrow> direct_trace c (ls @ [l]) c''"

inductive_cases internal_stepE: "internal_step c c'"
inductive_cases direct_stepE: "direct_step c l c'"

text \<open>
  What holds in every reachable state: the error is, until the handler stops, in exactly the
  place its forwarder's phase says, and the breaker has been told once the forwarder received.
\<close>

definition direct_inv :: "provider_stream_delta list \<Rightarrow> go_error option \<Rightarrow> select_event list \<Rightarrow> chan_state \<Rightarrow> bool" where
  "direct_inv ds err ls c \<longleftrightarrow>
     ch_err c = err \<and>
     (ch_phase c \<noteq> Sending \<longrightarrow> ch_todo c = []) \<and>
     (ch_cb c = CbWaiting \<longrightarrow> ch_wbuf c = None \<and> ch_done c = [] \<and>
        ch_buf c = (if ch_phase c = Sending then None else err)) \<and>
     (\<forall>v. ch_cb c = CbGot v \<longrightarrow> v = err \<and> ch_wbuf c = None) \<and>
     (ch_cb c = CbSent \<or> ch_cb c = CbClosed \<longrightarrow> \<not> ch_stopped c \<longrightarrow> ch_wbuf c = err) \<and>
     (ch_cb c \<noteq> CbWaiting \<longrightarrow> ch_phase c \<noteq> Sending \<and> ch_done c = [err = None]) \<and>
     (if ch_stopped c
      then ch_cb c \<noteq> CbWaiting \<and> ch_todo c = [] \<and> (ls = map SelDelta ds @ [SelErr err] \<or> ls = map SelDelta ds @ [SelDeltaClosed err])
      else map SelDelta ds = ls @ map SelDelta (ch_todo c))"

lemma direct_inv_internal:
  assumes "direct_inv ds err ls c" and "internal_step c c'"
  shows "direct_inv ds err ls c'"
  using assms(2,1) by cases (auto simp: direct_inv_def split: if_splits, metis+)

lemma direct_inv_init: "direct_inv ds err [] (chan_init ds err)"
  by (simp add: direct_inv_def chan_init_def)

lemma direct_inv_visible:
  assumes "direct_inv ds err ls c" and "direct_step c (Some l) c'"
  shows "direct_inv ds err (ls @ [l]) c'"
  using assms(2)
proof cases
  case (delta d ds')
  with assms(1) show ?thesis by (auto simp: direct_inv_def)
next
  case (err_value e)
  then show ?thesis using assms(1) by (cases "ch_cb c") (auto simp: direct_inv_def)
next
  case err_closed
  then show ?thesis using assms(1) by (auto simp: direct_inv_def)
next
  case (delta_closed v)
  then show ?thesis using assms(1) by (cases "ch_cb c") (auto simp: direct_inv_def)
qed

lemma direct_trace_inv:
  "direct_trace c ls c' \<Longrightarrow> direct_inv ds err [] c \<Longrightarrow> direct_inv ds err ls c'"
proof (induction rule: direct_trace.induct)
  case (silent c ls c' c'')
  from silent.hyps(2) have "internal_step c' c''" by cases
  with silent show ?case using direct_inv_internal by blast
next
  case (visible c ls c' l c'')
  then show ?case using direct_inv_visible by blast
qed

lemma loop_append_terminal:
  "stream_loop uuid req (map SelDelta ds @ [SelErr err]) st
     = stream_loop uuid req (map SelDelta ds @ [SelDeltaClosed err]) st"
  by (induction ds arbitrary: st) (auto split: prod.splits option.splits)

lemma direct_progress:
  assumes "direct_inv ds err ls c" and "\<not> ch_stopped c"
  shows "\<exists>l c'. direct_step c l c'"
proof (cases "ch_phase c")
  case Sending
  with assms show ?thesis
    by (cases "ch_todo c") (blast intro: direct_step.intros internal_step.intros)+
next
  case Reported
  then show ?thesis by (blast intro: direct_step.intros internal_step.intros)
next
  case ErrClosed
  then show ?thesis by (blast intro: direct_step.intros internal_step.intros)
next
  case AllClosed
  show ?thesis
  proof (cases "ch_cb c")
    case CbWaiting
    with AllClosed show ?thesis
      by (cases "ch_buf c") (blast intro: direct_step.intros internal_step.intros)+
  next
    case CbClosed
    with AllClosed assms(2) show ?thesis by (blast intro: direct_step.delta_closed)
  qed (blast intro: direct_step.intros internal_step.intros)+
qed

lemma direct_runs_equal:
  assumes "direct_trace (chan_init ds err) ls c" and "ch_stopped c"
  shows "run_stream s uuid t0 t1 req pn n ls
     = run_stream s uuid t0 t1 req pn n (map SelDelta ds @ [SelDeltaClosed err])"
proof -
  have "direct_inv ds err ls c" by (rule direct_trace_inv [OF assms(1) direct_inv_init])
  with assms(2) have "ls = map SelDelta ds @ [SelErr err] \<or> ls = map SelDelta ds @ [SelDeltaClosed err]"
    by (simp add: direct_inv_def)
  then show ?thesis by (auto simp: run_stream_def loop_append_terminal)
qed

text \<open>C13: Without observability the race between the delta channel and the error channel is
  harmless. Whatever the interleaving of the provider, the breaker's forwarder and the handler,
  until the handler has seen the end some step is possible, and once it has, the client and the
  stored state are those of the one schedule "all deltas, then the provider's error": no delta
  and no error is lost or reordered, and the breaker was told the outcome exactly once.\<close>
theorem direct_schedule_irrelevant:
  assumes "direct_trace (chan_init ds err) ls c"
  shows "if ch_stopped c
     then run_stream s uuid t0 t1 req pn n ls
            = run_stream s uuid t0 t1 req pn n (map SelDelta ds @ [SelDeltaClosed err]) \<and>
          ch_done c = [err = None]
     else (\<exists>l c'. direct_step c l c')"
proof -
  have inv: "direct_inv ds err ls c" by (rule direct_trace_inv [OF assms direct_inv_init])
  show ?thesis
  proof (cases "ch_stopped c")
    case True
    with inv direct_runs_equal [OF assms True] show ?thesis by (simp add: direct_inv_def)
  next
    case False
    with direct_progress [OF inv] show ?thesis by simp
  qed
qed

text \<open>A run in which the error overtakes the close of the delta channel.\<close>

definition sample_error_trace_end :: chan_state where
  "sample_error_trace_end = \<lparr>ch_todo = [], ch_err = Some (ErrOther ''x''), ch_phase = Reported,
     ch_buf = None, ch_cb = CbSent, ch_wbuf = None, ch_done = [False], ch_stopped = True\<rparr>"

lemma sample_error_trace:
  "direct_trace (chan_init [zero_delta] (Some (ErrOther ''x'')))
     [SelDelta zero_delta, SelErr (Some (ErrOther ''x''))] sample_error_trace_end"
proof -
  let ?e = "Some (ErrOther ''x'')"
  let ?c0 = "chan_init [zero_delta] ?e"
  let ?c1 = "?c0\<lparr>ch_todo := []\<rparr>"
  let ?c2 = "?c1\<lparr>ch_phase := Reported, ch_buf := ?e\<rparr>"
  let ?c3 = "?c2\<lparr>ch_buf := None, ch_cb := CbGot ?e, ch_done := [False]\<rparr>"
  let ?c4 = "?c3\<lparr>ch_wbuf := ?e, ch_cb := CbSent\<rparr>"
  have 1: "direct_trace ?c0 ([] @ [SelDelta zero_delta]) ?c1"
    by (rule direct_trace.visible [OF direct_trace.nil direct_step.delta]) (simp_all add: chan_init_def)
  have "internal_step ?c1 ?c2"
    using internal_step.report [of ?c1] by (simp add: chan_init_def)
  then have 2: "direct_trace ?c0 ([] @ [SelDelta zero_delta]) ?c2"
    by (rule direct_trace.silent [OF 1 direct_step.internal])
  have "internal_step ?c2 ?c3"
    using internal_step.cb_value [of ?c2] by (simp add: chan_init_def)
  then have 3: "direct_trace ?c0 ([] @ [SelDelta zero_delta]) ?c3"
    by (rule direct_trace.silent [OF 2 direct_step.internal])
  have "internal_step ?c3 ?c4"
    using internal_step.cb_forward [of ?c3] by (simp add: chan_init_def)
  then have 4: "direct_trace ?c0 ([] @ [SelDelta zero_delta]) ?c4"
    by (rule direct_trace.silent [OF 3 direct_step.internal])
  have "direct_step ?c4 (Some (SelErr ?e)) (?c4\<lparr>ch_wbuf := None, ch_stopped := True\<rparr>)"
    by (rule direct_step.err_value) (simp_all add: chan_init_def)
  from direct_trace.visible [OF 4 this] show ?thesis
    by (simp add: sample_error_trace_end_def chan_init_def)
qed

theorem direct_schedule_irrelevant_witness:
  "fst (run_stream sample_gateway sample_uuid 0 0 sample_stream_request ''openai'' 0
      [SelDelta zero_delta, SelErr (Some (ErrOther ''x''))])
   = fst (run_stream sample_gateway sample_uuid 0 0 sample_stream_request ''openai'' 0
      (map SelDelta [zero_delta] @ [SelDeltaClosed (Some (ErrOther ''x''))]))"
  using direct_schedule_irrelevant [OF sample_error_trace, of sample_gateway sample_uuid 0 0
      sample_stream_request "''openai''" 0]
  by (simp add: sample_error_trace_end_def)

subsection \<open>The handler behind the instrumented provider\<close>

datatype instr_phase = InLoop | InErrClosed | InAllClosed

record instr_state =
  in_chan :: chan_state
  in_hold :: "provider_stream_delta option"
  in_delta_open :: bool
  in_err_open :: bool
  in_out_err :: "go_error option"
  in_phase :: instr_phase
  in_stopped :: bool

definition instr_init :: "provider_stream_delta list \<Rightarrow> go_error option \<Rightarrow> instr_state" where
  "instr_init ds err = \<lparr>in_chan = chan_init ds err, in_hold = None, in_delta_open = True,
     in_err_open = True, in_out_err = None, in_phase = InLoop, in_stopped = False\<rparr>"

text \<open>
  \<open>base_closed\<close> is the branch for the closed delta channel: its inner \<open>select\<close> takes an error
  that is there and otherwise its \<open>default\<close>, and gives up the error channel either way.
\<close>

inductive instr_step :: "instr_state \<Rightarrow> select_event option \<Rightarrow> instr_state \<Rightarrow> bool" where
  internal: "internal_step (in_chan c) ch' \<Longrightarrow> instr_step c None (c\<lparr>in_chan := ch'\<rparr>)"
| base_delta: "in_phase c = InLoop \<Longrightarrow> in_hold c = None \<Longrightarrow> in_delta_open c \<Longrightarrow>
     ch_phase (in_chan c) = Sending \<Longrightarrow> ch_todo (in_chan c) = d # ds \<Longrightarrow>
     instr_step c None (c\<lparr>in_chan := (in_chan c)\<lparr>ch_todo := ds\<rparr>, in_hold := Some d\<rparr>)"
| base_closed: "in_phase c = InLoop \<Longrightarrow> in_hold c = None \<Longrightarrow> in_delta_open c \<Longrightarrow>
     ch_phase (in_chan c) = AllClosed \<Longrightarrow>
     instr_step c None
       (if in_err_open c \<and> ch_wbuf (in_chan c) \<noteq> None
        then c\<lparr>in_delta_open := False, in_err_open := False, in_out_err := ch_wbuf (in_chan c),
               in_chan := (in_chan c)\<lparr>ch_wbuf := None\<rparr>\<rparr>
        else c\<lparr>in_delta_open := False, in_err_open := False\<rparr>)"
| base_err: "in_phase c = InLoop \<Longrightarrow> in_hold c = None \<Longrightarrow> in_err_open c \<Longrightarrow>
     ch_wbuf (in_chan c) = Some e \<Longrightarrow>
     instr_step c None (c\<lparr>in_delta_open := False, in_err_open := False, in_out_err := Some e,
                          in_chan := (in_chan c)\<lparr>ch_wbuf := None\<rparr>\<rparr>)"
| base_err_closed: "in_phase c = InLoop \<Longrightarrow> in_hold c = None \<Longrightarrow> in_err_open c \<Longrightarrow>
     ch_wbuf (in_chan c) = None \<Longrightarrow> ch_cb (in_chan c) = CbClosed \<Longrightarrow>
     instr_step c None (c\<lparr>in_err_open := False\<rparr>)"
| out_err_close: "in_phase c = InLoop \<Longrightarrow> in_hold c = None \<Longrightarrow> \<not> in_delta_open c \<Longrightarrow> \<not> in_err_open c \<Longrightarrow>
     instr_step c None (c\<lparr>in_phase := InErrClosed\<rparr>)"
| out_close: "in_phase c = InErrClosed \<Longrightarrow> instr_step c None (c\<lparr>in_phase := InAllClosed\<rparr>)"
| delta: "\<not> in_stopped c \<Longrightarrow> in_hold c = Some d \<Longrightarrow>
     instr_step c (Some (SelDelta d)) (c\<lparr>in_hold := None\<rparr>)"
| err_value: "\<not> in_stopped c \<Longrightarrow> in_out_err c = Some e \<Longrightarrow>
     instr_step c (Some (SelErr (Some e))) (c\<lparr>in_out_err := None, in_stopped := True\<rparr>)"
| err_closed: "\<not> in_stopped c \<Longrightarrow> in_out_err c = None \<Longrightarrow> in_phase c \<in> {InErrClosed, InAllClosed} \<Longrightarrow>
     instr_step c (Some (SelErr None)) (c\<lparr>in_stopped := True\<rparr>)"
| delta_closed: "\<not> in_stopped c \<Longrightarrow> in_phase c = InAllClosed \<Longrightarrow> in_out_err c = v \<Longrightarrow>
     instr_step c (Some (SelDeltaClosed v)) (c\<lparr>in_out_err := None, in_stopped := True\<rparr>)"

inductive instr_trace :: "instr_state \<Rightarrow> select_event list \<Rightarrow> instr_state \<Rightarrow> bool" where
  nil: "instr_trace c [] c"
| silent: "instr_trace c ls c' \<Longrightarrow> instr_step c' None c'' \<Longrightarrow> instr_trace c ls c''"
| visible: "instr_trace c ls c' \<Longrightarrow> instr_step c' (Some l) c'' \<Longrightarrow> instr_trace c (ls @ [l]) c''"

text \<open>All deltas pass through the goroutine, one at a time.\<close>

lemma instr_deliver:
  "instr_trace c ls c' \<Longrightarrow> in_phase c' = InLoop \<Longrightarrow> in_hold c' = None \<Longrightarrow> in_delta_open c' \<Longrightarrow>
   \<not> in_stopped c' \<Longrightarrow> ch_phase (in_chan c') = Sending \<Longrightarrow> ch_todo (in_chan c') = ds \<Longrightarrow>
   instr_trace c (ls @ map SelDelta ds) (c'\<lparr>in_chan := (in_chan c')\<lparr>ch_todo := []\<rparr>\<rparr>)"
proof (induction ds arbitrary: ls c')
  case (Cons d ds)
  let ?c1 = "c'\<lparr>in_chan := (in_chan c')\<lparr>ch_todo := ds\<rparr>, in_hold := Some d\<rparr>"
  let ?c2 = "c'\<lparr>in_chan := (in_chan c')\<lparr>ch_todo := ds\<rparr>\<rparr>"
  have "instr_trace c ls ?c1"
    by (rule instr_trace.silent [OF Cons.prems(1) instr_step.base_delta]) (use Cons.prems in auto)
  moreover have "instr_step ?c1 (Some (SelDelta d)) (?c1\<lparr>in_hold := None\<rparr>)"
    by (rule instr_step.delta) (use Cons.prems in auto)
  ultimately have "instr_trace c (ls @ [SelDelta d]) (?c1\<lparr>in_hold := None\<rparr>)"
    by (rule instr_trace.visible)
  moreover have "?c1\<lparr>in_hold := None\<rparr> = ?c2" using Cons.prems(3) by simp
  ultimately have "instr_trace c (ls @ [SelDelta d]) ?c2" by simp
  from Cons.IH [OF this] Cons.prems show ?case by simp
next
  case Nil
  obtain todo err ph buf cb wb dn st where "in_chan c' = \<lparr>ch_todo = todo, ch_err = err, ch_phase = ph,
      ch_buf = buf, ch_cb = cb, ch_wbuf = wb, ch_done = dn, ch_stopped = st\<rparr>"
    by (cases "in_chan c'") simp
  with Nil have "c'\<lparr>in_chan := (in_chan c')\<lparr>ch_todo := []\<rparr>\<rparr> = c'" by (cases c') simp
  with Nil(1) show ?case by (simp only: list.map append_Nil2)
qed

text \<open>
  The losing schedule: the provider reports and closes both channels, and the instrumented
  goroutine sees the closed delta channel before the breaker's forwarder has run.
\<close>

lemma instr_losing_trace:
  "\<exists>c. instr_trace (instr_init ds (Some e)) (map SelDelta ds @ [SelDeltaClosed None]) c \<and> in_stopped c"
proof -
  let ?ls = "map SelDelta ds"
  let ?ch1 = "(chan_init ds (Some e))\<lparr>ch_todo := []\<rparr>"
  let ?c1 = "(instr_init ds (Some e))\<lparr>in_chan := ?ch1\<rparr>"
  let ?ch2 = "?ch1\<lparr>ch_phase := Reported, ch_buf := Some e\<rparr>"
  let ?ch3 = "?ch2\<lparr>ch_phase := ErrClosed\<rparr>" and ?ch4 = "?ch2\<lparr>ch_phase := AllClosed\<rparr>"
  let ?c4 = "?c1\<lparr>in_chan := ?ch4\<rparr>"
  let ?c5 = "?c4\<lparr>in_delta_open := False, in_err_open := False\<rparr>"
  let ?c6 = "?c5\<lparr>in_phase := InErrClosed\<rparr>" and ?c7 = "?c5\<lparr>in_phase := InAllClosed\<rparr>"
  let ?c8 = "?c7\<lparr>in_out_err := None, in_stopped := True\<rparr>"
  have 1: "instr_trace (instr_init ds (Some e)) ?ls ?c1"
    using instr_deliver [OF instr_trace.nil, of "instr_init ds (Some e)" ds]
    by (simp add: instr_init_def chan_init_def)
  have "internal_step ?ch1 ?ch2" using internal_step.report [of ?ch1] by (simp add: chan_init_def)
  then have "instr_step ?c1 None (?c1\<lparr>in_chan := ?ch2\<rparr>)"
    using instr_step.internal [of ?c1 ?ch2] by simp
  then have 2: "instr_trace (instr_init ds (Some e)) ?ls (?c1\<lparr>in_chan := ?ch2\<rparr>)"
    by (rule instr_trace.silent [OF 1])
  have "internal_step ?ch2 ?ch3" using internal_step.close_err [of ?ch2] by simp
  then have "instr_step (?c1\<lparr>in_chan := ?ch2\<rparr>) None (?c1\<lparr>in_chan := ?ch3\<rparr>)"
    using instr_step.internal [of "?c1\<lparr>in_chan := ?ch2\<rparr>" ?ch3] by simp
  then have 3: "instr_trace (instr_init ds (Some e)) ?ls (?c1\<lparr>in_chan := ?ch3\<rparr>)"
    by (rule instr_trace.silent [OF 2])
  have "internal_step ?ch3 ?ch4" using internal_step.close_delta [of ?ch3] by simp
  then have "instr_step (?c1\<lparr>in_chan := ?ch3\<rparr>) None ?c4"
    using instr_step.internal [of "?c1\<lparr>in_chan := ?ch3\<rparr>" ?ch4] by simp
  then have 4: "instr_trace (instr_init ds (Some e)) ?ls ?c4" by (rule instr_trace.silent [OF 3])
  have "instr_step ?c4 None ?c5"
    using instr_step.base_closed [of ?c4] by (simp add: instr_init_def chan_init_def)
  then have 5: "instr_trace (instr_init ds (Some e)) ?ls ?c5" by (rule instr_trace.silent [OF 4])
  have "instr_step ?c5 None ?c6"
    using instr_step.out_err_close [of ?c5] by (simp add: instr_init_def)
  then have 6: "instr_trace (instr_init ds (Some e)) ?ls ?c6" by (rule instr_trace.silent [OF 5])
  have "instr_step ?c6 None ?c7" using instr_step.out_close [of ?c6] by simp
  then have 7: "instr_trace (instr_init ds (Some e)) ?ls ?c7" by (rule instr_trace.silent [OF 6])
  have "instr_step ?c7 (Some (SelDeltaClosed None)) ?c8"
    by (rule instr_step.delta_closed) (simp_all add: instr_init_def)
  from instr_trace.visible [OF 7 this] show ?thesis
    by (intro exI [of _ ?c8]) simp
qed

text \<open>With observability on, a provider error can vanish. For every stream whose deltas the
  tool policy accepts and that then fails, there is an interleaving in which the instrumented
  provider drops the error: the handler sees a cleanly closed stream and completes the
  truncated response, where without instrumentation it reports a failure.\<close>
theorem instrumented_stream_loses_error:
  assumes "\<forall>d \<in> set ds. \<not> pd_done d"
    and "validateToolCalls (Some req) (pr_tool_calls (merge_deltas req ds)) = None"
  shows "(\<exists>ls c. instr_trace (instr_init ds (Some e)) ls c \<and> in_stopped c \<and>
       fst (run_stream s uuid t0 t1 req pn n ls) = StreamCompleted) \<and>
     (\<forall>ls c. direct_trace (chan_init ds (Some e)) ls c \<longrightarrow> ch_stopped c \<longrightarrow>
       fst (run_stream s uuid t0 t1 req pn n ls) \<noteq> StreamCompleted)"
proof -
  have ex: "exit_of (map SelDelta ds @ [SelDeltaClosed v]) = Some (ExitLoop v None)" for v
    using assms(1) by (induction ds) auto
  have co: "consumed (map SelDelta ds @ [SelDeltaClosed v]) = ds" for v
    using assms(1) by (induction ds) auto
  have "fst (run_stream s uuid t0 t1 req pn n (map SelDelta ds @ [SelDeltaClosed None])) = StreamCompleted"
    using assms(2) by (simp only: stream_accepts ex co)
  then have 1: "\<exists>ls c. instr_trace (instr_init ds (Some e)) ls c \<and> in_stopped c \<and>
       fst (run_stream s uuid t0 t1 req pn n ls) = StreamCompleted"
    using instr_losing_trace [of ds e] by blast
  have "fst (run_stream s uuid t0 t1 req pn n ls) \<noteq> StreamCompleted"
    if "direct_trace (chan_init ds (Some e)) ls c" "ch_stopped c" for ls c
  proof -
    have "run_stream s uuid t0 t1 req pn n ls
        = run_stream s uuid t0 t1 req pn n (map SelDelta ds @ [SelDeltaClosed (Some e)])"
      using direct_runs_equal [OF that] .
    then show ?thesis by (simp only: stream_accepts ex co) simp
  qed
  with 1 show ?thesis by blast
qed

theorem instrumented_stream_loses_error_witness:
  "\<exists>ls c. instr_trace (instr_init [zero_delta\<lparr>pd_text := ''half''\<rparr>] (Some (ErrOther ''x''))) ls c \<and>
     in_stopped c \<and>
     fst (run_stream sample_gateway sample_uuid 0 0 sample_stream_request ''openai'' 0 ls) = StreamCompleted"
proof -
  have d: "\<forall>d \<in> set [zero_delta\<lparr>pd_text := ''half''\<rparr>]. \<not> pd_done d" by (simp add: zero_delta_def)
  have v: "validateToolCalls (Some sample_stream_request)
     (pr_tool_calls (merge_deltas sample_stream_request [zero_delta\<lparr>pd_text := ''half''\<rparr>])) = None"
    by code_simp
  from instrumented_stream_loses_error [OF d v, of "ErrOther ''x''" sample_gateway sample_uuid 0 0 "''openai''" 0]
  show ?thesis by blast
qed

end
