(* ===== verification/ChannelsProps.thy ===== *)
theory ChannelsProps
  imports Channels
begin

text \<open>
  Termination and progress of the goroutines of \<open>Channels\<close>: every step of either system makes a
  measure smaller, and a state without a step is one in which the handler has seen the end and
  every goroutine has returned.
\<close>

subsection \<open>Behind the circuit breaker\<close>

fun prov_rank :: "prov_phase \<Rightarrow> nat" where
  "prov_rank Sending = 3" | "prov_rank Reported = 2" | "prov_rank ErrClosed = 1" | "prov_rank AllClosed = 0"

fun cb_rank :: "cb_phase \<Rightarrow> nat" where
  "cb_rank CbWaiting = 3" | "cb_rank (CbGot v) = 2" | "cb_rank CbSent = 1" | "cb_rank CbClosed = 0"

definition direct_measure :: "chan_state \<Rightarrow> nat" where
  "direct_measure c = length (ch_todo c) + prov_rank (ch_phase c) + cb_rank (ch_cb c) +
     (if ch_stopped c then 0 else 1)"

definition direct_next :: "chan_state \<Rightarrow> chan_state \<Rightarrow> bool" where
  "direct_next c c' \<longleftrightarrow> (\<exists>l. direct_step c l c')"

lemma internal_decreases: "internal_step c c' \<Longrightarrow> direct_measure c' < direct_measure c"
  by (erule internal_stepE) (auto simp: direct_measure_def)

lemma direct_decreases: "direct_next c c' \<Longrightarrow> direct_measure c' < direct_measure c"
  unfolding direct_next_def
  by (erule exE, erule direct_stepE) (auto simp: direct_measure_def dest: internal_decreases)

text \<open>A relation whose steps decrease a measure cannot run longer than the measure.\<close>

lemma steps_bounded:
  assumes "\<And>a b. R a b \<Longrightarrow> (m b :: nat) < m a"
  shows "(R ^^ n) a b \<Longrightarrow> n + m b \<le> m a"
proof (induction n arbitrary: b)
  case (Suc n)
  then obtain c where "(R ^^ n) a c" "R c b" by auto
  with Suc.IH [of c] assms [of c b] show ?case by simp
qed simp

lemma direct_trace_next: "(direct_next ^^ n) c c' \<Longrightarrow> \<exists>ls. direct_trace c ls c'"
proof (induction n arbitrary: c')
  case (Suc n)
  then obtain c1 where c1: "(direct_next ^^ n) c c1" "direct_next c1 c'" by auto
  then obtain l where "direct_step c1 l c'" unfolding direct_next_def by blast
  moreover from Suc.IH [OF c1(1)] obtain ls where "direct_trace c ls c1" by blast
  ultimately show ?case by (cases l) (auto intro: direct_trace.silent direct_trace.visible)
next
  case 0
  then show ?case using direct_trace.nil by auto
qed

lemma direct_stuck:
  assumes inv: "direct_inv ds err ls c" and stuck: "\<And>c'. \<not> direct_next c c'"
  shows "ch_stopped c \<and> ch_phase c = AllClosed \<and> ch_cb c = CbClosed"
proof -
  have no: "\<not> direct_step c l c'" for l c' using stuck unfolding direct_next_def by blast
  then have ni: "\<not> internal_step c c'" for c' by (blast intro: direct_step.internal)
  have st: "ch_stopped c" using direct_progress [OF inv] no by blast
  with inv have todo: "ch_todo c = []" by (simp add: direct_inv_def)
  have ph: "ch_phase c = AllClosed"
    using ni internal_step.report [OF _ todo] internal_step.close_err internal_step.close_delta
    by (cases "ch_phase c") blast+
  have "ch_cb c = CbClosed"
  proof (cases "ch_cb c")
    case CbWaiting
    with st inv show ?thesis by (simp add: direct_inv_def)
  next
    case (CbGot v)
    with ni internal_step.cb_forward show ?thesis by blast
  next
    case CbSent
    with ni internal_step.cb_close show ?thesis by blast
  qed
  with st ph show ?thesis by simp
qed



subsection \<open>Behind the instrumented provider\<close>

fun instr_rank :: "instr_phase \<Rightarrow> nat" where
  "instr_rank InLoop = 2" | "instr_rank InErrClosed = 1" | "instr_rank InAllClosed = 0"

definition instr_measure :: "instr_state \<Rightarrow> nat" where
  "instr_measure c = direct_measure (in_chan c) + length (ch_todo (in_chan c)) +
     (if in_hold c = None then 0 else 1) + (if in_delta_open c then 1 else 0) +
     (if in_err_open c then 1 else 0) + instr_rank (in_phase c) + (if in_stopped c then 0 else 1)"

definition instr_next :: "instr_state \<Rightarrow> instr_state \<Rightarrow> bool" where
  "instr_next c c' \<longleftrightarrow> (\<exists>l. instr_step c l c')"

inductive_cases instr_stepE: "instr_step c l c'"

lemma internal_todo: "internal_step c c' \<Longrightarrow> ch_todo c' = ch_todo c"
  by (erule internal_stepE) auto

lemma instr_decreases: "instr_next c c' \<Longrightarrow> instr_measure c' < instr_measure c"
  unfolding instr_next_def
proof (erule exE, erule instr_stepE)
  fix ch' assume "internal_step (in_chan c) ch'" "c' = c\<lparr>in_chan := ch'\<rparr>"
  with internal_decreases [of "in_chan c" ch'] internal_todo [of "in_chan c" ch']
  show ?thesis by (simp add: instr_measure_def)
qed (auto simp: instr_measure_def direct_measure_def)

definition instr_inv :: "instr_state \<Rightarrow> bool" where
  "instr_inv c \<longleftrightarrow>
     (ch_phase (in_chan c) \<noteq> Sending \<longrightarrow> ch_todo (in_chan c) = []) \<and>
     (ch_phase (in_chan c) = Sending \<longrightarrow> ch_buf (in_chan c) = None \<and> ch_cb (in_chan c) = CbWaiting) \<and>
     (ch_cb (in_chan c) = CbWaiting \<longrightarrow> ch_wbuf (in_chan c) = None) \<and>
     (\<not> in_delta_open c \<longrightarrow> ch_phase (in_chan c) \<noteq> Sending \<and> in_hold c = None \<and> \<not> in_err_open c) \<and>
     (in_phase c \<noteq> InLoop \<or> in_out_err c \<noteq> None \<or> in_stopped c \<longrightarrow> \<not> in_delta_open c)"

lemma instr_inv_init: "instr_inv (instr_init ds err)"
  by (simp add: instr_inv_def instr_init_def chan_init_def)

lemma instr_inv_internal:
  assumes "instr_inv c" "internal_step (in_chan c) ch'"
  shows "instr_inv (c\<lparr>in_chan := ch'\<rparr>)"
  using assms(2,1) by cases (auto simp: instr_inv_def)

lemma instr_inv_next:
  assumes "instr_inv c" "instr_next c c'"
  shows "instr_inv c'"
proof -
  from assms(2) obtain l where "instr_step c l c'" unfolding instr_next_def by blast
  then show ?thesis
  proof cases
    case (internal ch')
    with instr_inv_internal assms(1) show ?thesis by simp
  next
    case (base_err e)
    with assms(1) show ?thesis
      by (cases "ch_phase (in_chan c)"; cases "ch_cb (in_chan c)") (auto simp: instr_inv_def)
  qed (use assms(1) in \<open>auto simp: instr_inv_def\<close>)
qed

lemma instr_run_inv: "(instr_next ^^ n) (instr_init ds err) c \<Longrightarrow> instr_inv c"
proof (induction n arbitrary: c)
  case 0
  then have "c = instr_init ds err" by simp
  then show ?case by (simp only: instr_inv_init)
next
  case (Suc n)
  then show ?case by (auto intro: instr_inv_next)
qed

lemma instr_stuck:
  assumes inv: "instr_inv c" and stuck: "\<And>c'. \<not> instr_next c c'"
  shows "in_stopped c \<and> in_phase c = InAllClosed \<and> ch_phase (in_chan c) = AllClosed \<and>
    ch_cb (in_chan c) = CbClosed"
proof -
  have no: "\<not> instr_step c l c'" for l c' using stuck unfolding instr_next_def by blast
  then have ni: "\<not> internal_step (in_chan c) ch'" for ch' by (blast intro: instr_step.internal)
  have rep: "ch_phase (in_chan c) = Sending \<Longrightarrow> ch_todo (in_chan c) \<noteq> []"
    using ni internal_step.report by blast
  have ph: "ch_phase (in_chan c) = Sending \<or> ch_phase (in_chan c) = AllClosed"
    using ni internal_step.close_err internal_step.close_delta by (cases "ch_phase (in_chan c)") blast+
  have hold: "\<not> in_stopped c \<Longrightarrow> in_hold c = None" using no instr_step.delta by (cases "in_hold c") blast+
  have st: "in_stopped c"
  proof (rule ccontr)
    assume ns: "\<not> in_stopped c"
    note h = hold [OF ns]
    show False
    proof (cases "in_phase c")
      case InLoop
      show False
      proof (cases "in_delta_open c")
        case True
        from ph show False
        proof
          assume "ch_phase (in_chan c) = Sending"
          moreover from rep [OF this] obtain d ds where "ch_todo (in_chan c) = d # ds"
            by (cases "ch_todo (in_chan c)") auto
          ultimately show False using no instr_step.base_delta [OF InLoop h True] by blast
        next
          assume "ch_phase (in_chan c) = AllClosed"
          then show False using no instr_step.base_closed [OF InLoop h True] by blast
        qed
      next
        case False
        with inv have "\<not> in_err_open c" by (simp add: instr_inv_def)
        then show False using no instr_step.out_err_close [OF InLoop h False] by blast
      qed
    next
      case InErrClosed
      then show False using no instr_step.out_close by blast
    next
      case InAllClosed
      then show False using no instr_step.delta_closed [OF ns] by blast
    qed
  qed
  with inv have d: "\<not> in_delta_open c" "in_hold c = None" "\<not> in_err_open c"
    "ch_phase (in_chan c) \<noteq> Sending" by (simp_all add: instr_inv_def)
  have ip: "in_phase c = InAllClosed"
    using no instr_step.out_err_close [OF _ d(2,1,3)] instr_step.out_close by (cases "in_phase c") blast+
  have pc: "ch_phase (in_chan c) = AllClosed" using ph d(4) by simp
  have "ch_cb (in_chan c) = CbClosed"
  proof (cases "ch_cb (in_chan c)")
    case CbWaiting
    with pc ni internal_step.cb_closed [OF CbWaiting] internal_step.cb_value [OF CbWaiting] show ?thesis
      by (cases "ch_buf (in_chan c)") blast+
  next
    case (CbGot v)
    with ni internal_step.cb_forward show ?thesis by blast
  next
    case CbSent
    with ni internal_step.cb_close show ?thesis by blast
  qed
  with st ip pc show ?thesis by simp
qed

text \<open>With observability on, too, every stream comes to its end while the client stays. A run with
  the instrumented provider in between has at most twice as many steps as there are deltas, plus
  twelve, and a state without a step is one in which the handler has seen the end and the
  provider's, the forwarder's and the instrumentation's goroutines have all returned.\<close>
theorem instr_always_finishes:
  assumes "(instr_next ^^ n) (instr_init ds err) c"
  shows "n \<le> 2 * length ds + 12 \<and>
    ((\<exists>c'. instr_next c c') \<or>
     in_stopped c \<and> in_phase c = InAllClosed \<and> ch_phase (in_chan c) = AllClosed \<and>
       ch_cb (in_chan c) = CbClosed)"
proof -
  have "n + instr_measure c \<le> instr_measure (instr_init ds err)"
    by (rule steps_bounded [OF instr_decreases assms])
  moreover have "instr_measure (instr_init ds err) = 2 * length ds + 12"
    by (simp add: instr_measure_def direct_measure_def instr_init_def chan_init_def)
  ultimately show ?thesis using instr_stuck [OF instr_run_inv [OF assms]] by (metis add_leD1)
qed

theorem instr_always_finishes_witness:
  "(\<exists>c'. instr_next ((instr_init [zero_delta] None)
      \<lparr>in_chan := (chan_init [zero_delta] None)\<lparr>ch_todo := []\<rparr>, in_hold := Some zero_delta\<rparr>) c')"
proof -
  let ?c = "instr_init [zero_delta] None"
  let ?c1 = "?c\<lparr>in_chan := (chan_init [zero_delta] None)\<lparr>ch_todo := []\<rparr>, in_hold := Some zero_delta\<rparr>"
  have "instr_step ?c None (?c\<lparr>in_chan := (in_chan ?c)\<lparr>ch_todo := []\<rparr>, in_hold := Some zero_delta\<rparr>)"
    by (rule instr_step.base_delta) (simp_all add: instr_init_def chan_init_def)
  then have "instr_next ?c ?c1"
    unfolding instr_next_def by (intro exI [of _ None]) (simp add: instr_init_def)
  then have "(instr_next ^^ Suc 0) ?c ?c1" by (simp add: relcompp_apply)
  from instr_always_finishes [OF this] show ?thesis by (simp add: instr_init_def)
qed

end
