(* ===== verification/RateLimit.thy ===== *)
theory RateLimit
  imports Http
begin

text \<open>
  \<open>internal/ratelimit\<close>: identities (\<open>identity.go\<close>), the Redis backend with its Lua scripts
  (\<open>backend.go\<close>) and the middleware (\<open>ratelimit.go\<close>).

  Redis is a keyspace of token buckets (hashes) and counters; a command that fails leaves an
  error. Numbers of the scripts are exact rationals. Time is in microseconds.
\<close>

subsection \<open>Identity\<close>

record identity =
  id_tenant :: string
  id_subject :: string
  id_ip :: string

definition Key :: "identity \<Rightarrow> string" where
  "Key i =
     (if id_subject i \<noteq> [] then
        (if id_tenant i \<noteq> [] \<and> id_tenant i \<noteq> id_subject i
         then id_tenant i @ '':'' @ id_subject i
         else id_subject i)
      else id_ip i)"

definition TenantKey :: "identity \<Rightarrow> string" where
  "TenantKey i =
     (if id_tenant i \<noteq> [] then id_tenant i
      else if id_subject i \<noteq> [] then id_subject i else id_ip i)"

record rl_request =
  rr_principal :: "principal option"
  rr_remote_addr :: string
  rr_forwarded_for :: string
  rr_real_ip :: string

text \<open>\<open>net.SplitHostPort\<close>: the host, or \<open>None\<close> on an error.\<close>

definition split_host_port :: "string \<Rightarrow> string option" where
  "split_host_port s =
     (if CHR '':'' \<notin> set s then None
      else
        (let i = length s - length (takeWhile (\<lambda>c. c \<noteq> CHR '':'') (rev s)) - 1 in
         if s \<noteq> [] \<and> hd s = CHR ''['' then
           (let e = length (takeWhile (\<lambda>c. c \<noteq> CHR '']'') s) in
            if CHR '']'' \<notin> set s \<or> e + 1 \<noteq> i then None
            else if CHR ''['' \<in> set (drop 1 s) \<or> CHR '']'' \<in> set (drop (e + 1) s) then None
            else Some (take (e - 1) (drop 1 s)))
         else if CHR '':'' \<in> set (take i s) then None
         else if CHR ''['' \<in> set s \<or> CHR '']'' \<in> set s then None
         else Some (take i s)))"

definition extractIP :: "string \<Rightarrow> string" where
  "extractIP addr = (case split_host_port addr of Some h \<Rightarrow> h | None \<Rightarrow> addr)"

text \<open>
  \<open>trusted\<close> is \<open>net.ParseIP\<close> followed by the membership test in the trusted networks: \<open>None\<close>
  if the text is no address; \<open>has_cidrs\<close> says whether any network is configured.
\<close>

definition getClientIP :: "bool \<Rightarrow> (string \<Rightarrow> bool option) \<Rightarrow> rl_request \<Rightarrow> string" where
  "getClientIP has_cidrs trusted r =
     (let remoteIP = extractIP (rr_remote_addr r) in
      if \<not> has_cidrs then remoteIP
      else if trusted remoteIP \<noteq> Some True then remoteIP
      else
        (let fwd = (if rr_forwarded_for r \<noteq> []
                    then trim_space (hd (split_on CHR '','' (rr_forwarded_for r))) else []) in
         if fwd \<noteq> [] then fwd
         else if rr_real_ip r \<noteq> [] then trim_space (rr_real_ip r)
         else remoteIP))"

definition extractIdentity :: "bool \<Rightarrow> (string \<Rightarrow> bool option) \<Rightarrow> rl_request \<Rightarrow> identity" where
  "extractIdentity has_cidrs trusted r =
     (let ip = getClientIP has_cidrs trusted r in
      case rr_principal r of
        None \<Rightarrow> \<lparr>id_tenant = [], id_subject = [], id_ip = ip\<rparr>
      | Some p \<Rightarrow>
          \<lparr>id_tenant = (if p_tenant_id p = [] then p_subject p else p_tenant_id p),
           id_subject = p_subject p, id_ip = ip\<rparr>)"

subsection \<open>The backend interface\<close>

record 'b rl_backend =
  rb_allow :: "'b \<Rightarrow> int \<Rightarrow> string \<Rightarrow> rat \<Rightarrow> int \<Rightarrow> (string + bool) \<times> 'b"
  rb_acquire :: "'b \<Rightarrow> string \<Rightarrow> int \<Rightarrow> (string + bool) \<times> 'b"
  rb_release :: "'b \<Rightarrow> string \<Rightarrow> string option \<times> 'b"
  rb_check :: "'b \<Rightarrow> string \<Rightarrow> int \<Rightarrow> string + (int \<times> bool)"
  rb_record :: "'b \<Rightarrow> string \<Rightarrow> int \<Rightarrow> string option \<times> 'b"

subsection \<open>Redis\<close>

record redis =
  rd_up :: bool
  rd_buckets :: "string \<Rightarrow> (rat \<times> int) option"
  rd_counters :: "string \<Rightarrow> int option"

text \<open>The token bucket script: the bucket afterwards and whether a token was taken.\<close>

definition token_bucket :: "rat \<Rightarrow> rat \<Rightarrow> int \<Rightarrow> (rat \<times> int) option \<Rightarrow> bool \<times> (rat \<times> int)" where
  "token_bucket rate capacity now data =
     (let (tokens, last_refill) = (case data of None \<Rightarrow> (capacity, now) | Some d \<Rightarrow> d);
          elapsed = of_int (now - last_refill) / 1000000;
          new_tokens = min capacity (tokens + elapsed * rate)
      in if 1 \<le> new_tokens then (True, (new_tokens - 1, now)) else (False, (new_tokens, now)))"

text \<open>Milliseconds after which the script lets an untouched bucket expire.\<close>

definition bucket_expiry :: "rat \<Rightarrow> rat \<Rightarrow> int" where
  "bucket_expiry rate capacity = \<lceil>capacity / rate * 1000\<rceil> + 5000"

definition AllowRequest :: "redis \<Rightarrow> int \<Rightarrow> string \<Rightarrow> rat \<Rightarrow> int \<Rightarrow> (string + bool) \<times> redis" where
  "AllowRequest b now key rate burst =
     (if \<not> rd_up b then (Inl ''token bucket script'', b)
      else
        (let (ok, bucket) = token_bucket rate (of_int burst) now (rd_buckets b key)
         in (Inr ok, b\<lparr>rd_buckets := (rd_buckets b)(key \<mapsto> bucket)\<rparr>)))"

definition counter :: "redis \<Rightarrow> string \<Rightarrow> int" where
  "counter b key = (case rd_counters b key of Some n \<Rightarrow> n | None \<Rightarrow> 0)"

definition set_counter :: "string \<Rightarrow> int \<Rightarrow> redis \<Rightarrow> redis" where
  "set_counter key n b = b\<lparr>rd_counters := (rd_counters b)(key \<mapsto> n)\<rparr>"

definition AcquireConcurrent :: "redis \<Rightarrow> string \<Rightarrow> int \<Rightarrow> (string + bool) \<times> redis" where
  "AcquireConcurrent b key mx =
     (if \<not> rd_up b then (Inl ''acquire concurrent script'', b)
      else if mx \<le> counter b key then (Inr False, b)
      else (Inr True, set_counter key (counter b key + 1) b))"

text \<open>
  The pipeline of \<open>DECR\<close> and \<open>WATCH\<close> succeeds on a reachable server: outside of \<open>MULTI\<close>, \<open>WATCH\<close>
  is an ordinary command. The fallback branch runs when the server answered neither; it then
  fails as well, unless the server is back, which \<open>back\<close> says.
\<close>

definition ReleaseConcurrent :: "bool \<Rightarrow> redis \<Rightarrow> string \<Rightarrow> string option \<times> redis" where
  "ReleaseConcurrent back b key =
     (if rd_up b then (None, set_counter key (counter b key - 1) b)
      else if back then
        (let val = counter b key - 1
         in (None, set_counter key (if val < 0 then 0 else val) b))
      else (Some ''release concurrent'', b))"

definition CheckQuota :: "redis \<Rightarrow> string \<Rightarrow> int \<Rightarrow> string + (int \<times> bool)" where
  "CheckQuota b key limit =
     (if \<not> rd_up b then Inl ''check quota''
      else case rd_counters b key of
             None \<Rightarrow> Inr (limit, True)
           | Some used \<Rightarrow>
               (let remaining = wrap64 (limit - used)
                in if remaining \<le> 0 then Inr (0, False) else Inr (remaining, True)))"

text \<open>\<open>INCRBY\<close> refuses an increment that leaves the range of \<open>int64\<close>.\<close>

definition RecordUsage :: "redis \<Rightarrow> string \<Rightarrow> int \<Rightarrow> string option \<times> redis" where
  "RecordUsage b key tokens =
     (let n = counter b key + tokens in
      if \<not> rd_up b \<or> n < min_int64 \<or> max_int64 < n then (Some ''record usage'', b)
      else (None, set_counter key n b))"

definition redis_ops :: "redis rl_backend" where
  "redis_ops = \<lparr>rb_allow = AllowRequest, rb_acquire = AcquireConcurrent,
     rb_release = ReleaseConcurrent False, rb_check = CheckQuota, rb_record = RecordUsage\<rparr>"

text \<open>The server drops a key whose time to live has passed.\<close>

definition expire_counter :: "string \<Rightarrow> redis \<Rightarrow> redis" where
  "expire_counter key b = b\<lparr>rd_counters := (rd_counters b)(key := None)\<rparr>"

subsection \<open>The middleware\<close>

record rl_config =
  rc_enabled :: bool
  rc_requests_per_second :: rat
  rc_burst :: int
  rc_max_concurrent_requests :: int
  rc_daily_token_quota :: int

definition New :: "rl_config \<Rightarrow> rl_config" where
  "New c = c\<lparr>rc_requests_per_second := (if rc_requests_per_second c = 0 then 10
                                        else rc_requests_per_second c),
             rc_burst := (if rc_burst c = 0 then 20 else rc_burst c)\<rparr>"

text \<open>
  What the middleware does before the wrapped handler: a refusal (status, error type,
  \<open>Retry-After\<close>), or admission together with the concurrency key that is held.
\<close>

datatype rl_decision = Refused nat string nat | Admitted "string option"

definition rate_key :: "identity \<Rightarrow> string" where
  "rate_key i = ''rl:rate:'' @ Key i"

definition conc_key :: "identity \<Rightarrow> string" where
  "conc_key i = ''rl:conc:'' @ TenantKey i"

definition dailyQuotaKey :: "string \<Rightarrow> string \<Rightarrow> string" where
  "dailyQuotaKey date tenant = ''rl:quota:'' @ tenant @ '':'' @ date"

definition release_held :: "'b rl_backend \<Rightarrow> string option \<Rightarrow> 'b \<Rightarrow> 'b" where
  "release_held ops held b = (case held of None \<Rightarrow> b | Some k \<Rightarrow> snd (rb_release ops b k))"

definition acquire_phase ::
  "'b rl_backend \<Rightarrow> rl_config \<Rightarrow> identity \<Rightarrow> 'b \<Rightarrow> rl_decision \<times> 'b" where
  "acquire_phase ops c i b =
     (if 0 < rc_max_concurrent_requests c then
        (case rb_acquire ops b (conc_key i) (rc_max_concurrent_requests c) of
           (Inl err, b') \<Rightarrow> (Admitted None, b')
         | (Inr False, b') \<Rightarrow> (Refused 429 ''concurrent_limit_exceeded'' 1, b')
         | (Inr True, b') \<Rightarrow> (Admitted (Some (conc_key i)), b'))
      else (Admitted None, b))"

text \<open>A refusal for the quota still runs the deferred release.\<close>

definition quota_phase ::
  "'b rl_backend \<Rightarrow> rl_config \<Rightarrow> string \<Rightarrow> identity \<Rightarrow> string option \<Rightarrow> 'b \<Rightarrow> rl_decision \<times> 'b" where
  "quota_phase ops c date i held b =
     (if 0 < rc_daily_token_quota c then
        (case rb_check ops b (dailyQuotaKey date (TenantKey i)) (rc_daily_token_quota c) of
           Inr (_, False) \<Rightarrow> (Refused 403 ''quota_exceeded'' 0, release_held ops held b)
         | _ \<Rightarrow> (Admitted held, b))
      else (Admitted held, b))"

definition rl_begin ::
  "'b rl_backend \<Rightarrow> rl_config \<Rightarrow> int \<Rightarrow> string \<Rightarrow> identity \<Rightarrow> 'b \<Rightarrow> rl_decision \<times> 'b" where
  "rl_begin ops c now date i b =
     (if \<not> rc_enabled c then (Admitted None, b)
      else case rb_allow ops b now (rate_key i) (rc_requests_per_second c) (rc_burst c) of
        (Inr False, b1) \<Rightarrow> (Refused 429 ''rate_limit_exceeded'' 1, b1)
      | (_, b1) \<Rightarrow>
          (case acquire_phase ops c i b1 of
             (Refused st ty ra, b2) \<Rightarrow> (Refused st ty ra, b2)
           | (Admitted held, b2) \<Rightarrow> quota_phase ops c date i held b2))"

text \<open>The usage recorder put into the context, called by the wrapped handler.\<close>

definition rl_record ::
  "'b rl_backend \<Rightarrow> rl_config \<Rightarrow> string \<Rightarrow> identity \<Rightarrow> int \<Rightarrow> int \<Rightarrow> 'b \<Rightarrow> 'b" where
  "rl_record ops c date i inputTokens outputTokens b =
     (if 0 < rc_daily_token_quota c
      then snd (rb_record ops b (dailyQuotaKey date (TenantKey i)) (wrap64 (inputTokens + outputTokens)))
      else b)"

subsection \<open>Requests in flight\<close>

text \<open>
  Requests overlap: a state is the backend and the keys held by the admitted requests that
  have not returned; a step admits or refuses a request, records usage, or ends one.
\<close>

inductive rl_step ::
  "'b rl_backend \<Rightarrow> rl_config \<Rightarrow> 'b \<times> string option list \<Rightarrow> 'b \<times> string option list \<Rightarrow> bool"
  for ops :: "'b rl_backend" and c :: rl_config where
  admit: "rl_begin ops c now date i b = (Admitted held, b') \<Longrightarrow> rl_step ops c (b, fs) (b', held # fs)"
| refuse: "rl_begin ops c now date i b = (Refused st ty ra, b') \<Longrightarrow> rl_step ops c (b, fs) (b', fs)"
| recorded: "rl_step ops c (b, fs) (rl_record ops c date i inp out b, fs)"
| finish: "rl_step ops c (b, fs @ held # gs) (release_held ops held b, fs @ gs)"

inductive rl_steps ::
  "'b rl_backend \<Rightarrow> rl_config \<Rightarrow> 'b \<times> string option list \<Rightarrow> 'b \<times> string option list \<Rightarrow> bool"
  for ops :: "'b rl_backend" and c :: rl_config where
  refl: "rl_steps ops c s s"
| step: "rl_steps ops c s t \<Longrightarrow> rl_step ops c t u \<Longrightarrow> rl_steps ops c s u"

inductive_cases rl_stepE: "rl_step ops c s t"

definition holders :: "string \<Rightarrow> string option list \<Rightarrow> int" where
  "holders k fs = int (length (filter (\<lambda>h. h = Some k) fs))"

lemma holders_simps [simp]:
  "holders k [] = 0" "holders k (h # fs) = (if h = Some k then 1 else 0) + holders k fs"
  "holders k (fs @ gs) = holders k fs + holders k gs"
  by (simp_all add: holders_def)

end
