(* ===== verification/RateLimitProps.thy ===== *)
theory RateLimitProps
  imports RateLimit
begin

text \<open>
  Properties of the rate limiter: the token bucket's bound on admitted requests, the balance
  of concurrency slots over every path of the middleware (through the \<open>slot_backend\<close> contract,
  interpreted on Redis), what the expiry of a counter does to it, and when the keys of two
  callers differ.
\<close>

subsection \<open>Token bucket\<close>

fun run_bucket :: "rat \<Rightarrow> rat \<Rightarrow> int list \<Rightarrow> (rat \<times> int) option \<Rightarrow> bool list \<times> (rat \<times> int) option" where
  "run_bucket rate capacity [] data = ([], data)"
| "run_bucket rate capacity (now # ts) data =
     (let (ok, d) = token_bucket rate capacity now data;
          (oks, data') = run_bucket rate capacity ts (Some d)
      in (ok # oks, data'))"

definition allowed :: "bool list \<Rightarrow> nat" where
  "allowed oks = length (filter id oks)"

lemma allowed_simps [simp]:
  "allowed [] = 0" "allowed (ok # oks) = (if ok then 1 else 0) + allowed oks"
  "allowed (xs @ ys) = allowed xs + allowed ys"
  by (simp_all add: allowed_def)

definition micros :: "int \<Rightarrow> rat" where
  "micros t = of_int t / 1000000"

text \<open>Each call lowers \<open>tokens - rate * time\<close> by at least the token it hands out.\<close>

lemma token_bucket_potential:
  assumes "token_bucket rate capacity now (Some (tok, lst)) = (ok, (tok', lst'))"
  shows "lst' = now \<and> tok' - rate * micros now + (if ok then 1 else 0) \<le> tok - rate * micros lst \<and>
     (ok \<longrightarrow> 0 \<le> tok')"
  using assms
  by (auto simp: token_bucket_def micros_def Let_def min_def field_simps split: if_splits)

lemma run_bucket_potential:
  "run_bucket rate capacity ts (Some (tok, lst)) = (oks, Some (tok', lst')) \<Longrightarrow>
   of_nat (allowed oks) + tok' - rate * micros lst' \<le> tok - rate * micros lst"
proof (induction ts arbitrary: tok lst oks)
  case (Cons now ts)
  obtain ok t1 l1 where 1: "token_bucket rate capacity now (Some (tok, lst)) = (ok, (t1, l1))"
    by (metis prod_cases3)
  obtain oks1 where 2: "run_bucket rate capacity ts (Some (t1, l1)) = (oks1, Some (tok', lst'))"
      "oks = ok # oks1"
    using Cons.prems 1 by (auto simp: Let_def split: prod.splits)
  from Cons.IH [OF 2(1)] token_bucket_potential [OF 1] 2(2) show ?case by (auto split: if_splits)
qed simp

lemma run_bucket_append:
  "run_bucket rate capacity (ts @ us) data =
     (let (oks, d) = run_bucket rate capacity ts data; (oks', d') = run_bucket rate capacity us d
      in (oks @ oks', d'))"
  by (induction ts arbitrary: data) (auto simp: Let_def split: prod.splits)

lemma run_bucket_Some: "run_bucket rate capacity ts (Some d) = (oks, d') \<Longrightarrow> \<exists>e. d' = Some e"
  by (induction ts arbitrary: d oks) (auto simp: Let_def split: prod.splits)



subsection \<open>Concurrency slots\<close>

definition is_conc_key :: "string \<Rightarrow> bool" where
  "is_conc_key k = has_prefix k ''rl:conc:''"

lemma conc_key_is [simp]: "is_conc_key (conc_key i)" "\<not> is_conc_key (dailyQuotaKey d t)"
  by (simp_all add: is_conc_key_def conc_key_def dailyQuotaKey_def has_prefix_def)

text \<open>What the middleware relies on: a working backend counts the slots of each key.\<close>

locale slot_backend =
  fixes ops :: "'b rl_backend" and ok :: "'b \<Rightarrow> bool" and slots :: "'b \<Rightarrow> string \<Rightarrow> int"
  assumes acquire: "ok b \<Longrightarrow> rb_acquire ops b k mx = (r, b') \<Longrightarrow>
       ok b' \<and> r = Inr (slots b k < mx) \<and>
       (\<forall>k'. slots b' k' = slots b k' + (if slots b k < mx \<and> k' = k then 1 else 0))"
    and release: "ok b \<Longrightarrow> rb_release ops b k = (e, b') \<Longrightarrow>
       ok b' \<and> (\<forall>k'. slots b' k' = slots b k' - (if k' = k then 1 else 0))"
    and allow: "ok b \<Longrightarrow> rb_allow ops b now k rate burst = (r, b') \<Longrightarrow> ok b' \<and> slots b' = slots b"
    and usage: "ok b \<Longrightarrow> \<not> is_conc_key k \<Longrightarrow> rb_record ops b k n = (e, b') \<Longrightarrow>
       ok b' \<and> (\<forall>k'. is_conc_key k' \<longrightarrow> slots b' k' = slots b k')"
begin

definition balanced :: "int \<Rightarrow> 'b \<times> string option list \<Rightarrow> bool" where
  "balanced mx s \<longleftrightarrow> ok (fst s) \<and>
     (\<forall>k. is_conc_key k \<longrightarrow> slots (fst s) k = holders k (snd s) \<and> (0 < mx \<longrightarrow> holders k (snd s) \<le> mx)) \<and>
     (\<forall>k. Some k \<in> set (snd s) \<longrightarrow> is_conc_key k)"

lemma acquire_balanced:
  assumes "balanced (rc_max_concurrent_requests c) (b, fs)" and "acquire_phase ops c i b = (d, b')"
  shows "case d of Refused st ty ra \<Rightarrow> balanced (rc_max_concurrent_requests c) (b', fs)
     | Admitted held \<Rightarrow> balanced (rc_max_concurrent_requests c) (b', held # fs)"
proof (cases "0 < rc_max_concurrent_requests c")
  case False
  with assms show ?thesis by (auto simp: acquire_phase_def balanced_def)
next
  case True
  obtain r b1 where a: "rb_acquire ops b (conc_key i) (rc_max_concurrent_requests c) = (r, b1)"
    by fastforce
  have ok: "ok b" using assms(1) by (simp add: balanced_def)
  note law = acquire [OF ok a]
  show ?thesis
  proof (cases "slots b (conc_key i) < rc_max_concurrent_requests c")
    case True
    then have "d = Admitted (Some (conc_key i))" "b' = b1"
      using assms(2) a law \<open>0 < rc_max_concurrent_requests c\<close> by (auto simp: acquire_phase_def)
    with assms(1) law True show ?thesis by (auto simp: balanced_def)
  next
    case False
    then have "\<exists>st ty ra. d = Refused st ty ra" "b' = b1"
      using assms(2) a law \<open>0 < rc_max_concurrent_requests c\<close> by (auto simp: acquire_phase_def)
    with assms(1) law False show ?thesis by (auto simp: balanced_def)
  qed
qed

lemma release_balanced:
  assumes "balanced mx (b, fs @ held # gs)"
  shows "balanced mx (release_held ops held b, fs @ gs)"
proof (cases held)
  case None
  with assms show ?thesis by (auto simp: balanced_def release_held_def)
next
  case (Some k)
  obtain e b' where r: "rb_release ops b k = (e, b')" by fastforce
  have "ok b" using assms by (simp add: balanced_def)
  from release [OF this r] assms Some r show ?thesis
    by (auto simp: balanced_def release_held_def split: if_splits)
qed

lemma quota_balanced:
  assumes "balanced mx (b, held # fs)" and "quota_phase ops c date i held b = (d, b')"
  shows "case d of Refused st ty ra \<Rightarrow> balanced mx (b', fs) | Admitted h \<Rightarrow> balanced mx (b', h # fs)"
  using assms release_balanced [of mx b "[]" held fs]
  by (auto simp: quota_phase_def split: if_splits sum.splits prod.splits bool.splits)

lemma begin_balanced:
  assumes "balanced (rc_max_concurrent_requests c) (b, fs)" and "rl_begin ops c now date i b = (d, b')"
  shows "case d of Refused st ty ra \<Rightarrow> balanced (rc_max_concurrent_requests c) (b', fs)
     | Admitted h \<Rightarrow> balanced (rc_max_concurrent_requests c) (b', h # fs)"
proof (cases "rc_enabled c")
  case False
  with assms show ?thesis by (auto simp: rl_begin_def balanced_def)
next
  case True
  obtain r b1 where a: "rb_allow ops b now (rate_key i) (rc_requests_per_second c) (rc_burst c) = (r, b1)"
    by fastforce
  have ok: "ok b" using assms(1) by (simp add: balanced_def)
  have b1: "balanced (rc_max_concurrent_requests c) (b1, fs)"
    using assms(1) allow [OF ok a] by (simp add: balanced_def)
  show ?thesis
  proof (cases "r = Inr False")
    case True
    with assms(2) \<open>rc_enabled c\<close> a b1 show ?thesis by (auto simp: rl_begin_def)
  next
    case False
    obtain d2 b2 where p: "acquire_phase ops c i b1 = (d2, b2)" by fastforce
    have q: "rl_begin ops c now date i b = (case d2 of Refused st ty ra \<Rightarrow> (d2, b2)
        | Admitted held \<Rightarrow> quota_phase ops c date i held b2)"
      using \<open>rc_enabled c\<close> a False p
      by (auto simp: rl_begin_def split: sum.splits bool.splits rl_decision.splits)
    note bal = acquire_balanced [OF b1 p]
    show ?thesis
    proof (cases d2)
      case (Refused st ty ra)
      with q assms(2) bal show ?thesis by auto
    next
      case (Admitted held)
      with q assms(2) have "quota_phase ops c date i held b2 = (d, b')" by simp
      moreover have "balanced (rc_max_concurrent_requests c) (b2, held # fs)"
        using bal Admitted by simp
      ultimately show ?thesis using quota_balanced by blast
    qed
  qed
qed

lemma step_balanced:
  assumes "rl_step ops c s t" and "balanced (rc_max_concurrent_requests c) s"
  shows "balanced (rc_max_concurrent_requests c) t"
  using assms(1)
proof cases
  case (admit now date i b held b' fs)
  with begin_balanced [of c b fs now date i "Admitted held" b'] assms(2) show ?thesis by simp
next
  case (refuse now date i b st ty ra b' fs)
  with begin_balanced [of c b fs now date i "Refused st ty ra" b'] assms(2) show ?thesis by simp
next
  case (recorded b fs date i inp out)
  obtain e b' where r: "rb_record ops b (dailyQuotaKey date (TenantKey i)) (wrap64 (inp + out)) = (e, b')"
    by fastforce
  have "ok b" using assms(2) recorded by (simp add: balanced_def)
  from usage [OF this _ r] assms(2) recorded r show ?thesis
    by (auto simp: balanced_def rl_record_def)
next
  case (finish b fs held gs)
  with release_balanced assms(2) show ?thesis by auto
qed

lemma steps_balanced:
  "rl_steps ops c s t \<Longrightarrow> balanced (rc_max_concurrent_requests c) s \<Longrightarrow>
   balanced (rc_max_concurrent_requests c) t"
  by (induction rule: rl_steps.induct) (auto intro: step_balanced)

end

interpretation redis_slots: slot_backend redis_ops rd_up counter
proof (unfold_locales, goal_cases)
  case (1 b k mx r b')
  then show ?case
    by (auto simp: redis_ops_def AcquireConcurrent_def set_counter_def counter_def split: if_splits)
next
  case (2 b k e b')
  then show ?case by (auto simp: redis_ops_def ReleaseConcurrent_def set_counter_def counter_def)
next
  case (3 b now k rate burst r b')
  then show ?case
    by (auto simp: redis_ops_def AllowRequest_def counter_def fun_eq_iff split: prod.splits)
next
  case (4 b k n e b')
  then show ?case
    by (auto simp: redis_ops_def RecordUsage_def set_counter_def counter_def Let_def split: if_splits)
qed

text \<open>C7: The concurrency limit holds and slots do not leak. As long as Redis answers and no
  counter expires, over any interleaving of admissions, refusals and completions the counter of
  a tenant equals the number of its requests in flight that hold a slot, so that number never
  exceeds the configured maximum; a request refused for its quota gives its slot back.\<close>
theorem concurrency_limit_holds:
  assumes "rl_steps redis_ops c (b0, []) (b, inflight)" and "rd_up b0" and "\<forall>k. counter b0 k = 0"
    and "0 < rc_max_concurrent_requests c" and "is_conc_key k"
  shows "counter b k = holders k inflight \<and> holders k inflight \<le> rc_max_concurrent_requests c"
proof -
  have "redis_slots.balanced (rc_max_concurrent_requests c) (b0, [])"
    using assms(2-4) by (simp add: redis_slots.balanced_def)
  from redis_slots.steps_balanced [OF assms(1) this] assms(4,5) show ?thesis
    by (simp add: redis_slots.balanced_def)
qed

definition sample_redis :: redis where
  "sample_redis = \<lparr>rd_up = True, rd_buckets = Map.empty, rd_counters = Map.empty\<rparr>"

definition sample_rl_config :: rl_config where
  "sample_rl_config = \<lparr>rc_enabled = True, rc_requests_per_second = 10, rc_burst = 20,
     rc_max_concurrent_requests = 1, rc_daily_token_quota = 0\<rparr>"

definition sample_identity :: identity where
  "sample_identity = \<lparr>id_tenant = ''t'', id_subject = ''u'', id_ip = ''1.2.3.4''\<rparr>"

lemma sample_admit:
  "rl_begin redis_ops sample_rl_config 0 ''2024-01-01'' sample_identity sample_redis =
     (Admitted (Some ''rl:conc:t''),
      set_counter ''rl:conc:t'' 1 (sample_redis\<lparr>rd_buckets := [''rl:rate:t:u'' \<mapsto> (19, 0)]\<rparr>))"
  by (simp add: rl_begin_def sample_rl_config_def redis_ops_def AllowRequest_def sample_redis_def
      token_bucket_def Let_def rate_key_def Key_def sample_identity_def acquire_phase_def
      AcquireConcurrent_def counter_def conc_key_def TenantKey_def set_counter_def quota_phase_def
      split: prod.splits)

lemma sample_flight:
  "rl_steps redis_ops sample_rl_config (sample_redis, [])
     (set_counter ''rl:conc:t'' 1 (sample_redis\<lparr>rd_buckets := [''rl:rate:t:u'' \<mapsto> (19, 0)]\<rparr>),
      [Some ''rl:conc:t''])"
  by (rule rl_steps.step [OF rl_steps.refl rl_step.admit [OF sample_admit]])

theorem concurrency_limit_holds_witness:
  "holders ''rl:conc:t'' [Some ''rl:conc:t''] \<le> rc_max_concurrent_requests sample_rl_config"
proof -
  have up: "rd_up sample_redis" "\<forall>k. counter sample_redis k = 0"
    by (simp_all add: sample_redis_def counter_def)
  have m: "0 < rc_max_concurrent_requests sample_rl_config" by (simp add: sample_rl_config_def)
  have k: "is_conc_key ''rl:conc:t''" by (simp add: is_conc_key_def has_prefix_def)
  from concurrency_limit_holds [OF sample_flight up m k] show ?thesis by simp
qed

text \<open>The safety expiry undermines the limit. If the counter of a tenant expires
  while \<open>n\<close> of its requests are in flight and no new one comes before they finish, their releases
  leave the counter at \<open>- n\<close>, in a key without expiry, and then \<open>n\<close> more requests than the
  maximum are let in at the same time; the correction announced in \<open>ReleaseConcurrent\<close> is not
  reached while the server answers.\<close>
theorem expiry_overadmits:
  assumes "rd_up b" and "0 \<le> mx"
  shows "let release_all = (\<lambda>n b. (((\<lambda>b. snd (ReleaseConcurrent False b k)) ^^ n) b));
         acquire_all = (\<lambda>n b. (((\<lambda>b. snd (AcquireConcurrent b k mx)) ^^ n) b));
         b1 = release_all n (expire_counter k b)
     in counter b1 k = - int n \<and>
        (\<forall>j < n + nat mx. fst (AcquireConcurrent (acquire_all j b1) k mx) = Inr True)"
proof -
  let ?rel = "\<lambda>b. snd (ReleaseConcurrent False b k)"
  let ?acq = "\<lambda>b. snd (AcquireConcurrent b k mx)"
  have rel: "rd_up ((?rel ^^ m) b') \<and> counter ((?rel ^^ m) b') k = counter b' k - int m"
    if "rd_up b'" for m b'
    using that by (induction m) (auto simp: ReleaseConcurrent_def set_counter_def counter_def)
  have up: "rd_up (expire_counter k b)" and zero: "counter (expire_counter k b) k = 0"
    using assms(1) by (simp_all add: expire_counter_def counter_def)
  let ?b1 = "(?rel ^^ n) (expire_counter k b)"
  have b1: "rd_up ?b1" "counter ?b1 k = - int n" using rel [OF up] zero by simp_all
  have acq: "rd_up ((?acq ^^ j) ?b1) \<and> counter ((?acq ^^ j) ?b1) k = int j - int n"
    if "j \<le> n + nat mx" for j
    using that
  proof (induction j)
    case (Suc j)
    then have "int j - int n < mx" using assms(2) by linarith
    with Suc show ?case by (simp add: AcquireConcurrent_def set_counter_def counter_def)
  qed (use b1 in simp)
  have "fst (AcquireConcurrent ((?acq ^^ j) ?b1) k mx) = Inr True" if "j < n + nat mx" for j
  proof -
    from that assms(2) have "int j - int n < mx" by linarith
    with acq [of j] that show ?thesis by (simp add: AcquireConcurrent_def)
  qed
  with b1 show ?thesis by (simp add: Let_def)
qed

theorem expiry_overadmits_witness:
  "counter (snd (ReleaseConcurrent False (expire_counter ''rl:conc:t'' sample_redis) ''rl:conc:t'')) ''rl:conc:t'' = - 1"
  using expiry_overadmits [where b = sample_redis and mx = 1 and n = 1 and k = "''rl:conc:t''"]
  by (simp add: sample_redis_def Let_def)

subsection \<open>Keys\<close>

text \<open>Callers share a rate bucket only if their identifiers contain the separator. For
  authenticated callers whose tenants and subjects have no colon, equal rate limit keys mean the
  same subject and the same tenant; a colon breaks this, as the example of the witness shows, and
  the issuer is never part of the key.\<close>
theorem rate_keys_distinct:
  assumes "rr_principal r1 = Some p1" and "rr_principal r2 = Some p2"
    and "CHR '':'' \<notin> set (p_tenant_id p1) \<union> set (p_subject p1) \<union> set (p_tenant_id p2) \<union> set (p_subject p2)"
    and "p_subject p1 \<noteq> []" and "p_subject p2 \<noteq> []"
    and "Key (extractIdentity h t r1) = Key (extractIdentity h t r2)"
  shows "p_subject p1 = p_subject p2 \<and>
     id_tenant (extractIdentity h t r1) = id_tenant (extractIdentity h t r2)"
proof -
  have cut: "a @ CHR '':'' # s = a' @ CHR '':'' # s' \<Longrightarrow> CHR '':'' \<notin> set a \<Longrightarrow> CHR '':'' \<notin> set a' \<Longrightarrow>
      a = a' \<and> s = s'" for a a' s s' :: string
    by (simp add: append_eq_Cons_conv append_eq_append_conv2) (auto simp: Cons_eq_append_conv)
  have sep: "x \<noteq> a @ CHR '':'' # s" if "CHR '':'' \<notin> set x" for x a s :: string
    using that by auto
  show ?thesis
    using assms by (auto simp: extractIdentity_def Let_def Key_def sep sep [symmetric] dest: cut
        split: if_splits)
qed

definition sample_rl_request :: "string \<Rightarrow> string \<Rightarrow> rl_request" where
  "sample_rl_request tenant sub =
     \<lparr>rr_principal = Some \<lparr>p_issuer = ''i'', p_subject = sub, p_tenant_id = tenant, p_roles = []\<rparr>,
      rr_remote_addr = ''1.2.3.4:5'', rr_forwarded_for = [], rr_real_ip = []\<rparr>"

text \<open>The same caller from two addresses, a caller that shares a key through a colon, and the key.\<close>

theorem rate_keys_distinct_witness:
  "id_tenant (extractIdentity False (\<lambda>_. None) (sample_rl_request ''a'' ''b''))
     = id_tenant (extractIdentity False (\<lambda>_. None)
         ((sample_rl_request ''a'' ''b'')\<lparr>rr_remote_addr := ''9.9.9.9:1''\<rparr>)) \<and>
   Key (extractIdentity False (\<lambda>_. None) (sample_rl_request ''a'' ''b'')) = ''a:b'' \<and>
   Key (extractIdentity False (\<lambda>_. None) (sample_rl_request [] ''a:b'')) = ''a:b''"
proof -
  let ?r1 = "sample_rl_request ''a'' ''b''"
  let ?r2 = "?r1\<lparr>rr_remote_addr := ''9.9.9.9:1''\<rparr>"
  let ?p = "\<lparr>p_issuer = ''i'', p_subject = ''b'', p_tenant_id = ''a'', p_roles = []\<rparr>"
  have p: "rr_principal ?r1 = Some ?p" "rr_principal ?r2 = Some ?p"
    by (simp_all add: sample_rl_request_def)
  have k: "Key (extractIdentity False (\<lambda>_. None) ?r1) = Key (extractIdentity False (\<lambda>_. None) ?r2)"
    by (simp add: extractIdentity_def sample_rl_request_def Key_def Let_def)
  have "id_tenant (extractIdentity False (\<lambda>_. None) ?r1) = id_tenant (extractIdentity False (\<lambda>_. None) ?r2)"
    using rate_keys_distinct [OF p _ _ _ k] by simp
  then show ?thesis
    by (simp add: extractIdentity_def sample_rl_request_def Key_def Let_def)
qed

end
