(* ===== verification/UsersProps.thy ===== *)
theory UsersProps
  imports Users
begin

text \<open>
  Properties of user management: the table's uniqueness invariant and what logging in may change,
  and which of the admin's changes keep an administrator in the table.
\<close>

subsection \<open>The table\<close>

definition oidc_key :: "user \<Rightarrow> string \<times> string" where
  "oidc_key u = (u_oidc_iss u, u_oidc_sub u)"

definition wf_users :: "user_store \<Rightarrow> bool" where
  "wf_users s \<longleftrightarrow> distinct (map u_id (us_rows s)) \<and> distinct (map u_email (us_rows s)) \<and>
     distinct (map oidc_key (us_rows s))"

lemma get_where_Inr:
  "get_where P s = Inr u \<longleftrightarrow> us_up s \<and> List.find P (us_rows s) = Some u"
  by (auto simp: get_where_def split: option.splits)

lemma get_where_NoRows:
  "get_where P s = Inl UserNoRows \<longleftrightarrow> us_up s \<and> (\<forall>u \<in> set (us_rows s). \<not> P u)"
  using find_None_iff [of P "us_rows s"] by (cases "List.find P (us_rows s)") (auto simp: get_where_def)

lemma find_SomeD: "List.find P xs = Some x \<Longrightarrow> x \<in> set xs \<and> P x"
  by (auto simp: find_Some_iff)

lemma find_unique:
  "\<lbrakk>x \<in> set xs; P x; \<And>y. y \<in> set xs \<Longrightarrow> P y \<Longrightarrow> y = x\<rbrakk> \<Longrightarrow> List.find P xs = Some x"
proof (induction xs)
  case (Cons a xs)
  then show ?case
  proof (cases "P a")
    case True
    then show ?thesis using Cons.prems(3) [of a] by simp
  next
    case False
    then show ?thesis using Cons by fastforce
  qed
qed simp

lemma distinct_map_eq: "\<lbrakk>distinct (map f xs); x \<in> set xs; y \<in> set xs; f x = f y\<rbrakk> \<Longrightarrow> x = y"
  by (auto simp: distinct_map inj_on_def)

lemmas users_lookup = GetByID_def GetByOIDC_def GetByEmail_def get_where_Inr

lemma GetByID_row: "GetByID s k = Inr u \<Longrightarrow> us_up s \<and> u \<in> set (us_rows s) \<and> u_id u = k"
  by (auto simp: users_lookup dest: find_SomeD)

lemma GetByID_iff:
  "wf_users s \<Longrightarrow> GetByID s k = Inr u \<longleftrightarrow> us_up s \<and> u \<in> set (us_rows s) \<and> u_id u = k"
  by (auto simp: users_lookup wf_users_def dest: find_SomeD intro!: find_unique
      intro: distinct_map_eq [of u_id])

lemma GetByOIDC_iff:
  "wf_users s \<Longrightarrow> GetByOIDC s iss sub = Inr u \<longleftrightarrow>
     us_up s \<and> u \<in> set (us_rows s) \<and> oidc_key u = (iss, sub)"
  by (auto simp: users_lookup wf_users_def oidc_key_def dest: find_SomeD intro!: find_unique
      intro: distinct_map_eq [of oidc_key])

lemma GetByEmail_iff:
  "wf_users s \<Longrightarrow> GetByEmail s email = Inr u \<longleftrightarrow>
     us_up s \<and> u \<in> set (us_rows s) \<and> u_email u = email"
  by (auto simp: users_lookup wf_users_def dest: find_SomeD intro!: find_unique
      intro: distinct_map_eq [of u_email])

lemma rows_update [simp]:
  "us_rows (update_rows k f s) = map (\<lambda>u. if u_id u = k then f u else u) (us_rows s)"
  "us_up (update_rows k f s) = us_up s"
  by (simp_all add: update_rows_def)

lemma has_user_row: "u \<in> set (us_rows s) \<Longrightarrow> has_user s (u_id u)"
  by (auto simp: has_user_def list_ex_iff)

lemma map_fixed: "(\<And>u. g (f u) = g u) \<Longrightarrow> map g (map (\<lambda>u. if P u then f u else u) us) = map g us"
  by (induction us) auto

lemma wf_update_rows:
  assumes "wf_users s" "\<And>u. u_id (f u) = u_id u" "\<And>u. oidc_key (f u) = oidc_key u"
    and "distinct (map u_email (us_rows (update_rows k f s)))"
  shows "wf_users (update_rows k f s)"
  using assms by (simp only: wf_users_def rows_update map_fixed)

text \<open>An update that succeeds writes one row and keeps the invariant.\<close>

definition written_by :: "timestamp \<Rightarrow> user \<Rightarrow> user \<Rightarrow> user" where
  "written_by now u v = v\<lparr>u_email := u_email u, u_name := u_name u, u_role := u_role u,
     u_status := u_status u, u_updated_at := now\<rparr>"

lemma written_by_sel [simp]:
  "u_id (written_by now u v) = u_id v" "oidc_key (written_by now u v) = oidc_key v"
  "u_email (written_by now u v) = u_email u" "u_role (written_by now u v) = u_role u"
  "u_status (written_by now u v) = u_status u"
  by (simp_all add: written_by_def oidc_key_def)

lemma Update_cases:
  assumes "Update s now u = (e, s')"
  shows "e \<noteq> None \<and> s' = s \<or>
     e = None \<and> us_up s \<and> has_user s (u_id u) \<and> s' = update_rows (u_id u) (written_by now u) s \<and>
     (\<forall>v \<in> set (us_rows s). u_id v \<noteq> u_id u \<longrightarrow> u_email v \<noteq> u_email u)"
proof -
  have w: "(\<lambda>v. v\<lparr>u_email := u_email u, u_name := u_name u, u_role := u_role u,
      u_status := u_status u, u_updated_at := now\<rparr>) = written_by now u"
    by (simp add: written_by_def fun_eq_iff)
  from assms show ?thesis
    unfolding Update_def w by (auto simp: list_ex_iff split: if_splits)
qed

lemma Update_wf:
  assumes "wf_users s" "Update s now u = (e, s')"
  shows "wf_users s'"
  using Update_cases [OF assms(2)]
proof
  assume "e \<noteq> None \<and> s' = s" then show ?thesis using assms(1) by simp
next
  assume u: "e = None \<and> us_up s \<and> has_user s (u_id u) \<and>
     s' = update_rows (u_id u) (written_by now u) s \<and>
     (\<forall>v \<in> set (us_rows s). u_id v \<noteq> u_id u \<longrightarrow> u_email v \<noteq> u_email u)"
  have "distinct (map u_email (map (\<lambda>v. if u_id v = u_id u then written_by now u v else v) us))"
    if "distinct (map u_email us)" "distinct (map u_id us)"
      "\<forall>v \<in> set us. u_id v \<noteq> u_id u \<longrightarrow> u_email v \<noteq> u_email u" for us
    using that by (induction us) (auto simp: image_iff split: if_splits)
  then show ?thesis using u assms(1)
    by (simp del: map_map add: wf_users_def map_fixed [of u_id] map_fixed [of oidc_key])
qed

subsection \<open>Logging in\<close>

definition new_user :: "timestamp \<Rightarrow> string \<Rightarrow> string \<Rightarrow> string \<Rightarrow> string \<Rightarrow> string \<Rightarrow> user" where
  "new_user now uuid iss sub email name =
     \<lparr>u_id = uuid, u_oidc_iss = iss, u_oidc_sub = sub, u_email = email, u_name = name,
      u_role = RoleUser, u_status = StatusActive, u_created_at = now, u_updated_at = now\<rparr>"

lemma new_user_sel [simp]:
  "u_id (new_user now uuid iss sub email name) = uuid"
  "oidc_key (new_user now uuid iss sub email name) = (iss, sub)"
  "u_email (new_user now uuid iss sub email name) = email"
  "u_role (new_user now uuid iss sub email name) = RoleUser"
  "u_status (new_user now uuid iss sub email name) = StatusActive"
  by (simp_all add: new_user_def oidc_key_def)

text \<open>The ways a lookup for a login ends.\<close>

lemma Create_cases:
  assumes "Create s now uuid \<lparr>u_id = [], u_oidc_iss = iss, u_oidc_sub = sub, u_email = email,
                 u_name = name, u_role = RoleUser, u_status = StatusActive, u_created_at = 0,
                 u_updated_at = 0\<rparr> = (r, s')"
  shows "(\<exists>e. r = Inl e) \<and> s' = s \<or>
     us_up s \<and> r = Inr (new_user now uuid iss sub email name) \<and>
     \<not> list_ex (same_identity (new_user now uuid iss sub email name)) (us_rows s) \<and>
     s' = s\<lparr>us_rows := us_rows s @ [new_user now uuid iss sub email name]\<rparr>"
  using assms by (auto simp: Create_def new_user_def Let_def split: if_splits)

definition login_outcome ::
  "user_store \<Rightarrow> timestamp \<Rightarrow> string \<Rightarrow> string \<Rightarrow> string \<Rightarrow> string \<Rightarrow> string \<Rightarrow> user \<Rightarrow> user_store \<Rightarrow> bool" where
  "login_outcome s now uuid iss sub email name u s' \<longleftrightarrow>
     GetByOIDC s iss sub = Inr u \<and> u_email u = email \<and> u_name u = name \<and> s' = s \<or>
     (\<exists>v. GetByOIDC s iss sub = Inr v \<and> Update s now (v\<lparr>u_email := email, u_name := name\<rparr>) = (None, s') \<and>
        u = v\<lparr>u_email := email, u_name := name, u_updated_at := now\<rparr>) \<or>
     GetByOIDC s iss sub = Inl UserNoRows \<and> GetByEmail s email = Inr u \<and> s' = s \<or>
     us_up s \<and> u = new_user now uuid iss sub email name \<and>
       \<not> list_ex (same_identity u) (us_rows s) \<and> s' = s\<lparr>us_rows := us_rows s @ [u]\<rparr>"

lemma GetOrCreate_cases:
  assumes "GetOrCreate s now uuid iss sub email name = (r, s')"
  shows "(\<exists>e. r = Inl e) \<and> s' = s \<or> (\<exists>u. r = Inr u \<and> login_outcome s now uuid iss sub email name u s')"
proof (cases "GetByOIDC s iss sub")
  case (Inr u)
  obtain e s1 where up: "Update s now (u\<lparr>u_email := email, u_name := name\<rparr>) = (e, s1)"
    by (metis prod.exhaust)
  show ?thesis
    using assms up Update_cases [OF up]
    by (auto simp: GetOrCreate_def login_outcome_def Inr split: if_splits option.splits)
next
  case no: (Inl e)
  show ?thesis
  proof (cases "e = UserNoRows")
    case False
    then show ?thesis using assms by (cases e) (auto simp: GetOrCreate_def no)
  next
    case e: True
    show ?thesis
    proof (cases "GetByEmail s email")
      case (Inr u)
      then have "r = Inr u \<and> s' = s" using assms by (simp add: GetOrCreate_def no e)
      then show ?thesis using no e Inr by (simp add: login_outcome_def)
    next
      case (Inl f)
      show ?thesis
      proof (cases "f = UserNoRows")
        case False
        then show ?thesis using assms by (cases f) (auto simp: GetOrCreate_def no e Inl)
      next
        case True
        then show ?thesis using assms Create_cases [of s now uuid iss sub email name r s']
          by (auto simp: GetOrCreate_def no e Inl login_outcome_def)
      qed
    qed
  qed
qed

lemma wf_append:
  "wf_users s \<Longrightarrow> \<not> list_ex (same_identity u) (us_rows s) \<Longrightarrow> wf_users (s\<lparr>us_rows := us_rows s @ [u]\<rparr>)"
  by (auto simp: wf_users_def list_ex_iff same_identity_def oidc_key_def)

text \<open>What a row keeps of the row with the same id before.\<close>

definition same_account :: "user \<Rightarrow> user \<Rightarrow> bool" where
  "same_account v v' \<longleftrightarrow> u_id v' = u_id v \<and> oidc_key v' = oidc_key v \<and> u_status v' = u_status v \<and>
     u_role v' = u_role v"

lemma same_account_refl [simp]: "same_account v v"
  by (simp add: same_account_def)

lemma GetOrCreate_accounts:
  assumes wf: "wf_users s"
    and g: "GetOrCreate s now uuid iss sub email name = (r, s')"
  shows "wf_users s' \<and> (\<forall>v \<in> set (us_rows s). \<exists>v' \<in> set (us_rows s'). same_account v v') \<and>
     (\<forall>v' \<in> set (us_rows s'). (\<exists>v \<in> set (us_rows s). same_account v v') \<or>
        v' = new_user now uuid iss sub email name) \<and>
     (\<forall>u. r = Inr u \<longrightarrow> u \<in> set (us_rows s') \<and> us_up s')"
proof -
  have upd: ?thesis if o: "GetByOIDC s iss sub = Inr v"
      and u: "Update s now (v\<lparr>u_email := email, u_name := name\<rparr>) = (None, s')"
      and r: "r = Inr (v\<lparr>u_email := email, u_name := name, u_updated_at := now\<rparr>)" for v
  proof -
    let ?w = "v\<lparr>u_email := email, u_name := name\<rparr>"
    have v: "us_up s" "v \<in> set (us_rows s)" using o by (auto simp: GetByOIDC_iff [OF wf])
    have s': "s' = update_rows (u_id v) (written_by now ?w) s" using Update_cases [OF u] by auto
    have same: "same_account x (written_by now ?w x)" if "x \<in> set (us_rows s)" "u_id x = u_id v" for x
      using that v(2) wf by (auto simp: same_account_def wf_users_def dest: distinct_map_eq [of u_id])
    have w: "written_by now ?w v = v\<lparr>u_email := email, u_name := name, u_updated_at := now\<rparr>"
      by (simp add: written_by_def)
    have rows: "set (us_rows s') = (\<lambda>x. if u_id x = u_id v then written_by now ?w x else x) ` set (us_rows s)"
      by (simp add: s')
    have "\<exists>v' \<in> set (us_rows s'). same_account x v'" if "x \<in> set (us_rows s)" for x
      using that same [OF that] by (cases "u_id x = u_id v") (force simp: rows)+
    moreover have "\<exists>x \<in> set (us_rows s). same_account x y" if y: "y \<in> set (us_rows s')" for y
    proof -
      obtain x where "x \<in> set (us_rows s)" "y = (if u_id x = u_id v then written_by now ?w x else x)"
        using y unfolding rows by blast
      then show ?thesis using same by (auto intro!: bexI [of _ x])
    qed
    moreover have "written_by now ?w v \<in> set (us_rows s')" using v(2) by (force simp: rows)
    ultimately show ?thesis
      using v(1) Update_wf [OF wf u] by (simp add: r w) (simp add: s')
  qed
  have grown: ?thesis if "wf_users s'" "us_rows s' = us_rows s @ us"
      "\<forall>v \<in> set us. v = new_user now uuid iss sub email name"
      "\<And>u. r = Inr u \<Longrightarrow> u \<in> set (us_rows s') \<and> us_up s'" for us
    using that same_account_refl by fastforce
  show ?thesis
    using GetOrCreate_cases [OF g]
  proof (elim disjE exE conjE)
    fix e assume "r = Inl e" "s' = s"
    then show ?thesis using wf by (intro grown [of "[]"]) auto
  next
    fix u assume r: "r = Inr u" and "login_outcome s now uuid iss sub email name u s'"
    then consider "s' = s" "us_up s" "u \<in> set (us_rows s)"
      | v where "GetByOIDC s iss sub = Inr v"
          "Update s now (v\<lparr>u_email := email, u_name := name\<rparr>) = (None, s')"
          "r = Inr (v\<lparr>u_email := email, u_name := name, u_updated_at := now\<rparr>)"
      | "us_up s" "u = new_user now uuid iss sub email name"
          "\<not> list_ex (same_identity u) (us_rows s)" "s' = s\<lparr>us_rows := us_rows s @ [u]\<rparr>"
      by (auto simp: login_outcome_def GetByOIDC_iff [OF wf] GetByEmail_iff [OF wf])
    then show ?thesis
    proof cases
      case 1
      then show ?thesis using wf r by (intro grown [of "[]"]) auto
    next
      case 2
      then show ?thesis by (rule upd)
    next
      case 3
      then show ?thesis using wf_append [OF wf] r by (intro grown [of "[u]"]) auto
    qed
  qed
qed

text \<open>Logging in again with the same claims finds the same account and writes nothing.\<close>

lemma login_idempotent:
  assumes wf: "wf_users s"
    and g: "GetOrCreate s now uuid iss sub email name = (Inr u, s')"
  shows "GetOrCreate s' now' uuid' iss sub email name = (Inr u, s')"
proof -
  have w': "wf_users s'" and u': "u \<in> set (us_rows s')" "us_up s'"
    using GetOrCreate_accounts [OF wf g] by auto
  have o: "login_outcome s now uuid iss sub email name u s'" using GetOrCreate_cases [OF g] by simp
  show ?thesis
  proof (cases "GetByOIDC s iss sub = Inl UserNoRows \<and> GetByEmail s email = Inr u \<and> s' = s")
    case True
    then show ?thesis by (simp add: GetOrCreate_def)
  next
    case False
    then have "oidc_key u = (iss, sub) \<and> u_email u = email \<and> u_name u = name"
      using o by (auto simp: login_outcome_def GetByOIDC_iff [OF wf] oidc_key_def new_user_def)
    moreover from this have "GetByOIDC s' iss sub = Inr u" using u' by (simp add: GetByOIDC_iff [OF w'])
    ultimately show ?thesis by (simp add: GetOrCreate_def)
  qed
qed

lemma UpdateRole_cases:
  assumes "UpdateRole s now k role = (e, s')"
  shows "e \<noteq> None \<and> s' = s \<or>
     e = None \<and> s' = update_rows k (\<lambda>v. v\<lparr>u_role := role, u_updated_at := now\<rparr>) s"
  using assms by (auto simp: UpdateRole_def split: if_splits)

definition escalated :: "string \<Rightarrow> user \<Rightarrow> user \<Rightarrow> bool" where
  "escalated adminEmail v v' \<longleftrightarrow> u_id v' = u_id v \<and> oidc_key v' = oidc_key v \<and> u_status v' = u_status v \<and>
     (u_role v' = u_role v \<or>
      u_role v' = RoleAdmin \<and> adminEmail \<noteq> [] \<and> u_email v' = adminEmail)"

lemma promote_accounts:
  assumes wf: "wf_users s" and u: "u \<in> set (us_rows s)"
    and p: "promote_admin s now adminEmail u = (u', s')"
  shows "wf_users s' \<and> map u_id (us_rows s') = map u_id (us_rows s) \<and> u_id u' = u_id u \<and>
     (\<forall>v' \<in> set (us_rows s'). \<exists>v \<in> set (us_rows s). escalated adminEmail v v') \<and>
     (\<exists>r \<in> set (us_rows s'). u_id r = u_id u' \<and> u_status r = u_status u')"
proof (cases "s' = s \<and> u' = u")
  case True
  then show ?thesis using wf u by (auto simp: escalated_def)
next
  case False
  let ?f = "\<lambda>v. v\<lparr>u_role := RoleAdmin, u_updated_at := now\<rparr>"
  have c: "adminEmail \<noteq> []" "u_email u = adminEmail" "u' = u\<lparr>u_role := RoleAdmin\<rparr>"
      "s' = update_rows (u_id u) ?f s"
    using False p UpdateRole_cases [of s now "u_id u" RoleAdmin]
    by (auto simp: promote_admin_def split: if_splits prod.splits option.splits)
  have f: "\<And>v. u_id (?f v) = u_id v" "\<And>v. oidc_key (?f v) = oidc_key v" "\<And>v. u_email (?f v) = u_email v"
    by (simp_all add: oidc_key_def)
  have m: "map g (us_rows s') = map g (us_rows s)" if "\<And>v. g (?f v) = g v" for g :: "user \<Rightarrow> 'x"
    using that by (simp only: c(4) rows_update map_fixed [of g ?f])
  have "escalated adminEmail v (if u_id v = u_id u then ?f v else v)" if "v \<in> set (us_rows s)" for v
    using that u wf c(1,2) by (auto simp: escalated_def oidc_key_def wf_users_def dest: distinct_map_eq [of u_id])
  then have "\<forall>v' \<in> set (us_rows s'). \<exists>v \<in> set (us_rows s). escalated adminEmail v v'"
    by (auto simp only: c(4) rows_update set_map)
  moreover have "?f u \<in> set (us_rows s')" using u by (force simp: c(4))
  ultimately show ?thesis
    using wf f c(3) by (auto simp: wf_users_def m intro!: bexI [of _ "?f u"])
qed


definition sample_admin :: user where
  "sample_admin = (new_user 1 ''u-1'' ''iss'' ''alice'' ''alice@x'' ''Alice'')\<lparr>u_role := RoleAdmin\<rparr>"

definition sample_admin2 :: user where
  "sample_admin2 = (new_user 2 ''u-2'' ''iss'' ''bob'' ''bob@x'' ''Bob'')\<lparr>u_role := RoleAdmin\<rparr>"

definition sample_users :: user_store where
  "sample_users = \<lparr>us_up = True, us_rows = [sample_admin]\<rparr>"


subsection \<open>Keeping an administrator\<close>

definition active_admin :: "user \<Rightarrow> bool" where
  "active_admin u \<longleftrightarrow> IsAdmin u \<and> IsActive u"

lemma checkLastAdmin_None:
  "checkLastAdmin s k = None \<longleftrightarrow>
     us_up s \<and> (\<exists>a \<in> set (us_rows s). active_admin a \<and> u_id a \<noteq> k)"
  by (auto simp: checkLastAdmin_def UList_def active_admin_def IsAdmin_def IsActive_def filter_empty_conv
      split: sum.splits)

text \<open>An update of one row keeps an active administrator that it does not touch.\<close>

lemma Update_other:
  assumes "Update s now u = (e, s')" "a \<in> set (us_rows s)" "u_id a \<noteq> u_id u"
  shows "a \<in> set (us_rows s')"
  using Update_cases [OF assms(1)] assms(2,3) by force

lemma Update_self:
  assumes "wf_users s" "Update s now u = (e, s')" "a \<in> set (us_rows s)" "u_id a = u_id u"
    and "active_admin a" "active_admin u"
  shows "\<exists>a \<in> set (us_rows s'). active_admin a"
proof (cases e)
  case None
  then have "s' = update_rows (u_id u) (written_by now u) s" using Update_cases [OF assms(2)] by auto
  then have "written_by now u a \<in> set (us_rows s')" using assms(3,4) by force
  moreover have "active_admin (written_by now u a)"
    using assms(6) by (simp add: active_admin_def IsAdmin_def IsActive_def)
  ultimately show ?thesis by blast
next
  case (Some x)
  then show ?thesis using Update_cases [OF assms(2)] assms(3,5) by auto
qed

lemma HandleDeleteUser_cases:
  "snd (HandleDeleteUser s now r k) = s \<or>
   requireAdmin s r = None \<and> getUserID r \<noteq> k \<and>
   (\<exists>u e. GetByID s k = Inr u \<and> (u_role u = RoleAdmin \<longrightarrow> checkLastAdmin s k = None) \<and>
      Update s now (u\<lparr>u_status := StatusDeleted\<rparr>) = (e, snd (HandleDeleteUser s now r k)))"
  by (auto simp: HandleDeleteUser_def split: option.splits sum.splits prod.splits)

lemma role_change_Inr:
  "role_change s r u k role = Inr u' \<Longrightarrow>
     u_status u' = u_status u \<and> u_id u' = u_id u \<and> (u_role u' = u_role u \<or> u_role u' = role) \<and>
     (u_role u = RoleAdmin \<longrightarrow> u_role u' = RoleAdmin \<or> checkLastAdmin s k = None)"
  by (auto simp: role_change_def split: if_splits)

lemma status_change_Inr:
  "status_change u st = Inr u' \<Longrightarrow> u_id u' = u_id u \<and> u_role u' = u_role u \<and>
     u_status u' = (if st = [] then u_status u else st)"
  by (auto simp: status_change_def split: if_splits)

lemma HandleUpdateUser_cases:
  "snd (HandleUpdateUser s now r body k) = s \<or>
   requireAdmin s r = None \<and>
   (\<exists>role st u u1 u2 e. body = Some (role, st) \<and> GetByID s k = Inr u \<and>
      role_change s r u k role = Inr u1 \<and> status_change u1 st = Inr u2 \<and>
      Update s now u2 = (e, snd (HandleUpdateUser s now r body k)))"
  by (auto simp: HandleUpdateUser_def split: option.splits sum.splits prod.splits)

text \<open>Writing a row whose predecessor was another active admin, or which stays one.\<close>

lemma guarded_write:
  assumes wf: "wf_users s" and a: "a \<in> set (us_rows s)" "active_admin a"
    and u: "GetByID s k = Inr u" and w: "u_id w = k" "Update s now w = (e, s')"
    and guard: "active_admin u \<Longrightarrow> active_admin w \<or> checkLastAdmin s k = None"
  shows "wf_users s' \<and> (\<exists>a \<in> set (us_rows s'). active_admin a)"
proof -
  have row: "u \<in> set (us_rows s)" "u_id u = k" using GetByID_row [OF u] by auto
  have "\<exists>a \<in> set (us_rows s'). active_admin a"
  proof (cases "\<exists>b \<in> set (us_rows s). active_admin b \<and> u_id b \<noteq> k")
    case True
    then show ?thesis using Update_other [OF w(2)] w(1) by blast
  next
    case False
    then have k: "u_id a = k" "\<not> (checkLastAdmin s k = None)" using a by (auto simp: checkLastAdmin_None)
    have "distinct (map u_id (us_rows s))" using wf by (simp add: wf_users_def)
    from distinct_map_eq [OF this a(1) row(1)] k row(2) have "active_admin u" using a(2) by simp
    moreover from this have "active_admin w" using guard k(2) by blast
    ultimately show ?thesis using Update_self [OF wf w(2) row(1)] row(2) w(1) by simp
  qed
  then show ?thesis using Update_wf [OF wf w(2)] by simp
qed

text \<open>C35: deleting a user and changing a role keep an administrator. Starting from a table with
  an active admin, \<open>DELETE /api/users/{id}\<close> and a \<open>PATCH\<close> that changes the role (and at most
  sets the status to active) leave the table with an active admin and its unique keys, whoever
  asks and whatever id; a caller who is not an admin changes nothing, and nobody deletes the own
  account.
\<close>

theorem delete_and_demote_keep_admin:
  assumes "wf_users s" and "a \<in> set (us_rows s)" and "active_admin a"
    and "m = HandleDeleteUser s now r k \<or>
         m = HandleUpdateUser s now r (Some (role, st)) k \<and> (st = [] \<or> st = StatusActive)"
  shows "wf_users (snd m) \<and> (\<exists>b \<in> set (us_rows (snd m)). active_admin b) \<and>
    (requireAdmin s r \<noteq> None \<longrightarrow> snd m = s) \<and>
    (getUserID r = k \<longrightarrow> snd (HandleDeleteUser s now r k) = s)"
proof -
  have "wf_users (snd m) \<and> (\<exists>b \<in> set (us_rows (snd m)). active_admin b)"
  proof (cases "snd m = s")
    case False
    then consider
        u e where "GetByID s k = Inr u" "u_role u = RoleAdmin \<longrightarrow> checkLastAdmin s k = None"
          "Update s now (u\<lparr>u_status := StatusDeleted\<rparr>) = (e, snd m)"
      | u u1 u2 e where "GetByID s k = Inr u" "role_change s r u k role = Inr u1"
          "status_change u1 st = Inr u2" "Update s now u2 = (e, snd m)" "st = [] \<or> st = StatusActive"
      using assms(4) HandleDeleteUser_cases [of s now r k]
        HandleUpdateUser_cases [of s now r "Some (role, st)" k] by auto
    then show ?thesis
    proof cases
      case 1
      from GetByID_row [OF 1(1)] 1(2) show ?thesis
        by (intro guarded_write [OF assms(1-3) 1(1) _ 1(3)]) (auto simp: active_admin_def IsAdmin_def)
    next
      case 2
      from GetByID_row [OF 2(1)] role_change_Inr [OF 2(2)] status_change_Inr [OF 2(3)] 2(5) show ?thesis
        by (intro guarded_write [OF assms(1-3) 2(1) _ 2(4)])
          (auto simp: active_admin_def IsAdmin_def IsActive_def split: if_splits)
    qed
  qed (use assms(1-3) in blast)
  then show ?thesis
    using assms(4) HandleDeleteUser_cases [of s now r k]
      HandleUpdateUser_cases [of s now r "Some (role, st)" k] by auto
qed

definition sample_admins :: user_store where
  "sample_admins = \<lparr>us_up = True, us_rows = [sample_admin, sample_admin2]\<rparr>"

definition sample_admin_request :: http_request where
  "sample_admin_request = zero_http\<lparr>hr_user_id := Some (CtxStr ''u-1'')\<rparr>"

lemma delete_and_demote_keep_admin_witness:
  "(\<exists>b \<in> set (us_rows (snd (HandleDeleteUser sample_admins 9 sample_admin_request ''u-2''))). active_admin b) \<and>
   map u_status (us_rows (snd (HandleDeleteUser sample_admins 9 sample_admin_request ''u-2'')))
     = [StatusActive, StatusDeleted]"
proof -
  have wf: "wf_users sample_admins" by code_simp
  have m: "sample_admin \<in> set (us_rows sample_admins)" by (simp add: sample_admins_def)
  have a: "active_admin sample_admin" by code_simp
  have "map u_status (us_rows (snd (HandleDeleteUser sample_admins 9 sample_admin_request ''u-2'')))
     = [StatusActive, StatusDeleted]" by code_simp
  then show ?thesis using delete_and_demote_keep_admin [OF wf m a disjI1 [OF refl]] by blast
qed

text \<open>the status has no such guard. An admin who is the only active one and suspends the own
  account with \<open>PATCH /api/users/{id}\<close> and the status \<open>suspended\<close> is answered 200, no active
  admin is left, and the suspended account still passes \<open>requireAdmin\<close>, which looks at the role
  only.
\<close>

theorem status_change_removes_last_admin:
  assumes "wf_users s" and "us_up s" and "requireAdmin s r = None" and "getUserID r = u_id u"
    and "u \<in> set (us_rows s)" and "\<forall>v \<in> set (us_rows s). active_admin v \<longrightarrow> v = u"
  shows "rs_status (fst (HandleUpdateUser s now r (Some ([], StatusSuspended)) (u_id u))) = 200 \<and>
    (\<forall>v \<in> set (us_rows (snd (HandleUpdateUser s now r (Some ([], StatusSuspended)) (u_id u)))).
       \<not> active_admin v) \<and>
    requireAdmin (snd (HandleUpdateUser s now r (Some ([], StatusSuspended)) (u_id u))) r = None"
proof -
  let ?w = "u\<lparr>u_status := StatusSuspended\<rparr>"
  let ?s = "update_rows (u_id u) (written_by now ?w) s"
  have g: "GetByID s (u_id u) = Inr u" using assms by (simp add: GetByID_iff)
  have "\<And>v. v \<in> set (us_rows s) \<Longrightarrow> u_email v = u_email u \<Longrightarrow> v = u"
    using assms(1,5) by (auto simp: wf_users_def dest: distinct_map_eq [of u_email])
  then have up: "Update s now ?w = (None, ?s)"
    using assms(2) has_user_row [OF assms(5)] by (auto simp: Update_def written_by_def list_ex_iff)
  have h: "rs_status (fst (HandleUpdateUser s now r (Some ([], StatusSuspended)) (u_id u))) = 200"
      "snd (HandleUpdateUser s now r (Some ([], StatusSuspended)) (u_id u)) = ?s"
    by (simp_all add: HandleUpdateUser_def assms(3) g role_change_def status_change_def valid_status_def up)
  have none: "\<not> active_admin v" if "v \<in> set (us_rows ?s)" for v
    using that assms(6) by (auto simp: active_admin_def IsActive_def IsAdmin_def split: if_splits)
  have "GetByID ?s (u_id u) = Inr (written_by now ?w u)"
    using Update_wf [OF assms(1) up] assms(2,5) by (simp add: GetByID_iff)
  then have "requireAdmin ?s r = None"
    using assms(3,4) g by (auto simp: requireAdmin_def IsAdmin_def split: if_splits)
  then show ?thesis using h none by simp
qed

lemma status_change_removes_last_admin_witness:
  "filter active_admin (us_rows (snd (HandleUpdateUser sample_users 9 sample_admin_request
      (Some ([], StatusSuspended)) ''u-1''))) = []"
proof -
  have 1: "wf_users sample_users" "us_up sample_users" "requireAdmin sample_users sample_admin_request = None"
    "getUserID sample_admin_request = u_id sample_admin"
    by code_simp+
  have 2: "sample_admin \<in> set (us_rows sample_users)"
    "\<forall>v \<in> set (us_rows sample_users). active_admin v \<longrightarrow> v = sample_admin"
    by (simp_all add: sample_users_def)
  have k: "u_id sample_admin = ''u-1''" by code_simp
  show ?thesis using status_change_removes_last_admin [OF 1 2, of 9] unfolding k filter_empty_conv by blast
qed

end
