(* ===== verification/Sessions.thy ===== *)
theory Sessions
  imports Encoding
begin

text \<open>
  Browser sessions: \<open>SessionStore\<close> (\<open>internal/auth/session.go\<close>), the \<open>SessionBackend\<close>
  interface with its in-memory implementation (\<open>session_backend.go\<close>) and the Redis one
  (\<open>session_backend_redis.go\<close>). The contract of a backend is the locale \<open>session_backing\<close>;
  the store's safety is proved once inside it and used for both backends.

  Every call of \<open>time.Now\<close> is an argument: \<open>now\<close> is the time the store reads, \<open>bnow\<close> the time
  its backend reads. The Redis server and its client library are a parameter, a record of the
  three commands the code sends.
\<close>

subsection \<open>Data\<close>

record session_data =
  sd_user_id :: string
  sd_email :: string
  sd_name :: string
  sd_id_token :: string
  sd_expires_at :: timestamp
  sd_is_admin :: bool
  sd_owner_iss :: string
  sd_owner_sub :: string
  sd_tenant_id :: string

datatype session_error = SessionDataNil | SessionRand | SessionRedis | SessionUnmarshal

record 'b session_backend =
  sb_Create :: "'b \<Rightarrow> timestamp \<Rightarrow> string \<Rightarrow> session_data \<Rightarrow> int \<Rightarrow> session_error option \<times> 'b"
  sb_Get :: "'b \<Rightarrow> timestamp \<Rightarrow> string \<Rightarrow> (session_error + session_data option) \<times> 'b"
  sb_Delete :: "'b \<Rightarrow> timestamp \<Rightarrow> string \<Rightarrow> session_error option \<times> 'b"

subsection \<open>The in-memory backend\<close>

record mem_sessions =
  mb_sessions :: "string \<rightharpoonup> session_data"
  mb_ttls :: "string \<rightharpoonup> timestamp"

definition NewMemorySessionBackend :: mem_sessions where
  "NewMemorySessionBackend = \<lparr>mb_sessions = Map.empty, mb_ttls = Map.empty\<rparr>"

definition mem_Create ::
  "mem_sessions \<Rightarrow> timestamp \<Rightarrow> string \<Rightarrow> session_data \<Rightarrow> int \<Rightarrow> session_error option \<times> mem_sessions" where
  "mem_Create b now k d ttl =
     (None, b\<lparr>mb_sessions := (mb_sessions b)(k \<mapsto> d), mb_ttls := (mb_ttls b)(k \<mapsto> now + ttl)\<rparr>)"

definition mem_Delete :: "mem_sessions \<Rightarrow> timestamp \<Rightarrow> string \<Rightarrow> session_error option \<times> mem_sessions" where
  "mem_Delete b now k =
     (None, b\<lparr>mb_sessions := (mb_sessions b)(k := None), mb_ttls := (mb_ttls b)(k := None)\<rparr>)"

definition mem_Get ::
  "mem_sessions \<Rightarrow> timestamp \<Rightarrow> string \<Rightarrow> (session_error + session_data option) \<times> mem_sessions" where
  "mem_Get b now k =
     (case mb_sessions b k of
        None \<Rightarrow> (Inr None, b)
      | Some d \<Rightarrow>
          (case mb_ttls b k of
             Some expiresAt \<Rightarrow>
               (if expiresAt < now then (Inr None, snd (mem_Delete b now k)) else (Inr (Some d), b))
           | None \<Rightarrow> (Inr (Some d), b)))"

definition mem_ops :: "mem_sessions session_backend" where
  "mem_ops = \<lparr>sb_Create = mem_Create, sb_Get = mem_Get, sb_Delete = mem_Delete\<rparr>"

subsection \<open>The Redis backend\<close>

text \<open>
  A stored value is the JSON text of a session, or a text that does not unmarshal (\<open>None\<close>):
  \<open>encoding/json\<close> keeps every field of \<open>SessionData\<close>. \<open>RedisNil\<close> is the client's answer for a
  missing key, \<open>RedisFail\<close> any error of the command.
\<close>

type_synonym session_text = "session_data option"

datatype redis_get = RedisFail | RedisNil | RedisBytes session_text

record 'r redis_client =
  rd_set :: "'r \<Rightarrow> timestamp \<Rightarrow> string \<Rightarrow> session_text \<Rightarrow> int \<Rightarrow> bool \<times> 'r"
  rd_get :: "'r \<Rightarrow> timestamp \<Rightarrow> string \<Rightarrow> redis_get \<times> 'r"
  rd_del :: "'r \<Rightarrow> timestamp \<Rightarrow> string \<Rightarrow> bool \<times> 'r"

definition sessionKey :: "string \<Rightarrow> string" where
  "sessionKey k = ''session:'' @ k"

definition redis_Create ::
  "'r redis_client \<Rightarrow> 'r \<Rightarrow> timestamp \<Rightarrow> string \<Rightarrow> session_data \<Rightarrow> int \<Rightarrow> session_error option \<times> 'r" where
  "redis_Create rd b now k d ttl =
     (case rd_set rd b now (sessionKey k) (Some d) ttl of
        (ok, b') \<Rightarrow> ((if ok then None else Some SessionRedis), b'))"

definition redis_Get ::
  "'r redis_client \<Rightarrow> 'r \<Rightarrow> timestamp \<Rightarrow> string \<Rightarrow> (session_error + session_data option) \<times> 'r" where
  "redis_Get rd b now k =
     (case rd_get rd b now (sessionKey k) of
        (RedisNil, b') \<Rightarrow> (Inr None, b')
      | (RedisFail, b') \<Rightarrow> (Inl SessionRedis, b')
      | (RedisBytes None, b') \<Rightarrow> (Inl SessionUnmarshal, b')
      | (RedisBytes (Some d), b') \<Rightarrow> (Inr (Some d), b'))"

definition redis_Delete ::
  "'r redis_client \<Rightarrow> 'r \<Rightarrow> timestamp \<Rightarrow> string \<Rightarrow> session_error option \<times> 'r" where
  "redis_Delete rd b now k =
     (case rd_del rd b now (sessionKey k) of
        (ok, b') \<Rightarrow> ((if ok then None else Some SessionRedis), b'))"

definition redis_session_ops :: "'r redis_client \<Rightarrow> 'r session_backend" where
  "redis_session_ops rd =
     \<lparr>sb_Create = redis_Create rd, sb_Get = redis_Get rd, sb_Delete = redis_Delete rd\<rparr>"

subsection \<open>The store\<close>

record 'b session_store =
  st_ttl :: int
  st_backend :: "'b option"
  st_sessions :: "string \<rightharpoonup> session_data"

definition day_ns :: int where
  "day_ns = 24 * 3600 * 1000000000"

definition NewSessionStore :: "int \<Rightarrow> 'b option \<Rightarrow> 'b session_store" where
  "NewSessionStore ttl backend =
     \<lparr>st_ttl = (if ttl = 0 then day_ns else ttl), st_backend = backend, st_sessions = Map.empty\<rparr>"

text \<open>\<open>rnd\<close> is what \<open>rand.Read\<close> puts in the 32 bytes, \<open>None\<close> when it fails.\<close>

definition generateSessionID :: "string option \<Rightarrow> session_error + string" where
  "generateSessionID rnd = (case rnd of None \<Rightarrow> Inl SessionRand | Some b \<Rightarrow> Inr (url_encode b))"

text \<open>\<open>Create\<close> also sets \<open>ExpiresAt\<close> in the caller's data; the result carries the stored record.\<close>

definition stored_session :: "'b session_store \<Rightarrow> timestamp \<Rightarrow> session_data \<Rightarrow> session_data" where
  "stored_session s now d = d\<lparr>sd_expires_at := now + st_ttl s\<rparr>"

definition session_Create ::
  "'b session_backend \<Rightarrow> 'b session_store \<Rightarrow> timestamp \<Rightarrow> timestamp \<Rightarrow> string option \<Rightarrow>
   session_data option \<Rightarrow> (session_error + string) \<times> 'b session_store" where
  "session_Create ops s now bnow rnd data =
     (case data of
        None \<Rightarrow> (Inl SessionDataNil, s)
      | Some d \<Rightarrow>
          (case generateSessionID rnd of
             Inl e \<Rightarrow> (Inl e, s)
           | Inr k \<Rightarrow>
               (case st_backend s of
                  Some b \<Rightarrow>
                    (case sb_Create ops b bnow k (stored_session s now d) (st_ttl s) of
                       (Some e, b') \<Rightarrow> (Inl e, s\<lparr>st_backend := Some b'\<rparr>)
                     | (None, b') \<Rightarrow> (Inr k, s\<lparr>st_backend := Some b'\<rparr>))
                | None \<Rightarrow>
                    (Inr k, s\<lparr>st_sessions := (st_sessions s)(k \<mapsto> stored_session s now d)\<rparr>))))"

definition session_Get ::
  "'b session_backend \<Rightarrow> 'b session_store \<Rightarrow> timestamp \<Rightarrow> timestamp \<Rightarrow> string \<Rightarrow>
   session_data option \<times> 'b session_store" where
  "session_Get ops s now bnow k =
     (case st_backend s of
        Some b \<Rightarrow>
          (case sb_Get ops b bnow k of
             (Inl e, b') \<Rightarrow> (None, s\<lparr>st_backend := Some b'\<rparr>)
           | (Inr None, b') \<Rightarrow> (None, s\<lparr>st_backend := Some b'\<rparr>)
           | (Inr (Some d), b') \<Rightarrow>
               ((if sd_expires_at d < now then None else Some d), s\<lparr>st_backend := Some b'\<rparr>))
      | None \<Rightarrow>
          (case st_sessions s k of
             None \<Rightarrow> (None, s)
           | Some d \<Rightarrow> ((if sd_expires_at d < now then None else Some d), s)))"

definition DeleteWithError ::
  "'b session_backend \<Rightarrow> 'b session_store \<Rightarrow> timestamp \<Rightarrow> string \<Rightarrow>
   session_error option \<times> 'b session_store" where
  "DeleteWithError ops s bnow k =
     (case st_backend s of
        Some b \<Rightarrow> (case sb_Delete ops b bnow k of (e, b') \<Rightarrow> (e, s\<lparr>st_backend := Some b'\<rparr>))
      | None \<Rightarrow> (None, s\<lparr>st_sessions := (st_sessions s)(k := None)\<rparr>))"

text \<open>One tick of the hourly \<open>cleanup\<close> goroutine, which runs only without a backend.\<close>

definition session_cleanup :: "'b session_store \<Rightarrow> timestamp \<Rightarrow> 'b session_store" where
  "session_cleanup s now =
     (case st_backend s of
        Some b \<Rightarrow> s
      | None \<Rightarrow>
          s\<lparr>st_sessions := (\<lambda>k. case st_sessions s k of
                                 Some d \<Rightarrow> if sd_expires_at d < now then None else Some d
                               | None \<Rightarrow> None)\<rparr>)"

subsection \<open>Traces of calls\<close>

datatype session_call =
    CallCreate timestamp timestamp "string option" "session_data option"
  | CallGet timestamp timestamp string
  | CallDelete timestamp string
  | CallCleanup timestamp

datatype session_reply =
    ReplyCreated "session_error + string"
  | ReplyGot "session_data option"
  | ReplyDeleted "session_error option"
  | ReplyCleaned

fun session_step ::
  "'b session_backend \<Rightarrow> 'b session_store \<Rightarrow> session_call \<Rightarrow> session_reply \<times> 'b session_store" where
  "session_step ops s (CallCreate now bnow rnd d) =
     (case session_Create ops s now bnow rnd d of (r, s') \<Rightarrow> (ReplyCreated r, s'))"
| "session_step ops s (CallGet now bnow k) =
     (case session_Get ops s now bnow k of (r, s') \<Rightarrow> (ReplyGot r, s'))"
| "session_step ops s (CallDelete bnow k) =
     (case DeleteWithError ops s bnow k of (r, s') \<Rightarrow> (ReplyDeleted r, s'))"
| "session_step ops s (CallCleanup now) = (ReplyCleaned, session_cleanup s now)"

text \<open>The log has the newest call first.\<close>

type_synonym session_log = "(session_call \<times> session_reply) list"

fun session_run ::
  "'b session_backend \<Rightarrow> 'b session_store \<Rightarrow> session_call list \<Rightarrow> session_log \<Rightarrow>
   session_log \<times> 'b session_store" where
  "session_run ops s [] lg = (lg, s)"
| "session_run ops s (c # cs) lg =
     (case session_step ops s c of (r, s') \<Rightarrow> session_run ops s' cs ((c, r) # lg))"

text \<open>
  The abstract specification: the session an id may stand for, read off the log alone. It is
  the last one created under the id, unless a later delete of the id succeeded; a create that
  reported an error may have happened.
\<close>

fun live_session :: "int \<Rightarrow> session_log \<Rightarrow> string \<Rightarrow> session_data \<Rightarrow> bool" where
  "live_session ttl [] k sd = False"
| "live_session ttl ((CallCreate now bnow (Some rnd) (Some d), r) # lg) k sd =
     (if url_encode rnd = k
      then sd = d\<lparr>sd_expires_at := now + ttl\<rparr> \<or>
           (case r of ReplyCreated (Inl e) \<Rightarrow> live_session ttl lg k sd | _ \<Rightarrow> False)
      else live_session ttl lg k sd)"
| "live_session ttl ((CallDelete bnow k', ReplyDeleted None) # lg) k sd =
     (k' \<noteq> k \<and> live_session ttl lg k sd)"
| "live_session ttl (_ # lg) k sd = live_session ttl lg k sd"

text \<open>What a store holds, given what its backend holds.\<close>

definition sessions_of ::
  "('b \<Rightarrow> string \<rightharpoonup> session_data) \<Rightarrow> 'b session_store \<Rightarrow> string \<rightharpoonup> session_data" where
  "sessions_of held s = (case st_backend s of Some b \<Rightarrow> held b | None \<Rightarrow> st_sessions s)"

definition store_inv :: "('b \<Rightarrow> bool) \<Rightarrow> 'b session_store \<Rightarrow> bool" where
  "store_inv ok s = (case st_backend s of Some b \<Rightarrow> ok b | None \<Rightarrow> True)"

lemma map_le_SomeD: "m \<subseteq>\<^sub>m m' \<Longrightarrow> m k = Some v \<Longrightarrow> m' k = Some v"
  by (auto simp: map_le_def dom_def)

lemma map_leI: "(\<And>k v. m k = Some v \<Longrightarrow> m' k = Some v) \<Longrightarrow> m \<subseteq>\<^sub>m m'"
  by (auto simp: map_le_def)

lemma map_le_drop [simp]: "m(k := None) \<subseteq>\<^sub>m m"
  by (rule map_leI) (simp split: if_splits)

subsection \<open>The contract of a backend\<close>

text \<open>
  \<open>held b\<close> are the sessions the backend holds, expired ones that it has not dropped yet
  included. A backend may lose sessions at any time and a failed write may or may not have
  happened, but it never invents a session, and a delete it confirms is final.
\<close>

locale session_backing =
  fixes ops :: "'b session_backend" and inv :: "'b \<Rightarrow> bool"
    and held :: "'b \<Rightarrow> string \<rightharpoonup> session_data"
  assumes get_held: "inv b \<Longrightarrow> sb_Get ops b now k = (Inr (Some d), b') \<Longrightarrow> held b k = Some d"
    and get_loses: "inv b \<Longrightarrow> sb_Get ops b now k = (r, b') \<Longrightarrow> inv b' \<and> held b' \<subseteq>\<^sub>m held b"
    and create_adds: "inv b \<Longrightarrow> sb_Create ops b now k d ttl = (e, b') \<Longrightarrow>
           inv b' \<and> (held b' \<subseteq>\<^sub>m (held b)(k \<mapsto> d) \<or> e \<noteq> None \<and> held b' \<subseteq>\<^sub>m held b)"
    and delete_removes: "inv b \<Longrightarrow> sb_Delete ops b now k = (e, b') \<Longrightarrow>
           inv b' \<and> held b' \<subseteq>\<^sub>m held b \<and> (e = None \<longrightarrow> held b' k = None)"
begin

lemma create_step:
  assumes ok: "store_inv inv s"
    and sim: "\<And>k sd. sessions_of held s k = Some sd \<Longrightarrow> live_session (st_ttl s) lg k sd"
    and c: "session_Create ops s now bnow rnd data = (r, s')"
  shows "store_inv inv s' \<and> st_ttl s' = st_ttl s \<and> (\<forall>k sd. sessions_of held s' k = Some sd \<longrightarrow>
    live_session (st_ttl s) ((CallCreate now bnow rnd data, ReplyCreated r) # lg) k sd)"
proof (cases "rnd = None \<or> data = None")
  case True
  with assms show ?thesis
    by (auto simp: session_Create_def generateSessionID_def split: option.splits)
next
  case False
  then obtain bs d where *: "rnd = Some bs" "data = Some d" by auto
  let ?k = "url_encode bs" and ?d = "stored_session s now d"
  show ?thesis
  proof (cases "st_backend s")
    case None
    with c * have "s' = s\<lparr>st_sessions := (st_sessions s)(?k \<mapsto> ?d)\<rparr>"
      by (auto simp: session_Create_def generateSessionID_def)
    with None * sim ok show ?thesis
      by (auto simp: sessions_of_def store_inv_def stored_session_def)
  next
    case (Some b)
    obtain e b' where e: "sb_Create ops b bnow ?k ?d (st_ttl s) = (e, b')" by fastforce
    with Some c * have s': "s' = s\<lparr>st_backend := Some b'\<rparr>" "e \<noteq> None \<longrightarrow> (\<exists>x. r = Inl x)"
      by (auto simp: session_Create_def generateSessionID_def split: option.splits)
    from Some ok have "inv b" by (simp add: store_inv_def)
    from create_adds [OF this e] have b': "inv b'"
        "held b' \<subseteq>\<^sub>m (held b)(?k \<mapsto> ?d) \<or> e \<noteq> None \<and> held b' \<subseteq>\<^sub>m held b" by auto
    have "held b' k = Some sd \<Longrightarrow>
        live_session (st_ttl s) ((CallCreate now bnow rnd data, ReplyCreated r) # lg) k sd" for k sd
    proof -
      assume h: "held b' k = Some sd"
      from b'(2) h have "((held b)(?k \<mapsto> ?d)) k = Some sd \<or> e \<noteq> None \<and> held b k = Some sd"
        using map_le_SomeD by metis
      then have "k = ?k \<and> sd = ?d \<or> k \<noteq> ?k \<and> held b k = Some sd \<or>
          e \<noteq> None \<and> held b k = Some sd"
        by (auto split: if_splits)
      with sim [of k sd] Some s'(2) * show ?thesis
        by (auto simp: sessions_of_def stored_session_def)
    qed
    with Some s' b'(1) show ?thesis by (simp add: sessions_of_def store_inv_def)
  qed
qed

lemma get_step:
  assumes ok: "store_inv inv s" and g: "session_Get ops s now bnow k = (r, s')"
  shows "store_inv inv s' \<and> st_ttl s' = st_ttl s \<and> sessions_of held s' \<subseteq>\<^sub>m sessions_of held s"
    and "r = Some d \<Longrightarrow> sessions_of held s k = Some d \<and> now \<le> sd_expires_at d"
proof -
  consider (mem) "st_backend s = None" | (bk) b v b' where "st_backend s = Some b"
    "sb_Get ops b bnow k = (v, b')" by (cases "st_backend s"; fastforce)
  then have "(store_inv inv s' \<and> st_ttl s' = st_ttl s \<and> sessions_of held s' \<subseteq>\<^sub>m sessions_of held s) \<and>
     (r = Some d \<longrightarrow> sessions_of held s k = Some d \<and> now \<le> sd_expires_at d)"
  proof cases
    case mem
    with g ok show ?thesis
      by (auto simp: session_Get_def sessions_of_def split: option.splits if_splits)
  next
    case bk
    from ok bk have "inv b" by (simp add: store_inv_def)
    with get_loses [OF _ bk(2)] have l: "inv b'" "held b' \<subseteq>\<^sub>m held b" by auto
    from g bk have s': "s' = s\<lparr>st_backend := Some b'\<rparr>"
      by (auto simp: session_Get_def split: sum.splits option.splits)
    have "r = Some d \<longrightarrow> v = Inr (Some d) \<and> now \<le> sd_expires_at d"
      using g bk by (auto simp: session_Get_def split: sum.splits option.splits if_splits)
    with get_held [OF \<open>inv b\<close>] bk l s' show ?thesis
      by (auto simp: sessions_of_def store_inv_def)
  qed
  then show "store_inv inv s' \<and> st_ttl s' = st_ttl s \<and> sessions_of held s' \<subseteq>\<^sub>m sessions_of held s"
    "r = Some d \<Longrightarrow> sessions_of held s k = Some d \<and> now \<le> sd_expires_at d" by auto
qed

lemma delete_step:
  assumes "store_inv inv s" "DeleteWithError ops s bnow k = (e, s')"
  shows "store_inv inv s' \<and> st_ttl s' = st_ttl s \<and> sessions_of held s' \<subseteq>\<^sub>m sessions_of held s \<and>
    (e = None \<longrightarrow> sessions_of held s' k = None)"
proof (cases "st_backend s")
  case None
  with assms show ?thesis
    by (auto simp: DeleteWithError_def sessions_of_def store_inv_def)
next
  case (Some b)
  obtain x b' where x: "sb_Delete ops b bnow k = (x, b')" by fastforce
  with Some assms have "inv b" "e = x" "s' = s\<lparr>st_backend := Some b'\<rparr>"
    by (auto simp: DeleteWithError_def store_inv_def)
  with delete_removes [OF _ x] Some show ?thesis
    by (auto simp: sessions_of_def store_inv_def)
qed

lemma cleanup_step:
  "store_inv inv s \<Longrightarrow> store_inv inv (session_cleanup s now) \<and>
   st_ttl (session_cleanup s now) = st_ttl s \<and>
   sessions_of held (session_cleanup s now) \<subseteq>\<^sub>m sessions_of held s"
  by (auto simp: session_cleanup_def sessions_of_def store_inv_def map_le_def dom_def
      split: option.splits if_splits)

lemma session_step_sim:
  assumes ok: "store_inv inv s"
    and sim: "\<And>k sd. sessions_of held s k = Some sd \<Longrightarrow> live_session (st_ttl s) lg k sd"
    and st: "session_step ops s c = (r, s')"
  shows "store_inv inv s' \<and> st_ttl s' = st_ttl s \<and>
    (\<forall>k sd. sessions_of held s' k = Some sd \<longrightarrow> live_session (st_ttl s) ((c, r) # lg) k sd)"
proof (cases c)
  case (CallCreate now bnow rnd d)
  with st obtain x where "session_Create ops s now bnow rnd d = (x, s')" "r = ReplyCreated x"
    by (auto split: prod.splits)
  from create_step [OF ok sim this(1)] this(2) CallCreate show ?thesis by simp
next
  case (CallGet now bnow k)
  with st obtain x where x: "session_Get ops s now bnow k = (x, s')" by (auto split: prod.splits)
  from get_step(1) [OF ok x] sim CallGet show ?thesis
    by (auto simp: map_le_def dom_def)
next
  case (CallDelete bnow k)
  with st obtain e where e: "DeleteWithError ops s bnow k = (e, s')" and r: "r = ReplyDeleted e"
    by (auto split: prod.splits)
  have sub: "sessions_of held s' k' = Some sd \<Longrightarrow> live_session (st_ttl s) lg k' sd" for k' sd
    using delete_step [OF ok e] sim by (auto simp: map_le_def dom_def)
  from delete_step [OF ok e] sub r CallDelete show ?thesis by (cases e) auto
next
  case (CallCleanup now)
  with st cleanup_step [OF ok, of now] sim show ?thesis by (auto simp: map_le_def dom_def)
qed

lemma session_run_sim:
  assumes "store_inv inv s"
    and "\<And>k sd. sessions_of held s k = Some sd \<Longrightarrow> live_session (st_ttl s) lg k sd"
    and "session_run ops s cs lg = (lg', s')"
  shows "store_inv inv s' \<and> st_ttl s' = st_ttl s \<and>
    (\<forall>k sd. sessions_of held s' k = Some sd \<longrightarrow> live_session (st_ttl s) lg' k sd)"
  using assms
proof (induction cs arbitrary: s lg)
  case (Cons c cs)
  obtain r s1 where st: "session_step ops s c = (r, s1)" by fastforce
  note one = session_step_sim [OF Cons.prems(1,2) st]
  from Cons.prems(3) st have "session_run ops s1 cs ((c, r) # lg) = (lg', s')" by simp
  from Cons.IH [OF _ _ this] one show ?case by auto
qed auto

text \<open>The safety of the store over any backend that keeps the contract.\<close>

lemma get_live:
  assumes b: "\<And>b. backend = Some b \<Longrightarrow> inv b \<and> held b = Map.empty"
    and run: "session_run ops (NewSessionStore ttl backend) cs [] = (lg, s)"
    and got: "fst (session_Get ops s now bnow k) = Some d"
  shows "live_session (if ttl = 0 then day_ns else ttl) lg k d \<and> now \<le> sd_expires_at d"
proof -
  let ?s0 = "NewSessionStore ttl backend"
  have init: "store_inv inv ?s0" "sessions_of held ?s0 = Map.empty"
    "st_ttl ?s0 = (if ttl = 0 then day_ns else ttl)"
    using b by (auto simp: NewSessionStore_def store_inv_def sessions_of_def split: option.splits)
  have run': "store_inv inv s \<and> st_ttl s = st_ttl ?s0 \<and>
      (\<forall>k sd. sessions_of held s k = Some sd \<longrightarrow> live_session (st_ttl ?s0) lg k sd)"
    by (rule session_run_sim [OF init(1) _ run]) (simp add: init(2))
  obtain r s' where "session_Get ops s now bnow k = (r, s')" by fastforce
  with get_step(2) [of s now bnow k r s' d] run' got init(3) show ?thesis by simp
qed

end

subsection \<open>The two backends keep the contract\<close>

lemma mem_Delete_sub: "mb_sessions (snd (mem_Delete b now k)) \<subseteq>\<^sub>m mb_sessions b"
  by (simp add: mem_Delete_def)

interpretation membk: session_backing mem_ops "\<lambda>_. True" mb_sessions
proof (unfold_locales, goal_cases)
  case (1 b now k d b')
  then show ?case by (auto simp: mem_ops_def mem_Get_def split: option.splits if_splits)
next
  case (2 b now k r b')
  then show ?case
    by (auto simp: mem_ops_def mem_Get_def mem_Delete_sub split: option.splits if_splits)
next
  case (3 b now k d ttl e b')
  then show ?case by (auto simp: mem_ops_def mem_Create_def)
next
  case (4 b now k e b')
  then show ?case by (auto simp: mem_ops_def mem_Delete_def)
qed

text \<open>
  What the code relies on of the Redis server: \<open>present r\<close> are the keys and values it has. A GET
  answers with what is there, a SET and a DEL touch their key only, a command that reports an
  error may have been carried out, and keys may expire or be evicted at any time.
\<close>

definition redis_lawful :: "'r redis_client \<Rightarrow> ('r \<Rightarrow> string \<rightharpoonup> session_text) \<Rightarrow> bool" where
  "redis_lawful rd present \<longleftrightarrow>
     (\<forall>r now k v r'. rd_get rd r now k = (v, r') \<longrightarrow>
        present r' \<subseteq>\<^sub>m present r \<and> (\<forall>x. v = RedisBytes x \<longrightarrow> present r k = Some x)) \<and>
     (\<forall>r now k x ttl ok r'. rd_set rd r now k x ttl = (ok, r') \<longrightarrow>
        present r' \<subseteq>\<^sub>m (present r)(k \<mapsto> x) \<or> \<not> ok \<and> present r' \<subseteq>\<^sub>m present r) \<and>
     (\<forall>r now k ok r'. rd_del rd r now k = (ok, r') \<longrightarrow>
        present r' \<subseteq>\<^sub>m present r \<and> (ok \<longrightarrow> present r' k = None))"

lemmas redis_session_defs =
  redis_session_ops_def redis_Create_def redis_Get_def redis_Delete_def

definition redis_sessions :: "('r \<Rightarrow> string \<rightharpoonup> session_text) \<Rightarrow> 'r \<Rightarrow> string \<rightharpoonup> session_data" where
  "redis_sessions present r k = (case present r (sessionKey k) of Some (Some d) \<Rightarrow> Some d | _ \<Rightarrow> None)"

lemma redis_sessions_mono:
  "present r' \<subseteq>\<^sub>m present r \<Longrightarrow> redis_sessions present r' \<subseteq>\<^sub>m redis_sessions present r"
  by (rule map_leI) (auto simp: redis_sessions_def dest: map_le_SomeD split: option.splits)

lemma redis_sessions_upd:
  "present r' \<subseteq>\<^sub>m (present r)(sessionKey k \<mapsto> Some d) \<Longrightarrow>
   redis_sessions present r' \<subseteq>\<^sub>m (redis_sessions present r)(k \<mapsto> d)"
  by (rule map_leI)
     (auto simp: redis_sessions_def sessionKey_def dest: map_le_SomeD split: option.splits if_splits)

interpretation redisbk: session_backing "redis_session_ops rd"
  "\<lambda>_. redis_lawful rd present" "redis_sessions present"
proof (unfold_locales, goal_cases)
  case (1 b now k d b')
  then obtain v where "rd_get rd b now (sessionKey k) = (v, b')" "v = RedisBytes (Some d)"
    by (auto simp: redis_session_defs split: prod.splits redis_get.splits option.splits)
  with 1 show ?case unfolding redis_lawful_def by (auto simp: redis_sessions_def)
next
  case (2 b now k r b')
  then obtain v where "rd_get rd b now (sessionKey k) = (v, b')"
    by (auto simp: redis_session_defs split: prod.splits redis_get.splits option.splits)
  with 2 show ?case unfolding redis_lawful_def by (blast intro: redis_sessions_mono)
next
  case (3 b now k d ttl e b')
  then obtain ok where "rd_set rd b now (sessionKey k) (Some d) ttl = (ok, b')" "ok = (e = None)"
    by (auto simp: redis_session_defs split: prod.splits if_splits)
  with 3(1) have "present b' \<subseteq>\<^sub>m (present b)(sessionKey k \<mapsto> Some d) \<or>
      e \<noteq> None \<and> present b' \<subseteq>\<^sub>m present b"
    unfolding redis_lawful_def by metis
  with 3(1) redis_sessions_mono [of present b' b] redis_sessions_upd [of present b' b k d]
  show ?case by blast
next
  case (4 b now k e b')
  then obtain ok where d: "rd_del rd b now (sessionKey k) = (ok, b')" "ok = (e = None)"
    by (auto simp: redis_session_defs split: prod.splits if_splits)
  then have "present b' \<subseteq>\<^sub>m present b" "ok \<longrightarrow> present b' (sessionKey k) = None"
    using 4(1) unfolding redis_lawful_def by metis+
  with 4(1) d(2) show ?case by (auto intro: redis_sessions_mono simp: redis_sessions_def)
qed

subsection \<open>Properties\<close>

text \<open>C15: A session id only ever stands for what was created under it. After any sequence of
  creates, gets, deletes and clean-ups on a fresh store, in memory or on a Redis server that
  answers GET with what it holds, whatever that server loses and whichever commands fail: if
  \<open>Get\<close> returns session data for an id, the log shows that these data were created under exactly
  this id, that no later delete of the id was confirmed, and the session has not expired.\<close>
theorem session_authentic:
  assumes "redis_lawful rd present"
    and "backend = None \<or> (\<exists>r. backend = Some r \<and> present r = Map.empty)"
    and "session_run (redis_session_ops rd) (NewSessionStore ttl backend) cs [] = (lg, s)"
    and "fst (session_Get (redis_session_ops rd) s now bnow k) = Some d"
  shows "live_session (if ttl = 0 then day_ns else ttl) lg k d \<and> now \<le> sd_expires_at d"
proof (rule redisbk.get_live [OF _ assms(3,4)])
  fix b assume "backend = Some b"
  with assms(2) have "present b = Map.empty" by auto
  then show "redis_lawful rd present \<and> redis_sessions present b = Map.empty"
    using assms(1) by (auto simp: redis_sessions_def)
qed

text \<open>A Redis server that is a map, for the witness; expiry is left to the store's own check.\<close>

definition map_redis :: "(string \<rightharpoonup> session_text) redis_client" where
  "map_redis = \<lparr>rd_set = (\<lambda>r now k x ttl. (True, r(k \<mapsto> x))),
     rd_get = (\<lambda>r now k. ((case r k of None \<Rightarrow> RedisNil | Some x \<Rightarrow> RedisBytes x), r)),
     rd_del = (\<lambda>r now k. (True, r(k := None)))\<rparr>"

lemma map_redis_lawful: "redis_lawful map_redis (\<lambda>r. r)"
  by (auto simp: redis_lawful_def map_redis_def split: option.splits)

definition sample_session :: session_data where
  "sample_session = \<lparr>sd_user_id = ''u1'', sd_email = ''a@x'', sd_name = ''A'', sd_id_token = [],
     sd_expires_at = 0, sd_is_admin = False, sd_owner_iss = ''iss'', sd_owner_sub = ''alice'',
     sd_tenant_id = []\<rparr>"

definition sample_session_calls :: "session_call list" where
  "sample_session_calls = [CallCreate 5 6 (Some ''abc'') (Some sample_session), CallDelete 7 ''zzz'']"

theorem session_authentic_witness:
  "\<exists>lg s. session_run (redis_session_ops map_redis) (NewSessionStore 100 (Some Map.empty))
            sample_session_calls [] = (lg, s) \<and>
     fst (session_Get (redis_session_ops map_redis) s 50 51 ''YWJj'') =
       Some (sample_session\<lparr>sd_expires_at := 105\<rparr>) \<and>
     live_session 100 lg ''YWJj'' (sample_session\<lparr>sd_expires_at := 105\<rparr>)"
proof -
  have enc: "url_encode ''abc'' = ''YWJj''" by code_simp
  let ?ops = "redis_session_ops map_redis"
  let ?run = "session_run ?ops (NewSessionStore 100 (Some Map.empty)) sample_session_calls []"
  have run: "?run = (fst ?run, snd ?run)" by simp
  have got: "fst (session_Get ?ops (snd ?run) 50 51 ''YWJj'') = Some (sample_session\<lparr>sd_expires_at := 105\<rparr>)"
    by (simp add: sample_session_calls_def session_Create_def generateSessionID_def enc
        NewSessionStore_def redis_session_defs map_redis_def stored_session_def session_Get_def
        DeleteWithError_def sessionKey_def)
  have "live_session 100 (fst ?run) ''YWJj'' (sample_session\<lparr>sd_expires_at := 105\<rparr>)"
    using session_authentic [OF map_redis_lawful _ run got] by simp
  with run got show ?thesis by blast
qed

text \<open>On the in-memory backend a session lives exactly as long as it should: once created it is
  returned under its id, and with the data it was created with, at every time until its expiry;
  it is refused after that, whatever was created in between under other ids; and a deleted
  session is refused at any later time. A zero \<open>ttl\<close> means 24 hours.\<close>
theorem session_lifecycle:
  assumes "st_backend s = Some b" and "now \<le> bnow"
    and "session_Create mem_ops s now bnow (Some rnd) (Some d) = (r, s1)"
  shows "r = Inr (url_encode rnd) \<and>
    (now' \<le> now + st_ttl s \<and> bnow' \<le> now' \<longrightarrow>
       session_Get mem_ops s1 now' bnow' (url_encode rnd) = (Some (stored_session s now d), s1)) \<and>
    (now + st_ttl s < now' \<longrightarrow> fst (session_Get mem_ops s1 now' bnow' (url_encode rnd)) = None) \<and>
    fst (session_Get mem_ops (snd (DeleteWithError mem_ops s1 t (url_encode rnd))) now' bnow'
           (url_encode rnd)) = None \<and>
    (k \<noteq> url_encode rnd \<longrightarrow>
       fst (session_Get mem_ops s1 now' bnow' k) = fst (session_Get mem_ops s now' bnow' k))"
proof -
  let ?k = "url_encode rnd" and ?d = "stored_session s now d"
  have d: "sd_expires_at ?d = now + st_ttl s" by (simp add: stored_session_def)
  from assms(1,3) have r: "r = Inr ?k" and
    s1: "s1 = s\<lparr>st_backend := Some (snd (mem_Create b bnow ?k ?d (st_ttl s)))\<rparr>"
    by (simp_all add: session_Create_def generateSessionID_def mem_ops_def mem_Create_def)
  have get: "session_Get mem_ops s1 now' bnow' x =
      (case mem_Get (snd (mem_Create b bnow ?k ?d (st_ttl s))) bnow' x of
         (Inl e, b') \<Rightarrow> (None, s\<lparr>st_backend := Some b'\<rparr>)
       | (Inr None, b') \<Rightarrow> (None, s\<lparr>st_backend := Some b'\<rparr>)
       | (Inr (Some d), b') \<Rightarrow>
           ((if sd_expires_at d < now' then None else Some d), s\<lparr>st_backend := Some b'\<rparr>))" for x
    by (simp add: s1 session_Get_def mem_ops_def split: prod.split sum.split option.split)
  note mem = mem_Get_def mem_Create_def mem_Delete_def
  have "now' \<le> now + st_ttl s \<and> bnow' \<le> now' \<longrightarrow> session_Get mem_ops s1 now' bnow' ?k = (Some ?d, s1)"
    using assms(2) d unfolding get by (simp add: mem s1)
  moreover have "now + st_ttl s < now' \<longrightarrow> fst (session_Get mem_ops s1 now' bnow' ?k) = None"
    using d unfolding get by (simp add: mem)
  moreover have "fst (session_Get mem_ops (snd (DeleteWithError mem_ops s1 t ?k)) now' bnow' ?k) = None"
    by (simp add: s1 DeleteWithError_def session_Get_def mem_ops_def mem)
  moreover have "k \<noteq> ?k \<longrightarrow>
      fst (session_Get mem_ops s1 now' bnow' k) = fst (session_Get mem_ops s now' bnow' k)"
    unfolding get using assms(1)
    by (simp add: session_Get_def mem_ops_def mem split: option.split)
  ultimately show ?thesis using r by blast
qed

theorem session_lifecycle_witness:
  "fst (session_Get mem_ops
      (snd (session_Create mem_ops (NewSessionStore 100 (Some NewMemorySessionBackend)) 5 6
              (Some ''abc'') (Some sample_session))) 105 104 (url_encode ''abc''))
   = Some (sample_session\<lparr>sd_expires_at := 105\<rparr>)"
proof -
  let ?s = "NewSessionStore 100 (Some NewMemorySessionBackend)"
  have s: "st_backend ?s = Some NewMemorySessionBackend" "st_ttl ?s = 100"
    by (simp_all add: NewSessionStore_def)
  have "session_Create mem_ops ?s 5 6 (Some ''abc'') (Some sample_session) =
      (fst (session_Create mem_ops ?s 5 6 (Some ''abc'') (Some sample_session)),
       snd (session_Create mem_ops ?s 5 6 (Some ''abc'') (Some sample_session)))" by simp
  from session_lifecycle [OF s(1) _ this, of 105 104] show ?thesis
    by (simp add: s(2) stored_session_def)
qed

end
