(* ===== verification/Auth.thy ===== *)
theory Auth
  imports Sessions
begin

text \<open>
  \<open>internal/auth/auth.go\<close> and \<open>authenticator.go\<close>: the JWKS key cache, the validation of tokens
  and the chain of authenticators in front of the API.

  The JWT library is a parameter: \<open>jl_parse\<close> is \<open>jwt.Parse\<close> with its key function, which reads
  and changes the key cache, and \<open>jl_unverified\<close> is \<open>ParseUnverified\<close>. The identity provider is
  a parameter too: \<open>idp url\<close> is what an HTTP GET answers at the time of the call. A request is
  handled at one instant \<open>now\<close>. Times and durations are in nanoseconds.
\<close>

subsection \<open>Requests as they arrive\<close>

record wire_request =
  w_method :: string
  w_path :: string
  w_query :: "(string \<times> string) list"
  w_authorization :: string
  w_accept :: string
  w_forwarded_proto :: string
  w_host :: string
  w_tls :: bool
  w_cookies :: "(string \<times> string) list"

definition w_cookie :: "wire_request \<Rightarrow> string \<Rightarrow> string option" where
  "w_cookie r name = map_of (w_cookies r) name"

definition w_query_get :: "wire_request \<Rightarrow> string \<Rightarrow> string" where
  "w_query_get r key = (case map_of (w_query r) key of Some v \<Rightarrow> v | None \<Rightarrow> [])"

definition zero_wire :: wire_request where
  "zero_wire = \<lparr>w_method = ''GET'', w_path = ''/'', w_query = [], w_authorization = [],
     w_accept = [], w_forwarded_proto = [], w_host = [], w_tls = False, w_cookies = []\<rparr>"

subsection \<open>Configuration and keys\<close>

record auth_config =
  au_enabled :: bool
  au_issuer :: string
  au_discovery_url :: string
  au_audiences :: "string list"
  au_clock_skew :: int
  au_stale_ttl :: int
  au_admin_claim :: string

datatype curve = P256 | P384 | P521

datatype public_key = RsaKey nat int | EcKey curve nat nat

datatype auth_error =
    IssuerNotConfigured
  | DiscoveryFailed
  | DiscoveryStatus nat
  | DiscoveryDecode
  | NoJwksUri
  | JwksFetchFailed
  | JwksStatus nat
  | JwksDecode
  | NoUsableKeys
  | StaleKeys auth_error
  | UnsupportedAlgorithm
  | MissingKid
  | UnknownKid string
  | TokenRejected
  | AuthNotEnabled
  | BadAuthorization
  | SessionTokenInvalid auth_error
  | CredentialError string

text \<open>
  The fields of \<open>Middleware\<close> that change: the keys by id (the newest first) and the times of
  the last successful fetch and of the last on-demand refresh; \<open>None\<close> is Go's zero time.
\<close>

record key_cache =
  kc_keys :: "(string \<times> public_key) list"
  kc_last_fetched :: "timestamp option"
  kc_last_refresh :: "timestamp option"

definition second_ns :: int where "second_ns = 1000000000"
definition refreshCooldown :: int where "refreshCooldown = 30 * second_ns"
definition normalRefreshInterval :: int where "normalRefreshInterval = 3600 * second_ns"
definition initialRetryInterval :: int where "initialRetryInterval = 300 * second_ns"
definition maxRetryInterval :: int where "maxRetryInterval = 1800 * second_ns"

lemmas interval_defs =
  second_ns_def refreshCooldown_def normalRefreshInterval_def initialRetryInterval_def
  maxRetryInterval_def

text \<open>\<open>time.Since\<close>: from the zero time on it is the largest duration.\<close>

definition since :: "timestamp \<Rightarrow> timestamp option \<Rightarrow> int" where
  "since now t = (case t of None \<Rightarrow> max_int64 | Some u \<Rightarrow> now - u)"

subsection \<open>Key documents\<close>

record jwk =
  jk_kid :: string
  jk_kty :: string
  jk_use :: string
  jk_n :: string
  jk_e :: string
  jk_crv :: string
  jk_x :: string
  jk_y :: string

definition parseRSAKey :: "string \<Rightarrow> string \<Rightarrow> public_key option" where
  "parseRSAKey nB64 eB64 =
     (case raw_url_decode nB64 of
        None \<Rightarrow> None
      | Some nBytes \<Rightarrow>
          (case raw_url_decode eB64 of
             None \<Rightarrow> None
           | Some eBytes \<Rightarrow> Some (RsaKey (SetBytes nBytes) (wrap64 (int (SetBytes eBytes))))))"

definition curve_of :: "string \<Rightarrow> curve option" where
  "curve_of crv = (if crv = ''P-256'' then Some P256 else if crv = ''P-384'' then Some P384
                   else if crv = ''P-521'' then Some P521 else None)"

definition parseECKey :: "string \<Rightarrow> string \<Rightarrow> string \<Rightarrow> public_key option" where
  "parseECKey crv xB64 yB64 =
     (case curve_of crv of
        None \<Rightarrow> None
      | Some c \<Rightarrow>
          (if xB64 = [] \<or> yB64 = [] then None
           else case raw_url_decode xB64 of
                  None \<Rightarrow> None
                | Some xBytes \<Rightarrow>
                    (case raw_url_decode yB64 of
                       None \<Rightarrow> None
                     | Some yBytes \<Rightarrow> Some (EcKey c (SetBytes xBytes) (SetBytes yBytes)))))"

text \<open>One round of the loop over the document: the key it loads, if any.\<close>

definition usable_key :: "jwk \<Rightarrow> public_key option" where
  "usable_key k =
     (if jk_use k \<noteq> ''sig'' then None
      else if jk_kty k = ''RSA'' then parseRSAKey (jk_n k) (jk_e k)
      else if jk_kty k = ''EC'' then parseECKey (jk_crv k) (jk_x k) (jk_y k)
      else None)"

fun load_keys :: "jwk list \<Rightarrow> (string \<times> public_key) list \<Rightarrow> (string \<times> public_key) list" where
  "load_keys [] acc = acc"
| "load_keys (k # ks) acc =
     (case usable_key k of
        None \<Rightarrow> load_keys ks acc
      | Some pk \<Rightarrow> load_keys ks ((jk_kid k, pk) # acc))"

text \<open>Decoding of the two documents; of several \<open>keys\<close> members the last counts.\<close>

fun decode_jwk :: "json \<Rightarrow> jwk option" where
  "decode_jwk (JObj m) =
     (case all_some (map (\<lambda>f. struct_string_field f m [])
              [''kid'', ''kty'', ''use'', ''n'', ''e'', ''crv'', ''x'', ''y'']) of
        Some [kid, kty, use, n, e, crv, x, y] \<Rightarrow>
          Some \<lparr>jk_kid = kid, jk_kty = kty, jk_use = use, jk_n = n, jk_e = e, jk_crv = crv,
                jk_x = x, jk_y = y\<rparr>
      | _ \<Rightarrow> None)"
| "decode_jwk JNull = Some \<lparr>jk_kid = [], jk_kty = [], jk_use = [], jk_n = [], jk_e = [],
     jk_crv = [], jk_x = [], jk_y = []\<rparr>"
| "decode_jwk _ = None"

fun keys_field :: "jmap \<Rightarrow> jwk list \<Rightarrow> jwk list option" where
  "keys_field [] acc = Some acc"
| "keys_field ((k, v) # kvs) acc =
     (if to_lower k = ''keys''
      then (case v of
              JArr xs \<Rightarrow> (case all_some (map decode_jwk xs) of
                            Some ks \<Rightarrow> keys_field kvs ks | None \<Rightarrow> None)
            | JNull \<Rightarrow> keys_field kvs []
            | _ \<Rightarrow> None)
      else keys_field kvs acc)"

fun decode_jwks :: "raw \<Rightarrow> jwk list option" where
  "decode_jwks (RawJson (JObj m)) = keys_field m []"
| "decode_jwks (RawJson JNull) = Some []"
| "decode_jwks _ = None"

fun decode_string_member :: "string \<Rightarrow> raw \<Rightarrow> string option" where
  "decode_string_member f (RawJson (JObj m)) = struct_string_field f m []"
| "decode_string_member f (RawJson JNull) = Some []"
| "decode_string_member f _ = None"

subsection \<open>Refreshing the keys\<close>

datatype idp_answer = IdpError | IdpAnswer nat raw

type_synonym idp = "string \<Rightarrow> idp_answer"

definition trim_suffix :: "string \<Rightarrow> string \<Rightarrow> string" where
  "trim_suffix s p = (if has_suffix s p then take (length s - length p) s else s)"

definition discovery_url :: "auth_config \<Rightarrow> string" where
  "discovery_url cfg =
     (if au_discovery_url cfg = []
      then trim_suffix (au_issuer cfg) ''/'' @ ''/.well-known/openid-configuration''
      else au_discovery_url cfg)"

definition discoverJWKSURL :: "auth_config \<Rightarrow> idp \<Rightarrow> auth_error + string" where
  "discoverJWKSURL cfg idp =
     (case idp (discovery_url cfg) of
        IdpError \<Rightarrow> Inl DiscoveryFailed
      | IdpAnswer st body \<Rightarrow>
          (if st \<noteq> 200 then Inl (DiscoveryStatus st)
           else case decode_string_member ''jwks_uri'' body of
                  None \<Rightarrow> Inl DiscoveryDecode
                | Some uri \<Rightarrow> if uri = [] then Inl NoJwksUri else Inr uri))"

definition fetch_keys :: "auth_config \<Rightarrow> idp \<Rightarrow> auth_error + (string \<times> public_key) list" where
  "fetch_keys cfg idp =
     (case discoverJWKSURL cfg idp of
        Inl e \<Rightarrow> Inl e
      | Inr url \<Rightarrow>
          (case idp url of
             IdpError \<Rightarrow> Inl JwksFetchFailed
           | IdpAnswer st body \<Rightarrow>
               (if st \<noteq> 200 then Inl (JwksStatus st)
                else case decode_jwks body of
                       None \<Rightarrow> Inl JwksDecode
                     | Some ks \<Rightarrow>
                         (let newKeys = load_keys ks [] in
                          if newKeys = [] then Inl NoUsableKeys else Inr newKeys))))"

definition refreshJWKS ::
  "auth_config \<Rightarrow> idp \<Rightarrow> timestamp \<Rightarrow> key_cache \<Rightarrow> auth_error option \<times> key_cache" where
  "refreshJWKS cfg idp now kc =
     (case fetch_keys cfg idp of
        Inl e \<Rightarrow> (Some e, kc)
      | Inr newKeys \<Rightarrow> (None, kc\<lparr>kc_keys := newKeys, kc_last_fetched := Some now\<rparr>))"

definition forceRefresh ::
  "auth_config \<Rightarrow> idp \<Rightarrow> timestamp \<Rightarrow> key_cache \<Rightarrow> auth_error option \<times> key_cache" where
  "forceRefresh cfg idp now kc =
     (case refreshJWKS cfg idp now kc of (e, kc') \<Rightarrow> (e, kc'\<lparr>kc_last_refresh := Some now\<rparr>))"

definition refreshIfCooledDown ::
  "auth_config \<Rightarrow> idp \<Rightarrow> timestamp \<Rightarrow> key_cache \<Rightarrow> auth_error option \<times> key_cache" where
  "refreshIfCooledDown cfg idp now kc =
     (if since now (kc_last_refresh kc) < refreshCooldown then (None, kc)
      else case refreshJWKS cfg idp now kc of (e, kc') \<Rightarrow> (e, kc'\<lparr>kc_last_refresh := Some now\<rparr>))"

text \<open>One tick of \<open>periodicRefresh\<close>: the next wait and the next retry interval.\<close>

definition periodic_tick ::
  "auth_config \<Rightarrow> idp \<Rightarrow> timestamp \<Rightarrow> int \<Rightarrow> key_cache \<Rightarrow> int \<times> int \<times> key_cache" where
  "periodic_tick cfg idp now retry kc =
     (case refreshJWKS cfg idp now kc of
        (Some e, kc') \<Rightarrow> (retry, min (retry * 2) maxRetryInterval, kc')
      | (None, kc') \<Rightarrow> (normalRefreshInterval, initialRetryInterval, kc'))"

subsection \<open>Tokens\<close>

datatype jwt_method = MRSA | MRSAPSS | MECDSA | MHMAC | MEd25519 | MNone | MOther string

record jwt_header =
  jh_method :: jwt_method
  jh_kid :: "json option"

record parse_opts =
  po_issuer :: string
  po_exp_required :: bool
  po_audiences :: "string list"
  po_leeway :: int

type_synonym key_func = "jwt_header \<Rightarrow> key_cache \<Rightarrow> (auth_error + public_key) \<times> key_cache"

record jwt_lib =
  jl_parse :: "parse_opts \<Rightarrow> timestamp \<Rightarrow> string \<Rightarrow> key_func \<Rightarrow> key_cache \<Rightarrow>
    (auth_error + jmap) \<times> key_cache"
  jl_unverified :: "string \<Rightarrow> jmap option"

definition parse_options :: "auth_config \<Rightarrow> parse_opts" where
  "parse_options cfg = \<lparr>po_issuer = au_issuer cfg, po_exp_required = True,
     po_audiences = au_audiences cfg,
     po_leeway = (if 0 < au_clock_skew cfg then au_clock_skew cfg else 0)\<rparr>"

fun asymmetric :: "jwt_method \<Rightarrow> bool" where
  "asymmetric MRSA = True"
| "asymmetric MRSAPSS = True"
| "asymmetric MECDSA = True"
| "asymmetric _ = False"

text \<open>The key function \<open>validateToken\<close> hands to the library.\<close>

definition token_key :: "auth_config \<Rightarrow> idp \<Rightarrow> timestamp \<Rightarrow> key_func" where
  "token_key cfg idp now h kc =
     (if \<not> asymmetric (jh_method h) then (Inl UnsupportedAlgorithm, kc)
      else case jh_kid h of
             Some (JStr kid) \<Rightarrow>
               (case map_of (kc_keys kc) kid of
                  Some key \<Rightarrow> (Inr key, kc)
                | None \<Rightarrow>
                    (let kc' = snd (refreshIfCooledDown cfg idp now kc) in
                     case map_of (kc_keys kc') kid of
                       Some key \<Rightarrow> (Inr key, kc')
                     | None \<Rightarrow> (Inl (UnknownKid kid), kc')))
           | _ \<Rightarrow> (Inl MissingKid, kc))"

text \<open>The stale check at the start of \<open>validateToken\<close>.\<close>

definition ensure_fresh ::
  "auth_config \<Rightarrow> idp \<Rightarrow> timestamp \<Rightarrow> key_cache \<Rightarrow> auth_error option \<times> key_cache" where
  "ensure_fresh cfg idp now kc =
     (if 0 < au_stale_ttl cfg \<and> au_stale_ttl cfg < since now (kc_last_fetched kc)
      then forceRefresh cfg idp now kc else (None, kc))"

definition validateToken ::
  "auth_config \<Rightarrow> jwt_lib \<Rightarrow> idp \<Rightarrow> timestamp \<Rightarrow> key_cache \<Rightarrow> string \<Rightarrow>
   (auth_error + jmap) \<times> key_cache" where
  "validateToken cfg lib idp now kc tok =
     (case ensure_fresh cfg idp now kc of
        (Some e, kc') \<Rightarrow> (Inl (StaleKeys e), kc')
      | (None, kc') \<Rightarrow> jl_parse lib (parse_options cfg) now tok (token_key cfg idp now) kc')"

text \<open>\<open>Middleware.Validate\<close>.\<close>

definition validate_enabled ::
  "auth_config \<Rightarrow> jwt_lib \<Rightarrow> idp \<Rightarrow> timestamp \<Rightarrow> key_cache \<Rightarrow> string \<Rightarrow>
   (auth_error + jmap) \<times> key_cache" where
  "validate_enabled cfg lib idp now kc tok =
     (if \<not> au_enabled cfg then (Inl AuthNotEnabled, kc) else validateToken cfg lib idp now kc tok)"

subsection \<open>The authenticators\<close>

text \<open>
  \<open>au_env\<close> is what a middleware does not change: its configuration, the library, the world, the
  session backend, whether an OIDC client is set, and the authenticator put in front of the
  chain (an implementation of \<open>Authenticator\<close> outside this package).
\<close>

type_synonym auth_result = "auth_error + principal option"

record 'b auth_env =
  ae_cfg :: auth_config
  ae_lib :: jwt_lib
  ae_idp :: idp
  ae_sess :: "'b session_backend"
  ae_oidc :: bool
  ae_extra :: "wire_request \<Rightarrow> timestamp \<Rightarrow> auth_result"

record 'b auth_state =
  as_keys :: key_cache
  as_sessions :: "'b session_store"

definition extra_claims :: "auth_config \<Rightarrow> string list" where
  "extra_claims cfg = (if au_admin_claim cfg \<noteq> [] then [au_admin_claim cfg] else [])"

text \<open>Validate a token and turn its claims into a principal.\<close>

definition token_principal ::
  "'b auth_env \<Rightarrow> timestamp \<Rightarrow> 'b auth_state \<Rightarrow> string \<Rightarrow> auth_result \<times> 'b auth_state" where
  "token_principal env now s tok =
     (case validateToken (ae_cfg env) (ae_lib env) (ae_idp env) now (as_keys s) tok of
        (Inl e, kc) \<Rightarrow> (Inl e, s\<lparr>as_keys := kc\<rparr>)
      | (Inr claims, kc) \<Rightarrow>
          (Inr (Some (PrincipalFromClaims claims (extra_claims (ae_cfg env)))), s\<lparr>as_keys := kc\<rparr>))"

text \<open>\<open>bearer_value\<close> is \<open>None\<close> for a header that is not of the bearer form.\<close>

definition bearer_value :: "string \<Rightarrow> string option" where
  "bearer_value h =
     (case split2 (CHR '' '') h of
        [scheme, tok] \<Rightarrow> if to_lower scheme = ''bearer'' then Some tok else None
      | _ \<Rightarrow> None)"

definition count_char :: "char \<Rightarrow> string \<Rightarrow> nat" where
  "count_char c s = length (filter (\<lambda>d. d = c) s)"

definition jwt_authenticate ::
  "'b auth_env \<Rightarrow> timestamp \<Rightarrow> wire_request \<Rightarrow> 'b auth_state \<Rightarrow> auth_result \<times> 'b auth_state" where
  "jwt_authenticate env now r s =
     (if w_authorization r = [] then (Inr None, s)
      else case bearer_value (w_authorization r) of
             None \<Rightarrow> (Inl BadAuthorization, s)
           | Some tok \<Rightarrow>
               (if count_char (CHR ''.'') tok \<noteq> 2 then (Inr None, s)
                else token_principal env now s tok))"

definition OIDCSessionCookieName :: string where "OIDCSessionCookieName = ''session''"
definition SessionCookieName :: string where "SessionCookieName = ''lattice_session''"

definition getSession ::
  "'b session_backend \<Rightarrow> timestamp \<Rightarrow> wire_request \<Rightarrow> 'b session_store \<Rightarrow>
   session_data option \<times> 'b session_store" where
  "getSession ops now r ss =
     (case w_cookie r OIDCSessionCookieName of
        None \<Rightarrow> (None, ss)
      | Some k \<Rightarrow> session_Get ops ss now now k)"

definition cookie_token ::
  "'b auth_env \<Rightarrow> timestamp \<Rightarrow> wire_request \<Rightarrow> 'b auth_state \<Rightarrow> auth_result \<times> 'b auth_state" where
  "cookie_token env now r s =
     (case w_cookie r SessionCookieName of
        None \<Rightarrow> (Inr None, s)
      | Some v \<Rightarrow> if v = [] then (Inr None, s) else token_principal env now s v)"

definition session_authenticate ::
  "'b auth_env \<Rightarrow> timestamp \<Rightarrow> wire_request \<Rightarrow> 'b auth_state \<Rightarrow> auth_result \<times> 'b auth_state" where
  "session_authenticate env now r s =
     (if \<not> ae_oidc env then cookie_token env now r s
      else case getSession (ae_sess env) now r (as_sessions s) of
             (None, ss) \<Rightarrow> cookie_token env now r (s\<lparr>as_sessions := ss\<rparr>)
           | (Some sd, ss) \<Rightarrow>
               (case token_principal env now (s\<lparr>as_sessions := ss\<rparr>) (sd_id_token sd) of
                  (Inl e, s') \<Rightarrow> (Inl (SessionTokenInvalid e), s')
                | (Inr p, s') \<Rightarrow> (Inr p, s')))"

datatype authn = AuthnExtra | AuthnJwt | AuthnSession

fun authenticate ::
  "'b auth_env \<Rightarrow> timestamp \<Rightarrow> wire_request \<Rightarrow> authn \<Rightarrow> 'b auth_state \<Rightarrow> auth_result \<times> 'b auth_state"
where
  "authenticate env now r AuthnExtra s = (ae_extra env r now, s)"
| "authenticate env now r AuthnJwt s = jwt_authenticate env now r s"
| "authenticate env now r AuthnSession s = session_authenticate env now r s"

text \<open>The construction of the chain.\<close>

definition auth_New ::
  "auth_config \<Rightarrow> idp \<Rightarrow> timestamp \<Rightarrow> auth_error + (key_cache \<times> authn list)" where
  "auth_New cfg idp now =
     (let kc0 = \<lparr>kc_keys = [], kc_last_fetched = None, kc_last_refresh = None\<rparr> in
      if \<not> au_enabled cfg then Inr (kc0, [])
      else if au_issuer cfg = [] then Inl IssuerNotConfigured
      else case refreshJWKS cfg idp now kc0 of
             (Some e, _) \<Rightarrow> Inl e
           | (None, kc) \<Rightarrow> Inr (kc, [AuthnJwt, AuthnSession]))"

definition PrependAuthenticator :: "authn list \<Rightarrow> authn list" where
  "PrependAuthenticator chain = AuthnExtra # chain"

definition SetOIDCClient :: "authn list \<Rightarrow> authn list" where
  "SetOIDCClient chain = (if AuthnSession \<in> set chain then chain else chain @ [AuthnSession])"

text \<open>\<open>Middleware.Handler\<close>: the next handler runs with a principal or without, or 401.\<close>

datatype auth_outcome = AuthPass | AuthAs principal | AuthDenied "auth_error option"

fun run_chain ::
  "'b auth_env \<Rightarrow> timestamp \<Rightarrow> wire_request \<Rightarrow> authn list \<Rightarrow> 'b auth_state \<Rightarrow>
   auth_outcome \<times> 'b auth_state" where
  "run_chain env now r [] s = (AuthDenied None, s)"
| "run_chain env now r (a # chain) s =
     (case authenticate env now r a s of
        (Inl e, s') \<Rightarrow> (AuthDenied (Some e), s')
      | (Inr (Some p), s') \<Rightarrow> (AuthAs p, s')
      | (Inr None, s') \<Rightarrow> run_chain env now r chain s')"

definition auth_handler ::
  "'b auth_env \<Rightarrow> authn list \<Rightarrow> timestamp \<Rightarrow> wire_request \<Rightarrow> 'b auth_state \<Rightarrow>
   auth_outcome \<times> 'b auth_state" where
  "auth_handler env chain now r s =
     (if \<not> au_enabled (ae_cfg env) \<and> chain = [] then (AuthPass, s)
      else run_chain env now r chain s)"

end
