(* ===== verification/Oidc.thy ===== *)
theory Oidc
  imports Auth Users
begin

text \<open>
  The browser login: \<open>internal/auth/oidc_client.go\<close> (authorization code flow with PKCE, the
  callback, logout and the session middleware of the admin plane) and
  \<open>internal/auth/http_api.go\<close> (the endpoints the UI talks to).

  Random bytes, new user ids, the environment variable \<open>FRONTEND_URL\<close>, SHA-256 and the answers
  of the identity provider are arguments. A request is handled at one instant \<open>now\<close>.
\<close>

subsection \<open>Responses\<close>

record set_cookie =
  ck_name :: string
  ck_value :: string
  ck_domain :: string
  ck_max_age :: int
  ck_expires :: "timestamp option"
  ck_secure :: bool
  ck_strict :: bool

record session_user =
  su_id :: string
  su_email :: string
  su_name :: string
  su_is_admin :: bool

record session_response =
  sr_auth_enabled :: bool
  sr_oidc_enabled :: bool
  sr_authenticated :: bool
  sr_mode :: string
  sr_user :: "session_user option"

datatype auth_body =
    AbText string
  | AbRedirect string
  | AbError string
  | AbAuthorizationUrl string
  | AbMessage string
  | AbUser string string bool
  | AbSession session_response
  | AbClaims string jmap bool "user option"

record web_response =
  wr_status :: nat
  wr_cookies :: "set_cookie list"
  wr_body :: auth_body

definition web :: "nat \<Rightarrow> set_cookie list \<Rightarrow> auth_body \<Rightarrow> web_response" where
  "web st cs b = \<lparr>wr_status = st, wr_cookies = cs, wr_body = b\<rparr>"

lemma web_sel [simp]:
  "wr_status (web st cs b) = st" "wr_cookies (web st cs b) = cs" "wr_body (web st cs b) = b"
  by (simp_all add: web_def)

definition redirect :: "set_cookie list \<Rightarrow> string \<Rightarrow> web_response" where
  "redirect cs url = web 302 cs (AbRedirect url)"

definition writeJSONError :: "set_cookie list \<Rightarrow> string \<Rightarrow> nat \<Rightarrow> web_response" where
  "writeJSONError cs msg st = web st cs (AbError msg)"

definition isSecureRequest :: "wire_request \<Rightarrow> bool" where
  "isSecureRequest r = (w_tls r \<or> w_forwarded_proto r = ''https'')"

definition cookie_domain :: "wire_request \<Rightarrow> string" where
  "cookie_domain r = (if contains_str (w_host r) ''localhost'' then ''localhost'' else [])"

definition lax_cookie :: "string \<Rightarrow> string \<Rightarrow> wire_request \<Rightarrow> int \<Rightarrow> bool \<Rightarrow> set_cookie" where
  "lax_cookie name v r age secure = \<lparr>ck_name = name, ck_value = v, ck_domain = cookie_domain r,
     ck_max_age = age, ck_expires = None, ck_secure = secure, ck_strict = False\<rparr>"

subsection \<open>The client\<close>

record oidc_config =
  oc_issuer :: string
  oc_discovery_url :: string
  oc_client_id :: string
  oc_client_secret :: string
  oc_redirect_uri :: string
  oc_admin_email :: string

record oidc_client =
  ocl_cfg :: oidc_config
  ocl_authorization_endpoint :: string
  ocl_token_endpoint :: string
  ocl_userinfo_endpoint :: string

definition oidc_discover :: "oidc_config \<Rightarrow> idp \<Rightarrow> auth_error + oidc_client" where
  "oidc_discover cfg idp =
     (case idp (if oc_discovery_url cfg = []
                then trim_suffix (oc_issuer cfg) ''/'' @ ''/.well-known/openid-configuration''
                else oc_discovery_url cfg) of
        IdpError \<Rightarrow> Inl DiscoveryFailed
      | IdpAnswer st body \<Rightarrow>
          (if st \<noteq> 200 then Inl (DiscoveryStatus st)
           else case all_some (map (\<lambda>f. decode_string_member f body)
                       [''authorization_endpoint'', ''token_endpoint'', ''userinfo_endpoint'']) of
                  Some [a, t, u] \<Rightarrow>
                    Inr \<lparr>ocl_cfg = cfg, ocl_authorization_endpoint = a, ocl_token_endpoint = t,
                         ocl_userinfo_endpoint = u\<rparr>
                | _ \<Rightarrow> Inl DiscoveryDecode))"

text \<open>\<open>base64.RawURLEncoding.EncodeToString(b)[:length]\<close> of \<open>length\<close> random bytes.\<close>

definition generateRandomString :: "nat \<Rightarrow> string option \<Rightarrow> string option" where
  "generateRandomString n rnd = map_option (\<lambda>b. take n (raw_url_encode b)) rnd"

definition createCodeChallenge :: "(string \<Rightarrow> string) \<Rightarrow> string \<Rightarrow> string" where
  "createCodeChallenge sha256 verifier = raw_url_encode (sha256 verifier)"

text \<open>\<open>url.Values.Encode\<close>: keys in order, each value query-escaped.\<close>

definition upper_hex :: "nat \<Rightarrow> char" where
  "upper_hex n = ''0123456789ABCDEF'' ! n"

definition escape_char :: "char \<Rightarrow> string" where
  "escape_char c =
     (if c \<in> set ''ABCDEFGHIJKLMNOPQRSTUVWXYZabcdefghijklmnopqrstuvwxyz0123456789-_.~'' then [c]
      else if c = CHR '' '' then ''+''
      else [CHR 0x25, upper_hex (of_char c div 16), upper_hex (of_char c mod 16)])"

definition query_escape :: "string \<Rightarrow> string" where
  "query_escape s = concat (map escape_char s)"

definition url_values_encode :: "(string \<times> string) list \<Rightarrow> string" where
  "url_values_encode kvs =
     join_with ''&'' (map (\<lambda>(k, v). query_escape k @ ''='' @ query_escape v) (sort_key fst kvs))"

definition authorization_url :: "oidc_client \<Rightarrow> string \<Rightarrow> string \<Rightarrow> string" where
  "authorization_url c state challenge =
     ocl_authorization_endpoint c @ ''?'' @ url_values_encode
       [(''client_id'', oc_client_id (ocl_cfg c)), (''response_type'', ''code''),
        (''scope'', ''openid email profile''), (''redirect_uri'', oc_redirect_uri (ocl_cfg c)),
        (''state'', state), (''code_challenge'', challenge), (''code_challenge_method'', ''S256'')]"

definition oidcStateCookieName :: string where "oidcStateCookieName = ''oidc_state''"
definition oidcVerifierCookieName :: string where "oidcVerifierCookieName = ''oidc_verifier''"

text \<open>The URL and the two cookies; \<open>None\<close> when the random source fails.\<close>

definition prepareAuthorizationURL ::
  "oidc_client \<Rightarrow> (string \<Rightarrow> string) \<Rightarrow> string option \<Rightarrow> string option \<Rightarrow> wire_request \<Rightarrow>
   (string \<times> set_cookie list) option" where
  "prepareAuthorizationURL c sha256 rnd32 rnd43 r =
     (case generateRandomString 32 rnd32 of
        None \<Rightarrow> None
      | Some state \<Rightarrow>
          (case generateRandomString 43 rnd43 of
             None \<Rightarrow> None
           | Some verifier \<Rightarrow>
               Some (authorization_url c state (createCodeChallenge sha256 verifier),
                 [lax_cookie oidcStateCookieName state r 600 (isSecureRequest r),
                  lax_cookie oidcVerifierCookieName verifier r 600 (isSecureRequest r)])))"

definition HandleLogin ::
  "oidc_client \<Rightarrow> (string \<Rightarrow> string) \<Rightarrow> string option \<Rightarrow> string option \<Rightarrow> wire_request \<Rightarrow> web_response" where
  "HandleLogin c sha256 rnd32 rnd43 r =
     (case prepareAuthorizationURL c sha256 rnd32 rnd43 r of
        None \<Rightarrow> web 500 [] (AbText ''Internal server error'')
      | Some (url, cs) \<Rightarrow> redirect cs url)"

definition HandleOIDCLogin ::
  "oidc_client \<Rightarrow> (string \<Rightarrow> string) \<Rightarrow> string option \<Rightarrow> string option \<Rightarrow> wire_request \<Rightarrow> web_response" where
  "HandleOIDCLogin c sha256 rnd32 rnd43 r =
     (if w_method r = ''GET'' then HandleLogin c sha256 rnd32 rnd43 r
      else if w_method r = ''POST'' then
        (case prepareAuthorizationURL c sha256 rnd32 rnd43 r of
           None \<Rightarrow> writeJSONError [] ''Authentication failed'' 500
         | Some (url, cs) \<Rightarrow> web 200 cs (AbAuthorizationUrl url))
      else writeJSONError [] ''Method not allowed'' 405)"

subsection \<open>The code exchange\<close>

text \<open>
  \<open>endpoint\<close> answers a form POST to the token endpoint. Of the token response only the ID token
  is used, but every field must decode: strings, and an integer \<open>expires_in\<close>.
\<close>

type_synonym endpoint = "string \<Rightarrow> string \<Rightarrow> idp_answer"

fun int_text :: "string \<Rightarrow> bool" where
  "int_text [] = False"
| "int_text (c # s) =
     (if c = CHR ''-'' then s \<noteq> [] \<and> digits_val s 0 \<noteq> None else digits_val (c # s) 0 \<noteq> None)"

fun int_member_ok :: "string \<Rightarrow> jmap \<Rightarrow> bool" where
  "int_member_ok name [] = True"
| "int_member_ok name ((k, v) # kvs) =
     ((to_lower k = name \<longrightarrow> (case v of JNum s \<Rightarrow> int_text s | JNull \<Rightarrow> True | _ \<Rightarrow> False)) \<and>
      int_member_ok name kvs)"

fun decode_tokens :: "raw \<Rightarrow> string option" where
  "decode_tokens (RawJson (JObj m)) =
     (case all_some (map (\<lambda>f. struct_string_field f m [])
             [''access_token'', ''token_type'', ''refresh_token'', ''id_token'']) of
        Some [a, t, f, i] \<Rightarrow> if int_member_ok ''expires_in'' m then Some i else None
      | _ \<Rightarrow> None)"
| "decode_tokens (RawJson JNull) = Some []"
| "decode_tokens _ = None"

definition exchange_form :: "oidc_config \<Rightarrow> string \<Rightarrow> string \<Rightarrow> string" where
  "exchange_form cfg code verifier = url_values_encode
     ([(''grant_type'', ''authorization_code''), (''code'', code),
       (''redirect_uri'', oc_redirect_uri cfg), (''client_id'', oc_client_id cfg),
       (''code_verifier'', verifier)] @
      (if oc_client_secret cfg \<noteq> [] then [(''client_secret'', oc_client_secret cfg)] else []))"

definition exchangeCode :: "oidc_client \<Rightarrow> endpoint \<Rightarrow> string \<Rightarrow> string \<Rightarrow> string option" where
  "exchangeCode c post code verifier =
     (case post (ocl_token_endpoint c) (exchange_form (ocl_cfg c) code verifier) of
        IdpError \<Rightarrow> None
      | IdpAnswer st body \<Rightarrow> if st \<noteq> 200 then None else decode_tokens body)"

definition parseIDToken :: "jwt_lib \<Rightarrow> string \<Rightarrow> jmap option" where
  "parseIDToken lib tok = jl_unverified lib tok"

definition getClaimString :: "jmap \<Rightarrow> string \<Rightarrow> string" where
  "getClaimString claims key = (case jget_str claims key of Some s \<Rightarrow> s | None \<Rightarrow> [])"

subsection \<open>The callback\<close>

record 'b login_state =
  ls_users :: user_store
  ls_sessions :: "'b session_store"

text \<open>\<open>int((ttl + time.Second - 1) / time.Second)\<close> on a positive duration.\<close>

definition sessionCookieMaxAge :: "int \<Rightarrow> int" where
  "sessionCookieMaxAge ttl = (if ttl \<le> 0 then 1 else (ttl + second_ns - 1) div second_ns)"

definition login_session :: "user \<Rightarrow> string \<Rightarrow> jmap \<Rightarrow> session_data" where
  "login_session user idToken claims =
     \<lparr>sd_user_id = u_id user, sd_email = u_email user, sd_name = u_name user, sd_id_token = idToken,
      sd_expires_at = 0, sd_is_admin = IsAdmin user, sd_owner_iss = getClaimString claims ''iss'',
      sd_owner_sub = getClaimString claims ''sub'', sd_tenant_id = getTenantID claims\<rparr>"

definition clear_temporary :: "wire_request \<Rightarrow> set_cookie list" where
  "clear_temporary r =
     [lax_cookie oidcStateCookieName [] r (-1) True, lax_cookie oidcVerifierCookieName [] r (-1) True]"

text \<open>The part of the callback after the ID token has been parsed.\<close>

definition finish_login ::
  "oidc_client \<Rightarrow> 'b session_backend \<Rightarrow> string \<Rightarrow> timestamp \<Rightarrow> string \<Rightarrow> string option \<Rightarrow>
   wire_request \<Rightarrow> string \<Rightarrow> jmap \<Rightarrow> 'b login_state \<Rightarrow> web_response \<times> 'b login_state" where
  "finish_login c ops frontend now uuid rnd r idToken claims s =
     (case provision_login (oc_admin_email (ocl_cfg c)) (ls_users s) now uuid
             (getClaimString claims ''iss'') (getClaimString claims ''sub'')
             (getClaimString claims ''email'') (getClaimString claims ''name'') of
        (LoginFailed, us) \<Rightarrow>
          (web 500 (clear_temporary r) (AbText ''Authentication failed''), s\<lparr>ls_users := us\<rparr>)
      | (LoginInactive, us) \<Rightarrow>
          (web 403 (clear_temporary r) (AbText ''Account is not active''), s\<lparr>ls_users := us\<rparr>)
      | (LoginOk user, us) \<Rightarrow>
          (case session_Create ops (ls_sessions s) now now rnd (Some (login_session user idToken claims)) of
             (Inl e, ss) \<Rightarrow>
               (web 500 (clear_temporary r) (AbText ''Internal server error''),
                \<lparr>ls_users = us, ls_sessions = ss\<rparr>)
           | (Inr sessionID, ss) \<Rightarrow>
               (redirect
                  (clear_temporary r @
                   [(lax_cookie OIDCSessionCookieName sessionID r
                       (sessionCookieMaxAge (st_ttl (ls_sessions s))) (isSecureRequest r))
                      \<lparr>ck_expires := Some (now + st_ttl (ls_sessions s))\<rparr>])
                  (if frontend = [] then ''/'' else frontend),
                \<lparr>ls_users = us, ls_sessions = ss\<rparr>)))"

definition HandleCallback ::
  "oidc_client \<Rightarrow> jwt_lib \<Rightarrow> endpoint \<Rightarrow> 'b session_backend \<Rightarrow> string \<Rightarrow> timestamp \<Rightarrow> string \<Rightarrow>
   string option \<Rightarrow> wire_request \<Rightarrow> 'b login_state \<Rightarrow> web_response \<times> 'b login_state" where
  "HandleCallback c lib post ops frontend now uuid rnd r s =
     (if w_query_get r ''code'' = [] then (web 400 [] (AbText ''Missing code''), s)
      else case w_cookie r oidcStateCookieName of
        None \<Rightarrow> (web 400 [] (AbText ''Invalid state''), s)
      | Some stateCookie \<Rightarrow>
          (if w_query_get r ''state'' \<noteq> stateCookie then (web 400 [] (AbText ''Invalid state''), s)
           else case w_cookie r oidcVerifierCookieName of
             None \<Rightarrow> (web 400 [] (AbText ''Invalid request''), s)
           | Some verifier \<Rightarrow>
               (case exchangeCode c post (w_query_get r ''code'') verifier of
                  None \<Rightarrow> (web 500 (clear_temporary r) (AbText ''Authentication failed''), s)
                | Some idToken \<Rightarrow>
                    (case parseIDToken lib idToken of
                       None \<Rightarrow> (web 500 (clear_temporary r) (AbText ''Authentication failed''), s)
                     | Some claims \<Rightarrow>
                         finish_login c ops frontend now uuid rnd r idToken claims s))))"

subsection \<open>Logout and the current user\<close>

definition wantsJSON :: "wire_request \<Rightarrow> bool" where
  "wantsJSON r = contains_str (w_accept r) ''application/json''"

definition clearSession ::
  "'b session_backend \<Rightarrow> timestamp \<Rightarrow> wire_request \<Rightarrow> 'b session_store \<Rightarrow>
   session_error option \<times> set_cookie list \<times> 'b session_store" where
  "clearSession ops now r ss =
     (case (case w_cookie r OIDCSessionCookieName of
              None \<Rightarrow> (None, ss)
            | Some k \<Rightarrow> DeleteWithError ops ss now k) of
        (e, ss') \<Rightarrow> (e, [lax_cookie OIDCSessionCookieName [] r (-1) (isSecureRequest r)], ss'))"

definition oidc_HandleLogout ::
  "'b session_backend \<Rightarrow> string \<Rightarrow> timestamp \<Rightarrow> wire_request \<Rightarrow> 'b session_store \<Rightarrow>
   web_response \<times> 'b session_store" where
  "oidc_HandleLogout ops frontend now r ss =
     (if w_method r \<noteq> ''POST'' \<and> w_method r \<noteq> ''GET'' then
        (writeJSONError [] ''Method not allowed'' 405, ss)
      else case clearSession ops now r ss of
        (Some e, cs, ss') \<Rightarrow>
          ((if w_method r = ''POST'' \<or> wantsJSON r then writeJSONError cs ''Logout failed'' 500
            else web 500 cs (AbText ''Logout failed'')), ss')
      | (None, cs, ss') \<Rightarrow>
          ((if w_method r = ''POST'' \<or> wantsJSON r then web 200 cs (AbMessage ''logged out'')
            else redirect cs (frontend @ ''/auth/login'')), ss'))"

definition HandleUser ::
  "'b session_backend \<Rightarrow> timestamp \<Rightarrow> wire_request \<Rightarrow> 'b session_store \<Rightarrow>
   web_response \<times> 'b session_store" where
  "HandleUser ops now r ss =
     (case getSession ops now r ss of
        (None, ss') \<Rightarrow> (writeJSONError [] ''Unauthorized'' 401, ss')
      | (Some sd, ss') \<Rightarrow> (web 200 [] (AbUser (sd_email sd) (sd_name sd) (sd_is_admin sd)), ss'))"

subsection \<open>The session middleware\<close>

definition isAPIRequest :: "wire_request \<Rightarrow> bool" where
  "isAPIRequest r =
     (has_prefix (w_path r) ''/api/'' \<or> has_prefix (w_path r) ''/v1/'' \<or>
      contains_str (w_accept r) ''application/json'')"

definition public_path :: "string \<Rightarrow> bool" where
  "public_path p \<longleftrightarrow> has_prefix p ''/auth/'' \<or> has_prefix p ''/assets/'' \<or> p = ''/favicon.ico'' \<or>
     p = ''/manifest.json'' \<or> p = ''/robots.txt''"

text \<open>The request the handlers behind the middlewares see: here without any context value.\<close>

definition plain_request :: "wire_request \<Rightarrow> http_request" where
  "plain_request r = \<lparr>hr_method = w_method r, hr_path = w_path r, hr_query = w_query r,
     hr_principal = None, hr_is_admin = None, hr_user_id = None, hr_owner_iss = None,
     hr_owner_sub = None\<rparr>"

definition session_claims :: "session_data \<Rightarrow> jmap" where
  "session_claims sd = [(''sub'', JStr (sd_user_id sd)), (''email'', JStr (sd_email sd)),
     (''name'', JStr (sd_name sd))]"

definition session_request :: "wire_request \<Rightarrow> session_data \<Rightarrow> http_request" where
  "session_request r sd = (plain_request r)
     \<lparr>hr_principal := Some (PrincipalFromClaims (session_claims sd) []),
      hr_user_id := Some (CtxStr (sd_user_id sd)), hr_is_admin := Some (CtxBool (sd_is_admin sd)),
      hr_owner_iss := Some (CtxStr (sd_owner_iss sd)), hr_owner_sub := Some (CtxStr (sd_owner_sub sd))\<rparr>"

datatype gate = GatePass http_request | GateStop web_response

definition SessionMiddleware ::
  "'b session_backend \<Rightarrow> timestamp \<Rightarrow> wire_request \<Rightarrow> 'b session_store \<Rightarrow> gate \<times> 'b session_store" where
  "SessionMiddleware ops now r ss =
     (if public_path (w_path r) then (GatePass (plain_request r), ss)
      else case getSession ops now r ss of
        (None, ss') \<Rightarrow>
          (GateStop (if isAPIRequest r then writeJSONError [] ''Unauthorized'' 401
                     else redirect [] ''/auth/login''), ss')
      | (Some sd, ss') \<Rightarrow> (GatePass (session_request r sd), ss'))"

subsection \<open>The authentication endpoints of the UI\<close>

text \<open>
  \<open>API\<close> of \<open>http_api.go\<close>. \<open>aa_token_auth\<close> and \<open>aa_oidc\<close> say whether the middleware and the OIDC
  client are present (not nil); \<open>aa_users\<close> whether there is a user store.
\<close>

record auth_api =
  aa_auth_enabled :: bool
  aa_oidc_enabled :: bool
  aa_token_auth :: bool
  aa_oidc :: bool
  aa_users :: bool
  aa_admin_cfg :: admin_config

definition defaultMode :: "auth_api \<Rightarrow> string" where
  "defaultMode a =
     (if \<not> aa_auth_enabled a then ''none'' else if aa_oidc_enabled a then ''oidc'' else ''token'')"

definition tokenClaimsFromCookie ::
  "auth_api \<Rightarrow> 'b auth_env \<Rightarrow> timestamp \<Rightarrow> wire_request \<Rightarrow> 'b auth_state \<Rightarrow>
   jmap option \<times> 'b auth_state" where
  "tokenClaimsFromCookie a env now r s =
     (if \<not> aa_token_auth a then (None, s)
      else case w_cookie r SessionCookieName of
        None \<Rightarrow> (None, s)
      | Some v \<Rightarrow>
          (if v = [] then (None, s)
           else case validate_enabled (ae_cfg env) (ae_lib env) (ae_idp env) now (as_keys s) v of
             (Inl e, kc) \<Rightarrow> (None, s\<lparr>as_keys := kc\<rparr>)
           | (Inr claims, kc) \<Rightarrow> (Some claims, s\<lparr>as_keys := kc\<rparr>)))"

definition token_user :: "auth_api \<Rightarrow> jmap \<Rightarrow> session_user" where
  "token_user a claims = \<lparr>su_id = getClaimString claims ''sub'', su_email = getClaimString claims ''email'',
     su_name = getClaimString claims ''name'', su_is_admin = hasAdminAccess claims (aa_admin_cfg a)\<rparr>"

definition anonymous_session :: "auth_api \<Rightarrow> session_response" where
  "anonymous_session a = \<lparr>sr_auth_enabled = aa_auth_enabled a, sr_oidc_enabled = aa_oidc_enabled a,
     sr_authenticated = False, sr_mode = defaultMode a, sr_user = None\<rparr>"

definition authenticated_session :: "auth_api \<Rightarrow> string \<Rightarrow> session_user \<Rightarrow> session_response" where
  "authenticated_session a mode u =
     (anonymous_session a)\<lparr>sr_authenticated := True, sr_mode := mode, sr_user := Some u\<rparr>"

text \<open>The session of the OIDC client, if there is a client.\<close>

definition api_session ::
  "auth_api \<Rightarrow> 'b auth_env \<Rightarrow> timestamp \<Rightarrow> wire_request \<Rightarrow> 'b auth_state \<Rightarrow>
   session_data option \<times> 'b auth_state" where
  "api_session a env now r s =
     (if \<not> aa_oidc a then (None, s)
      else case getSession (ae_sess env) now r (as_sessions s) of
        (v, ss) \<Rightarrow> (v, s\<lparr>as_sessions := ss\<rparr>))"

definition HandleSession ::
  "auth_api \<Rightarrow> 'b auth_env \<Rightarrow> timestamp \<Rightarrow> wire_request \<Rightarrow> 'b auth_state \<Rightarrow>
   web_response \<times> 'b auth_state" where
  "HandleSession a env now r s =
     (if w_method r \<noteq> ''GET'' then (writeJSONError [] ''Method not allowed'' 405, s)
      else if \<not> aa_auth_enabled a then (web 200 [] (AbSession (anonymous_session a)), s)
      else case api_session a env now r s of
        (Some sd, s') \<Rightarrow>
          (web 200 [] (AbSession (authenticated_session a ''oidc''
             \<lparr>su_id = sd_user_id sd, su_email = sd_email sd, su_name = sd_name sd,
              su_is_admin = sd_is_admin sd\<rparr>)), s')
      | (None, s') \<Rightarrow>
          (case tokenClaimsFromCookie a env now r s' of
             (Some claims, s'') \<Rightarrow>
               (web 200 [] (AbSession (authenticated_session a ''token'' (token_user a claims))), s'')
           | (None, s'') \<Rightarrow> (web 200 [] (AbSession (anonymous_session a)), s'')))"

definition strict_cookie :: "string \<Rightarrow> wire_request \<Rightarrow> int \<Rightarrow> set_cookie" where
  "strict_cookie v r age = \<lparr>ck_name = SessionCookieName, ck_value = v, ck_domain = [],
     ck_max_age = age, ck_expires = None, ck_secure = isSecureRequest r, ck_strict = True\<rparr>"

text \<open>\<open>body\<close> is the decoded token field, \<open>None\<close> when the body does not decode.\<close>

definition HandleTokenLogin ::
  "auth_api \<Rightarrow> 'b auth_env \<Rightarrow> timestamp \<Rightarrow> wire_request \<Rightarrow> string option \<Rightarrow> 'b auth_state \<Rightarrow>
   web_response \<times> 'b auth_state" where
  "HandleTokenLogin a env now r body s =
     (if w_method r \<noteq> ''POST'' then (writeJSONError [] ''Method not allowed'' 405, s)
      else if \<not> aa_auth_enabled a then (writeJSONError [] ''Authentication is disabled'' 400, s)
      else if body = None \<or> body = Some [] then (writeJSONError [] ''Token is required'' 400, s)
      else if \<not> aa_token_auth a then (writeJSONError [] ''Authentication is not configured'' 503, s)
      else case validate_enabled (ae_cfg env) (ae_lib env) (ae_idp env) now (as_keys s) (the body) of
        (Inl e, kc) \<Rightarrow> (writeJSONError [] ''Invalid or expired token'' 401, s\<lparr>as_keys := kc\<rparr>)
      | (Inr claims, kc) \<Rightarrow>
          (case (if aa_oidc a then clearSession (ae_sess env) now r (as_sessions s)
                 else (None, [], as_sessions s)) of
             (Some e, cs, ss) \<Rightarrow>
               (writeJSONError cs ''Failed to clear existing session'' 500,
                \<lparr>as_keys = kc, as_sessions = ss\<rparr>)
           | (None, cs, ss) \<Rightarrow>
               (web 200 (cs @ [strict_cookie (the body) r 0])
                  (AbSession (authenticated_session a ''token'' (token_user a claims))),
                \<lparr>as_keys = kc, as_sessions = ss\<rparr>)))"

definition api_HandleLogout ::
  "auth_api \<Rightarrow> 'b session_backend \<Rightarrow> timestamp \<Rightarrow> wire_request \<Rightarrow> 'b session_store \<Rightarrow>
   web_response \<times> 'b session_store" where
  "api_HandleLogout a ops now r ss =
     (if w_method r \<noteq> ''POST'' then (writeJSONError [] ''Method not allowed'' 405, ss)
      else if \<not> aa_oidc a then (web 200 [strict_cookie [] r (-1)] (AbMessage ''logged out''), ss)
      else case clearSession ops now r ss of
        (Some e, cs, ss') \<Rightarrow> (writeJSONError (strict_cookie [] r (-1) # cs) ''Logout failed'' 500, ss')
      | (None, cs, ss') \<Rightarrow> (web 200 (strict_cookie [] r (-1) # cs) (AbMessage ''logged out''), ss'))"

definition HandleDebugClaims ::
  "auth_api \<Rightarrow> 'b auth_env \<Rightarrow> user_store \<Rightarrow> timestamp \<Rightarrow> wire_request \<Rightarrow> 'b auth_state \<Rightarrow>
   web_response \<times> 'b auth_state" where
  "HandleDebugClaims a env us now r s =
     (if w_method r \<noteq> ''GET'' then (writeJSONError [] ''Method not allowed'' 405, s)
      else if \<not> aa_auth_enabled a then (writeJSONError [] ''Auth is not enabled'' 400, s)
      else case api_session a env now r s of
        (Some sd, s') \<Rightarrow>
          (if \<not> sd_is_admin sd then (writeJSONError [] ''Admin access required'' 403, s')
           else case parseIDToken (ae_lib env) (sd_id_token sd) of
             None \<Rightarrow> (writeJSONError [] ''Failed to parse ID token'' 500, s')
           | Some claims \<Rightarrow>
               (web 200 [] (AbClaims ''oidc'' claims (sd_is_admin sd)
                  (if aa_users a \<and> sd_user_id sd \<noteq> []
                   then (case GetByID us (sd_user_id sd) of Inr u \<Rightarrow> Some u | Inl e \<Rightarrow> None)
                   else None)), s'))
      | (None, s') \<Rightarrow>
          (case tokenClaimsFromCookie a env now r s' of
             (Some claims, s'') \<Rightarrow>
               (web 200 [] (AbClaims ''token'' claims (hasAdminAccess claims (aa_admin_cfg a)) None), s'')
           | (None, s'') \<Rightarrow> (writeJSONError [] ''Not authenticated'' 401, s'')))"

end
