(* ===== verification/ApiKeys.thy ===== *)
theory ApiKeys
  imports Oidc Config
begin

text \<open>
  \<open>internal/apikeys\<close>: keys (\<open>apikey.go\<close>), their table (\<open>store.go\<close>), the authenticator put in
  front of the chain (\<open>authenticator.go\<close>) and the management endpoints (\<open>api.go\<close>). The table is
  the list of its rows; by its schema ids and hashes are unique and every key belongs to a row
  of the users table. SHA-256 is the parameter \<open>sha\<close>, random bytes and new ids are arguments.
\<close>

subsection \<open>Keys\<close>

record api_key =
  ak_id :: string
  ak_name :: string
  ak_key_hash :: string
  ak_key_prefix :: string
  ak_user_id :: string
  ak_status :: string
  ak_expires_at :: "timestamp option"
  ak_created_at :: timestamp
  ak_last_used_at :: "timestamp option"

definition KeyActive :: string where "KeyActive = ''active''"
definition KeyRevoked :: string where "KeyRevoked = ''revoked''"

lemma key_status_distinct [simp]: "KeyRevoked \<noteq> KeyActive" "KeyActive \<noteq> KeyRevoked"
    "KeyActive \<noteq> []"
  by (simp_all add: KeyActive_def KeyRevoked_def)

definition IsExpired :: "timestamp \<Rightarrow> api_key \<Rightarrow> bool" where
  "IsExpired now k = (case ak_expires_at k of None \<Rightarrow> False | Some t \<Rightarrow> t < now)"

definition keyPrefix :: string where "keyPrefix = ''sk-''"

definition HashKey :: "(string \<Rightarrow> string) \<Rightarrow> string \<Rightarrow> string" where
  "HashKey sha key = hex_encode (sha key)"

text \<open>The plaintext and its hash; \<open>None\<close> when the random source fails.\<close>

definition GenerateKey :: "(string \<Rightarrow> string) \<Rightarrow> string option \<Rightarrow> (string \<times> string) option" where
  "GenerateKey sha rnd =
     (case rnd of
        None \<Rightarrow> None
      | Some b \<Rightarrow> (let plaintext = keyPrefix @ hex_encode b in Some (plaintext, HashKey sha plaintext)))"

definition KeyDisplayPrefix :: "string \<Rightarrow> string" where
  "KeyDisplayPrefix plaintext =
     (if 11 < length plaintext then take 11 plaintext @ ''...'' else plaintext)"

subsection \<open>The store\<close>

record key_store =
  ks_up :: bool
  ks_rows :: "api_key list"

datatype key_error = KeyNoRows | KeyDbError | KeyNotOwned

record key_owner =
  ko_key :: api_key
  ko_oidc_iss :: string
  ko_oidc_sub :: string
  ko_user_role :: string
  ko_user_status :: string

definition key_Create ::
  "user_store \<Rightarrow> key_store \<Rightarrow> timestamp \<Rightarrow> string \<Rightarrow> api_key \<Rightarrow> (key_error + api_key) \<times> key_store" where
  "key_Create us s now uuid k0 =
     (let k = k0\<lparr>ak_id := (if ak_id k0 = [] then uuid else ak_id k0), ak_created_at := now,
                ak_status := (if ak_status k0 = [] then KeyActive else ak_status k0)\<rparr>
      in if \<not> ks_up s then (Inl KeyDbError, s)
         else if list_ex (\<lambda>r. ak_id r = ak_id k \<or> ak_key_hash r = ak_key_hash k) (ks_rows s)
         then (Inl KeyDbError, s)
         else if \<not> has_user us (ak_user_id k) then (Inl KeyDbError, s)
         else (Inr k, s\<lparr>ks_rows := ks_rows s @ [k\<lparr>ak_last_used_at := None\<rparr>]\<rparr>))"

text \<open>The join: the row of the hash with the row of its user.\<close>

definition key_Authenticate :: "user_store \<Rightarrow> key_store \<Rightarrow> string \<Rightarrow> key_error + key_owner" where
  "key_Authenticate us s hash =
     (if \<not> ks_up s then Inl KeyDbError
      else case first_some
                  (\<lambda>k. if ak_key_hash k = hash
                       then map_option (Pair k) (List.find (\<lambda>u. u_id u = ak_user_id k) (us_rows us))
                       else None) (ks_rows s) of
             None \<Rightarrow> Inl KeyNoRows
           | Some (k, u) \<Rightarrow>
               Inr \<lparr>ko_key = k, ko_oidc_iss = u_oidc_iss u, ko_oidc_sub = u_oidc_sub u,
                    ko_user_role = u_role u, ko_user_status = u_status u\<rparr>)"

definition ListByUser :: "key_store \<Rightarrow> string \<Rightarrow> key_error + api_key list" where
  "ListByUser s userID =
     (if \<not> ks_up s then Inl KeyDbError
      else Inr (map (\<lambda>k. k\<lparr>ak_key_hash := []\<rparr>)
                  (sort_key (\<lambda>k. - ak_created_at k) (filter (\<lambda>k. ak_user_id k = userID) (ks_rows s)))))"

definition owned_row :: "string \<Rightarrow> string \<Rightarrow> api_key \<Rightarrow> bool" where
  "owned_row k ownerID row = (ak_id row = k \<and> ak_user_id row = ownerID)"

definition Revoke :: "key_store \<Rightarrow> string \<Rightarrow> string \<Rightarrow> key_error option \<times> key_store" where
  "Revoke s k ownerID =
     (if \<not> ks_up s then (Some KeyDbError, s)
      else if \<not> list_ex (owned_row k ownerID) (ks_rows s) then (Some KeyNotOwned, s)
      else (None, s\<lparr>ks_rows := map (\<lambda>row. if owned_row k ownerID row
                                            then row\<lparr>ak_status := KeyRevoked\<rparr> else row) (ks_rows s)\<rparr>))"

definition key_Delete :: "key_store \<Rightarrow> string \<Rightarrow> string \<Rightarrow> key_error option \<times> key_store" where
  "key_Delete s k ownerID =
     (if \<not> ks_up s then (Some KeyDbError, s)
      else if \<not> list_ex (owned_row k ownerID) (ks_rows s) then (Some KeyNotOwned, s)
      else (None, s\<lparr>ks_rows := filter (\<lambda>row. \<not> owned_row k ownerID row) (ks_rows s)\<rparr>))"

definition TouchLastUsed :: "key_store \<Rightarrow> timestamp \<Rightarrow> string \<Rightarrow> key_store" where
  "TouchLastUsed s now k =
     (if \<not> ks_up s then s
      else s\<lparr>ks_rows := map (\<lambda>row. if ak_id row = k then row\<lparr>ak_last_used_at := Some now\<rparr> else row)
                          (ks_rows s)\<rparr>)"

subsection \<open>The authenticator\<close>

definition bearerToken :: "wire_request \<Rightarrow> string" where
  "bearerToken r =
     (if w_authorization r = [] then []
      else case bearer_value (w_authorization r) of None \<Rightarrow> [] | Some t \<Rightarrow> t)"

text \<open>
  \<open>Authenticate\<close>; on success it also starts \<open>TouchLastUsed\<close> in the background, which the second
  component names.
\<close>

definition key_authenticate ::
  "(string \<Rightarrow> string) \<Rightarrow> user_store \<Rightarrow> key_store \<Rightarrow> wire_request \<Rightarrow> timestamp \<Rightarrow>
   auth_result \<times> string option" where
  "key_authenticate sha us s r now =
     (let token = bearerToken r in
      if token = [] \<or> \<not> has_prefix token ''sk-'' then (Inr None, None)
      else case key_Authenticate us s (HashKey sha token) of
        Inl KeyNoRows \<Rightarrow> (Inl (CredentialError ''invalid API key''), None)
      | Inl e \<Rightarrow> (Inl (CredentialError ''API key lookup failed''), None)
      | Inr ko \<Rightarrow>
          (if ak_status (ko_key ko) \<noteq> KeyActive then (Inl (CredentialError ''API key revoked''), None)
           else if IsExpired now (ko_key ko) then (Inl (CredentialError ''API key expired''), None)
           else if ko_user_status ko \<noteq> ''active'' then (Inl (CredentialError ''user account inactive''), None)
           else (Inr (Some \<lparr>p_issuer = ko_oidc_iss ko, p_subject = ko_oidc_sub ko, p_tenant_id = [],
                            p_roles = [ko_user_role ko]\<rparr>), Some (ak_id (ko_key ko)))))"

subsection \<open>The endpoints\<close>

record key_response =
  kr_id :: string
  kr_name :: string
  kr_key :: string
  kr_key_prefix :: string
  kr_status :: string
  kr_expires_at :: "timestamp option"
  kr_created_at :: timestamp
  kr_last_used_at :: "timestamp option"

datatype key_body =
    KbText string
  | KbErr string
  | KbLimit int
  | KbKey key_response
  | KbKeys "key_response list"
  | KbStatus string
  | KbNone

type_synonym key_reply = "key_body http_response"

definition resolveAppUserID :: "user_store \<Rightarrow> principal \<Rightarrow> string option" where
  "resolveAppUserID us p =
     (case GetByID us (p_subject p) of
        Inr u \<Rightarrow> Some (u_id u)
      | Inl e \<Rightarrow> (case GetByOIDC us (p_issuer p) (p_subject p) of
                   Inr u \<Rightarrow> Some (u_id u) | Inl e \<Rightarrow> None))"

text \<open>The beginning of all four handlers: the caller's user id, or the refusal.\<close>

definition key_caller :: "user_store \<Rightarrow> http_request \<Rightarrow> key_reply + string" where
  "key_caller us r =
     (case hr_principal r of
        None \<Rightarrow> Inl (reply 401 (KbErr ''unauthorized''))
      | Some p \<Rightarrow> (case resolveAppUserID us p of
                     None \<Rightarrow> Inl (reply 403 (KbErr ''user not found''))
                   | Some userID \<Rightarrow> Inr userID))"

text \<open>
  \<open>createKey\<close> up to the insertion, a read of the table: it yields the record to insert with the
  plaintext. The body is the pair of name and \<open>expires_in\<close>, \<open>None\<close> when it does not decode.
\<close>

definition limit_check :: "key_store \<Rightarrow> int \<Rightarrow> string \<Rightarrow> key_reply option" where
  "limit_check s maxKeys userID =
     (if maxKeys \<le> 0 then None
      else case ListByUser s userID of
        Inl e \<Rightarrow> Some (reply 500 (KbErr ''internal error''))
      | Inr existing \<Rightarrow>
          (if maxKeys \<le> int (length (filter (\<lambda>k. ak_status k = KeyActive) existing))
           then Some (reply 409 (KbLimit maxKeys)) else None))"

definition prepare_key ::
  "(string \<Rightarrow> string) \<Rightarrow> int \<Rightarrow> user_store \<Rightarrow> key_store \<Rightarrow> timestamp \<Rightarrow> string option \<Rightarrow>
   http_request \<Rightarrow> (string \<times> string) option \<Rightarrow> key_reply + (api_key \<times> string)" where
  "prepare_key sha maxKeys us s now rnd r body =
     (case key_caller us r of
        Inl denied \<Rightarrow> Inl denied
      | Inr userID \<Rightarrow>
          (case body of
             None \<Rightarrow> Inl (reply 400 (KbErr ''invalid JSON''))
           | Some (name, expires_in) \<Rightarrow>
               (if name = [] then Inl (reply 400 (KbErr ''name is required''))
                else case limit_check s maxKeys userID of
                  Some refused \<Rightarrow> Inl refused
                | None \<Rightarrow>
                    (case GenerateKey sha rnd of
                       None \<Rightarrow> Inl (reply 500 (KbErr ''internal error''))
                     | Some (plaintext, hash) \<Rightarrow>
                         (case (if expires_in = [] then Some None
                                else map_option (\<lambda>d. Some (now + d)) (ParseDuration expires_in)) of
                            None \<Rightarrow> Inl (reply 400 (KbErr ''invalid expires_in duration''))
                          | Some expires \<Rightarrow>
                              Inr (\<lparr>ak_id = [], ak_name = name, ak_key_hash = hash,
                                    ak_key_prefix = KeyDisplayPrefix plaintext, ak_user_id = userID,
                                    ak_status = [], ak_expires_at = expires, ak_created_at = 0,
                                    ak_last_used_at = None\<rparr>, plaintext))))))"

definition insert_prepared ::
  "user_store \<Rightarrow> key_store \<Rightarrow> timestamp \<Rightarrow> string \<Rightarrow> api_key \<times> string \<Rightarrow> key_reply \<times> key_store" where
  "insert_prepared us s now uuid = (\<lambda>(k, plaintext).
     (case key_Create us s now uuid k of
        (Inl e, s') \<Rightarrow> (reply 500 (KbErr ''internal error''), s')
      | (Inr k', s') \<Rightarrow>
          (reply 201 (KbKey \<lparr>kr_id = ak_id k', kr_name = ak_name k', kr_key = plaintext,
             kr_key_prefix = ak_key_prefix k', kr_status = ak_status k',
             kr_expires_at = ak_expires_at k', kr_created_at = ak_created_at k',
             kr_last_used_at = None\<rparr>), s')))"

definition createKey ::
  "(string \<Rightarrow> string) \<Rightarrow> int \<Rightarrow> user_store \<Rightarrow> key_store \<Rightarrow> timestamp \<Rightarrow> string \<Rightarrow> string option \<Rightarrow>
   http_request \<Rightarrow> (string \<times> string) option \<Rightarrow> key_reply \<times> key_store" where
  "createKey sha maxKeys us s now uuid rnd r body =
     (case prepare_key sha maxKeys us s now rnd r body of
        Inl answer \<Rightarrow> (answer, s)
      | Inr prepared \<Rightarrow> insert_prepared us s now uuid prepared)"

definition listed_key :: "api_key \<Rightarrow> key_response" where
  "listed_key k = \<lparr>kr_id = ak_id k, kr_name = ak_name k, kr_key = [], kr_key_prefix = ak_key_prefix k,
     kr_status = ak_status k, kr_expires_at = ak_expires_at k, kr_created_at = ak_created_at k,
     kr_last_used_at = ak_last_used_at k\<rparr>"

definition listKeys :: "user_store \<Rightarrow> key_store \<Rightarrow> http_request \<Rightarrow> key_reply" where
  "listKeys us s r =
     (case key_caller us r of
        Inl denied \<Rightarrow> denied
      | Inr userID \<Rightarrow>
          (case ListByUser s userID of
             Inl e \<Rightarrow> reply 500 (KbErr ''internal error'')
           | Inr keys \<Rightarrow> reply 200 (KbKeys (map listed_key keys))))"

definition extractKeyID :: "string \<Rightarrow> string" where
  "extractKeyID path = (case after_last ''/api-keys/'' path of None \<Rightarrow> [] | Some k \<Rightarrow> k)"

definition revokeKey :: "user_store \<Rightarrow> key_store \<Rightarrow> http_request \<Rightarrow> key_reply \<times> key_store" where
  "revokeKey us s r =
     (case key_caller us r of
        Inl denied \<Rightarrow> (denied, s)
      | Inr userID \<Rightarrow>
          (let k = extractKeyID (hr_path r) in
           if k = [] then (reply 400 (KbErr ''key id is required''), s)
           else case Revoke s k userID of
             (Some e, s') \<Rightarrow> (reply 404 (KbErr ''key not found''), s')
           | (None, s') \<Rightarrow> (reply 200 (KbStatus ''revoked''), s')))"

definition deleteKey :: "user_store \<Rightarrow> key_store \<Rightarrow> http_request \<Rightarrow> key_reply \<times> key_store" where
  "deleteKey us s r =
     (case key_caller us r of
        Inl denied \<Rightarrow> (denied, s)
      | Inr userID \<Rightarrow>
          (let k = extractKeyID (hr_path r) in
           if k = [] then (reply 400 (KbErr ''key id is required''), s)
           else case key_Delete s k userID of
             (Some e, s') \<Rightarrow> (reply 404 (KbErr ''key not found''), s')
           | (None, s') \<Rightarrow> (reply 204 KbNone, s')))"

definition handleAPIKeys ::
  "(string \<Rightarrow> string) \<Rightarrow> int \<Rightarrow> user_store \<Rightarrow> key_store \<Rightarrow> timestamp \<Rightarrow> string \<Rightarrow> string option \<Rightarrow>
   http_request \<Rightarrow> (string \<times> string) option \<Rightarrow> key_reply \<times> key_store" where
  "handleAPIKeys sha maxKeys us s now uuid rnd r body =
     (if hr_method r = ''GET'' then (listKeys us s r, s)
      else if hr_method r = ''POST'' then createKey sha maxKeys us s now uuid rnd r body
      else (reply 405 (KbText ''method not allowed''), s))"

definition handleAPIKeyByID :: "user_store \<Rightarrow> key_store \<Rightarrow> http_request \<Rightarrow> key_reply \<times> key_store" where
  "handleAPIKeyByID us s r =
     (if hr_method r = ''DELETE'' then deleteKey us s r
      else if hr_method r = ''PATCH'' then revokeKey us s r
      else (reply 405 (KbText ''method not allowed''), s))"

end
