(* ===== verification/ApiKeyProps.thy ===== *)
theory ApiKeyProps
  imports ApiKeys UsersProps
begin

text \<open>
  Properties of API keys: the invariant of their table, the life of a key from its creation to its
  revocation, the isolation of owners and the limit of keys per user.
\<close>

subsection \<open>The table\<close>

definition key_inv :: "user_store \<Rightarrow> key_store \<Rightarrow> bool" where
  "key_inv us s \<longleftrightarrow> distinct (map ak_id (ks_rows s)) \<and> distinct (map ak_key_hash (ks_rows s)) \<and>
     (\<forall>k \<in> set (ks_rows s). has_user us (ak_user_id k))"

definition stored_key :: "timestamp \<Rightarrow> string \<Rightarrow> api_key \<Rightarrow> api_key" where
  "stored_key now uuid k = k\<lparr>ak_id := (if ak_id k = [] then uuid else ak_id k), ak_created_at := now,
     ak_status := (if ak_status k = [] then KeyActive else ak_status k)\<rparr>"

lemma key_Create_cases:
  assumes "key_Create us s now uuid k0 = (r, s')"
  obtains (refused) "r = Inl KeyDbError" "s' = s"
  | (stored) k where "k = stored_key now uuid k0" "r = Inr k" "ks_up s"
      "ak_id k \<notin> ak_id ` set (ks_rows s)" "ak_key_hash k \<notin> ak_key_hash ` set (ks_rows s)"
      "has_user us (ak_user_id k)" "s' = s\<lparr>ks_rows := ks_rows s @ [k\<lparr>ak_last_used_at := None\<rparr>]\<rparr>"
proof (cases "r = Inl KeyDbError")
  case True
  with assms have "s' = s" by (auto simp: key_Create_def Let_def split: if_splits)
  with True show ?thesis by (rule refused)
next
  case False
  with assms show ?thesis
    by (intro stored [of "stored_key now uuid k0"])
       (auto simp: key_Create_def Let_def stored_key_def list_ex_iff split: if_splits)
qed

lemma Revoke_cases:
  assumes "Revoke s k owner = (e, s')"
  obtains (refused) x where "e = Some x" "s' = s"
  | (written) "e = None" "s' = s\<lparr>ks_rows := map (\<lambda>row. if owned_row k owner row
       then row\<lparr>ak_status := KeyRevoked\<rparr> else row) (ks_rows s)\<rparr>"
  using assms by (auto simp: Revoke_def split: if_splits)

lemma key_Delete_cases:
  assumes "key_Delete s k owner = (e, s')"
  obtains (refused) x where "e = Some x" "s' = s"
  | (written) "e = None" "s' = s\<lparr>ks_rows := filter (\<lambda>row. \<not> owned_row k owner row) (ks_rows s)\<rparr>"
  using assms by (auto simp: key_Delete_def split: if_splits)

lemma revoked_row_sel [simp]:
  "map ak_id (map (\<lambda>row. if P row then row\<lparr>ak_status := x\<rparr> else row) rows) = map ak_id rows"
  "map ak_key_hash (map (\<lambda>row. if P row then row\<lparr>ak_status := x\<rparr> else row) rows) = map ak_key_hash rows"
  "map ak_user_id (map (\<lambda>row. if P row then row\<lparr>ak_status := x\<rparr> else row) rows) = map ak_user_id rows"
  by simp_all

lemma distinct_map_filter: "distinct (map f xs) \<Longrightarrow> distinct (map f (filter P xs))"
  by (induction xs) auto

lemma key_inv_Create:
  "key_inv us s \<Longrightarrow> key_Create us s now uuid k0 = (r, s') \<Longrightarrow> key_inv us s'"
  by (erule key_Create_cases) (auto simp: key_inv_def)

lemma key_inv_Revoke: "key_inv us s \<Longrightarrow> Revoke s k owner = (e, s') \<Longrightarrow> key_inv us s'"
  by (erule Revoke_cases) (auto simp: key_inv_def simp del: map_map)

lemma key_inv_Delete: "key_inv us s \<Longrightarrow> key_Delete s k owner = (e, s') \<Longrightarrow> key_inv us s'"
  by (erule key_Delete_cases) (auto simp: key_inv_def distinct_map_filter)

subsection \<open>Looking a key up\<close>

lemma find_user:
  assumes "wf_users us" "u \<in> set (us_rows us)" "u_id u = k"
  shows "List.find (\<lambda>u. u_id u = k) (us_rows us) = Some u"
proof (rule find_unique [OF assms(2)])
  show "u_id u = k" by (rule assms(3))
  fix y assume "y \<in> set (us_rows us)" "u_id y = k"
  have "distinct (map u_id (us_rows us))" using assms(1) unfolding wf_users_def by blast
  then show "y = u"
    using \<open>y \<in> set (us_rows us)\<close> assms(2)
    by (rule distinct_map_eq) (simp only: assms(3) \<open>u_id y = k\<close>)
qed

lemma first_some_unique:
  assumes "x \<in> set xs" "f x = Some y" "\<And>z. z \<in> set xs \<Longrightarrow> f z \<noteq> None \<Longrightarrow> z = x"
  shows "first_some f xs = Some y"
  using assms
proof (induction xs)
  case (Cons a xs)
  show ?case
  proof (cases "f a")
    case None
    with Cons.prems(1,2) have "x \<in> set xs" by force
    then have "first_some f xs = Some y"
      by (rule Cons.IH) (rule Cons.prems(2), meson Cons.prems(3) list.set_intros(2))
    with None show ?thesis by simp
  next
    case (Some b)
    with Cons.prems(3) [of a] have "a = x" by simp
    with Cons.prems(2) Some show ?thesis by simp
  qed
qed simp

lemma key_Authenticate_row:
  assumes "key_inv us s" "wf_users us" "ks_up s" "k \<in> set (ks_rows s)"
    and "u \<in> set (us_rows us)" "u_id u = ak_user_id k"
  shows "key_Authenticate us s (ak_key_hash k) =
    Inr \<lparr>ko_key = k, ko_oidc_iss = u_oidc_iss u, ko_oidc_sub = u_oidc_sub u,
         ko_user_role = u_role u, ko_user_status = u_status u\<rparr>"
proof -
  let ?f = "\<lambda>k'. if ak_key_hash k' = ak_key_hash k
     then map_option (Pair k') (List.find (\<lambda>u. u_id u = ak_user_id k') (us_rows us)) else None"
  have "first_some ?f (ks_rows s) = Some (k, u)"
  proof (rule first_some_unique [OF assms(4)])
    show "?f k = Some (k, u)" using find_user [OF assms(2,5,6)] by simp
  next
    fix z assume "z \<in> set (ks_rows s)" "?f z \<noteq> None"
    then show "z = k" using assms(1,4)
      by (auto simp: key_inv_def intro: distinct_map_eq [of ak_key_hash] split: if_splits)
  qed
  with assms(3) show ?thesis by (simp add: key_Authenticate_def)
qed

lemma key_Authenticate_absent:
  "ks_up s \<Longrightarrow> h \<notin> ak_key_hash ` set (ks_rows s) \<Longrightarrow> key_Authenticate us s h = Inl KeyNoRows"
proof -
  assume "ks_up s" and h: "h \<notin> ak_key_hash ` set (ks_rows s)"
  moreover from h have "first_some (\<lambda>k. if ak_key_hash k = h
      then map_option (Pair k) (List.find (\<lambda>u. u_id u = ak_user_id k) (us_rows us)) else None)
      (ks_rows s) = None"
    unfolding first_some_None by auto
  ultimately show ?thesis by (simp add: key_Authenticate_def)
qed

lemma key_Authenticate_InrD:
  assumes "key_Authenticate us s h = Inr ko"
  shows "ko_key ko \<in> set (ks_rows s) \<and> ak_key_hash (ko_key ko) = h \<and>
    (\<exists>u \<in> set (us_rows us). u_id u = ak_user_id (ko_key ko) \<and> ko_oidc_iss ko = u_oidc_iss u \<and>
       ko_oidc_sub ko = u_oidc_sub u \<and> ko_user_role ko = u_role u \<and> ko_user_status ko = u_status u)"
  using assms
  by (auto simp: key_Authenticate_def dest!: first_some_SomeD find_SomeD split: if_splits option.splits)

lemma bearer_value_Bearer: "bearer_value (''Bearer '' @ t) = Some t"
proof -
  have "to_lower ''Bearer'' = ''bearer''" by code_simp
  then show ?thesis by (simp add: bearer_value_def split2_def)
qed

lemma bearerToken_Bearer: "w_authorization w = ''Bearer '' @ t \<Longrightarrow> bearerToken w = t"
  using bearer_value_Bearer [of t] by (simp add: bearerToken_def)

subsection \<open>The life of a key\<close>

lemma key_caller_InrD:
  assumes "key_caller us r = Inr userID"
  shows "us_up us \<and> (\<exists>u \<in> set (us_rows us). u_id u = userID)"
proof -
  from assms obtain p where p: "resolveAppUserID us p = Some userID"
    by (auto simp: key_caller_def split: option.splits)
  show ?thesis
  proof (cases "GetByID us (p_subject p)")
    case (Inr u)
    with p GetByID_row [OF Inr] show ?thesis by (auto simp: resolveAppUserID_def)
  next
    case (Inl e)
    with p obtain u where "GetByOIDC us (p_issuer p) (p_subject p) = Inr u" "u_id u = userID"
      by (auto simp: resolveAppUserID_def split: sum.splits)
    then show ?thesis by (auto simp: GetByOIDC_def get_where_Inr dest: find_SomeD)
  qed
qed

lemma prepare_key_InrD:
  assumes "prepare_key sha maxKeys us s now rnd r body = Inr (k, plaintext)"
  shows "\<exists>userID bs. key_caller us r = Inr userID \<and> rnd = Some bs \<and>
    plaintext = keyPrefix @ hex_encode bs \<and> ak_key_hash k = HashKey sha plaintext \<and>
    ak_user_id k = userID \<and> ak_id k = [] \<and> ak_status k = [] \<and> limit_check s maxKeys userID = None"
  using assms
  by (auto simp: prepare_key_def GenerateKey_def Let_def split: sum.splits option.splits prod.splits if_splits)

lemma createKey_201:
  assumes c: "createKey sha maxKeys us s now uuid rnd r body = (resp, s1)" and ok: "rs_status resp = 201"
  obtains k plaintext userID where "prepare_key sha maxKeys us s now rnd r body = Inr (k, plaintext)"
    "key_caller us r = Inr userID" "plaintext = keyPrefix @ hex_encode (the rnd)"
    "ak_key_hash k = HashKey sha plaintext" "ak_user_id k = userID" "ks_up s"
    "key_Create us s now uuid k = (Inr (stored_key now uuid k), s1)"
    "ak_status (stored_key now uuid k) = KeyActive"
    "\<exists>kr. rs_body resp = KbKey kr \<and> kr_key kr = plaintext \<and> kr_id kr = ak_id (stored_key now uuid k) \<and>
       kr_expires_at kr = ak_expires_at k"
proof -
  have "key_reply_ok": "rs_status x = 201 \<Longrightarrow> prepare_key sha maxKeys us s now rnd r body \<noteq> Inl x" for x
    by (auto simp: prepare_key_def key_caller_def limit_check_def split: sum.splits option.splits
        prod.splits if_splits)
  with c ok obtain k plaintext where p: "prepare_key sha maxKeys us s now rnd r body = Inr (k, plaintext)"
    by (auto simp: createKey_def split: sum.splits)
  obtain cr s' where cr: "key_Create us s now uuid k = (cr, s')" by fastforce
  note pk = prepare_key_InrD [OF p]
  from cr show ?thesis
  proof (cases rule: key_Create_cases)
    case refused
    with c ok p cr show ?thesis by (auto simp: createKey_def insert_prepared_def)
  next
    case (stored k')
    with c ok p cr pk show ?thesis
      by (intro that [OF p]) (auto simp: createKey_def insert_prepared_def stored_key_def)
  qed
qed

definition key_principal :: "user \<Rightarrow> principal" where
  "key_principal u = \<lparr>p_issuer = u_oidc_iss u, p_subject = u_oidc_sub u, p_tenant_id = [],
     p_roles = [u_role u]\<rparr>"

text \<open>C30: The life of an API key. When \<open>createKey\<close> answers 201, the key it shows, presented as a
  bearer token, authenticates as the very user who asked for it, with the identity and role
  stored for that user, until its expiry and as long as the account is active; after its
  revocation it is refused as revoked, and after its deletion as invalid.\<close>
theorem key_lifecycle:
  assumes "key_inv us s" and "wf_users us"
    and "createKey sha maxKeys us s now uuid rnd r body = (resp, s1)" and "rs_status resp = 201"
    and "rs_body resp = KbKey kr" and "w_authorization w = ''Bearer '' @ kr_key kr"
  shows "\<exists>u \<in> set (us_rows us). key_caller us r = Inr (u_id u) \<and>
    fst (key_authenticate sha us s1 w t) =
      (if kr_expires_at kr \<noteq> None \<and> the (kr_expires_at kr) < t
       then Inl (CredentialError ''API key expired'')
       else if \<not> IsActive u then Inl (CredentialError ''user account inactive'')
       else Inr (Some (key_principal u))) \<and>
    fst (key_authenticate sha us (snd (Revoke s1 (kr_id kr) (u_id u))) w t) =
      Inl (CredentialError ''API key revoked'') \<and>
    fst (key_authenticate sha us (snd (key_Delete s1 (kr_id kr) (u_id u))) w t) =
      Inl (CredentialError ''invalid API key'')"
proof -
  from assms(3,4) obtain k plaintext userID where
    k: "key_caller us r = Inr userID" "plaintext = keyPrefix @ hex_encode (the rnd)"
       "ak_key_hash k = HashKey sha plaintext" "ak_user_id k = userID" "ks_up s"
    and cr: "key_Create us s now uuid k = (Inr (stored_key now uuid k), s1)"
    and act: "ak_status (stored_key now uuid k) = KeyActive"
    and kr: "\<exists>kr. rs_body resp = KbKey kr \<and> kr_key kr = plaintext \<and>
       kr_id kr = ak_id (stored_key now uuid k) \<and> kr_expires_at kr = ak_expires_at k"
    by (rule createKey_201)
  from kr assms(5) have kr': "kr_key kr = plaintext" "kr_id kr = ak_id (stored_key now uuid k)"
    "kr_expires_at kr = ak_expires_at k" by auto
  let ?k = "(stored_key now uuid k)\<lparr>ak_last_used_at := None\<rparr>" and ?h = "HashKey sha plaintext"
  from cr have s1: "s1 = s\<lparr>ks_rows := ks_rows s @ [?k]\<rparr>"
    and fresh: "ak_id ?k \<notin> ak_id ` set (ks_rows s)" "?h \<notin> ak_key_hash ` set (ks_rows s)"
    by (cases rule: key_Create_cases; simp add: stored_key_def k(3))+
  from key_caller_InrD [OF k(1)] obtain u where u: "u \<in> set (us_rows us)" "u_id u = userID" by blast
  have sel: "ak_key_hash ?k = ?h" "ak_user_id ?k = u_id u" "ak_expires_at ?k = kr_expires_at kr"
    "ak_status ?k = KeyActive" "ak_id ?k = kr_id kr"
    using k u act kr' by (simp_all add: stored_key_def)
  have tok: "bearerToken w = plaintext" using bearerToken_Bearer [OF assms(6)] kr'(1) by simp
  have pt: "plaintext \<noteq> []" "has_prefix plaintext ''sk-''"
    by (simp_all add: k(2) keyPrefix_def has_prefix_def)
  note inv1 = key_inv_Create [OF assms(1) cr]
  have a1: "key_Authenticate us s1 ?h = Inr \<lparr>ko_key = ?k, ko_oidc_iss = u_oidc_iss u,
      ko_oidc_sub = u_oidc_sub u, ko_user_role = u_role u, ko_user_status = u_status u\<rparr>"
    using key_Authenticate_row [OF inv1 assms(2) _ _ u(1), of ?k] sel k(5) by (simp add: s1)
  obtain e s2 where rv: "Revoke s1 (kr_id kr) (u_id u) = (e, s2)" by fastforce
  have own: "owned_row (kr_id kr) (u_id u) ?k" using sel by (simp add: owned_row_def)
  have s2: "s2 = s1\<lparr>ks_rows := map (\<lambda>row. if owned_row (kr_id kr) (u_id u) row
       then row\<lparr>ak_status := KeyRevoked\<rparr> else row) (ks_rows s1)\<rparr>"
    using rv own k(5) by (auto simp: Revoke_def s1 split: if_splits)
  have in2: "?k\<lparr>ak_status := KeyRevoked\<rparr> \<in> set (ks_rows s2)" using own by (auto simp: s2 s1)
  have a2: "key_Authenticate us s2 ?h = Inr \<lparr>ko_key = ?k\<lparr>ak_status := KeyRevoked\<rparr>,
      ko_oidc_iss = u_oidc_iss u, ko_oidc_sub = u_oidc_sub u, ko_user_role = u_role u,
      ko_user_status = u_status u\<rparr>"
    using key_Authenticate_row [OF key_inv_Revoke [OF inv1 rv] assms(2) _ in2 u(1)] sel k(5)
    by (simp add: s2 s1)
  obtain e s3 where dl: "key_Delete s1 (kr_id kr) (u_id u) = (e, s3)" by fastforce
  have "ks_rows s3 = filter (\<lambda>row. \<not> owned_row (kr_id kr) (u_id u) row) (ks_rows s1)" "ks_up s3"
    using dl own k(5) by (auto simp: key_Delete_def s1 split: if_splits)
  then have a3: "key_Authenticate us s3 ?h = Inl KeyNoRows"
    using fresh own by (intro key_Authenticate_absent) (auto simp: s1)
  show ?thesis
    using u k(1) a1 a2 a3 rv dl tok pt sel
    by (intro bexI [of _ u])
       (auto simp: key_authenticate_def Let_def IsExpired_def key_principal_def IsActive_def
         StatusActive_def split: option.splits)
qed

definition sample_key_request :: http_request where
  "sample_key_request = zero_http\<lparr>hr_method := ''POST'', hr_path := ''/v1/api-keys'',
     hr_principal := Some \<lparr>p_issuer = ''iss'', p_subject = ''alice'', p_tenant_id = [], p_roles = []\<rparr>\<rparr>"

definition empty_keys :: key_store where
  "empty_keys = \<lparr>ks_up = True, ks_rows = []\<rparr>"

theorem key_lifecycle_witness:
  "fst (key_authenticate (\<lambda>x. x) sample_users
      (snd (createKey (\<lambda>x. x) 1 sample_users empty_keys 5 ''k-1'' (Some ''a'') sample_key_request
              (Some (''ci'', []))))
      (zero_wire\<lparr>w_authorization := ''Bearer sk-61''\<rparr>) 6) = Inr (Some (key_principal sample_admin))"
proof -
  let ?c = "createKey (\<lambda>x. x) 1 sample_users empty_keys 5 ''k-1'' (Some ''a'') sample_key_request
      (Some (''ci'', []))"
  let ?kr = "\<lparr>kr_id = ''k-1'', kr_name = ''ci'', kr_key = ''sk-61'', kr_key_prefix = ''sk-61'',
      kr_status = KeyActive, kr_expires_at = None, kr_created_at = 5, kr_last_used_at = None\<rparr>"
  have wf: "wf_users sample_users" by code_simp
  have inv: "key_inv sample_users empty_keys" by (simp add: key_inv_def empty_keys_def)
  have h: "hex_encode ''a'' = ''61''" by code_simp
  have c: "key_caller sample_users sample_key_request = Inr ''u-1''" by code_simp
  have u: "has_user sample_users ''u-1''" by code_simp
  have st: "fst ?c = reply 201 (KbKey ?kr)"
    by (simp add: createKey_def prepare_key_def c limit_check_def ListByUser_def GenerateKey_def
        HashKey_def h u Let_def insert_prepared_def key_Create_def KeyDisplayPrefix_def keyPrefix_def
        empty_keys_def)
  then have st': "rs_status (fst ?c) = 201" "rs_body (fst ?c) = KbKey ?kr" by simp_all
  have c: "?c = (fst ?c, snd ?c)" by simp
  have w: "w_authorization (zero_wire\<lparr>w_authorization := ''Bearer sk-61''\<rparr>) = ''Bearer '' @ kr_key ?kr"
    by simp
  from key_lifecycle [OF inv wf c st' w, of 6] show ?thesis
    by (auto simp: sample_users_def sample_admin_def new_user_def IsActive_def)
qed

subsection \<open>Owners\<close>

definition foreign_rows :: "key_store \<Rightarrow> string \<Rightarrow> api_key list" where
  "foreign_rows s userID = filter (\<lambda>k. ak_user_id k \<noteq> userID) (ks_rows s)"

lemma foreign_Create:
  "key_Create us s now uuid k = (r, s') \<Longrightarrow> foreign_rows s' (ak_user_id k) = foreign_rows s (ak_user_id k)"
  by (erule key_Create_cases) (auto simp: foreign_rows_def stored_key_def)

lemma foreign_Revoke: "Revoke s k owner = (e, s') \<Longrightarrow> foreign_rows s' owner = foreign_rows s owner"
proof (erule Revoke_cases)
  assume s': "s' = s\<lparr>ks_rows := map (\<lambda>row. if owned_row k owner row
       then row\<lparr>ak_status := KeyRevoked\<rparr> else row) (ks_rows s)\<rparr>"
  have "filter (\<lambda>k. ak_user_id k \<noteq> owner) (map (\<lambda>row. if owned_row k owner row
       then row\<lparr>ak_status := KeyRevoked\<rparr> else row) rows) = filter (\<lambda>k. ak_user_id k \<noteq> owner) rows" for rows
    by (induction rows) (auto simp: owned_row_def)
  with s' show ?thesis by (simp add: foreign_rows_def)
qed simp

lemma foreign_Delete: "key_Delete s k owner = (e, s') \<Longrightarrow> foreign_rows s' owner = foreign_rows s owner"
  by (erule key_Delete_cases)
     (auto simp: foreign_rows_def owned_row_def intro!: filter_cong)

lemma createKey_state:
  assumes "createKey sha maxKeys us s now uuid rnd r body = (resp, s')"
  obtains (refused) "s' = s"
  | (inserted) k plaintext cr where "prepare_key sha maxKeys us s now rnd r body = Inr (k, plaintext)"
      "key_Create us s now uuid k = (cr, s')"
proof (cases "prepare_key sha maxKeys us s now rnd r body")
  case (Inl a)
  with assms show ?thesis by (intro refused) (simp add: createKey_def)
next
  case (Inr kp)
  then obtain k plaintext where kp: "prepare_key sha maxKeys us s now rnd r body = Inr (k, plaintext)"
    by (cases kp) auto
  obtain cr s2 where cr: "key_Create us s now uuid k = (cr, s2)" by fastforce
  with kp assms have "s2 = s'" by (cases cr) (auto simp: createKey_def insert_prepared_def)
  with kp cr show ?thesis by (intro inserted) simp_all
qed

text \<open>C36: Keys are private to their owner. Whatever a caller sends to the key endpoints, the rows of
  all other users stay exactly as they are; a caller without a known account changes nothing
  at all; and a listing shows only the caller's own keys, without the secret.\<close>
theorem key_owner_isolation:
  "(\<forall>userID. key_caller us r = Inr userID \<longrightarrow>
      foreign_rows (snd (handleAPIKeys sha maxKeys us s now uuid rnd r body)) userID = foreign_rows s userID \<and>
      foreign_rows (snd (handleAPIKeyByID us s r)) userID = foreign_rows s userID) \<and>
   (\<forall>answer. key_caller us r = Inl answer \<longrightarrow>
      snd (handleAPIKeys sha maxKeys us s now uuid rnd r body) = s \<and> snd (handleAPIKeyByID us s r) = s) \<and>
   (\<forall>ks. rs_body (listKeys us s r) = KbKeys ks \<longrightarrow>
      (\<exists>userID. key_caller us r = Inr userID \<and>
         set ks \<subseteq> listed_key ` {k \<in> set (ks_rows s). ak_user_id k = userID} \<and> kr_key ` set ks \<subseteq> {[]}))"
proof (intro conjI allI impI)
  fix userID assume c: "key_caller us r = Inr userID"
  obtain resp s' where cr: "createKey sha maxKeys us s now uuid rnd r body = (resp, s')" by fastforce
  have "foreign_rows s' userID = foreign_rows s userID"
  proof (rule createKey_state [OF cr])
    fix k plaintext x
    assume p: "prepare_key sha maxKeys us s now rnd r body = Inr (k, plaintext)"
      and k: "key_Create us s now uuid k = (x, s')"
    from prepare_key_InrD [OF p] c have "ak_user_id k = userID" by auto
    with foreign_Create [OF k] show ?thesis by simp
  qed simp
  with cr show "foreign_rows (snd (handleAPIKeys sha maxKeys us s now uuid rnd r body)) userID
      = foreign_rows s userID" by (simp add: handleAPIKeys_def)
  show "foreign_rows (snd (handleAPIKeyByID us s r)) userID = foreign_rows s userID"
    using c by (auto simp: handleAPIKeyByID_def deleteKey_def revokeKey_def Let_def
        dest: foreign_Revoke foreign_Delete split: prod.split option.split)
next
  fix answer assume "key_caller us r = Inl answer"
  then show "snd (handleAPIKeys sha maxKeys us s now uuid rnd r body) = s" "snd (handleAPIKeyByID us s r) = s"
    by (simp_all add: handleAPIKeys_def createKey_def prepare_key_def handleAPIKeyByID_def
        deleteKey_def revokeKey_def)
next
  fix ks assume "rs_body (listKeys us s r) = KbKeys ks"
  then show "\<exists>userID. key_caller us r = Inr userID \<and>
      set ks \<subseteq> listed_key ` {k \<in> set (ks_rows s). ak_user_id k = userID} \<and> kr_key ` set ks \<subseteq> {[]}"
    by (auto simp: listKeys_def ListByUser_def key_caller_def listed_key_def image_iff
        split: sum.splits option.splits if_splits)
qed

theorem key_owner_isolation_witness:
  "foreign_rows (snd (handleAPIKeys (\<lambda>x. x) 1 sample_users empty_keys 5 ''k-1'' (Some ''a'')
      sample_key_request (Some (''ci'', [])))) ''u-1'' = []"
proof -
  have c: "key_caller sample_users sample_key_request = Inr ''u-1''" by code_simp
  show ?thesis
    using key_owner_isolation [of sample_users sample_key_request "\<lambda>x. x" 1 empty_keys 5 "''k-1''"
        "Some ''a''" "Some (''ci'', [])"] c
    by (auto simp: foreign_rows_def empty_keys_def)
qed

subsection \<open>The limit of keys\<close>

definition active_keys :: "key_store \<Rightarrow> string \<Rightarrow> nat" where
  "active_keys s userID =
     length (filter (\<lambda>k. ak_user_id k = userID \<and> ak_status k = KeyActive) (ks_rows s))"

lemma limit_check_None:
  assumes "0 < maxKeys" "limit_check s maxKeys userID = None"
  shows "int (active_keys s userID) < maxKeys"
proof -
  have "length (filter (\<lambda>k. ak_status k = KeyActive)
      (map (\<lambda>k. k\<lparr>ak_key_hash := []\<rparr>) (sort_key f (filter (\<lambda>k. ak_user_id k = userID) rows))))
    = length (filter (\<lambda>k. ak_user_id k = userID \<and> ak_status k = KeyActive) rows)" for rows f
    by (simp add: filter_map comp_def filter_sort conj_commute)
  note count = this
  from assms show ?thesis
    by (simp add: limit_check_def ListByUser_def active_keys_def count split: if_splits
        del: length_filter_map filter_filter)
qed

lemma active_filter_le:
  "length (filter P (filter Q xs)) \<le> length (filter P xs)"
  by (induction xs) auto

lemma active_map_le:
  "(\<And>x. P (f x) \<Longrightarrow> P x) \<Longrightarrow> length (filter P (map f xs)) \<le> length (filter P xs)"
  by (induction xs) auto

text \<open>What may happen to the table: the two handlers and the background update, with whatever users.\<close>

datatype key_call =
    CallKeys user_store timestamp string "string option" http_request "(string \<times> string) option"
  | CallKeyByID user_store http_request
  | CallTouch timestamp string

fun key_step :: "(string \<Rightarrow> string) \<Rightarrow> int \<Rightarrow> key_store \<Rightarrow> key_call \<Rightarrow> key_store" where
  "key_step sha maxKeys s (CallKeys us now uuid rnd r body) =
     snd (handleAPIKeys sha maxKeys us s now uuid rnd r body)"
| "key_step sha maxKeys s (CallKeyByID us r) = snd (handleAPIKeyByID us s r)"
| "key_step sha maxKeys s (CallTouch now k) = TouchLastUsed s now k"

lemma active_Revoke: "Revoke s k owner = (e, s') \<Longrightarrow> active_keys s' userID \<le> active_keys s userID"
proof (erule Revoke_cases)
  assume s': "s' = s\<lparr>ks_rows := map (\<lambda>row. if owned_row k owner row
       then row\<lparr>ak_status := KeyRevoked\<rparr> else row) (ks_rows s)\<rparr>"
  then have rows: "ks_rows s' = map (\<lambda>row. if owned_row k owner row
       then row\<lparr>ak_status := KeyRevoked\<rparr> else row) (ks_rows s)" by simp
  show ?thesis unfolding active_keys_def rows by (rule active_map_le) (simp split: if_splits)
qed simp

lemma active_Delete: "key_Delete s k owner = (e, s') \<Longrightarrow> active_keys s' userID \<le> active_keys s userID"
  by (erule key_Delete_cases) (auto simp: active_keys_def simp del: filter_filter intro!: active_filter_le)

lemma active_step:
  assumes m: "0 < maxKeys" and le: "\<And>userID. int (active_keys s userID) \<le> maxKeys"
  shows "int (active_keys (key_step sha maxKeys s c) userID) \<le> maxKeys"
proof (cases c)
  case (CallKeys us now uuid rnd r body)
  obtain resp s' where cr: "createKey sha maxKeys us s now uuid rnd r body = (resp, s')" by fastforce
  have "int (active_keys s' userID) \<le> maxKeys"
  proof (rule createKey_state [OF cr])
    fix k plaintext x
    assume p: "prepare_key sha maxKeys us s now rnd r body = Inr (k, plaintext)"
      and k: "key_Create us s now uuid k = (x, s')"
    from prepare_key_InrD [OF p] limit_check_None [OF m]
    have "int (active_keys s (ak_user_id k)) < maxKeys" by auto
    with le [of userID] show ?thesis
      by (cases rule: key_Create_cases [OF k]) (auto simp: active_keys_def stored_key_def)
  qed (use le in simp)
  with cr CallKeys le show ?thesis by (simp add: handleAPIKeys_def)
next
  case (CallKeyByID us r)
  have "active_keys (snd (handleAPIKeyByID us s r)) userID \<le> active_keys s userID"
    by (auto simp: handleAPIKeyByID_def deleteKey_def revokeKey_def Let_def
        dest: active_Revoke active_Delete split: prod.split option.split sum.split)
  with le [of userID] CallKeyByID show ?thesis by simp
next
  case (CallTouch now k)
  have "active_keys (TouchLastUsed s now k) userID \<le> active_keys s userID"
  proof (cases "ks_up s")
    case True
    then have rows: "ks_rows (TouchLastUsed s now k) = map (\<lambda>row. if ak_id row = k
        then row\<lparr>ak_last_used_at := Some now\<rparr> else row) (ks_rows s)" by (simp add: TouchLastUsed_def)
    show ?thesis unfolding active_keys_def rows by (rule active_map_le) (simp split: if_splits)
  qed (simp add: TouchLastUsed_def)
  with le [of userID] CallTouch show ?thesis by simp
qed

text \<open>The limit of API keys holds. With a positive \<open>max_keys_per_user\<close> and an empty table, after
  any sequence of requests to the key endpoints, each handled before the next, whoever sends them and
  whatever happens to the users in between, no user has more active keys than the limit.\<close>
theorem key_limit_kept:
  assumes "0 < maxKeys" and "ks_rows s0 = []"
  shows "int (active_keys (foldl (key_step sha maxKeys) s0 calls) userID) \<le> maxKeys"
proof -
  have "\<forall>userID. int (active_keys s0 userID) \<le> maxKeys" using assms by (simp add: active_keys_def)
  then have "\<forall>userID. int (active_keys (foldl (key_step sha maxKeys) s0 calls) userID) \<le> maxKeys"
    by (induction calls arbitrary: s0) (simp_all add: active_step [OF assms(1)])
  then show ?thesis by simp
qed

theorem key_limit_kept_witness:
  "int (active_keys (foldl (key_step (\<lambda>x. x) 1) empty_keys
      [CallKeys sample_users 5 ''k-1'' (Some ''a'') sample_key_request (Some (''ci'', [])),
       CallKeys sample_users 6 ''k-2'' (Some ''b'') sample_key_request (Some (''ci'', []))]) ''u-1'') \<le> 1"
  by (rule key_limit_kept) (simp_all add: empty_keys_def)

text \<open>The limit is checked before the insertion and not with it: two requests of one user that both
  read the table before either writes it both get a key, and the user has one more active key
  than allowed.\<close>
theorem key_limit_race:
  "\<exists>us s p1 p2 s1 s2 r1 r2.
     key_inv us s \<and> prepare_key (\<lambda>x. x) 1 us s 5 (Some ''a'') sample_key_request (Some (''ci'', [])) = Inr p1 \<and>
     prepare_key (\<lambda>x. x) 1 us s 5 (Some ''b'') sample_key_request (Some (''ci'', [])) = Inr p2 \<and>
     insert_prepared us s 5 ''k-1'' p1 = (r1, s1) \<and> insert_prepared us s1 5 ''k-2'' p2 = (r2, s2) \<and>
     rs_status r1 = 201 \<and> rs_status r2 = 201 \<and> active_keys s2 ''u-1'' = 2"
proof -
  have c: "key_caller sample_users sample_key_request = Inr ''u-1''" by code_simp
  have u: "has_user sample_users ''u-1''" by code_simp
  let ?p = "\<lambda>b. prepare_key (\<lambda>x. x) 1 sample_users empty_keys 5 (Some b) sample_key_request (Some (''ci'', []))"
  let ?k = "\<lambda>b. \<lparr>ak_id = [], ak_name = ''ci'', ak_key_hash = hex_encode (keyPrefix @ hex_encode b),
     ak_key_prefix = KeyDisplayPrefix (keyPrefix @ hex_encode b), ak_user_id = ''u-1'', ak_status = [],
     ak_expires_at = None, ak_created_at = 0, ak_last_used_at = None\<rparr>"
  have p: "?p b = Inr (?k b, keyPrefix @ hex_encode b)" for b
    by (simp add: prepare_key_def c limit_check_def ListByUser_def empty_keys_def GenerateKey_def
        HashKey_def Let_def)
  have h: "hex_encode (keyPrefix @ hex_encode ''a'') \<noteq> hex_encode (keyPrefix @ hex_encode ''b'')"
    by (simp add: hex_encode_inject)
  obtain r1 s1 where i1: "insert_prepared sample_users empty_keys 5 ''k-1''
      (?k ''a'', keyPrefix @ hex_encode ''a'') = (r1, s1)" by fastforce
  obtain r2 s2 where i2: "insert_prepared sample_users s1 5 ''k-2''
      (?k ''b'', keyPrefix @ hex_encode ''b'') = (r2, s2)" by fastforce
  have s1: "rs_status r1 = 201" "s1 = \<lparr>ks_up = True, ks_rows = [(?k ''a'')\<lparr>ak_id := ''k-1'',
      ak_created_at := 5, ak_status := KeyActive\<rparr>]\<rparr>"
    using i1 by (auto simp: insert_prepared_def key_Create_def u empty_keys_def Let_def)
  have s2: "rs_status r2 = 201" "active_keys s2 ''u-1'' = 2"
    using i2 h by (auto simp: insert_prepared_def key_Create_def u s1(2) active_keys_def Let_def)
  have inv: "key_inv sample_users empty_keys" by (simp add: key_inv_def empty_keys_def)
  show ?thesis
    using inv p [of "''a''"] p [of "''b''"] i1 i2 s1(1) s2 by blast
qed

end
