(* ===== verification/AuthProps.thy ===== *)
theory AuthProps
  imports Auth
begin

text \<open>
  Properties of token validation and of the key cache. What the code relies on of the JWT library
  is the hypothesis \<open>jwt_lawful\<close>: \<open>jwt.Parse\<close> decodes the token, asks the key function for the
  key of its header, and accepts if the signature verifies under that key and the claims pass
  the options; any other outcome is an error. Decoding, signature check and claim check are the
  parameters \<open>hdr\<close>, \<open>signed\<close> and \<open>ok\<close>.
\<close>

definition documented_parse ::
  "(string \<Rightarrow> (jwt_header \<times> jmap) option) \<Rightarrow> (string \<Rightarrow> public_key \<Rightarrow> bool) \<Rightarrow>
   (parse_opts \<Rightarrow> timestamp \<Rightarrow> jmap \<Rightarrow> bool) \<Rightarrow>
   parse_opts \<Rightarrow> timestamp \<Rightarrow> string \<Rightarrow> key_func \<Rightarrow> key_cache \<Rightarrow> (auth_error + jmap) \<times> key_cache" where
  "documented_parse hdr signed ok opts now tok kf kc =
     (case hdr tok of
        None \<Rightarrow> (Inl TokenRejected, kc)
      | Some (h, claims) \<Rightarrow>
          (case kf h kc of
             (Inl e, kc') \<Rightarrow> (Inl e, kc')
           | (Inr key, kc') \<Rightarrow>
               ((if signed tok key \<and> ok opts now claims then Inr claims else Inl TokenRejected), kc')))"

definition jwt_lawful ::
  "jwt_lib \<Rightarrow> (string \<Rightarrow> (jwt_header \<times> jmap) option) \<Rightarrow> (string \<Rightarrow> public_key \<Rightarrow> bool) \<Rightarrow>
   (parse_opts \<Rightarrow> timestamp \<Rightarrow> jmap \<Rightarrow> bool) \<Rightarrow> bool" where
  "jwt_lawful lib hdr signed ok \<longleftrightarrow>
     (\<forall>opts now tok kf kc.
        snd (jl_parse lib opts now tok kf kc) = snd (documented_parse hdr signed ok opts now tok kf kc) \<and>
        (\<forall>c. fst (jl_parse lib opts now tok kf kc) = Inr c \<longleftrightarrow>
              fst (documented_parse hdr signed ok opts now tok kf kc) = Inr c))"

lemma jwt_lawfulD:
  assumes "jwt_lawful lib hdr signed ok"
  shows "snd (jl_parse lib opts now tok kf kc) = snd (documented_parse hdr signed ok opts now tok kf kc)"
    and "fst (jl_parse lib opts now tok kf kc) = Inr c \<longleftrightarrow>
         fst (documented_parse hdr signed ok opts now tok kf kc) = Inr c"
  using assms by (simp_all add: jwt_lawful_def)

lemma documented_parse_InrD:
  assumes "documented_parse hdr signed ok opts now tok kf kc = (Inr c, kc')"
  shows "\<exists>h key. hdr tok = Some (h, c) \<and> kf h kc = (Inr key, kc') \<and> signed tok key \<and> ok opts now c"
  using assms by (auto simp: documented_parse_def split: option.splits prod.splits sum.splits if_splits)

lemma parse_InrD:
  assumes l: "jwt_lawful lib hdr signed ok"
    and p: "jl_parse lib opts now tok kf kc = (Inr c, kc')"
  shows "\<exists>h key. hdr tok = Some (h, c) \<and> kf h kc = (Inr key, kc') \<and> signed tok key \<and> ok opts now c"
proof -
  let ?d = "documented_parse hdr signed ok opts now tok kf kc"
  have "fst ?d = Inr c" "snd ?d = kc'"
    using jwt_lawfulD(2) [OF l, of opts now tok kf kc c] jwt_lawfulD(1) [OF l, of opts now tok kf kc] p
    by simp_all
  then show ?thesis by (intro documented_parse_InrD) (simp add: prod_eq_iff)
qed

text \<open>However parsing ends, the cache is the one the key function left, or untouched.\<close>

lemma parse_cache:
  assumes l: "jwt_lawful lib hdr signed ok"
  shows "snd (jl_parse lib opts now tok kf kc) = kc \<or>
    (\<exists>h. snd (jl_parse lib opts now tok kf kc) = snd (kf h kc))"
  unfolding jwt_lawfulD(1) [OF l]
  by (auto simp: documented_parse_def split: option.splits prod.splits sum.splits) (metis snd_conv)+

subsection \<open>The key function\<close>

lemma token_key_InrD:
  "token_key cfg idp now h kc = (Inr key, kc') \<Longrightarrow>
   asymmetric (jh_method h) \<and> (\<exists>kid. jh_kid h = Some (JStr kid) \<and> map_of (kc_keys kc') kid = Some key)"
  by (auto simp: token_key_def Let_def split: if_splits option.splits json.splits)

lemma token_key_cache:
  "snd (token_key cfg idp now h kc) = kc \<or>
   snd (token_key cfg idp now h kc) = snd (refreshIfCooledDown cfg idp now kc)"
  by (auto simp: token_key_def Let_def split: option.splits json.splits)

lemma refreshJWKS_cases:
  obtains (failed) e where "refreshJWKS cfg idp now kc = (Some e, kc)"
  | (fetched) ks where "fetch_keys cfg idp = Inr ks" "ks \<noteq> []"
      "refreshJWKS cfg idp now kc = (None, kc\<lparr>kc_keys := ks, kc_last_fetched := Some now\<rparr>)"
proof (cases "fetch_keys cfg idp")
  case (Inl e)
  then show ?thesis using failed by (simp add: refreshJWKS_def)
next
  case (Inr ks)
  then have "ks \<noteq> []"
    by (auto simp: fetch_keys_def Let_def split: sum.splits option.splits idp_answer.splits if_splits)
  with Inr show ?thesis using fetched by (simp add: refreshJWKS_def)
qed

lemma since_now [simp]: "since now (Some now) = 0"
  by (simp add: since_def)

lemma forceRefresh_None:
  "forceRefresh cfg idp now kc = (None, kc') \<Longrightarrow> kc_last_fetched kc' = Some now"
  by (cases rule: refreshJWKS_cases [of cfg idp now kc]) (auto simp: forceRefresh_def)

lemma ensure_fresh_None:
  "ensure_fresh cfg idp now kc = (None, kc') \<Longrightarrow> 0 < au_stale_ttl cfg \<Longrightarrow>
   since now (kc_last_fetched kc') \<le> au_stale_ttl cfg"
  by (auto simp: ensure_fresh_def dest: forceRefresh_None split: if_splits)

lemma refreshIfCooledDown_fetched:
  "kc_last_fetched (snd (refreshIfCooledDown cfg idp now kc)) \<in> {kc_last_fetched kc, Some now}"
  by (cases rule: refreshJWKS_cases [of cfg idp now kc])
     (auto simp: refreshIfCooledDown_def)

subsection \<open>Accepted tokens\<close>


text \<open>A world for the witnesses: one issuer with one RSA key and one token.\<close>

definition sample_auth :: auth_config where
  "sample_auth = \<lparr>au_enabled = True, au_issuer = ''https://idp/'', au_discovery_url = [],
     au_audiences = [], au_clock_skew = 0, au_stale_ttl = 900 * second_ns, au_admin_claim = []\<rparr>"

definition sample_key_doc :: raw where
  "sample_key_doc = RawJson (JObj [(''keys'', JArr [JObj [(''kid'', JStr ''k1''),
     (''kty'', JStr ''RSA''), (''use'', JStr ''sig''), (''n'', JStr ''AQAB''), (''e'', JStr ''Aw'')]])])"

definition sample_idp :: idp where
  "sample_idp url =
     (if url = ''https://idp/.well-known/openid-configuration''
      then IdpAnswer 200 (RawJson (JObj [(''jwks_uri'', JStr ''https://idp/jwks'')]))
      else if url = ''https://idp/jwks'' then IdpAnswer 200 sample_key_doc else IdpError)"

definition sample_hdr :: "string \<Rightarrow> (jwt_header \<times> jmap) option" where
  "sample_hdr tok =
     (if tok = ''h.p.s''
      then Some (\<lparr>jh_method = MRSA, jh_kid = Some (JStr ''k1'')\<rparr>,
                 [(''iss'', JStr ''https://idp/''), (''sub'', JStr ''alice'')])
      else None)"

definition sample_lib :: jwt_lib where
  "sample_lib = \<lparr>jl_parse = documented_parse sample_hdr (\<lambda>tok key. key = RsaKey 65537 3) (\<lambda>_ _ _. True),
     jl_unverified = (\<lambda>tok. map_option snd (sample_hdr tok))\<rparr>"

lemma sample_lib_lawful:
  "jwt_lawful sample_lib sample_hdr (\<lambda>tok key. key = RsaKey 65537 3) (\<lambda>_ _ _. True)"
  by (simp add: jwt_lawful_def sample_lib_def)

definition sample_cache :: "timestamp \<Rightarrow> key_cache" where
  "sample_cache now = \<lparr>kc_keys = [(''k1'', RsaKey 65537 3)], kc_last_fetched = Some now,
     kc_last_refresh = None\<rparr>"

lemma sample_decode: "raw_url_decode ''AQAB'' = Some [CHR 0x01, CHR 0x00, CHR 0x01]"
  "raw_url_decode ''Aw'' = Some [CHR 0x03]"
  by code_simp+

lemma sample_fetch: "fetch_keys sample_auth sample_idp = Inr [(''k1'', RsaKey 65537 3)]"
proof -
  have u: "discovery_url sample_auth = ''https://idp/.well-known/openid-configuration''" by code_simp
  have d: "decode_jwks sample_key_doc = Some [\<lparr>jk_kid = ''k1'', jk_kty = ''RSA'', jk_use = ''sig'',
      jk_n = ''AQAB'', jk_e = ''Aw'', jk_crv = [], jk_x = [], jk_y = []\<rparr>]" by code_simp
  have j: "to_lower ''jwks_uri'' = ''jwks_uri''" by code_simp
  show ?thesis
    by (simp add: fetch_keys_def discoverJWKSURL_def u sample_idp_def j d usable_key_def
        parseRSAKey_def sample_decode SetBytes_def byte_vals_def wrap64_def)
qed

lemma sample_token:
  "validateToken sample_auth sample_lib sample_idp 7 (sample_cache 5) ''h.p.s''
   = (Inr [(''iss'', JStr ''https://idp/''), (''sub'', JStr ''alice'')], sample_cache 5)"
  by (simp add: validateToken_def ensure_fresh_def since_def sample_auth_def sample_cache_def
      sample_lib_def documented_parse_def sample_hdr_def token_key_def interval_defs)


subsection \<open>The key cache over time\<close>

text \<open>
  What changes the cache after \<open>New\<close>: validations and ticks of the periodic refresh. The identity
  provider may answer differently at every moment: \<open>world t\<close> is what it answers at time \<open>t\<close>.
\<close>

datatype cache_event = EvToken timestamp string | EvTick timestamp

fun event_time :: "cache_event \<Rightarrow> timestamp" where
  "event_time (EvToken t tok) = t"
| "event_time (EvTick t) = t"

fun cache_step :: "auth_config \<Rightarrow> jwt_lib \<Rightarrow> (timestamp \<Rightarrow> idp) \<Rightarrow> key_cache \<Rightarrow> cache_event \<Rightarrow> key_cache" where
  "cache_step cfg lib world kc (EvToken t tok) = snd (validateToken cfg lib (world t) t kc tok)"
| "cache_step cfg lib world kc (EvTick t) = snd (refreshJWKS cfg (world t) t kc)"

definition cache_run ::
  "auth_config \<Rightarrow> jwt_lib \<Rightarrow> (timestamp \<Rightarrow> idp) \<Rightarrow> key_cache \<Rightarrow> cache_event list \<Rightarrow> key_cache" where
  "cache_run cfg lib world kc evs = foldl (cache_step cfg lib world) kc evs"

definition published :: "auth_config \<Rightarrow> (timestamp \<Rightarrow> idp) \<Rightarrow> key_cache \<Rightarrow> bool" where
  "published cfg world kc \<longleftrightarrow> kc_keys kc \<noteq> [] \<and>
     (\<exists>t. kc_last_fetched kc = Some t \<and> fetch_keys cfg (world t) = Inr (kc_keys kc))"

lemma published_last_refresh [simp]:
  "published cfg world (kc\<lparr>kc_last_refresh := x\<rparr>) = published cfg world kc"
  by (simp add: published_def)

lemma published_refresh:
  "published cfg world kc \<Longrightarrow> published cfg world (snd (refreshJWKS cfg (world t) t kc))"
  by (cases rule: refreshJWKS_cases [of cfg "world t" t kc]) (auto simp: published_def)

lemma snd_forceRefresh:
  "snd (forceRefresh cfg idp now kc) = (snd (refreshJWKS cfg idp now kc))\<lparr>kc_last_refresh := Some now\<rparr>"
  by (simp add: forceRefresh_def split: prod.split)

lemma snd_refreshIfCooledDown:
  "snd (refreshIfCooledDown cfg idp now kc) =
     (if since now (kc_last_refresh kc) < refreshCooldown then kc
      else (snd (refreshJWKS cfg idp now kc))\<lparr>kc_last_refresh := Some now\<rparr>)"
  by (simp add: refreshIfCooledDown_def split: prod.split)

lemma snd_validateToken_cases:
  assumes l: "jwt_lawful lib hdr signed ok"
  shows "snd (validateToken cfg lib idp now kc tok) = snd (ensure_fresh cfg idp now kc) \<or>
    snd (validateToken cfg lib idp now kc tok) =
      snd (refreshIfCooledDown cfg idp now (snd (ensure_fresh cfg idp now kc)))"
proof (cases "ensure_fresh cfg idp now kc")
  case (Pair e kc1)
  show ?thesis
  proof (cases e)
    case None
    with Pair have "snd (validateToken cfg lib idp now kc tok) =
        snd (jl_parse lib (parse_options cfg) now tok (token_key cfg idp now) kc1)"
      by (simp add: validateToken_def)
    with parse_cache [OF l, of "parse_options cfg" now tok "token_key cfg idp now" kc1]
      token_key_cache [of cfg idp now _ kc1] Pair show ?thesis by (metis snd_conv)
  qed (use Pair in \<open>simp add: validateToken_def\<close>)
qed

lemma published_step:
  assumes l: "jwt_lawful lib hdr signed ok" and p: "published cfg world kc"
  shows "published cfg world (cache_step cfg lib world kc ev)"
proof (cases ev)
  case (EvTick t)
  with published_refresh [OF p] show ?thesis by simp
next
  case (EvToken t tok)
  have f: "published cfg world (snd (ensure_fresh cfg (world t) t kc))"
    using p published_refresh [OF p] by (simp add: ensure_fresh_def snd_forceRefresh)
  have "published cfg world (snd (refreshIfCooledDown cfg (world t) t (snd (ensure_fresh cfg (world t) t kc))))"
    using f published_refresh [OF f] by (simp add: snd_refreshIfCooledDown)
  with f snd_validateToken_cases [OF l, of cfg "world t" t kc tok] EvToken show ?thesis by auto
qed

text \<open>C32: The key cache is always one published key set. From a successful \<open>New\<close> on, after any
  sequence of validations (with refreshes for stale keys and unknown key ids) and periodic
  ticks, against an issuer that may answer, fail or send rubbish at any moment: the cached keys
  are non-empty and are exactly the usable signature keys the issuer served at the recorded fetch
  time. A failed refresh keeps the old set; sets are never mixed.\<close>
theorem cache_is_published_set:
  assumes "jwt_lawful lib hdr signed ok" and "auth_New cfg (world t0) t0 = Inr (kc, chain)"
    and "au_enabled cfg"
  shows "published cfg world (cache_run cfg lib world kc evs)"
proof -
  from assms(2,3) have "fetch_keys cfg (world t0) = Inr (kc_keys kc)" "kc_keys kc \<noteq> []"
      "kc_last_fetched kc = Some t0"
    by (cases rule: refreshJWKS_cases [of cfg "world t0" t0
        "\<lparr>kc_keys = [], kc_last_fetched = None, kc_last_refresh = None\<rparr>"];
        force simp: auth_New_def Let_def split: if_splits)+
  then have "published cfg world kc" by (auto simp: published_def)
  then show ?thesis
    unfolding cache_run_def
    by (induction evs arbitrary: kc) (simp_all add: published_step [OF assms(1)])
qed

theorem cache_is_published_set_witness:
  "published sample_auth (\<lambda>t. if t < 10 then sample_idp else (\<lambda>_. IdpError))
     (cache_run sample_auth sample_lib (\<lambda>t. if t < 10 then sample_idp else (\<lambda>_. IdpError))
        (sample_cache 5) [EvToken 7 ''h.p.s'', EvTick 40])"
proof -
  have "auth_New sample_auth sample_idp 5 = Inr (sample_cache 5, [AuthnJwt, AuthnSession])"
  proof -
    have "au_enabled sample_auth" "au_issuer sample_auth \<noteq> []" by (simp_all add: sample_auth_def)
    then show ?thesis using sample_fetch by (simp add: auth_New_def refreshJWKS_def sample_cache_def)
  qed
  then show ?thesis
    using cache_is_published_set [OF sample_lib_lawful, of sample_auth
        "\<lambda>t. if t < 10 then sample_idp else (\<lambda>_. IdpError)" 5 "sample_cache 5"
        "[AuthnJwt, AuthnSession]" "[EvToken 7 ''h.p.s'', EvTick 40]"]
    by (simp add: sample_auth_def)
qed

text \<open>The times at which a run refreshes on demand: those that move \<open>lastRefreshAt\<close>.\<close>

fun refresh_times ::
  "auth_config \<Rightarrow> jwt_lib \<Rightarrow> (timestamp \<Rightarrow> idp) \<Rightarrow> key_cache \<Rightarrow> cache_event list \<Rightarrow> timestamp list" where
  "refresh_times cfg lib world kc [] = []"
| "refresh_times cfg lib world kc (ev # evs) =
     (let kc' = cache_step cfg lib world kc ev;
          rest = refresh_times cfg lib world kc' evs
      in if kc_last_refresh kc' \<noteq> kc_last_refresh kc then event_time ev # rest else rest)"

lemma refreshJWKS_last_refresh [simp]:
  "kc_last_refresh (snd (refreshJWKS cfg idp now kc)) = kc_last_refresh kc"
  by (cases rule: refreshJWKS_cases [of cfg idp now kc]) auto

lemma step_last_refresh:
  assumes l: "jwt_lawful lib hdr signed ok" and s: "au_stale_ttl cfg \<le> 0"
    and ch: "kc_last_refresh (cache_step cfg lib world kc ev) \<noteq> kc_last_refresh kc"
  shows "kc_last_refresh (cache_step cfg lib world kc ev) = Some (event_time ev) \<and>
    refreshCooldown \<le> since (event_time ev) (kc_last_refresh kc)"
proof (cases ev)
  case (EvTick t)
  with ch show ?thesis by simp
next
  case (EvToken t tok)
  from s have "ensure_fresh cfg (world t) t kc = (None, kc)" by (simp add: ensure_fresh_def)
  with snd_validateToken_cases [OF l, of cfg "world t" t kc tok] EvToken ch show ?thesis
    by (auto simp: snd_refreshIfCooledDown split: if_splits)
qed

lemma refresh_times_after:
  assumes l: "jwt_lawful lib hdr signed ok" and s: "au_stale_ttl cfg \<le> 0"
  shows "successively (\<lambda>a b. a + refreshCooldown \<le> b) (refresh_times cfg lib world kc evs) \<and>
    (\<forall>u. kc_last_refresh kc = Some u \<longrightarrow> refresh_times cfg lib world kc evs \<noteq> [] \<longrightarrow>
       u + refreshCooldown \<le> hd (refresh_times cfg lib world kc evs))"
proof (induction evs arbitrary: kc)
  case (Cons ev evs)
  let ?kc = "cache_step cfg lib world kc ev" and ?rest = "refresh_times cfg lib world (cache_step cfg lib world kc ev) evs"
  from Cons [of ?kc] have rest: "successively (\<lambda>a b. a + refreshCooldown \<le> b) ?rest"
    "\<And>u. kc_last_refresh ?kc = Some u \<Longrightarrow> ?rest \<noteq> [] \<Longrightarrow> u + refreshCooldown \<le> hd ?rest" by auto
  show ?case
  proof (cases "kc_last_refresh ?kc = kc_last_refresh kc")
    case True
    with rest show ?thesis by (simp add: Let_def)
  next
    case False
    note ch = step_last_refresh [OF l s False]
    have "successively (\<lambda>a b. a + refreshCooldown \<le> b) (event_time ev # ?rest)"
      using rest ch by (cases ?rest) auto
    with False ch show ?thesis by (auto simp: Let_def since_def)
  qed
qed simp

text \<open>Unknown key ids cannot make the gateway hammer the issuer. Without a stale limit, whatever
  tokens arrive in whatever order, two refreshes triggered by requests are at least the cooldown
  of 30 seconds apart; a refresh that failed counts like one that succeeded.\<close>
theorem refresh_rate_limited:
  assumes "jwt_lawful lib hdr signed ok" and "au_stale_ttl cfg \<le> 0"
  shows "successively (\<lambda>a b. a + 30 * 1000000000 \<le> b) (refresh_times cfg lib world kc evs)"
  using refresh_times_after [OF assms, of world kc evs] by (simp add: interval_defs)

theorem refresh_rate_limited_witness:
  "successively (\<lambda>a b. a + 30 * 1000000000 \<le> b)
     (refresh_times (sample_auth\<lparr>au_stale_ttl := 0\<rparr>) sample_lib (\<lambda>_. sample_idp) (sample_cache 5)
        [EvToken 7 ''h.p.s'', EvToken 8 ''x''])"
  by (rule refresh_rate_limited [OF sample_lib_lawful]) simp

text \<open>An outage of the issuer does not lock users out. While the keys are not stale, a token whose
  key id is cached is judged by the cached key alone: the verdict is the same whatever the
  issuer answers, and the cache stays as it is.\<close>
theorem outage_tolerated:
  assumes "jwt_lawful lib hdr signed ok"
    and "au_stale_ttl cfg \<le> 0 \<or> since now (kc_last_fetched kc) \<le> au_stale_ttl cfg"
    and "hdr tok = Some (h, claims)" and "jh_kid h = Some (JStr kid)"
    and "map_of (kc_keys kc) kid = Some key"
  shows "snd (validateToken cfg lib idp now kc tok) = kc \<and>
    (fst (validateToken cfg lib idp now kc tok) = Inr c \<longleftrightarrow>
       c = claims \<and> asymmetric (jh_method h) \<and> signed tok key \<and> ok (parse_options cfg) now claims)"
proof -
  from assms(2) have f: "ensure_fresh cfg idp now kc = (None, kc)" by (auto simp: ensure_fresh_def)
  then have v: "validateToken cfg lib idp now kc tok =
      jl_parse lib (parse_options cfg) now tok (token_key cfg idp now) kc"
    by (simp add: validateToken_def)
  have k: "token_key cfg idp now h kc =
      ((if asymmetric (jh_method h) then Inr key else Inl UnsupportedAlgorithm), kc)"
    using assms(4,5) by (simp add: token_key_def)
  show ?thesis
    unfolding v jwt_lawfulD [OF assms(1)]
    using assms(3) by (auto simp: documented_parse_def k)
qed

theorem outage_tolerated_witness:
  "fst (validateToken sample_auth sample_lib (\<lambda>_. IdpError) 7 (sample_cache 5) ''h.p.s'')
   = Inr [(''iss'', JStr ''https://idp/''), (''sub'', JStr ''alice'')]"
proof -
  have h: "sample_hdr ''h.p.s'' = Some (\<lparr>jh_method = MRSA, jh_kid = Some (JStr ''k1'')\<rparr>,
      [(''iss'', JStr ''https://idp/''), (''sub'', JStr ''alice'')])" by (simp add: sample_hdr_def)
  have s: "since 7 (kc_last_fetched (sample_cache 5)) \<le> au_stale_ttl sample_auth"
    by (simp add: since_def sample_cache_def sample_auth_def second_ns_def)
  have m: "map_of (kc_keys (sample_cache 5)) ''k1'' = Some (RsaKey 65537 3)"
    by (simp add: sample_cache_def)
  from outage_tolerated [OF sample_lib_lawful disjI2 [OF s] h _ m, of "\<lambda>_. IdpError"]
  show ?thesis by simp
qed

subsection \<open>The periodic refresh\<close>

text \<open>
  The backoff stays between its first and its largest interval, doubles on every failure and
  restarts after a success.
\<close>

lemma periodic_tick_bounds:
  assumes "initialRetryInterval \<le> retry" "retry \<le> maxRetryInterval"
    and "periodic_tick cfg idp now retry kc = (wait, retry', kc')"
  shows "initialRetryInterval \<le> wait \<and> wait \<le> normalRefreshInterval \<and>
    initialRetryInterval \<le> retry' \<and> retry' \<le> maxRetryInterval \<and>
    (kc' = kc \<and> wait = retry \<and> retry \<le> retry' \<or> kc_last_fetched kc' = Some now)"
  using assms
  by (cases rule: refreshJWKS_cases [of cfg idp now kc])
     (auto simp: periodic_tick_def interval_defs)

end
