(* ===== verification/AccessProps.thy ===== *)
theory AccessProps
  imports ApiKeyProps AuthProps
begin

text \<open>
  Who gets in: properties of the authenticator chain over its three kinds of credential, of the
  browser login and of the session middleware.
\<close>

subsection \<open>The chain\<close>

text \<open>Where a token may come from: the header, the token cookie or a session.\<close>

definition presented_token ::
  "'b session_backend \<Rightarrow> bool \<Rightarrow> timestamp \<Rightarrow> wire_request \<Rightarrow> 'b session_store \<Rightarrow> string \<Rightarrow> bool" where
  "presented_token ops oidc now r ss tok \<longleftrightarrow>
     bearer_value (w_authorization r) = Some tok \<or> w_cookie r SessionCookieName = Some tok \<or>
     oidc \<and> (\<exists>sd. fst (getSession ops now r ss) = Some sd \<and> sd_id_token sd = tok)"

definition token_identity ::
  "auth_config \<Rightarrow> (string \<Rightarrow> (jwt_header \<times> jmap) option) \<Rightarrow> (string \<Rightarrow> public_key \<Rightarrow> bool) \<Rightarrow>
   (parse_opts \<Rightarrow> timestamp \<Rightarrow> jmap \<Rightarrow> bool) \<Rightarrow> key_cache \<Rightarrow> timestamp \<Rightarrow> string \<Rightarrow> principal \<Rightarrow> bool" where
  "token_identity cfg hdr signed ok kc now tok p \<longleftrightarrow>
     (\<exists>h claims kid key. hdr tok = Some (h, claims) \<and> asymmetric (jh_method h) \<and>
        jh_kid h = Some (JStr kid) \<and> map_of (kc_keys kc) kid = Some key \<and> signed tok key \<and>
        ok (parse_options cfg) now claims \<and> p = PrincipalFromClaims claims (extra_claims cfg))"

lemma token_principal_sound:
  assumes l: "jwt_lawful (ae_lib env) hdr signed ok"
    and t: "token_principal env now s tok = (Inr q, s')"
  shows "\<exists>p. q = Some p \<and> token_identity (ae_cfg env) hdr signed ok (as_keys s') now tok p"
proof -
  from t obtain claims kc where v: "validateToken (ae_cfg env) (ae_lib env) (ae_idp env) now (as_keys s) tok
      = (Inr claims, kc)" and q: "q = Some (PrincipalFromClaims claims (extra_claims (ae_cfg env)))"
      and s': "s' = s\<lparr>as_keys := kc\<rparr>"
    by (auto simp: token_principal_def split: prod.splits sum.splits)
  from v obtain kc1 where
    p: "jl_parse (ae_lib env) (parse_options (ae_cfg env)) now tok (token_key (ae_cfg env) (ae_idp env) now) kc1
      = (Inr claims, kc)"
    by (auto simp: validateToken_def split: prod.splits option.splits)
  from parse_InrD [OF l p] obtain h key where "hdr tok = Some (h, claims)" "signed tok key"
    "token_key (ae_cfg env) (ae_idp env) now h kc1 = (Inr key, kc)" "ok (parse_options (ae_cfg env)) now claims"
    by blast
  with token_key_InrD [OF this(3)] show ?thesis
    unfolding token_identity_def q s' by fastforce
qed

definition key_identity ::
  "(string \<Rightarrow> string) \<Rightarrow> user_store \<Rightarrow> key_store \<Rightarrow> wire_request \<Rightarrow> timestamp \<Rightarrow> principal \<Rightarrow> bool" where
  "key_identity sha us ks r now p \<longleftrightarrow>
     (\<exists>tok k u. bearer_value (w_authorization r) = Some tok \<and> k \<in> set (ks_rows ks) \<and>
        ak_key_hash k = HashKey sha tok \<and> ak_status k = KeyActive \<and> \<not> IsExpired now k \<and>
        u \<in> set (us_rows us) \<and> u_id u = ak_user_id k \<and> IsActive u \<and> p = key_principal u)"

lemma key_authenticate_sound:
  assumes "key_authenticate sha us ks r now = (Inr (Some p), touched)"
  shows "key_identity sha us ks r now p"
proof -
  let ?tok = "bearerToken r"
  from assms obtain ko where a: "key_Authenticate us ks (HashKey sha ?tok) = Inr ko"
    and c: "ak_status (ko_key ko) = KeyActive" "\<not> IsExpired now (ko_key ko)" "ko_user_status ko = ''active''"
    and p: "p = \<lparr>p_issuer = ko_oidc_iss ko, p_subject = ko_oidc_sub ko, p_tenant_id = [],
                 p_roles = [ko_user_role ko]\<rparr>"
    and ne: "?tok \<noteq> []"
    by (auto simp: key_authenticate_def Let_def split: if_splits sum.splits key_error.splits)
  from ne have "bearer_value (w_authorization r) = Some ?tok"
    by (auto simp: bearerToken_def split: if_splits option.splits)
  with key_Authenticate_InrD [OF a] c p show ?thesis
    unfolding key_identity_def IsActive_def StatusActive_def key_principal_def by metis
qed

definition credential ::
  "'b auth_env \<Rightarrow> (string \<Rightarrow> (jwt_header \<times> jmap) option) \<Rightarrow> (string \<Rightarrow> public_key \<Rightarrow> bool) \<Rightarrow>
   (parse_opts \<Rightarrow> timestamp \<Rightarrow> jmap \<Rightarrow> bool) \<Rightarrow> timestamp \<Rightarrow> wire_request \<Rightarrow> 'b session_store \<Rightarrow>
   key_cache \<Rightarrow> principal \<Rightarrow> bool" where
  "credential env hdr signed ok now r ss kc p \<longleftrightarrow>
     ae_extra env r now = Inr (Some p) \<or>
     (\<exists>tok. presented_token (ae_sess env) (ae_oidc env) now r ss tok \<and>
        token_identity (ae_cfg env) hdr signed ok kc now tok p)"

lemma cookie_token_sound:
  assumes l: "jwt_lawful (ae_lib env) hdr signed ok"
    and "cookie_token env now r s = (Inr (Some p), s')"
  shows "credential env hdr signed ok now r ss (as_keys s') p"
proof -
  from assms(2) obtain v where v: "w_cookie r SessionCookieName = Some v"
    "token_principal env now s v = (Inr (Some p), s')"
    by (auto simp: cookie_token_def split: option.splits if_splits)
  from token_principal_sound [OF l v(2)] v(1) show ?thesis
    by (auto simp: credential_def presented_token_def)
qed

lemma authenticate_sound:
  assumes l: "jwt_lawful (ae_lib env) hdr signed ok"
    and a: "authenticate env now r a s = (Inr (Some p), s')"
    and ss: "a = AuthnSession \<Longrightarrow> as_sessions s = ss"
  shows "credential env hdr signed ok now r ss (as_keys s') p"
proof (cases a)
  case AuthnExtra
  with a show ?thesis by (simp add: credential_def)
next
  case AuthnJwt
  with a obtain tok where t: "bearer_value (w_authorization r) = Some tok"
    "token_principal env now s tok = (Inr (Some p), s')"
    by (auto simp: jwt_authenticate_def split: if_splits option.splits)
  from token_principal_sound [OF l t(2)] t(1) show ?thesis
    by (auto simp: credential_def presented_token_def)
next
  case AuthnSession
  show ?thesis
  proof (cases "ae_oidc env")
    case False
    with a AuthnSession cookie_token_sound [OF l] show ?thesis
      by (simp add: session_authenticate_def)
  next
    case True
    obtain v ss where g: "getSession (ae_sess env) now r (as_sessions s) = (v, ss)" by fastforce
    show ?thesis
    proof (cases v)
      case None
      with a AuthnSession True g cookie_token_sound [OF l] show ?thesis
        by (simp add: session_authenticate_def)
    next
      case (Some sd)
      with a AuthnSession True g have
        t: "token_principal env now (s\<lparr>as_sessions := ss\<rparr>) (sd_id_token sd) = (Inr (Some p), s')"
        by (auto simp: session_authenticate_def split: prod.splits sum.splits)
      from token_principal_sound [OF l t] g Some True ss [OF AuthnSession] show ?thesis
        by (auto simp: credential_def presented_token_def)
    qed
  qed
qed

lemma authenticate_sessions:
  "a \<noteq> AuthnSession \<Longrightarrow> authenticate env now r a s = (x, s') \<Longrightarrow> as_sessions s' = as_sessions s"
  by (cases a) (auto simp: jwt_authenticate_def token_principal_def
      split: if_splits option.splits prod.splits sum.splits)

lemma run_chain_sound:
  assumes l: "jwt_lawful (ae_lib env) hdr signed ok"
  shows "run_chain env now r chain s = (AuthAs p, s') \<Longrightarrow> distinct chain \<Longrightarrow>
    (AuthnSession \<in> set chain \<Longrightarrow> as_sessions s = ss) \<Longrightarrow>
    credential env hdr signed ok now r ss (as_keys s') p"
proof (induction chain arbitrary: s)
  case (Cons a chain)
  obtain x s1 where x: "authenticate env now r a s = (x, s1)" by fastforce
  show ?case
  proof (cases "\<exists>q. x = Inr (Some q)")
    case True
    with Cons.prems(1) x have "authenticate env now r a s = (Inr (Some p), s')" by auto
    then show ?thesis by (rule authenticate_sound [OF l]) (simp add: Cons.prems(3))
  next
    case False
    with Cons.prems(1) x have rest: "run_chain env now r chain s1 = (AuthAs p, s')"
      by (auto split: sum.splits option.splits)
    have "as_sessions s1 = ss" if "AuthnSession \<in> set chain"
    proof -
      from that Cons.prems(2) have "a \<noteq> AuthnSession" by auto
      from authenticate_sessions [OF this x] Cons.prems(3) that show ?thesis by simp
    qed
    with rest Cons.prems(2) show ?thesis by (intro Cons.IH) simp_all
  qed
qed simp

text \<open>The chains the program builds hold each authenticator once.\<close>

lemma built_chain_distinct:
  assumes "auth_New cfg idp now = Inr (kc, chain)"
  shows "distinct (PrependAuthenticator (SetOIDCClient chain))" "distinct (SetOIDCClient chain)"
    "distinct (PrependAuthenticator chain)" "distinct chain"
  using assms
  by (auto simp: auth_New_def Let_def PrependAuthenticator_def SetOIDCClient_def
      split: if_splits prod.splits option.splits)

lemma run_chain_no_pass: "fst (run_chain env now r chain s) \<noteq> AuthPass"
  by (induction chain arbitrary: s) (auto split: prod.splits sum.splits option.splits)

text \<open>C3: Nobody gets past the authentication middleware without a valid credential. In front of the
  API, with API keys first in the chain and whatever else is configured, a request reaches the
  handlers as a principal only if its bearer value hashes to a stored, active and unexpired key of
  an active user, whose identity the principal has; or if a token of the header, of the token
  cookie or of the caller's live session is signed with an asymmetric algorithm by a cached key of
  the issuer and its claims, which make the principal, are valid now. Without a principal
  it passes only when authentication is off and no authenticator is registered.\<close>
theorem identity_sound:
  assumes "jwt_lawful (ae_lib env) hdr signed ok"
    and "ae_extra env = (\<lambda>r now. fst (key_authenticate sha us ks r now))"
    and "distinct chain" and "auth_handler env chain now r s = (outcome, s')"
  shows "(outcome = AuthPass \<longrightarrow> \<not> au_enabled (ae_cfg env) \<and> chain = []) \<and>
    (\<forall>p. outcome = AuthAs p \<longrightarrow>
       key_identity sha us ks r now p \<or>
       (\<exists>tok. presented_token (ae_sess env) (ae_oidc env) now r (as_sessions s) tok \<and>
          token_identity (ae_cfg env) hdr signed ok (as_keys s') now tok p))"
proof (intro conjI impI allI)
  assume "outcome = AuthPass"
  with assms(4) run_chain_no_pass [of env now r chain s]
  show "\<not> au_enabled (ae_cfg env)" "chain = []"
    by (auto simp: auth_handler_def split: if_splits)
next
  fix p assume "outcome = AuthAs p"
  with assms(4) have "run_chain env now r chain s = (AuthAs p, s')"
    by (auto simp: auth_handler_def split: if_splits)
  from run_chain_sound [OF assms(1) this assms(3), of "as_sessions s"] assms(2) show "key_identity sha us ks r now p \<or>
      (\<exists>tok. presented_token (ae_sess env) (ae_oidc env) now r (as_sessions s) tok \<and>
         token_identity (ae_cfg env) hdr signed ok (as_keys s') now tok p)"
    unfolding credential_def
    by (metis key_authenticate_sound surjective_pairing)
qed

definition sample_auth_env :: "mem_sessions auth_env" where
  "sample_auth_env = \<lparr>ae_cfg = sample_auth, ae_lib = sample_lib, ae_idp = sample_idp, ae_sess = mem_ops,
     ae_oidc = True,
     ae_extra = (\<lambda>r now. fst (key_authenticate (\<lambda>x. x) sample_users empty_keys r now))\<rparr>"

definition sample_auth_state :: "mem_sessions auth_state" where
  "sample_auth_state = \<lparr>as_keys = sample_cache 5, as_sessions = NewSessionStore 100 (Some NewMemorySessionBackend)\<rparr>"

definition sample_bearer :: wire_request where
  "sample_bearer = zero_wire\<lparr>w_authorization := ''Bearer h.p.s''\<rparr>"

lemma sample_bearer_chain:
  "auth_handler sample_auth_env [AuthnExtra, AuthnJwt, AuthnSession] 7 sample_bearer sample_auth_state =
     (AuthAs (PrincipalFromClaims [(''iss'', JStr ''https://idp/''), (''sub'', JStr ''alice'')] []),
      sample_auth_state)"
proof -
  have b: "bearer_value ''Bearer h.p.s'' = Some ''h.p.s''" using bearer_value_Bearer [of "''h.p.s''"] by simp
  have k: "fst (key_authenticate (\<lambda>x. x) sample_users empty_keys sample_bearer 7) = Inr None"
    by (simp add: key_authenticate_def bearerToken_def sample_bearer_def b has_prefix_def)
  have e: "extra_claims sample_auth = []" by (simp add: extra_claims_def sample_auth_def)
  show ?thesis
    using sample_token
    by (simp add: auth_handler_def sample_auth_env_def k)
       (simp add: jwt_authenticate_def sample_bearer_def b count_char_def token_principal_def
         sample_auth_state_def e)
qed

theorem identity_sound_witness:
  "token_identity sample_auth sample_hdr (\<lambda>tok key. key = RsaKey 65537 3) (\<lambda>_ _ _. True)
     (sample_cache 5) 7 ''h.p.s''
     (PrincipalFromClaims [(''iss'', JStr ''https://idp/''), (''sub'', JStr ''alice'')] [])"
proof -
  have l: "jwt_lawful (ae_lib sample_auth_env) sample_hdr (\<lambda>tok key. key = RsaKey 65537 3) (\<lambda>_ _ _. True)"
    using sample_lib_lawful by (simp add: sample_auth_env_def)
  have x: "ae_extra sample_auth_env = (\<lambda>r now. fst (key_authenticate (\<lambda>x. x) sample_users empty_keys r now))"
    by (simp add: sample_auth_env_def)
  have b: "bearer_value ''Bearer h.p.s'' = Some ''h.p.s''" using bearer_value_Bearer [of "''h.p.s''"] by simp
  have nk: "\<not> key_identity (\<lambda>x. x) sample_users empty_keys sample_bearer 7 p" for p
    by (simp add: key_identity_def empty_keys_def)
  have "presented_token mem_ops True 7 sample_bearer ss tok \<Longrightarrow> tok = ''h.p.s''" for ss tok
    by (auto simp: presented_token_def sample_bearer_def b w_cookie_def zero_wire_def getSession_def)
  with identity_sound [OF l x _ sample_bearer_chain] nk show ?thesis
    by (auto simp: sample_auth_env_def sample_auth_state_def)
qed

end
