(* ===== verification/LoginProps.thy ===== *)
theory LoginProps
  imports AccessProps
begin

text \<open>
  Properties of the browser login: the authorization request and its callback, the session
  middleware, logout, and what the session endpoint reports.
\<close>

subsection \<open>The callback\<close>

lemma session_cookie_names [simp]:
  "oidcStateCookieName \<noteq> OIDCSessionCookieName" "oidcVerifierCookieName \<noteq> OIDCSessionCookieName"
  "oidcStateCookieName \<noteq> oidcVerifierCookieName" "oidcVerifierCookieName \<noteq> oidcStateCookieName"
  by (simp_all add: oidcStateCookieName_def oidcVerifierCookieName_def OIDCSessionCookieName_def)

lemma lax_cookie_sel [simp]:
  "ck_name (lax_cookie n v r a s) = n" "ck_value (lax_cookie n v r a s) = v"
  by (simp_all add: lax_cookie_def)

definition sets_session :: "web_response \<Rightarrow> string \<Rightarrow> bool" where
  "sets_session resp k \<longleftrightarrow>
     (\<exists>c \<in> set (wr_cookies resp). ck_name c = OIDCSessionCookieName \<and> ck_value c = k)"

lemma clear_temporary_no_session: "c \<in> set (clear_temporary r) \<Longrightarrow> ck_name c \<noteq> OIDCSessionCookieName"
  by (auto simp: clear_temporary_def)

lemma finish_login_session:
  assumes f: "finish_login c ops frontend now uuid rnd r idToken claims s = (resp, s')"
    and k: "sets_session resp k"
  shows "\<exists>user. provision_login (oc_admin_email (ocl_cfg c)) (ls_users s) now uuid
      (getClaimString claims ''iss'') (getClaimString claims ''sub'')
      (getClaimString claims ''email'') (getClaimString claims ''name'') = (LoginOk user, ls_users s') \<and>
    session_Create ops (ls_sessions s) now now rnd (Some (login_session user idToken claims))
      = (Inr k, ls_sessions s')"
proof -
  obtain lr us where p: "provision_login (oc_admin_email (ocl_cfg c)) (ls_users s) now uuid
      (getClaimString claims ''iss'') (getClaimString claims ''sub'')
      (getClaimString claims ''email'') (getClaimString claims ''name'') = (lr, us)" by fastforce
  show ?thesis
  proof (cases lr)
    case (LoginOk user)
    obtain x ss where c: "session_Create ops (ls_sessions s) now now rnd
        (Some (login_session user idToken claims)) = (x, ss)" by fastforce
    with f k p LoginOk show ?thesis
      by (cases x) (auto simp: finish_login_def sets_session_def redirect_def
          dest: clear_temporary_no_session)
  qed (use f k p in \<open>auto simp: finish_login_def sets_session_def dest: clear_temporary_no_session\<close>)
qed

lemma provision_login_active:
  "provision_login adminEmail s now uuid iss sub email name = (LoginOk u, s') \<Longrightarrow> IsActive u"
  by (auto simp: provision_login_def split: prod.splits sum.splits if_splits)

text \<open>C6: A browser gets a session only at the end of a login it started. If the response to the
  callback sets a session cookie, then the request carried a code, its \<open>state\<close> equalled the state
  cookie and the verifier cookie was there; the code was exchanged with that verifier for an ID
  token; and the session stored under the cookie's value is that of the account provisioned for the
  token's claims, which is active, with the admin flag of the account's role and the token's
  identity as owner.\<close>
theorem callback_session_sound:
  assumes "HandleCallback c lib post ops frontend now uuid rnd r s = (resp, s')"
    and "sets_session resp k"
  shows "w_query_get r ''code'' \<noteq> [] \<and> w_cookie r oidcStateCookieName = Some (w_query_get r ''state'') \<and>
    (\<exists>verifier idToken claims user.
       w_cookie r oidcVerifierCookieName = Some verifier \<and>
       exchangeCode c post (w_query_get r ''code'') verifier = Some idToken \<and>
       parseIDToken lib idToken = Some claims \<and>
       provision_login (oc_admin_email (ocl_cfg c)) (ls_users s) now uuid
         (getClaimString claims ''iss'') (getClaimString claims ''sub'')
         (getClaimString claims ''email'') (getClaimString claims ''name'') = (LoginOk user, ls_users s') \<and>
       IsActive user \<and>
       session_Create ops (ls_sessions s) now now rnd
         (Some \<lparr>sd_user_id = u_id user, sd_email = u_email user, sd_name = u_name user,
                sd_id_token = idToken, sd_expires_at = 0, sd_is_admin = (u_role user = RoleAdmin),
                sd_owner_iss = getClaimString claims ''iss'', sd_owner_sub = getClaimString claims ''sub'',
                sd_tenant_id = getTenantID claims\<rparr>) = (Inr k, ls_sessions s'))"
proof -
  from assms obtain verifier idToken claims where
    v: "w_query_get r ''code'' \<noteq> []" "w_cookie r oidcStateCookieName = Some (w_query_get r ''state'')"
       "w_cookie r oidcVerifierCookieName = Some verifier"
       "exchangeCode c post (w_query_get r ''code'') verifier = Some idToken"
       "parseIDToken lib idToken = Some claims"
    and f: "finish_login c ops frontend now uuid rnd r idToken claims s = (resp, s')"
    unfolding sets_session_def HandleCallback_def
    by (auto dest: clear_temporary_no_session split: if_splits option.splits)
  from finish_login_session [OF f assms(2)] v show ?thesis
    by (fastforce simp: login_session_def IsAdmin_def dest: provision_login_active)
qed

definition sample_oidc :: oidc_client where
  "sample_oidc = \<lparr>ocl_cfg = \<lparr>oc_issuer = ''https://idp'', oc_discovery_url = [], oc_client_id = ''gw'',
       oc_client_secret = [], oc_redirect_uri = ''https://gw/cb'', oc_admin_email = []\<rparr>,
     ocl_authorization_endpoint = ''https://idp/auth'', ocl_token_endpoint = ''https://idp/token'',
     ocl_userinfo_endpoint = []\<rparr>"

definition sample_post :: endpoint where
  "sample_post url form = IdpAnswer 200 (RawJson (JObj [(''id_token'', JStr ''h.p.s'')]))"

definition sample_login_lib :: jwt_lib where
  "sample_login_lib = sample_lib\<lparr>jl_unverified := (\<lambda>tok. Some [(''iss'', JStr ''iss''), (''sub'', JStr ''alice''),
     (''email'', JStr ''alice@x''), (''name'', JStr ''Alice'')])\<rparr>"

definition sample_callback :: wire_request where
  "sample_callback = zero_wire\<lparr>w_query := [(''code'', ''c1''), (''state'', ''s1'')],
     w_cookies := [(''oidc_state'', ''s1''), (''oidc_verifier'', ''v1'')]\<rparr>"

definition sample_login_state :: "mem_sessions login_state" where
  "sample_login_state = \<lparr>ls_users = sample_users, ls_sessions = NewSessionStore 100 (Some NewMemorySessionBackend)\<rparr>"

lemma sample_exchange: "exchangeCode sample_oidc sample_post code verifier = Some ''h.p.s''"
proof -
  have "to_lower ''id_token'' = ''id_token''" by code_simp
  then show ?thesis by (simp add: exchangeCode_def sample_post_def)
qed

lemma sample_callback_result:
  "\<exists>resp s'. HandleCallback sample_oidc sample_login_lib sample_post mem_ops [] 5 ''u-9'' (Some ''abc'')
      sample_callback sample_login_state = (resp, s') \<and> sets_session resp (url_encode ''abc'')"
proof -
  have p: "provision_login [] sample_users 5 ''u-9'' ''iss'' ''alice'' ''alice@x'' ''Alice''
      = (LoginOk sample_admin, sample_users)" by code_simp
  show ?thesis
    by (simp add: HandleCallback_def sample_callback_def w_query_get_def w_cookie_def
        oidcStateCookieName_def oidcVerifierCookieName_def sample_exchange parseIDToken_def
        sample_login_lib_def finish_login_def getClaimString_def jget_str_def jget_def)
       (simp add: sample_login_state_def sample_oidc_def p session_Create_def generateSessionID_def
        NewSessionStore_def mem_ops_def mem_Create_def sets_session_def redirect_def)
qed

theorem callback_session_sound_witness:
  "\<exists>s' user. provision_login [] sample_users 5 ''u-9'' ''iss'' ''alice'' ''alice@x'' ''Alice''
     = (LoginOk user, s') \<and> IsActive user"
proof -
  obtain resp s' where r: "HandleCallback sample_oidc sample_login_lib sample_post mem_ops [] 5 ''u-9''
      (Some ''abc'') sample_callback sample_login_state = (resp, s')" "sets_session resp (url_encode ''abc'')"
    using sample_callback_result by blast
  from callback_session_sound [OF r] show ?thesis
    by (auto simp: parseIDToken_def sample_login_lib_def getClaimString_def jget_str_def jget_def
        sample_oidc_def sample_login_state_def)
qed

text \<open>The two halves of the login fit. When the login endpoint answers and the browser comes back
  from the issuer with a code, with the \<open>state\<close> it was sent away with and with the cookies it was
  given, the callback does not refuse it: it exchanges the code with exactly the verifier whose
  S256 challenge the authorization URL announced. State and verifier have 32 and 43 characters of
  the unreserved URL alphabet.\<close>
theorem login_callback_roundtrip:
  assumes "prepareAuthorizationURL c sha256 (Some b32) (Some b43) r0 = Some (url, cs)"
    and "length b32 = 32" and "length b43 = 43"
    and "w_cookies r = map (\<lambda>c. (ck_name c, ck_value c)) cs" and "w_query_get r ''code'' \<noteq> []"
    and "w_query_get r ''state'' = ck_value (hd cs)"
  shows "\<exists>state verifier. url = authorization_url c state (createCodeChallenge sha256 verifier) \<and>
    w_query_get r ''state'' = state \<and> length state = 32 \<and> length verifier = 43 \<and>
    set state \<union> set verifier \<subseteq> set url_alphabet \<and>
    HandleCallback c lib post ops frontend now uuid rnd r s =
      (case exchangeCode c post (w_query_get r ''code'') verifier of
         None \<Rightarrow> (web 500 (clear_temporary r) (AbText ''Authentication failed''), s)
       | Some idToken \<Rightarrow>
           (case parseIDToken lib idToken of
              None \<Rightarrow> (web 500 (clear_temporary r) (AbText ''Authentication failed''), s)
            | Some claims \<Rightarrow> finish_login c ops frontend now uuid rnd r idToken claims s))"
proof -
  let ?state = "take 32 (raw_url_encode b32)" and ?verifier = "take 43 (raw_url_encode b43)"
  have l: "length ?state = 32" "length ?verifier = 43"
    using assms(2,3) by (simp_all add: raw_url_encode_length)
  have a: "set ?state \<union> set ?verifier \<subseteq> set url_alphabet"
    using raw_url_encode_alphabet [of b32] raw_url_encode_alphabet [of b43]
    by (meson Un_least dual_order.trans set_take_subset)
  from assms(1) have u: "url = authorization_url c ?state (createCodeChallenge sha256 ?verifier)"
    and cs: "cs = [lax_cookie oidcStateCookieName ?state r0 600 (isSecureRequest r0),
                   lax_cookie oidcVerifierCookieName ?verifier r0 600 (isSecureRequest r0)]"
    by (simp_all add: prepareAuthorizationURL_def generateRandomString_def)
  have ck: "w_cookie r oidcStateCookieName = Some ?state" "w_cookie r oidcVerifierCookieName = Some ?verifier"
    using assms(4) by (simp_all add: cs w_cookie_def)
  have st: "w_query_get r ''state'' = ?state" using assms(6) by (simp add: cs)
  show ?thesis
    using l a u ck st assms(5) by (intro exI [of _ ?state] exI [of _ ?verifier]) (simp add: HandleCallback_def)
qed

theorem login_callback_roundtrip_witness:
  "\<exists>url cs. prepareAuthorizationURL sample_oidc (\<lambda>x. x) (Some (replicate 32 (CHR ''a'')))
      (Some (replicate 43 (CHR ''b''))) zero_wire = Some (url, cs) \<and>
     fst (HandleCallback sample_oidc sample_login_lib (\<lambda>_ _. IdpError) mem_ops [] 5 ''u-9'' None
       (zero_wire\<lparr>w_query := [(''code'', ''c1''), (''state'', ck_value (hd cs))],
          w_cookies := map (\<lambda>c. (ck_name c, ck_value c)) cs\<rparr>) sample_login_state)
     \<noteq> web 400 [] (AbText ''Invalid state'')"
proof -
  obtain url cs where p: "prepareAuthorizationURL sample_oidc (\<lambda>x. x) (Some (replicate 32 (CHR ''a'')))
      (Some (replicate 43 (CHR ''b''))) zero_wire = Some (url, cs)"
    by (simp add: prepareAuthorizationURL_def generateRandomString_def)
  let ?r = "zero_wire\<lparr>w_query := [(''code'', ''c1''), (''state'', ck_value (hd cs))],
      w_cookies := map (\<lambda>c. (ck_name c, ck_value c)) cs\<rparr>"
  have q: "w_cookies ?r = map (\<lambda>c. (ck_name c, ck_value c)) cs" "w_query_get ?r ''code'' \<noteq> []"
    "w_query_get ?r ''state'' = ck_value (hd cs)" by (simp_all add: w_query_get_def)
  have x: "exchangeCode sample_oidc (\<lambda>_ _. IdpError) code verifier = None" for code verifier
    by (simp add: exchangeCode_def)
  from login_callback_roundtrip [OF p _ _ q, of sample_login_lib "\<lambda>_ _. IdpError" mem_ops "[]" 5
      "''u-9''" None sample_login_state] have
    "fst (HandleCallback sample_oidc sample_login_lib (\<lambda>_ _. IdpError) mem_ops [] 5 ''u-9'' None ?r
       sample_login_state) = web 500 (clear_temporary ?r) (AbText ''Authentication failed'')"
    by (auto simp: x)
  then have "fst (HandleCallback sample_oidc sample_login_lib (\<lambda>_ _. IdpError) mem_ops [] 5 ''u-9'' None ?r
       sample_login_state) \<noteq> web 400 [] (AbText ''Invalid state'')" by (simp add: web_def)
  with p show ?thesis by blast
qed

subsection \<open>The session middleware\<close>

text \<open>C16: The admin plane opens only to a live session. After any sequence of calls on a fresh
  session store, in memory or on Redis: if \<open>SessionMiddleware\<close> lets a request through to a path
  that is not public, the request carries a session cookie, the log shows that a session was
  created under its value and not deleted, the session has not expired, and the handlers see
  exactly that session's user id, admin flag and owner.\<close>
theorem session_gate_sound:
  assumes "redis_lawful rd present"
    and "backend = None \<or> (\<exists>b. backend = Some b \<and> present b = Map.empty)"
    and "session_run (redis_session_ops rd) (NewSessionStore ttl backend) cs [] = (lg, ss)"
    and "SessionMiddleware (redis_session_ops rd) now r ss = (GatePass hr, ss')"
    and "\<not> public_path (w_path r)"
  shows "\<exists>k sd. w_cookie r OIDCSessionCookieName = Some k \<and>
    live_session (if ttl = 0 then day_ns else ttl) lg k sd \<and> now \<le> sd_expires_at sd \<and>
    hr_principal hr = Some (PrincipalFromClaims (session_claims sd) []) \<and>
    hr_user_id hr = Some (CtxStr (sd_user_id sd)) \<and> hr_is_admin hr = Some (CtxBool (sd_is_admin sd)) \<and>
    hr_owner_iss hr = Some (CtxStr (sd_owner_iss sd)) \<and> hr_owner_sub hr = Some (CtxStr (sd_owner_sub sd))"
proof -
  from assms(4,5) obtain k sd where k: "w_cookie r OIDCSessionCookieName = Some k"
    "fst (session_Get (redis_session_ops rd) ss now now k) = Some sd" "hr = session_request r sd"
    by (auto simp: SessionMiddleware_def getSession_def split: prod.splits option.splits)
  have "live_session (if ttl = 0 then day_ns else ttl) lg k sd \<and> now \<le> sd_expires_at sd"
  proof (rule redisbk.get_live [OF _ assms(3) k(2)])
    fix b assume "backend = Some b"
    with assms(2) have "present b = Map.empty" by auto
    then show "redis_lawful rd present \<and> redis_sessions present b = Map.empty"
      using assms(1) by (auto simp: redis_sessions_def)
  qed
  with k show ?thesis by (auto simp: session_request_def plain_request_def)
qed

theorem session_gate_sound_witness:
  "\<exists>lg ss hr ss'. session_run (redis_session_ops map_redis) (NewSessionStore 100 (Some Map.empty))
       sample_session_calls [] = (lg, ss) \<and>
     SessionMiddleware (redis_session_ops map_redis) 50
       (zero_wire\<lparr>w_path := ''/api/users/me'', w_cookies := [(''session'', ''YWJj'')]\<rparr>) ss = (GatePass hr, ss') \<and>
     hr_user_id hr = Some (CtxStr ''u1'')"
proof -
  have enc: "url_encode ''abc'' = ''YWJj''" by code_simp
  let ?ops = "redis_session_ops map_redis"
  let ?run = "session_run ?ops (NewSessionStore 100 (Some Map.empty)) sample_session_calls []"
  let ?r = "zero_wire\<lparr>w_path := ''/api/users/me'', w_cookies := [(''session'', ''YWJj'')]\<rparr>"
  let ?g = "SessionMiddleware ?ops 50 ?r (snd ?run)"
  have run: "?run = (fst ?run, snd ?run)" by simp
  have np: "\<not> public_path (w_path ?r)" by (simp add: public_path_def has_prefix_def)
  have got: "fst (session_Get ?ops (snd ?run) 50 50 ''YWJj'') = Some (sample_session\<lparr>sd_expires_at := 105\<rparr>)"
    by (simp add: sample_session_calls_def session_Create_def generateSessionID_def enc
        NewSessionStore_def redis_session_defs map_redis_def stored_session_def session_Get_def
        DeleteWithError_def sessionKey_def)
  obtain ss2 where g: "session_Get ?ops (snd ?run) 50 50 ''YWJj''
      = (Some (sample_session\<lparr>sd_expires_at := 105\<rparr>), ss2)" using got by (metis prod.collapse)
  have c: "w_cookie ?r OIDCSessionCookieName = Some ''YWJj''"
    by (simp add: w_cookie_def OIDCSessionCookieName_def)
  have gate: "?g = (GatePass (session_request ?r (sample_session\<lparr>sd_expires_at := 105\<rparr>)), ss2)"
    using np by (simp add: SessionMiddleware_def getSession_def c g)
  from session_gate_sound [OF map_redis_lawful _ run gate np] obtain k sd where
    "w_cookie ?r OIDCSessionCookieName = Some k" by auto
  then show ?thesis using run gate
    by (intro exI conjI) (assumption | simp add: session_request_def sample_session_def)+
qed

subsection \<open>Logout\<close>

lemma deleted_stays_dead:
  assumes "redis_lawful rd present"
    and "DeleteWithError (redis_session_ops rd) ss now k = (None, ss')"
  shows "fst (session_Get (redis_session_ops rd) ss' t t' k) = None"
proof (cases "fst (session_Get (redis_session_ops rd) ss' t t' k)")
  case (Some d)
  have ok: "store_inv (\<lambda>_. redis_lawful rd present) ss" "store_inv (\<lambda>_. redis_lawful rd present) ss'"
    using assms(1) by (auto simp: store_inv_def split: option.split)
  obtain x s2 where g: "session_Get (redis_session_ops rd) ss' t t' k = (x, s2)" by fastforce
  with Some have "x = Some d" by simp
  from redisbk.get_step(2) [OF ok(2) g this] redisbk.delete_step [OF ok(1) assms(2)] show ?thesis
    by simp
qed

text \<open>C37: Logging out ends the session on the server. When either logout endpoint answers anything but
  an error, the value of the caller's session cookie no longer names a session: whoever presents
  it at any later time is anonymous to the session middleware.\<close>
theorem logout_ends_session:
  assumes "redis_lawful rd present" and "w_cookie r OIDCSessionCookieName = Some k"
    and "oidc_HandleLogout (redis_session_ops rd) frontend now r ss = (resp, ss') \<or>
         aa_oidc a \<and> api_HandleLogout a (redis_session_ops rd) now r ss = (resp, ss')"
    and "wr_status resp < 400" and "w_cookie r2 OIDCSessionCookieName = Some k"
    and "\<not> public_path (w_path r2)"
  shows "\<exists>answer. fst (SessionMiddleware (redis_session_ops rd) t r2 ss') = GateStop answer"
proof -
  obtain e ss1 where d: "DeleteWithError (redis_session_ops rd) ss now k = (e, ss1)" by fastforce
  with assms(2,3,4) have "e = None" "ss' = ss1"
    by (cases e; auto simp: oidc_HandleLogout_def api_HandleLogout_def clearSession_def writeJSONError_def
        redirect_def split: if_splits)+
  with deleted_stays_dead [OF assms(1), of ss now k ss1 t t] d
  have "fst (session_Get (redis_session_ops rd) ss' t t k) = None" by simp
  with assms(5,6) show ?thesis
    by (auto simp: SessionMiddleware_def getSession_def split: prod.split)
qed

theorem logout_ends_session_witness:
  "\<exists>answer. fst (SessionMiddleware (redis_session_ops map_redis) 60
       (zero_wire\<lparr>w_path := ''/api/users/me'', w_cookies := [(''session'', ''YWJj'')]\<rparr>)
       (snd (oidc_HandleLogout (redis_session_ops map_redis) [] 50
          (zero_wire\<lparr>w_method := ''POST'', w_cookies := [(''session'', ''YWJj'')]\<rparr>)
          (NewSessionStore 100 (Some Map.empty))))) = GateStop answer"
proof -
  let ?r = "zero_wire\<lparr>w_method := ''POST'', w_cookies := [(''session'', ''YWJj'')]\<rparr>"
  let ?r2 = "zero_wire\<lparr>w_path := ''/api/users/me'', w_cookies := [(''session'', ''YWJj'')]\<rparr>"
  let ?l = "oidc_HandleLogout (redis_session_ops map_redis) [] 50 ?r (NewSessionStore 100 (Some Map.empty))"
  have c: "w_cookie ?r OIDCSessionCookieName = Some ''YWJj''" "w_cookie ?r2 OIDCSessionCookieName = Some ''YWJj''"
    by (simp_all add: w_cookie_def OIDCSessionCookieName_def)
  have st: "wr_status (fst ?l) < 400"
    by (simp add: oidc_HandleLogout_def clearSession_def c DeleteWithError_def NewSessionStore_def
        redis_session_defs map_redis_def)
  have np: "\<not> public_path (w_path ?r2)" by (simp add: public_path_def has_prefix_def)
  have l: "?l = (fst ?l, snd ?l)" by simp
  show ?thesis using logout_ends_session [OF map_redis_lawful c(1) disjI1 [OF l] st c(2) np] .
qed

subsection \<open>What the session endpoint reports\<close>

text \<open>The session endpoint and the session middleware agree. With authentication on and an OIDC
  client, \<open>GET /api/auth/session\<close> reports an authenticated user in mode \<open>oidc\<close> exactly when the
  middleware would let the same browser through to the API at that moment, and then it reports
  the user id and the admin flag the handlers would see.\<close>
theorem session_endpoint_agrees:
  assumes "HandleSession a env now r s = (resp, s')" and "w_method r = ''GET''"
    and "aa_auth_enabled a" and "aa_oidc a" and "\<not> public_path (w_path r2)"
    and "w_cookies r2 = w_cookies r"
  shows "((\<exists>sr. wr_body resp = AbSession sr \<and> sr_authenticated sr \<and> sr_mode sr = ''oidc'') \<longleftrightarrow>
      (\<exists>hr. fst (SessionMiddleware (ae_sess env) now r2 (as_sessions s)) = GatePass hr)) \<and>
    (\<forall>sr hr. wr_body resp = AbSession sr \<and> sr_authenticated sr \<and> sr_mode sr = ''oidc'' \<and>
      fst (SessionMiddleware (ae_sess env) now r2 (as_sessions s)) = GatePass hr \<longrightarrow>
      (\<exists>u. sr_user sr = Some u \<and> hr_user_id hr = Some (CtxStr (su_id u)) \<and>
          hr_is_admin hr = Some (CtxBool (su_is_admin u))))"
proof -
  obtain v ss where g: "getSession (ae_sess env) now r (as_sessions s) = (v, ss)" by fastforce
  have c2: "w_cookie r2 OIDCSessionCookieName = w_cookie r OIDCSessionCookieName"
    using assms(6) by (simp add: w_cookie_def)
  have g2: "getSession (ae_sess env) now r2 (as_sessions s) = (v, ss)"
    using g by (simp add: getSession_def c2)
  have api: "api_session a env now r s = (v, s\<lparr>as_sessions := ss\<rparr>)"
    using assms(4) g by (simp add: api_session_def)
  have m: "fst (SessionMiddleware (ae_sess env) now r2 (as_sessions s)) =
      (case v of None \<Rightarrow> GateStop (if isAPIRequest r2 then writeJSONError [] ''Unauthorized'' 401
                                   else redirect [] ''/auth/login'')
       | Some sd \<Rightarrow> GatePass (session_request r2 sd))"
    using assms(5) g2 by (simp add: SessionMiddleware_def split: option.split)
  have b: "wr_body resp = AbSession sr \<Longrightarrow> sr_authenticated sr \<Longrightarrow> sr_mode sr = ''oidc'' \<Longrightarrow>
      \<exists>sd. v = Some sd \<and> sr = authenticated_session a ''oidc'' \<lparr>su_id = sd_user_id sd,
        su_email = sd_email sd, su_name = sd_name sd, su_is_admin = sd_is_admin sd\<rparr>" for sr
    using assms(1,2,3) api
    by (auto simp: HandleSession_def anonymous_session_def authenticated_session_def
        split: option.splits prod.splits)
  have report: "v = Some sd \<Longrightarrow> wr_body resp = AbSession (authenticated_session a ''oidc'' \<lparr>su_id = sd_user_id sd,
        su_email = sd_email sd, su_name = sd_name sd, su_is_admin = sd_is_admin sd\<rparr>)" for sd
    using assms(1,2,3) api by (auto simp: HandleSession_def)
  have iff: "(\<exists>sr. wr_body resp = AbSession sr \<and> sr_authenticated sr \<and> sr_mode sr = ''oidc'') \<longleftrightarrow>
      (\<exists>hr. fst (SessionMiddleware (ae_sess env) now r2 (as_sessions s)) = GatePass hr)"
    using m b report by (cases v) (auto simp: authenticated_session_def)
  have same: "\<exists>u. sr_user sr = Some u \<and> hr_user_id hr = Some (CtxStr (su_id u)) \<and>
        hr_is_admin hr = Some (CtxBool (su_is_admin u))"
    if p: "wr_body resp = AbSession sr" "sr_authenticated sr" "sr_mode sr = ''oidc''"
      "fst (SessionMiddleware (ae_sess env) now r2 (as_sessions s)) = GatePass hr" for sr hr
    using b [OF p(1,2,3)] p(4) m by (auto simp: authenticated_session_def session_request_def)
  show ?thesis using iff same by blast
qed

definition sample_api :: auth_api where
  "sample_api = \<lparr>aa_auth_enabled = True, aa_oidc_enabled = True, aa_token_auth = True, aa_oidc = True,
     aa_users = True, aa_admin_cfg = \<lparr>ac_enabled = True, ac_claim = [], ac_allowed_values = []\<rparr>\<rparr>"

theorem session_endpoint_agrees_witness:
  "fst (SessionMiddleware mem_ops 7 (zero_wire\<lparr>w_path := ''/api/users/me''\<rparr>) (as_sessions sample_auth_state))
     \<noteq> GatePass (plain_request zero_wire)"
proof -
  let ?r = "zero_wire\<lparr>w_path := ''/api/auth/session''\<rparr>"
  let ?r2 = "zero_wire\<lparr>w_path := ''/api/users/me''\<rparr>"
  let ?h = "HandleSession sample_api sample_auth_env 7 ?r sample_auth_state"
  have h: "?h = (fst ?h, snd ?h)" by simp
  have p: "w_method ?r = ''GET''" "aa_auth_enabled sample_api" "aa_oidc sample_api"
    "\<not> public_path (w_path ?r2)" "w_cookies ?r2 = w_cookies ?r"
    by (simp_all add: zero_wire_def sample_api_def public_path_def has_prefix_def)
  have "wr_body (fst ?h) = AbSession (anonymous_session sample_api)"
    by (simp add: HandleSession_def p api_session_def getSession_def w_cookie_def zero_wire_def
        tokenClaimsFromCookie_def)
  with session_endpoint_agrees [OF h p] show ?thesis
    by (auto simp: anonymous_session_def sample_auth_env_def)
qed

subsection \<open>Rights that outlive the account\<close>

definition sample_members :: user_store where
  "sample_members = \<lparr>us_up = True, us_rows = [sample_admin, sample_admin2,
     new_user 3 ''u-3'' ''iss'' ''carol'' ''carol@x'' ''Carol'']\<rparr>"

definition demoted_members :: user_store where
  "demoted_members =
     snd (HandleUpdateUser sample_members 9 sample_admin_request (Some (RoleUser, StatusSuspended)) ''u-2'')"

definition second_admin_login :: "mem_sessions session_store" where
  "second_admin_login = snd (session_Create mem_ops (NewSessionStore 100 None) 5 5 (Some ''abc'')
     (Some (login_session sample_admin2 [] [])))"

definition second_admin_request :: wire_request where
  "second_admin_request = zero_wire\<lparr>w_method := ''DELETE'', w_path := ''/api/users/u-3'',
     w_cookies := [(''session'', url_encode ''abc'')]\<rparr>"

text \<open>A session outlives the rights it was created with. An administrator logs in; then another
  one demotes and suspends that account. The old session still passes the session middleware, which
  does not look at the user table, and with the admin flag it kept the deletion of a third
  account is still carried out.\<close>
theorem demoted_session_still_admin:
  "u_role (us_rows demoted_members ! 1) = RoleUser \<and> u_status (us_rows demoted_members ! 1) = StatusSuspended \<and>
   (\<exists>hr. fst (SessionMiddleware mem_ops 10 second_admin_request second_admin_login) = GatePass hr \<and>
      hr_user_id hr = Some (CtxStr (u_id (us_rows demoted_members ! 1))) \<and>
      rs_status (fst (HandleDeleteUser demoted_members 11 hr ''u-3'')) = 200 \<and>
      u_status (us_rows (snd (HandleDeleteUser demoted_members 11 hr ''u-3'')) ! 2) = StatusDeleted)"
proof -
  have d: "demoted_members = \<lparr>us_up = True, us_rows = [sample_admin,
      sample_admin2\<lparr>u_role := RoleUser, u_status := StatusSuspended, u_updated_at := 9\<rparr>,
      new_user 3 ''u-3'' ''iss'' ''carol'' ''carol@x'' ''Carol'']\<rparr>"
    by code_simp
  let ?sd = "(login_session sample_admin2 [] [])\<lparr>sd_expires_at := 105\<rparr>"
  let ?hr = "session_request second_admin_request ?sd"
  have ss: "session_Get mem_ops second_admin_login 10 10 (url_encode ''abc'') = (Some ?sd, second_admin_login)"
    by (simp add: second_admin_login_def session_Create_def generateSessionID_def NewSessionStore_def
        stored_session_def session_Get_def)
  have np: "\<not> public_path ''/api/users/u-3''" by code_simp
  obtain hr where e: "hr = ?hr" by blast
  have gate: "fst (SessionMiddleware mem_ops 10 second_admin_request second_admin_login) = GatePass hr"
    by (simp add: e) (simp add: SessionMiddleware_def getSession_def second_admin_request_def np w_cookie_def
        OIDCSessionCookieName_def ss)
  have hr: "ctx_is_admin hr" "getUserID hr = ''u-2''" "hr_user_id hr = Some (CtxStr ''u-2'')"
    by (simp_all add: e session_request_def ctx_is_admin_def login_session_def IsAdmin_def
        sample_admin2_def getUserID_def ctx_string_def new_user_def)
  have del: "fst (HandleDeleteUser demoted_members 11 hr ''u-3'') = reply 200 (UbDeleted ''u-3'')"
    "snd (HandleDeleteUser demoted_members 11 hr ''u-3'') = \<lparr>us_up = True, us_rows = [sample_admin,
      sample_admin2\<lparr>u_role := RoleUser, u_status := StatusSuspended, u_updated_at := 9\<rparr>,
      (new_user 3 ''u-3'' ''iss'' ''carol'' ''carol@x'' ''Carol'')\<lparr>u_status := StatusDeleted,
         u_updated_at := 11\<rparr>]\<rparr>"
    by (simp_all add: HandleDeleteUser_def requireAdmin_def hr d GetByID_def get_where_def
        sample_admin_def sample_admin2_def new_user_def Update_def has_user_def update_rows_def)
  show ?thesis
    using gate hr del by (auto simp: d sample_admin2_def new_user_def)
qed

end
