(* ===== verification/ConfigStore.thy ===== *)
theory ConfigStore
  imports Config Encoding
begin

text \<open>
  \<open>internal/config/store.go\<close>: the providers and models kept in the database, each provider's
  configuration encrypted. A table is the list of its rows; the primary key on the name is an
  invariant.

  The parameter \<open>config_lib\<close> holds AES-GCM (\<open>Seal\<close> and \<open>Open\<close>) and \<open>json.Marshal\<close> and
  \<open>json.Unmarshal\<close> of a provider entry, as functions on bytes. Random nonces are arguments.
\<close>

subsection \<open>Encryption\<close>

record config_lib =
  cl_seal :: "string \<Rightarrow> string \<Rightarrow> string \<Rightarrow> string"
  cl_open :: "string \<Rightarrow> string \<Rightarrow> string \<Rightarrow> string option"
  cl_marshal :: "provider_entry \<Rightarrow> string option"
  cl_unmarshal :: "string \<Rightarrow> provider_entry option"

datatype config_store_error =
    KeyNotBase64
  | KeyWrongLength nat
  | BadCipherKey nat
  | NoNonce
  | BlobNotBase64
  | BlobTooShort
  | BlobRejected
  | MarshalFailed
  | UnmarshalFailed
  | StoreDb

text \<open>\<open>NewStore\<close>: the key it keeps.\<close>

definition NewConfigStore :: "string \<Rightarrow> config_store_error + string" where
  "NewConfigStore keyB64 =
     (case std_decode keyB64 of
        None \<Rightarrow> Inl KeyNotBase64
      | Some key \<Rightarrow> if length key \<noteq> 32 then Inl (KeyWrongLength (length key)) else Inr key)"

text \<open>\<open>aes.NewCipher\<close> takes keys of 16, 24 and 32 bytes; the nonce of \<open>cipher.NewGCM\<close> has 12.\<close>

definition cipher_key_ok :: "string \<Rightarrow> bool" where
  "cipher_key_ok key = (length key = 16 \<or> length key = 24 \<or> length key = 32)"

definition nonce_size :: nat where
  "nonce_size = 12"

definition encryptBlob :: "config_lib \<Rightarrow> string \<Rightarrow> string option \<Rightarrow> string \<Rightarrow> config_store_error + string" where
  "encryptBlob lib key rnd data =
     (if \<not> cipher_key_ok key then Inl (BadCipherKey (length key))
      else case rnd of
        None \<Rightarrow> Inl NoNonce
      | Some nonce \<Rightarrow> Inr (std_encode (nonce @ cl_seal lib key nonce data)))"

definition decryptBlob :: "config_lib \<Rightarrow> string \<Rightarrow> string \<Rightarrow> config_store_error + string" where
  "decryptBlob lib key encoded =
     (case std_decode encoded of
        None \<Rightarrow> Inl BlobNotBase64
      | Some data \<Rightarrow>
          (if \<not> cipher_key_ok key then Inl (BadCipherKey (length key))
           else if length data < nonce_size then Inl BlobTooShort
           else case cl_open lib key (take nonce_size data) (drop nonce_size data) of
             None \<Rightarrow> Inl BlobRejected
           | Some plaintext \<Rightarrow> Inr plaintext))"

subsection \<open>The tables\<close>

record provider_row =
  prw_name :: string
  prw_type :: string
  prw_config :: string

record config_db =
  cdb_up :: bool
  cdb_providers :: "provider_row list"
  cdb_models :: "model_entry list"

text \<open>\<open>INSERT \<dots> ON CONFLICT (name) DO UPDATE\<close> on a table with the key \<open>key\<close>, and \<open>DELETE\<close>.\<close>

definition upsert_row :: "('r \<Rightarrow> string) \<Rightarrow> 'r \<Rightarrow> 'r list \<Rightarrow> 'r list" where
  "upsert_row key row rows =
     (if list_ex (\<lambda>r. key r = key row) rows
      then map (\<lambda>r. if key r = key row then row else r) rows
      else rows @ [row])"

definition delete_row :: "('r \<Rightarrow> string) \<Rightarrow> string \<Rightarrow> 'r list \<Rightarrow> 'r list" where
  "delete_row key name rows = filter (\<lambda>r. key r \<noteq> name) rows"

definition row_of :: "('r \<Rightarrow> string) \<Rightarrow> 'r list \<Rightarrow> string \<Rightarrow> 'r option" where
  "row_of key rows name = map_of (map (\<lambda>r. (key r, r)) rows) name"

definition encrypt_entry ::
  "config_lib \<Rightarrow> string \<Rightarrow> string option \<Rightarrow> string \<Rightarrow> provider_entry \<Rightarrow> config_store_error + provider_row" where
  "encrypt_entry lib key rnd name entry =
     (case cl_marshal lib entry of
        None \<Rightarrow> Inl MarshalFailed
      | Some data \<Rightarrow>
          (case encryptBlob lib key rnd data of
             Inl e \<Rightarrow> Inl e
           | Inr blob \<Rightarrow> Inr \<lparr>prw_name = name, prw_type = pe_type entry, prw_config = blob\<rparr>))"

definition decrypt_row :: "config_lib \<Rightarrow> string \<Rightarrow> provider_row \<Rightarrow> config_store_error + provider_entry" where
  "decrypt_row lib key row =
     (case decryptBlob lib key (prw_config row) of
        Inl e \<Rightarrow> Inl e
      | Inr data \<Rightarrow>
          (case cl_unmarshal lib data of
             None \<Rightarrow> Inl UnmarshalFailed
           | Some entry \<Rightarrow> Inr (entry\<lparr>pe_type := prw_type row\<rparr>)))"

definition IsSeeded :: "config_db \<Rightarrow> config_store_error + bool" where
  "IsSeeded db = (if \<not> cdb_up db then Inl StoreDb else Inr (cdb_providers db \<noteq> []))"

fun decrypt_rows ::
  "config_lib \<Rightarrow> string \<Rightarrow> provider_row list \<Rightarrow> config_store_error + (string \<times> provider_entry) list" where
  "decrypt_rows lib key [] = Inr []"
| "decrypt_rows lib key (row # rows) =
     (case decrypt_row lib key row of
        Inl e \<Rightarrow> Inl e
      | Inr entry \<Rightarrow>
          (case decrypt_rows lib key rows of
             Inl e \<Rightarrow> Inl e
           | Inr ps \<Rightarrow> Inr ((prw_name row, entry) # ps)))"

definition ListProviders ::
  "config_lib \<Rightarrow> string \<Rightarrow> config_db \<Rightarrow> config_store_error + (string \<times> provider_entry) list" where
  "ListProviders lib key db =
     (if \<not> cdb_up db then Inl StoreDb else decrypt_rows lib key (cdb_providers db))"

definition ListModels :: "config_db \<Rightarrow> config_store_error + model_entry list" where
  "ListModels db = (if \<not> cdb_up db then Inl StoreDb else Inr (cdb_models db))"

definition UpsertProvider ::
  "config_lib \<Rightarrow> string \<Rightarrow> string option \<Rightarrow> config_db \<Rightarrow> string \<Rightarrow> provider_entry \<Rightarrow>
   config_store_error option \<times> config_db" where
  "UpsertProvider lib key rnd db name entry =
     (case encrypt_entry lib key rnd name entry of
        Inl e \<Rightarrow> (Some e, db)
      | Inr row \<Rightarrow>
          (if \<not> cdb_up db then (Some StoreDb, db)
           else (None, db\<lparr>cdb_providers := upsert_row prw_name row (cdb_providers db)\<rparr>)))"

definition UpsertModel :: "config_db \<Rightarrow> model_entry \<Rightarrow> config_store_error option \<times> config_db" where
  "UpsertModel db m =
     (if \<not> cdb_up db then (Some StoreDb, db)
      else (None, db\<lparr>cdb_models := upsert_row me_name m (cdb_models db)\<rparr>))"

definition DeleteProvider :: "config_db \<Rightarrow> string \<Rightarrow> config_store_error option \<times> config_db" where
  "DeleteProvider db name =
     (if \<not> cdb_up db then (Some StoreDb, db)
      else (None, db\<lparr>cdb_providers := delete_row prw_name name (cdb_providers db)\<rparr>))"

definition DeleteModel :: "config_db \<Rightarrow> string \<Rightarrow> config_store_error option \<times> config_db" where
  "DeleteModel db name =
     (if \<not> cdb_up db then (Some StoreDb, db)
      else (None, db\<lparr>cdb_models := delete_row me_name name (cdb_models db)\<rparr>))"

subsection \<open>Seeding\<close>

text \<open>
  The provider loop of the transaction of \<open>SeedIfEmpty\<close>; the nonces come one by one from \<open>rnds\<close>.
\<close>

fun seed_rows ::
  "config_lib \<Rightarrow> string \<Rightarrow> (nat \<Rightarrow> string option) \<Rightarrow> (string \<times> provider_entry) list \<Rightarrow> nat \<Rightarrow>
   string list \<Rightarrow> provider_row list \<Rightarrow> config_store_error + provider_row list" where
  "seed_rows lib key rnds providers i [] rows = Inr rows"
| "seed_rows lib key rnds providers i (name # names) rows =
     (case encrypt_entry lib key (rnds i) name (the (map_of providers name)) of
        Inl e \<Rightarrow> Inl e
      | Inr row \<Rightarrow> seed_rows lib key rnds providers (Suc i) names (upsert_row prw_name row rows))"

text \<open>
  The argument \<open>commit\<close> says whether the commit succeeds. An error leaves the transaction rolled
  back.
\<close>

definition SeedIfEmpty ::
  "config_lib \<Rightarrow> string \<Rightarrow> (nat \<Rightarrow> string option) \<Rightarrow> bool \<Rightarrow> (string \<times> provider_entry) list \<Rightarrow>
   model_entry list \<Rightarrow> config_db \<Rightarrow> config_store_error option \<times> config_db" where
  "SeedIfEmpty lib key rnds commit providers models db =
     (if \<not> cdb_up db then (Some StoreDb, db)
      else if cdb_providers db \<noteq> [] then (if commit then None else Some StoreDb, db)
      else case seed_rows lib key rnds providers 0 (sort (remdups (map fst providers))) [] of
        Inl e \<Rightarrow> (Some e, db)
      | Inr rows \<Rightarrow>
          (if \<not> commit then (Some StoreDb, db)
           else (None, db\<lparr>cdb_providers := rows,
                   cdb_models := fold (upsert_row me_name) models (cdb_models db)\<rparr>)))"

fun seed_providers ::
  "config_lib \<Rightarrow> string \<Rightarrow> (nat \<Rightarrow> string option) \<Rightarrow> nat \<Rightarrow> (string \<times> provider_entry) list \<Rightarrow>
   config_db \<Rightarrow> config_store_error option \<times> config_db" where
  "seed_providers lib key rnds i [] db = (None, db)"
| "seed_providers lib key rnds i ((name, entry) # es) db =
     (case UpsertProvider lib key (rnds i) db name entry of
        (Some e, db') \<Rightarrow> (Some e, db')
      | (None, db') \<Rightarrow> seed_providers lib key rnds (Suc i) es db')"

fun seed_models :: "model_entry list \<Rightarrow> config_db \<Rightarrow> config_store_error option \<times> config_db" where
  "seed_models [] db = (None, db)"
| "seed_models (m # ms) db =
     (case UpsertModel db m of
        (Some e, db') \<Rightarrow> (Some e, db')
      | (None, db') \<Rightarrow> seed_models ms db')"

text \<open>\<open>Seed\<close>, outside a transaction and in the order \<open>ord\<close> of the map.\<close>

definition Seed ::
  "config_lib \<Rightarrow> string \<Rightarrow> (nat \<Rightarrow> string option) \<Rightarrow>
   ((string \<times> provider_entry) list \<Rightarrow> (string \<times> provider_entry) list) \<Rightarrow>
   (string \<times> provider_entry) list \<Rightarrow> model_entry list \<Rightarrow> config_db \<Rightarrow>
   config_store_error option \<times> config_db" where
  "Seed lib key rnds ord providers models db =
     (case seed_providers lib key rnds 0 (ord providers) db of
        (Some e, db') \<Rightarrow> (Some e, db')
      | (None, db') \<Rightarrow> seed_models models db')"

end
