(* ===== verification/ConfigStoreProps.thy ===== *)
theory ConfigStoreProps
  imports ConfigStore
begin

text \<open>
  Properties of the configuration store: its two tables through the contract \<open>keyed_table\<close>, that
  what is read back is what was written, and that seeding happens as a whole or not at all.
\<close>

subsection \<open>Tables with a key\<close>

locale keyed_table =
  fixes wf :: "'t \<Rightarrow> bool" and key :: "'r \<Rightarrow> string" and lookup :: "'t \<Rightarrow> string \<Rightarrow> 'r option"
    and put :: "'r \<Rightarrow> 't \<Rightarrow> 't" and remove :: "string \<Rightarrow> 't \<Rightarrow> 't"
  assumes wf_put: "wf t \<Longrightarrow> wf (put r t)"
    and wf_remove: "wf t \<Longrightarrow> wf (remove k t)"
    and lookup_put: "wf t \<Longrightarrow> lookup (put r t) = (lookup t)(key r \<mapsto> r)"
    and lookup_remove: "wf t \<Longrightarrow> lookup (remove k t) = (lookup t)(k := None)"
begin

lemma wf_fold_put: "wf t \<Longrightarrow> wf (fold put rs t)"
  by (induction rs arbitrary: t) (auto intro: wf_put)

lemma lookup_fold_put:
  "wf t \<Longrightarrow> lookup (fold put rs t) = lookup t ++ map_of (rev (map (\<lambda>r. (key r, r)) rs))"
proof (induction rs arbitrary: t)
  case (Cons r rs)
  have "lookup (fold put (r # rs) t) = lookup (put r t) ++ map_of (rev (map (\<lambda>r. (key r, r)) rs))"
    using Cons.IH [OF wf_put [OF Cons.prems, of r]] by simp
  also have "\<dots> = lookup t ++ map_of (rev (map (\<lambda>r. (key r, r)) (r # rs)))"
    by (simp add: lookup_put [OF Cons.prems] map_add_def fun_eq_iff split: option.splits)
  finally show ?case .
qed simp

lemma lookup_put_same [simp]: "wf t \<Longrightarrow> lookup (put r t) (key r) = Some r"
  by (simp add: lookup_put)

lemma lookup_remove_put: "wf t \<Longrightarrow> lookup (remove (key r) (put r t)) = (lookup t)(key r := None)"
  by (simp add: lookup_put lookup_remove wf_put)

end

lemma list_ex_key: "list_ex (\<lambda>r. key r = k) rows \<longleftrightarrow> k \<in> key ` set rows"
  by (induction rows) auto

lemma upsert_row_keys:
  "map key (upsert_row key row rows) =
     (if key row \<in> key ` set rows then map key rows else map key rows @ [key row])"
proof (cases "key row \<in> key ` set rows")
  case True
  have "map key (map (\<lambda>r. if key r = key row then row else r) rows) = map key rows" by simp
  with True show ?thesis by (simp add: upsert_row_def list_ex_key)
qed (simp add: upsert_row_def list_ex_key)

lemma distinct_upsert_row: "distinct (map key rows) \<Longrightarrow> distinct (map key (upsert_row key row rows))"
  by (simp add: upsert_row_keys)

lemma row_of_map_replace:
  "row_of key (map (\<lambda>r. if key r = key row then row else r) rows) name =
     (if name = key row \<and> name \<in> key ` set rows then Some row else row_of key rows name)"
  by (induction rows) (auto simp: row_of_def)

lemma row_of_None: "row_of key rows name = None \<longleftrightarrow> name \<notin> key ` set rows"
  by (induction rows) (auto simp: row_of_def)

lemma row_of_append: "row_of key (rows @ [row]) name =
    (case row_of key rows name of Some r \<Rightarrow> Some r | None \<Rightarrow> if name = key row then Some row else None)"
  by (auto simp: row_of_def map_add_def split: option.splits)

lemma row_of_upsert: "row_of key (upsert_row key row rows) = (row_of key rows)(key row \<mapsto> row)"
proof
  fix name
  show "row_of key (upsert_row key row rows) name = ((row_of key rows)(key row \<mapsto> row)) name"
  proof (cases "key row \<in> key ` set rows")
    case True
    then show ?thesis by (simp add: upsert_row_def list_ex_key row_of_map_replace)
  next
    case False
    then have "row_of key rows (key row) = None" by (simp add: row_of_None)
    with False show ?thesis
      by (auto simp: upsert_row_def list_ex_key row_of_append split: option.splits)
  qed
qed

lemma row_of_delete: "row_of key (delete_row key k rows) = (row_of key rows)(k := None)"
  by (induction rows) (auto simp: row_of_def delete_row_def fun_eq_iff)

lemma distinct_delete_row: "distinct (map key rows) \<Longrightarrow> distinct (map key (delete_row key k rows))"
  by (simp add: delete_row_def distinct_map_filter)

interpretation provider_table: keyed_table "\<lambda>rows. distinct (map prw_name rows)" prw_name
  "row_of prw_name" "upsert_row prw_name" "delete_row prw_name"
  by unfold_locales (simp_all add: distinct_upsert_row distinct_delete_row row_of_upsert row_of_delete)

interpretation model_table: keyed_table "\<lambda>rows. distinct (map me_name rows)" me_name
  "row_of me_name" "upsert_row me_name" "delete_row me_name"
  by unfold_locales (simp_all add: distinct_upsert_row distinct_delete_row row_of_upsert row_of_delete)

subsection \<open>Reading back\<close>

text \<open>
  What the code relies on: \<open>Open\<close> inverts \<open>Seal\<close> under the same key and nonce, and an entry that
  satisfies \<open>valid\<close> (JSON keeps its strings) survives \<open>Marshal\<close> and \<open>Unmarshal\<close>.
\<close>

definition config_lawful :: "config_lib \<Rightarrow> (provider_entry \<Rightarrow> bool) \<Rightarrow> bool" where
  "config_lawful lib valid \<longleftrightarrow>
     (\<forall>key nonce data. cipher_key_ok key \<longrightarrow> length nonce = nonce_size \<longrightarrow>
        cl_open lib key nonce (cl_seal lib key nonce data) = Some data) \<and>
     (\<forall>e. valid e \<longrightarrow> (\<exists>d. cl_marshal lib e = Some d \<and> cl_unmarshal lib d = Some e))"

lemma decrypt_encrypt:
  assumes "config_lawful lib valid" and "cipher_key_ok key" and "length nonce = nonce_size"
  shows "\<exists>blob. encryptBlob lib key (Some nonce) data = Inr blob \<and> decryptBlob lib key blob = Inr data"
  using assms by (auto simp: encryptBlob_def decryptBlob_def std_roundtrip config_lawful_def)

lemma encrypt_entry_readable:
  assumes "config_lawful lib valid" and "cipher_key_ok key" and "length nonce = nonce_size" and "valid e"
  obtains row where "encrypt_entry lib key (Some nonce) name e = Inr row" and "prw_name row = name"
    and "decrypt_row lib key row = Inr e"
proof -
  from assms(1,4) obtain d where d: "cl_marshal lib e = Some d" "cl_unmarshal lib d = Some e"
    by (auto simp: config_lawful_def)
  from decrypt_encrypt [OF assms(1-3)] obtain blob where
    b: "encryptBlob lib key (Some nonce) d = Inr blob" "decryptBlob lib key blob = Inr d" by blast
  show ?thesis
    by (rule that [of "\<lparr>prw_name = name, prw_type = pe_type e, prw_config = blob\<rparr>"])
       (simp_all add: encrypt_entry_def decrypt_row_def d b)
qed

lemma decrypt_rows_iff:
  "decrypt_rows lib key rows = Inr ps \<longleftrightarrow>
     (\<forall>r \<in> set rows. is_ok (decrypt_row lib key r)) \<and>
     ps = map (\<lambda>r. (prw_name r, projr (decrypt_row lib key r))) rows"
proof (induction rows arbitrary: ps)
  case (Cons r rows)
  show ?case
  proof (cases "decrypt_rows lib key rows")
    case (Inl e)
    then have n: "\<not> (\<forall>r \<in> set rows. is_ok (decrypt_row lib key r))" 
      using Cons.IH [of "map (\<lambda>r. (prw_name r, projr (decrypt_row lib key r))) rows"] by simp
    from Inl have "decrypt_rows lib key (r # rows) \<noteq> Inr ps" by (simp split: sum.splits)
    with n show ?thesis by (metis list.set_intros(2))
  next
    case (Inr qs)
    with Cons.IH [of qs] show ?thesis by (auto simp: is_ok_iff split: sum.splits)
  qed
qed auto

lemma map_of_row_of: "map_of (map (\<lambda>r. (key r, f r)) rows) n = map_option f (row_of key rows n)"
  by (induction rows) (auto simp: row_of_def)

text \<open>The rows can all be read.\<close>

definition readable :: "config_lib \<Rightarrow> string \<Rightarrow> provider_row list \<Rightarrow> bool" where
  "readable lib key rows \<longleftrightarrow> (\<forall>r \<in> set rows. is_ok (decrypt_row lib key r))"

definition entries_of :: "config_lib \<Rightarrow> string \<Rightarrow> provider_row list \<Rightarrow> string \<rightharpoonup> provider_entry" where
  "entries_of lib key rows = (\<lambda>n. map_option (\<lambda>r. projr (decrypt_row lib key r)) (row_of prw_name rows n))"

lemma ListProviders_readable:
  assumes "cdb_up db" and "readable lib key (cdb_providers db)"
  obtains ps where "ListProviders lib key db = Inr ps"
    and "map_of ps = entries_of lib key (cdb_providers db)"
  using assms that [of "map (\<lambda>r. (prw_name r, projr (decrypt_row lib key r))) (cdb_providers db)"]
  by (simp add: ListProviders_def decrypt_rows_iff readable_def entries_of_def map_of_row_of fun_eq_iff)

lemma ListProviders_readableD:
  "ListProviders lib key db = Inr ps \<Longrightarrow>
     cdb_up db \<and> readable lib key (cdb_providers db) \<and> map_of ps = entries_of lib key (cdb_providers db)"
  by (auto simp: ListProviders_def decrypt_rows_iff readable_def entries_of_def map_of_row_of
      split: if_splits)

lemma set_upsert_row: "set (upsert_row key row rows) \<subseteq> insert row (set rows)"
  by (auto simp: upsert_row_def)

lemma readable_upsert:
  "readable lib key rows \<Longrightarrow> decrypt_row lib key row = Inr e \<Longrightarrow>
     readable lib key (upsert_row prw_name row rows)"
  using set_upsert_row [of prw_name row rows] by (auto simp: readable_def)

lemma readable_delete: "readable lib key rows \<Longrightarrow> readable lib key (delete_row prw_name n rows)"
  by (auto simp: readable_def delete_row_def)

lemma entries_of_upsert:
  "decrypt_row lib key row = Inr e \<Longrightarrow>
     entries_of lib key (upsert_row prw_name row rows) = (entries_of lib key rows)(prw_name row \<mapsto> e)"
  by (auto simp: entries_of_def row_of_upsert fun_eq_iff)

lemma entries_of_delete:
  "entries_of lib key (delete_row prw_name n rows) = (entries_of lib key rows)(n := None)"
  by (auto simp: entries_of_def row_of_delete fun_eq_iff)

subsection \<open>Runs of the operations\<close>

datatype config_call =
    SaveProvider "string option" string provider_entry
  | DropProvider string
  | SaveModel model_entry
  | DropModel string

fun config_step :: "config_lib \<Rightarrow> string \<Rightarrow> config_call \<Rightarrow> config_db \<Rightarrow> config_db" where
  "config_step lib key (SaveProvider rnd name e) db = snd (UpsertProvider lib key rnd db name e)"
| "config_step lib key (DropProvider name) db = snd (DeleteProvider db name)"
| "config_step lib key (SaveModel m) db = snd (UpsertModel db m)"
| "config_step lib key (DropModel name) db = snd (DeleteModel db name)"

text \<open>The specification: two maps. Saving without a nonce fails and changes nothing.\<close>

type_synonym config_spec = "(string \<rightharpoonup> provider_entry) \<times> (string \<rightharpoonup> model_entry)"

fun spec_step :: "config_call \<Rightarrow> config_spec \<Rightarrow> config_spec" where
  "spec_step (SaveProvider None name e) (ps, ms) = (ps, ms)"
| "spec_step (SaveProvider (Some nonce) name e) (ps, ms) = (ps(name \<mapsto> e), ms)"
| "spec_step (DropProvider name) (ps, ms) = (ps(name := None), ms)"
| "spec_step (SaveModel m) (ps, ms) = (ps, ms(me_name m \<mapsto> m))"
| "spec_step (DropModel name) (ps, ms) = (ps, ms(name := None))"

fun call_ok :: "(provider_entry \<Rightarrow> bool) \<Rightarrow> config_call \<Rightarrow> bool" where
  "call_ok valid (SaveProvider rnd name e) \<longleftrightarrow>
     valid e \<and> (case rnd of None \<Rightarrow> True | Some nonce \<Rightarrow> length nonce = nonce_size)"
| "call_ok valid _ \<longleftrightarrow> True"

definition config_abs :: "config_lib \<Rightarrow> string \<Rightarrow> config_db \<Rightarrow> config_spec" where
  "config_abs lib key db = (entries_of lib key (cdb_providers db), row_of me_name (cdb_models db))"

definition config_inv :: "config_lib \<Rightarrow> string \<Rightarrow> config_db \<Rightarrow> bool" where
  "config_inv lib key db \<longleftrightarrow> cdb_up db \<and> distinct (map prw_name (cdb_providers db)) \<and>
     distinct (map me_name (cdb_models db)) \<and> readable lib key (cdb_providers db)"

lemma config_step_refines:
  assumes law: "config_lawful lib valid" and key: "cipher_key_ok key"
    and inv: "config_inv lib key db" and ok: "call_ok valid c"
  shows "config_inv lib key (config_step lib key c db) \<and>
    config_abs lib key (config_step lib key c db) = spec_step c (config_abs lib key db)"
proof (cases c)
  case (SaveProvider rnd name e)
  show ?thesis
  proof (cases rnd)
    case None
    with SaveProvider inv show ?thesis
      by (simp add: UpsertProvider_def encrypt_entry_def encryptBlob_def config_abs_def
          split: option.splits)
  next
    case (Some nonce)
    with SaveProvider ok have "length nonce = nonce_size" "valid e" by simp_all
    from encrypt_entry_readable [OF law key this, of name] obtain row where
      "encrypt_entry lib key (Some nonce) name e = Inr row" "prw_name row = name"
      "decrypt_row lib key row = Inr e" .
    with SaveProvider Some inv show ?thesis
      by (auto simp: UpsertProvider_def config_inv_def config_abs_def entries_of_upsert
          intro: readable_upsert provider_table.wf_put)
  qed
next
  case (DropProvider name)
  with inv show ?thesis
    by (auto simp: DeleteProvider_def config_inv_def config_abs_def entries_of_delete
        intro: readable_delete provider_table.wf_remove)
next
  case (SaveModel m)
  with inv show ?thesis
    by (auto simp: UpsertModel_def config_inv_def config_abs_def model_table.lookup_put
        intro: model_table.wf_put)
next
  case (DropModel name)
  with inv show ?thesis
    by (auto simp: DeleteModel_def config_inv_def config_abs_def model_table.lookup_remove
        intro: model_table.wf_remove)
qed

lemma config_run_refines:
  assumes "config_lawful lib valid" and "cipher_key_ok key" and "config_inv lib key db"
    and "list_all (call_ok valid) cs"
  shows "config_inv lib key (fold (config_step lib key) cs db) \<and>
    config_abs lib key (fold (config_step lib key) cs db) = fold spec_step cs (config_abs lib key db)"
  using assms(3,4)
proof (induction cs arbitrary: db)
  case (Cons c cs)
  with config_step_refines [OF assms(1,2) Cons.prems(1), of c] show ?case by simp
qed simp

text \<open>C28: The store keeps what it is given. From a store whose rows can be read, after any sequence of
  saves and deletions with the same key, \<open>ListProviders\<close> succeeds and lists exactly the entries a
  pair of maps would hold, every field as it was saved and through the encryption, and \<open>ListModels\<close>
  lists the models of the second map, none twice. A save that gets no random nonce changes nothing.\<close>
theorem config_store_refines:
  assumes "config_lawful lib valid" and "NewConfigStore keyB64 = Inr key"
    and "ListProviders lib key db = Inr ps" and "distinct (map prw_name (cdb_providers db))"
    and "distinct (map me_name (cdb_models db))" and "list_all (call_ok valid) cs"
  shows "\<exists>ps' ms'. ListProviders lib key (fold (config_step lib key) cs db) = Inr ps' \<and>
    ListModels (fold (config_step lib key) cs db) = Inr ms' \<and> distinct (map me_name ms') \<and>
    (map_of ps', row_of me_name ms') = fold spec_step cs (map_of ps, row_of me_name (cdb_models db))"
proof -
  let ?db = "fold (config_step lib key) cs db"
  from assms(2) have key: "cipher_key_ok key"
    by (auto simp: NewConfigStore_def cipher_key_ok_def split: option.splits if_splits)
  from ListProviders_readableD [OF assms(3)] assms(4,5) have inv: "config_inv lib key db"
    and ps: "map_of ps = entries_of lib key (cdb_providers db)" by (simp_all add: config_inv_def)
  from config_run_refines [OF assms(1) key inv assms(6)]
  have i: "config_inv lib key ?db"
    and a: "config_abs lib key ?db = fold spec_step cs (config_abs lib key db)" by simp_all
  from i obtain ps' where "ListProviders lib key ?db = Inr ps'"
    and "map_of ps' = entries_of lib key (cdb_providers ?db)"
    by (auto simp: config_inv_def elim: ListProviders_readable)
  with i a ps show ?thesis
    by (auto simp: ListModels_def config_inv_def config_abs_def)
qed

definition sample_entry :: provider_entry where
  "sample_entry = \<lparr>pe_type = ''openai'', pe_api_key = ''sk-secret-key'', pe_endpoint = [], pe_api_version = [],
     pe_project = [], pe_location = [], pe_circuit_breaker = None\<rparr>"

definition sample_config_lib :: config_lib where
  "sample_config_lib = \<lparr>cl_seal = (\<lambda>k n d. rev d), cl_open = (\<lambda>k n c. Some (rev c)),
     cl_marshal = (\<lambda>e. Some ''x''), cl_unmarshal = (\<lambda>d. Some sample_entry)\<rparr>"

definition sample_key64 :: string where
  "sample_key64 = std_encode (replicate 32 (CHR ''k''))"

definition empty_config_db :: config_db where
  "empty_config_db = \<lparr>cdb_up = True, cdb_providers = [], cdb_models = []\<rparr>"

lemma sample_config_lawful: "config_lawful sample_config_lib (\<lambda>e. e = sample_entry)"
  by (simp add: config_lawful_def sample_config_lib_def)

lemma sample_key: "NewConfigStore sample_key64 = Inr (replicate 32 (CHR ''k''))"
  by (simp add: NewConfigStore_def sample_key64_def std_roundtrip)

lemma config_store_refines_witness:
  "\<exists>ps. ListProviders sample_config_lib (replicate 32 (CHR ''k''))
      (fold (config_step sample_config_lib (replicate 32 (CHR ''k'')))
         [SaveProvider (Some ''abcdefghijkl'') ''main'' sample_entry,
          SaveProvider (Some ''mnopqrstuvwx'') ''old'' sample_entry, DropProvider ''old'']
         empty_config_db) = Inr ps \<and> map_of ps = [''main'' \<mapsto> sample_entry]"
proof -
  have l: "ListProviders sample_config_lib (replicate 32 (CHR ''k'')) empty_config_db = Inr []"
    by (simp add: ListProviders_def empty_config_db_def)
  have r: "row_of me_name [] = Map.empty" by (simp add: row_of_def fun_eq_iff)
  have n: "(Map.empty(''main'' \<mapsto> sample_entry, ''old'' \<mapsto> sample_entry))(''old'' := None) =
      [''main'' \<mapsto> sample_entry]"
    by (auto simp: fun_eq_iff)
  from config_store_refines [OF sample_config_lawful sample_key l, of
      "[SaveProvider (Some ''abcdefghijkl'') ''main'' sample_entry,
        SaveProvider (Some ''mnopqrstuvwx'') ''old'' sample_entry, DropProvider ''old'']"]
  show ?thesis by (auto simp: empty_config_db_def nonce_size_def r n)
qed

subsection \<open>Seeding\<close>

lemma seed_rows_ok:
  assumes "config_lawful lib valid" and "cipher_key_ok key"
    and "\<forall>i. \<exists>nonce. rnds i = Some nonce \<and> length nonce = nonce_size"
  shows "\<forall>n \<in> set names. valid (the (map_of ps n)) \<Longrightarrow> readable lib key rows \<Longrightarrow>
    \<exists>rows'. seed_rows lib key rnds ps i names rows = Inr rows' \<and> readable lib key rows' \<and>
      entries_of lib key rows' =
        (\<lambda>n. if n \<in> set names then Some (the (map_of ps n)) else entries_of lib key rows n)"
proof (induction names arbitrary: i rows)
  case (Cons n names)
  from assms(3) obtain nonce where n: "rnds i = Some nonce" "length nonce = nonce_size" by blast
  have "valid (the (map_of ps n))" using Cons.prems(1) by simp
  from encrypt_entry_readable [OF assms(1,2) n(2) this, of n] obtain row where
    r: "encrypt_entry lib key (Some nonce) n (the (map_of ps n)) = Inr row" "prw_name row = n"
    "decrypt_row lib key row = Inr (the (map_of ps n))" .
  from Cons.IH [OF _ readable_upsert [OF Cons.prems(2) r(3)], of "Suc i"] Cons.prems(1)
  obtain rows' where "seed_rows lib key rnds ps (Suc i) names (upsert_row prw_name row rows) = Inr rows'"
    "readable lib key rows'" "entries_of lib key rows' =
        (\<lambda>m. if m \<in> set names then Some (the (map_of ps m))
             else entries_of lib key (upsert_row prw_name row rows) m)" by auto
  with n(1) r show ?case by (auto simp: entries_of_upsert [OF r(3)] fun_eq_iff)
qed simp

text \<open>Seeding happens as a whole or not at all. \<open>SeedIfEmpty\<close> succeeds exactly if its transaction
  commits; if it fails, or if the store has a provider already, nothing changes; otherwise the
  store then lists exactly the providers of the file, and its models over the old ones.\<close>
theorem seed_all_or_nothing:
  assumes law: "config_lawful lib valid" and k: "NewConfigStore keyB64 = Inr key"
    and nonces: "\<forall>i. \<exists>nonce. rnds i = Some nonce \<and> length nonce = nonce_size"
    and v: "\<forall>p \<in> set providers. valid (snd p)"
    and db: "cdb_up db" "distinct (map me_name (cdb_models db))"
    and run: "SeedIfEmpty lib key rnds commit providers models db = (err, db')"
  shows "(err = None \<longleftrightarrow> commit) \<and> (err \<noteq> None \<or> cdb_providers db \<noteq> [] \<longrightarrow> db' = db) \<and>
    (err = None \<and> cdb_providers db = [] \<longrightarrow>
       (\<exists>ps. ListProviders lib key db' = Inr ps \<and> map_of ps = map_of providers) \<and>
       row_of me_name (cdb_models db') =
         row_of me_name (cdb_models db) ++ map_of (rev (map (\<lambda>m. (me_name m, m)) models)))"
proof -
  let ?names = "sort (remdups (map fst providers))"
  from k have key: "cipher_key_ok key"
    by (auto simp: NewConfigStore_def cipher_key_ok_def split: option.splits if_splits)
  have valid: "\<forall>n \<in> set ?names. valid (the (map_of providers n))"
  proof
    fix n assume "n \<in> set ?names"
    then obtain e where e: "map_of providers n = Some e"
      by (metis map_of_eq_None_iff not_None_eq set_map set_remdups set_sort)
    then have "(n, e) \<in> set providers" by (rule map_of_SomeD)
    with v e show "valid (the (map_of providers n))" by force
  qed
  from seed_rows_ok [OF law key nonces valid, of "[]" 0] obtain rows where
    rows: "seed_rows lib key rnds providers 0 ?names [] = Inr rows" "readable lib key rows"
    and e: "entries_of lib key rows = (\<lambda>n. if n \<in> set ?names then Some (the (map_of providers n))
              else entries_of lib key [] n)" by (auto simp: readable_def)
  have all: "entries_of lib key rows = map_of providers"
  proof
    fix n
    have "n \<in> set ?names \<longleftrightarrow> map_of providers n \<noteq> None" by (simp add: map_of_eq_None_iff)
    moreover have "entries_of lib key [] n = None" by (simp add: entries_of_def row_of_def)
    ultimately show "entries_of lib key rows n = map_of providers n"
      by (cases "map_of providers n") (simp_all add: e)
  qed
  let ?db = "db\<lparr>cdb_providers := rows, cdb_models := fold (upsert_row me_name) models (cdb_models db)\<rparr>"
  obtain ps where "ListProviders lib key ?db = Inr ps" "map_of ps = map_of providers"
    using ListProviders_readable [of ?db lib key] rows(2) db(1) all by auto
  with run rows(1) db show ?thesis
    by (auto simp: SeedIfEmpty_def model_table.lookup_fold_put split: if_splits)
qed

end
