(* ===== verification/AdminUi.thy ===== *)
theory AdminUi
  imports ConfigSources ConfigStore Providers RateLimit
begin

text \<open>
  The admin server, \<open>internal/ui\<close>: system information and the sanitised configuration, the
  endpoints that edit providers and models (\<open>handlers.go\<close>), and the IP allowlist
  (\<open>middleware.go\<close>). The registry is the one the
  holder holds at that moment, \<open>uis_cfg\<close> the configuration
  read at the start and \<open>uis_store\<close> the key of the configuration store, if there is one; the store's
  tables are threaded through the handlers.

  \<open>net/url\<close> and \<open>net.ParseIP\<close> with its networks are arguments, as is the order of a map.
\<close>

subsection \<open>Numbers and durations as text\<close>

fun dec_digits :: "nat \<Rightarrow> string" where
  "dec_digits n = (if n < 10 then [char_of (48 + n)] else dec_digits (n div 10) @ [char_of (48 + n mod 10)])"

declare dec_digits.simps [simp del]

definition dec_int :: "int \<Rightarrow> string" where
  "dec_int n = (if n < 0 then ''-'' @ dec_digits (nat (- n)) else dec_digits (nat n))"

definition formatPart :: "int \<Rightarrow> string \<Rightarrow> string" where
  "formatPart v unit = (if v = 1 then ''1 '' @ unit else dec_int v @ '' '' @ unit @ ''s'')"

text \<open>\<open>Duration.Round(time.Second)\<close>: half away from zero, saturating.\<close>

definition round_second :: "int \<Rightarrow> int" where
  "round_second d =
     (if d < 0 then
        (let r = (- d) mod 1000000000 in
         if r + r < 1000000000 then d + r
         else if min_int64 \<le> d - 1000000000 + r then d - 1000000000 + r else min_int64)
      else
        (let r = d mod 1000000000 in
         if r + r < 1000000000 then d - r
         else if d + 1000000000 - r \<le> max_int64 then d + 1000000000 - r else max_int64))"

text \<open>Go's integer division truncates towards zero.\<close>

definition quot :: "int \<Rightarrow> int \<Rightarrow> int" where
  "quot a b = sgn a * (\<bar>a\<bar> div b)"

definition formatDuration :: "int \<Rightarrow> string" where
  "formatDuration d0 =
     (let d = round_second d0;
          h = quot d 3600000000000; d1 = d - h * 3600000000000;
          m = quot d1 60000000000; d2 = d1 - m * 60000000000;
          s = quot d2 1000000000;
          hm = (if 0 < h then [formatPart h ''hour''] else []) @
               (if 0 < m then [formatPart m ''minute''] else [])
      in join_with '' '' (hm @ (if 0 < s \<or> hm = [] then [formatPart s ''second''] else [])))"

subsection \<open>Masking\<close>

definition maskSecret :: "string \<Rightarrow> string" where
  "maskSecret secret =
     (if secret = [] then []
      else if length secret \<le> 8 then ''********''
      else take 4 secret @ ''...'' @ drop (length secret - 4) secret)"

definition maskHeaderValues :: "(string \<times> string) list \<Rightarrow> (string \<times> string) list" where
  "maskHeaderValues headers = map (\<lambda>(k, v). (k, ''****'')) headers"

text \<open>
  \<open>net/url\<close>: parsing, the user name and password of a URL, and \<open>String\<close> after the user
  information was replaced.
\<close>

record 'u url_lib =
  ul_parse :: "string \<Rightarrow> 'u option"
  ul_user :: "'u \<Rightarrow> (string \<times> string option) option"
  ul_string :: "'u \<Rightarrow> string \<Rightarrow> string \<Rightarrow> string"

text \<open>\<open>strings.ReplaceAll\<close> for a non-empty pattern.\<close>

function replace_all :: "string \<Rightarrow> string \<Rightarrow> string \<Rightarrow> string" where
  "replace_all p q s =
     (if s = [] then []
      else if p \<noteq> [] \<and> has_prefix s p then q @ replace_all p q (drop (length p) s)
      else hd s # replace_all p q (tl s))"
  by pat_completeness auto
termination by (relation "measure (\<lambda>(p, q, s). length s)") auto

declare replace_all.simps [simp del]

definition maskURL :: "'u url_lib \<Rightarrow> string \<Rightarrow> string" where
  "maskURL lib rawURL =
     (if rawURL = [] then []
      else case ul_parse lib rawURL of
        None \<Rightarrow> ''****''
      | Some u \<Rightarrow>
          (case ul_user lib u of
             None \<Rightarrow> rawURL
           | Some (name, None) \<Rightarrow> rawURL
           | Some (name, Some password) \<Rightarrow>
               replace_all ''%2A%2A%2A%2A'' ''****'' (ul_string lib u name ''****'')))"

subsection \<open>Responses\<close>

record build_info =
  bi_version :: string
  bi_build_time :: string
  bi_git_commit :: string
  bi_go_version :: string

record sanitized_provider =
  sp_type :: string
  sp_api_key :: string
  sp_endpoint :: string
  sp_api_version :: string
  sp_project :: string
  sp_location :: string

record provider_info =
  pi_name :: string
  pi_type :: string
  pi_models :: "string list"
  pi_status :: string

text \<open>
  \<open>ConfigResponse\<close>. The rate limit, exporter and observability sections are the configuration's own
  records with the secrets masked.
\<close>

record config_response =
  cfr_server :: server_config
  cfr_providers :: "(string \<times> sanitized_provider) list"
  cfr_models :: "model_entry list"
  cfr_auth :: "bool \<times> string \<times> string list"
  cfr_conversations :: conversation_config
  cfr_logging :: logging_config
  cfr_rate_limit :: rate_limit_config
  cfr_observability :: observability_config
  cfr_usage :: bool

datatype ui_body =
    UbError string string
  | UbSystem build_info string
  | UbHealth string "(string \<times> string \<times> string) list"
  | UbConfig config_response
  | UbProviders "provider_info list"
  | UbProvider sanitized_provider
  | UbName string
  | UbModels "model_entry list"
  | UbModel model_entry
  | UbNone

type_synonym ui_reply = "ui_body http_response"

definition writeError :: "nat \<Rightarrow> string \<Rightarrow> string \<Rightarrow> ui_reply" where
  "writeError st code msg = reply st (UbError code msg)"

definition writeSuccess :: "ui_body \<Rightarrow> ui_reply" where
  "writeSuccess b = reply 200 b"

record 'p ui_server =
  uis_registry :: "'p registry"
  uis_cfg :: gateway_config
  uis_store :: "string option"
  uis_start :: timestamp
  uis_build :: build_info

subsection \<open>System and configuration\<close>

definition handleSystemInfo :: "'p ui_server \<Rightarrow> timestamp \<Rightarrow> http_request \<Rightarrow> ui_reply" where
  "handleSystemInfo s now r =
     (if hr_method r \<noteq> ''GET'' then writeError 405 ''method_not_allowed'' ''Only GET is allowed''
      else writeSuccess (UbSystem (uis_build s) (formatDuration (now - uis_start s))))"

definition handleSystemHealth :: "'p ui_server \<Rightarrow> http_request \<Rightarrow> ui_reply" where
  "handleSystemHealth s r =
     (if hr_method r \<noteq> ''GET'' then writeError 405 ''method_not_allowed'' ''Only GET is allowed''
      else
        (let ok = (Models (uis_registry s) \<noteq> []) in
         writeSuccess (UbHealth (if ok then ''healthy'' else ''unhealthy'')
           [(''server'', ''healthy'', ''Server is running''),
            (''providers'', if ok then (''healthy'', ''Providers configured'')
                            else (''unhealthy'', ''No providers configured'')),
            (''conversation_store'', ''healthy'', ''Store accessible'')])))"

definition sanitize_provider :: "provider_entry \<Rightarrow> sanitized_provider" where
  "sanitize_provider e =
     \<lparr>sp_type = pe_type e, sp_api_key = maskSecret (pe_api_key e), sp_endpoint = pe_endpoint e,
      sp_api_version = pe_api_version e, sp_project = pe_project e, sp_location = pe_location e\<rparr>"

definition sanitize_config :: "'u url_lib \<Rightarrow> gateway_config \<Rightarrow> config_response" where
  "sanitize_config lib c =
     (let rl = gc_rate_limit c; ob = gc_observability c; tr = obc_tracing ob; ex = trc_exporter tr in
      \<lparr>cfr_server = gc_server c,
       cfr_providers = map (\<lambda>(name, e). (name, sanitize_provider e)) (gc_providers c),
       cfr_models = gc_models c,
       cfr_auth = (ast_enabled (gc_auth c), ast_issuer (gc_auth c), ast_audiences (gc_auth c)),
       cfr_conversations = gc_conversations c,
       cfr_logging = gc_logging c,
       cfr_rate_limit = rl\<lparr>rlc_redis_url := maskURL lib (rlc_redis_url rl)\<rparr>,
       cfr_observability = ob\<lparr>obc_tracing :=
         tr\<lparr>trc_exporter := ex\<lparr>exc_headers := maskHeaderValues (exc_headers ex)\<rparr>\<rparr>\<rparr>,
       cfr_usage = usc_enabled (gc_usage c)\<rparr>)"

definition handleConfig :: "'u url_lib \<Rightarrow> 'p ui_server \<Rightarrow> http_request \<Rightarrow> ui_reply" where
  "handleConfig lib s r =
     (if hr_method r \<noteq> ''GET'' then writeError 405 ''method_not_allowed'' ''Only GET is allowed''
      else writeSuccess (UbConfig (sanitize_config lib (uis_cfg s))))"

subsection \<open>Providers and models\<close>

definition no_config_store :: ui_reply where
  "no_config_store = writeError 501 ''no_config_store''
     ''Config store not configured (DATABASE_URL and ENCRYPTION_KEY required)''"

definition listProviders ::
  "config_lib \<Rightarrow> ((string \<times> provider_entry) list \<Rightarrow> (string \<times> provider_entry) list) \<Rightarrow>
   'p ui_server \<Rightarrow> config_db \<Rightarrow> ui_reply" where
  "listProviders lib ord s db =
     (let providerModels = (\<lambda>n. map snd (filter (\<lambda>(p, m). p = n) (Models (uis_registry s)))) in
      case (case uis_store s of
              Some key \<Rightarrow> ListProviders lib key db
            | None \<Rightarrow> Inr (gc_providers (uis_cfg s))) of
        Inl e \<Rightarrow> writeError 500 ''store_error'' ''Failed to list providers''
      | Inr ps \<Rightarrow>
          writeSuccess (UbProviders (map (\<lambda>(name, e). \<lparr>pi_name = name, pi_type = pe_type e,
             pi_models = providerModels name, pi_status = ''active''\<rparr>) (ord ps))))"

text \<open>
  \<open>body\<close> is the decoded request, \<open>None\<close> if it does not decode; \<open>rnd\<close> the nonce of the
  encryption.
\<close>

definition createProvider ::
  "config_lib \<Rightarrow> 'p ui_server \<Rightarrow> string option \<Rightarrow> (string \<times> provider_entry) option \<Rightarrow> config_db \<Rightarrow>
   ui_reply \<times> config_db" where
  "createProvider lib s rnd body db =
     (case uis_store s of
        None \<Rightarrow> (no_config_store, db)
      | Some key \<Rightarrow>
          (case body of
             None \<Rightarrow> (writeError 400 ''invalid_json'' ''Invalid JSON payload'', db)
           | Some (name, entry) \<Rightarrow>
               (if name = [] then (writeError 400 ''missing_name'' ''Field 'name' is required'', db)
                else if pe_type entry = []
                then (writeError 400 ''missing_type'' ''Field 'type' is required'', db)
                else case UpsertProvider lib key rnd db name entry of
                  (Some e, db') \<Rightarrow> (writeError 500 ''store_error'' ''Failed to save provider'', db')
                | (None, db') \<Rightarrow> (reply 201 (UbName name), db'))))"

definition handleProviders ::
  "config_lib \<Rightarrow> ((string \<times> provider_entry) list \<Rightarrow> (string \<times> provider_entry) list) \<Rightarrow>
   'p ui_server \<Rightarrow> string option \<Rightarrow> http_request \<Rightarrow> (string \<times> provider_entry) option \<Rightarrow> config_db \<Rightarrow>
   ui_reply \<times> config_db" where
  "handleProviders lib ord s rnd r body db =
     (if hr_method r = ''GET'' then (listProviders lib ord s db, db)
      else if hr_method r = ''POST'' then createProvider lib s rnd body db
      else (writeError 405 ''method_not_allowed'' ''Only GET and POST are allowed'', db))"

definition handleProviderByName ::
  "config_lib \<Rightarrow> 'p ui_server \<Rightarrow> string option \<Rightarrow> http_request \<Rightarrow> string \<Rightarrow> provider_entry option \<Rightarrow>
   config_db \<Rightarrow> ui_reply \<times> config_db" where
  "handleProviderByName lib s rnd r name body db =
     (if name = [] then (writeError 400 ''missing_name'' ''Provider name is required'', db)
      else if hr_method r = ''GET'' then
        (case map_of (gc_providers (uis_cfg s)) name of
           None \<Rightarrow> (writeError 404 ''not_found'' ''Provider not found'', db)
         | Some e \<Rightarrow> (writeSuccess (UbProvider (sanitize_provider e)), db))
      else if hr_method r = ''PUT'' then
        (case uis_store s of
           None \<Rightarrow> (no_config_store, db)
         | Some key \<Rightarrow>
             (case body of
                None \<Rightarrow> (writeError 400 ''invalid_json'' ''Invalid JSON payload'', db)
              | Some entry \<Rightarrow>
                  (if pe_type entry = []
                   then (writeError 400 ''missing_type'' ''Field 'type' is required'', db)
                   else case UpsertProvider lib key rnd db name entry of
                     (Some e, db') \<Rightarrow> (writeError 500 ''store_error'' ''Failed to update provider'', db')
                   | (None, db') \<Rightarrow> (writeSuccess (UbName name), db'))))
      else if hr_method r = ''DELETE'' then
        (case uis_store s of
           None \<Rightarrow> (no_config_store, db)
         | Some key \<Rightarrow>
             (case DeleteProvider db name of
                (Some e, db') \<Rightarrow> (writeError 500 ''store_error'' ''Failed to delete provider'', db')
              | (None, db') \<Rightarrow> (reply 204 UbNone, db')))
      else (writeError 405 ''method_not_allowed'' ''Only GET, PUT, and DELETE are allowed'', db))"

definition handleConfigModels ::
  "'p ui_server \<Rightarrow> http_request \<Rightarrow> model_entry option \<Rightarrow> config_db \<Rightarrow> ui_reply \<times> config_db" where
  "handleConfigModels s r body db =
     (if hr_method r = ''GET'' then
        (case uis_store s of
           None \<Rightarrow> (writeSuccess (UbModels (gc_models (uis_cfg s))), db)
         | Some key \<Rightarrow>
             (case ListModels db of
                Inl e \<Rightarrow> (writeError 500 ''store_error'' ''Failed to list models'', db)
              | Inr ms \<Rightarrow> (writeSuccess (UbModels ms), db)))
      else if hr_method r = ''POST'' then
        (case uis_store s of
           None \<Rightarrow> (no_config_store, db)
         | Some key \<Rightarrow>
             (case body of
                None \<Rightarrow> (writeError 400 ''invalid_json'' ''Invalid JSON payload'', db)
              | Some m \<Rightarrow>
                  (if me_name m = [] then (writeError 400 ''missing_name'' ''Field 'name' is required'', db)
                   else if me_provider m = []
                   then (writeError 400 ''missing_provider'' ''Field 'provider' is required'', db)
                   else case UpsertModel db m of
                     (Some e, db') \<Rightarrow> (writeError 500 ''store_error'' ''Failed to save model'', db')
                   | (None, db') \<Rightarrow> (reply 201 (UbModel m), db'))))
      else (writeError 405 ''method_not_allowed'' ''Only GET and POST are allowed'', db))"

definition handleConfigModelByName ::
  "'p ui_server \<Rightarrow> http_request \<Rightarrow> string \<Rightarrow> model_entry option \<Rightarrow> config_db \<Rightarrow> ui_reply \<times> config_db" where
  "handleConfigModelByName s r name body db =
     (if name = [] then (writeError 400 ''missing_name'' ''Model name is required'', db)
      else if hr_method r = ''GET'' then
        (case first_some (\<lambda>m. if me_name m = name then Some m else None) (gc_models (uis_cfg s)) of
           Some m \<Rightarrow> (writeSuccess (UbModel m), db)
         | None \<Rightarrow> (writeError 404 ''not_found'' ''Model not found'', db))
      else if hr_method r = ''PUT'' then
        (case uis_store s of
           None \<Rightarrow> (no_config_store, db)
         | Some key \<Rightarrow>
             (case body of
                None \<Rightarrow> (writeError 400 ''invalid_json'' ''Invalid JSON payload'', db)
              | Some m0 \<Rightarrow>
                  (let m = m0\<lparr>me_name := name\<rparr> in
                   if me_provider m = []
                   then (writeError 400 ''missing_provider'' ''Field 'provider' is required'', db)
                   else case UpsertModel db m of
                     (Some e, db') \<Rightarrow> (writeError 500 ''store_error'' ''Failed to update model'', db')
                   | (None, db') \<Rightarrow> (writeSuccess (UbModel m), db'))))
      else if hr_method r = ''DELETE'' then
        (case uis_store s of
           None \<Rightarrow> (no_config_store, db)
         | Some key \<Rightarrow>
             (case DeleteModel db name of
                (Some e, db') \<Rightarrow> (writeError 500 ''store_error'' ''Failed to delete model'', db')
              | (None, db') \<Rightarrow> (reply 204 UbNone, db')))
      else (writeError 405 ''method_not_allowed'' ''Only GET, PUT, and DELETE are allowed'', db))"

subsection \<open>The IP allowlist\<close>

text \<open>\<open>parse_ip\<close> and \<open>contains\<close> are \<open>net.ParseIP\<close> and \<open>IPNet.Contains\<close>. The middleware lets pass or
  answers 403.\<close>

definition clientIP :: "string \<Rightarrow> string" where
  "clientIP remoteAddr = trim_space (extractIP remoteAddr)"

definition IPAllowlistMiddleware ::
  "(string \<Rightarrow> 'ip option) \<Rightarrow> ('net \<Rightarrow> 'ip \<Rightarrow> bool) \<Rightarrow> 'net list \<Rightarrow> string \<Rightarrow> bool" where
  "IPAllowlistMiddleware parse_ip contains allowlist remoteAddr =
     (if allowlist = [] then True
      else case parse_ip (clientIP remoteAddr) of
        None \<Rightarrow> False
      | Some ip \<Rightarrow> list_ex (\<lambda>cidr. contains cidr ip) allowlist)"

text \<open>\<open>ParseCIDRs\<close> over \<open>net.ParseCIDR\<close>: the first text that is no network is an error.\<close>

fun ParseCIDRs :: "(string \<Rightarrow> 'net option) \<Rightarrow> string list \<Rightarrow> string + 'net list" where
  "ParseCIDRs parse [] = Inr []"
| "ParseCIDRs parse (cidr # cidrs) =
     (case parse cidr of
        None \<Rightarrow> Inl cidr
      | Some n \<Rightarrow> map_sum id ((#) n) (ParseCIDRs parse cidrs))"

end
