(* ===== verification/Wiring.thy ===== *)
theory Wiring
  imports AdminUi Oidc Gateway
begin

text \<open>
  How \<open>cmd/gateway/main.go\<close> puts the gateway together: where the configuration comes from, which
  parts it starts and when it refuses to start, the reload of the registry, the routes, and the
  middlewares in front of them.

  The outside world is a parameter: \<open>reach\<close> says which of the services main connects to
  answer and migrate. Paths are clean, as \<open>http.ServeMux\<close> redirects the others.
\<close>

subsection \<open>Loading the configuration\<close>

datatype load_error =
    LoadEnv env_error
  | LoadNoSource
  | LoadFile file_error
  | LoadInvalid config_error
  | LoadNotPostgres string
  | LoadNoConnection
  | LoadStore config_store_error
  | LoadMigration

text \<open>What \<open>loadConfig\<close> reads besides the environment.\<close>

record load_env =
  le_float :: "string \<Rightarrow> float64 option"
  le_read :: "string \<Rightarrow> string option"
  le_parse :: "file_format \<Rightarrow> string \<Rightarrow> ((string \<times> provider_entry) list \<times> model_entry list) option"
  le_ord :: "(string \<times> provider_entry) list \<Rightarrow> (string \<times> provider_entry) list"
  le_lib :: config_lib
  le_nonces :: "nat \<Rightarrow> string option"
  le_migrated :: bool
  le_commit :: bool

definition load_file ::
  "load_env \<Rightarrow> environment \<Rightarrow> string \<Rightarrow> load_error + (string \<times> provider_entry) list \<times> model_entry list" where
  "load_file w env path = map_sum LoadFile id (LoadFromFile (le_read w) (le_parse w) (le_ord w) env path)"

text \<open>\<open>cfg.Providers\<close> and \<open>cfg.Models\<close> are set and the result validated.\<close>

definition with_entries ::
  "gateway_config \<Rightarrow> (string \<times> provider_entry) list \<Rightarrow> model_entry list \<Rightarrow> load_error + gateway_config" where
  "with_entries cfg ps ms =
     (case validate_config ps ms of
        Some e \<Rightarrow> Inl (LoadInvalid e)
      | None \<Rightarrow> Inr (cfg\<lparr>gc_providers := ps, gc_models := ms\<rparr>))"

definition seed_from_file ::
  "load_env \<Rightarrow> environment \<Rightarrow> string \<Rightarrow> config_db \<Rightarrow> load_error + config_db" where
  "seed_from_file w env key db =
     (let path = Getenv env ''GATEWAY_CONFIG'' in
      if path = [] then Inr db
      else case IsSeeded db of
        Inl e \<Rightarrow> Inl (LoadStore e)
      | Inr True \<Rightarrow> Inr db
      | Inr False \<Rightarrow>
          then_do (load_file w env path) (\<lambda>(ps, ms).
            case SeedIfEmpty (le_lib w) key (le_nonces w) (le_commit w) ps ms db of
              (Some e, db') \<Rightarrow> Inl (LoadStore e)
            | (None, db') \<Rightarrow> Inr db'))"

definition lift_store :: "config_store_error + 'a \<Rightarrow> load_error + 'a" where
  "lift_store = map_sum LoadStore id"

text \<open>\<open>loadConfig\<close>: the key of the configuration store, if there is one, the configuration, the tables.\<close>

definition loadConfig ::
  "load_env \<Rightarrow> environment \<Rightarrow> config_db \<Rightarrow> load_error + string option \<times> gateway_config \<times> config_db" where
  "loadConfig w env db =
     then_do (map_sum LoadEnv id (LoadFromEnv (le_float w) env)) (\<lambda>cfg.
     (let dbURL = Getenv env ''DATABASE_URL''; encKey = Getenv env ''ENCRYPTION_KEY'' in
      if dbURL = [] \<or> encKey = [] then
        (let path = Getenv env ''GATEWAY_CONFIG'' in
         if path = [] then Inl LoadNoSource
         else then_do (load_file w env path) (\<lambda>(ps, ms).
              then_do (with_entries cfg ps ms) (\<lambda>cfg'. Inr (None, cfg', db))))
      else if \<not> has_prefix dbURL ''postgres://'' \<and> \<not> has_prefix dbURL ''postgresql://''
      then Inl (LoadNotPostgres dbURL)
      else if \<not> cdb_up db then Inl LoadNoConnection
      else then_do (lift_store (NewConfigStore encKey)) (\<lambda>key.
        if \<not> le_migrated w then Inl LoadMigration
        else then_do (seed_from_file w env key db) (\<lambda>db'.
             then_do (lift_store (ListProviders (le_lib w) key db')) (\<lambda>ps.
             then_do (lift_store (ListModels db')) (\<lambda>ms.
             then_do (with_entries cfg ps ms) (\<lambda>cfg'. Inr (Some key, cfg', db'))))))))"

subsection \<open>The registry and its reload\<close>

text \<open>
  \<open>buildRegistry\<close>: with observability on, the registry comes wrapped, and the wrapper answers the
  same calls; \<open>mk\<close> covers the wrapping of the providers.
\<close>

definition buildRegistry ::
  "((string \<times> provider_entry) list \<Rightarrow> (string \<times> provider_entry) list) \<Rightarrow>
   (built_provider \<Rightarrow> string option) \<Rightarrow> (bool \<Rightarrow> built_provider \<Rightarrow> breaker_config \<Rightarrow> 'p) \<Rightarrow> gateway_config \<Rightarrow>
   (string \<times> provider_entry) list \<Rightarrow> model_entry list \<Rightarrow> (string \<times> build_error) + 'p registry" where
  "buildRegistry ord genai mk cfg provEntries mods =
     NewRegistry ord genai (mk (obc_enabled (gc_observability cfg))) provEntries mods"

text \<open>One tick of the polling goroutine. Any error keeps the registry that is held.\<close>

definition poll_tick ::
  "config_lib \<Rightarrow> string \<Rightarrow> ((string \<times> provider_entry) list \<Rightarrow> (string \<times> provider_entry) list) \<Rightarrow>
   (built_provider \<Rightarrow> string option) \<Rightarrow> (bool \<Rightarrow> built_provider \<Rightarrow> breaker_config \<Rightarrow> 'p) \<Rightarrow> gateway_config \<Rightarrow>
   config_db \<Rightarrow> 'p registry_holder \<Rightarrow> 'p registry_holder" where
  "poll_tick lib key ord genai mk cfg db holder =
     (case ListProviders lib key db of
        Inl e \<Rightarrow> holder
      | Inr provEntries \<Rightarrow>
          (case ListModels db of
             Inl e \<Rightarrow> holder
           | Inr mods \<Rightarrow>
               (case buildRegistry ord genai mk cfg provEntries mods of
                  Inl e \<Rightarrow> holder
                | Inr newReg \<Rightarrow> Swap holder newReg)))"

subsection \<open>What is started\<close>

datatype startup_error =
    StartRegistry "string \<times> build_error"
  | StartAuth auth_error
  | StartUserDb
  | StartOidcNeedsUsers
  | StartSessionTtl string
  | StartSessionRedis
  | StartOidc auth_error
  | StartApiKeysNeedUsers
  | StartApiKeyMigration
  | StartNoConversationDb
  | StartConversationTtl string
  | StartConversationDb
  | StartNoRateRedis
  | StartRateRedis
  | StartRateProxies string
  | StartNoUsageDb
  | StartUsageDb
  | StartAllowlist string

datatype service = UserDb | SessionRedis | ApiKeyMigration | ConversationDb | RateRedis | UsageDb

definition authConfig :: "gateway_config \<Rightarrow> auth_config" where
  "authConfig cfg =
     (let a = gc_auth cfg in
      \<lparr>au_enabled = ast_enabled a, au_issuer = ast_issuer a, au_discovery_url = ast_discovery_url a,
       au_audiences = ast_audiences a, au_clock_skew = 0, au_stale_ttl = 0,
       au_admin_claim = uic_claim (gc_ui cfg)\<rparr>)"

definition adminAuthConfig :: "gateway_config \<Rightarrow> admin_config" where
  "adminAuthConfig cfg =
     \<lparr>ac_enabled = (ast_enabled (gc_auth cfg) \<and> uic_enabled (gc_ui cfg)),
      ac_claim = uic_claim (gc_ui cfg), ac_allowed_values = uic_allowed_values (gc_ui cfg)\<rparr>"

definition oidcClientConfig :: "gateway_config \<Rightarrow> oidc_config" where
  "oidcClientConfig cfg =
     (let a = gc_auth cfg in
      \<lparr>oc_issuer = ast_issuer a, oc_discovery_url = ast_discovery_url a,
       oc_client_id = ast_client_id a, oc_client_secret = ast_client_secret a,
       oc_redirect_uri = ast_redirect_uri a, oc_admin_email = ast_admin_email a\<rparr>)"

text \<open>A duration setting: 0 when empty.\<close>

definition duration_setting :: "string \<Rightarrow> string + int" where
  "duration_setting s =
     (if s = [] then Inr 0 else case ParseDuration s of None \<Rightarrow> Inl s | Some d \<Rightarrow> Inr d)"

definition conversation_ttl :: "conversation_config \<Rightarrow> string + int" where
  "conversation_ttl c =
     then_do (duration_setting (cvc_ttl c)) (\<lambda>ttl.
     if cvc_max_ttl c = [] then Inr ttl
     else then_do (duration_setting (cvc_max_ttl c)) (\<lambda>maxTTL.
       Inr (if 0 < maxTTL \<and> (ttl = 0 \<or> maxTTL < ttl) then maxTTL else ttl)))"

text \<open>The connection pool; a lifetime that does not parse leaves the default.\<close>

record pool_settings =
  po_max_open_conns :: int
  po_max_idle_conns :: int
  po_conn_max_lifetime :: int
  po_conn_max_idle_time :: int

definition conversation_pool :: "conversation_config \<Rightarrow> pool_settings" where
  "conversation_pool c =
     \<lparr>po_max_open_conns = (if cvc_max_open_conns c = 0 then 25 else cvc_max_open_conns c),
      po_max_idle_conns = (if cvc_max_idle_conns c = 0 then 5 else cvc_max_idle_conns c),
      po_conn_max_lifetime = override_duration (cvc_conn_max_lifetime c) 300000000000,
      po_conn_max_idle_time = override_duration (cvc_conn_max_idle_time c) 60000000000\<rparr>"

definition initConversationStore ::
  "(service \<Rightarrow> bool) \<Rightarrow> environment \<Rightarrow> conversation_config \<Rightarrow> startup_error + int \<times> pool_settings" where
  "initConversationStore reach env c =
     (if Getenv env ''DATABASE_URL'' = [] then Inl StartNoConversationDb
      else case conversation_ttl c of
        Inl s \<Rightarrow> Inl (StartConversationTtl s)
      | Inr ttl \<Rightarrow>
          (if reach ConversationDb then Inr (ttl, conversation_pool c) else Inl StartConversationDb))"

text \<open>The lifetime of a session and whether Redis keeps it.\<close>

definition initSessionStore ::
  "(service \<Rightarrow> bool) \<Rightarrow> session_config \<Rightarrow> startup_error + int \<times> bool" where
  "initSessionStore reach c =
     (case (if snc_ttl c = [] then Some day_ns else ParseDuration (snc_ttl c)) of
        None \<Rightarrow> Inl (StartSessionTtl (snc_ttl c))
      | Some ttl \<Rightarrow>
          (if snc_redis_url c = [] then Inr (ttl, False)
           else if reach SessionRedis then Inr (ttl, True) else Inl StartSessionRedis))"

definition rateLimitConfig :: "rate_limit_config \<Rightarrow> rl_config" where
  "rateLimitConfig c =
     \<lparr>rc_enabled = True, rc_requests_per_second = rlc_requests_per_second c, rc_burst = rlc_burst c,
      rc_max_concurrent_requests = rlc_max_concurrent_requests c,
      rc_daily_token_quota = rlc_daily_token_quota c\<rparr>"

text \<open>
  The plan of a gateway: which optional parts run and how. \<open>gp_sessions\<close> is there exactly with the
  OIDC client.
\<close>

record ('net, 'p) gateway_plan =
  gp_registry :: "'p registry"
  gp_keys :: key_cache
  gp_chain :: "authn list"
  gp_users :: bool
  gp_sessions :: "(int \<times> bool) option"
  gp_api_keys :: "int option"
  gp_conversations :: "(int \<times> pool_settings) option"
  gp_rate_limit :: "rl_config option"
  gp_usage :: "(int \<times> int) option"
  gp_admin :: "'net list option"
  gp_admin_auth :: admin_config
  gp_metrics :: "string option"

definition start_users :: "(service \<Rightarrow> bool) \<Rightarrow> environment \<Rightarrow> gateway_config \<Rightarrow> startup_error + bool" where
  "start_users reach env cfg =
     (if IsEnabled (gc_conversations cfg) \<and> Getenv env ''DATABASE_URL'' \<noteq> []
      then (if reach UserDb then Inr True else Inl StartUserDb) else Inr False)"

definition start_oidc ::
  "(service \<Rightarrow> bool) \<Rightarrow> idp \<Rightarrow> gateway_config \<Rightarrow> bool \<Rightarrow> startup_error + (int \<times> bool) option" where
  "start_oidc reach provider cfg users =
     (if ast_enabled (gc_auth cfg) \<and> uic_enabled (gc_ui cfg) \<and> ast_client_id (gc_auth cfg) \<noteq> [] then
        (if \<not> users then Inl StartOidcNeedsUsers
         else then_do (initSessionStore reach (gc_session cfg)) (\<lambda>sess.
           case oidc_discover (oidcClientConfig cfg) provider of
             Inl e \<Rightarrow> Inl (StartOidc e) | Inr client \<Rightarrow> Inr (Some sess)))
      else Inr None)"

definition start_api_keys ::
  "(service \<Rightarrow> bool) \<Rightarrow> gateway_config \<Rightarrow> bool \<Rightarrow> startup_error + int option" where
  "start_api_keys reach cfg users =
     (if \<not> akc_enabled (gc_api_keys cfg) then Inr None
      else if \<not> users then Inl StartApiKeysNeedUsers
      else if reach ApiKeyMigration then Inr (Some (akc_max_keys_per_user (gc_api_keys cfg)))
      else Inl StartApiKeyMigration)"

text \<open>\<open>parseCIDRs\<close> of the rate limiter is \<open>ParseCIDRs\<close> again.\<close>

definition start_rate_limit ::
  "(service \<Rightarrow> bool) \<Rightarrow> (string \<Rightarrow> 'net option) \<Rightarrow> gateway_config \<Rightarrow> startup_error + rl_config option" where
  "start_rate_limit reach cidr cfg =
     (let c = gc_rate_limit cfg in
      if \<not> rlc_enabled c then Inr None
      else if rlc_redis_url c = [] then Inl StartNoRateRedis
      else if \<not> reach RateRedis then Inl StartRateRedis
      else case ParseCIDRs cidr (rlc_trusted_proxy_cidrs c) of
        Inl e \<Rightarrow> Inl (StartRateProxies e)
      | Inr cidrs \<Rightarrow> Inr (Some (New (rateLimitConfig c))))"

text \<open>A flush interval that does not parse counts as not set.\<close>

definition start_usage ::
  "(service \<Rightarrow> bool) \<Rightarrow> environment \<Rightarrow> gateway_config \<Rightarrow> startup_error + (int \<times> int) option" where
  "start_usage reach env cfg =
     (let c = gc_usage cfg in
      if \<not> usc_enabled c then Inr None
      else if Getenv env ''DATABASE_URL'' = [] then Inl StartNoUsageDb
      else if \<not> reach UsageDb then Inl StartUsageDb
      else Inr (Some (usc_buffer_size c, override_duration (usc_flush_interval c) 0)))"

definition start_admin :: "(string \<Rightarrow> 'net option) \<Rightarrow> gateway_config \<Rightarrow> startup_error + 'net list option" where
  "start_admin cidr cfg =
     (if \<not> uic_enabled (gc_ui cfg) then Inr None
      else map_sum StartAllowlist Some (ParseCIDRs cidr (uic_ip_allowlist (gc_ui cfg))))"

definition metrics_path :: "gateway_config \<Rightarrow> string option" where
  "metrics_path cfg =
     (let o' = gc_observability cfg; m = obc_metrics o' in
      if obc_enabled o' \<and> mtc_enabled m
      then Some (if mtc_path m = [] then ''/metrics'' else mtc_path m) else None)"

text \<open>\<open>main\<close> from the registry on, in its order; \<open>build\<close> is \<open>buildRegistry\<close> on the configured entries.\<close>

definition start_gateway ::
  "(gateway_config \<Rightarrow> (string \<times> build_error) + 'p registry) \<Rightarrow> (service \<Rightarrow> bool) \<Rightarrow>
   (string \<Rightarrow> 'net option) \<Rightarrow> idp \<Rightarrow> timestamp \<Rightarrow> environment \<Rightarrow> gateway_config \<Rightarrow>
   startup_error + ('net, 'p) gateway_plan" where
  "start_gateway build reach cidr provider now env cfg =
     then_do (map_sum StartRegistry id (build cfg)) (\<lambda>reg.
     then_do (map_sum StartAuth id (auth_New (authConfig cfg) provider now)) (\<lambda>(kc, chain).
     then_do (start_users reach env cfg) (\<lambda>users.
     then_do (start_oidc reach provider cfg users) (\<lambda>sess.
     then_do (start_api_keys reach cfg users) (\<lambda>ak.
     then_do (if IsEnabled (gc_conversations cfg)
              then map_sum id Some (initConversationStore reach env (gc_conversations cfg))
              else Inr None) (\<lambda>conv.
     then_do (start_rate_limit reach cidr cfg) (\<lambda>rl.
     then_do (start_usage reach env cfg) (\<lambda>us.
     then_do (start_admin cidr cfg) (\<lambda>adm.
     (let chain1 = (if sess \<noteq> None then SetOIDCClient chain else chain);
          chain2 = (if ak \<noteq> None then PrependAuthenticator chain1 else chain1)
      in Inr \<lparr>gp_registry = reg, gp_keys = kc, gp_chain = chain2, gp_users = users, gp_sessions = sess,
           gp_api_keys = ak, gp_conversations = conv, gp_rate_limit = rl, gp_usage = us,
           gp_admin = adm, gp_admin_auth = adminAuthConfig cfg, gp_metrics = metrics_path cfg\<rparr>))))))))))"

subsection \<open>Routing\<close>

text \<open>
  The patterns of \<open>http.ServeMux\<close> the gateway registers: a path, a subtree (its pattern ends in a
  slash) and a path with one wildcard segment at its end. The most specific pattern wins; a path
  that only lacks the slash of a registered subtree is redirected to it.
\<close>

datatype mux_pattern = Exact string | Subtree string | Wild string

datatype 'a mux_result = MuxNone | MuxRedirect string | MuxServe 'a string

definition wild_segment :: "string \<Rightarrow> string \<Rightarrow> string option" where
  "wild_segment p path =
     (let seg = drop (length p) path in
      if has_prefix path p \<and> seg \<noteq> [] \<and> CHR ''/'' \<notin> set seg then Some seg else None)"

definition longer :: "string \<times> 'a \<Rightarrow> (string \<times> 'a) option \<Rightarrow> (string \<times> 'a) option" where
  "longer x best = (case best of None \<Rightarrow> Some x
     | Some y \<Rightarrow> if length (fst y) < length (fst x) then Some x else Some y)"

fun best_subtree :: "(mux_pattern \<times> 'a) list \<Rightarrow> string \<Rightarrow> (string \<times> 'a) option" where
  "best_subtree [] path = None"
| "best_subtree ((Subtree p, t) # rs) path =
     (if has_prefix path p then longer (p, t) (best_subtree rs path) else best_subtree rs path)"
| "best_subtree ((_, t) # rs) path = best_subtree rs path"

definition wild_match :: "(mux_pattern \<times> 'a) list \<Rightarrow> string \<Rightarrow> ('a \<times> string) option" where
  "wild_match rs path = first_some (\<lambda>(p, t). case p of
       Wild q \<Rightarrow> map_option (\<lambda>seg. (t, seg)) (wild_segment q path) | _ \<Rightarrow> None) rs"

definition serve_mux :: "(mux_pattern \<times> 'a) list \<Rightarrow> string \<Rightarrow> 'a mux_result" where
  "serve_mux rs path =
     (case map_of rs (if has_suffix path ''/'' then Subtree path else Exact path) of
        Some t \<Rightarrow> MuxServe t []
      | None \<Rightarrow>
          (case wild_match rs path of
             Some (t, seg) \<Rightarrow> MuxServe t seg
           | None \<Rightarrow>
               (if \<not> has_suffix path ''/'' \<and> map_of rs (Subtree (path @ ''/'')) \<noteq> None
                then MuxRedirect (path @ ''/'')
                else case best_subtree rs path of
                  Some (p, t) \<Rightarrow> MuxServe t [] | None \<Rightarrow> MuxNone)))"

text \<open>
  \<open>buildRouteMux\<close> and the routes of the authentication API. The metrics path is one pattern; it is
  taken to be a path without a trailing slash.
\<close>

datatype auth_endpoint = AuthSession | AuthTokenLogin | AuthLogout | AuthDebugClaims | AuthOidcLogin | AuthCallback

datatype root_target = TPublic | TMetrics | TApi | TAdmin | TAuth auth_endpoint

definition buildRouteMux :: "bool \<Rightarrow> string option \<Rightarrow> (mux_pattern \<times> root_target) list" where
  "buildRouteMux admin metrics =
     [(Exact ''/health'', TPublic), (Exact ''/ready'', TPublic), (Subtree ''/v1/'', TApi)] @
     (if admin then [(Subtree ''/'', TAdmin)] else []) @
     (case metrics of Some p \<Rightarrow> [(Exact p, TMetrics)] | None \<Rightarrow> [])"

definition auth_routes :: "bool \<Rightarrow> (mux_pattern \<times> root_target) list" where
  "auth_routes oidc =
     [(Exact ''/api/auth/session'', TAuth AuthSession),
      (Exact ''/api/auth/token-login'', TAuth AuthTokenLogin),
      (Exact ''/api/auth/logout'', TAuth AuthLogout),
      (Exact ''/api/auth/debug/claims'', TAuth AuthDebugClaims)] @
     (if oidc then [(Exact ''/api/auth/oidc/login'', TAuth AuthOidcLogin),
                    (Exact ''/api/auth/callback'', TAuth AuthCallback)] else [])"

definition root_routes :: "('net, 'p) gateway_plan \<Rightarrow> (mux_pattern \<times> root_target) list" where
  "root_routes g = buildRouteMux (gp_admin g \<noteq> None) (gp_metrics g) @ auth_routes (gp_sessions g \<noteq> None)"

text \<open>The routes behind the API prefix.\<close>

datatype endpoint_name =
    EpResponses | EpResponse | EpModels | EpApiKeys | EpApiKey | EpUsageSummary | EpUsageTop
  | EpUsageTrends | EpSystemInfo | EpSystemHealth | EpConfig | EpProviders | EpProvider
  | EpConfigModels | EpConfigModel | EpConversations | EpConversation | EpUsersMe | EpUsersBulk
  | EpUsers | EpUsersList | EpSpa

definition api_routes :: "('net, 'p) gateway_plan \<Rightarrow> (mux_pattern \<times> endpoint_name) list" where
  "api_routes g =
     [(Exact ''/v1/responses'', EpResponses), (Subtree ''/v1/responses/'', EpResponse),
      (Exact ''/v1/models'', EpModels)] @
     (if gp_api_keys g \<noteq> None
      then [(Exact ''/v1/api-keys'', EpApiKeys), (Subtree ''/v1/api-keys/'', EpApiKey)] else []) @
     (if gp_usage g \<noteq> None
      then [(Exact ''/v1/usage/summary'', EpUsageSummary), (Exact ''/v1/usage/top'', EpUsageTop),
            (Exact ''/v1/usage/trends'', EpUsageTrends)] else [])"

text \<open>The routes of the admin plane.\<close>

definition ui_routes :: "(mux_pattern \<times> endpoint_name) list" where
  "ui_routes =
     [(Exact ''/api/v1/system/info'', EpSystemInfo), (Exact ''/api/v1/system/health'', EpSystemHealth),
      (Exact ''/api/v1/config'', EpConfig), (Exact ''/api/v1/providers'', EpProviders),
      (Wild ''/api/v1/providers/'', EpProvider), (Exact ''/api/v1/config/models'', EpConfigModels),
      (Wild ''/api/v1/config/models/'', EpConfigModel),
      (Exact ''/api/conversations'', EpConversations), (Subtree ''/api/conversations/'', EpConversation),
      (Subtree ''/'', EpSpa)]"

definition admin_routes :: "('net, 'p) gateway_plan \<Rightarrow> (mux_pattern \<times> endpoint_name) list" where
  "admin_routes g = ui_routes @
     [(Exact ''/api/v1/responses'', EpResponses), (Subtree ''/api/v1/responses/'', EpResponse),
      (Exact ''/api/v1/models'', EpModels)] @
     (if gp_users g
      then [(Exact ''/api/users/me'', EpUsersMe), (Exact ''/api/users/bulk'', EpUsersBulk),
            (Subtree ''/api/users/'', EpUsers), (Exact ''/api/users'', EpUsersList)] else []) @
     (if gp_api_keys g \<noteq> None
      then [(Exact ''/api/v1/api-keys'', EpApiKeys), (Subtree ''/api/v1/api-keys/'', EpApiKey)] else []) @
     (if gp_usage g \<noteq> None
      then [(Exact ''/api/v1/usage/summary'', EpUsageSummary), (Exact ''/api/v1/usage/top'', EpUsageTop),
            (Exact ''/api/v1/usage/trends'', EpUsageTrends)] else [])"

subsection \<open>The middlewares\<close>

text \<open>
  What becomes of a request at the door: a status, a redirect, or an endpoint that runs on the
  request with the identity the middlewares put in its context. \<open>limited\<close> says whether the rate
  limiter is in front of it.
\<close>

datatype door =
    DoorStatus nat
  | DoorRedirect string
  | DoorPage web_response
  | DoorOpen root_target
  | DoorEndpoint root_target endpoint_name string http_request bool

definition at_endpoint ::
  "root_target \<Rightarrow> bool \<Rightarrow> (mux_pattern \<times> endpoint_name) list \<Rightarrow> http_request \<Rightarrow> door" where
  "at_endpoint t limited rs hr =
     (case serve_mux rs (hr_path hr) of
        MuxNone \<Rightarrow> DoorStatus 404
      | MuxRedirect p \<Rightarrow> DoorRedirect p
      | MuxServe ep seg \<Rightarrow> DoorEndpoint t ep seg hr limited)"

definition with_principal :: "wire_request \<Rightarrow> principal option \<Rightarrow> http_request" where
  "with_principal r p = (plain_request r)\<lparr>hr_principal := p\<rparr>"

text \<open>\<open>allowed\<close> is the IP allowlist on the remote address.\<close>

definition admin_handler ::
  "('net, 'p) gateway_plan \<Rightarrow> bool \<Rightarrow> http_request \<Rightarrow> door" where
  "admin_handler g allowed hr =
     (if allowed then at_endpoint TAdmin False (admin_routes g) hr else DoorStatus 403)"

definition serve_api ::
  "('net, 'p) gateway_plan \<Rightarrow> 'b auth_env \<Rightarrow> timestamp \<Rightarrow> wire_request \<Rightarrow> 'b auth_state \<Rightarrow>
   door \<times> 'b auth_state" where
  "serve_api g env now r s =
     (let limited = (gp_rate_limit g \<noteq> None) in
      case auth_handler env (gp_chain g) now r s of
        (AuthPass, s') \<Rightarrow> (at_endpoint TApi limited (api_routes g) (plain_request r), s')
      | (AuthAs p, s') \<Rightarrow> (at_endpoint TApi limited (api_routes g) (with_principal r (Some p)), s')
      | (AuthDenied e, s') \<Rightarrow> (DoorStatus 401, s'))"

definition serve_admin ::
  "('net, 'p) gateway_plan \<Rightarrow> 'b auth_env \<Rightarrow> bool \<Rightarrow> timestamp \<Rightarrow> wire_request \<Rightarrow> 'b auth_state \<Rightarrow>
   door \<times> 'b auth_state" where
  "serve_admin g env allowed now r s =
     (if gp_sessions g \<noteq> None then
        (case SessionMiddleware (ae_sess env) now r (as_sessions s) of
           (GateStop resp, ss) \<Rightarrow> (DoorPage resp, s\<lparr>as_sessions := ss\<rparr>)
         | (GatePass hr, ss) \<Rightarrow> (admin_handler g allowed hr, s\<lparr>as_sessions := ss\<rparr>))
      else
        (case auth_handler env (gp_chain g) now r s of
           (AuthDenied e, s') \<Rightarrow> (DoorStatus 401, s')
         | (AuthPass, s') \<Rightarrow>
             ((if admin_middleware_passes (gp_admin_auth g) None
               then admin_handler g allowed (plain_request r) else DoorStatus 403), s')
         | (AuthAs p, s') \<Rightarrow>
             ((if admin_middleware_passes (gp_admin_auth g) (Some p)
               then admin_handler g allowed (with_principal r (Some p)) else DoorStatus 403), s')))"

definition serve_gateway ::
  "('net, 'p) gateway_plan \<Rightarrow> 'b auth_env \<Rightarrow> bool \<Rightarrow> timestamp \<Rightarrow> wire_request \<Rightarrow> 'b auth_state \<Rightarrow>
   door \<times> 'b auth_state" where
  "serve_gateway g env allowed now r s =
     (case serve_mux (root_routes g) (w_path r) of
        MuxNone \<Rightarrow> (DoorStatus 404, s)
      | MuxRedirect p \<Rightarrow> (DoorRedirect p, s)
      | MuxServe TApi seg \<Rightarrow> serve_api g env now r s
      | MuxServe TAdmin seg \<Rightarrow> serve_admin g env allowed now r s
      | MuxServe t seg \<Rightarrow> (DoorOpen t, s))"

end
