(* ===== verification/ReloadProps.thy ===== *)
theory ReloadProps
  imports Wiring ConfigStoreProps ProvidersProps
begin

text \<open>
  From an edit in the admin UI to the request that uses it: the handlers write the configuration
  store, the polling goroutine rebuilds the registry from it, and a restart reads it again.
\<close>

subsection \<open>The registry of a tick\<close>

lemma model_index_rows:
  "distinct (map me_name ms) \<Longrightarrow> model_index ms n = map_option me_provider (row_of me_name ms n)"
proof -
  assume d: "distinct (map me_name ms)"
  then have "map_of (rev (map (\<lambda>m. (me_name m, me_provider m)) ms)) = map_of (map (\<lambda>m. (me_name m, me_provider m)) ms)"
    by (intro map_of_inject_set [THEN iffD2]) (auto simp: comp_def rev_map [symmetric])
  then show ?thesis by (simp add: model_index_def map_of_row_of)
qed

lemma config_inv_lists:
  assumes "config_inv lib key db"
  obtains ps where "ListProviders lib key db = Inr ps" and "map_of ps = entries_of lib key (cdb_providers db)"
    and "distinct (map fst ps)" and "ListModels db = Inr (cdb_models db)"
proof -
  from assms have i: "cdb_up db" "readable lib key (cdb_providers db)" "distinct (map prw_name (cdb_providers db))"
    by (simp_all add: config_inv_def)
  from ListProviders_readable [OF i(1,2)] obtain ps where ps: "ListProviders lib key db = Inr ps"
    "map_of ps = entries_of lib key (cdb_providers db)" .
  have "distinct (map fst ps)"
    using ps(1) i by (auto simp: ListProviders_def decrypt_rows_iff comp_def)
  with ps i show ?thesis by (intro that) (auto simp: ListModels_def)
qed

lemma build_all_fails:
  "(n, e) \<in> set es \<Longrightarrow> \<not> is_ok (buildProvider genai e) \<Longrightarrow> \<not> is_ok (build_all genai mk es)"
  by (induction genai mk es rule: build_all.induct) (auto split: sum.splits)

lemma NewRegistry_fails:
  assumes "map_order ord" and "map_of ps n = Some e" and "\<not> is_ok (buildProvider genai e)"
  shows "\<exists>err. NewRegistry ord genai mk ps ms = Inl err"
proof -
  have "(n, e) \<in> set (ord ps)" using map_of_SomeD [OF assms(2)] assms(1) by simp
  from build_all_fails [OF this assms(3), of mk] show ?thesis
    by (auto simp: NewRegistry_def split: sum.splits)
qed

lemma createProvider_201:
  assumes "createProvider lib s rnd (Some (name, entry)) db = (resp, db')" and "rs_status resp = 201"
  obtains key where "uis_store s = Some key" and "UpsertProvider lib key rnd db name entry = (None, db')"
    and "name \<noteq> []"
  using assms
  by (auto simp: createProvider_def no_config_store_def writeError_def reply_def
      split: option.splits if_splits prod.splits)

lemma UpsertProvider_step:
  "UpsertProvider lib key rnd db name e = (err, db') \<Longrightarrow> config_step lib key (SaveProvider rnd name e) db = db'"
  by simp

lemma NewRegistry_ok:
  "is_ok (build_all genai mk (ord es)) \<Longrightarrow> \<exists>reg. NewRegistry ord genai mk es ms = Inr reg"
  by (auto simp: is_ok_iff NewRegistry_def split: prod.splits)

fun about_provider :: "string \<Rightarrow> config_call \<Rightarrow> bool" where
  "about_provider name (SaveProvider rnd n e) \<longleftrightarrow> n = name"
| "about_provider name (DropProvider n) \<longleftrightarrow> n = name"
| "about_provider name _ \<longleftrightarrow> False"

lemma spec_step_other: "\<not> about_provider name c \<Longrightarrow> fst (spec_step c sp) name = fst sp name"
  by (cases "(c, sp)" rule: spec_step.cases) auto

subsection \<open>Edits reach the requests\<close>

text \<open>A configuration store with one key and one administrator's server, for the witnesses.\<close>

definition sample_ui :: "built_provider ui_server" where
  "sample_ui = \<lparr>uis_registry = \<lparr>rg_providers = [], rg_models = Map.empty, rg_model_ids = Map.empty, rg_model_list = []\<rparr>,
     uis_cfg = zero_config, uis_store = Some (replicate 32 (CHR ''k'')), uis_start = 0,
     uis_build = \<lparr>bi_version = [], bi_build_time = [], bi_git_commit = [], bi_go_version = []\<rparr>\<rparr>"

definition sample_model :: model_entry where
  "sample_model = \<lparr>me_name = ''gpt'', me_provider = ''main'', me_provider_model_id = []\<rparr>"

lemma empty_config_inv: "config_inv lib key empty_config_db"
  by (simp add: config_inv_def empty_config_db_def readable_def)

lemma sample_saved:
  "\<exists>db1. createProvider sample_config_lib sample_ui (Some ''abcdefghijkl'') (Some (''main'', sample_entry))
     empty_config_db = (reply 201 (UbName ''main''), db1) \<and> cdb_up db1"
  by (simp add: createProvider_def sample_ui_def sample_entry_def UpsertProvider_def encrypt_entry_def
      encryptBlob_def cipher_key_ok_def sample_config_lib_def empty_config_db_def)



text \<open>A provider that cannot be built blocks every reload. The admin API saves an entry without
  validating it: also one of an unknown type, or without a key, is answered with 201. From then
  on no poll changes the registry, whatever providers and models are saved or deleted, until
  that very provider is saved again or deleted.\<close>
theorem bad_provider_blocks_reload:
  assumes law: "config_lawful lib valid" and "valid entry" and "length nonce = nonce_size"
    and k: "NewConfigStore keyB64 = Inr key" "uis_store s = Some key"
    and inv: "config_inv lib key db" and fields: "name \<noteq> []" "pe_type entry \<noteq> []"
    and bad: "\<not> is_ok (buildProvider genai entry)" and ord: "map_order ord"
    and cs: "list_all (call_ok valid) cs"
      "list_all (\<lambda>c. \<not> about_provider name c) cs"
  shows "\<exists>db'. createProvider lib s (Some nonce) (Some (name, entry)) db = (reply 201 (UbName name), db') \<and>
    poll_tick lib key ord genai mk cfg (fold (config_step lib key) cs db') holder = holder"
proof -
  from k(1) have key: "cipher_key_ok key"
    by (auto simp: NewConfigStore_def cipher_key_ok_def split: option.splits if_splits)
  from encrypt_entry_readable [OF law key assms(3,2), of name] obtain row where
    "encrypt_entry lib key (Some nonce) name entry = Inr row" .
  with inv obtain db' where u: "UpsertProvider lib key (Some nonce) db name entry = (None, db')"
    by (auto simp: UpsertProvider_def config_inv_def)
  let ?cs = "SaveProvider (Some nonce) name entry # cs" and ?db = "fold (config_step lib key) cs db'"
  have run: "fold (config_step lib key) ?cs db = ?db" using u by simp
  from config_run_refines [OF law key inv, of ?cs] assms(2,3) cs(1)
  have i: "config_inv lib key ?db" and a: "config_abs lib key ?db = fold spec_step ?cs (config_abs lib key db)"
    unfolding run by simp_all
  from config_inv_lists [OF i] obtain qs where q: "ListProviders lib key ?db = Inr qs"
    "map_of qs = entries_of lib key (cdb_providers ?db)" "ListModels ?db = Inr (cdb_models ?db)" .
  have keep: "fst (fold spec_step cs sp) name = Some entry" if "fst sp name = Some entry" for sp
    using that cs(2)
  proof (induction cs arbitrary: sp)
    case (Cons c cs)
    with spec_step_other [of name c sp] show ?case by simp
  qed simp
  have "fst (config_abs lib key ?db) name = Some entry"
    unfolding a by (simp add: keep config_abs_def)
  then have e: "map_of qs name = Some entry" by (simp add: q(2) config_abs_def)
  from NewRegistry_fails [OF ord e bad, of "mk (obc_enabled (gc_observability cfg))" "cdb_models ?db"]
  have "poll_tick lib key ord genai mk cfg ?db holder = holder"
    by (auto simp: poll_tick_def q buildRegistry_def)
  with u fields k(2) show ?thesis by (simp add: createProvider_def)
qed

theorem bad_provider_blocks_reload_witness:
  "\<exists>db'. createProvider (sample_config_lib\<lparr>cl_unmarshal := (\<lambda>d. Some (sample_entry\<lparr>pe_type := ''llama''\<rparr>))\<rparr>)
       sample_ui (Some ''abcdefghijkl'') (Some (''main'', sample_entry\<lparr>pe_type := ''llama''\<rparr>)) empty_config_db
     = (reply 201 (UbName ''main''), db') \<and>
     poll_tick (sample_config_lib\<lparr>cl_unmarshal := (\<lambda>d. Some (sample_entry\<lparr>pe_type := ''llama''\<rparr>))\<rparr>)
       (replicate 32 (CHR ''k'')) rev (\<lambda>_. None) (\<lambda>obs b c. b) zero_config
       (config_step (sample_config_lib\<lparr>cl_unmarshal := (\<lambda>d. Some (sample_entry\<lparr>pe_type := ''llama''\<rparr>))\<rparr>)
          (replicate 32 (CHR ''k'')) (SaveModel sample_model) db')
       \<lparr>rh_reg = uis_registry sample_ui\<rparr> = \<lparr>rh_reg = uis_registry sample_ui\<rparr>"
proof -
  let ?bad = "sample_entry\<lparr>pe_type := ''llama''\<rparr>"
  let ?lib = "sample_config_lib\<lparr>cl_unmarshal := (\<lambda>d. Some ?bad)\<rparr>"
  have l: "config_lawful ?lib (\<lambda>e. e = ?bad)"
    by (simp add: config_lawful_def sample_config_lib_def)
  have k: "uis_store sample_ui = Some (replicate 32 (CHR ''k''))" by (simp add: sample_ui_def)
  have b: "\<not> is_ok (buildProvider (\<lambda>_. None) ?bad)" by (simp add: buildProvider_def sample_entry_def)
  from bad_provider_blocks_reload [OF l _ _ sample_key k empty_config_inv _ _ b map_order_rev,
      of "''abcdefghijkl''" "''main''" "[SaveModel sample_model]" "\<lambda>obs b c. b" zero_config
         "\<lparr>rh_reg = uis_registry sample_ui\<rparr>"]
  show ?thesis by (simp add: nonce_size_def)
qed

text \<open>Deleting a provider that a model still names is answered with 204 and breaks the next start:
  with the database as the source of the configuration, \<open>loadConfig\<close> then refuses it as invalid,
  whatever else is stored, unless the deletion emptied the table and a configuration file is
  there to seed it again.\<close>
theorem deleted_provider_breaks_restart:
  assumes inv: "config_inv (le_lib w) key db" and k: "uis_store s = Some key"
    and req: "hr_method r = ''DELETE''" "name \<noteq> []"
    and m: "m \<in> set (cdb_models db)" "me_provider m = name"
    and env: "LoadFromEnv (le_float w) env = Inr cfg" "NewConfigStore (Getenv env ''ENCRYPTION_KEY'') = Inr key"
      "Getenv env ''ENCRYPTION_KEY'' \<noteq> []" "has_prefix (Getenv env ''DATABASE_URL'') ''postgres://''"
    and "le_migrated w"
    and seed: "Getenv env ''GATEWAY_CONFIG'' = [] \<or> (\<exists>row \<in> set (cdb_providers db). prw_name row \<noteq> name)"
  shows "\<exists>db' err. handleProviderByName (le_lib w) s rnd r name body db = (reply 204 UbNone, db') \<and>
    loadConfig w env db' = Inl (LoadInvalid err)"
proof -
  let ?db = "db\<lparr>cdb_providers := delete_row prw_name name (cdb_providers db)\<rparr>"
  have d: "DeleteProvider db name = (None, ?db)" using inv by (simp add: DeleteProvider_def config_inv_def)
  have i: "config_inv (le_lib w) key ?db"
    using inv by (auto simp: config_inv_def intro: readable_delete provider_table.wf_remove)
  from config_inv_lists [OF i] obtain qs where q: "ListProviders (le_lib w) key ?db = Inr qs"
    "map_of qs = entries_of (le_lib w) key (cdb_providers ?db)" "ListModels ?db = Inr (cdb_models ?db)" .
  have "map_of qs name = None" by (simp add: q(2) entries_of_delete)
  with m have "validate_model qs m = Some (UnknownProvider (me_name m) name)" by (simp add: validate_model_def)
  with m(1) have "validate_config qs (cdb_models db) \<noteq> None"
    by (auto simp: validate_config_def first_some_None)
  then obtain err where err: "validate_config qs (cdb_models db) = Some err" by blast
  have "Getenv env ''GATEWAY_CONFIG'' = [] \<or> IsSeeded ?db = Inr True"
    using seed inv by (auto simp: IsSeeded_def config_inv_def delete_row_def filter_empty_conv)
  then have s: "seed_from_file w env key ?db = Inr ?db" by (auto simp: seed_from_file_def Let_def)
  have url: "Getenv env ''DATABASE_URL'' \<noteq> []" using env(4) by (auto simp: has_prefix_def)
  have "loadConfig w env ?db = Inl (LoadInvalid err)"
    using inv q(1,3) \<open>le_migrated w\<close> url env
    by (simp add: loadConfig_def then_do_def Let_def lift_store_def s with_entries_def err config_inv_def)
  with d req k show ?thesis by (auto simp: handleProviderByName_def)
qed

definition sample_load_env :: load_env where
  "sample_load_env = \<lparr>le_float = (\<lambda>_. None), le_read = (\<lambda>_. None), le_parse = (\<lambda>_ _. None), le_ord = id,
     le_lib = sample_config_lib, le_nonces = (\<lambda>_. None), le_migrated = True, le_commit = True\<rparr>"

definition sample_environment :: environment where
  "sample_environment = [''DATABASE_URL'' \<mapsto> ''postgres://db'', ''ENCRYPTION_KEY'' \<mapsto> sample_key64]"

definition sample_saved_db :: config_db where
  "sample_saved_db = fold (config_step sample_config_lib (replicate 32 (CHR ''k'')))
     [SaveProvider (Some ''abcdefghijkl'') ''main'' sample_entry, SaveModel sample_model] empty_config_db"

lemma sample_saved_db: "config_inv sample_config_lib (replicate 32 (CHR ''k'')) sample_saved_db"
    "sample_model \<in> set (cdb_models sample_saved_db)"
proof -
  let ?key = "replicate 32 (CHR ''k'')"
  have "cipher_key_ok ?key" by (simp add: cipher_key_ok_def)
  from config_run_refines [OF sample_config_lawful this empty_config_inv,
      of "[SaveProvider (Some ''abcdefghijkl'') ''main'' sample_entry, SaveModel sample_model]"]
  show i: "config_inv sample_config_lib ?key sample_saved_db"
    by (simp add: sample_saved_db_def nonce_size_def)
  then show "sample_model \<in> set (cdb_models sample_saved_db)"
    by (auto simp: sample_saved_db_def config_inv_def UpsertModel_def upsert_row_def list_ex_iff split: if_splits)
qed

lemma sample_env_loads: "LoadFromEnv (\<lambda>_. None) sample_environment = Inr zero_config"
  by code_simp

theorem deleted_provider_breaks_restart_witness:
  "\<exists>db' err. handleProviderByName sample_config_lib sample_ui None (zero_http\<lparr>hr_method := ''DELETE''\<rparr>) ''main''
       None sample_saved_db = (reply 204 UbNone, db') \<and>
     loadConfig sample_load_env sample_environment db' = Inl (LoadInvalid err)"
proof -
  have i: "config_inv (le_lib sample_load_env) (replicate 32 (CHR ''k'')) sample_saved_db"
    using sample_saved_db(1) by (simp add: sample_load_env_def)
  have e: "LoadFromEnv (le_float sample_load_env) sample_environment = Inr zero_config"
    using sample_env_loads by (simp add: sample_load_env_def)
  have k: "Getenv sample_environment ''ENCRYPTION_KEY'' = sample_key64"
    "Getenv sample_environment ''DATABASE_URL'' = ''postgres://db''" "Getenv sample_environment ''GATEWAY_CONFIG'' = []"
    by (simp_all add: Getenv_def sample_environment_def)
  have n: "sample_key64 \<noteq> []" by code_simp
  from deleted_provider_breaks_restart [OF i _ _ _ sample_saved_db(2) _ e, of sample_ui
      "zero_http\<lparr>hr_method := ''DELETE''\<rparr>" "''main''" None None]
  show ?thesis
    using sample_key by (simp add: k n sample_ui_def sample_model_def sample_load_env_def has_prefix_def)
qed

end
