(* ===== verification/WiringProps.thy ===== *)
theory WiringProps
  imports Wiring LoginProps ConfigStoreProps ProvidersProps ConversationApi GatewayProps
begin

text \<open>
  Properties of the composed gateway: who reaches which endpoint, how an edit of the
  configuration reaches the requests, and what the parts do to each other.
\<close>

subsection \<open>Routing\<close>

fun pattern_path :: "mux_pattern \<Rightarrow> string" where
  "pattern_path (Exact p) = p" | "pattern_path (Subtree p) = p" | "pattern_path (Wild p) = p"

lemma best_subtree_mem:
  "best_subtree rs path = Some (p, t) \<Longrightarrow> (Subtree p, t) \<in> set rs \<and> has_prefix path p"
  by (induction rs path rule: best_subtree.induct)
     (auto simp: longer_def split: if_splits option.splits)

lemma wild_match_mem:
  assumes "wild_match rs path = Some (t, seg)"
  shows "\<exists>p. (Wild p, t) \<in> set rs \<and> has_prefix path p"
proof -
  from first_some_SomeD [OF assms [unfolded wild_match_def]] obtain q u where
    q: "(q, u) \<in> set rs"
    "(case q of Wild p \<Rightarrow> map_option (\<lambda>seg. (u, seg)) (wild_segment p path) | _ \<Rightarrow> None) = Some (t, seg)"
    by auto
  then show ?thesis
    by (cases q) (auto simp: wild_segment_def Let_def split: if_splits)
qed

text \<open>A request is served by a pattern that is a prefix of its path.\<close>

lemma serve_mux_mem:
  assumes "serve_mux rs path = MuxServe t seg"
  shows "\<exists>q. (q, t) \<in> set rs \<and> has_prefix path (pattern_path q)"
proof (cases "map_of rs (if has_suffix path ''/'' then Subtree path else Exact path)")
  case (Some u)
  with assms have "u = t" by (simp add: serve_mux_def)
  with map_of_SomeD [OF Some] show ?thesis
    by (intro exI [of _ "if has_suffix path ''/'' then Subtree path else Exact path"])
       (auto simp: has_prefix_def)
next
  case None
  with assms have
    "(\<exists>seg. wild_match rs path = Some (t, seg)) \<or> (\<exists>p. best_subtree rs path = Some (p, t))"
    by (auto simp: serve_mux_def split: option.splits if_splits)
  then show ?thesis
  proof
    assume "\<exists>seg. wild_match rs path = Some (t, seg)"
    then obtain p where "(Wild p, t) \<in> set rs" "has_prefix path p" using wild_match_mem by fast
    then show ?thesis by (intro exI [of _ "Wild p"]) simp
  next
    assume "\<exists>p. best_subtree rs path = Some (p, t)"
    then obtain p where "(Subtree p, t) \<in> set rs" "has_prefix path p" using best_subtree_mem by fast
    then show ?thesis by (intro exI [of _ "Subtree p"]) simp
  qed
qed

lemma has_prefix_trans: "has_prefix s p \<Longrightarrow> has_prefix p q \<Longrightarrow> has_prefix s q"
  by (auto simp: has_prefix_def) (metis length_take min.absorb_iff2 nat_le_linear take_all take_take)

lemma admin_route_api:
  "(q, t) \<in> set (admin_routes g) \<Longrightarrow> t \<noteq> EpSpa \<Longrightarrow> has_prefix (pattern_path q) ''/api/''"
  by (auto simp: admin_routes_def ui_routes_def has_prefix_def split: if_splits)

lemma public_not_api: "public_path p \<Longrightarrow> \<not> has_prefix p ''/api/''"
proof
  assume "public_path p" "has_prefix p ''/api/''"
  then have t: "take 5 p = ''/api/''" by (simp add: has_prefix_def eval_nat_numeral)
  from \<open>public_path p\<close> consider "take 6 p = ''/auth/''" | "take 8 p = ''/assets/''"
    | "p = ''/favicon.ico''" | "p = ''/manifest.json''" | "p = ''/robots.txt''"
    by (auto simp: public_path_def has_prefix_def eval_nat_numeral)
  then show False
  proof cases
    case 1
    from arg_cong [OF this, of "take 5"] t show False by (simp add: min_def)
  next
    case 2
    from arg_cong [OF this, of "take 5"] t show False by (simp add: min_def)
  qed (use t in simp_all)
qed

text \<open>The paths the session middleware leaves open lead to the static pages only.\<close>

lemma public_path_static:
  assumes "public_path path" and "serve_mux (admin_routes g) path = MuxServe ep seg"
  shows "ep = EpSpa"
proof (rule ccontr)
  assume "ep \<noteq> EpSpa"
  moreover from serve_mux_mem [OF assms(2)] obtain q where
    "(q, ep) \<in> set (admin_routes g)" "has_prefix path (pattern_path q)" by blast
  ultimately show False
    using admin_route_api [of q ep g] public_not_api [OF assms(1)] has_prefix_trans by blast
qed

subsection \<open>The door\<close>

lemma start_gateway_chain:
  assumes "start_gateway build reach cidr provider now env cfg = Inr g"
  shows "distinct (gp_chain g)" and "ast_enabled (gc_auth cfg) \<Longrightarrow> gp_chain g \<noteq> []"
    and "gp_admin_auth g = adminAuthConfig cfg"
proof -
  from assms obtain kc chain where
    a: "auth_New (authConfig cfg) provider now = Inr (kc, chain)"
    and c: "gp_chain g \<in> {chain, SetOIDCClient chain, PrependAuthenticator chain,
              PrependAuthenticator (SetOIDCClient chain)}"
    and adm: "gp_admin_auth g = adminAuthConfig cfg"
    unfolding start_gateway_def then_do_Inr by (auto simp: Let_def then_do_Inr map_sum_def split: sum.splits)
  show "distinct (gp_chain g)" using built_chain_distinct [OF a] c by auto
  show "gp_admin_auth g = adminAuthConfig cfg" by (rule adm)
  show "gp_chain g \<noteq> []" if "ast_enabled (gc_auth cfg)"
    using a that c
    by (auto simp: auth_New_def authConfig_def Let_def PrependAuthenticator_def SetOIDCClient_def
        split: if_splits prod.splits option.splits)
qed

text \<open>The identity of a principal: an API key, or a token, as in \<open>identity_sound\<close>.\<close>

definition identified ::
  "(string \<Rightarrow> string) \<Rightarrow> user_store \<Rightarrow> key_store \<Rightarrow> 'b auth_env \<Rightarrow>
   (string \<Rightarrow> (jwt_header \<times> jmap) option) \<Rightarrow> (string \<Rightarrow> public_key \<Rightarrow> bool) \<Rightarrow>
   (parse_opts \<Rightarrow> timestamp \<Rightarrow> jmap \<Rightarrow> bool) \<Rightarrow> timestamp \<Rightarrow> wire_request \<Rightarrow> 'b session_store \<Rightarrow>
   key_cache \<Rightarrow> principal \<Rightarrow> bool" where
  "identified sha us ks env hdr signed ok now r ss kc p \<longleftrightarrow>
     key_identity sha us ks r now p \<or>
     (\<exists>tok. presented_token (ae_sess env) (ae_oidc env) now r ss tok \<and>
        token_identity (ae_cfg env) hdr signed ok kc now tok p)"

lemma auth_handler_sound:
  assumes "jwt_lawful (ae_lib env) hdr signed ok"
    and extra: "ae_extra env = (\<lambda>r now. fst (key_authenticate sha us ks r now))" and "distinct chain" and "chain \<noteq> []"
    and "auth_handler env chain now r s = (outcome, s')" and "\<And>e. outcome \<noteq> AuthDenied e"
  obtains p where "outcome = AuthAs p"
    and "identified sha us ks env hdr signed ok now r (as_sessions s) (as_keys s') p"
proof (cases outcome)
  case AuthPass
  with assms(4,5) run_chain_no_pass [of env now r chain s] show ?thesis
    by (auto simp: auth_handler_def split: if_splits)
next
  case (AuthAs p)
  with assms(4,5) have "run_chain env now r chain s = (AuthAs p, s')"
    by (auto simp: auth_handler_def split: if_splits)
  from run_chain_sound [OF assms(1) this assms(3), of "as_sessions s"]
  have "credential env hdr signed ok now r (as_sessions s) (as_keys s') p" by blast
  then have "identified sha us ks env hdr signed ok now r (as_sessions s) (as_keys s') p"
    unfolding credential_def identified_def extra by (metis key_authenticate_sound surjective_pairing)
  with AuthAs that show ?thesis by blast
next
  case (AuthDenied e)
  with assms(6) show ?thesis by blast
qed

lemma at_endpoint_DoorEndpoint:
  "at_endpoint t l rs hr = DoorEndpoint t' ep seg hr' l' \<longleftrightarrow>
     serve_mux rs (hr_path hr) = MuxServe ep seg \<and> t' = t \<and> hr' = hr \<and> l' = l"
  by (auto simp: at_endpoint_def split: mux_result.splits)

lemma hr_path_requests [simp]:
  "hr_path (plain_request r) = w_path r" "hr_path (with_principal r p) = w_path r"
  "hr_path (session_request r sd) = w_path r"
  by (simp_all add: plain_request_def with_principal_def session_request_def)

lemma with_principal_inject [simp]: "with_principal r a = with_principal r b \<longleftrightarrow> a = b"
  by (auto simp: with_principal_def dest: arg_cong [where f = hr_principal])

text \<open>C2: Who reaches an endpoint of the gateway. With authentication on, whatever else a gateway was
  started with, an endpoint behind the API prefix runs only for a principal with a valid
  credential; an endpoint of the admin plane runs only from an allowed address, and, with an OIDC
  client, only for the session of the request's cookie, except for the static pages; without one,
  only for a principal with a valid credential and the admin role. Behind the API prefix the rate
  limiter stands in front of every endpoint whenever it is on.\<close>
theorem gateway_door_sound:
  assumes "start_gateway build reach cidr provider started env0 cfg = Inr g"
    and "ast_enabled (gc_auth cfg)" and "jwt_lawful (ae_lib env) hdr signed ok"
    and "ae_extra env = (\<lambda>r now. fst (key_authenticate sha us ks r now))"
    and "serve_gateway g env allowed now r s = (DoorEndpoint t ep seg hr limited, s')"
  shows "t = TApi \<and> limited = (gp_rate_limit g \<noteq> None) \<and>
      (\<exists>p. hr = with_principal r (Some p) \<and>
           identified sha us ks env hdr signed ok now r (as_sessions s) (as_keys s') p) \<or>
    t = TAdmin \<and> allowed \<and> gp_sessions g \<noteq> None \<and>
      (ep = EpSpa \<or>
       (\<exists>k sd. w_cookie r OIDCSessionCookieName = Some k \<and>
          fst (session_Get (ae_sess env) (as_sessions s) now now k) = Some sd \<and>
          hr = session_request r sd)) \<or>
    t = TAdmin \<and> allowed \<and> gp_sessions g = None \<and>
      (\<exists>p. hr = with_principal r (Some p) \<and> admin_middleware_passes (adminAuthConfig cfg) (Some p) \<and>
           identified sha us ks env hdr signed ok now r (as_sessions s) (as_keys s') p)"
proof -
  note chain = start_gateway_chain [OF assms(1)]
  note sound = auth_handler_sound [OF assms(3,4) chain(1) chain(2) [OF assms(2)]]
  obtain outcome s1 where h: "auth_handler env (gp_chain g) now r s = (outcome, s1)" by fastforce
  from assms(5) consider
      (api) "serve_api g env now r s = (DoorEndpoint t ep seg hr limited, s')"
    | (admin) "serve_admin g env allowed now r s = (DoorEndpoint t ep seg hr limited, s')"
    by (auto simp: serve_gateway_def split: mux_result.splits root_target.splits)
  then show ?thesis
  proof cases
    case api
    with h have "\<And>e. outcome \<noteq> AuthDenied e" by (auto simp: serve_api_def)
    from sound [OF h this] obtain p where
      p: "outcome = AuthAs p" "identified sha us ks env hdr signed ok now r (as_sessions s) (as_keys s1) p" by blast
    with api h show ?thesis by (auto simp: serve_api_def at_endpoint_DoorEndpoint)
  next
    case admin
    show ?thesis
    proof (cases "gp_sessions g = None")
      case True
      with admin h have "\<And>e. outcome \<noteq> AuthDenied e" by (auto simp: serve_admin_def)
      from sound [OF h this] obtain p where
        p: "outcome = AuthAs p" "identified sha us ks env hdr signed ok now r (as_sessions s) (as_keys s1) p" by blast
      with admin True h chain(3) show ?thesis
        by (auto simp: serve_admin_def admin_handler_def at_endpoint_DoorEndpoint split: if_splits)
    next
      case False
      with admin obtain ss where m: "SessionMiddleware (ae_sess env) now r (as_sessions s) = (GatePass hr, ss)"
        and e: "allowed" "t = TAdmin" "serve_mux (admin_routes g) (hr_path hr) = MuxServe ep seg"
        by (auto simp: serve_admin_def admin_handler_def at_endpoint_DoorEndpoint
            split: prod.splits gate.splits if_splits)
      show ?thesis
      proof (cases "public_path (w_path r)")
        case True
        with m have "hr = plain_request r" by (simp add: SessionMiddleware_def)
        with e True public_path_static have "ep = EpSpa" by fastforce
        with e False show ?thesis by simp
      next
        case np: False
        from m np obtain k sd where "w_cookie r OIDCSessionCookieName = Some k"
          "fst (session_Get (ae_sess env) (as_sessions s) now now k) = Some sd" "hr = session_request r sd"
          by (auto simp: SessionMiddleware_def getSession_def split: prod.splits option.splits)
        with e False show ?thesis by blast
      qed
    qed
  qed
qed

text \<open>A gateway with authentication and API keys, for the witness.\<close>

definition door_config :: gateway_config where
  "door_config = zero_config\<lparr>
     gc_auth := (gc_auth zero_config)\<lparr>ast_enabled := True, ast_issuer := ''https://idp/''\<rparr>,
     gc_conversations := (gc_conversations zero_config)\<lparr>cvc_enabled := Some True\<rparr>,
     gc_api_keys := \<lparr>akc_enabled = True, akc_max_keys_per_user = 5\<rparr>\<rparr>"

definition door_plan :: "(nat, provider) gateway_plan" where
  "door_plan = \<lparr>gp_registry = sample_provider_registry, gp_keys = sample_cache 5,
     gp_chain = [AuthnExtra, AuthnJwt, AuthnSession], gp_users = True, gp_sessions = None,
     gp_api_keys = Some 5, gp_conversations = Some (0, conversation_pool (gc_conversations door_config)), gp_rate_limit = None, gp_usage = None,
     gp_admin = None, gp_admin_auth = adminAuthConfig door_config, gp_metrics = None\<rparr>"

lemma fetch_keys_cong: "discovery_url a = discovery_url b \<Longrightarrow> fetch_keys a idp = fetch_keys b idp"
  by (simp add: fetch_keys_def discoverJWKSURL_def)

lemma door_auth: "auth_New (authConfig door_config) sample_idp 5 = Inr (sample_cache 5, [AuthnJwt, AuthnSession])"
proof -
  have "discovery_url (authConfig door_config) = discovery_url sample_auth" by code_simp
  then have "fetch_keys (authConfig door_config) sample_idp = Inr [(''k1'', RsaKey 65537 3)]"
    using sample_fetch fetch_keys_cong by metis
  moreover have "au_enabled (authConfig door_config)" "au_issuer (authConfig door_config) \<noteq> []"
    by (simp_all add: authConfig_def door_config_def zero_config_def Let_def)
  ultimately show ?thesis by (simp add: auth_New_def refreshJWKS_def sample_cache_def)
qed

lemma door_start:
  "start_gateway (\<lambda>_. Inr sample_provider_registry) (\<lambda>_. True) (\<lambda>_. None) sample_idp 5
     [''DATABASE_URL'' \<mapsto> ''postgres://db''] door_config = Inr door_plan"
  by (simp add: start_gateway_def door_auth)
     (simp add: start_users_def start_oidc_def start_api_keys_def initConversationStore_def
       conversation_ttl_def duration_setting_def start_rate_limit_def start_usage_def start_admin_def
       metrics_path_def door_plan_def door_config_def zero_config_def IsEnabled_def Getenv_def
       PrependAuthenticator_def Let_def then_do_def)

lemma door_chain:
  "auth_handler sample_auth_env [AuthnExtra, AuthnJwt, AuthnSession] 7
     (sample_bearer\<lparr>w_path := ''/v1/models''\<rparr>) sample_auth_state =
     (AuthAs (PrincipalFromClaims [(''iss'', JStr ''https://idp/''), (''sub'', JStr ''alice'')] []),
      sample_auth_state)"
proof -
  have b: "bearer_value ''Bearer h.p.s'' = Some ''h.p.s''" using bearer_value_Bearer [of "''h.p.s''"] by simp
  have k: "fst (key_authenticate (\<lambda>x. x) sample_users empty_keys (sample_bearer\<lparr>w_path := ''/v1/models''\<rparr>) 7) = Inr None"
    by (simp add: key_authenticate_def bearerToken_def sample_bearer_def b has_prefix_def)
  have e: "extra_claims sample_auth = []" by (simp add: extra_claims_def sample_auth_def)
  show ?thesis
    using sample_token
    by (simp add: auth_handler_def sample_auth_env_def k)
       (simp add: jwt_authenticate_def sample_bearer_def b count_char_def token_principal_def
         sample_auth_state_def e)
qed

lemma door_served:
  "serve_gateway door_plan sample_auth_env False 7 (sample_bearer\<lparr>w_path := ''/v1/models''\<rparr>) sample_auth_state =
     (DoorEndpoint TApi EpModels []
        (with_principal (sample_bearer\<lparr>w_path := ''/v1/models''\<rparr>)
           (Some (PrincipalFromClaims [(''iss'', JStr ''https://idp/''), (''sub'', JStr ''alice'')] []))) False,
      sample_auth_state)"
proof -
  have "serve_mux (root_routes door_plan) ''/v1/models'' = MuxServe TApi []"
    "serve_mux (api_routes door_plan) ''/v1/models'' = MuxServe EpModels []"
    by (simp_all add: door_plan_def root_routes_def buildRouteMux_def auth_routes_def api_routes_def
        serve_mux_def has_suffix_def wild_match_def longer_def has_prefix_def)
  moreover have "gp_chain door_plan = [AuthnExtra, AuthnJwt, AuthnSession]" "gp_rate_limit door_plan = None"
    by (simp_all add: door_plan_def)
  ultimately show ?thesis
    by (simp add: serve_gateway_def serve_api_def door_chain at_endpoint_def)
qed

theorem gateway_door_sound_witness:
  "identified (\<lambda>x. x) sample_users empty_keys sample_auth_env sample_hdr (\<lambda>tok key. key = RsaKey 65537 3)
     (\<lambda>_ _ _. True) 7 (sample_bearer\<lparr>w_path := ''/v1/models''\<rparr>) (as_sessions sample_auth_state)
     (as_keys sample_auth_state)
     (PrincipalFromClaims [(''iss'', JStr ''https://idp/''), (''sub'', JStr ''alice'')] [])"
proof -
  have "ast_enabled (gc_auth door_config)" by (simp add: door_config_def)
  from gateway_door_sound [OF door_start this _ _ door_served, of sample_hdr "\<lambda>tok key. key = RsaKey 65537 3"
      "\<lambda>_ _ _. True" "\<lambda>x. x" sample_users empty_keys] sample_lib_lawful
  show ?thesis by (auto simp: sample_auth_env_def)
qed

end
