(* ===== verification/AdminPlaneProps.thy ===== *)
theory AdminPlaneProps
  imports ReloadProps WiringProps
begin

text \<open>
  What the parts do to each other behind the session login of the admin plane: the identity a
  session gives the responses endpoint and the conversation endpoints, and what the configuration
  endpoints make of it.
\<close>

subsection \<open>Conversations of the playground\<close>

text \<open>A request to the responses endpoint stores at most one conversation, under its response id and in
  the name of its principal.\<close>

definition stores_own ::
  "'s store_ops \<Rightarrow> gw_env \<Rightarrow> principal option \<Rightarrow> 's \<Rightarrow> gw_reply \<times> 's \<times> gw_effects \<Rightarrow> bool" where
  "stores_own ops env prin cs res \<longleftrightarrow>
     fst (snd res) = cs \<or>
     (\<exists>pn model req sm result items. fst (snd res) =
        store_result ops env prin pn (generateID (ge_uuid env) 0 ''resp_'') model req sm result items cs)"

lemma stores_own_error: "stores_own ops env prin cs (resp, cs, eff)"
  by (simp add: stores_own_def)

lemma stores_own_store:
  "stores_own ops env prin cs (resp, store_result ops env prin pn (generateID (ge_uuid env) 0 ''resp_'')
     model req sm result items cs, eff)"
  unfolding stores_own_def fst_conv snd_conv by blast

lemma stores_own_sync: "stores_own ops env prin cs (handleSyncResponse ops s env prin p pm rr req sm cs)"
  unfolding handleSyncResponse_def Let_def
  by (auto simp del: validateToolCalls.simps One_nat_def intro: stores_own_error stores_own_store
      split: sum.split option.split)

lemma stores_own_stream:
  "stores_own ops env prin cs (handleStreamingResponse ops s env prin p pm rr req sm cs)"
  unfolding handleStreamingResponse_def Let_def
  by (auto simp del: One_nat_def intro: stores_own_error stores_own_store split: prod.split)

lemma stores_own_respond: "stores_own ops env prin cs (respond ops s env mord pord reg reg' prin req prev cs)"
  unfolding respond_def Let_def
  by (auto intro: stores_own_error stores_own_sync stores_own_stream simp del: Validate.simps
      split: option.split sum.split prod.split)

lemma handleResponses_stores_own:
  "stores_own ops env (hr_principal r) cs (handleResponses ops s env mord pord reg reg' r body cs)"
  unfolding handleResponses_def
  by (auto intro: stores_own_error stores_own_respond split: decoded.split sum.split)

lemma session_principal:
  "ownerFromPrincipal (hr_principal (session_request w sd)) =
     \<lparr>ow_iss = [], ow_sub = sd_user_id sd, ow_tenant = []\<rparr>"
  by (simp add: session_request_def ownerFromPrincipal_def PrincipalFromClaims_def session_claims_def
      claim_string_def getTenantID_def tenant_keys_def jget_str_def jget_def)

lemma find_row_distinct:
  "distinct (map cr_id rows) \<Longrightarrow> row \<in> set rows \<Longrightarrow> find_row rows (cr_id row) = Some row"
  by (induction rows) (auto simp: image_iff)

text \<open>A conversation of the playground disappears from its author's list. What a session that is no
  admin's stores through the responses endpoint of the admin plane is owned by an empty issuer and
  the user id, while the conversation endpoints compare with the issuer and subject of the OIDC
  login. So the same session can read the response back, but opening the conversation answers 404,
  deleting it answers 404 and changes nothing, and no page of its list shows it.\<close>
theorem playground_conversation_lost:
  assumes "sql_inv cs" and "sql_Get cs (generateID (ge_uuid env) 0 ''resp_'') = Inr None"
    and "handleResponses (sql_ops like) s env mord pord reg reg' (session_request w sd) body cs = (resp, cs', eff)"
    and "cs' \<noteq> cs" and "\<not> sd_is_admin sd" and "sd_owner_iss sd \<noteq> []"
    and "HandleListConversations (sql_ops like) cs' (session_request w' sd) = reply 200 (ConvList page n pg limit)"
  shows "rs_status (handleGetResponse (sql_ops like) s env' (session_request w' sd)
            (generateID (ge_uuid env) 0 ''resp_'') cs') = 200 \<and>
    HandleGetConversation (sql_ops like) cs' (session_request w' sd) (generateID (ge_uuid env) 0 ''resp_'')
      = reply 404 (ConvError ''Conversation not found'') \<and>
    HandleDeleteConversation (sql_ops like) cs' (session_request w' sd) (generateID (ge_uuid env) 0 ''resp_'')
      = (reply 404 (ConvError ''Conversation not found''), cs') \<and>
    generateID (ge_uuid env) 0 ''resp_'' \<notin> cs_id ` set page"
proof -
  let ?rid = "generateID (ge_uuid env) 0 ''resp_''" and ?r = "session_request w' sd"
  have get0: "so_get (sql_ops like) cs ?rid = Inr None" using assms(2) by (simp add: sql_ops_def)
  from handleResponses_stores_own [of "sql_ops like" env "session_request w sd" cs s mord pord reg reg' body]
    assms(3,4) obtain pn model req sm result items where
    cs': "cs' = store_result (sql_ops like) env (hr_principal (session_request w sd)) pn ?rid model req sm result items cs"
    by (auto simp: stores_own_def)
  obtain c where c: "so_get (sql_ops like) cs' ?rid = Inr (Some c)" "owned_by (hr_principal (session_request w sd)) c"
    using sqlst.store_result_get [OF assms(1) get0] unfolding cs' by blast
  have inv: "sql_inv cs'" unfolding cs' by (rule sqlst.store_result_inv [OF assms(1)])
  from c(2) have iss: "cv_owner_iss c = []" by (simp add: owned_by_def session_principal)
  from c(2) have "owned_by (hr_principal ?r) c" by (simp add: owned_by_def session_principal)
  then have "may_access s (hr_principal ?r) c" by (rule owned_may_access)
  moreover have d: "canAccess ?r c = Some (reply 404 (ConvError ''Conversation not found''))"
    using assms(5,6) iss by (simp add: canAccess_def ctx_is_admin_def session_request_def)
  moreover have "?rid \<notin> cs_id ` set page"
  proof
    assume "?rid \<in> cs_id ` set page"
    moreover have "\<not> ctx_is_admin ?r" using assms(5) by (simp add: ctx_is_admin_def session_request_def)
    ultimately obtain row where row: "row \<in> set (ss_rows cs')" "cr_id row = ?rid"
      "hr_owner_iss ?r = Some (CtxStr (cr_owner_iss row))"
      using listed_rows_owned [OF _ assms(7)] by fastforce
    from find_row_distinct [OF _ row(1)] inv row(2) have "find_row (ss_rows cs') ?rid = Some row"
      by (simp add: sql_inv_def)
    with c(1) have "cv_owner_iss c = cr_owner_iss row"
      by (auto simp: sql_ops_def sql_Get_def row_conversation_def split: sum.splits if_splits)
    with row(3) iss assms(6) show False by (simp add: session_request_def)
  qed
  ultimately show ?thesis
    using c(1) by (simp add: handleGetResponse_def HandleGetConversation_def HandleDeleteConversation_def Let_def)
qed

text \<open>A stored turn of a session, for the witness.\<close>

definition sample_turn :: response_request where
  "sample_turn = sample_stream_request\<lparr>rq_stream := False\<rparr>"

definition sample_turn_store :: sql_store where
  "sample_turn_store = fst (snd (handleResponses (sql_ops (=)) sample_gateway sample_env id id
     sample_provider_registry sample_provider_registry
     (session_request (zero_wire\<lparr>w_method := ''POST''\<rparr>) sample_session) (BodyOk sample_turn) sample_store))"

lemma sample_turn_handled:
  "\<exists>resp eff. handleResponses (sql_ops (=)) sample_gateway sample_env id id
     sample_provider_registry sample_provider_registry
     (session_request (zero_wire\<lparr>w_method := ''POST''\<rparr>) sample_session) (BodyOk sample_turn) sample_store
   = (resp, sample_turn_store, eff)"
  unfolding sample_turn_store_def by (metis fst_conv prod_cases3 snd_conv)

lemma sample_turn_stored: "sample_turn_store \<noteq> sample_store" "sql_inv sample_turn_store"
proof -
  let ?r = "session_request (zero_wire\<lparr>w_method := ''POST''\<rparr>) sample_session"
  let ?res = "\<lparr>pr_id = ''x'', pr_model = ''m'', pr_text = ''ab'', pr_usage = zero_usage,
         pr_tool_calls = [\<lparr>tc_id = ''c1'', tc_name = ''f'', tc_arguments = ''{}''\<rparr>],
         pr_replay_message = None\<rparr>"
  have v: "Validate id (Some sample_turn) = None" by code_simp
  have o: "over_output_limit sample_gateway sample_turn = None" by code_simp
  have p: "resolveProvider id sample_provider_registry sample_turn = Inr sample_provider"
    by (simp add: resolveProvider_def Default_def Get_def sample_provider_registry_def sample_turn_def
        sample_stream_request_def zero_request_def)
  have t: "validateToolCalls (Some sample_turn) (pr_tool_calls ?res) = None" by code_simp
  have st: "shouldStore sample_gateway sample_turn" by code_simp
  have f: "\<not> rq_stream sample_turn" "rq_previous_response_id sample_turn = None" by code_simp+
  obtain ms refs where n: "NormalizeInput sample_turn = (ms, refs)" by fastforce
  obtain pm sm rr where r: "respond (sql_ops (=)) sample_gateway sample_env id id sample_provider_registry
      sample_provider_registry (hr_principal ?r) sample_turn None sample_store
    = handleSyncResponse (sql_ops (=)) sample_gateway sample_env (hr_principal ?r) sample_provider pm rr
        sample_turn sm sample_store"
    using v o p f(1) n by (simp add: respond_def Let_def del: Validate.simps)
  have gen: "pv_generate sample_provider pm rr = Inr ?res" by (simp add: sample_provider_def)
  have m: "hr_method ?r = ''POST''" by (simp add: session_request_def plain_request_def)
  obtain items where s: "sample_turn_store = store_result (sql_ops (=)) sample_env (hr_principal ?r) ''openai''
      (generateID (ge_uuid sample_env) 0 ''resp_'') ''m'' sample_turn sm ?res items sample_store"
    using m f(2) r gen t st
    by (simp add: sample_turn_store_def handleResponses_def load_previous_def nonempty_ptr_def
        handleSyncResponse_def Let_def sample_provider_def del: validateToolCalls.simps)
  have g: "so_get (sql_ops (=)) sample_store (generateID (ge_uuid sample_env) 0 ''resp_'') = Inr None"
    by (simp add: sql_ops_def sql_Get_def sample_store_def)
  from sqlst.store_result_get [OF sample_store_inv g] s g show "sample_turn_store \<noteq> sample_store"
    by (metis option.distinct(1) sum.inject(2))
  show "sql_inv sample_turn_store" unfolding s by (rule sqlst.store_result_inv [OF sample_store_inv])
qed

theorem playground_conversation_lost_witness:
  "HandleGetConversation (sql_ops (=)) sample_turn_store (session_request zero_wire sample_session)
     (generateID (ge_uuid sample_env) 0 ''resp_'') = reply 404 (ConvError ''Conversation not found'')"
proof -
  let ?r = "session_request zero_wire sample_session"
  obtain resp eff where h: "handleResponses (sql_ops (=)) sample_gateway sample_env id id
      sample_provider_registry sample_provider_registry
      (session_request (zero_wire\<lparr>w_method := ''POST''\<rparr>) sample_session) (BodyOk sample_turn) sample_store
    = (resp, sample_turn_store, eff)" using sample_turn_handled by blast
  have g: "sql_Get sample_store (generateID (ge_uuid sample_env) 0 ''resp_'') = Inr None"
    by (simp add: sql_Get_def sample_store_def)
  let ?opts = "(list_request_options ?r)\<lparr>lo_owner_iss := ''iss'', lo_owner_sub := ''alice''\<rparr>"
  have "0 \<le> page_offset ?opts" by code_simp
  from sql_List_inv [OF sample_turn_stored(2) this, of "(=)"] obtain cs n where
    "sql_List (=) sample_turn_store ?opts = Inr \<lparr>lr_conversations = cs, lr_total = n\<rparr>" by blast
  then have l: "HandleListConversations (sql_ops (=)) sample_turn_store ?r =
      reply 200 (ConvList (map conversation_summary cs) n (lo_page ?opts) (lo_limit ?opts))"
    by (simp add: HandleListConversations_def session_request_def plain_request_def zero_wire_def
        ctx_is_admin_def sample_session_def getOwner_def ctx_string_def run_list_def sql_ops_def
        list_request_options_def query_get_def)
  from playground_conversation_lost [OF sample_store_inv g h sample_turn_stored(1) _ _ l]
  show ?thesis by (simp add: sample_session_def)
qed

subsection \<open>What a session may do\<close>

text \<open>Endpoints of the admin plane, with their paths.\<close>

definition plane_endpoints :: "(string \<times> endpoint_name) list" where
  "plane_endpoints =
     [(''/api/v1/providers'', EpProviders), (''/api/v1/config'', EpConfig),
      (''/api/v1/config/models'', EpConfigModels), (''/api/v1/responses'', EpResponses)]"

lemma root_falls_to_admin:
  assumes "gp_admin g \<noteq> None" and "gp_metrics g \<noteq> Some path" and "\<not> has_suffix path ''/''"
    and "has_prefix path ''/''" and "\<not> has_prefix path ''/v1/''"
    and "path \<notin> {''/health'', ''/ready'', ''/v1'', ''/api/auth/session'', ''/api/auth/token-login'',
      ''/api/auth/logout'', ''/api/auth/debug/claims'', ''/api/auth/oidc/login'', ''/api/auth/callback''}"
  shows "serve_mux (root_routes g) path = MuxServe TAdmin []"
proof -
  from assms(6) have "path @ ''/'' \<noteq> ''/v1'' @ ''/''" by (metis append_same_eq insertCI)
  moreover have "path \<noteq> []" using assms(4) by (auto simp: has_prefix_def)
  ultimately show ?thesis
    using assms
    by (cases "gp_metrics g"; cases "gp_sessions g")
       (simp_all add: root_routes_def buildRouteMux_def auth_routes_def serve_mux_def wild_match_def longer_def)
qed

lemma map_of_append_first:
  "map_of (xs @ ys) k = (case map_of xs k of Some v \<Rightarrow> Some v | None \<Rightarrow> map_of ys k)"
  by (induction xs) auto

lemma plane_endpoints_cases:
  assumes "(path, ep) \<in> set plane_endpoints"
  shows "path = ''/api/v1/providers'' \<and> ep = EpProviders \<or> path = ''/api/v1/config'' \<and> ep = EpConfig \<or>
    path = ''/api/v1/config/models'' \<and> ep = EpConfigModels \<or> path = ''/api/v1/responses'' \<and> ep = EpResponses"
  using assms by (simp add: plane_endpoints_def)

lemma root_reaches_admin:
  assumes "(path, ep) \<in> set plane_endpoints" and "gp_admin g \<noteq> None" and "gp_metrics g \<noteq> Some path"
  shows "serve_mux (root_routes g) path = MuxServe TAdmin []"
  using plane_endpoints_cases [OF assms(1)]
  by (intro root_falls_to_admin [OF assms(2,3)]) (elim disjE; simp add: has_suffix_def has_prefix_def)+

lemma admin_serves:
  assumes "(path, ep) \<in> set plane_endpoints"
  shows "serve_mux (admin_routes g) path = MuxServe ep []"
proof -
  have "map_of (admin_routes g) (Exact path) = Some ep"
    using plane_endpoints_cases [OF assms]
    unfolding admin_routes_def map_of_append_first ui_routes_def by (elim disjE) simp_all
  moreover have "\<not> has_suffix path ''/''"
    using plane_endpoints_cases [OF assms] by (elim disjE) (simp_all add: has_suffix_def)
  ultimately show ?thesis by (simp add: serve_mux_def)
qed

lemma plane_not_public: "(path, ep) \<in> set plane_endpoints \<Longrightarrow> \<not> public_path path"
  by (drule plane_endpoints_cases) (elim disjE; simp add: public_path_def has_prefix_def)

text \<open>Every session may edit the configuration, without limit. With the OIDC login on, the provider,
  model and configuration endpoints and the responses endpoint of the admin plane run for any live
  session from an allowed address, an admin's or not, and without the rate limiter, even when one
  is configured; a provider that a session posts is saved as it would be for an admin.\<close>
theorem any_session_edits_configuration:
  assumes "gp_sessions g \<noteq> None" and "gp_admin g \<noteq> None" and "gp_metrics g \<noteq> Some (w_path r)"
    and "(w_path r, ep) \<in> set plane_endpoints"
    and "w_cookie r OIDCSessionCookieName = Some k"
    and "session_Get (ae_sess env) (as_sessions s) now now k = (Some sd, ss')"
  shows "serve_gateway g env True now r s =
      (DoorEndpoint TAdmin ep [] (session_request r sd) False, s\<lparr>as_sessions := ss'\<rparr>) \<and>
    (w_method r = ''POST'' \<longrightarrow> handleProviders lib ord ui rnd (session_request r sd) body db =
       createProvider lib ui rnd body db)"
proof -
  have gate: "SessionMiddleware (ae_sess env) now r (as_sessions s) = (GatePass (session_request r sd), ss')"
    using plane_not_public [OF assms(4)] assms(5,6) by (simp add: SessionMiddleware_def getSession_def)
  have "serve_gateway g env True now r s =
      (DoorEndpoint TAdmin ep [] (session_request r sd) False, s\<lparr>as_sessions := ss'\<rparr>)"
    using assms(1) root_reaches_admin [OF assms(4,2,3)] admin_serves [OF assms(4), of g] gate
    by (simp add: serve_gateway_def serve_admin_def admin_handler_def at_endpoint_def)
  then show ?thesis by (simp add: handleProviders_def session_request_def plain_request_def)
qed

definition session_plan :: "(nat, provider) gateway_plan" where
  "session_plan = door_plan\<lparr>gp_sessions := Some (100, False), gp_admin := Some [],
     gp_rate_limit := Some \<lparr>rc_enabled = True, rc_requests_per_second = 1, rc_burst = 1,
       rc_max_concurrent_requests = 0, rc_daily_token_quota = 0\<rparr>\<rparr>"

definition live_session_state :: "mem_sessions auth_state" where
  "live_session_state = \<lparr>as_keys = sample_cache 5,
     as_sessions = snd (session_Create mem_ops (NewSessionStore 100 (Some NewMemorySessionBackend)) 5 6
       (Some ''abc'') (Some sample_session))\<rparr>"

theorem any_session_edits_configuration_witness:
  "\<exists>sd s'. serve_gateway session_plan sample_auth_env True 7
     (zero_wire\<lparr>w_method := ''POST'', w_path := ''/api/v1/providers'', w_cookies := [(''session'', ''YWJj'')]\<rparr>)
     live_session_state = (DoorEndpoint TAdmin EpProviders []
       (session_request (zero_wire\<lparr>w_method := ''POST'', w_path := ''/api/v1/providers'',
          w_cookies := [(''session'', ''YWJj'')]\<rparr>) sd) False, s') \<and> \<not> sd_is_admin sd"
proof -
  let ?r = "zero_wire\<lparr>w_method := ''POST'', w_path := ''/api/v1/providers'', w_cookies := [(''session'', ''YWJj'')]\<rparr>"
  have c: "w_cookie ?r OIDCSessionCookieName = Some ''YWJj''"
    by (simp add: w_cookie_def OIDCSessionCookieName_def)
  have e: "url_encode ''abc'' = ''YWJj''" by code_simp
  have "\<exists>sd ss'. session_Get (ae_sess sample_auth_env) (as_sessions live_session_state) 7 7 ''YWJj''
      = (Some sd, ss') \<and> \<not> sd_is_admin sd"
    by (simp add: live_session_state_def sample_auth_env_def session_Create_def generateSessionID_def e
        NewSessionStore_def mem_ops_def mem_Create_def mem_Get_def NewMemorySessionBackend_def
        stored_session_def session_Get_def sample_session_def)
  then obtain sd ss' where g: "session_Get (ae_sess sample_auth_env) (as_sessions live_session_state) 7 7 ''YWJj''
      = (Some sd, ss')" "\<not> sd_is_admin sd" by blast
  have p: "gp_sessions session_plan \<noteq> None" "gp_admin session_plan \<noteq> None"
    "gp_metrics session_plan \<noteq> Some (w_path ?r)" "(w_path ?r, EpProviders) \<in> set plane_endpoints"
    by (simp_all add: session_plan_def door_plan_def plane_endpoints_def)
  from any_session_edits_configuration [OF p c g(1)] g(2) show ?thesis by blast
qed

end
