(* ===== verification/Spec2Isabelle.thy ===== *)
theory Spec2Isabelle
  imports ObservabilityProps MigrationsProps MiddlewareProps StaticPages Lifecycle AnthropicProps VendorProps VendorTurns Vendors ApiProps ConversationApi ProvidersProps GatewayProps ChannelsProps RateLimitProps UsersProps
    ApiKeyProps AccessProps LoginProps UsageProps ConfigStoreProps ReloadProps WiringProps AdminPlaneProps
begin

text \<open>
  A model of latticelm, a gateway that serves the Open Responses API
  (\<open>POST /v1/responses\<close> and the endpoints around it) in front of several LLM vendors.

  \<^bold>\<open>How a request runs.\<close> The rate limiter (\<open>internal/ratelimit\<close>) admits it. The handler
  (\<open>internal/server/server.go\<close>) loads the conversation named by \<open>previous_response_id\<close>, checks
  that the caller owns it (\<open>internal/auth/principal.go\<close>), inherits the context of that turn,
  validates the request, turns its input into messages (\<open>internal/api/types.go\<close>), picks a provider
  (\<open>internal/providers\<close>), puts history and instructions in front and calls it, synchronously or
  as a stream of deltas through the goroutines of the circuit breaker. What the model answers
  is checked against the tool policy of the request, returned as output items, and stored as a
  new conversation (\<open>internal/conversation\<close>) if the storage policy allows. Users
  (\<open>internal/users\<close>) are provisioned at login and managed by administrators.

  \<^bold>\<open>Theories and sources.\<close>
  \<^item> \<open>Prelude\<close>: results of functions that return a value and an error, the string functions of
    the standard library, maps as association lists, the supply of uuids. \<open>Json\<close>: decoded JSON
    and \<open>json.RawMessage\<close>. \<open>Http\<close>: requests, responses, \<open>int64\<close> with its wrap-around,
    \<open>strconv.Atoi\<close>.
  \<^item> \<open>ApiTypes\<close>, \<open>Normalize\<close>: \<open>internal/api/types.go\<close> (\<open>Validate\<close>, \<open>ParseToolChoice\<close>,
    \<open>DeclaredToolNames\<close>; \<open>NormalizeInput\<close>, \<open>InheritMissingContext\<close>). \<open>ApiProps\<close>: exactly which
    requests are valid, the shapes of a tool choice, that normalising keeps every function call
    and merges parallel ones, what a turn inherits.
  \<^item> \<open>Principal\<close>: \<open>principal.go\<close> and the admin check of \<open>auth.go\<close>, with where the two agree.
  \<^item> \<open>Conversation\<close>, \<open>ConversationStore\<close>, \<open>ConversationApi\<close>: the \<open>Store\<close> interface as a record of
    operations, the SQL store on a list of rows and the no-op store, both shown to satisfy the
    contract \<open>conv_store\<close> (the SQL store also \<open>persistent_store\<close>); read-back, pages, expiry; the
    endpoints' access control.
  \<^item> \<open>Config\<close>, \<open>Providers\<close>, \<open>ProvidersProps\<close>: \<open>Config.Validate\<close>, \<open>NewRegistry\<close>, model lookup and the
    circuit breaker; a validated configuration builds and serves each model it lists, whatever
    order Go gives its map iteration (contract \<open>provider_registry\<close>).
  \<^item> \<open>Responses\<close>: the pure functions of \<open>server.go\<close> (tool policy, output items, replay state).
    \<open>Stream\<close>: \<open>handleStreamingResponse\<close> as a state machine over what its \<open>select\<close> yields; the state
    holds the local variables and the events written. \<open>StreamFacts\<close> relates that state to the list of
    deltas consumed (\<open>stream_sim\<close>) and to the events sent (\<open>seq_inv\<close>, \<open>items_inv\<close>); \<open>StreamProps\<close>
    derives the event protocol, \<open>StreamPolicy\<close> that streaming accepts exactly the answers
    the synchronous path accepts and completes with the merge of the deltas.
  \<^item> \<open>Gateway\<close>, \<open>GatewayProps\<close>: all handlers of \<open>server.go\<close> and \<open>health.go\<close>; ownership, storage
    policy, history, replay and read-back of stored responses.
  \<^item> \<open>Channels\<close>: the goroutines between provider and handler as interleaved steps. Behind the
    circuit breaker every schedule gives the handler the same deltas and outcome; behind
    \<open>InstrumentedProvider\<close> an error can be lost.
  \<^item> \<open>RateLimit\<close>, \<open>RateLimitProps\<close>: the keys, the Redis scripts, the middleware as steps of
    overlapping requests; the token bucket's bound, the balance of slots through the contract
    \<open>slot_backend\<close>, what the expiry of a counter does.
  \<^item> \<open>Users\<close>, \<open>UsersProps\<close>: the user table, its store and endpoints, and the provisioning step of
    the OIDC callback; a login cannot escalate, which changes keep an administrator.

  \<^item> \<open>Encoding\<close>: base64 in its two alphabets, with round trips. \<open>Sessions\<close>: the session store with its
    two backends, which satisfy the contract \<open>session_backing\<close>. \<open>Auth\<close>, \<open>AuthProps\<close>, \<open>AccessProps\<close>: the key
    cache and token validation of \<open>auth.go\<close> and the chain of authenticators; every identity is backed by
    a credential. \<open>Oidc\<close>, \<open>LoginProps\<close>: the browser login, its callback, logout, the session middleware
    and \<open>http_api.go\<close>.
  \<^item> \<open>ApiKeys\<close>, \<open>ApiKeyProps\<close>: keys, their table and endpoints; life cycle, isolation of owners, the
    limit. \<open>Usage\<close>, \<open>UsageProps\<close>: the event buffer, the flush loop as steps, the queries; no event is
    lost or counted twice unless a write fails.
  \<^item> \<open>ConfigSources\<close>: environment variables and the configuration file (\<open>env.go\<close>, \<open>file.go\<close>).
    \<open>ConfigStore\<close>, \<open>ConfigStoreProps\<close>: the encrypted tables of providers and models (\<open>store.go\<close>); any
    sequence of operations refines two maps (contract \<open>keyed_table\<close>). \<open>AdminUi\<close>: the handlers of
    \<open>internal/ui\<close>. \<open>Wiring\<close>: \<open>cmd/gateway/main.go\<close>, from the configuration to the routes and middlewares
    in front of them. \<open>WiringProps\<close>: who reaches an endpoint. \<open>ReloadProps\<close>: how an edit reaches the
    requests, or does not. \<open>AdminPlaneProps\<close>: what a session may do and see.

  \<^item> \<open>JsonText\<close>, \<open>JsonTextProps\<close>: \<open>json.Marshal\<close> and \<open>json.Unmarshal\<close> on text, where the gateway applies
    them to the arguments of a call, and their round trip. \<open>Vendor\<close>, \<open>OpenAi\<close>, \<open>Anthropic\<close>, \<open>Google\<close>:
    the packages under \<open>internal/providers\<close>, each with the conversion of messages and tools to the
    vendor's format, of answers and stream chunks back, and the two calls. \<open>Vendors\<close>: from an entry
    of the registry to the provider behind it. \<open>AnthropicProps\<close>: the deltas of a stream merge to the
    synchronous answer. \<open>VendorProps\<close>, \<open>VendorTurns\<close>: what is sent is well-formed, calls and results
    stay paired, the gateway's own turns can be sent again to any vendor, and where data is lost.
  \<^item> \<open>Observability\<close>, \<open>ObservabilityProps\<close>: the metrics, the store, the registry and the providers that
    record what passes through them (\<open>internal/observability\<close>); instrumenting changes no answer, the
    gauge of active conversations drifts, lookups of overlapping requests stay exact only while
    vendor names differ.
  \<^item> \<open>Middleware\<close>, \<open>MiddlewareProps\<close>: the response writers wrapped around each other by panic
    recovery, access log, tracing and HTTP metrics, and the limit on bodies; what is reported of a
    response is what the client got, except after a panic.
  \<^item> \<open>Migrations\<close>, \<open>MigrationsProps\<close>: the five \<open>migrate.go\<close>, run by any number of replicas with every
    database call failing at will; a migration is applied once and an interrupted run resumes.
  \<^item> \<open>StaticPages\<close>: \<open>serveSPA\<close>. \<open>Lifecycle\<close>: the logger and tracer \<open>main\<close> sets up, and what it shuts
    down in which order, and so which recorded usage a stop leaves behind.

  \<^bold>\<open>Conventions.\<close> A pointer that may be nil is an option, a returned error the left side of a sum
  or an option, a Go map an association list whose order the code must not depend on, a \<open>time\<close>
  a number, a float a rational. Go's \<open>int\<close> is \<open>int\<close> with \<open>wrap64\<close> where it can leave its range.
  Every loop is structural recursion or has its measure, so every operation is total. Fuel is
  used once: the JSON parser of \<open>JsonText\<close> gets \<open>2 * length text + 2\<close>, and by
  \<open>json_decode_any_fuel\<close> more would change nothing. The streaming loop runs over the list of what
  \<open>select\<close> yields, and where that list ends the handler is still waiting (\<open>exit_of\<close> says how a run
  left the loop).

  \<^bold>\<open>Parameters.\<close> The uuids that \<open>uuid.New\<close> gives (a function from a counter), the database's pattern match
  and ordering and what it makes of the text of a migration, the order in which a Go map is
  iterated, the clients of the vendors' SDKs, the circuit breaker of \<open>sony/gobreaker\<close> (\<open>Allow\<close> and
  \<open>done\<close>), the clock, the choice of \<open>select\<close>, the JWT library, the identity provider's answers,
  SHA-256, random bytes, the Redis commands, AES-GCM and the JSON codec of a provider entry,
  YAML, \<open>strconv.ParseFloat\<close> and the printing of floats, \<open>net/url\<close> and \<open>net.ParseIP\<close>, the exporters of
  OpenTelemetry, the directory of embedded pages. Hypotheses on them are the documented ones:
  uuids are fresh, orderings permute, a signature verifies only under its key (\<open>jwt_lawful\<close>),
  \<open>Open\<close> inverts \<open>Seal\<close> (\<open>config_lawful\<close>).

  \<^bold>\<open>Not modelled.\<close> TLS and the timeouts of the HTTP server, which end a connection from outside the
  handlers; durations and the formatting of log lines; propagation of a trace context. Context
  values are fields of the request. Bodies of requests and responses are modelled decoded, since
  \<open>encoding/json\<close> reads and writes them; response headers other than cookies are left out where a
  handler answers. Stores and exporters made for tests are no part of the program.
\<close>

end
